(* ===== verification/PyFloat.thy ===== *)
theory PyFloat
  imports Complex_Main "HOL-Library.Log_Nat"
begin

text \<open>
  IEEE 754 binary64 values as Python's \<open>float\<close> has them: a finite double is the rational number
  it denotes, beside the two infinities and NaN (the sign of zero, which no comparison of the
  modelled code can see, is dropped).  Arithmetic is exact rational arithmetic followed by
  \<open>rnd\<close>, rounding to nearest with ties to even at 53 bits, with gradual underflow
  and overflow to infinity, so that \<open>1.10\<close>, \<open>a / b\<close> and \<open>(a + b) / 2\<close> have the values the
  interpreter computes.  The laws the component proofs need (monotone, odd, idempotent,
  exact on representable numbers) are stated once, as the locale \<open>rounding\<close>.
\<close>

named_theorems float_simps

section \<open>Rounding to nearest, ties to even\<close>

definition round_even :: "rat \<Rightarrow> int" where
  "round_even x = (let f = \<lfloor>x\<rfloor>; r = x - of_int f in
     if r < 1 / 2 then f else if 1 / 2 < r then f + 1 else if even f then f else f + 1)"

definition ilog2 :: "rat \<Rightarrow> int" where
  "ilog2 x = (let nd = quotient_of x; k = bitlen (fst nd) - bitlen (snd nd)
     in if 2 powi k \<le> x then k else k - 1)"

definition quantum :: "rat \<Rightarrow> rat" where
  "quantum x = 2 powi (max (ilog2 \<bar>x\<bar> - 52) (- 1074))"

definition rnd_rat :: "rat \<Rightarrow> rat" where
  "rnd_rat x = (if x = 0 then 0 else of_int (round_even (x / quantum x)) * quantum x)"

lemma round_even_bounds: "\<lfloor>x\<rfloor> \<le> round_even x" "round_even x \<le> \<lfloor>x\<rfloor> + 1"
  by (auto simp: round_even_def Let_def)

lemma round_even_of_int [simp]: "round_even (of_int n) = n"
  by (simp add: round_even_def)

lemma round_even_mono:
  assumes "x \<le> y" shows "round_even x \<le> round_even y"
proof (cases "\<lfloor>x\<rfloor> = \<lfloor>y\<rfloor>")
  case True
  with assms show ?thesis by (auto simp: round_even_def Let_def)
next
  case False
  with floor_mono [OF assms] have "\<lfloor>x\<rfloor> + 1 \<le> \<lfloor>y\<rfloor>" by simp
  then show ?thesis using round_even_bounds [of x] round_even_bounds [of y] by linarith
qed

lemma round_even_minus: "round_even (- x) = - round_even x"
proof (cases "x = of_int \<lfloor>x\<rfloor>")
  case True
  then have "- x = of_int (- \<lfloor>x\<rfloor>)" by simp
  then show ?thesis using True by (metis round_even_of_int)
next
  case False
  have lt: "of_int \<lfloor>x\<rfloor> < x" using False of_int_floor_le [of x] by linarith
  have f: "\<lfloor>- x\<rfloor> = - \<lfloor>x\<rfloor> - 1"
    using lt by (simp add: floor_eq_iff) linarith
  show ?thesis unfolding round_even_def Let_def f by auto
qed

section \<open>The binary exponent of a positive rational\<close>

lemma pow_mono: "a \<le> b \<Longrightarrow> (2::rat) powi a \<le> 2 powi b"
  by (rule power_int_increasing) auto

lemma pow_smono: "a < b \<Longrightarrow> (2::rat) powi a < 2 powi b"
  by (rule power_int_strict_increasing) auto

lemma pow_less_D: "(2::rat) powi a < 2 powi b \<Longrightarrow> a < b"
  using pow_mono [of b a] by (cases "a < b") auto

lemma pow_pos [simp]: "0 < (2::rat) powi a"
  by (rule zero_less_power_int) simp

lemma pow_add: "(2::rat) powi (a + b) = 2 powi a * 2 powi b"
  by (simp add: power_int_add)

lemma pow_int: "0 \<le> a \<Longrightarrow> (2::rat) powi a = of_int (2 ^ nat a)"
  by (simp add: power_int_nonneg_exp)

lemma bitlen_rat:
  assumes "0 < n"
  shows "2 powi (bitlen n - 1) \<le> (of_int n :: rat)" "(of_int n :: rat) < 2 powi (bitlen n)"
proof -
  have b: "2 ^ nat (bitlen n - 1) \<le> n" "n < 2 ^ nat (bitlen n)" using bitlen_bounds assms by auto
  have p: "0 \<le> bitlen n - 1" "0 \<le> bitlen n"
    using assms bitlen_nonneg [of n] bitlen_eq_zero_iff [of n] by auto
  show "2 powi (bitlen n - 1) \<le> (of_int n :: rat)"
    unfolding pow_int [OF p(1)] using b(1) by (simp only: of_int_le_iff)
  show "(of_int n :: rat) < 2 powi (bitlen n)"
    unfolding pow_int [OF p(2)] using b(2) by (simp only: of_int_less_iff)
qed

lemma ilog2_bounds:
  assumes "0 < x"
  shows "2 powi (ilog2 x) \<le> x" "x < 2 powi (ilog2 x + 1)"
proof -
  obtain n d where nd: "quotient_of x = (n, d)" by (cases "quotient_of x")
  have d: "0 < d" using quotient_of_denom_pos [OF nd] .
  have x: "x = of_int n / of_int d" using quotient_of_div [OF nd] .
  have n: "0 < n" using assms d x by (simp add: zero_less_divide_iff)
  define k where "k = bitlen n - bitlen d"
  note N = bitlen_rat [OF n] and D = bitlen_rat [OF d]
  have dp: "(0::rat) < of_int d" using d by simp
  have eqn: "2 powi (bitlen n) = 2 powi (k + 1) * (2::rat) powi (bitlen d - 1)"
    unfolding k_def by (simp flip: pow_add)
  have "x * of_int d = of_int n" using dp x by simp
  also have "\<dots> < 2 powi (k + 1) * 2 powi (bitlen d - 1)" using N(2) eqn by simp
  also have "\<dots> \<le> 2 powi (k + 1) * of_int d"
    using D(1) by (intro mult_left_mono) (auto simp: less_imp_le)
  finally have up: "x < 2 powi (k + 1)" using dp by simp
  have "2 powi (k - 1) * (of_int d :: rat) \<le> 2 powi (k - 1) * 2 powi (bitlen d)"
    using D(2) by (intro mult_left_mono) (auto simp: less_imp_le)
  also have "\<dots> = 2 powi (bitlen n - 1)" unfolding k_def by (simp flip: pow_add)
  also have "\<dots> \<le> x * of_int d" using N(1) x dp by simp
  finally have lo: "2 powi (k - 1) \<le> x" using dp by simp
  have il: "ilog2 x = (if 2 powi k \<le> x then k else k - 1)"
    by (simp add: ilog2_def nd k_def Let_def)
  show "2 powi (ilog2 x) \<le> x" using lo il by auto
  show "x < 2 powi (ilog2 x + 1)" using up il by auto
qed

lemma ilog2_unique:
  assumes "2 powi k \<le> x" "x < 2 powi (k + 1)" shows "ilog2 x = k"
proof -
  have "0 < x" using assms(1) pow_pos [of k] by linarith
  note b = ilog2_bounds [OF this]
  have "k < ilog2 x + 1" using pow_less_D assms(1) b(2) by (meson le_less_trans)
  moreover have "ilog2 x < k + 1" using pow_less_D assms(2) b(1) by (meson le_less_trans)
  ultimately show ?thesis by simp
qed

lemma ilog2_mono: "0 < x \<Longrightarrow> x \<le> y \<Longrightarrow> ilog2 x \<le> ilog2 y"
  using ilog2_bounds [of x] ilog2_bounds [of y] pow_less_D [of "ilog2 x" "ilog2 y + 1"] by linarith


section \<open>Rounding is odd, monotone, idempotent and exact on short significands\<close>

lemma quantum_pos [simp]: "0 < quantum x"
  by (simp add: quantum_def)

lemma quantum_minus [simp]: "quantum (- x) = quantum x"
  by (simp add: quantum_def)

lemma quantum_abs [simp]: "\<bar>quantum x\<bar> = quantum x"
  using quantum_pos [of x] by linarith

lemma rnd_rat_0 [simp]: "rnd_rat 0 = 0"
  by (simp add: rnd_rat_def)

lemma rnd_rat_minus [simp]: "rnd_rat (- x) = - rnd_rat x"
  by (simp add: rnd_rat_def round_even_minus)

lemma rnd_rat_exact:
  assumes "x = of_int m * quantum x" shows "rnd_rat x = x"
proof (cases "x = 0")
  case False
  have "x / quantum x = of_int m"
    using assms quantum_pos [of x] by (metis less_irrefl nonzero_mult_div_cancel_right)
  then show ?thesis using False assms by (simp add: rnd_rat_def)
qed simp

text \<open>A number with at most 53 significant bits and an exponent in range is a double.\<close>

lemma rnd_rat_short:
  assumes m: "\<bar>m\<bar> \<le> 2 ^ 53" and e: "- 1074 \<le> e" and x: "x = of_int m * 2 powi e"
  shows "rnd_rat x = x"
proof (cases "m = 0")
  case False
  have ax: "\<bar>x\<bar> = of_int \<bar>m\<bar> * 2 powi e" by (simp add: x abs_mult)
  have pos: "0 < \<bar>x\<bar>" using False by (simp add: x)
  define j where "j = max (ilog2 \<bar>x\<bar> - 52) (- 1074)"
  have "\<exists>k::int. x = of_int k * 2 powi j"
  proof (cases "\<bar>m\<bar> = 2 ^ 53")
    case True
    have "\<bar>x\<bar> = 2 powi (53 + e)" by (simp add: ax True pow_add)
    then have "ilog2 \<bar>x\<bar> = 53 + e" by (intro ilog2_unique) (auto simp: pow_smono)
    then have j: "j = e + 1" using e by (simp add: j_def)
    have "m = (sgn m * 2 ^ 52) * 2" using True sgn_mult_abs [of m] by simp
    then have "(of_int m :: rat) = of_int (sgn m * 2 ^ 52) * 2" by (metis of_int_mult of_int_numeral)
    then have "x = of_int (sgn m * 2 ^ 52) * 2 powi j" by (simp add: x j pow_add)
    then show ?thesis by blast
  next
    case ne: False
    then have "\<bar>m\<bar> < 2 ^ 53" using m by linarith
    then have "(of_int \<bar>m\<bar> :: rat) < of_int (2 ^ 53)" by (simp only: of_int_less_iff)
    then have "\<bar>x\<bar> < 2 powi (53 + e)" unfolding ax pow_add by (intro mult_strict_right_mono) auto
    with ilog2_bounds(1) [OF pos] have "ilog2 \<bar>x\<bar> < 53 + e" by (meson le_less_trans pow_less_D)
    then have je: "j \<le> e" using e by (simp add: j_def)
    have "2 powi e = 2 powi (e - j) * (2::rat) powi j" by (simp flip: pow_add)
    then have "x = of_int (m * 2 ^ nat (e - j)) * 2 powi j" using je by (simp add: x pow_int)
    then show ?thesis by blast
  qed
  then obtain k where "x = of_int k * quantum x" by (auto simp: quantum_def j_def)
  then show ?thesis by (rule rnd_rat_exact)
qed (simp add: x)

lemma round_even_le_of_int: "x \<le> of_int n \<Longrightarrow> round_even x \<le> n"
  using round_even_mono [of x "of_int n"] by simp

lemma round_even_ge_of_int: "of_int n \<le> x \<Longrightarrow> n \<le> round_even x"
  using round_even_mono [of "of_int n" x] by simp

text \<open>Rounding never crosses a power of two that lies on the grid.\<close>

lemma rnd_rat_le_pow:
  assumes "0 < x" "x \<le> 2 powi k" "max (ilog2 x - 52) (- 1074) \<le> k"
  shows "rnd_rat x \<le> 2 powi k"
proof -
  define j where "j = max (ilog2 x - 52) (- 1074)"
  have q: "quantum x = 2 powi j" using assms(1) by (simp add: quantum_def j_def)
  have k: "2 powi k = of_int (2 ^ nat (k - j)) * (2::rat) powi j"
    using assms(3) pow_add [of "k - j" j] by (simp add: j_def pow_int)
  have "x / quantum x \<le> of_int (2 ^ nat (k - j))"
    using assms(2) by (simp add: q k divide_le_eq)
  then have "round_even (x / quantum x) \<le> 2 ^ nat (k - j)" by (rule round_even_le_of_int)
  then have "of_int (round_even (x / quantum x)) * 2 powi j \<le> of_int (2 ^ nat (k - j)) * (2::rat) powi j"
    by (intro mult_right_mono) (auto simp only: of_int_le_iff less_imp_le pow_pos)
  then show ?thesis using assms(1) by (simp add: rnd_rat_def q k)
qed

lemma rnd_rat_ge_pow:
  assumes "2 powi k \<le> x" "max (ilog2 x - 52) (- 1074) \<le> k"
  shows "2 powi k \<le> rnd_rat x"
proof -
  have pos: "0 < x" using assms(1) pow_pos [of k] by linarith
  define j where "j = max (ilog2 x - 52) (- 1074)"
  have q: "quantum x = 2 powi j" using pos by (simp add: quantum_def j_def)
  have k: "2 powi k = of_int (2 ^ nat (k - j)) * (2::rat) powi j"
    using assms(2) pow_add [of "k - j" j] by (simp add: j_def pow_int)
  have "of_int (2 ^ nat (k - j)) \<le> x / quantum x"
    using assms(1) by (simp add: q k le_divide_eq)
  then have "2 ^ nat (k - j) \<le> round_even (x / quantum x)" by (rule round_even_ge_of_int)
  then have "of_int (2 ^ nat (k - j)) * (2::rat) powi j \<le> of_int (round_even (x / quantum x)) * 2 powi j"
    by (intro mult_right_mono) (auto simp only: of_int_le_iff less_imp_le pow_pos)
  then show ?thesis using pos by (simp add: rnd_rat_def q k)
qed

lemma rnd_rat_pos: "0 < x \<Longrightarrow> 0 \<le> rnd_rat x"
  using round_even_ge_of_int [of 0 "x / quantum x"] by (simp add: rnd_rat_def less_imp_le)

lemma rnd_rat_mono_pos:
  assumes "0 < x" "x \<le> y" shows "rnd_rat x \<le> rnd_rat y"
proof -
  have y: "0 < y" using assms by linarith
  have le: "ilog2 x \<le> ilog2 y" using assms by (rule ilog2_mono)
  show ?thesis
  proof (cases "max (ilog2 x - 52) (- 1074) = max (ilog2 y - 52) (- 1074)")
    case True
    then have q: "quantum x = quantum y" using assms(1) y by (simp add: quantum_def)
    have "round_even (x / quantum y) \<le> round_even (y / quantum y)"
      using assms(2) by (intro round_even_mono divide_right_mono) (auto simp: less_imp_le)
    then have "(of_int (round_even (x / quantum y)) :: rat) \<le> of_int (round_even (y / quantum y))"
      by (simp only: of_int_le_iff)
    then show ?thesis using assms y by (simp add: rnd_rat_def q)
  next
    case False
    then have lt: "ilog2 x < ilog2 y" and big: "- 1074 < ilog2 y - 52" using le by linarith+
    have "x < 2 powi (ilog2 x + 1)" by (rule ilog2_bounds(2) [OF assms(1)])
    also have "\<dots> \<le> 2 powi (ilog2 y)" using lt by (intro pow_mono) simp
    finally have "x \<le> 2 powi (ilog2 y)" by simp
    then have "rnd_rat x \<le> 2 powi (ilog2 y)"
      using lt big by (intro rnd_rat_le_pow [OF assms(1)]) auto
    also have "\<dots> \<le> rnd_rat y"
      using big by (intro rnd_rat_ge_pow ilog2_bounds(1) [OF y]) auto
    finally show ?thesis .
  qed
qed

lemma rnd_rat_mono:
  assumes "x \<le> y" shows "rnd_rat x \<le> rnd_rat y"
proof -
  consider "0 < x" | "y < 0" | "x \<le> 0" "0 \<le> y" using assms by linarith
  then show ?thesis
  proof cases
    case 1 then show ?thesis using assms by (rule rnd_rat_mono_pos)
  next
    case 2
    then have "rnd_rat (- y) \<le> rnd_rat (- x)" using assms by (intro rnd_rat_mono_pos) auto
    then show ?thesis by simp
  next
    case 3
    have "rnd_rat x \<le> 0" using rnd_rat_pos [of "- x"] 3 by (cases "x = 0") auto
    moreover have "0 \<le> rnd_rat y" using rnd_rat_pos [of y] 3 by (cases "y = 0") auto
    ultimately show ?thesis by linarith
  qed
qed

lemma rnd_rat_form:
  obtains m e where "rnd_rat x = of_int m * 2 powi e" "\<bar>m\<bar> \<le> 2 ^ 53" "- 1074 \<le> e"
proof (cases "x = 0")
  case True
  then show ?thesis using that [of 0 0] by simp
next
  case False
  define e where "e = max (ilog2 \<bar>x\<bar> - 52) (- 1074)"
  define m where "m = round_even (x / quantum x)"
  have q: "quantum x = 2 powi e" by (simp add: quantum_def e_def)
  have "\<bar>x\<bar> < 2 powi (ilog2 \<bar>x\<bar> + 1)" using False by (intro ilog2_bounds(2)) simp
  also have "\<dots> \<le> 2 powi (53 + e)" by (intro pow_mono) (simp add: e_def)
  finally have "\<bar>x\<bar> < 2 ^ 53 * 2 powi e" by (simp add: pow_add)
  then have "\<bar>x\<bar> / quantum x \<le> 2 ^ 53" by (simp add: q divide_le_eq)
  then have "\<bar>x / quantum x\<bar> \<le> 2 ^ 53" by (simp add: abs_divide)
  then have b: "x / quantum x \<le> of_int (2 ^ 53)" "of_int (- (2 ^ 53)) \<le> x / quantum x"
    unfolding abs_le_iff by simp_all
  have "\<bar>m\<bar> \<le> 2 ^ 53"
    using round_even_le_of_int [OF b(1)] round_even_ge_of_int [OF b(2)] by (simp add: m_def)
  moreover have "rnd_rat x = of_int m * 2 powi e" using False by (simp add: rnd_rat_def m_def q)
  moreover have "- 1074 \<le> e" by (simp add: e_def)
  ultimately show ?thesis using that by blast
qed

lemma rnd_rat_idem [simp]: "rnd_rat (rnd_rat x) = rnd_rat x"
  by (metis rnd_rat_form rnd_rat_short)

lemma rnd_rat_double: "rnd_rat x = x \<Longrightarrow> rnd_rat (2 * x) = 2 * x"
proof -
  assume "rnd_rat x = x"
  then obtain m e where x: "x = of_int m * 2 powi e" "\<bar>m\<bar> \<le> 2 ^ 53" "- 1074 \<le> e"
    by (metis rnd_rat_form)
  then have "2 * x = of_int m * 2 powi (e + 1)" by (simp add: pow_add)
  then show ?thesis using x by (intro rnd_rat_short [of m "e + 1"]) auto
qed

lemma rnd_rat_of_int: "\<bar>n\<bar> \<le> 2 ^ 53 \<Longrightarrow> rnd_rat (of_int n) = of_int n"
  by (rule rnd_rat_short [of n 0]) auto

section \<open>Rounding by integer division\<close>

text \<open>
  The code equation of \<open>rnd_rat\<close>: one integer division of the scaled numerator, so that
  concrete computations do not normalise rationals at every step.
\<close>

definition rnd_int :: "int \<Rightarrow> int \<Rightarrow> rat" where
  "rnd_int n d = (let a = \<bar>n\<bar>; k = bitlen a - bitlen d;
     l = (if (if 0 \<le> k then 2 ^ nat k * d \<le> a else d \<le> a * 2 ^ nat (- k)) then k else k - 1);
     e = max (l - 52) (- 1074);
     u = (if 0 \<le> e then n else n * 2 ^ nat (- e)); v = (if 0 \<le> e then d * 2 ^ nat e else d);
     q = u div v; r = 2 * (u mod v);
     m = (if r < v then q else if v < r then q + 1 else if even q then q else q + 1)
   in if 0 \<le> e then of_int (m * 2 ^ nat e) else Fract m (2 ^ nat (- e)))"

lemma round_even_div:
  assumes "0 < v"
  shows "round_even (of_int u / of_int v) = (let q = u div v; r = 2 * (u mod v) in
     if r < v then q else if v < r then q + 1 else if even q then q else q + 1)"
proof -
  have f: "\<lfloor>of_int u / of_int v :: rat\<rfloor> = u div v" by (rule floor_divide_of_int_eq)
  have "(of_int u :: rat) = of_int (v * (u div v) + u mod v)" by simp
  then have "(of_int u :: rat) = of_int v * of_int (u div v) + of_int (u mod v)" by (simp only: of_int_add of_int_mult)
  then have "of_int u / of_int v - of_int (u div v) = (of_int (u mod v) / of_int v :: rat)"
    using assms by (simp add: field_simps)
  moreover have "(of_int (u mod v) / of_int v :: rat) < 1 / 2 \<longleftrightarrow> 2 * (u mod v) < v"
  proof -
    have "(of_int (u mod v) / of_int v :: rat) < 1 / 2 \<longleftrightarrow> of_int (2 * (u mod v)) < (of_int v :: rat)"
      using assms by (simp add: field_simps)
    then show ?thesis by (simp only: of_int_less_iff)
  qed
  moreover have "1 / 2 < (of_int (u mod v) / of_int v :: rat) \<longleftrightarrow> v < 2 * (u mod v)"
  proof -
    have "1 / 2 < (of_int (u mod v) / of_int v :: rat) \<longleftrightarrow> (of_int v :: rat) < of_int (2 * (u mod v))"
      using assms by (simp add: field_simps)
    then show ?thesis by (simp only: of_int_less_iff)
  qed
  ultimately show ?thesis unfolding round_even_def Let_def f by auto
qed

lemma rnd_rat_code [code]:
  "rnd_rat x = (case quotient_of x of (n, d) \<Rightarrow> if n = 0 then 0 else rnd_int n d)"
proof -
  obtain n d where nd: "quotient_of x = (n, d)" by (cases "quotient_of x")
  have d: "0 < d" using quotient_of_denom_pos [OF nd] .
  have x: "x = of_int n / of_int d" using quotient_of_div [OF nd] .
  show ?thesis
  proof (cases "n = 0")
    case True then show ?thesis using nd x by simp
  next
    case False
    have x0: "x \<noteq> 0" using False d x by simp
    have ax: "quotient_of \<bar>x\<bar> = (\<bar>n\<bar>, d)" by (simp add: rat_abs_code nd)
    define k where "k = bitlen \<bar>n\<bar> - bitlen d"
    have "2 powi k \<le> \<bar>x\<bar> \<longleftrightarrow> (if 0 \<le> k then 2 ^ nat k * d \<le> \<bar>n\<bar> else d \<le> \<bar>n\<bar> * 2 ^ nat (- k))"
    proof -
      have "\<bar>x\<bar> = of_int \<bar>n\<bar> / of_int d" using quotient_of_div [OF ax] .
      then have "2 powi k \<le> \<bar>x\<bar> \<longleftrightarrow> 2 powi k * of_int d \<le> (of_int \<bar>n\<bar> :: rat)" using d by (simp add: le_divide_eq)
      also have "\<dots> \<longleftrightarrow> (if 0 \<le> k then 2 ^ nat k * d \<le> \<bar>n\<bar> else d \<le> \<bar>n\<bar> * 2 ^ nat (- k))"
      proof (cases "0 \<le> k")
        case True
        then have "2 powi k * of_int d = (of_int (2 ^ nat k * d) :: rat)" by (simp add: pow_int)
        then show ?thesis using True by (simp only: of_int_le_iff if_True)
      next
        case neg: False
        have inv: "2 powi k * 2 powi (- k) = (1::rat)" by (simp flip: pow_add)
        have "2 powi k * of_int d \<le> (of_int \<bar>n\<bar> :: rat) \<longleftrightarrow> 2 powi k * of_int d * 2 powi (- k) \<le> (of_int \<bar>n\<bar> :: rat) * 2 powi (- k)"
          by simp
        also have "2 powi k * of_int d * 2 powi (- k) = (of_int d :: rat)" using inv by (simp add: ac_simps)
        also have "(of_int \<bar>n\<bar> :: rat) * 2 powi (- k) = of_int (\<bar>n\<bar> * 2 ^ nat (- k))" using neg by (simp add: pow_int)
        finally show ?thesis using neg by (simp only: of_int_le_iff if_False)
      qed
      finally show ?thesis .
    qed
    then have l: "ilog2 \<bar>x\<bar> = (if (if 0 \<le> k then 2 ^ nat k * d \<le> \<bar>n\<bar> else d \<le> \<bar>n\<bar> * 2 ^ nat (- k)) then k else k - 1)"
      by (simp add: ilog2_def ax Let_def k_def)
    define e where "e = max (ilog2 \<bar>x\<bar> - 52) (- 1074)"
    define u where "u = (if 0 \<le> e then n else n * 2 ^ nat (- e))"
    define v where "v = (if 0 \<le> e then d * 2 ^ nat e else d)"
    have v: "0 < v" using d by (simp add: v_def)
    have q: "quantum x = 2 powi e" by (simp add: quantum_def e_def)
    have xq: "x / quantum x = of_int n / of_int d / 2 powi e" unfolding q by (simp only: x)
    have uv: "x / quantum x = of_int u / of_int v"
    proof (cases "0 \<le> e")
      case True then show ?thesis unfolding xq by (simp add: u_def v_def pow_int)
    next
      case neg: False
      have "inverse (2 powi e) = (2::rat) powi (- e)" by (simp add: power_int_minus)
      also have "\<dots> = of_int (2 ^ nat (- e))" using neg by (intro pow_int) simp
      finally have "inverse (2 powi e) = (of_int (2 ^ nat (- e)) :: rat)" .
      then show ?thesis using neg unfolding xq by (simp add: u_def v_def divide_inverse ac_simps)
    qed
    have m: "rnd_rat x = of_int (round_even (of_int u / of_int v)) * 2 powi e" using x0 unfolding rnd_rat_def uv by (simp add: q)
    have fr: "of_int m * 2 powi e = (if 0 \<le> e then of_int (m * 2 ^ nat e) else Fract m (2 ^ nat (- e)))" for m
    proof (cases "0 \<le> e")
      case True then show ?thesis by (simp add: pow_int)
    next
      case neg: False
      have "(2::rat) powi e = inverse (2 powi (- e))" by (simp add: power_int_minus)
      also have "2 powi (- e) = (of_int (2 ^ nat (- e)) :: rat)" using neg by (intro pow_int) simp
      finally show ?thesis using neg by (simp add: Fract_of_int_quotient divide_inverse)
    qed
    have "rnd_rat x = rnd_int n d"
      unfolding m fr round_even_div [OF v] rnd_int_def Let_def
      unfolding u_def v_def e_def l k_def by (rule refl)
    then show ?thesis using False nd by simp
  qed
qed

section \<open>The laws of rounding, as an interface\<close>

locale rounding =
  fixes r :: "rat \<Rightarrow> rat"
  assumes mono: "x \<le> y \<Longrightarrow> r x \<le> r y"
    and odd: "r (- x) = - r x"
    and idem: "r (r x) = r x"
    and double: "r x = x \<Longrightarrow> r (2 * x) = 2 * x"
begin

lemma zero: "r 0 = 0"
  using odd [of 0] by simp

lemma enclose: "r a = a \<Longrightarrow> r b = b \<Longrightarrow> a \<le> x \<Longrightarrow> x \<le> b \<Longrightarrow> a \<le> r x \<and> r x \<le> b"
  using mono [of a x] mono [of x b] by simp

lemma nonneg: "0 \<le> x \<Longrightarrow> 0 \<le> r x"
  using mono [of 0 x] zero by simp

lemma nonpos: "x \<le> 0 \<Longrightarrow> r x \<le> 0"
  using mono [of x 0] zero by simp

text \<open>The rounded midpoint of two representable numbers lies between them.\<close>

lemma midpoint:
  assumes "r a = a" "r b = b" "a \<le> b"
  shows "a \<le> r (r (a + b) / 2) \<and> r (r (a + b) / 2) \<le> b"
proof (rule enclose [OF assms(1,2)])
  have "2 * a \<le> r (a + b) \<and> r (a + b) \<le> 2 * b"
    using assms by (intro enclose double) auto
  then show "a \<le> r (a + b) / 2" "r (a + b) / 2 \<le> b" by auto
qed

lemma add_nonneg_ge: "r a = a \<Longrightarrow> 0 \<le> d \<Longrightarrow> a \<le> r (a + d)"
  using mono [of a "a + d"] by simp

end

interpretation dbl: rounding rnd_rat
  by unfold_locales (auto simp: rnd_rat_mono rnd_rat_double)

section \<open>Double values and their operations\<close>

datatype pyfloat = Fin rat | PInf | NInf | NaN

definition dbl_limit :: rat where
  "dbl_limit = 2 ^ 1024"

text \<open>The limit as a literal, so that evaluation does not raise 2 to the 1024th power anew.\<close>

lemma dbl_limit_code [code]: "dbl_limit = 179769313486231590772930519078902473361797697894230657273430081157732675805500963132708477322407536021120113879871393357658789768814416622492847430639474124377767893424865485276302219601246094119453082952085005768838150682342462881473913110540827237163350510684586298239947245938479716304835356329624224137216"
  unfolding dbl_limit_def by simp

definition rnd :: "rat \<Rightarrow> pyfloat" where
  "rnd x = (let y = rnd_rat x in
     if dbl_limit \<le> y then PInf else if y \<le> - dbl_limit then NInf else Fin y)"

definition representable :: "rat \<Rightarrow> bool" where
  "representable x \<longleftrightarrow> rnd_rat x = x \<and> \<bar>x\<bar> < dbl_limit"

text \<open>A well-formed double: what every operation below returns.\<close>

fun double_ok :: "pyfloat \<Rightarrow> bool" where
  "double_ok (Fin x) = representable x"
| "double_ok _ = True"

fun is_finite :: "pyfloat \<Rightarrow> bool" where
  "is_finite (Fin _) = True"
| "is_finite _ = False"

fun flt :: "pyfloat \<Rightarrow> pyfloat \<Rightarrow> bool" where
  "flt NaN _ = False"
| "flt _ NaN = False"
| "flt (Fin a) (Fin b) = (a < b)"
| "flt NInf y = (y \<noteq> NInf)"
| "flt (Fin _) PInf = True"
| "flt _ _ = False"

definition feq :: "pyfloat \<Rightarrow> pyfloat \<Rightarrow> bool" where
  "feq x y \<longleftrightarrow> x = y \<and> x \<noteq> NaN"

definition fle :: "pyfloat \<Rightarrow> pyfloat \<Rightarrow> bool" where
  "fle x y \<longleftrightarrow> flt x y \<or> feq x y"

fun fneg :: "pyfloat \<Rightarrow> pyfloat" where
  "fneg (Fin a) = Fin (- a)"
| "fneg PInf = NInf"
| "fneg NInf = PInf"
| "fneg NaN = NaN"

fun fabs :: "pyfloat \<Rightarrow> pyfloat" where
  "fabs (Fin a) = Fin \<bar>a\<bar>"
| "fabs NaN = NaN"
| "fabs _ = PInf"

fun fadd :: "pyfloat \<Rightarrow> pyfloat \<Rightarrow> pyfloat" where
  "fadd NaN _ = NaN"
| "fadd _ NaN = NaN"
| "fadd (Fin a) (Fin b) = rnd (a + b)"
| "fadd PInf NInf = NaN"
| "fadd NInf PInf = NaN"
| "fadd PInf _ = PInf"
| "fadd NInf _ = NInf"
| "fadd (Fin _) y = y"

definition fsub :: "pyfloat \<Rightarrow> pyfloat \<Rightarrow> pyfloat" where
  "fsub x y = fadd x (fneg y)"

definition inf_of_sign :: "rat \<Rightarrow> pyfloat" where
  "inf_of_sign s = (if 0 < s then PInf else if s < 0 then NInf else NaN)"

fun sign_of :: "pyfloat \<Rightarrow> rat" where
  "sign_of (Fin a) = sgn a"
| "sign_of PInf = 1"
| "sign_of NInf = - 1"
| "sign_of NaN = 0"

fun fmul :: "pyfloat \<Rightarrow> pyfloat \<Rightarrow> pyfloat" where
  "fmul (Fin a) (Fin b) = rnd (a * b)"
| "fmul x y = inf_of_sign (sign_of x * sign_of y)"

text \<open>Division by a nonzero double; the interpreter raises on a zero divisor before this.\<close>

fun fdiv :: "pyfloat \<Rightarrow> pyfloat \<Rightarrow> pyfloat" where
  "fdiv (Fin a) (Fin b) = rnd (a / b)"
| "fdiv NaN _ = NaN"
| "fdiv _ NaN = NaN"
| "fdiv (Fin _) _ = Fin 0"
| "fdiv x (Fin b) = inf_of_sign (sign_of x * (if b < 0 then - 1 else 1))"
| "fdiv _ _ = NaN"

lemma dbl_limit_pos [simp]: "0 < dbl_limit"
  by (simp add: dbl_limit_def)

lemma double_ok_rnd [simp]: "double_ok (rnd x)"
  by (auto simp: rnd_def Let_def representable_def abs_less_iff not_le)

lemma rnd_representable: "representable x \<Longrightarrow> rnd x = Fin x"
  by (auto simp: rnd_def Let_def representable_def abs_less_iff not_le)

lemma rnd_of_int: "\<bar>n\<bar> \<le> 2 ^ 53 \<Longrightarrow> rnd (of_int n) = Fin (of_int n)"
proof -
  assume n: "\<bar>n\<bar> \<le> 2 ^ 53"
  then have "(of_int \<bar>n\<bar> :: rat) \<le> of_int (2 ^ 53)" by (simp only: of_int_le_iff)
  also have "\<dots> < dbl_limit" unfolding dbl_limit_def by simp
  finally show ?thesis using n by (intro rnd_representable) (simp add: representable_def rnd_rat_of_int)
qed

lemma double_ok_ops [simp]:
  "double_ok x \<Longrightarrow> double_ok (fneg x)" "double_ok x \<Longrightarrow> double_ok (fabs x)"
  "double_ok x \<Longrightarrow> double_ok y \<Longrightarrow> double_ok (fadd x y)"
  "double_ok (fmul x y)" "double_ok (fdiv x y)"
proof -
  show "double_ok x \<Longrightarrow> double_ok (fneg x)" by (cases x) (auto simp: representable_def)
  show "double_ok x \<Longrightarrow> double_ok (fabs x)"
    by (cases x) (auto simp: representable_def abs_if split: if_splits)
  show "double_ok x \<Longrightarrow> double_ok y \<Longrightarrow> double_ok (fadd x y)" by (cases x; cases y) auto
  show "double_ok (fmul x y)" by (cases x; cases y) (auto simp: inf_of_sign_def)
  show "double_ok (fdiv x y)"
    by (cases x; cases y) (auto simp: inf_of_sign_def representable_def)
qed

lemma flt_NaN [simp]: "flt x NaN = False"
  by (cases x) auto

lemma fle_Fin [simp]: "fle (Fin a) (Fin b) \<longleftrightarrow> a \<le> b"
  by (auto simp: fle_def feq_def)

lemma fle_simps [simp]: "fle NaN y = False" "fle x NaN = False" "fle NInf NInf" "fle PInf PInf"
  "fle (Fin a) PInf" "fle NInf (Fin a)" "fle NInf PInf"
  by (auto simp: fle_def feq_def)

lemma flt_irrefl [simp]: "\<not> flt x x"
  by (cases x) auto

lemma flt_trans: "flt x y \<Longrightarrow> flt y z \<Longrightarrow> flt x z"
  by (cases x; cases y; cases z) auto

lemma flt_fle_trans: "flt x y \<Longrightarrow> fle y z \<Longrightarrow> flt x z"
  by (cases x; cases y; cases z) (auto simp: fle_def feq_def)

lemma fle_flt_trans: "fle x y \<Longrightarrow> flt y z \<Longrightarrow> flt x z"
  by (cases x; cases y; cases z) (auto simp: fle_def feq_def)

lemma flt_total: "x \<noteq> NaN \<Longrightarrow> y \<noteq> NaN \<Longrightarrow> \<not> flt x y \<longleftrightarrow> fle y x"
  by (cases x; cases y) (auto simp: fle_def feq_def)

lemma flt_not_fle: "flt x y \<Longrightarrow> \<not> fle y x"
  by (cases x; cases y) (auto simp: fle_def feq_def)

lemma rnd_minus: "rnd (- x) = fneg (rnd x)"
proof -
  consider "dbl_limit \<le> rnd_rat x" | "rnd_rat x \<le> - dbl_limit"
    | "rnd_rat x < dbl_limit" "- dbl_limit < rnd_rat x" by linarith
  then show ?thesis
  proof cases
    case 1
    moreover have "\<not> dbl_limit \<le> - rnd_rat x" "- rnd_rat x \<le> - dbl_limit"
      using 1 dbl_limit_pos by linarith+
    ultimately show ?thesis by (simp add: rnd_def)
  next
    case 2
    moreover have "\<not> dbl_limit \<le> rnd_rat x" "dbl_limit \<le> - rnd_rat x"
      using 2 dbl_limit_pos by linarith+
    ultimately show ?thesis by (simp add: rnd_def)
  next
    case 3
    then have "\<not> dbl_limit \<le> rnd_rat x" "\<not> rnd_rat x \<le> - dbl_limit"
      "\<not> dbl_limit \<le> - rnd_rat x" "\<not> - rnd_rat x \<le> - dbl_limit" by linarith+
    then show ?thesis by (simp add: rnd_def)
  qed
qed

lemma fsub_antisym: "fsub y x = fneg (fsub x y)"
proof (cases "\<exists>a b. x = Fin a \<and> y = Fin b")
  case True
  then obtain a b where "x = Fin a" "y = Fin b" by blast
  then show ?thesis using rnd_minus [of "a - b"] by (simp add: fsub_def)
next
  case False
  then show ?thesis by (cases x; cases y) (auto simp: fsub_def)
qed

lemma fabs_fneg [simp]: "fabs (fneg x) = fabs x"
  by (cases x) auto

lemma rnd_mono: "x \<le> y \<Longrightarrow> fle (rnd x) (rnd y)"
  using dbl.mono [of x y] by (auto simp: rnd_def Let_def fle_def feq_def)

section \<open>Square roots\<close>

function isqrt :: "int \<Rightarrow> int" where
  "isqrt n = (if n \<le> 0 then 0 else
     let r = 2 * isqrt (n div 4) in if (r + 1) ^ 2 \<le> n then r + 1 else r)"
  by pat_completeness auto
termination
  by (relation "measure nat") auto

declare isqrt.simps [simp del]

text \<open>
  The double nearest to the square root of a positive rational: a scaled integer square root
  with more than 53 significant bits, a sticky half unit when the root is not exact, and one
  rounding.
\<close>

definition fsqrt :: "rat \<Rightarrow> pyfloat" where
  "fsqrt q = (if q \<le> 0 then Fin 0 else
     let s = 60 - ilog2 q div 2; t = q * 2 powi (2 * s); m = isqrt \<lfloor>t\<rfloor>;
         h = (if of_int (m * m) = t then 0 else 1 / 2)
     in rnd ((of_int m + h) * 2 powi (- s)))"

section \<open>Evaluating concrete values\<close>

text \<open>
  Rounding a concrete rational takes its exponent and its rounded significand; both sides of
  each premise are numerals, so the rules below evaluate by \<open>simp\<close>.
\<close>

lemma rnd_eval:
  assumes "0 < x" "2 powi k \<le> x" "x < 2 powi (k + 1)" "- 1022 \<le> k" "k \<le> 1022"
    and "\<bar>x / 2 powi (k - 52) - of_int n\<bar> < 1 / 2"
  shows "rnd x = Fin (of_int n * 2 powi (k - 52))"
proof -
  have il: "ilog2 x = k" using assms(2,3) by (rule ilog2_unique)
  have q: "quantum x = 2 powi (k - 52)" using assms(1,4) by (simp add: quantum_def il)
  define y where "y = x / quantum x"
  have y: "\<bar>y - of_int n\<bar> < 1 / 2" using assms(6) by (simp add: y_def q)
  have "round_even y = n"
  proof (cases "of_int n \<le> y")
    case True
    then have "\<lfloor>y\<rfloor> = n" using y by (intro floor_unique) linarith+
    then show ?thesis using y True by (simp add: round_even_def Let_def)
  next
    case False
    then have "\<lfloor>y\<rfloor> = n - 1" using y by (intro floor_unique) linarith+
    then show ?thesis using y False by (simp add: round_even_def Let_def)
  qed
  then have r: "rnd_rat x = of_int n * 2 powi (k - 52)"
    using assms(1) by (simp add: rnd_rat_def y_def flip: q)
  have "rnd_rat x \<le> 2 powi (k + 1)"
    using assms(1,3,4) by (intro rnd_rat_le_pow) (auto simp: il less_imp_le)
  also have "\<dots> \<le> 2 powi 1023" using assms(5) by (intro pow_mono) simp
  also have "\<dots> < 2 powi 1024" by (intro pow_smono) simp
  also have "\<dots> = dbl_limit" by (simp only: dbl_limit_def power_int_numeral)
  finally have "rnd_rat x < dbl_limit" .
  moreover have "- dbl_limit < rnd_rat x" using rnd_rat_pos [OF assms(1)] dbl_limit_pos by linarith
  ultimately show ?thesis by (simp add: rnd_def not_le flip: r)
qed

lemma rnd_0 [simp]: "rnd 0 = Fin 0"
  using rnd_of_int [of 0] by simp

lemma rnd_1 [simp]: "rnd 1 = Fin 1"
  using rnd_of_int [of 1] by simp

lemma rnd_numeral [simp]: "(numeral n :: int) \<le> 2 ^ 53 \<Longrightarrow> rnd (numeral n) = Fin (numeral n)"
  using rnd_of_int [of "numeral n"] by simp

end
