(* ===== verification/PyBase.thy ===== *)
theory PyBase
  imports PyFloat "HOL-Library.Multiset" "HOL-Library.Char_ord" "HOL-Library.List_Lexorder"
    "HOL-Library.Product_Lexorder"
begin

text \<open>
  The prelude: the part of Python the tools use.  A call that can raise returns
  \<open>pyexn + 'a\<close>, the exception on the left; \<open>bindE\<close> sequences such calls and \<open>mapE\<close>, \<open>someE\<close>,
  \<open>everyE\<close>, \<open>foldE\<close> are the comprehensions and loops, which stop at the first exception.
  Documents read by \<open>json.loads\<close> are values of \<open>json\<close>; a \<open>dict\<close> is an insertion-ordered
  association list.  Integers are unbounded, floats are the doubles of \<open>PyFloat\<close>.
\<close>

named_theorems py_simps

section \<open>Exceptions\<close>

datatype pyexn =
    KeyError | TypeError | IndexError | ZeroDivisionError | OverflowError | AttributeError
  | StatisticsError | FileNotFoundError | UnboundLocalError
  | ValueError string | RuntimeError string | AnalysisError string | AssertionError string
  | SystemExit string

type_synonym 'a py = "pyexn + 'a"

primrec bindE :: "'a py \<Rightarrow> ('a \<Rightarrow> 'b py) \<Rightarrow> 'b py" where
  "bindE (Inl e) f = Inl e"
| "bindE (Inr x) f = f x"

definition require :: "bool \<Rightarrow> pyexn \<Rightarrow> unit py" where
  "require b e = (if b then Inr () else Inl e)"

fun mapE :: "('a \<Rightarrow> 'b py) \<Rightarrow> 'a list \<Rightarrow> 'b list py" where
  "mapE f [] = Inr []"
| "mapE f (x # xs) = bindE (f x) (\<lambda>y. bindE (mapE f xs) (\<lambda>ys. Inr (y # ys)))"

fun filterE :: "('a \<Rightarrow> bool py) \<Rightarrow> 'a list \<Rightarrow> 'a list py" where
  "filterE p [] = Inr []"
| "filterE p (x # xs) = bindE (p x) (\<lambda>b. bindE (filterE p xs) (\<lambda>ys. Inr (if b then x # ys else ys)))"

fun someE :: "('a \<Rightarrow> bool py) \<Rightarrow> 'a list \<Rightarrow> bool py" where
  "someE p [] = Inr False"
| "someE p (x # xs) = bindE (p x) (\<lambda>b. if b then Inr True else someE p xs)"

fun everyE :: "('a \<Rightarrow> bool py) \<Rightarrow> 'a list \<Rightarrow> bool py" where
  "everyE p [] = Inr True"
| "everyE p (x # xs) = bindE (p x) (\<lambda>b. if b then everyE p xs else Inr False)"

fun foldE :: "('a \<Rightarrow> 's \<Rightarrow> 's py) \<Rightarrow> 'a list \<Rightarrow> 's \<Rightarrow> 's py" where
  "foldE f [] s = Inr s"
| "foldE f (x # xs) s = bindE (f x s) (foldE f xs)"

lemma bindE_Inr [simp]: "bindE m f = Inr y \<longleftrightarrow> (\<exists>x. m = Inr x \<and> f x = Inr y)"
  by (cases m) auto

lemma bindE_return [simp]: "bindE m Inr = m"
  by (cases m) auto

lemma bindE_assoc: "bindE (bindE m f) g = bindE m (\<lambda>x. bindE (f x) g)"
  by (cases m) auto

lemma require_Inr [simp]: "require b e = Inr u \<longleftrightarrow> b"
  by (simp add: require_def)

lemma require_True [simp]: "require True e = Inr ()"
  by (simp add: require_def)

lemma require_False [simp]: "require False e = Inl e"
  by (simp add: require_def)

lemma if_Inl_Inr [simp]:
  "(if b then Inl e else m) = Inr y \<longleftrightarrow> \<not> b \<and> m = Inr y"
  "(if b then m else Inl e) = Inr y \<longleftrightarrow> b \<and> m = Inr y"
  by auto

lemma mapE_Inr: "mapE f xs = Inr ys \<longleftrightarrow> list_all2 (\<lambda>x y. f x = Inr y) xs ys"
  by (induction xs arbitrary: ys) (auto simp: list_all2_Cons1)

lemma mapE_length: "mapE f xs = Inr ys \<Longrightarrow> length ys = length xs"
  by (auto simp: mapE_Inr dest: list_all2_lengthD)

lemma mapE_nth: "mapE f xs = Inr ys \<Longrightarrow> i < length xs \<Longrightarrow> f (xs ! i) = Inr (ys ! i)"
  by (auto simp: mapE_Inr list_all2_conv_all_nth)

lemma mapE_set: "mapE f xs = Inr ys \<Longrightarrow> x \<in> set xs \<Longrightarrow> \<exists>y \<in> set ys. f x = Inr y"
  by (auto simp: mapE_Inr list_all2_conv_all_nth in_set_conv_nth)

lemma mapE_set_D: "mapE f xs = Inr ys \<Longrightarrow> y \<in> set ys \<Longrightarrow> \<exists>x \<in> set xs. f x = Inr y"
  by (auto simp: mapE_Inr list_all2_conv_all_nth in_set_conv_nth) (metis nth_mem)

lemma mapE_total: "(\<And>x. x \<in> set xs \<Longrightarrow> f x = Inr (g x)) \<Longrightarrow> mapE f xs = Inr (map g xs)"
  by (induction xs) auto

lemma mapE_append: "mapE f (xs @ ys) = bindE (mapE f xs) (\<lambda>us. bindE (mapE f ys) (\<lambda>vs. Inr (us @ vs)))"
proof (induction xs)
  case (Cons x xs)
  then show ?case by (cases "f x"; cases "mapE f xs"; cases "mapE f ys") auto
qed simp

lemma everyE_True: "everyE p xs = Inr True \<longleftrightarrow> (\<forall>x \<in> set xs. p x = Inr True)"
  by (induction xs) (auto split: if_splits)

lemma someE_False: "someE p xs = Inr False \<longleftrightarrow> (\<forall>x \<in> set xs. p x = Inr False)"
  by (induction xs) (auto split: if_splits)

lemma someE_total: "(\<And>x. x \<in> set xs \<Longrightarrow> p x = Inr (q x)) \<Longrightarrow> someE p xs = Inr (\<exists>x \<in> set xs. q x)"
  by (induction xs) auto

lemma everyE_total: "(\<And>x. x \<in> set xs \<Longrightarrow> p x = Inr (q x)) \<Longrightarrow> everyE p xs = Inr (\<forall>x \<in> set xs. q x)"
  by (induction xs) auto

lemma filterE_total: "(\<And>x. x \<in> set xs \<Longrightarrow> p x = Inr (q x)) \<Longrightarrow> filterE p xs = Inr (filter q xs)"
  by (induction xs) auto

lemma filterE_Inr: "filterE p xs = Inr ys \<Longrightarrow> ys = filter (\<lambda>x. p x = Inr True) xs"
  by (induction xs arbitrary: ys) (auto split: if_splits)

lemma foldE_append: "foldE f (xs @ ys) s = bindE (foldE f xs s) (foldE f ys)"
proof (induction xs arbitrary: s)
  case (Cons x xs)
  then show ?case by (cases "f x s") auto
qed simp

lemma foldE_total:
  "(\<And>x s. x \<in> set xs \<Longrightarrow> f x s = Inr (g x s)) \<Longrightarrow> foldE f xs s = Inr (fold g xs s)"
  by (induction xs arbitrary: s) auto

text \<open>An invariant of the body is an invariant of the loop.\<close>

lemma foldE_invariant:
  assumes "foldE f xs s = Inr t" "P s" "\<And>x u v. x \<in> set xs \<Longrightarrow> P u \<Longrightarrow> f x u = Inr v \<Longrightarrow> P v"
  shows "P t"
  using assms
proof (induction xs arbitrary: s)
  case (Cons x xs)
  from Cons.prems(1) obtain u where u: "f x s = Inr u" "foldE f xs u = Inr t" by auto
  have "P u" using Cons.prems(2,3) u(1) by auto
  then show ?case using Cons.IH [OF u(2)] Cons.prems(3) by auto
qed simp

section \<open>Dictionaries\<close>

text \<open>Insertion order is kept; assigning to an existing key keeps its place.\<close>

fun dict_put :: "'k \<Rightarrow> 'v \<Rightarrow> ('k \<times> 'v) list \<Rightarrow> ('k \<times> 'v) list" where
  "dict_put k v [] = [(k, v)]"
| "dict_put k v ((k', w) # d) = (if k = k' then (k, v) # d else (k', w) # dict_put k v d)"

definition dict_get :: "('k \<times> 'v) list \<Rightarrow> 'k \<Rightarrow> 'v \<Rightarrow> 'v" where
  "dict_get d k v0 = (case map_of d k of None \<Rightarrow> v0 | Some v \<Rightarrow> v)"

definition dict_of :: "('k \<times> 'v) list \<Rightarrow> ('k \<times> 'v) list" where
  "dict_of kvs = fold (\<lambda>(k, v). dict_put k v) kvs []"

lemma map_of_dict_put: "map_of (dict_put k v d) = (map_of d)(k \<mapsto> v)"
  by (induction d rule: dict_put.induct) (auto simp: fun_eq_iff)

lemma keys_dict_put:
  "map fst (dict_put k v d) = (if k \<in> fst ` set d then map fst d else map fst d @ [k])"
  by (induction k v d rule: dict_put.induct) auto

lemma distinct_dict_put: "distinct (map fst d) \<Longrightarrow> distinct (map fst (dict_put k v d))"
  by (auto simp: keys_dict_put)

lemma map_of_dict_of: "map_of (dict_of kvs) = map_of (rev kvs)"
proof -
  have "map_of (fold (\<lambda>(k, v). dict_put k v) kvs d) = map_of (rev kvs @ d)" for d
    by (induction kvs arbitrary: d) (auto simp: map_of_dict_put)
  from this [of "[]"] show ?thesis by (simp add: dict_of_def)
qed

lemma dict_of_lookup:
  assumes "(k, v) \<in> set kvs" "\<And>w. (k, w) \<in> set kvs \<Longrightarrow> w = v"
  shows "map_of (dict_of kvs) k = Some v"
proof -
  have "k \<in> fst ` set (rev kvs)" using assms(1) by force
  then obtain w where w: "map_of (rev kvs) k = Some w" by (cases "map_of (rev kvs) k") (auto simp: map_of_eq_None_iff)
  then have "(k, w) \<in> set kvs" using map_of_SomeD [OF w] by simp
  then show ?thesis using w assms(2) by (simp add: map_of_dict_of)
qed

text \<open>
  The interface of a dictionary, as the counting loops of the tools use it: reading back what
  was written, and distinct keys.  A loop \<open>d[k] = d.get(k, 0) + c\<close> over pairs leaves at every
  key the sum of its counts.
\<close>

locale tally =
  fixes empty :: 'd and put :: "'k \<Rightarrow> int \<Rightarrow> 'd \<Rightarrow> 'd" and look :: "'d \<Rightarrow> 'k \<Rightarrow> int option"
  assumes look_empty: "look empty k = None"
    and look_put: "look (put k v d) k' = (if k' = k then Some v else look d k')"
begin

lemma tally_lookup:
  "look (fold (\<lambda>(k, c) d. put k ((case look d k of None \<Rightarrow> 0 | Some n \<Rightarrow> n) + c) d) kvs d0) k
   = (if k \<in> fst ` set kvs \<or> look d0 k \<noteq> None
      then Some ((case look d0 k of None \<Rightarrow> 0 | Some n \<Rightarrow> n) + sum_list (map snd (filter (\<lambda>kc. fst kc = k) kvs)))
      else None)"
proof (induction kvs arbitrary: d0)
  case (Cons kc kvs)
  obtain k1 c where kc: "kc = (k1, c)" by (cases kc)
  show ?case using Cons.IH by (auto simp: kc look_put split: option.splits)
qed auto

end

interpretation pydict: tally "[]" dict_put map_of
  by unfold_locales (auto simp: map_of_dict_put)

section \<open>Grouping rows by a key\<close>

text \<open>\<open>sorted({f(x) for x in xs})\<close> and the rows of one key.\<close>

definition keys_of :: "('a \<Rightarrow> 'k::linorder) \<Rightarrow> 'a list \<Rightarrow> 'k list" where
  "keys_of f xs = sort (remdups (map f xs))"

definition cell_of :: "('a \<Rightarrow> 'k) \<Rightarrow> 'k \<Rightarrow> 'a list \<Rightarrow> 'a list" where
  "cell_of f k xs = filter (\<lambda>x. f x = k) xs"

lemma set_keys_of [simp]: "set (keys_of f xs) = f ` set xs"
  by (simp add: keys_of_def)

lemma keys_of_increasing: "sorted_wrt (<) (keys_of f xs)"
  by (simp add: keys_of_def strict_sorted_iff)

lemma distinct_keys_of [simp]: "distinct (keys_of f xs)"
  by (simp add: keys_of_def)

lemma mset_cells: "distinct ks \<Longrightarrow> f ` set xs \<subseteq> set ks \<Longrightarrow> mset (concat (map (\<lambda>k. cell_of f k xs) ks)) = mset xs"
proof (induction ks arbitrary: xs)
  case (Cons k ks)
  have ne: "filter (\<lambda>x. f x = j) (filter (\<lambda>x. f x \<noteq> k) xs) = filter (\<lambda>x. f x = j) xs" if "j \<in> set ks" for j
    using that Cons.prems(1) by (auto intro: filter_cong)
  have "mset (concat (map (\<lambda>k. cell_of f k (filter (\<lambda>x. f x \<noteq> k0) xs)) ks)) = mset (filter (\<lambda>x. f x \<noteq> k0) xs)"
    if "k0 = k" for k0
    using that Cons.prems by (intro Cons.IH) auto
  then have "mset (concat (map (\<lambda>j. cell_of f j xs) ks)) = mset (filter (\<lambda>x. f x \<noteq> k) xs)"
    using ne by (metis (mono_tags, lifting) cell_of_def map_cong)
  then have "mset (concat (map (\<lambda>j. cell_of f j xs) (k # ks))) = mset (filter (\<lambda>x. f x = k) xs) + mset (filter (\<lambda>x. f x \<noteq> k) xs)"
    by (simp add: cell_of_def)
  also have "\<dots> = mset xs" by (simp flip: multiset_partition add: mset_filter)
  finally show ?case .
qed simp

text \<open>Grouping loses and duplicates no row.\<close>

lemma cells_partition: "mset (concat (map (\<lambda>k. cell_of f k xs) (keys_of f xs))) = mset xs"
  by (rule mset_cells) auto

lemma cells_count: "sum_list (map (\<lambda>k. length (cell_of f k xs)) (keys_of f xs)) = length xs"
  using arg_cong [OF cells_partition [of f xs], of size] by (simp add: length_concat comp_def)

lemma cell_nonempty: "k \<in> set (keys_of f xs) \<Longrightarrow> cell_of f k xs \<noteq> []"
  by (auto simp: cell_of_def filter_empty_conv)

section \<open>Numbers\<close>

datatype num = I int | F pyfloat

text \<open>The exact value of a number: Python compares an \<open>int\<close> with a \<open>float\<close> exactly.\<close>

primrec exact :: "num \<Rightarrow> pyfloat" where
  "exact (I n) = Fin (of_int n)"
| "exact (F x) = x"

definition nlt :: "num \<Rightarrow> num \<Rightarrow> bool" where "nlt x y = flt (exact x) (exact y)"
definition nle :: "num \<Rightarrow> num \<Rightarrow> bool" where "nle x y = fle (exact x) (exact y)"
definition neq :: "num \<Rightarrow> num \<Rightarrow> bool" where "neq x y = feq (exact x) (exact y)"

abbreviation flit :: "rat \<Rightarrow> num" where "flit q \<equiv> F (rnd q)"

fun to_float :: "num \<Rightarrow> pyfloat py" where
  "to_float (F x) = Inr x"
| "to_float (I n) = (case rnd (of_int n) of Fin r \<Rightarrow> Inr (Fin r) | _ \<Rightarrow> Inl OverflowError)"

definition lift_num :: "(int \<Rightarrow> int \<Rightarrow> int) \<Rightarrow> (pyfloat \<Rightarrow> pyfloat \<Rightarrow> pyfloat) \<Rightarrow> num \<Rightarrow> num \<Rightarrow> num py" where
  "lift_num f g x y = (case (x, y) of (I a, I b) \<Rightarrow> Inr (I (f a b))
     | _ \<Rightarrow> bindE (to_float x) (\<lambda>a. bindE (to_float y) (\<lambda>b. Inr (F (g a b)))))"

definition nadd :: "num \<Rightarrow> num \<Rightarrow> num py" where "nadd = lift_num (+) fadd"
definition nsub :: "num \<Rightarrow> num \<Rightarrow> num py" where "nsub = lift_num (-) fsub"
definition nmul :: "num \<Rightarrow> num \<Rightarrow> num py" where "nmul = lift_num (*) fmul"

text \<open>True division: two integers are divided exactly and rounded once.\<close>

definition ndiv :: "num \<Rightarrow> num \<Rightarrow> num py" where
  "ndiv x y = (if exact y = Fin 0 then Inl ZeroDivisionError else
     case (x, y) of (I a, I b) \<Rightarrow>
       (case rnd (of_int a / of_int b) of Fin r \<Rightarrow> Inr (F (Fin r)) | _ \<Rightarrow> Inl OverflowError)
     | _ \<Rightarrow> bindE (to_float x) (\<lambda>a. bindE (to_float y) (\<lambda>b. Inr (F (fdiv a b)))))"

primrec nabs :: "num \<Rightarrow> num" where
  "nabs (I n) = I \<bar>n\<bar>"
| "nabs (F x) = F (fabs x)"

fun num_ok :: "num \<Rightarrow> bool" where
  "num_ok (I n) = True"
| "num_ok (F x) = double_ok x"

primrec is_nan :: "num \<Rightarrow> bool" where
  "is_nan (I _) = False"
| "is_nan (F x) = (x = NaN)"

lemma nlt_irrefl [simp]: "\<not> nlt x x"
  by (simp add: nlt_def)

lemma nlt_total: "\<not> is_nan x \<Longrightarrow> \<not> is_nan y \<Longrightarrow> \<not> nlt x y \<longleftrightarrow> nle y x"
  unfolding nlt_def nle_def by (rule flt_total; cases x; cases y) auto

lemma nle_trans: "nle x y \<Longrightarrow> nle y z \<Longrightarrow> nle x z"
  unfolding nle_def by (cases "exact x"; cases "exact y"; cases "exact z") (auto simp: fle_def feq_def)

lemma nle_refl: "\<not> is_nan x \<Longrightarrow> nle x x"
  by (cases x) (auto simp: nle_def fle_def feq_def)

lemma nlt_I [simp]: "nlt (I a) (I b) \<longleftrightarrow> a < b" "nle (I a) (I b) \<longleftrightarrow> a \<le> b" "neq (I a) (I b) \<longleftrightarrow> a = b"
  by (auto simp: nlt_def nle_def neq_def feq_def)

section \<open>Documents\<close>

datatype json =
    JNull | JBool bool | JNum num | JStr string | JList "json list" | JObj "(string \<times> json) list"

abbreviation jint :: "int \<Rightarrow> json" where "jint n \<equiv> JNum (I n)"

fun truthy :: "json \<Rightarrow> bool" where
  "truthy JNull = False"
| "truthy (JBool b) = b"
| "truthy (JNum x) = (exact x \<noteq> Fin 0)"
| "truthy (JStr s) = (s \<noteq> [])"
| "truthy (JList xs) = (xs \<noteq> [])"
| "truthy (JObj d) = (d \<noteq> [])"

text \<open>\<open>v[k]\<close>, \<open>v.get(k)\<close>, \<open>v.get(k, w)\<close> and \<open>k in v\<close> on a document.\<close>

fun getitem :: "json \<Rightarrow> string \<Rightarrow> json py" where
  "getitem (JObj d) k = (case map_of d k of None \<Rightarrow> Inl KeyError | Some v \<Rightarrow> Inr v)"
| "getitem _ k = Inl TypeError"

fun get_or :: "json \<Rightarrow> string \<Rightarrow> json \<Rightarrow> json py" where
  "get_or (JObj d) k w = Inr (dict_get d k w)"
| "get_or _ k w = Inl AttributeError"

abbreviation get :: "json \<Rightarrow> string \<Rightarrow> json py" where "get v k \<equiv> get_or v k JNull"

lemma getitem_get: "getitem d k = Inr v \<Longrightarrow> get_or d k v0 = Inr v"
  by (cases d) (auto simp: dict_get_def split: option.splits)

fun has_key :: "json \<Rightarrow> string \<Rightarrow> bool" where
  "has_key (JObj d) k = (map_of d k \<noteq> None)"
| "has_key _ k = False"

text \<open>Iterating a list document, the numeric view of a value, the entries of a dictionary.\<close>

fun as_list :: "json \<Rightarrow> json list py" where
  "as_list (JList xs) = Inr xs"
| "as_list (JObj d) = Inr (map (JStr \<circ> fst) d)"
| "as_list (JStr s) = Inr (map (\<lambda>c. JStr [c]) s)"
| "as_list _ = Inl TypeError"

fun as_num :: "json \<Rightarrow> num py" where
  "as_num (JNum x) = Inr x"
| "as_num (JBool b) = Inr (I (if b then 1 else 0))"
| "as_num _ = Inl TypeError"

fun as_items :: "json \<Rightarrow> (string \<times> json) list py" where
  "as_items (JObj d) = Inr d"
| "as_items _ = Inl AttributeError"

fun as_str :: "json \<Rightarrow> string py" where
  "as_str (JStr s) = Inr s"
| "as_str _ = Inl TypeError"

text \<open>
  Python's \<open>==\<close> on documents: numbers (and booleans) by value, dictionaries by content
  whatever their order, lists element by element.
\<close>

function (sequential) jeq :: "json \<Rightarrow> json \<Rightarrow> bool"
  and jeq_list :: "json list \<Rightarrow> json list \<Rightarrow> bool"
  and jeq_sub :: "(string \<times> json) list \<Rightarrow> (string \<times> json) list \<Rightarrow> bool" where
  "jeq JNull w = (w = JNull)"
| "jeq (JStr s) w = (w = JStr s)"
| "jeq (JBool b) w = (case as_num w of Inl _ \<Rightarrow> False | Inr y \<Rightarrow> neq (I (if b then 1 else 0)) y)"
| "jeq (JNum x) w = (case as_num w of Inl _ \<Rightarrow> False | Inr y \<Rightarrow> neq x y)"
| "jeq (JList xs) (JList ys) = jeq_list xs ys"
| "jeq (JObj d) (JObj e) = (length d = length e \<and> jeq_sub d e)"
| "jeq _ _ = False"
| "jeq_list [] [] = True"
| "jeq_list (x # xs) (y # ys) = (jeq x y \<and> jeq_list xs ys)"
| "jeq_list _ _ = False"
| "jeq_sub [] e = True"
| "jeq_sub ((k, v) # d) e = ((case map_of e k of None \<Rightarrow> False | Some w \<Rightarrow> jeq v w) \<and> jeq_sub d e)"
  by pat_completeness auto
termination
  by (relation "measure (case_sum (\<lambda>(v, _). size v) (case_sum (\<lambda>(xs, _). size_list size xs)
        (\<lambda>(d, _). size_list (size_prod (\<lambda>_. 0) size) d)))") auto

lemma jeq_JStr_right [simp]: "jeq v (JStr s) \<longleftrightarrow> v = JStr s"
  by (cases v) auto

lemma jeq_JNull_right [simp]: "jeq v JNull \<longleftrightarrow> v = JNull"
  by (cases v) auto

lemma jeq_jint_right: "jeq v (jint n) \<longleftrightarrow> (\<exists>x. as_num v = Inr x \<and> neq x (I n))"
  by (cases v) auto

lemma jeq_list_strs [simp]: "jeq_list vs (map JStr ss) \<longleftrightarrow> vs = map JStr ss"
proof (induction ss arbitrary: vs)
  case Nil then show ?case by (cases vs) auto
next
  case (Cons s ss) then show ?case by (cases vs) auto
qed

section \<open>Text\<close>

text \<open>Text is a list of UTF-8 bytes; the tools split and compare it by ASCII characters only.\<close>

definition nl :: char where "nl = CHR 0x0A"

definition is_space :: "char \<Rightarrow> bool" where
  "is_space c \<longleftrightarrow> c \<in> {CHR 0x20, CHR 0x09, CHR 0x0A, CHR 0x0B, CHR 0x0C, CHR 0x0D, CHR 0x1C, CHR 0x1D, CHR 0x1E, CHR 0x1F}"

definition is_digit :: "char \<Rightarrow> bool" where
  "is_digit c \<longleftrightarrow> c \<in> set ''0123456789''"

definition digit_val :: "char \<Rightarrow> int" where
  "digit_val c = int (of_char c) - 48"

text \<open>Evaluation of the classes on the bits of a character.\<close>

lemma is_space_code [code]: "is_space (Char b0 b1 b2 b3 b4 b5 b6 b7) =
  (\<not> b7 \<and> \<not> b6 \<and> (if b5 then \<not> b4 \<and> \<not> b3 \<and> \<not> b2 \<and> \<not> b1 \<and> \<not> b0
     else b3 \<and> (if b4 then b2 else if b2 then \<not> b1 else b1 \<or> b0)))"
  by (cases b7; cases b6; cases b5; cases b4; cases b3; cases b2; cases b1; cases b0) (simp_all add: is_space_def)

lemma is_digit_code [code]: "is_digit (Char b0 b1 b2 b3 b4 b5 b6 b7) =
  (\<not> b7 \<and> \<not> b6 \<and> b5 \<and> b4 \<and> (b3 \<longrightarrow> \<not> b2 \<and> \<not> b1))"
  by (cases b7; cases b6; cases b5; cases b4; cases b3; cases b2; cases b1; cases b0) (simp_all add: is_digit_def)

text \<open>The word characters of a pattern (\<open>\w\<close>), for ASCII.\<close>

definition is_word :: "char \<Rightarrow> bool" where
  "is_word c \<longleftrightarrow> is_digit c \<or> c = CHR ''_'' \<or> (CHR ''a'' \<le> c \<and> c \<le> CHR ''z'') \<or> (CHR ''A'' \<le> c \<and> c \<le> CHR ''Z'')"

fun starts_with :: "string \<Rightarrow> string \<Rightarrow> bool" where
  "starts_with s [] = True"
| "starts_with [] (p # ps) = False"
| "starts_with (c # s) (p # ps) = (c = p \<and> starts_with s ps)"

text \<open>\<open>s.partition(sep)\<close>: the part before the first separator, whether one was found, the rest.\<close>

fun partition_at :: "string \<Rightarrow> string \<Rightarrow> string \<times> bool \<times> string" where
  "partition_at sep [] = ([], sep = [], [])"
| "partition_at sep (c # s) = (if starts_with (c # s) sep then ([], True, drop (length sep) (c # s))
     else (let r = partition_at sep s in (c # fst r, snd r)))"

definition contains :: "string \<Rightarrow> string \<Rightarrow> bool" where
  "contains sub s = fst (snd (partition_at sub s))"

text \<open>\<open>s.find(sub)\<close> and \<open>s.find(sub, start)\<close>, with None for -1.\<close>

fun find_sub :: "string \<Rightarrow> string \<Rightarrow> nat option" where
  "find_sub sub [] = (if sub = [] then Some 0 else None)"
| "find_sub sub (c # s) = (if starts_with (c # s) sub then Some 0 else map_option Suc (find_sub sub s))"

definition find_from :: "string \<Rightarrow> string \<Rightarrow> nat \<Rightarrow> nat option" where
  "find_from sub s start = map_option (\<lambda>i. start + i) (find_sub sub (drop start s))"

text \<open>\<open>s.split()\<close>: the maximal runs of characters that are not white space.\<close>

fun words_acc :: "string \<Rightarrow> string \<Rightarrow> string list" where
  "words_acc w [] = (if w = [] then [] else [rev w])"
| "words_acc w (c # s) =
    (if is_space c then (if w = [] then words_acc [] s else rev w # words_acc [] s)
     else words_acc (c # w) s)"

abbreviation split_words :: "string \<Rightarrow> string list" where "split_words \<equiv> words_acc []"

text \<open>\<open>s.splitlines()\<close>: a carriage return before a line feed ends one line, not two.\<close>

definition is_eol :: "char \<Rightarrow> bool" where
  "is_eol c \<longleftrightarrow> c \<in> {CHR 0x0A, CHR 0x0B, CHR 0x0C, CHR 0x0D, CHR 0x1C, CHR 0x1D, CHR 0x1E}"

lemma is_eol_code [code]: "is_eol (Char b0 b1 b2 b3 b4 b5 b6 b7) =
  (\<not> b7 \<and> \<not> b6 \<and> \<not> b5 \<and> b3 \<and> (if b4 then b2 \<and> (b1 \<longrightarrow> \<not> b0) else if b2 then \<not> b1 else b1))"
  by (cases b7; cases b6; cases b5; cases b4; cases b3; cases b2; cases b1; cases b0) (simp_all add: is_eol_def)

fun lines_acc :: "string \<Rightarrow> string \<Rightarrow> string list" where
  "lines_acc w [] = (if w = [] then [] else [rev w])"
| "lines_acc w (c # s) =
    (if is_eol c then rev w # lines_acc [] (if c = CHR 0x0D \<and> s \<noteq> [] \<and> hd s = nl then tl s else s)
     else lines_acc (c # w) s)"

abbreviation splitlines :: "string \<Rightarrow> string list" where "splitlines \<equiv> lines_acc []"

text \<open>Writing lines and reading them back.\<close>

lemma lines_acc_line: "\<forall>c \<in> set l. \<not> is_eol c \<Longrightarrow> lines_acc w (l @ nl # s) = (rev w @ l) # lines_acc [] s"
  by (induction l arbitrary: w) (auto simp: is_eol_def nl_def)

lemma splitlines_concat:
  "\<forall>l \<in> set ls. \<forall>c \<in> set l. \<not> is_eol c \<Longrightarrow> splitlines (concat (map (\<lambda>l. l @ [nl]) ls)) = ls"
  by (induction ls) (auto simp: lines_acc_line)

definition strip :: "string \<Rightarrow> string" where
  "strip s = rev (dropWhile is_space (rev (dropWhile is_space s)))"

text \<open>Decimal notation, with Python's single underscores between digits.\<close>

fun scan_digits :: "int \<Rightarrow> bool \<Rightarrow> string \<Rightarrow> int option" where
  "scan_digits acc prev [] = (if prev then Some acc else None)"
| "scan_digits acc prev (c # s) =
    (if is_digit c then scan_digits (10 * acc + digit_val c) True s
     else if c = CHR ''_'' \<and> prev then scan_digits acc False s else None)"

definition split_sign :: "string \<Rightarrow> bool \<times> string" where
  "split_sign s = (case s of c # r \<Rightarrow> if c = CHR ''-'' then (True, r) else if c = CHR ''+'' then (False, r)
     else (False, s) | [] \<Rightarrow> (False, s))"

definition parse_int :: "string \<Rightarrow> int option" where
  "parse_int s = (let sg = split_sign (strip s) in
     map_option (\<lambda>n. if fst sg then - n else n) (scan_digits 0 False (snd sg)))"

definition lower :: "string \<Rightarrow> string" where
  "lower s = map (\<lambda>c. if CHR ''A'' \<le> c \<and> c \<le> CHR ''Z'' then char_of (of_char c + (32::nat)) else c) s"

definition count_digits :: "string \<Rightarrow> int" where
  "count_digits s = int (length (filter is_digit s))"

text \<open>An optional digit run (empty allowed), the exponent part, then the whole literal.\<close>

definition opt_digits :: "string \<Rightarrow> int option" where
  "opt_digits s = (if s = [] then Some 0 else scan_digits 0 False s)"

definition parse_decimal :: "string \<Rightarrow> rat option" where
  "parse_decimal s =
    (let em = (case partition_at ''e'' s of (m, found, x) \<Rightarrow> (m, found, x));
         mant = fst em; found = fst (snd em); ex = split_sign (snd (snd em));
         ip = fst (partition_at ''.'' mant); dot = fst (snd (partition_at ''.'' mant));
         fp = snd (snd (partition_at ''.'' mant))
     in if ip = [] \<and> fp = [] then None
        else (case (opt_digits ip, opt_digits fp, if found then scan_digits 0 False (snd ex) else Some 0) of
            (Some a, Some b, Some e) \<Rightarrow>
              Some ((of_int a + of_int b / 10 powi (count_digits fp)) * 10 powi (if fst ex then - e else e))
          | _ \<Rightarrow> None))"

definition parse_float :: "string \<Rightarrow> pyfloat option" where
  "parse_float s = (let sg = split_sign (strip s); b = lower (snd sg) in
     if b = ''inf'' \<or> b = ''infinity'' then Some (if fst sg then NInf else PInf)
     else if b = ''nan'' then Some NaN
     else map_option (\<lambda>q. rnd (if fst sg then - q else q)) (parse_decimal b))"

text \<open>\<open>str(n)\<close>\<close>

function show_pos :: "int \<Rightarrow> string" where
  "show_pos n = (if n < 10 then [char_of (n + 48)] else show_pos (n div 10) @ [char_of (n mod 10 + 48)])"
  by pat_completeness auto
termination
  by (relation "measure nat") auto

declare show_pos.simps [simp del]

text \<open>Evaluation: the digits are read from a table.\<close>

lemma digit_table: "0 \<le> n \<Longrightarrow> n < 10 \<Longrightarrow> char_of (n + 48) = ''0123456789'' ! nat (n :: int)"
proof -
  assume "0 \<le> n" "n < 10"
  then have "n = 0 \<or> n = 1 \<or> n = 2 \<or> n = 3 \<or> n = 4 \<or> n = 5 \<or> n = 6 \<or> n = 7 \<or> n = 8 \<or> n = 9" by presburger
  then show ?thesis by (elim disjE) (simp_all add: char_of_def)
qed

lemma show_pos_code [code]:
  "show_pos n = (if n < 0 then [char_of (n + 48)] else if n < 10 then [''0123456789'' ! nat n]
     else show_pos (n div 10) @ [''0123456789'' ! nat (n mod 10)])"
  using digit_table [of n] digit_table [of "n mod 10"] by (subst show_pos.simps) auto

definition show_int :: "int \<Rightarrow> string" where
  "show_int n = (if n < 0 then CHR ''-'' # show_pos (- n) else show_pos n)"

definition show_bool :: "bool \<Rightarrow> string" where
  "show_bool b = (if b then ''True'' else ''False'')"

fun join :: "string \<Rightarrow> string list \<Rightarrow> string" where
  "join sep [] = []"
| "join sep [s] = s"
| "join sep (s # ss) = s @ sep @ join sep ss"

text \<open>\<open>f"{n:,}"\<close>: a comma before every third digit from the right.\<close>

fun group_rev :: "string \<Rightarrow> string" where
  "group_rev (a # b # c # d # s) = a # b # c # CHR '','' # group_rev (d # s)"
| "group_rev s = s"

definition show_grouped :: "int \<Rightarrow> string" where
  "show_grouped n = (if n < 0 then ''-'' else []) @ rev (group_rev (rev (show_pos \<bar>n\<bar>)))"

text \<open>\<open>f"{x:.kf}"\<close>: the exact value rounded half-even to \<open>k\<close> decimals; and with a sign, \<open>f"{x:+.kf}"\<close>.\<close>

definition pad_zeros :: "nat \<Rightarrow> string \<Rightarrow> string" where
  "pad_zeros n s = replicate (n - length s) (CHR ''0'') @ s"

fun show_fixed :: "nat \<Rightarrow> pyfloat \<Rightarrow> string" where
  "show_fixed k (Fin r) = (let ds = pad_zeros (k + 1) (show_pos (round_even (\<bar>r\<bar> * 10 ^ k)))
     in (if r < 0 then ''-'' else []) @ take (length ds - k) ds
        @ (if k = 0 then [] else CHR ''.'' # drop (length ds - k) ds))"
| "show_fixed k PInf = ''inf''"
| "show_fixed k NInf = ''-inf''"
| "show_fixed k NaN = ''nan''"

definition show_signed :: "nat \<Rightarrow> pyfloat \<Rightarrow> string" where
  "show_signed k x = (let s = show_fixed k x in if s \<noteq> [] \<and> hd s = CHR ''-'' then s else CHR ''+'' # s)"

definition fmt_num :: "nat \<Rightarrow> num \<Rightarrow> string py" where
  "fmt_num k x = bindE (to_float x) (\<lambda>f. Inr (show_fixed k f))"

text \<open>\<open>int(v)\<close> and \<open>float(v)\<close>\<close>

fun trunc_float :: "pyfloat \<Rightarrow> int py" where
  "trunc_float (Fin r) = Inr (if r < 0 then - \<lfloor>- r\<rfloor> else \<lfloor>r\<rfloor>)"
| "trunc_float NaN = Inl (ValueError ''cannot convert float NaN to integer'')"
| "trunc_float _ = Inl OverflowError"

fun num_int :: "num \<Rightarrow> int py" where
  "num_int (I n) = Inr n"
| "num_int (F x) = trunc_float x"

definition str_int :: "string \<Rightarrow> int py" where
  "str_int s = (case parse_int s of None \<Rightarrow> Inl (ValueError ''invalid literal for int()'') | Some n \<Rightarrow> Inr n)"

definition str_float :: "string \<Rightarrow> pyfloat py" where
  "str_float s = (case parse_float s of None \<Rightarrow> Inl (ValueError ''could not convert string to float'')
     | Some x \<Rightarrow> Inr x)"

fun to_int :: "json \<Rightarrow> int py" where
  "to_int (JNum x) = num_int x"
| "to_int (JBool b) = Inr (if b then 1 else 0)"
| "to_int (JStr s) = str_int s"
| "to_int _ = Inl TypeError"

fun jfloat :: "json \<Rightarrow> pyfloat py" where
  "jfloat (JNum x) = to_float x"
| "jfloat (JBool b) = Inr (Fin (if b then 1 else 0))"
| "jfloat (JStr s) = str_float s"
| "jfloat _ = Inl TypeError"

section \<open>The files a tool reads\<close>

text \<open>
  What a tool sees of the file system: the text of every regular file, the digest
  \<open>hashlib.sha256(...).hexdigest()\<close> of a text, \<open>json.loads\<close>, \<open>glob\<close> (directory, pattern)
  and \<open>Path.resolve\<close>.
  Theorems hold for every such world; paths are strings joined with a slash.
\<close>

record world =
  file_text :: "string \<Rightarrow> string option"
  sha256_hex :: "string \<Rightarrow> string"
  json_loads :: "string \<Rightarrow> json py"
  globbed :: "string \<Rightarrow> string \<Rightarrow> string list"
  resolved :: "string \<Rightarrow> string"

definition is_file :: "world \<Rightarrow> string \<Rightarrow> bool" where
  "is_file w p \<longleftrightarrow> file_text w p \<noteq> None"

definition read_text :: "world \<Rightarrow> string \<Rightarrow> string py" where
  "read_text w p = (case file_text w p of None \<Rightarrow> Inl FileNotFoundError | Some t \<Rightarrow> Inr t)"

definition file_sha :: "world \<Rightarrow> string \<Rightarrow> string py" where
  "file_sha w p = bindE (read_text w p) (\<lambda>t. Inr (sha256_hex w t))"

definition slash :: "string \<Rightarrow> string \<Rightarrow> string" where
  "slash d n = (if starts_with n ''/'' then n else d @ ''/'' @ n)"

text \<open>\<open>Path(p).name\<close>: the part after the last slash.\<close>

definition base_name :: "string \<Rightarrow> string" where
  "base_name p = rev (takeWhile (\<lambda>c. c \<noteq> CHR ''/'') (rev p))"

text \<open>\<open>Path(p).stem\<close> and \<open>Path(p).parent\<close>\<close>

definition path_stem :: "string \<Rightarrow> string" where
  "path_stem p = (let n = base_name p; ext = takeWhile (\<lambda>c. c \<noteq> CHR ''.'') (rev n); r = length n - length ext
     in if 1 < r \<and> ext \<noteq> [] then take (r - 1) n else n)"

definition path_parent :: "string \<Rightarrow> string" where
  "path_parent p = (let k = length p - length (base_name p) in if k = 0 then ''.'' else if k = 1 then ''/'' else take (k - 1) p)"

text \<open>\<open>Path(p).parents\<close>, the nearest first.\<close>

function path_parents :: "string \<Rightarrow> string list" where
  "path_parents p = (if p = [] \<or> p = ''.'' \<or> p = ''/'' then [] else path_parent p # path_parents (path_parent p))"
  by pat_completeness auto
termination
  by (relation "measure (\<lambda>p. if p = [] \<or> p = ''.'' \<or> p = ''/'' then 0 else Suc (length p))")
    (auto simp: path_parent_def Let_def)

declare path_parents.simps [simp del]

definition nthE :: "'a list \<Rightarrow> nat \<Rightarrow> 'a py" where
  "nthE xs i = (if i < length xs then Inr (xs ! i) else Inl IndexError)"

lemma nthE_Inr [simp]: "nthE xs i = Inr x \<longleftrightarrow> i < length xs \<and> x = xs ! i"
  by (auto simp: nthE_def)

lemma file_sha_Inr: "file_sha w p = Inr h \<longleftrightarrow> (\<exists>t. file_text w p = Some t \<and> h = sha256_hex w t)"
  by (auto simp: file_sha_def read_text_def split: option.splits)

lemma read_text_Inr: "read_text w p = Inr t \<longleftrightarrow> file_text w p = Some t"
  by (auto simp: read_text_def split: option.splits)

text \<open>Reading a joined path back.\<close>

lemma slash_parts:
  assumes "d \<noteq> []" "x \<noteq> []" "CHR ''/'' \<notin> set x"
  shows "base_name (slash d x) = x" "path_parent (slash d x) = d" "path_parents (slash d x) = d # path_parents d"
proof -
  have sl: "slash d x = d @ CHR ''/'' # x" using assms by (cases x) (auto simp: slash_def)
  have "takeWhile (\<lambda>c. c \<noteq> CHR ''/'') (rev x @ CHR ''/'' # rev d) = rev x"
    using assms(3) by (subst takeWhile_append2) auto
  then show b: "base_name (slash d x) = x" by (simp add: base_name_def sl)
  have "length d \<noteq> 0" using assms by simp
  then show par: "path_parent (slash d x) = d" unfolding path_parent_def b by (simp add: sl Let_def)
  have "slash d x \<noteq> []" "slash d x \<noteq> ''.''" "slash d x \<noteq> ''/''" using assms(1) by (auto simp: sl Cons_eq_append_conv append_eq_Cons_conv)
  then show "path_parents (slash d x) = d # path_parents d" by (subst path_parents.simps) (simp add: par)
qed

lemma stem_jsonl:
  assumes "n \<noteq> []" "base_name p = n @ ''.jsonl''" shows "path_stem p = n"
proof -
  have "takeWhile (\<lambda>c. c \<noteq> CHR ''.'') (rev (n @ ''.jsonl'')) = rev ''jsonl''" by simp
  then show ?thesis using assms by (simp add: path_stem_def Let_def)
qed

end
