(* ===== verification/PyStats.thy ===== *)
theory PyStats
  imports PyBase
begin

text \<open>
  The functions of Python's \<open>statistics\<close> module the tools call: \<open>median\<close>, \<open>mean\<close>, \<open>stdev\<close>,
  \<open>pstdev\<close> and \<open>quantiles(n=4, method="inclusive")\<close>, on lists of numbers, with sorting by \<open><\<close>.
  \<open>mean\<close> and the deviations sum exact fractions and round once, as the module does.
\<close>

section \<open>Sorting numbers\<close>

fun num_insert :: "num \<Rightarrow> num list \<Rightarrow> num list" where
  "num_insert x [] = [x]"
| "num_insert x (y # ys) = (if nlt x y then x # y # ys else y # num_insert x ys)"

definition num_sort :: "num list \<Rightarrow> num list" where
  "num_sort xs = fold num_insert xs []"

lemma mset_num_insert [simp]: "mset (num_insert x ys) = add_mset x (mset ys)"
  by (induction x ys rule: num_insert.induct) auto

lemma mset_num_sort [simp]: "mset (num_sort xs) = mset xs"
proof -
  have "mset (fold num_insert xs ys) = mset xs + mset ys" for ys
    by (induction xs arbitrary: ys) auto
  then show ?thesis by (simp add: num_sort_def)
qed

lemma length_num_sort [simp]: "length (num_sort xs) = length xs"
  by (metis mset_num_sort size_mset)

lemma set_num_sort [simp]: "set (num_sort xs) = set xs"
  by (metis mset_num_sort set_mset_mset)

lemma sorted_num_insert:
  "sorted_wrt nle ys \<Longrightarrow> \<forall>y \<in> set (x # ys). \<not> is_nan y \<Longrightarrow> sorted_wrt nle (num_insert x ys)"
proof (induction x ys rule: num_insert.induct)
  case (2 x y ys)
  show ?case
  proof (cases "nlt x y")
    case True
    have xy: "nle x y" using True flt_total by (simp add: nlt_def nle_def fle_def)
    then show ?thesis using 2(2) True by (auto intro: nle_trans)
  next
    case False
    have yx: "nle y x" using False 2(3) nlt_total [of x y] by auto
    have "set (num_insert x ys) = insert x (set ys)"
      by (metis mset_num_insert set_mset_mset set_mset_add_mset_insert)
    then show ?thesis using False 2 yx by auto
  qed
qed auto

lemma sorted_num_sort:
  assumes "\<forall>x \<in> set xs. \<not> is_nan x" shows "sorted_wrt nle (num_sort xs)"
proof -
  have "sorted_wrt nle (fold num_insert xs ys)" if "sorted_wrt nle ys" "\<forall>x \<in> set (xs @ ys). \<not> is_nan x" for ys
    using that
  proof (induction xs arbitrary: ys)
    case (Cons x xs)
    have "set (num_insert x ys) = insert x (set ys)"
      by (metis mset_num_insert set_mset_mset set_mset_add_mset_insert)
    then show ?case using Cons by (auto intro!: Cons.IH sorted_num_insert)
  qed simp
  from this [of "[]"] show ?thesis using assms by (simp add: num_sort_def)
qed

definition num_min :: "num list \<Rightarrow> num py" where
  "num_min xs = (case xs of [] \<Rightarrow> Inl (ValueError ''min() arg is an empty sequence'')
     | y # ys \<Rightarrow> Inr (fold (\<lambda>x m. if nlt x m then x else m) ys y))"

definition num_max :: "num list \<Rightarrow> num py" where
  "num_max xs = (case xs of [] \<Rightarrow> Inl (ValueError ''max() arg is an empty sequence'')
     | y # ys \<Rightarrow> Inr (fold (\<lambda>x m. if nlt m x then x else m) ys y))"

section \<open>Averages\<close>

definition median :: "num list \<Rightarrow> num py" where
  "median xs = (let d = num_sort xs; n = length d in
     if n = 0 then Inl StatisticsError
     else if odd n then Inr (d ! (n div 2))
     else bindE (nadd (d ! (n div 2 - 1)) (d ! (n div 2))) (\<lambda>s. ndiv s (I 2)))"

primrec is_int :: "num \<Rightarrow> bool" where
  "is_int (I _) = True"
| "is_int (F _) = False"

text \<open>The exact sum of the finite values, and what the non-finite ones make of it.\<close>

fun exact_sum :: "num list \<Rightarrow> rat" where
  "exact_sum [] = 0"
| "exact_sum (x # xs) = (case exact x of Fin r \<Rightarrow> r | _ \<Rightarrow> 0) + exact_sum xs"

definition special_sum :: "num list \<Rightarrow> pyfloat" where
  "special_sum xs = fold (\<lambda>x s. if is_finite (exact x) then s else fadd s (exact x)) xs (Fin 0)"

definition mean :: "num list \<Rightarrow> num py" where
  "mean xs = (if xs = [] then Inl StatisticsError
     else if \<exists>x \<in> set xs. \<not> is_finite (exact x) then Inr (F (special_sum xs))
     else let m = exact_sum xs / of_nat (length xs) in
       if (\<forall>x \<in> set xs. is_int x) \<and> m = of_int \<lfloor>m\<rfloor> then Inr (I \<lfloor>m\<rfloor>)
       else (case rnd m of Fin r \<Rightarrow> Inr (F (Fin r)) | _ \<Rightarrow> Inl OverflowError))"

definition sum_squares :: "num list \<Rightarrow> rat" where
  "sum_squares xs = (let m = exact_sum xs / of_nat (length xs) in
     sum_list (map (\<lambda>x. case exact x of Fin r \<Rightarrow> (r - m) ^ 2 | _ \<Rightarrow> 0) xs))"

definition stdev :: "num list \<Rightarrow> num py" where
  "stdev xs = (if length xs < 2 then Inl StatisticsError
     else if \<exists>x \<in> set xs. \<not> is_finite (exact x) then Inl AttributeError
     else Inr (F (fsqrt (sum_squares xs / of_nat (length xs - 1)))))"

definition pstdev :: "num list \<Rightarrow> num py" where
  "pstdev xs = (if xs = [] then Inl StatisticsError
     else if \<exists>x \<in> set xs. \<not> is_finite (exact x) then Inl AttributeError
     else Inr (F (fsqrt (sum_squares xs / of_nat (length xs)))))"

text \<open>The three inclusive quartiles of at least two observations.\<close>

definition quartiles :: "num list \<Rightarrow> num list py" where
  "quartiles xs = (let d = num_sort xs; m = length d - 1 in
     if length d < 2 then Inl StatisticsError
     else mapE (\<lambda>i. let j = i * m div 4; e = i * m mod 4 in
        bindE (nmul (d ! j) (I (int (4 - e)))) (\<lambda>a.
        bindE (nmul (d ! (j + 1)) (I (int e))) (\<lambda>b.
        bindE (nadd a b) (\<lambda>s. ndiv s (I 4))))) [1, 2, 3])"

section \<open>What the averages satisfy\<close>

text \<open>
  The median of doubles lies between two of them, rounding included: the midpoint of two
  neighbours of the sorted list is computed with two roundings, and neither leaves the interval.
\<close>

lemma sorted_wrt_nle_nth:
  "sorted_wrt nle d \<Longrightarrow> \<forall>x \<in> set d. \<not> is_nan x \<Longrightarrow> i \<le> j \<Longrightarrow> j < length d \<Longrightarrow> nle (d ! i) (d ! j)"
  by (cases "i = j") (auto simp: sorted_wrt_nth_less intro: nle_refl)

text \<open>
  A tame number is a representable value far from overflow (every integer up to \<open>2^53\<close> is one).
  Of tame numbers the median exists, is tame, and lies between the least and the greatest.
\<close>

definition tame :: "num \<Rightarrow> bool" where
  "tame x \<longleftrightarrow> (\<exists>r. exact x = Fin r \<and> rnd_rat r = r \<and> \<bar>r\<bar> \<le> 2 ^ 1000)"

lemma tame_not_nan: "tame x \<Longrightarrow> \<not> is_nan x"
  by (cases x) (auto simp: tame_def)

lemma tame_int: "\<bar>n\<bar> \<le> 2 ^ 53 \<Longrightarrow> tame (I n)"
proof -
  assume n: "\<bar>n\<bar> \<le> 2 ^ 53"
  then have "(of_int \<bar>n\<bar> :: rat) \<le> of_int (2 ^ 53)" by (simp only: of_int_le_iff)
  also have "\<dots> \<le> 2 ^ 1000" by simp
  finally show ?thesis using n by (simp add: tame_def rnd_rat_of_int)
qed

lemma small_rnd: "\<bar>rnd_rat q\<bar> \<le> 2 ^ 1001 \<Longrightarrow> rnd q = Fin (rnd_rat q)"
proof -
  assume "\<bar>rnd_rat q\<bar> \<le> 2 ^ 1001"
  moreover have "(2::rat) ^ 1001 < dbl_limit" unfolding dbl_limit_def by simp
  ultimately have "rnd_rat q < dbl_limit" "- dbl_limit < rnd_rat q" by linarith+
  then show ?thesis by (simp add: rnd_def Let_def)
qed

lemma to_float_tame: "exact x = Fin r \<Longrightarrow> rnd_rat r = r \<Longrightarrow> \<bar>r\<bar> \<le> 2 ^ 1000 \<Longrightarrow> to_float x = Inr (Fin r)"
proof -
  assume a: "exact x = Fin r" "rnd_rat r = r" "\<bar>r\<bar> \<le> 2 ^ 1000"
  have "(2::rat) ^ 1000 \<le> 2 ^ 1001" by simp
  then have "rnd r = Fin r" using small_rnd [of r] a by simp
  then show ?thesis using a(1) by (cases x) auto
qed

lemma midpoint_num:
  assumes x: "tame x" and y: "tame y" and xy: "nle x y"
  shows "\<exists>m. bindE (nadd x y) (\<lambda>s. ndiv s (I 2)) = Inr m \<and> tame m \<and> nle x m \<and> nle m y"
proof -
  obtain a where a: "exact x = Fin a" "rnd_rat a = a" "\<bar>a\<bar> \<le> 2 ^ 1000" using x by (auto simp: tame_def)
  obtain b where b: "exact y = Fin b" "rnd_rat b = b" "\<bar>b\<bar> \<le> 2 ^ 1000" using y by (auto simp: tame_def)
  have ab: "a \<le> b" using xy a(1) b(1) by (simp add: nle_def)
  define c where "c = (if is_int x \<and> is_int y then rnd_rat ((a + b) / 2) else rnd_rat (rnd_rat (a + b) / 2))"
  have c1: "a \<le> rnd_rat ((a + b) / 2) \<and> rnd_rat ((a + b) / 2) \<le> b"
    using a b ab by (intro dbl.enclose) auto
  have c2: "a \<le> rnd_rat (rnd_rat (a + b) / 2) \<and> rnd_rat (rnd_rat (a + b) / 2) \<le> b"
    using a b ab by (intro dbl.midpoint)
  have c: "a \<le> c" "c \<le> b" "rnd_rat c = c" using c1 c2 by (auto simp: c_def)
  then have cb: "\<bar>c\<bar> \<le> 2 ^ 1000" using a(3) b(3) by linarith
  have lim: "(2::rat) ^ 1000 \<le> 2 ^ 1001" by simp
  have m: "bindE (nadd x y) (\<lambda>s. ndiv s (I 2)) = Inr (F (Fin c))"
  proof (cases "is_int x \<and> is_int y")
    case True
    then obtain i j where ij: "x = I i" "y = I j" by (cases x; cases y) auto
    have "rnd ((a + b) / 2) = Fin c" using True cb lim by (subst small_rnd) (auto simp: c_def)
    moreover have "of_int i = a" "of_int j = b" using ij a(1) b(1) by simp_all
    ultimately show ?thesis using ij by (simp add: nadd_def lift_num_def ndiv_def)
  next
    case False
    have s: "2 * a \<le> rnd_rat (a + b) \<and> rnd_rat (a + b) \<le> 2 * b"
      using a b ab by (intro dbl.enclose rnd_rat_double) auto
    then have "\<bar>rnd_rat (a + b)\<bar> \<le> 2 * 2 ^ 1000" using a(3) b(3) by linarith
    then have "\<bar>rnd_rat (a + b)\<bar> \<le> 2 ^ 1001" by simp
    then have sum: "rnd (a + b) = Fin (rnd_rat (a + b))" by (rule small_rnd)
    have half: "rnd (rnd_rat (a + b) / 2) = Fin c" using False cb lim by (subst small_rnd) (auto simp: c_def)
    have two: "to_float (I 2) = Inr (Fin 2)" by simp
    have "nadd x y = Inr (F (Fin (rnd_rat (a + b))))"
      using False to_float_tame [OF a] to_float_tame [OF b] sum
      by (cases x; cases y) (auto simp: nadd_def lift_num_def simp del: to_float.simps)
    then show ?thesis using half two by (simp add: ndiv_def del: to_float.simps(2))
  qed
  moreover have "tame (F (Fin c))" using c(3) cb by (simp add: tame_def)
  ultimately show ?thesis using c(1,2) a(1) b(1) by (auto simp: nle_def)
qed

lemma nlt_nle: "nlt x y \<Longrightarrow> nle x y"
  by (simp add: nlt_def nle_def fle_def)

lemma num_min_bound:
  assumes "xs \<noteq> []" "\<forall>x \<in> set xs. \<not> is_nan x"
  shows "\<exists>m \<in> set xs. num_min xs = Inr m \<and> (\<forall>x \<in> set xs. nle m x)"
proof -
  have *: "fold (\<lambda>x m. if nlt x m then x else m) ys y \<in> insert y (set ys)
    \<and> (\<forall>x \<in> insert y (set ys). nle (fold (\<lambda>x m. if nlt x m then x else m) ys y) x)"
    if "\<forall>x \<in> insert y (set ys). \<not> is_nan x" for ys y
    using that
  proof (induction ys arbitrary: y)
    case Nil then show ?case by (simp add: nle_refl)
  next
    case (Cons x ys)
    define z where "z = (if nlt x y then x else y)"
    have z: "nle z x" "nle z y" "z \<in> {x, y}" "\<not> is_nan z"
      using Cons.prems nlt_total [of x y] by (auto simp: z_def nle_refl intro: nlt_nle)
    have "fold (\<lambda>x m. if nlt x m then x else m) ys z \<in> insert z (set ys)
      \<and> (\<forall>x \<in> insert z (set ys). nle (fold (\<lambda>x m. if nlt x m then x else m) ys z) x)"
      using Cons.prems z by (intro Cons.IH) auto
    then show ?case using z nle_trans [of _ z x] nle_trans [of _ z y] by (auto simp flip: z_def)
  qed
  obtain y ys where xs: "xs = y # ys" using assms(1) by (cases xs) auto
  then show ?thesis using * [of y ys] assms(2) by (auto simp: num_min_def)
qed

lemma num_max_bound:
  assumes "xs \<noteq> []" "\<forall>x \<in> set xs. \<not> is_nan x"
  shows "\<exists>m \<in> set xs. num_max xs = Inr m \<and> (\<forall>x \<in> set xs. nle x m)"
proof -
  have *: "fold (\<lambda>x m. if nlt m x then x else m) ys y \<in> insert y (set ys)
    \<and> (\<forall>x \<in> insert y (set ys). nle x (fold (\<lambda>x m. if nlt m x then x else m) ys y))"
    if "\<forall>x \<in> insert y (set ys). \<not> is_nan x" for ys y
    using that
  proof (induction ys arbitrary: y)
    case Nil then show ?case by (simp add: nle_refl)
  next
    case (Cons x ys)
    define z where "z = (if nlt y x then x else y)"
    have z: "nle x z" "nle y z" "z \<in> {x, y}" "\<not> is_nan z"
      using Cons.prems nlt_total [of y x] by (auto simp: z_def nle_refl intro: nlt_nle)
    have "fold (\<lambda>x m. if nlt m x then x else m) ys z \<in> insert z (set ys)
      \<and> (\<forall>x \<in> insert z (set ys). nle x (fold (\<lambda>x m. if nlt m x then x else m) ys z))"
      using Cons.prems z by (intro Cons.IH) auto
    then show ?case using z nle_trans [of x z] nle_trans [of y z] by (auto simp flip: z_def)
  qed
  obtain y ys where xs: "xs = y # ys" using assms(1) by (cases xs) auto
  then show ?thesis using * [of y ys] assms(2) by (auto simp: num_max_def)
qed

lemma median_tame:
  assumes ne: "xs \<noteq> []" and t: "\<forall>x \<in> set xs. tame x"
  shows "\<exists>m \<in> Collect tame. median xs = Inr m \<and> (\<exists>x \<in> set xs. nle x m) \<and> (\<exists>x \<in> set xs. nle m x)"
proof -
  define d where "d = num_sort xs"
  have d: "length d = length xs" "set d = set xs" by (auto simp: d_def)
  have nan: "\<forall>x \<in> set d. \<not> is_nan x" using t d(2) by (auto dest: tame_not_nan)
  have sorted: "sorted_wrt nle d" unfolding d_def using t by (intro sorted_num_sort) (auto dest: tame_not_nan)
  show ?thesis
  proof (cases "odd (length d)")
    case True
    then have i: "length d div 2 < length d" by presburger
    then have "d ! (length d div 2) \<in> set xs" using d(2) by (metis nth_mem)
    moreover have "median xs = Inr (d ! (length d div 2))"
      using True d ne by (auto simp: median_def Let_def simp flip: d_def)
    ultimately show ?thesis using t by (auto dest: tame_not_nan intro: nle_refl)
  next
    case False
    have "0 < length d" using ne d(1) by simp
    then have i: "length d div 2 < length d" "length d div 2 - 1 < length d" by linarith+
    then have mem: "d ! (length d div 2) \<in> set xs" "d ! (length d div 2 - 1) \<in> set xs"
      using d(2) by (metis nth_mem)+
    have "nle (d ! (length d div 2 - 1)) (d ! (length d div 2))"
      using sorted_wrt_nle_nth [OF sorted nan] i by auto
    from midpoint_num [OF _ _ this] mem t obtain m where
      "bindE (nadd (d ! (length d div 2 - 1)) (d ! (length d div 2))) (\<lambda>s. ndiv s (I 2)) = Inr m"
      "tame m" "nle (d ! (length d div 2 - 1)) m" "nle m (d ! (length d div 2))" by auto
    moreover from this(1) have "median xs = Inr m"
      using False ne d by (auto simp: median_def Let_def simp flip: d_def)
    ultimately show ?thesis using mem by auto
  qed
qed

theorem median_in_range:
  assumes ne: "xs \<noteq> []" and t: "\<forall>x \<in> set xs. tame x"
  obtains lo m hi where "num_min xs = Inr lo" "median xs = Inr m" "num_max xs = Inr hi"
    "nle lo m" "nle m hi" "lo \<in> set xs" "hi \<in> set xs" "\<forall>x \<in> set xs. nle lo x \<and> nle x hi"
proof -
  have nan: "\<forall>x \<in> set xs. \<not> is_nan x" using t by (auto dest: tame_not_nan)
  obtain lo where lo: "num_min xs = Inr lo" "lo \<in> set xs" "\<forall>x \<in> set xs. nle lo x"
    using num_min_bound [OF ne nan] by auto
  obtain hi where hi: "num_max xs = Inr hi" "hi \<in> set xs" "\<forall>x \<in> set xs. nle x hi"
    using num_max_bound [OF ne nan] by auto
  obtain m x y where "median xs = Inr m" "x \<in> set xs" "nle x m" "y \<in> set xs" "nle m y"
    using median_tame [OF ne t] by auto
  then show ?thesis using that lo hi nle_trans by blast
qed

lemma median_singleton: "median [x] = Inr x"
  by (simp add: median_def num_sort_def)

lemma median_empty: "median [] = Inl StatisticsError"
  by (simp add: median_def num_sort_def)

lemma mean_empty: "mean [] = Inl StatisticsError"
  by (simp add: mean_def)

end
