(* ===== verification/Histogram.thy ===== *)
theory Histogram
  imports PyStats
begin

text \<open>
  The latency histograms of \<open>tools/hft_acceptance/summarize.py\<close>: the logarithmic bucket grid
  (\<open>bucket_upper\<close>), nearest-rank quantiles (\<open>percentile\<close>), the consistency audit of one
  histogram (\<open>check_histogram\<close>) and the merge of several (\<open>merge\<close>).  The abstract view of a
  histogram is the sorted list of its observations, every one replaced by the upper end of
  its bucket (\<open>expand\<close>); quantiles and merging are proved to implement the nearest-rank
  quantile of the pooled observations.
\<close>

section \<open>Data\<close>

record histogram =
  samples :: int
  p50_ns :: int
  p99_ns :: int
  p999_ns :: int
  p99_pass_50us :: bool
  p999_pass_50us :: bool
  above_50us :: int
  max_sampled_ns :: int
  buckets :: "(int \<times> int) list"

text \<open>The quantile keys with numerator and denominator, in the order the loops visit them.\<close>

datatype qkey = P50 | P99 | P999

definition quantile_keys :: "(qkey \<times> int \<times> int) list" where
  "quantile_keys = [(P50, 50, 100), (P99, 99, 100), (P999, 999, 1000)]"

fun quantile_ns :: "qkey \<Rightarrow> histogram \<Rightarrow> int" where
  "quantile_ns P50 h = p50_ns h"
| "quantile_ns P99 h = p99_ns h"
| "quantile_ns P999 h = p999_ns h"

fun pass_50us :: "qkey \<Rightarrow> histogram \<Rightarrow> bool" where
  "pass_50us P50 h = True"
| "pass_50us P99 h = p99_pass_50us h"
| "pass_50us P999 h = p999_pass_50us h"

section \<open>Operations\<close>

definition bucket_upper :: "int \<Rightarrow> int" where
  "bucket_upper index =
    (if index < 64 then index
     else if 3775 \<le> index then 2 ^ 64 - 1
     else let exponent = (index - 64) div 64; sub = (index - 64) mod 64; base = 2 ^ nat (exponent + 6)
       in base + (sub + 1) * (base div 64) - 1)"

definition rank_of :: "int \<Rightarrow> int \<Rightarrow> int \<Rightarrow> int" where
  "rank_of n_samples numerator denominator = (n_samples * numerator + denominator - 1) div denominator"

fun scan_rank :: "int \<Rightarrow> int \<Rightarrow> (int \<times> int) list \<Rightarrow> int py" where
  "scan_rank rank seen [] = Inl (AssertionError ''histogram count mismatch'')"
| "scan_rank rank seen ((index, cnt) # bs) =
    (if rank \<le> seen + cnt then Inr (bucket_upper index) else scan_rank rank (seen + cnt) bs)"

definition percentile :: "histogram \<Rightarrow> int \<Rightarrow> int \<Rightarrow> int py" where
  "percentile h numerator denominator =
    (if denominator = 0 then Inl ZeroDivisionError
     else if samples h = 0 then Inr 0
     else scan_rank (rank_of (samples h) numerator denominator) 0 (buckets h))"

definition within_budget :: "histogram \<Rightarrow> int \<Rightarrow> int \<Rightarrow> bool" where
  "within_budget h n d \<longleftrightarrow> samples h \<noteq> 0 \<and> rank_of (samples h) n d \<le> samples h - above_50us h"

definition check_quantile :: "histogram \<Rightarrow> qkey \<times> int \<times> int \<Rightarrow> unit py" where
  "check_quantile h knd = (case knd of (key, n, d) \<Rightarrow>
     bindE (percentile h n d) (\<lambda>q.
     bindE (require (quantile_ns key h = q) (AssertionError ''quantile'')) (\<lambda>_.
     require (key = P50 \<or> pass_50us key h = within_budget h n d) (AssertionError ''pass_50us''))))"

definition check_histogram :: "histogram \<Rightarrow> unit py" where
  "check_histogram h =
     bindE (require (sum_list (map snd (buckets h)) = samples h) (AssertionError ''sum'')) (\<lambda>_.
     bindE (require (buckets h = sort (buckets h)) (AssertionError ''sorted'')) (\<lambda>_.
     bindE (require (card (fst ` set (buckets h)) = length (buckets h)) (AssertionError ''distinct'')) (\<lambda>_.
     bindE (require (\<forall>(index, cnt) \<in> set (buckets h). 0 \<le> index \<and> index < 3776 \<and> 0 < cnt)
       (AssertionError ''range'')) (\<lambda>_.
     bindE (mapE (check_quantile h) quantile_keys) (\<lambda>_.
     if samples h \<noteq> 0 then
       (case buckets h of [] \<Rightarrow> Inl IndexError
        | bs \<Rightarrow> require (max_sampled_ns h \<le> bucket_upper (fst (last bs))) (AssertionError ''max''))
     else require (max_sampled_ns h = 0) (AssertionError ''max''))))))"

text \<open>\<open>buckets[index] = buckets.get(index, 0) + cnt\<close> for the buckets of one histogram.\<close>

definition tally_buckets :: "(int \<times> int) list \<Rightarrow> (int \<times> int) list \<Rightarrow> (int \<times> int) list" where
  "tally_buckets bs acc = fold (\<lambda>(index, cnt) d.
     dict_put index ((case map_of d index of None \<Rightarrow> 0 | Some c \<Rightarrow> c) + cnt) d) bs acc"

definition pooled :: "histogram list \<Rightarrow> (int \<times> int) list \<Rightarrow> histogram" where
  "pooled hs acc = \<lparr>samples = sum_list (map samples hs), p50_ns = 0, p99_ns = 0, p999_ns = 0,
     p99_pass_50us = False, p999_pass_50us = False,
     above_50us = sum_list (map above_50us hs),
     max_sampled_ns = (if hs = [] then 0 else Max (set (map max_sampled_ns hs))),
     buckets = sort acc\<rparr>"

definition merge :: "histogram list \<Rightarrow> histogram py" where
  "merge hs =
     bindE (foldE (\<lambda>h acc. bindE (check_histogram h) (\<lambda>_. Inr (tally_buckets (buckets h) acc))) hs []) (\<lambda>acc.
     let result = pooled hs acc in
     bindE (percentile result 50 100) (\<lambda>p50.
     bindE (percentile result 99 100) (\<lambda>p99.
     bindE (percentile result 999 1000) (\<lambda>p999.
     let r = result\<lparr>p50_ns := p50, p99_ns := p99, p999_ns := p999,
           p99_pass_50us := within_budget result 99 100,
           p999_pass_50us := within_budget result 999 1000\<rparr>
     in bindE (check_histogram r) (\<lambda>_. Inr r)))))"

text \<open>The abstract view: the observations, each as the upper end of its bucket.\<close>

definition expand_buckets :: "(int \<times> int) list \<Rightarrow> int list" where
  "expand_buckets bs = concat (map (\<lambda>(index, cnt). replicate (nat cnt) (bucket_upper index)) bs)"

abbreviation expand :: "histogram \<Rightarrow> int list" where "expand h \<equiv> expand_buckets (buckets h)"

text \<open>The nearest-rank quantile of a list of observations.\<close>

definition nearest_rank :: "int list \<Rightarrow> int \<Rightarrow> int \<Rightarrow> int" where
  "nearest_rank xs n d = (if xs = [] then 0 else sort xs ! (nat (rank_of (int (length xs)) n d) - 1))"

section \<open>The bucket grid\<close>

lemma bucket_upper_low: "i < 64 \<Longrightarrow> bucket_upper i = i"
  by (simp add: bucket_upper_def)

lemma bucket_upper_log:
  assumes "64 \<le> i" "i < 3776"
  shows "bucket_upper i = (65 + (i - 64) mod 64) * 2 ^ nat ((i - 64) div 64) - 1"
proof (cases "i = 3775")
  case False
  define e where "e = nat ((i - 64) div 64)"
  have e: "nat ((i - 64) div 64 + 6) = e + 6" using assms by (simp add: e_def nat_add_distrib)
  have d: "(2::int) ^ (e + 6) div 64 = 2 ^ e" by (simp add: power_add)
  have "bucket_upper i = 2 ^ (e + 6) + ((i - 64) mod 64 + 1) * 2 ^ e - 1"
    using False assms unfolding bucket_upper_def Let_def e d by simp
  then show ?thesis by (simp add: e_def [symmetric] power_add distrib_right)
qed (simp add: bucket_upper_def)

lemma block_slot: "0 \<le> s \<Longrightarrow> s < 64 \<Longrightarrow> x = 64 * e + s \<Longrightarrow> x div 64 = e \<and> x mod 64 = (s::int)"
  by auto

text \<open>Writing an index as block and slot makes one step of the grid a step inside a block or to the next.\<close>

lemma bucket_upper_step:
  assumes "64 \<le> i" "i < 3775"
  shows "bucket_upper (i + 1) = bucket_upper i + 2 ^ nat ((i - 63) div 64)"
proof -
  obtain e s where e': "e = (i - 64) div 64" and s': "s = (i - 64) mod 64" by simp
  have i: "i = 64 + 64 * e + s" unfolding e' s' using mult_div_mod_eq [of 64 "i - 64"] by linarith
  have s: "0 \<le> s" "s < 64"
    unfolding s' using pos_mod_sign [of 64 "i - 64"] pos_mod_bound [of 64 "i - 64"] by linarith+
  have e: "0 \<le> e" using assms i s by linarith
  have d: "(i - 64) div 64 = e" "(i - 64) mod 64 = s" using e' s' by simp_all
  show ?thesis
  proof (cases "s = 63")
    case True
    then have "(i + 1 - 64) div 64 = e + 1" "(i + 1 - 64) mod 64 = 0" "(i - 63) div 64 = e + 1"
      by (auto simp: i)
    moreover have "nat (e + 1) = Suc (nat e)" using e by simp
    ultimately show ?thesis using assms True d by (simp add: bucket_upper_log)
  next
    case False
    then have "(i + 1 - 64) div 64 = e" "(i + 1 - 64) mod 64 = s + 1" "(i - 63) div 64 = e"
      using s block_slot [of "s + 1" "i + 1 - 64" e] block_slot [of "s + 1" "i - 63" e] by (auto simp: i)
    then show ?thesis using assms d by (simp add: bucket_upper_log algebra_simps)
  qed
qed

lemma bucket_upper_less_Suc: "0 \<le> i \<Longrightarrow> i < 3775 \<Longrightarrow> bucket_upper i < bucket_upper (i + 1)"
proof (cases "i < 63")
  case False
  assume i: "0 \<le> i" "i < 3775"
  show ?thesis
  proof (cases "i = 63")
    case True
    then show ?thesis by (simp add: bucket_upper_def)
  next
    case ne: False
    then show ?thesis using False i by (simp add: bucket_upper_step)
  qed
qed (simp add: bucket_upper_low)

lemma bucket_upper_strict_mono:
  assumes "0 \<le> i" "i < j" "j < 3776" shows "bucket_upper i < bucket_upper j"
proof -
  have "0 < n \<Longrightarrow> i + int n < 3776 \<Longrightarrow> bucket_upper i < bucket_upper (i + int n)" for n
  proof (induction n)
    case (Suc n)
    have st: "bucket_upper (i + int n) < bucket_upper (i + int n + 1)"
      using Suc.prems assms(1) by (intro bucket_upper_less_Suc) auto
    show ?case
    proof (cases "n = 0")
      case True
      then show ?thesis using st by simp
    next
      case False
      then have "bucket_upper i < bucket_upper (i + int n)" using Suc by auto
      then show ?thesis using st by (simp add: algebra_simps)
    qed
  qed simp
  from this [of "nat (j - i)"] show ?thesis using assms by simp
qed

lemma bucket_upper_mono: "0 \<le> i \<Longrightarrow> i \<le> j \<Longrightarrow> j < 3776 \<Longrightarrow> bucket_upper i \<le> bucket_upper j"
  using bucket_upper_strict_mono [of i j] by (cases "i = j") auto

lemma bucket_upper_nonneg: "0 \<le> i \<Longrightarrow> i < 3776 \<Longrightarrow> 0 \<le> bucket_upper i"
  using bucket_upper_mono [of 0 i] by (simp add: bucket_upper_low)

lemma bucket_upper_last: "bucket_upper 3775 = 2 ^ 64 - 1"
  by (simp add: bucket_upper_def)

text \<open>Every 64-bit value falls in exactly one bucket.\<close>

definition in_bucket :: "int \<Rightarrow> int \<Rightarrow> bool" where
  "in_bucket v i \<longleftrightarrow> 0 \<le> i \<and> i < 3776 \<and> v \<le> bucket_upper i \<and> (i = 0 \<or> bucket_upper (i - 1) < v)"

lemma in_bucket_unique:
  assumes "in_bucket v i" "in_bucket v j" shows "i = j"
proof -
  have "\<not> a < b" if "in_bucket v a" "in_bucket v b" for a b
    using that bucket_upper_mono [of a "b - 1"] by (auto simp: in_bucket_def)
  then show ?thesis using assms by (metis linorder_less_linear)
qed

lemma in_bucket_exists:
  assumes "0 \<le> v" "v < 2 ^ 64" shows "\<exists>i. in_bucket v i"
proof -
  let ?P = "\<lambda>n::nat. v \<le> bucket_upper (int n)"
  have P: "?P 3775" using assms(2) bucket_upper_last by simp
  define n where "n = (LEAST n. ?P n)"
  have n: "?P n" "n \<le> 3775"
    unfolding n_def using LeastI [of ?P, OF P] Least_le [of ?P, OF P] by simp_all
  have "n = 0 \<or> bucket_upper (int n - 1) < v"
  proof (cases n)
    case (Suc m)
    then have "\<not> ?P m" unfolding n_def using not_less_Least [of m ?P] by simp
    then show ?thesis using Suc by simp
  qed simp
  then show ?thesis using n by (intro exI [of _ "int n"]) (auto simp: in_bucket_def)
qed

lemma bucket_width:
  assumes "64 \<le> i" "i < 3776" "in_bucket v i" shows "(bucket_upper i - v) * 64 \<le> v - 1"
proof (cases "i = 64")
  case True
  then show ?thesis using assms by (simp add: in_bucket_def bucket_upper_def)
next
  case False
  define e where "e = (i - 64) div 64"
  have v: "bucket_upper (i - 1) < v" using assms by (auto simp: in_bucket_def)
  have st: "bucket_upper i = bucket_upper (i - 1) + 2 ^ nat e"
    using bucket_upper_step [of "i - 1"] False assms by (simp add: e_def)
  have "64 * 2 ^ nat e \<le> bucket_upper (i - 1) + 1"
  proof (cases "(i - 64) mod 64 = 0")
    case True
    then have i: "i = 64 + 64 * e" by (auto simp: e_def)
    then have "1 \<le> e" using False assms by auto
    have d: "(i - 1 - 64) div 64 = e - 1" "(i - 1 - 64) mod 64 = 63"
      using block_slot [of 63 "i - 1 - 64" "e - 1"] by (auto simp: i)
    have ne: "nat e = Suc (nat (e - 1))" using \<open>1 \<le> e\<close> by simp
    have "64 \<le> i - 1" "i - 1 < 3776" using False assms by auto
    from bucket_upper_log [OF this] have "bucket_upper (i - 1) = 128 * 2 ^ nat (e - 1) - 1"
      unfolding d by simp
    moreover have "(2::int) ^ nat e = 2 * 2 ^ nat (e - 1)" unfolding ne by simp
    ultimately show ?thesis by linarith
  next
    case ne: False
    obtain t where t: "t = (i - 64) mod 64" by simp
    have sm: "0 < t" "t < 64" using ne t pos_mod_sign [of 64 "i - 64"] pos_mod_bound [of 64 "i - 64"] by linarith+
    have "i - 64 = 64 * e + t" unfolding t e_def using mult_div_mod_eq [of 64 "i - 64"] by linarith
    then have "i - 1 - 64 = 64 * e + (t - 1)" by linarith
    then have d: "(i - 1 - 64) div 64 = e" "(i - 1 - 64) mod 64 = t - 1"
      using block_slot [of "t - 1" "i - 1 - 64" e] sm by linarith+
    have "64 \<le> i - 1" "i - 1 < 3776" using False assms by auto
    from bucket_upper_log [OF this]
    have "bucket_upper (i - 1) = (64 + t) * 2 ^ nat e - 1" unfolding d by simp
    moreover have "64 * 2 ^ nat e \<le> (64 + t) * (2::int) ^ nat e"
      using sm by (intro mult_right_mono) auto
    ultimately show ?thesis by linarith
  qed
  then show ?thesis using st v by (smt (verit, best))
qed


section \<open>Well-formed bucket lists\<close>

definition wf_buckets :: "(int \<times> int) list \<Rightarrow> bool" where
  "wf_buckets bs \<longleftrightarrow> sorted_wrt (<) (map fst bs) \<and> (\<forall>(i, c) \<in> set bs. 0 \<le> i \<and> i < 3776 \<and> 0 < c)"

lemma wf_buckets_Nil [simp]: "wf_buckets []"
  by (simp add: wf_buckets_def)

lemma wf_buckets_Cons:
  "wf_buckets ((i, c) # bs) \<longleftrightarrow> 0 \<le> i \<and> i < 3776 \<and> 0 < c \<and> (\<forall>b \<in> set bs. i < fst b) \<and> wf_buckets bs"
  by (auto simp: wf_buckets_def)

lemma sorted_fst: "sorted (bs :: (int \<times> int) list) \<Longrightarrow> sorted (map fst bs)"
  by (induction bs) (auto simp: less_eq_prod_def)

lemma strict_fst_sorted: "sorted_wrt (<) (map fst bs) \<Longrightarrow> sorted (bs :: (int \<times> int) list)"
  by (induction bs) (auto simp: less_eq_prod_def)

lemma checked_order:
  "bs = sort bs \<and> card (fst ` set bs) = length bs \<longleftrightarrow> sorted_wrt (<) (map fst (bs :: (int \<times> int) list))"
proof
  assume a: "bs = sort bs \<and> card (fst ` set bs) = length bs"
  then have "sorted (map fst bs)" by (metis sorted_fst sorted_sort)
  moreover have "distinct (map fst bs)" using a by (simp add: card_distinct)
  ultimately show "sorted_wrt (<) (map fst bs)" by (simp add: strict_sorted_iff)
next
  assume a: "sorted_wrt (<) (map fst bs)"
  then have "distinct (map fst bs)" by (simp add: strict_sorted_iff)
  then have "card (fst ` set bs) = length bs" using distinct_card by fastforce
  then show "bs = sort bs \<and> card (fst ` set bs) = length bs"
    using strict_fst_sorted [OF a] by (simp add: sort_key_id_if_sorted)
qed

lemma wf_buckets_sort:
  assumes "distinct (map fst bs)" "\<forall>(i, c) \<in> set bs. 0 \<le> i \<and> i < 3776 \<and> 0 < c"
  shows "wf_buckets (sort (bs :: (int \<times> int) list))"
proof -
  have "mset (map fst (sort bs)) = mset (map fst bs)" by simp
  then have "distinct (map fst (sort bs))" using assms(1) by (metis mset_eq_imp_distinct_iff)
  moreover have "sorted (map fst (sort bs))" by (simp add: sorted_fst)
  ultimately show ?thesis using assms(2) by (simp add: wf_buckets_def strict_sorted_iff)
qed

lemma expand_Nil [simp]: "expand_buckets [] = []"
  by (simp add: expand_buckets_def)

lemma expand_Cons [simp]:
  "expand_buckets ((i, c) # bs) = replicate (nat c) (bucket_upper i) @ expand_buckets bs"
  by (simp add: expand_buckets_def)

lemma expand_append [simp]: "expand_buckets (bs @ cs) = expand_buckets bs @ expand_buckets cs"
  by (simp add: expand_buckets_def)

lemma mset_expand_sort [simp]: "mset (expand_buckets (sort bs)) = mset (expand_buckets bs)"
proof -
  have "mset (expand_buckets bs) = (\<Sum>b \<in># mset bs. replicate_mset (nat (snd b)) (bucket_upper (fst b)))" for bs
    by (induction bs) auto
  then show ?thesis by simp
qed

lemma length_expand: "\<forall>(i, c) \<in> set bs. 0 \<le> c \<Longrightarrow> int (length (expand_buckets bs)) = sum_list (map snd bs)"
  by (induction bs) auto

lemma wf_length_expand: "wf_buckets bs \<Longrightarrow> int (length (expand_buckets bs)) = sum_list (map snd bs)"
  by (rule length_expand) (auto simp: wf_buckets_def)

lemma set_expand_wf: "wf_buckets bs \<Longrightarrow> set (expand_buckets bs) = bucket_upper ` fst ` set bs"
proof (induction bs)
  case (Cons b bs)
  then show ?case by (cases b) (auto simp: wf_buckets_Cons)
qed simp

lemma sorted_expand: "wf_buckets bs \<Longrightarrow> sorted (expand_buckets bs)"
proof (induction bs)
  case (Cons b bs)
  obtain i c where b: "b = (i, c)" by (cases b)
  have wf: "wf_buckets bs" using Cons b by (simp add: wf_buckets_Cons)
  have "bucket_upper i \<le> x" if "x \<in> set (expand_buckets bs)" for x
  proof -
    from that wf obtain j d where jd: "(j, d) \<in> set bs" "x = bucket_upper j" by (auto simp: set_expand_wf)
    then have "0 \<le> i" "i < j" "j < 3776" using Cons(2) b by (auto simp: wf_buckets_def)
    then show ?thesis using bucket_upper_mono [of i j] jd by simp
  qed
  then show ?case using Cons wf b by (auto simp: sorted_append)
qed simp

text \<open>A well-formed bucket list is determined by the observations it stands for.\<close>

lemma count_expand:
  "wf_buckets bs \<Longrightarrow> 0 \<le> i \<Longrightarrow> i < 3776 \<Longrightarrow>
   int (count (mset (expand_buckets bs)) (bucket_upper i)) = (case map_of bs i of None \<Rightarrow> 0 | Some c \<Rightarrow> c)"
proof (induction bs)
  case (Cons b bs)
  obtain j c where b: "b = (j, c)" by (cases b)
  have j: "0 \<le> j" "j < 3776" "0 < c" "\<forall>b \<in> set bs. j < fst b" "wf_buckets bs"
    using Cons b by (auto simp: wf_buckets_Cons)
  show ?case
  proof (cases "i = j")
    case True
    then have "map_of bs i = None" using j(4) by (auto simp: map_of_eq_None_iff)
    then show ?thesis using Cons True j b by simp
  next
    case False
    then have "bucket_upper i \<noteq> bucket_upper j"
      using bucket_upper_strict_mono [of i j] bucket_upper_strict_mono [of j i] Cons j by fastforce
    then show ?thesis using Cons False j b by simp
  qed
qed simp

lemma wf_distinct: "wf_buckets bs \<Longrightarrow> distinct (map fst bs)"
  by (simp add: wf_buckets_def strict_sorted_iff)

lemma wf_member:
  assumes "wf_buckets bs"
  shows "(i, c) \<in> set bs \<longleftrightarrow> 0 \<le> i \<and> i < 3776 \<and> 0 < c \<and> c = int (count (mset (expand_buckets bs)) (bucket_upper i))"
proof
  assume m: "(i, c) \<in> set bs"
  then have "map_of bs i = Some c" using wf_distinct [OF assms] by simp
  then show "0 \<le> i \<and> i < 3776 \<and> 0 < c \<and> c = int (count (mset (expand_buckets bs)) (bucket_upper i))"
    using m assms count_expand [OF assms] by (auto simp: wf_buckets_def)
next
  assume c: "0 \<le> i \<and> i < 3776 \<and> 0 < c \<and> c = int (count (mset (expand_buckets bs)) (bucket_upper i))"
  then have "(case map_of bs i of None \<Rightarrow> 0 | Some c \<Rightarrow> c) = c" using count_expand [OF assms] by simp
  then show "(i, c) \<in> set bs" using c by (auto split: option.splits dest: map_of_SomeD)
qed

lemma wf_canonical:
  assumes "wf_buckets bs" "wf_buckets cs" "mset (expand_buckets bs) = mset (expand_buckets cs)"
  shows "bs = cs"
proof -
  have "set bs = set cs" using wf_member [OF assms(1)] wf_member [OF assms(2)] assms(3) by auto
  moreover have "sorted bs" "sorted cs" "distinct bs" "distinct cs"
    using assms(1,2) wf_distinct strict_fst_sorted distinct_map by (auto simp: wf_buckets_def)
  ultimately show ?thesis by (simp add: sorted_distinct_set_unique)
qed


section \<open>Quantiles\<close>

lemma scan_rank_nth:
  assumes "wf_buckets bs" "seen < rank" "rank \<le> seen + sum_list (map snd bs)"
  shows "scan_rank rank seen bs = Inr (expand_buckets bs ! nat (rank - seen - 1))"
  using assms
proof (induction rank seen bs rule: scan_rank.induct)
  case (2 rank seen i c bs)
  have c: "0 < c" and wf: "wf_buckets bs" using 2(2) by (auto simp: wf_buckets_Cons)
  show ?case
  proof (cases "rank \<le> seen + c")
    case True
    then have "nat (rank - seen - 1) < nat c" using 2(3) by linarith
    then show ?thesis using True by (simp add: nth_append)
  next
    case False
    have "nat (rank - seen - 1) = nat c + nat (rank - (seen + c) - 1)" using False c by linarith
    then show ?thesis using 2(1) [OF False wf] 2(4) False by (simp add: nth_append)
  qed
qed simp

lemma rank_of_bounds:
  assumes "0 < m" "0 < n" "n \<le> d" shows "0 < rank_of m n d" "rank_of m n d \<le> m"
proof -
  have "0 < m * n" using assms by simp
  then have "d \<le> m * n + d - 1" by linarith
  then have "d div d \<le> (m * n + d - 1) div d" using assms by (intro zdiv_mono1) auto
  then show "0 < rank_of m n d" using assms by (simp add: rank_of_def)
  have "m * n \<le> m * d" using assms by (intro mult_left_mono) auto
  then have "m * n + d - 1 < (m + 1) * d" unfolding distrib_right by linarith
  moreover have "d * rank_of m n d \<le> m * n + d - 1"
    using mult_div_mod_eq [of d "m * n + d - 1"] pos_mod_sign [of d "m * n + d - 1"] assms
    unfolding rank_of_def by linarith
  ultimately have "d * rank_of m n d < d * (m + 1)" by (simp add: mult.commute)
  then have "rank_of m n d < m + 1" using assms by (simp only: mult_less_cancel_left_pos)
  then show "rank_of m n d \<le> m" by simp
qed

lemma percentile_nearest_rank:
  assumes "wf_buckets (buckets h)" "sum_list (map snd (buckets h)) = samples h" "0 < n" "n \<le> d"
  shows "percentile h n d = Inr (nearest_rank (expand h) n d)"
proof (cases "samples h = 0")
  case True
  then have "expand h = []" using wf_length_expand [OF assms(1)] assms(2) by simp
  then show ?thesis using True assms by (simp add: percentile_def nearest_rank_def)
next
  case False
  have len: "int (length (expand h)) = samples h" using wf_length_expand [OF assms(1)] assms(2) by simp
  then have pos: "0 < samples h" using False by linarith
  have r: "0 < rank_of (samples h) n d" "rank_of (samples h) n d \<le> samples h"
    using rank_of_bounds [OF pos assms(3,4)] by auto
  have "scan_rank (rank_of (samples h) n d) 0 (buckets h)
      = Inr (expand h ! nat (rank_of (samples h) n d - 0 - 1))"
    using assms(1,2) r by (intro scan_rank_nth) auto
  moreover have "nat (rank_of (samples h) n d - 0 - 1) = nat (rank_of (samples h) n d) - 1"
    using r by linarith
  moreover have "sort (expand h) = expand h" "expand h \<noteq> []"
    using sorted_expand [OF assms(1)] len pos by (auto simp: sort_key_id_if_sorted)
  ultimately show ?thesis using False assms len by (simp add: percentile_def nearest_rank_def)
qed

lemma nearest_rank_mset: "mset xs = mset ys \<Longrightarrow> nearest_rank xs n d = nearest_rank ys n d"
  unfolding nearest_rank_def by (metis mset_zero_iff mset_eq_length sorted_list_of_multiset_mset)

text \<open>What a nearest-rank quantile is: enough observations lie at or below it, too few strictly below.\<close>

lemma sorted_rank:
  assumes "sorted xs" "k < length xs"
  shows "k < length (filter (\<lambda>v. v \<le> xs ! k) xs)" "length (filter (\<lambda>v. v < xs ! k) xs) \<le> k"
proof -
  have "\<forall>v \<in> set (take (Suc k) xs). v \<le> xs ! k"
    using assms by (auto simp: in_set_conv_nth intro!: sorted_nth_mono)
  then have "filter (\<lambda>v. v \<le> xs ! k) (take (Suc k) xs) = take (Suc k) xs" by (simp add: filter_id_conv)
  then have "Suc k \<le> length (filter (\<lambda>v. v \<le> xs ! k) (take (Suc k) xs))
      + length (filter (\<lambda>v. v \<le> xs ! k) (drop (Suc k) xs))"
    using assms(2) by simp
  then show "k < length (filter (\<lambda>v. v \<le> xs ! k) xs)"
    unfolding length_append [symmetric] filter_append [symmetric] append_take_drop_id by simp
  have "\<forall>v \<in> set (drop k xs). xs ! k \<le> v"
    using assms by (auto simp: in_set_conv_nth intro!: sorted_nth_mono)
  then have "filter (\<lambda>v. v < xs ! k) (drop k xs) = []" by (auto simp: filter_empty_conv)
  then have "length (filter (\<lambda>v. v < xs ! k) (take k xs)) + length (filter (\<lambda>v. v < xs ! k) (drop k xs)) \<le> k"
    using length_filter_le [of "\<lambda>v. v < xs ! k" "take k xs"] by simp
  then show "length (filter (\<lambda>v. v < xs ! k) xs) \<le> k"
    unfolding length_append [symmetric] filter_append [symmetric] append_take_drop_id .
qed

lemma rank_of_ceiling:
  assumes "0 < d" shows "m * n \<le> d * rank_of m n d" "d * (rank_of m n d - 1) < m * n"
proof -
  have "d * rank_of m n d + (m * n + d - 1) mod d = m * n + d - 1"
    unfolding rank_of_def by (rule mult_div_mod_eq)
  moreover have "0 \<le> (m * n + d - 1) mod d" "(m * n + d - 1) mod d < d" using assms by auto
  ultimately show "m * n \<le> d * rank_of m n d" "d * (rank_of m n d - 1) < m * n"
    unfolding right_diff_distrib by linarith+
qed

lemma nearest_rank_quantile:
  assumes "xs \<noteq> []" "0 < n" "n \<le> d"
  shows "nearest_rank xs n d \<in> set xs"
    "n * int (length xs) \<le> d * int (length (filter (\<lambda>v. v \<le> nearest_rank xs n d) xs))"
    "d * int (length (filter (\<lambda>v. v < nearest_rank xs n d) xs)) < n * int (length xs)"
proof -
  let ?r = "rank_of (int (length xs)) n d"
  have r: "0 < ?r" "?r \<le> int (length xs)" using rank_of_bounds [of "int (length xs)" n d] assms by auto
  define k where "k = nat ?r - 1"
  have k: "k < length (sort xs)" "?r = int k + 1" using r by (auto simp: k_def)
  have q: "nearest_rank xs n d = sort xs ! k" using assms by (simp add: nearest_rank_def k_def)
  have c: "n * int (length xs) \<le> d * ?r" "d * (?r - 1) < n * int (length xs)"
    using rank_of_ceiling [of d "int (length xs)" n] assms by (simp_all add: mult.commute)
  have fl: "length (filter P (sort xs)) = length (filter P xs)" for P
    by (metis mset_filter mset_sort size_mset)
  show "nearest_rank xs n d \<in> set xs" using k nth_mem [OF k(1)] by (simp add: q)
  have "int k + 1 \<le> int (length (filter (\<lambda>v. v \<le> sort xs ! k) xs))"
    using sorted_rank(1) [OF _ k(1)] fl [of "\<lambda>v. v \<le> sort xs ! k"] by simp
  then have "d * ?r \<le> d * int (length (filter (\<lambda>v. v \<le> sort xs ! k) xs))"
    using assms k(2) by (intro mult_left_mono) auto
  then show "n * int (length xs) \<le> d * int (length (filter (\<lambda>v. v \<le> nearest_rank xs n d) xs))"
    using c(1) unfolding q by linarith
  have "int (length (filter (\<lambda>v. v < sort xs ! k) xs)) \<le> ?r - 1"
    using sorted_rank(2) [OF _ k(1)] fl [of "\<lambda>v. v < sort xs ! k"] k(2) by simp
  then have "d * int (length (filter (\<lambda>v. v < sort xs ! k) xs)) \<le> d * (?r - 1)"
    using assms by (intro mult_left_mono) auto
  then show "d * int (length (filter (\<lambda>v. v < nearest_rank xs n d) xs)) < n * int (length xs)"
    using c(2) unfolding q by linarith
qed

section \<open>The audit of a histogram\<close>

definition valid_histogram :: "histogram \<Rightarrow> bool" where
  "valid_histogram h \<longleftrightarrow> wf_buckets (buckets h) \<and> sum_list (map snd (buckets h)) = samples h
     \<and> p50_ns h = nearest_rank (expand h) 50 100
     \<and> p99_ns h = nearest_rank (expand h) 99 100 \<and> p99_pass_50us h = within_budget h 99 100
     \<and> p999_ns h = nearest_rank (expand h) 999 1000 \<and> p999_pass_50us h = within_budget h 999 1000
     \<and> (if expand h = [] then max_sampled_ns h = 0 else max_sampled_ns h \<le> last (expand h))"

lemma last_expand:
  assumes "wf_buckets bs" "bs \<noteq> []" shows "last (expand_buckets bs) = bucket_upper (fst (last bs))"
proof -
  obtain cs i c where bs: "bs = cs @ [(i, c)]" using assms(2) by (metis rev_exhaust surj_pair)
  then have "0 < nat c" using assms(1) by (auto simp: wf_buckets_def)
  then show ?thesis by (simp add: bs last_append)
qed

lemma expand_empty: "wf_buckets bs \<Longrightarrow> expand_buckets bs = [] \<longleftrightarrow> bs = []"
  by (cases bs) (auto simp: wf_buckets_Cons)

lemma check_quantile_Inr:
  assumes "wf_buckets (buckets h)" "sum_list (map snd (buckets h)) = samples h" "0 < n" "n \<le> d"
  shows "check_quantile h (key, n, d) = Inr () \<longleftrightarrow> quantile_ns key h = nearest_rank (expand h) n d
    \<and> (key = P50 \<or> pass_50us key h = within_budget h n d)"
  using percentile_nearest_rank [OF assms] by (auto simp: check_quantile_def)

lemma check_histogram_iff: "check_histogram h = Inr () \<longleftrightarrow> valid_histogram h"
proof (cases "wf_buckets (buckets h) \<and> sum_list (map snd (buckets h)) = samples h")
  case True
  note wf = conjunct1 [OF True] and sm = conjunct2 [OF True]
  have ord: "buckets h = sort (buckets h)" "card (fst ` set (buckets h)) = length (buckets h)"
    using wf checked_order [of "buckets h"] by (auto simp: wf_buckets_def)
  have rng: "\<forall>(i, c) \<in> set (buckets h). 0 \<le> i \<and> i < 3776 \<and> 0 < c" using wf by (simp add: wf_buckets_def)
  have qs: "(\<exists>ys. mapE (check_quantile h) quantile_keys = Inr ys) \<longleftrightarrow>
      p50_ns h = nearest_rank (expand h) 50 100
     \<and> p99_ns h = nearest_rank (expand h) 99 100 \<and> p99_pass_50us h = within_budget h 99 100
     \<and> p999_ns h = nearest_rank (expand h) 999 1000 \<and> p999_pass_50us h = within_budget h 999 1000"
    using check_quantile_Inr [OF wf sm, of 50 100 P50] check_quantile_Inr [OF wf sm, of 99 100 P99]
      check_quantile_Inr [OF wf sm, of 999 1000 P999]
    by (auto simp: quantile_keys_def)
  have len: "int (length (expand h)) = samples h" using wf_length_expand [OF wf] sm by simp
  have mx: "(if samples h \<noteq> 0 then (case buckets h of [] \<Rightarrow> Inl IndexError
        | bs \<Rightarrow> require (max_sampled_ns h \<le> bucket_upper (fst (last bs))) (AssertionError ''max''))
     else require (max_sampled_ns h = 0) (AssertionError ''max'')) = Inr () \<longleftrightarrow>
     (if expand h = [] then max_sampled_ns h = 0 else max_sampled_ns h \<le> last (expand h))"
  proof (cases "buckets h = []")
    case False
    then have "samples h \<noteq> 0" using expand_empty [OF wf] len by auto
    then show ?thesis using False expand_empty [OF wf] last_expand [OF wf] by (auto split: list.splits)
  qed (use len in simp)
  show ?thesis
    unfolding check_histogram_def valid_histogram_def bindE_Inr require_Inr mx
    using qs True ord rng by auto
next
  case False
  then show ?thesis
    using checked_order [of "buckets h"]
    by (auto simp: check_histogram_def valid_histogram_def wf_buckets_def)
qed


section \<open>Merging\<close>

text \<open>One counting loop over the concatenated buckets.\<close>

lemma tally_buckets_append: "tally_buckets (bs @ cs) acc = tally_buckets cs (tally_buckets bs acc)"
  by (simp add: tally_buckets_def)

lemma replicate_mset_add: "replicate_mset (m + n) x = replicate_mset m x + replicate_mset n x"
  by (induction m) auto

lemma tally_step:
  assumes "\<forall>(i, c) \<in> set d. 0 \<le> c" "0 \<le> c"
  shows "mset (expand_buckets (dict_put i ((case map_of d i of None \<Rightarrow> 0 | Some n \<Rightarrow> n) + c) d))
    = mset (expand_buckets d) + replicate_mset (nat c) (bucket_upper i)"
  using assms(1)
proof (induction d)
  case (Cons b d)
  then show ?case using assms(2) by (cases b) (auto simp: nat_add_distrib replicate_mset_add union_assoc)
qed simp

definition tally_ok :: "(int \<times> int) list \<Rightarrow> bool" where
  "tally_ok d \<longleftrightarrow> distinct (map fst d) \<and> (\<forall>(i, c) \<in> set d. 0 \<le> i \<and> i < 3776 \<and> 0 < c)"

lemma set_dict_put: "distinct (map fst d) \<Longrightarrow> set (dict_put k v d) = insert (k, v) {b \<in> set d. fst b \<noteq> k}"
proof (induction d)
  case (Cons b d)
  then show ?case by (cases b) force
qed simp

lemma tally_buckets_ok:
  assumes "\<forall>(i, c) \<in> set bs. 0 \<le> i \<and> i < 3776 \<and> 0 < c" "tally_ok acc"
  shows "tally_ok (tally_buckets bs acc)
    \<and> mset (expand_buckets (tally_buckets bs acc)) = mset (expand_buckets acc) + mset (expand_buckets bs)"
  using assms
proof (induction bs arbitrary: acc)
  case (Cons b bs)
  obtain i c where b: "b = (i, c)" by (cases b)
  let ?n = "(case map_of acc i of None \<Rightarrow> 0 | Some n \<Rightarrow> n)"
  let ?d = "dict_put i (?n + c) acc"
  have ic: "0 \<le> i" "i < 3776" "0 < c" using Cons.prems b by auto
  have n: "0 \<le> ?n" using Cons.prems(2) by (force simp: tally_ok_def split: option.splits dest: map_of_SomeD)
  have ok: "tally_ok ?d"
    using Cons.prems(2) ic n by (auto simp: tally_ok_def set_dict_put distinct_dict_put)
  have "mset (expand_buckets ?d) = mset (expand_buckets acc) + replicate_mset (nat c) (bucket_upper i)"
    using Cons.prems(2) ic by (intro tally_step) (auto simp: tally_ok_def)
  moreover have "tally_buckets (b # bs) acc = tally_buckets bs ?d" by (simp add: tally_buckets_def b)
  ultimately show ?case using Cons.IH [OF _ ok] Cons.prems(1) b by (auto simp: ac_simps)
qed (simp add: tally_buckets_def)

lemma wf_pooled:
  assumes "tally_ok acc" "mset (expand_buckets acc) = mset (concat (map expand hs))"
    "\<forall>h \<in> set hs. valid_histogram h"
  shows "wf_buckets (buckets (pooled hs acc))"
    "sum_list (map snd (buckets (pooled hs acc))) = samples (pooled hs acc)"
proof -
  show wf: "wf_buckets (buckets (pooled hs acc))"
    using wf_buckets_sort assms(1) by (simp add: pooled_def tally_ok_def)
  have "int (length (expand h)) = samples h" if "h \<in> set hs" for h
    using assms(3) that wf_length_expand by (auto simp: valid_histogram_def)
  then have "int (length (concat (map expand hs))) = sum_list (map samples hs)" by (induction hs) auto
  moreover have "mset (expand (pooled hs acc)) = mset (concat (map expand hs))"
    using assms(2) by (simp add: pooled_def)
  ultimately show "sum_list (map snd (buckets (pooled hs acc))) = samples (pooled hs acc)"
    using wf_length_expand [OF wf] mset_eq_length [of "expand (pooled hs acc)" "concat (map expand hs)"]
    by (simp add: pooled_def)
qed

lemma merge_loop:
  assumes "\<forall>h \<in> set hs. valid_histogram h" "tally_ok acc"
  shows "\<exists>acc'. foldE (\<lambda>h acc. bindE (check_histogram h) (\<lambda>_. Inr (tally_buckets (buckets h) acc))) hs acc = Inr acc'
    \<and> tally_ok acc' \<and> mset (expand_buckets acc') = mset (expand_buckets acc) + mset (concat (map expand hs))"
  using assms
proof (induction hs arbitrary: acc)
  case (Cons h hs)
  have v: "valid_histogram h" and c: "check_histogram h = Inr ()" using Cons.prems by (auto simp: check_histogram_iff)
  have "\<forall>(i, c) \<in> set (buckets h). 0 \<le> i \<and> i < 3776 \<and> 0 < c"
    using v by (simp add: valid_histogram_def wf_buckets_def)
  note t = tally_buckets_ok [OF this Cons.prems(2)]
  obtain acc' where "foldE (\<lambda>h acc. bindE (check_histogram h) (\<lambda>_. Inr (tally_buckets (buckets h) acc))) hs
      (tally_buckets (buckets h) acc) = Inr acc'" "tally_ok acc'"
    "mset (expand_buckets acc') = mset (expand_buckets (tally_buckets (buckets h) acc)) + mset (concat (map expand hs))"
    using Cons.IH [of "tally_buckets (buckets h) acc"] Cons.prems(1) t by auto
  then show ?case using c t by (intro exI [of _ acc']) (auto simp: ac_simps)
qed simp

lemma max_within:
  assumes "\<forall>h \<in> set hs. valid_histogram h" "h \<in> set hs" "mset xs = mset (concat (map expand hs))" "sorted xs" "xs \<noteq> []"
  shows "max_sampled_ns h \<le> last xs"
proof -
  have top: "x \<le> last xs" if "x \<in> set xs" for x
    using that assms(4,5) by (cases xs rule: rev_cases) (auto simp: sorted_append)
  have st: "set xs = (\<Union>h \<in> set hs. set (expand h))"
    using mset_eq_setD [OF assms(3)] by (simp only: set_concat set_map image_image)
  have v: "valid_histogram h" using assms(1,2) by simp
  show ?thesis
  proof (cases "expand h = []")
    case True
    obtain g where g: "g \<in> set hs" "last xs \<in> set (expand g)" using assms(5) st last_in_set by blast
    then have "wf_buckets (buckets g)" using assms(1) by (auto simp: valid_histogram_def)
    then have "last xs \<in> bucket_upper ` fst ` set (buckets g)" using g(2) set_expand_wf by auto
    then obtain i c where i: "(i, c) \<in> set (buckets g)" "last xs = bucket_upper i" by auto
    have "0 \<le> i" "i < 3776" using i(1) \<open>wf_buckets (buckets g)\<close> unfolding wf_buckets_def by auto
    then have "0 \<le> last xs" using i(2) bucket_upper_nonneg by simp
    then show ?thesis using True v by (simp add: valid_histogram_def)
  next
    case False
    then have "last (expand h) \<in> set xs" unfolding st using assms(2) False last_in_set by blast
    from top [OF this] show ?thesis using False v unfolding valid_histogram_def by auto
  qed
qed


text \<open>What merging promises: the histogram of the pooled observations.\<close>

definition pooled_histogram :: "histogram list \<Rightarrow> histogram \<Rightarrow> bool" where
  "pooled_histogram hs r \<longleftrightarrow> valid_histogram r
     \<and> mset (expand r) = mset (concat (map expand hs))
     \<and> samples r = sum_list (map samples hs)
     \<and> above_50us r = sum_list (map above_50us hs)
     \<and> max_sampled_ns r = (if hs = [] then 0 else Max (set (map max_sampled_ns hs)))"

lemma merge_Inr:
  assumes "\<forall>h \<in> set hs. valid_histogram h"
  shows "\<exists>r. merge hs = Inr r \<and> pooled_histogram hs r"
proof -
  obtain acc where loop: "foldE (\<lambda>h acc. bindE (check_histogram h) (\<lambda>_. Inr (tally_buckets (buckets h) acc))) hs [] = Inr acc"
    and ok: "tally_ok acc" and ms: "mset (expand_buckets acc) = mset (concat (map expand hs))"
    using merge_loop [OF assms, of "[]"] by (auto simp: tally_ok_def)
  let ?p = "pooled hs acc"
  note wf = wf_pooled [OF ok ms assms]
  define r where "r = ?p\<lparr>p50_ns := nearest_rank (expand ?p) 50 100, p99_ns := nearest_rank (expand ?p) 99 100,
      p999_ns := nearest_rank (expand ?p) 999 1000, p99_pass_50us := within_budget ?p 99 100,
      p999_pass_50us := within_budget ?p 999 1000\<rparr>"
  have b: "within_budget r n d = within_budget ?p n d" for n d by (simp add: within_budget_def r_def)
  have e: "mset (expand r) = mset (concat (map expand hs))" using ms by (simp add: r_def pooled_def)
  have srt: "sorted (expand r)" using sorted_expand [OF wf(1)] by (simp add: r_def)
  have mx: "if expand r = [] then max_sampled_ns r = 0 else max_sampled_ns r \<le> last (expand r)"
  proof (cases "expand r = []")
    case True
    then have "\<forall>h \<in> set hs. max_sampled_ns h = 0" using e assms by (auto simp: valid_histogram_def)
    then have "set (map max_sampled_ns hs) \<subseteq> {0}" by auto
    then show ?thesis using True by (cases hs) (auto simp: r_def pooled_def subset_singleton_iff)
  next
    case False
    then have "hs \<noteq> []" using e by auto
    moreover have "\<forall>x \<in> set (map max_sampled_ns hs). x \<le> last (expand r)"
      using max_within [OF assms _ e srt False] by auto
    ultimately show ?thesis using False by (auto simp: r_def pooled_def)
  qed
  have "valid_histogram r"
    unfolding valid_histogram_def b using wf mx by (simp add: r_def)
  then have v: "pooled_histogram hs r" using e by (simp add: pooled_histogram_def r_def pooled_def)
  have "merge hs = Inr r"
    unfolding merge_def loop Let_def
    using percentile_nearest_rank [OF wf, of 50 100] percentile_nearest_rank [OF wf, of 99 100]
      percentile_nearest_rank [OF wf, of 999 1000] \<open>valid_histogram r\<close>
    by (simp add: check_histogram_iff flip: r_def)
  then show ?thesis using v by blast
qed

text \<open>The pooled histogram is unique, so merging depends on the observations only.\<close>

lemma pooled_unique:
  assumes "pooled_histogram hs r" "pooled_histogram gs q"
    "mset (concat (map expand hs)) = mset (concat (map expand gs))"
    "above_50us r = above_50us q" "max_sampled_ns r = max_sampled_ns q"
  shows "r = q"
proof -
  have v: "valid_histogram r" "valid_histogram q" using assms by (simp_all add: pooled_histogram_def)
  then have "buckets r = buckets q"
    using assms wf_canonical [of "buckets r" "buckets q"] by (simp add: pooled_histogram_def valid_histogram_def)
  moreover from this have "samples r = samples q" using v by (simp add: valid_histogram_def)
  ultimately show ?thesis
    using v assms(4,5) by (simp add: valid_histogram_def within_budget_def)
qed


section \<open>Properties\<close>

text \<open>C20. Histograms that pass the audit always merge; the result passes the audit and is the
  histogram of the pooled observations, its quantiles their nearest-rank quantiles.\<close>

theorem merge_correct:
  assumes "\<forall>h \<in> set hs. check_histogram h = Inr ()"
  shows "\<exists>r. merge hs = Inr r \<and> check_histogram r = Inr ()
    \<and> mset (expand r) = mset (concat (map expand hs))
    \<and> samples r = sum_list (map samples hs)
    \<and> above_50us r = sum_list (map above_50us hs)
    \<and> max_sampled_ns r = (if hs = [] then 0 else Max (set (map max_sampled_ns hs)))
    \<and> (\<forall>(key, n, d) \<in> set quantile_keys. quantile_ns key r = nearest_rank (concat (map expand hs)) n d)"
proof -
  obtain r where r: "merge hs = Inr r" "pooled_histogram hs r"
    using merge_Inr [of hs] assms by (auto simp: check_histogram_iff)
  then have "nearest_rank (expand r) n d = nearest_rank (concat (map expand hs)) n d" for n d
    by (auto simp: pooled_histogram_def intro: nearest_rank_mset)
  then show ?thesis
    using r by (auto simp: pooled_histogram_def valid_histogram_def quantile_keys_def check_histogram_iff)
qed

text \<open>Two observations, one at 10 ns and one in the first logarithmic bucket.\<close>

definition two_samples :: histogram where
  "two_samples = \<lparr>samples = 2, p50_ns = 10, p99_ns = 64, p999_ns = 64, p99_pass_50us = True,
     p999_pass_50us = True, above_50us = 0, max_sampled_ns = 64, buckets = [(10, 1), (64, 1)]\<rparr>"

lemma two_samples_checked: "check_histogram two_samples = Inr ()"
  by code_simp

lemma merge_correct_witness: "\<exists>r. merge [two_samples, two_samples] = Inr r \<and> samples r = 4"
  using merge_correct [of "[two_samples, two_samples]"] two_samples_checked
  by (auto simp: two_samples_def)

text \<open>C21. On an audited histogram \<open>percentile\<close> never runs off the buckets, and for \<open>n/d\<close> of the
  observations it returns one with at least that share at or below it and less strictly below.\<close>

theorem percentile_correct:
  assumes "check_histogram h = Inr ()" "0 < n" "n \<le> d" "samples h \<noteq> 0"
  shows "\<exists>q. percentile h n d = Inr q \<and> q \<in> set (expand h)
    \<and> n * samples h \<le> d * int (length (filter (\<lambda>v. v \<le> q) (expand h)))
    \<and> d * int (length (filter (\<lambda>v. v < q) (expand h))) < n * samples h"
proof -
  have v: "wf_buckets (buckets h)" "sum_list (map snd (buckets h)) = samples h"
    using assms(1) by (auto simp: check_histogram_iff valid_histogram_def)
  then have len: "int (length (expand h)) = samples h" using wf_length_expand by simp
  then have "expand h \<noteq> []" using assms(4) by auto
  from nearest_rank_quantile [OF this assms(2,3)] show ?thesis
    using percentile_nearest_rank [OF v assms(2,3)] len by auto
qed

lemma percentile_correct_witness: "\<exists>q. percentile two_samples 3 4 = Inr q \<and> q \<in> set (expand two_samples)"
proof -
  have "samples two_samples \<noteq> 0" by (simp add: two_samples_def)
  from percentile_correct [OF two_samples_checked, of 3 4, OF _ _ this] show ?thesis by auto
qed

text \<open>C22. The bucket grid covers the 64-bit values exactly: each lies in one bucket, and the bucket's
  upper end overstates a value of 64 or more by less than one part in 64.\<close>

theorem bucket_grid:
  assumes "0 \<le> v" "v < 2 ^ 64"
  shows "\<exists>!i. 0 \<le> i \<and> i < 3776 \<and> v \<le> bucket_upper i \<and> (i = 0 \<or> bucket_upper (i - 1) < v)
    \<and> (if i < 64 then bucket_upper i = v else (bucket_upper i - v) * 64 < v)"
proof -
  obtain i where i: "in_bucket v i" using in_bucket_exists [OF assms] by blast
  then have r: "0 \<le> i" "i < 3776" by (auto simp: in_bucket_def)
  have "if i < 64 then bucket_upper i = v else (bucket_upper i - v) * 64 < v"
  proof (cases "i < 64")
    case True
    then show ?thesis using i assms bucket_upper_low [of i] bucket_upper_low [of "i - 1"]
      by (auto simp: in_bucket_def)
  next
    case False
    then show ?thesis using bucket_width [OF _ r(2) i] by auto
  qed
  then show ?thesis using i in_bucket_unique [of v] unfolding in_bucket_def by metis
qed

lemma bucket_grid_witness: "\<exists>!i. 0 \<le> i \<and> i < 3776 \<and> 50000 \<le> bucket_upper i
    \<and> (i = 0 \<or> bucket_upper (i - 1) < 50000) \<and> (if i < 64 then bucket_upper i = 50000 else (bucket_upper i - 50000) * 64 < 50000)"
  by (rule bucket_grid) simp_all

text \<open>C23. Merging in stages is merging at once, in any order: pooling two audited groups and merging
  the two results gives the histogram obtained from all of them.\<close>

theorem merge_in_stages:
  assumes "\<forall>h \<in> set (hs @ gs). check_histogram h = Inr ()" "hs \<noteq> []" "gs \<noteq> []"
    "mset ks = mset (hs @ gs)"
  shows "bindE (merge hs) (\<lambda>r. bindE (merge gs) (\<lambda>q. merge [r, q])) = merge ks"
proof -
  have v: "\<forall>h \<in> set hs. valid_histogram h" "\<forall>h \<in> set gs. valid_histogram h"
    using assms(1) by (auto simp: check_histogram_iff)
  have vk: "\<forall>h \<in> set ks. valid_histogram h" using v mset_eq_setD [OF assms(4)] by auto
  obtain r q where r: "merge hs = Inr r" "pooled_histogram hs r" and q: "merge gs = Inr q" "pooled_histogram gs q"
    using merge_Inr [OF v(1)] merge_Inr [OF v(2)] by blast
  have "\<forall>h \<in> set [r, q]. valid_histogram h" using r q by (simp add: pooled_histogram_def)
  then obtain s where s: "merge [r, q] = Inr s" "pooled_histogram [r, q] s" using merge_Inr by blast
  obtain k where k: "merge ks = Inr k" "pooled_histogram ks k" using merge_Inr [OF vk] by blast
  have sum: "sum_list (map f ks) = sum_list (map f hs) + sum_list (map f gs)" for f :: "histogram \<Rightarrow> int"
    using arg_cong [OF assms(4), of "\<lambda>M. sum_mset (image_mset f M)"] by (simp flip: sum_mset_sum_list)
  have "mset (concat (map expand ks)) = mset (concat (map expand hs)) + mset (concat (map expand gs))"
    using arg_cong [OF assms(4), of "\<lambda>M. \<Sum>h \<in># M. mset (expand h)"]
    by (simp add: mset_concat comp_def flip: sum_mset_sum_list)
  then have "mset (concat (map expand [r, q])) = mset (concat (map expand ks))"
    using r q by (simp add: pooled_histogram_def)
  moreover have "above_50us s = above_50us k" using r q s k sum by (simp add: pooled_histogram_def)
  moreover have "max_sampled_ns s = max_sampled_ns k"
  proof -
    have "set ks = set hs \<union> set gs" using mset_eq_setD [OF assms(4)] by simp
    then have "Max (max_sampled_ns ` set ks) = max (Max (max_sampled_ns ` set hs)) (Max (max_sampled_ns ` set gs))"
      using assms by (simp add: image_Un Max_Un)
    moreover have "ks \<noteq> []" using assms by auto
    ultimately show ?thesis using r q s k assms by (simp add: pooled_histogram_def)
  qed
  ultimately have "s = k" using pooled_unique [OF s(2) k(2)] by blast
  then show ?thesis using r q s k by simp
qed

lemma merge_in_stages_witness:
  "bindE (merge [two_samples]) (\<lambda>r. bindE (merge [two_samples, two_samples]) (\<lambda>q. merge [r, q]))
    = merge [two_samples, two_samples, two_samples]"
  by (rule merge_in_stages) (simp_all add: two_samples_checked)

end
