(* ===== verification/HftPhase.thy ===== *)
theory HftPhase
  imports Histogram
begin

text \<open>
  One measured phase of the HFT acceptance suite (\<open>tools/hft_acceptance/summarize.py\<close>,
  \<open>load_phase\<close> to \<open>main\<close>): the rows of a raw JSONL file, the cross-checks between the worker
  counters and the histograms, the per-subscriber acceptance decision, and the summary of the
  eight-phase matrix.  Rows are records with the fields the tool reads; the reader of one JSON line
  is the parameter \<open>read_row\<close>.
\<close>

section \<open>Rows\<close>

record phase_start =
  subscriber_count :: int
  payload_bytes :: int
  pattern :: string
  duration_s :: int
  planned_total :: int
  diagnostics :: bool
  stall_subscriber_ms :: int
  steady_total_rate :: int
  peak_total_rate :: int
  burst_ms_per_second :: int
  capacity_per_publisher_bytes :: int
  publication_window_bytes :: int
  batch :: int
  poll_limit :: int
  sample_hash_mask :: int
  cpus :: "int list"

record publisher_row =
  publisher :: int
  sent :: int
  first_attempt_to_commit :: histogram
  planned_to_first_attempt :: histogram
  successful_claim :: "histogram option"
  failed_claim :: "histogram option"
  commit_call :: "histogram option"
  backpressure_retries :: int
  backpressure_episode_ns :: int
  unsent_backlog_highwater_observed :: int

record sequence_row =
  seq_publisher :: int
  unique :: int
  missing_published :: int
  duplicates :: int
  out_of_order :: int
  gap_events :: int
  corrupt :: int
  invalid :: int

record subscriber_row =
  subscriber :: int
  received :: int
  sub_integrity_pass :: bool
  sequences :: "sequence_row list"
  from_first_attempt :: histogram
  from_planned_arrival :: histogram

record phase_result =
  publishers :: "publisher_row list"
  subscribers :: "subscriber_row list"
  measurement_seconds :: int
  planned_published :: int
  wall_seconds :: num
  published :: int
  unsent_at_cutoff :: int
  delivered :: int
  offered_load_completed :: bool
  integrity_pass :: bool
  worker_failure :: bool
  actual_published_msg_s :: num
  aggregate_from_first_attempt :: histogram
  aggregate_from_planned_arrival :: histogram

record progress_row =
  due :: int
  sent_by_publisher :: "int list"
  received_by_subscriber :: "int list"

datatype row = StartRow phase_start | ResultRow phase_result | ProgressRow progress_row | OtherRow

record assessment =
  valid_and_complete :: bool
  worst_subscriber_p99 :: int
  worst_planned_p99_ns :: int
  p99_acceptance_pass :: bool
  worst_subscriber_p999 :: int
  worst_planned_p999_ns :: int
  p999_acceptance_pass :: bool

record phase =
  phase_name :: string
  raw_sha256 :: string
  start :: phase_start
  result :: phase_result
  progress_observations :: int
  max_due_minus_sent :: int
  max_due_minus_received :: "int list"
  max_sent_minus_received :: "int list"
  acceptance :: assessment

definition start_rows :: "row list \<Rightarrow> phase_start list" where
  "start_rows rows = List.map_filter (\<lambda>r. case r of StartRow s \<Rightarrow> Some s | _ \<Rightarrow> None) rows"

definition result_rows :: "row list \<Rightarrow> phase_result list" where
  "result_rows rows = List.map_filter (\<lambda>r. case r of ResultRow s \<Rightarrow> Some s | _ \<Rightarrow> None) rows"

definition progress_rows :: "row list \<Rightarrow> progress_row list" where
  "progress_rows rows = List.map_filter (\<lambda>r. case r of ProgressRow s \<Rightarrow> Some s | _ \<Rightarrow> None) rows"

section \<open>Loading a phase\<close>

abbreviation claim :: "bool \<Rightarrow> unit py" where "claim b \<equiv> require b (AssertionError [])"

definition check_counters :: "phase_start \<Rightarrow> phase_result \<Rightarrow> unit py" where
  "check_counters st r =
     bindE (claim (length (publishers r) = 2)) (\<lambda>_.
     bindE (claim (int (length (subscribers r)) = subscriber_count st)) (\<lambda>_.
     bindE (claim (map publisher (publishers r) = [0, 1])) (\<lambda>_.
     bindE (claim (map subscriber (subscribers r) = [0..subscriber_count st - 1])) (\<lambda>_.
     bindE (claim (measurement_seconds r = duration_s st)) (\<lambda>_.
     bindE (claim (planned_published r = planned_total st)) (\<lambda>_.
     bindE (claim (nle (I (duration_s st)) (wall_seconds r))) (\<lambda>_.
     bindE (claim (published r = sum_list (map sent (publishers r)))) (\<lambda>_.
     bindE (claim (planned_published r - published r = unsent_at_cutoff r)) (\<lambda>_.
     bindE (claim (delivered r = sum_list (map received (subscribers r)))) (\<lambda>_.
     bindE (claim (0 \<le> published r \<and> published r \<le> planned_published r)) (\<lambda>_.
     if offered_load_completed r
     then bindE (claim (unsent_at_cutoff r = 0)) (\<lambda>_.
       claim (delivered r = published r * subscriber_count st))
     else Inr ())))))))))))"

definition check_optional :: "phase_start \<Rightarrow> histogram option \<Rightarrow> unit py" where
  "check_optional st oh = (case oh of None \<Rightarrow> Inr () | Some h \<Rightarrow>
     bindE (check_histogram h) (\<lambda>_.
     if \<not> diagnostics st then require (samples h = 0) (AssertionError ''formal run contains diagnostic samples'')
     else Inr ()))"

definition check_publisher :: "phase_start \<Rightarrow> publisher_row \<Rightarrow> unit py" where
  "check_publisher st p =
     bindE (check_histogram (first_attempt_to_commit p)) (\<lambda>_.
     bindE (check_histogram (planned_to_first_attempt p)) (\<lambda>_.
     bindE (claim (samples (planned_to_first_attempt p) = samples (first_attempt_to_commit p))) (\<lambda>_.
     bindE (mapE (check_optional st) [successful_claim p, failed_claim p, commit_call p]) (\<lambda>_.
     if diagnostics st then
       (case successful_claim p of None \<Rightarrow> Inl KeyError | Some sc \<Rightarrow>
        case commit_call p of None \<Rightarrow> Inl KeyError | Some cc \<Rightarrow>
        claim (samples sc = samples cc \<and> samples cc = samples (first_attempt_to_commit p)))
     else Inr ()))))"

definition lossless :: "sequence_row \<Rightarrow> bool" where
  "lossless q \<longleftrightarrow> missing_published q = 0 \<and> duplicates q = 0 \<and> out_of_order q = 0 \<and> gap_events q = 0
     \<and> corrupt q = 0 \<and> invalid q = 0"

definition check_subscriber :: "phase_result \<Rightarrow> int \<Rightarrow> subscriber_row \<Rightarrow> unit py" where
  "check_subscriber r publisher_samples sub =
     bindE (claim (length (sequences sub) = 2)) (\<lambda>_.
     bindE (claim (map seq_publisher (sequences sub) = [0, 1])) (\<lambda>_.
     bindE (check_histogram (from_first_attempt sub)) (\<lambda>_.
     bindE (check_histogram (from_planned_arrival sub)) (\<lambda>_.
     if sub_integrity_pass sub then
       bindE (claim (samples (from_first_attempt sub) = publisher_samples)) (\<lambda>_.
       bindE (claim (samples (from_planned_arrival sub) = publisher_samples)) (\<lambda>_.
       bindE (claim (received sub = published r)) (\<lambda>_.
       bindE (mapE (\<lambda>(q, p). bindE (claim (unique q = sent p)) (\<lambda>_. claim (lossless q)))
         (zip (sequences sub) (publishers r))) (\<lambda>_. Inr ()))))
     else Inr ()))))"

definition check_aggregate :: "(subscriber_row \<Rightarrow> histogram) \<Rightarrow> phase_result \<Rightarrow> histogram \<Rightarrow> unit py" where
  "check_aggregate sel r h = bindE (merge (map sel (subscribers r))) (\<lambda>m. claim (m = h))"

text \<open>\<open>max(max(0, a - b) for each progress row)\<close>, 0 when there is none; a missing counter raises.\<close>

definition max_lag :: "('a \<Rightarrow> int py) \<Rightarrow> 'a list \<Rightarrow> int py" where
  "max_lag lag rows = bindE (mapE lag rows) (\<lambda>ls. Inr (fold max (map (max 0) ls) 0))"

text \<open>The first row with the greatest key, as Python's \<open>max\<close> picks it.\<close>

fun worst_by :: "('a \<Rightarrow> int) \<Rightarrow> 'a list \<Rightarrow> 'a py" where
  "worst_by key [] = Inl (ValueError ''max() arg is an empty sequence'')"
| "worst_by key (x # xs) = Inr (fold (\<lambda>y m. if key m < key y then y else m) xs x)"

definition phase_valid :: "phase_result \<Rightarrow> bool" where
  "phase_valid r \<longleftrightarrow> \<not> worker_failure r \<and> integrity_pass r \<and> offered_load_completed r
     \<and> unsent_at_cutoff r = 0
     \<and> (\<forall>sub \<in> set (subscribers r). sub_integrity_pass sub \<and> 0 < samples (from_planned_arrival sub))"

definition assess_phase :: "phase_result \<Rightarrow> assessment py" where
  "assess_phase r =
     bindE (worst_by (\<lambda>s. p99_ns (from_planned_arrival s)) (subscribers r)) (\<lambda>w99.
     bindE (worst_by (\<lambda>s. p999_ns (from_planned_arrival s)) (subscribers r)) (\<lambda>w999.
     Inr \<lparr>valid_and_complete = phase_valid r,
       worst_subscriber_p99 = subscriber w99,
       worst_planned_p99_ns = p99_ns (from_planned_arrival w99),
       p99_acceptance_pass = (phase_valid r \<and> (\<forall>s \<in> set (subscribers r). p99_pass_50us (from_planned_arrival s))),
       worst_subscriber_p999 = subscriber w999,
       worst_planned_p999_ns = p999_ns (from_planned_arrival w999),
       p999_acceptance_pass = (phase_valid r \<and> (\<forall>s \<in> set (subscribers r). p999_pass_50us (from_planned_arrival s)))\<rparr>))"

definition check_phase :: "phase_start \<Rightarrow> phase_result \<Rightarrow> unit py" where
  "check_phase st r =
     bindE (check_counters st r) (\<lambda>_.
     let total = sum_list (map (\<lambda>p. samples (first_attempt_to_commit p)) (publishers r)) in
     bindE (mapE (check_publisher st) (publishers r)) (\<lambda>_.
     bindE (mapE (check_subscriber r total) (subscribers r)) (\<lambda>_.
     bindE (if integrity_pass r
       then bindE (claim (\<not> worker_failure r)) (\<lambda>_. claim (\<forall>s \<in> set (subscribers r). sub_integrity_pass s))
       else Inr ()) (\<lambda>_.
     bindE (check_aggregate from_first_attempt r (aggregate_from_first_attempt r)) (\<lambda>_.
     check_aggregate from_planned_arrival r (aggregate_from_planned_arrival r))))))"

definition phase_of :: "string \<Rightarrow> string \<Rightarrow> row list \<Rightarrow> phase_start \<Rightarrow> phase_result \<Rightarrow> phase py" where
  "phase_of name sha rows st r =
     bindE (check_phase st r) (\<lambda>_.
     let progress = progress_rows rows; subs = [0..<length (subscribers r)] in
     bindE (max_lag (\<lambda>g. Inr (due g - sum_list (sent_by_publisher g))) progress) (\<lambda>due_sent.
     bindE (mapE (\<lambda>i. max_lag (\<lambda>g. bindE (nthE (received_by_subscriber g) i) (\<lambda>x. Inr (due g - x))) progress) subs) (\<lambda>due_recv.
     bindE (mapE (\<lambda>i. max_lag (\<lambda>g. bindE (nthE (received_by_subscriber g) i)
         (\<lambda>x. Inr (sum_list (sent_by_publisher g) - x))) progress) subs) (\<lambda>sent_recv.
     bindE (assess_phase r) (\<lambda>a.
     Inr \<lparr>phase_name = name, raw_sha256 = sha, start = st, result = r,
       progress_observations = int (length progress), max_due_minus_sent = due_sent,
       max_due_minus_received = due_recv, max_sent_minus_received = sent_recv, acceptance = a\<rparr>)))))"

definition load_phase :: "world \<Rightarrow> (string \<Rightarrow> row py) \<Rightarrow> string \<Rightarrow> phase py" where
  "load_phase w read_row path =
     bindE (read_text w path) (\<lambda>text.
     bindE (mapE read_row (splitlines text)) (\<lambda>rows.
     case (start_rows rows, result_rows rows) of
       ([st], [r]) \<Rightarrow> phase_of (path_stem path) (sha256_hex w text) rows st r
     | _ \<Rightarrow> Inl (AssertionError path)))"

definition check_formal_start :: "phase_start \<Rightarrow> unit py" where
  "check_formal_start st =
     bindE (require (\<not> diagnostics st) (AssertionError ''diagnostic run is not acceptance data'')) (\<lambda>_.
     bindE (require (stall_subscriber_ms st = 0) (AssertionError ''fault-injection run is not acceptance data'')) (\<lambda>_.
     bindE (require (steady_total_rate st = 1000000 \<and> peak_total_rate st = 4000000) (AssertionError ''offered rate changed'')) (\<lambda>_.
     claim (burst_ms_per_second st = (if pattern st = ''burst'' then 100 else 0)))))"


section \<open>The matrix of phases\<close>

definition phase_label :: "int \<Rightarrow> int \<Rightarrow> string \<Rightarrow> string" where
  "phase_label subs payload pat = ''2p'' @ show_int subs @ ''s-'' @ show_int payload @ ''b-'' @ pat"

definition expected_phases :: "string list" where
  "expected_phases = concat (map (\<lambda>s. concat (map (\<lambda>p. map (phase_label s p) [''steady'', ''burst'']) [64, 256])) [1, 2])"

text \<open>The arrivals the schedule plans for a phase.\<close>

definition planned_arrivals :: "phase_start \<Rightarrow> int" where
  "planned_arrivals st = (if pattern st = ''steady'' then duration_s st * steady_total_rate st
     else duration_s st * (peak_total_rate st * burst_ms_per_second st
        + steady_total_rate st * (1000 - burst_ms_per_second st)) div 1000)"

definition measurement_settings :: "phase_start \<Rightarrow> bool" where
  "measurement_settings st \<longleftrightarrow> (capacity_per_publisher_bytes st, publication_window_bytes st, batch st,
     poll_limit st, sample_hash_mask st) = (4194304, 131072, 1, 64, 63)"

definition check_matrix_phase :: "phase \<Rightarrow> unit py" where
  "check_matrix_phase ph = (let st = start ph in
     bindE (check_formal_start st) (\<lambda>_.
     bindE (claim (phase_name ph = phase_label (subscriber_count st) (payload_bytes st) (pattern st))) (\<lambda>_.
     bindE (claim (measurement_settings st)) (\<lambda>_.
     claim (planned_total st = planned_published (result ph) \<and> planned_published (result ph) = planned_arrivals st)))))"

record summary =
  measurement_seconds_sum :: int
  measurement_seconds_per_phase :: int
  summary_planned :: int
  summary_published :: int
  summary_delivered :: int
  published_payload_bytes :: int
  delivered_payload_bytes :: int
  sampled_deliveries :: int
  all_integrity_pass :: bool
  all_offered_load_completed :: bool
  all_stages_p99_acceptance_pass :: bool
  all_stages_p999_acceptance_pass :: bool
  global_from_first_attempt :: histogram
  global_from_planned_arrival :: histogram
  phases :: "phase list"
  run_state :: "string option"
  matrix_elapsed_wall_seconds :: "num option"

definition phase_sum :: "(phase \<Rightarrow> int) \<Rightarrow> phase list \<Rightarrow> int" where
  "phase_sum f phs = sum_list (map f phs)"

definition summary_of :: "int \<Rightarrow> phase list \<Rightarrow> histogram \<Rightarrow> histogram \<Rightarrow> summary" where
  "summary_of expected_seconds phs attempt planned =
     \<lparr>measurement_seconds_sum = phase_sum (\<lambda>p. measurement_seconds (result p)) phs,
      measurement_seconds_per_phase = expected_seconds,
      summary_planned = phase_sum (\<lambda>p. planned_published (result p)) phs,
      summary_published = phase_sum (\<lambda>p. published (result p)) phs,
      summary_delivered = phase_sum (\<lambda>p. delivered (result p)) phs,
      published_payload_bytes = phase_sum (\<lambda>p. published (result p) * payload_bytes (start p)) phs,
      delivered_payload_bytes = phase_sum (\<lambda>p. delivered (result p) * payload_bytes (start p)) phs,
      sampled_deliveries = samples attempt,
      all_integrity_pass = (\<forall>p \<in> set phs. integrity_pass (result p)),
      all_offered_load_completed = (\<forall>p \<in> set phs. offered_load_completed (result p)),
      all_stages_p99_acceptance_pass = (\<forall>p \<in> set phs. p99_acceptance_pass (acceptance p)),
      all_stages_p999_acceptance_pass = (\<forall>p \<in> set phs. p999_acceptance_pass (acceptance p)),
      global_from_first_attempt = attempt, global_from_planned_arrival = planned,
      phases = phs, run_state = None, matrix_elapsed_wall_seconds = None\<rparr>"

text \<open>\<open>start_epoch=\<close> and \<open>end_epoch=\<close> lines of the run state give the elapsed time when both are there.\<close>

definition epoch_lines :: "string \<Rightarrow> (string \<times> string) list" where
  "epoch_lines state = dict_of (map (\<lambda>l. (fst (partition_at ''='' l), snd (snd (partition_at ''='' l))))
     (filter (\<lambda>l. starts_with l ''start_epoch='' \<or> starts_with l ''end_epoch='') (splitlines state)))"

definition add_run_state :: "string option \<Rightarrow> summary \<Rightarrow> summary py" where
  "add_run_state state d = (case state of None \<Rightarrow> Inr d
     | Some t \<Rightarrow> (let timing = epoch_lines t; d1 = d\<lparr>run_state := Some t\<rparr> in
         case (map_of timing ''end_epoch'', map_of timing ''start_epoch'') of
           (Some e, Some b) \<Rightarrow> bindE (str_float e) (\<lambda>x. bindE (str_float b) (\<lambda>y.
              Inr (d1\<lparr>matrix_elapsed_wall_seconds := Some (F (fsub x y))\<rparr>)))
         | _ \<Rightarrow> Inr d1))"

definition summarize :: "world \<Rightarrow> (string \<Rightarrow> row py) \<Rightarrow> string \<Rightarrow> int \<Rightarrow> summary py" where
  "summarize w read_row directory expected_seconds =
     bindE (mapE (load_phase w read_row) (sort (globbed w directory ''2p*s-*b-*.jsonl''))) (\<lambda>phs.
     bindE (claim (set (map phase_name phs) = set expected_phases)) (\<lambda>_.
     bindE (claim (\<forall>p \<in> set phs. duration_s (start p) = expected_seconds)) (\<lambda>_.
     bindE (mapE check_matrix_phase phs) (\<lambda>_.
     bindE (merge (map (\<lambda>p. aggregate_from_first_attempt (result p)) phs)) (\<lambda>attempt.
     bindE (merge (map (\<lambda>p. aggregate_from_planned_arrival (result p)) phs)) (\<lambda>planned.
     add_run_state (file_text w (slash directory ''run-state.txt'')) (summary_of expected_seconds phs attempt planned)))))))"

section \<open>The report\<close>

definition micros :: "int \<Rightarrow> string py" where
  "micros ns = bindE (ndiv (I ns) (I 1000)) (fmt_num 3)"

definition cells :: "histogram \<Rightarrow> string py" where
  "cells h = bindE (mapE (\<lambda>ns. ndiv (I ns) (I 1000)) [p50_ns h, p99_ns h, p999_ns h, max_sampled_ns h])
     (\<lambda>vs. bindE (mapE (fmt_num 3) vs) (\<lambda>ss. Inr (join '' | '' ss)))"

definition verdict_word :: "bool \<Rightarrow> string" where
  "verdict_word b = (if b then ''PASS'' else ''FAIL'')"

definition pass_pair :: "histogram \<Rightarrow> string" where
  "pass_pair h = join ''/'' [verdict_word (p99_pass_50us h), verdict_word (p999_pass_50us h)]"

definition table_row :: "string list \<Rightarrow> string" where
  "table_row cs = ''| '' @ join '' | '' cs @ '' |''"

definition acceptance_line :: "phase \<Rightarrow> string py" where
  "acceptance_line p = (let a = acceptance p in
     bindE (micros (worst_planned_p99_ns a)) (\<lambda>x.
     bindE (micros (worst_planned_p999_ns a)) (\<lambda>y.
     Inr (table_row [phase_name p, show_bool (valid_and_complete a),
       x @ '' (S'' @ show_int (worst_subscriber_p99 a) @ '')'',
       y @ '' (S'' @ show_int (worst_subscriber_p999 a) @ '')'',
       verdict_word (p99_acceptance_pass a) @ ''/'' @ verdict_word (p999_acceptance_pass a)]))))"

definition histogram_line :: "(phase_result \<Rightarrow> histogram) \<Rightarrow> phase \<Rightarrow> string py" where
  "histogram_line sel p = bindE (cells (sel (result p)))
     (\<lambda>c. Inr (table_row [phase_name p, c, pass_pair (sel (result p))]))"

definition subscriber_line :: "string \<Rightarrow> subscriber_row \<Rightarrow> string py" where
  "subscriber_line name s = (let a = from_first_attempt s; h = from_planned_arrival s in
     bindE (mapE micros [p99_ns a, p999_ns a, p99_ns h, p999_ns h, max_sampled_ns h]) (\<lambda>t.
     Inr (table_row [name, show_int (subscriber s), t ! 0 @ ''/'' @ t ! 1, t ! 2 @ ''/'' @ t ! 3, t ! 4,
       show_grouped (samples h), show_bool (sub_integrity_pass s)])))"

definition load_line :: "phase \<Rightarrow> string py" where
  "load_line p = (let r = result p in
     bindE (bindE (ndiv (actual_published_msg_s r) (F (Fin 1000000))) (fmt_num 6)) (\<lambda>rate.
     bindE (bindE (ndiv (I (sum_list (map backpressure_episode_ns (publishers r)))) (F (Fin 1000000))) (fmt_num 3)) (\<lambda>bp.
     Inr (table_row [phase_name p, show_grouped (published r), show_grouped (delivered r), rate,
       show_grouped (unsent_at_cutoff r), show_grouped (sum_list (map backpressure_retries (publishers r))), bp,
       join ''/'' (map (\<lambda>x. show_int (unsent_backlog_highwater_observed x)) (publishers r))]))))"

text \<open>The tables of \<open>summary.md\<close>, one list of lines each, in the report's order.\<close>

definition report_tables :: "summary \<Rightarrow> string list list py" where
  "report_tables d =
     bindE (mapE acceptance_line (phases d)) (\<lambda>t1.
     bindE (mapE (histogram_line aggregate_from_first_attempt) (phases d)) (\<lambda>t2.
     bindE (mapE (histogram_line aggregate_from_planned_arrival) (phases d)) (\<lambda>t3.
     bindE (mapE (\<lambda>p. mapE (subscriber_line (phase_name p)) (subscribers (result p))) (phases d)) (\<lambda>t4.
     bindE (mapE load_line (phases d)) (\<lambda>t5.
     Inr [t1, t2, t3, concat t4, t5])))))"


section \<open>What loading establishes\<close>

text \<open>An audited phase: every check of \<open>load_phase\<close>, as one predicate.\<close>

definition consistent_subscriber :: "phase_result \<Rightarrow> subscriber_row \<Rightarrow> bool" where
  "consistent_subscriber r sub \<longleftrightarrow> valid_histogram (from_first_attempt sub) \<and> valid_histogram (from_planned_arrival sub)
     \<and> (sub_integrity_pass sub \<longrightarrow> received sub = published r
        \<and> (\<forall>(q, p) \<in> set (zip (sequences sub) (publishers r)). unique q = sent p \<and> lossless q))"

lemma check_subscriber_consistent:
  "check_subscriber r n sub = Inr () \<Longrightarrow> consistent_subscriber r sub"
  by (auto simp: check_subscriber_def consistent_subscriber_def check_histogram_iff mapE_Inr
      list_all2_conv_all_nth in_set_conv_nth split: if_splits prod.splits)

lemma check_aggregate_pooled:
  assumes "check_aggregate sel r h = Inr ()" "\<forall>s \<in> set (subscribers r). valid_histogram (sel s)"
  shows "pooled_histogram (map sel (subscribers r)) h"
  using merge_Inr [of "map sel (subscribers r)"] assms by (auto simp: check_aggregate_def)

lemma check_phase_facts:
  assumes "check_phase st r = Inr ()"
  shows "check_counters st r = Inr ()"
    "s \<in> set (subscribers r) \<Longrightarrow> consistent_subscriber r s"
    "pooled_histogram (map from_first_attempt (subscribers r)) (aggregate_from_first_attempt r)"
    "pooled_histogram (map from_planned_arrival (subscribers r)) (aggregate_from_planned_arrival r)"
proof -
  obtain us where c: "check_counters st r = Inr ()"
    and u: "mapE (check_subscriber r (sum_list (map (\<lambda>p. samples (first_attempt_to_commit p)) (publishers r)))) (subscribers r) = Inr us"
    and a: "check_aggregate from_first_attempt r (aggregate_from_first_attempt r) = Inr ()"
    and b: "check_aggregate from_planned_arrival r (aggregate_from_planned_arrival r) = Inr ()"
    using assms by (auto simp: check_phase_def Let_def)
  show "check_counters st r = Inr ()" by (rule c)
  have cs: "consistent_subscriber r s" if "s \<in> set (subscribers r)" for s
    using mapE_set [OF u that] by (auto dest: check_subscriber_consistent)
  then show "s \<in> set (subscribers r) \<Longrightarrow> consistent_subscriber r s" .
  show "pooled_histogram (map from_first_attempt (subscribers r)) (aggregate_from_first_attempt r)"
    using check_aggregate_pooled [OF a] cs by (simp add: consistent_subscriber_def)
  show "pooled_histogram (map from_planned_arrival (subscribers r)) (aggregate_from_planned_arrival r)"
    using check_aggregate_pooled [OF b] cs by (simp add: consistent_subscriber_def)
qed

text \<open>The worst subscriber bounds every subscriber.\<close>

lemma worst_by_max:
  assumes "worst_by key xs = Inr m" shows "m \<in> set xs" "x \<in> set xs \<Longrightarrow> key x \<le> key m"
proof -
  obtain y ys where xs: "xs = y # ys" using assms by (cases xs) auto
  have "fold (\<lambda>y m. if key m < key y then y else m) ys y \<in> set (y # ys)
    \<and> (\<forall>x \<in> set (y # ys). key x \<le> key (fold (\<lambda>y m. if key m < key y then y else m) ys y))" for y
  proof (induction ys arbitrary: y)
    case (Cons z zs)
    show ?case using Cons.IH [of "if key y < key z then z else y"] by (auto split: if_splits)
  qed simp
  then show "m \<in> set xs" "x \<in> set xs \<Longrightarrow> key x \<le> key m" using assms xs by auto
qed

lemma one_each_Inr:
  "(case (xs, ys) of ([x], [y]) \<Rightarrow> f x y | _ \<Rightarrow> Inl e) = Inr z \<longleftrightarrow> (\<exists>x y. xs = [x] \<and> ys = [y] \<and> f x y = Inr z)"
  by (auto split: list.splits)

lemma phase_of_parts:
  assumes "phase_of name sha rows st r = Inr ph"
  shows "check_phase (start ph) (result ph) = Inr ()" "assess_phase (result ph) = Inr (acceptance ph)"
    "phase_name ph = name" "raw_sha256 ph = sha"
  using assms by (auto simp: phase_of_def Let_def)

lemma load_phase_parts:
  assumes "load_phase w rd path = Inr ph"
  shows "check_phase (start ph) (result ph) = Inr ()" "assess_phase (result ph) = Inr (acceptance ph)"
    "phase_name ph = path_stem path" "\<exists>t. file_text w path = Some t \<and> raw_sha256 ph = sha256_hex w t"
proof -
  obtain t rows st r where t: "file_text w path = Some t"
    and ph: "phase_of (path_stem path) (sha256_hex w t) rows st r = Inr ph"
    using assms unfolding load_phase_def bindE_Inr one_each_Inr read_text_Inr by blast
  from phase_of_parts [OF ph] t show "check_phase (start ph) (result ph) = Inr ()"
    "assess_phase (result ph) = Inr (acceptance ph)" "phase_name ph = path_stem path"
    "\<exists>t. file_text w path = Some t \<and> raw_sha256 ph = sha256_hex w t" by auto
qed

lemma assess_phase_fields:
  assumes "assess_phase r = Inr a"
  shows "valid_and_complete a = phase_valid r"
    "p99_acceptance_pass a \<longleftrightarrow> phase_valid r \<and> (\<forall>s \<in> set (subscribers r). p99_pass_50us (from_planned_arrival s))"
    "p999_acceptance_pass a \<longleftrightarrow> phase_valid r \<and> (\<forall>s \<in> set (subscribers r). p999_pass_50us (from_planned_arrival s))"
    "s \<in> set (subscribers r) \<Longrightarrow> p99_ns (from_planned_arrival s) \<le> worst_planned_p99_ns a"
    "s \<in> set (subscribers r) \<Longrightarrow> p999_ns (from_planned_arrival s) \<le> worst_planned_p999_ns a"
  using assms by (auto simp: assess_phase_def dest: worst_by_max(2))

lemma within_budget_share:
  assumes "within_budget h n d" "0 < d" shows "n * samples h \<le> d * (samples h - above_50us h)"
proof -
  have "d * rank_of (samples h) n d \<le> d * (samples h - above_50us h)"
    using assms by (intro mult_left_mono) (auto simp: within_budget_def)
  then show ?thesis using rank_of_ceiling(1) [OF assms(2), of "samples h" n] by (simp add: mult.commute)
qed

section \<open>Properties\<close>

text \<open>C1. A phase accepted at p99 delivered everything: the offered load was sent in full, every
  subscriber received every published message once, in order and intact, and at least 99 percent of
  its own planned-arrival samples meet the budget; so no subscriber hides behind a pooled quantile.\<close>

theorem accepted_phase:
  assumes "load_phase w read_row path = Inr ph" "p99_acceptance_pass (acceptance ph)"
  shows "published (result ph) = planned_total (start ph)
    \<and> delivered (result ph) = published (result ph) * subscriber_count (start ph)
    \<and> (\<forall>s \<in> set (subscribers (result ph)). received s = published (result ph)
       \<and> (\<forall>(q, p) \<in> set (zip (sequences s) (publishers (result ph))). unique q = sent p \<and> lossless q)
       \<and> 0 < samples (from_planned_arrival s)
       \<and> 99 * samples (from_planned_arrival s) \<le> 100 * (samples (from_planned_arrival s) - above_50us (from_planned_arrival s))
       \<and> p99_ns (from_planned_arrival s) \<le> worst_planned_p99_ns (acceptance ph))"
proof -
  let ?r = "result ph"
  note parts = load_phase_parts [OF assms(1)]
  note facts = check_phase_facts [OF parts(1)] and fields = assess_phase_fields [OF parts(2)]
  have v: "phase_valid ?r" and pass: "\<forall>s \<in> set (subscribers ?r). p99_pass_50us (from_planned_arrival s)"
    using assms(2) fields(2) by auto
  have c: "planned_published ?r = planned_total (start ph)" "planned_published ?r - published ?r = unsent_at_cutoff ?r"
    "delivered ?r = published ?r * subscriber_count (start ph)"
    using facts(1) v by (auto simp: check_counters_def phase_valid_def)
  have sub: "received s = published ?r
       \<and> (\<forall>(q, p) \<in> set (zip (sequences s) (publishers ?r)). unique q = sent p \<and> lossless q)
       \<and> 0 < samples (from_planned_arrival s)
       \<and> 99 * samples (from_planned_arrival s) \<le> 100 * (samples (from_planned_arrival s) - above_50us (from_planned_arrival s))
       \<and> p99_ns (from_planned_arrival s) \<le> worst_planned_p99_ns (acceptance ph)"
    if s: "s \<in> set (subscribers ?r)" for s
  proof -
    note cs = facts(2) [OF s, unfolded consistent_subscriber_def]
    have ip: "sub_integrity_pass s" "0 < samples (from_planned_arrival s)" using v s by (auto simp: phase_valid_def)
    have "within_budget (from_planned_arrival s) 99 100" using pass s cs by (simp add: valid_histogram_def)
    from within_budget_share [OF this] show ?thesis using cs ip fields(4) [OF s] by simp
  qed
  show ?thesis using c v sub by (simp add: phase_valid_def)
qed


text \<open>Pooling pooled histograms pools all of their parts.\<close>

lemma pooled_quantiles:
  assumes "pooled_histogram hs r"
  shows "p50_ns r = nearest_rank (concat (map expand hs)) 50 100"
    "p99_ns r = nearest_rank (concat (map expand hs)) 99 100"
    "p999_ns r = nearest_rank (concat (map expand hs)) 999 1000"
  using assms nearest_rank_mset [of "expand r" "concat (map expand hs)"]
  by (auto simp: pooled_histogram_def valid_histogram_def)

lemma pooled_flatten:
  assumes "pooled_histogram (map f xs) r" "\<forall>x \<in> set xs. pooled_histogram (map g (parts x)) (f x)"
  shows "mset (expand r) = mset (concat (map (\<lambda>x. concat (map (\<lambda>y. expand (g y)) (parts x))) xs))"
    "samples r = sum_list (map (\<lambda>x. sum_list (map (\<lambda>y. samples (g y)) (parts x))) xs)"
proof -
  have "mset (concat (map expand (map f xs))) = mset (concat (map (\<lambda>x. concat (map (\<lambda>y. expand (g y)) (parts x))) xs))"
    using assms(2) by (induction xs) (auto simp: pooled_histogram_def comp_def)
  then show "mset (expand r) = mset (concat (map (\<lambda>x. concat (map (\<lambda>y. expand (g y)) (parts x))) xs))"
    using assms(1) by (simp add: pooled_histogram_def)
  have "sum_list (map samples (map f xs)) = sum_list (map (\<lambda>x. sum_list (map (\<lambda>y. samples (g y)) (parts x))) xs)"
    using assms(2) by (induction xs) (auto simp: pooled_histogram_def comp_def)
  then show "samples r = sum_list (map (\<lambda>x. sum_list (map (\<lambda>y. samples (g y)) (parts x))) xs)"
    using assms(1) by (simp add: pooled_histogram_def)
qed

lemma merge_pooled: "merge hs = Inr r \<Longrightarrow> \<forall>h \<in> set hs. valid_histogram h \<Longrightarrow> pooled_histogram hs r"
  using merge_Inr [of hs] by auto

lemma add_run_state_fields:
  assumes "add_run_state st d = Inr e"
  shows "phases e = phases d" "sampled_deliveries e = sampled_deliveries d"
    "global_from_first_attempt e = global_from_first_attempt d"
    "global_from_planned_arrival e = global_from_planned_arrival d"
    "measurement_seconds_sum e = measurement_seconds_sum d"
    "all_stages_p99_acceptance_pass e = all_stages_p99_acceptance_pass d"
  using assms by (auto simp: add_run_state_def Let_def split: option.splits)

text \<open>A phase with one subscriber and one sampled message.\<close>

definition one_sample :: histogram where
  "one_sample = \<lparr>samples = 1, p50_ns = 10, p99_ns = 10, p999_ns = 10, p99_pass_50us = True,
     p999_pass_50us = True, above_50us = 0, max_sampled_ns = 9, buckets = [(10, 1)]\<rparr>"

definition no_samples :: histogram where
  "no_samples = \<lparr>samples = 0, p50_ns = 0, p99_ns = 0, p999_ns = 0, p99_pass_50us = False,
     p999_pass_50us = False, above_50us = 0, max_sampled_ns = 0, buckets = []\<rparr>"

definition demo_start :: phase_start where
  "demo_start = \<lparr>subscriber_count = 1, payload_bytes = 64, pattern = ''steady'', duration_s = 1,
     planned_total = 2, diagnostics = False, stall_subscriber_ms = 0, steady_total_rate = 1000000,
     peak_total_rate = 4000000, burst_ms_per_second = 0, capacity_per_publisher_bytes = 4194304,
     publication_window_bytes = 131072, batch = 1, poll_limit = 64, sample_hash_mask = 63, cpus = [0, 1, 2]\<rparr>"

definition demo_publisher :: "int \<Rightarrow> histogram \<Rightarrow> publisher_row" where
  "demo_publisher i h = \<lparr>publisher = i, sent = 1, first_attempt_to_commit = h, planned_to_first_attempt = h,
     successful_claim = None, failed_claim = None, commit_call = None, backpressure_retries = 0,
     backpressure_episode_ns = 0, unsent_backlog_highwater_observed = 0\<rparr>"

definition demo_sequence :: "int \<Rightarrow> sequence_row" where
  "demo_sequence i = \<lparr>seq_publisher = i, unique = 1, missing_published = 0, duplicates = 0,
     out_of_order = 0, gap_events = 0, corrupt = 0, invalid = 0\<rparr>"

definition demo_result :: phase_result where
  "demo_result = \<lparr>publishers = [demo_publisher 0 one_sample, demo_publisher 1 no_samples],
     subscribers = [\<lparr>subscriber = 0, received = 2, sub_integrity_pass = True,
       sequences = [demo_sequence 0, demo_sequence 1], from_first_attempt = one_sample,
       from_planned_arrival = one_sample\<rparr>],
     measurement_seconds = 1, planned_published = 2, wall_seconds = I 2, published = 2,
     unsent_at_cutoff = 0, delivered = 2, offered_load_completed = True, integrity_pass = True,
     worker_failure = False, actual_published_msg_s = I 2, aggregate_from_first_attempt = one_sample,
     aggregate_from_planned_arrival = one_sample\<rparr>"

definition demo_world :: world where
  "demo_world = \<lparr>file_text = (\<lambda>p. if p = ''run.jsonl'' then Some (''s'' @ [nl] @ ''r'') else None),
     sha256_hex = (\<lambda>t. ''digest''), json_loads = (\<lambda>t. Inr JNull), globbed = (\<lambda>d pat. []),
     resolved = (\<lambda>p. p)\<rparr>"

definition demo_row :: "string \<Rightarrow> row py" where
  "demo_row l = Inr (if l = ''s'' then StartRow demo_start else ResultRow demo_result)"

lemma demo_loads: "load_phase demo_world demo_row ''run.jsonl'' = Inr
  \<lparr>phase_name = ''run'', raw_sha256 = ''digest'', start = demo_start, result = demo_result,
   progress_observations = 0, max_due_minus_sent = 0, max_due_minus_received = [0],
   max_sent_minus_received = [0],
   acceptance = \<lparr>valid_and_complete = True, worst_subscriber_p99 = 0, worst_planned_p99_ns = 10,
     p99_acceptance_pass = True, worst_subscriber_p999 = 0, worst_planned_p999_ns = 10,
     p999_acceptance_pass = True\<rparr>\<rparr>"
  by code_simp

lemma accepted_phase_witness: "\<exists>ph. load_phase demo_world demo_row ''run.jsonl'' = Inr ph
    \<and> published (result ph) = planned_total (start ph)"
  using accepted_phase [OF demo_loads] demo_loads by simp


text \<open>C24. The summary covers the whole matrix and pools everything once: each of the eight expected
  configurations has a loaded phase planned by its schedule, the global histogram's sample count and p99 are
  those of all first-attempt observations of all subscribers of all phases, and the merges of audited
  phases never fail.\<close>

theorem summary_pools_matrix:
  assumes "summarize w read_row directory expected_seconds = Inr d"
  shows "(\<forall>name \<in> set expected_phases. \<exists>p \<in> set (phases d). phase_name p = name
      \<and> phase_label (subscriber_count (start p)) (payload_bytes (start p)) (pattern (start p)) = name
      \<and> planned_published (result p) = planned_arrivals (start p) \<and> \<not> diagnostics (start p))
    \<and> measurement_seconds_sum d = expected_seconds * int (length (phases d))
    \<and> sampled_deliveries d = sum_list (map (\<lambda>p. sum_list (map (\<lambda>s. samples (from_first_attempt s)) (subscribers (result p)))) (phases d))
    \<and> p99_ns (global_from_first_attempt d)
       = nearest_rank (concat (map (\<lambda>p. concat (map (\<lambda>s. expand (from_first_attempt s)) (subscribers (result p)))) (phases d))) 99 100"
proof -
  obtain phs us attempt planned where phs: "mapE (load_phase w read_row) (sort (globbed w directory ''2p*s-*b-*.jsonl'')) = Inr phs"
    and names: "set (map phase_name phs) = set expected_phases"
    and secs: "\<forall>p \<in> set phs. duration_s (start p) = expected_seconds"
    and us: "mapE check_matrix_phase phs = Inr us"
    and attempt: "merge (map (\<lambda>p. aggregate_from_first_attempt (result p)) phs) = Inr attempt"
    and planned: "merge (map (\<lambda>p. aggregate_from_planned_arrival (result p)) phs) = Inr planned"
    and d: "add_run_state (file_text w (slash directory ''run-state.txt'')) (summary_of expected_seconds phs attempt planned) = Inr d"
    using assms unfolding summarize_def bindE_Inr require_Inr by blast
  have chk: "check_phase (start p) (result p) = Inr ()" if p: "p \<in> set phs" for p
    using mapE_set_D [OF phs p] load_phase_parts(1) by blast
  have pool: "\<forall>p \<in> set phs. pooled_histogram (map from_first_attempt (subscribers (result p))) (aggregate_from_first_attempt (result p))"
    using check_phase_facts(3) [OF chk] by blast
  then have all: "pooled_histogram (map (\<lambda>p. aggregate_from_first_attempt (result p)) phs) attempt"
    by (intro merge_pooled [OF attempt]) (auto simp: pooled_histogram_def)
  note flat = pooled_flatten [OF all pool]
  have m: "check_matrix_phase p = Inr ()" if "p \<in> set phs" for p using mapE_set [OF us that] by auto
  have cfg: "\<exists>p \<in> set phs. phase_name p = name
      \<and> phase_label (subscriber_count (start p)) (payload_bytes (start p)) (pattern (start p)) = name
      \<and> planned_published (result p) = planned_arrivals (start p) \<and> \<not> diagnostics (start p)"
    if n: "name \<in> set expected_phases" for name
  proof -
    obtain p where p: "p \<in> set phs" "phase_name p = name" using n names by (metis imageE set_map)
    then show ?thesis using m [OF p(1)] by (auto simp: check_matrix_phase_def check_formal_start_def Let_def)
  qed
  have "measurement_seconds (result p) = expected_seconds" if "p \<in> set phs" for p
    using check_phase_facts(1) [OF chk [OF that]] secs that by (auto simp: check_counters_def)
  then have "phase_sum (\<lambda>p. measurement_seconds (result p)) phs = expected_seconds * int (length phs)"
    by (induction phs) (auto simp: phase_sum_def distrib_left)
  moreover have "p99_ns attempt = nearest_rank (expand attempt) 99 100"
    using all by (simp add: pooled_histogram_def valid_histogram_def)
  ultimately show ?thesis
    using add_run_state_fields [OF d] cfg flat nearest_rank_mset [OF flat(1)] by (simp add: summary_of_def)
qed

text \<open>An empty matrix: every phase planned, nothing sent.\<close>

definition idle_start :: "int \<times> int \<times> string \<Rightarrow> phase_start" where
  "idle_start c = (let st = demo_start\<lparr>subscriber_count := fst c, payload_bytes := fst (snd c),
       pattern := snd (snd c), burst_ms_per_second := (if snd (snd c) = ''burst'' then 100 else 0)\<rparr>
     in st\<lparr>planned_total := planned_arrivals st\<rparr>)"

definition idle_result :: "phase_start \<Rightarrow> phase_result" where
  "idle_result st = demo_result\<lparr>publishers := [demo_publisher 0 no_samples\<lparr>sent := 0\<rparr>, demo_publisher 1 no_samples\<lparr>sent := 0\<rparr>],
     subscribers := map (\<lambda>i. \<lparr>subscriber = i, received = 0, sub_integrity_pass = False,
       sequences = [demo_sequence 0, demo_sequence 1], from_first_attempt = no_samples,
       from_planned_arrival = no_samples\<rparr>) [0..subscriber_count st - 1],
     planned_published := planned_total st, published := 0, unsent_at_cutoff := planned_total st, delivered := 0,
     offered_load_completed := False, integrity_pass := False,
     aggregate_from_first_attempt := no_samples, aggregate_from_planned_arrival := no_samples\<rparr>"

definition idle_configurations :: "(string \<times> int \<times> int \<times> string) list" where
  "idle_configurations = map (\<lambda>(s, p, b). (phase_label s p b, s, p, b))
     [(1, 64, ''steady''), (1, 64, ''burst''), (1, 256, ''steady''), (1, 256, ''burst''),
      (2, 64, ''steady''), (2, 64, ''burst''), (2, 256, ''steady''), (2, 256, ''burst'')]"

definition idle_row :: "string \<Rightarrow> row py" where
  "idle_row l = (case map_of idle_configurations (tl l) of None \<Rightarrow> Inr OtherRow
     | Some c \<Rightarrow> Inr (if hd l = CHR ''s'' then StartRow (idle_start c) else ResultRow (idle_result (idle_start c))))"

definition idle_world :: world where
  "idle_world = demo_world\<lparr>file_text := (\<lambda>p. if p = ''/run-state.txt'' then None
       else Some (CHR ''s'' # path_stem p @ [nl] @ CHR ''r'' # path_stem p)),
     globbed := (\<lambda>d pat. map (\<lambda>c. fst c @ ''.jsonl'') idle_configurations)\<rparr>"

lemma idle_summary: "case summarize idle_world idle_row [] 1 of Inl _ \<Rightarrow> False | Inr d \<Rightarrow> length (phases d) = 8"
  by code_simp

lemma summary_pools_matrix_witness:
  "\<exists>d. summarize idle_world idle_row [] 1 = Inr d \<and> measurement_seconds_sum d = 8"
proof -
  obtain d where d: "summarize idle_world idle_row [] 1 = Inr d" "length (phases d) = 8"
    using idle_summary by (auto split: sum.splits)
  from summary_pools_matrix [OF d(1)] d show ?thesis by simp
qed

end
