(* ===== verification/TailGate.thy ===== *)
theory TailGate
  imports HftPhase
begin

text \<open>
  The interleaved A/B tail comparison, \<open>tools/hft_acceptance/summarize_tail_ab.py\<close>: merging the
  runs of one arm per subscriber (\<open>aggregate\<close>), the integer gate with its exact 20 percent and
  5 percent boundaries (\<open>relative_gate\<close>), the decision over three independent groups
  (\<open>assess_groups\<close>), the re-audit of a saved group against its raw files (\<open>audit_saved_group\<close>)
  and the single-group summary of \<open>main\<close>.
\<close>

section \<open>Data\<close>

text \<open>The configuration of a run: the thirteen start fields two runs of one arm must share.\<close>

record configuration =
  c_subscribers :: int
  c_payload_bytes :: int
  c_pattern :: string
  c_duration_s :: int
  c_steady_total_rate :: int
  c_peak_total_rate :: int
  c_burst_ms_per_second :: int
  c_capacity_per_publisher_bytes :: int
  c_publication_window_bytes :: int
  c_batch :: int
  c_poll_limit :: int
  c_sample_hash_mask :: int
  c_cpus :: "int list"

definition config_of :: "phase_start \<Rightarrow> configuration" where
  "config_of st = \<lparr>c_subscribers = subscriber_count st, c_payload_bytes = payload_bytes st,
     c_pattern = pattern st, c_duration_s = duration_s st, c_steady_total_rate = steady_total_rate st,
     c_peak_total_rate = peak_total_rate st, c_burst_ms_per_second = burst_ms_per_second st,
     c_capacity_per_publisher_bytes = capacity_per_publisher_bytes st,
     c_publication_window_bytes = publication_window_bytes st, c_batch = batch st,
     c_poll_limit = poll_limit st, c_sample_hash_mask = sample_hash_mask st, c_cpus = cpus st\<rparr>"

record run_entry =
  run_path :: string
  run_sha256 :: string
  run_acceptance :: assessment

record merged_subscriber =
  m_subscriber :: int
  m_planned_arrival :: histogram
  m_first_attempt :: histogram

record merged_publisher =
  m_publisher :: int
  m_attempt_to_commit :: histogram
  m_planned_to_attempt :: histogram

record arm_result =
  configuration :: configuration
  runs :: "run_entry list"
  arm_measurement_seconds :: int
  arm_published :: int
  arm_delivered :: int
  arm_valid_and_complete :: bool
  all_individual_runs_p999_pass :: bool
  arm_backpressure_retries :: int
  arm_subscribers :: "merged_subscriber list"
  arm_publishers :: "merged_publisher list"
  run_count :: int
  seconds_per_run :: int
  arm_worst_planned_p99_ns :: int
  arm_worst_planned_p999_ns :: int
  arm_worst_attempt_p999_ns :: int
  planned_p999_budget_pass :: bool

text \<open>A group: the run order and, by configuration name, the arms by version name.\<close>

type_synonym versions = "(string \<times> arm_result) list"

record group =
  order :: "string list"
  group_phases :: "(string \<times> versions) list"

section \<open>Merging the runs of one arm\<close>

definition check_ab_start :: "phase \<Rightarrow> unit py" where
  "check_ab_start ph = (let st = start ph in
     bindE (claim (burst_ms_per_second st = (if pattern st = ''burst'' then 100 else 0))) (\<lambda>_.
     claim (planned_total st = planned_published (result ph) \<and> planned_published (result ph)
       = duration_s st * (4000000 * burst_ms_per_second st + 1000000 * (1000 - burst_ms_per_second st)) div 1000)))"

definition merge_subscriber :: "phase list \<Rightarrow> nat \<Rightarrow> merged_subscriber py" where
  "merge_subscriber phs i =
     bindE (mapE (\<lambda>ph. nthE (subscribers (result ph)) i) phs) (\<lambda>rows.
     bindE (claim (\<forall>row \<in> set rows. subscriber row = int i)) (\<lambda>_.
     bindE (merge (map from_planned_arrival rows)) (\<lambda>planned.
     bindE (merge (map from_first_attempt rows)) (\<lambda>attempt.
     Inr \<lparr>m_subscriber = int i, m_planned_arrival = planned, m_first_attempt = attempt\<rparr>))))"

definition merge_publisher :: "phase list \<Rightarrow> nat \<Rightarrow> merged_publisher py" where
  "merge_publisher phs i =
     bindE (mapE (\<lambda>ph. nthE (publishers (result ph)) i) phs) (\<lambda>rows.
     bindE (claim (\<forall>row \<in> set rows. publisher row = int i)) (\<lambda>_.
     bindE (merge (map first_attempt_to_commit rows)) (\<lambda>commit.
     bindE (merge (map planned_to_first_attempt rows)) (\<lambda>attempt.
     Inr \<lparr>m_publisher = int i, m_attempt_to_commit = commit, m_planned_to_attempt = attempt\<rparr>))))"

definition worst :: "(merged_subscriber \<Rightarrow> int) \<Rightarrow> merged_subscriber list \<Rightarrow> int py" where
  "worst key subs = bindE (worst_by key subs) (\<lambda>s. Inr (key s))"

definition arm_of :: "string list \<Rightarrow> phase list \<Rightarrow> phase_start \<Rightarrow> merged_subscriber list \<Rightarrow> merged_publisher list
    \<Rightarrow> arm_result py" where
  "arm_of paths phs st0 subs pubs = (let valid = (\<forall>ph \<in> set phs. valid_and_complete (acceptance ph)) in
     bindE (worst (\<lambda>s. p99_ns (m_planned_arrival s)) subs) (\<lambda>w99.
     bindE (worst (\<lambda>s. p999_ns (m_planned_arrival s)) subs) (\<lambda>w999.
     bindE (worst (\<lambda>s. p999_ns (m_first_attempt s)) subs) (\<lambda>a999.
     Inr \<lparr>configuration = config_of st0,
       runs = map (\<lambda>(path, ph). \<lparr>run_path = path, run_sha256 = raw_sha256 ph, run_acceptance = acceptance ph\<rparr>) (zip paths phs),
       arm_measurement_seconds = phase_sum (\<lambda>p. measurement_seconds (result p)) phs,
       arm_published = phase_sum (\<lambda>p. published (result p)) phs,
       arm_delivered = phase_sum (\<lambda>p. delivered (result p)) phs,
       arm_valid_and_complete = valid,
       all_individual_runs_p999_pass = (\<forall>ph \<in> set phs. p999_acceptance_pass (acceptance ph)),
       arm_backpressure_retries = phase_sum (\<lambda>ph. sum_list (map backpressure_retries (publishers (result ph)))) phs,
       arm_subscribers = subs, arm_publishers = pubs, run_count = int (length phs),
       seconds_per_run = duration_s st0, arm_worst_planned_p99_ns = w99, arm_worst_planned_p999_ns = w999,
       arm_worst_attempt_p999_ns = a999,
       planned_p999_budget_pass = (valid \<and> (\<forall>s \<in> set subs. p999_pass_50us (m_planned_arrival s)))\<rparr>))))"

definition aggregate_phases :: "string list \<Rightarrow> phase list \<Rightarrow> arm_result py" where
  "aggregate_phases paths phs =
     bindE (require (\<forall>ph \<in> set phs. config_of (start ph) = config_of (start (hd phs))) (AssertionError ''configuration mismatch'')) (\<lambda>_.
     bindE (require (\<forall>ph \<in> set phs. steady_total_rate (start ph) = 1000000 \<and> peak_total_rate (start ph) = 4000000)
       (AssertionError ''offered rate changed'')) (\<lambda>_.
     bindE (require (\<forall>ph \<in> set phs. measurement_settings (start ph)) (AssertionError ''measurement settings changed'')) (\<lambda>_.
     bindE (mapE (\<lambda>ph. check_formal_start (start ph)) phs) (\<lambda>_.
     bindE (mapE check_ab_start phs) (\<lambda>_.
     bindE (nthE (map start phs) 0) (\<lambda>st0.
     bindE (mapE (merge_subscriber phs) [0..<nat (subscriber_count st0)]) (\<lambda>subs.
     bindE (mapE (merge_publisher phs) [0, 1]) (\<lambda>pubs.
     arm_of paths phs st0 subs pubs))))))))"

definition aggregate :: "world \<Rightarrow> (string \<Rightarrow> row py) \<Rightarrow> string list \<Rightarrow> arm_result py" where
  "aggregate w read_row paths = bindE (mapE (load_phase w read_row) paths) (aggregate_phases paths)"

section \<open>The gate\<close>

definition targeted_phases :: "string list" where
  "targeted_phases = [''2p2s-64b-burst'', ''2p2s-256b-burst'']"

record gate_result =
  targeted :: bool
  change_percent :: "num option"
  gate_valid :: bool
  pass :: bool

text \<open>\<open>(b / a - 1) * 100\<close>\<close>

definition percent_change :: "int \<Rightarrow> int \<Rightarrow> num py" where
  "percent_change a b = bindE (ndiv (I b) (I a)) (\<lambda>q. bindE (nsub q (I 1)) (\<lambda>r. nmul r (I 100)))"

definition relative_gate :: "string \<Rightarrow> arm_result \<Rightarrow> arm_result \<Rightarrow> gate_result py" where
  "relative_gate name baseline candidate =
     (let tgt = name \<in> set targeted_phases;
          a = arm_worst_planned_p999_ns baseline; b = arm_worst_planned_p999_ns candidate;
          valid = arm_valid_and_complete baseline \<and> arm_valid_and_complete candidate \<and> 0 < a;
          passed = b * 100 \<le> a * (if tgt then 80 else 105)
      in bindE (if a \<noteq> 0 then bindE (percent_change a b) (\<lambda>c. Inr (Some c)) else Inr None) (\<lambda>change.
         Inr \<lparr>targeted = tgt, change_percent = change, gate_valid = valid, pass = (valid \<and> passed)\<rparr>))"

definition version_of :: "versions \<Rightarrow> string \<Rightarrow> arm_result py" where
  "version_of vs k = (case map_of vs k of None \<Rightarrow> Inl KeyError | Some r \<Rightarrow> Inr r)"

record acceptance_result =
  assessments :: "(string \<times> gate_result) list list"
  relative_acceptance_pass :: bool
  candidate_50us_pass :: bool

definition abba_order :: "string list" where
  "abba_order = [''baseline'', ''candidate'', ''candidate'', ''baseline'']"

definition assess_group :: "group \<Rightarrow> (string \<times> gate_result) list py" where
  "assess_group g =
     bindE (require (set (map fst (group_phases g)) = set expected_phases) (AssertionError ''missing or unexpected configuration'')) (\<lambda>_.
     bindE (claim (order g = abba_order)) (\<lambda>_.
     bindE (require (\<forall>(_, vs) \<in> set (group_phases g). \<forall>(_, v) \<in> set vs. arm_measurement_seconds v = 60)
       (AssertionError ''formal ABBA requires two 30-second runs per version'')) (\<lambda>_.
     bindE (require (\<forall>(_, vs) \<in> set (group_phases g). \<forall>(_, v) \<in> set vs. run_count v = 2 \<and> seconds_per_run v = 30)
       (AssertionError ''formal run count or duration mismatch'')) (\<lambda>_.
     mapE (\<lambda>(name, vs). bindE (version_of vs ''baseline'') (\<lambda>b. bindE (version_of vs ''candidate'') (\<lambda>c.
       bindE (relative_gate name b c) (\<lambda>r. Inr (name, r))))) (group_phases g)))))"

definition assess_groups :: "group list \<Rightarrow> acceptance_result py" where
  "assess_groups groups =
     bindE (require (length groups = 3) (AssertionError ''exactly three independent ABBA groups required'')) (\<lambda>_.
     bindE (mapE assess_group groups) (\<lambda>rs.
     bindE (everyE (\<lambda>(_, vs). bindE (version_of vs ''candidate'') (\<lambda>c. Inr (planned_p999_budget_pass c)))
       (concat (map group_phases groups))) (\<lambda>budget.
     Inr \<lparr>assessments = rs, relative_acceptance_pass = (\<forall>g \<in> set rs. \<forall>(_, r) \<in> set g. pass r),
       candidate_50us_pass = budget\<rparr>)))"

section \<open>Auditing a saved group\<close>

definition expected_rounds :: "string \<Rightarrow> string list" where
  "expected_rounds version = (if version = ''baseline'' then [''round-0'', ''round-3''] else [''round-1'', ''round-2''])"

definition audit_version :: "world \<Rightarrow> (string \<Rightarrow> row py) \<Rightarrow> string option \<Rightarrow> string \<Rightarrow> string \<times> arm_result \<Rightarrow> string list py" where
  "audit_version w read_row directory name vr = (case vr of (version, saved) \<Rightarrow>
     let paths = map run_path (runs saved) in
     bindE (case directory of None \<Rightarrow> Inr () | Some d \<Rightarrow>
       bindE (mapE (\<lambda>p. nthE (path_parents p) 2) paths) (\<lambda>roots.
         require (\<forall>r \<in> set roots. resolved w r = resolved w d) (AssertionError ''raw run belongs to another group''))) (\<lambda>_.
     bindE (require (card (set paths) = length paths) (AssertionError ''duplicated raw run'')) (\<lambda>_.
     bindE (require (\<forall>p \<in> set paths. path_stem p = name \<and> base_name (path_parent p) = version) (AssertionError ''wrong raw run identity'')) (\<lambda>_.
     bindE (mapE (\<lambda>p. nthE (path_parents p) 1) paths) (\<lambda>ups.
     bindE (require (map base_name ups = expected_rounds version) (AssertionError ''wrong ABBA run order'')) (\<lambda>_.
     bindE (aggregate w read_row paths) (\<lambda>fresh.
     bindE (require (fresh = saved) (AssertionError ''saved summary differs from raw audit'')) (\<lambda>_.
     Inr paths))))))))"

definition audit_phase :: "world \<Rightarrow> (string \<Rightarrow> row py) \<Rightarrow> string option \<Rightarrow> string \<times> versions \<Rightarrow> string list py" where
  "audit_phase w read_row directory nv = (case nv of (name, vs) \<Rightarrow>
     bindE (require (set (map fst vs) = {''baseline'', ''candidate''}) (AssertionError ''unexpected A/B version'')) (\<lambda>_.
     bindE (mapE (audit_version w read_row directory name) vs) (\<lambda>pss.
     bindE (version_of vs ''baseline'') (\<lambda>b. bindE (version_of vs ''candidate'') (\<lambda>c.
     bindE (require (configuration b = configuration c) (AssertionError ''A/B configuration mismatch'')) (\<lambda>_.
     Inr (concat pss)))))))"

definition audit_saved_group :: "world \<Rightarrow> (string \<Rightarrow> row py) \<Rightarrow> string option \<Rightarrow> group \<Rightarrow> unit py" where
  "audit_saved_group w read_row directory g =
     bindE (mapE (audit_phase w read_row directory) (group_phases g)) (\<lambda>pss.
     case directory of None \<Rightarrow> Inr ()
     | Some d \<Rightarrow> require (set (globbed w d ''round-*/*/2p*.jsonl'') = set (concat pss)) (AssertionError ''unexpected raw files''))"

text \<open>\<open>main --suite\<close>: three saved groups, each re-audited in its own directory, then judged.\<close>

definition audit_suite :: "world \<Rightarrow> (string \<Rightarrow> row py) \<Rightarrow> (string \<Rightarrow> group py) \<Rightarrow> string
    \<Rightarrow> (acceptance_result \<times> (string \<times> string) list) py" where
  "audit_suite w read_row load_group directory =
     (let dirs = map (\<lambda>i. slash directory (''group-'' @ show_int i)) [1, 2, 3] in
     bindE (mapE (\<lambda>d. bindE (read_text w (slash d ''ab-summary.json'')) load_group) dirs) (\<lambda>groups.
     bindE (mapE (\<lambda>(g, d). audit_saved_group w read_row (Some d) g) (zip groups dirs)) (\<lambda>_.
     bindE (assess_groups groups) (\<lambda>res.
     bindE (mapE (\<lambda>d. bindE (file_sha w (slash d ''ab-summary.json'')) (\<lambda>h. Inr (slash d ''ab-summary.json'', h))) dirs) (\<lambda>inputs.
     Inr (res, inputs))))))"

section \<open>One interleaved group\<close>

definition round_path :: "string \<Rightarrow> string \<Rightarrow> string \<Rightarrow> int \<Rightarrow> string" where
  "round_path directory version name r =
     slash (slash (slash directory (''round-'' @ show_int r)) version) (name @ ''.jsonl'')"

definition ab_phase :: "world \<Rightarrow> (string \<Rightarrow> row py) \<Rightarrow> string \<Rightarrow> string \<Rightarrow> (string \<times> versions) py" where
  "ab_phase w read_row directory name =
     bindE (aggregate w read_row (map (round_path directory ''baseline'' name) [0, 3])) (\<lambda>b.
     bindE (aggregate w read_row (map (round_path directory ''candidate'' name) [1, 2])) (\<lambda>c.
     bindE (claim (arm_measurement_seconds b = arm_measurement_seconds c)) (\<lambda>_.
     bindE (require (configuration b = configuration c) (AssertionError ''A/B configuration mismatch'')) (\<lambda>_.
     bindE (require (name = phase_label (c_subscribers (configuration b)) (c_payload_bytes (configuration b)) (c_pattern (configuration b)))
       (AssertionError ''filename/configuration mismatch'')) (\<lambda>_.
     Inr (name, [(''baseline'', b), (''candidate'', c)]))))))"

record ab_document =
  ab_group :: group
  ab_measurement_seconds :: int
  all_valid_and_complete :: bool

definition ab_summary :: "world \<Rightarrow> (string \<Rightarrow> row py) \<Rightarrow> string \<Rightarrow> ab_document py" where
  "ab_summary w read_row directory =
     (let names = sort expected_phases;
          all_paths = concat (map (\<lambda>name. map (round_path directory ''baseline'' name) [0, 3]
            @ map (round_path directory ''candidate'' name) [1, 2]) names) in
     bindE (mapE (ab_phase w read_row directory) names) (\<lambda>phs.
     bindE (require (set (globbed w directory ''round-*/*/2p*.jsonl'') = set all_paths) (AssertionError ''unexpected raw files'')) (\<lambda>_.
     Inr \<lparr>ab_group = \<lparr>order = abba_order, group_phases = phs\<rparr>,
       ab_measurement_seconds = sum_list (map (\<lambda>(_, vs). sum_list (map (\<lambda>(_, v). arm_measurement_seconds v) vs)) phs),
       all_valid_and_complete = (\<forall>(_, vs) \<in> set phs. \<forall>(_, v) \<in> set vs. arm_valid_and_complete v)\<rparr>)))"

text \<open>The first table of \<open>ab-summary.md\<close>; its change column divides by the baseline's worst p99.9
  before either file is written.\<close>

definition ab_line :: "string \<times> versions \<Rightarrow> string py" where
  "ab_line nv = (case nv of (name, vs) \<Rightarrow>
     bindE (version_of vs ''baseline'') (\<lambda>a. bindE (version_of vs ''candidate'') (\<lambda>b.
     bindE (percent_change (arm_worst_planned_p999_ns a) (arm_worst_planned_p999_ns b)) (\<lambda>change.
     bindE (mapE micros [arm_worst_planned_p99_ns a, arm_worst_planned_p99_ns b,
       arm_worst_planned_p999_ns a, arm_worst_planned_p999_ns b]) (\<lambda>cs.
     bindE (to_float change) (\<lambda>f.
     Inr (table_row ([name] @ cs @ [show_signed 1 f @ ''%'',
       show_bool (arm_valid_and_complete a) @ ''/'' @ show_bool (arm_valid_and_complete b)]))))))))"

definition ab_main :: "world \<Rightarrow> (string \<Rightarrow> row py) \<Rightarrow> string \<Rightarrow> (ab_document \<times> string list) py" where
  "ab_main w read_row directory =
     bindE (ab_summary w read_row directory) (\<lambda>d.
     bindE (mapE ab_line (group_phases (ab_group d))) (\<lambda>ls. Inr (d, ls)))"


section \<open>What an aggregated arm is\<close>

lemma worst_Inr:
  assumes "worst key subs = Inr v" shows "\<exists>s \<in> set subs. key s = v" "\<forall>s \<in> set subs. key s \<le> v"
  using assms worst_by_max [of key subs] by (auto simp: worst_def)

lemma arm_of_fields:
  assumes "arm_of paths phs st0 subs pubs = Inr r"
  shows "arm_subscribers r = subs" "arm_valid_and_complete r \<longleftrightarrow> (\<forall>ph \<in> set phs. valid_and_complete (acceptance ph))"
    "worst (\<lambda>s. p999_ns (m_planned_arrival s)) subs = Inr (arm_worst_planned_p999_ns r)"
    "worst (\<lambda>s. p99_ns (m_planned_arrival s)) subs = Inr (arm_worst_planned_p99_ns r)"
    "run_count r = int (length phs)" "configuration r = config_of st0"
    "planned_p999_budget_pass r \<longleftrightarrow> (\<forall>ph \<in> set phs. valid_and_complete (acceptance ph))
       \<and> (\<forall>s \<in> set subs. p999_pass_50us (m_planned_arrival s))"
  using assms by (auto simp: arm_of_def Let_def)

lemma aggregate_parts:
  assumes "aggregate w rd paths = Inr r"
  shows "\<exists>phs subs pubs. mapE (load_phase w rd) paths = Inr phs \<and> phs \<noteq> []
    \<and> (\<forall>ph \<in> set phs. config_of (start ph) = config_of (start (hd phs)))
    \<and> mapE (merge_subscriber phs) [0..<nat (subscriber_count (start (hd phs)))] = Inr subs
    \<and> arm_of paths phs (start (hd phs)) subs pubs = Inr r"
proof -
  obtain phs st0 subs pubs where a: "mapE (load_phase w rd) paths = Inr phs"
    "\<forall>ph \<in> set phs. config_of (start ph) = config_of (start (hd phs))"
    "nthE (map start phs) 0 = Inr st0"
    "mapE (merge_subscriber phs) [0..<nat (subscriber_count st0)] = Inr subs"
    "arm_of paths phs st0 subs pubs = Inr r"
    using assms unfolding aggregate_def aggregate_phases_def bindE_Inr require_Inr by blast
  from a(3) have "phs \<noteq> []" "st0 = start (hd phs)" by (auto simp: hd_conv_nth)
  then show ?thesis using a by blast
qed

text \<open>A subscriber of an arm pools that subscriber's rows of the runs, and no other's.\<close>

lemma merge_subscriber_pooled:
  assumes "merge_subscriber phs i = Inr m" "\<forall>ph \<in> set phs. check_phase (start ph) (result ph) = Inr ()"
  shows "pooled_histogram (map (\<lambda>ph. from_planned_arrival (subscribers (result ph) ! i)) phs) (m_planned_arrival m)"
    "\<forall>ph \<in> set phs. i < length (subscribers (result ph)) \<and> subscriber (subscribers (result ph) ! i) = int i"
proof -
  obtain rows planned attempt where rows: "mapE (\<lambda>ph. nthE (subscribers (result ph)) i) phs = Inr rows"
    and ids: "\<forall>row \<in> set rows. subscriber row = int i"
    and planned: "merge (map from_planned_arrival rows) = Inr planned" and m: "m_planned_arrival m = planned"
    using assms(1) by (auto simp: merge_subscriber_def)
  have rw: "rows = map (\<lambda>ph. subscribers (result ph) ! i) phs" and len: "\<forall>ph \<in> set phs. i < length (subscribers (result ph))"
    using rows by (auto simp: mapE_Inr list_all2_conv_all_nth list_eq_iff_nth_eq in_set_conv_nth)
  have "\<forall>ph \<in> set phs. valid_histogram (from_planned_arrival (subscribers (result ph) ! i))"
    using assms(2) len check_phase_facts(2) by (auto simp: consistent_subscriber_def)
  then show "pooled_histogram (map (\<lambda>ph. from_planned_arrival (subscribers (result ph) ! i)) phs) (m_planned_arrival m)"
    using merge_pooled [OF planned] m by (auto simp: rw comp_def)
  show "\<forall>ph \<in> set phs. i < length (subscribers (result ph)) \<and> subscriber (subscribers (result ph) ! i) = int i"
    using len ids by (auto simp: rw)
qed

lemma loaded_checked:
  "mapE (load_phase w rd) paths = Inr phs \<Longrightarrow> \<forall>ph \<in> set phs. check_phase (start ph) (result ph) = Inr ()"
  by (blast dest: mapE_set_D load_phase_parts(1))

section \<open>What an audited suite establishes\<close>

lemma arm_valid_runs:
  assumes "aggregate w rd paths = Inr r" "arm_valid_and_complete r" "p \<in> set paths"
  shows "\<exists>ph. load_phase w rd p = Inr ph \<and> valid_and_complete (acceptance ph)"
proof -
  obtain phs subs pubs where phs: "mapE (load_phase w rd) paths = Inr phs"
    and arm: "arm_of paths phs (start (hd phs)) subs pubs = Inr r"
    using aggregate_parts [OF assms(1)] by blast
  obtain ph where "ph \<in> set phs" "load_phase w rd p = Inr ph" using mapE_set [OF phs assms(3)] by blast
  then show ?thesis using arm_of_fields(2) [OF arm] assms(2) by auto
qed

definition raw_arm :: "world \<Rightarrow> (string \<Rightarrow> row py) \<Rightarrow> string \<Rightarrow> string \<Rightarrow> string \<Rightarrow> string list \<Rightarrow> arm_result \<Rightarrow> bool" where
  "raw_arm w rd d name version paths r \<longleftrightarrow> aggregate w rd paths = Inr r \<and> length paths = 2 \<and> distinct paths
     \<and> (\<forall>p \<in> set paths. path_stem p = name \<and> base_name (path_parent p) = version
        \<and> resolved w (path_parents p ! 2) = resolved w d)"

lemma audit_version_raw:
  assumes "audit_version w rd (Some d) name (version, saved) = Inr paths"
  shows "raw_arm w rd d name version paths saved"
proof -
  obtain roots ups where roots: "mapE (\<lambda>p. nthE (path_parents p) 2) paths = Inr roots"
      "\<forall>r \<in> set roots. resolved w r = resolved w d"
    and ids: "card (set paths) = length paths" "\<forall>p \<in> set paths. path_stem p = name \<and> base_name (path_parent p) = version"
    and ups: "mapE (\<lambda>p. nthE (path_parents p) 1) paths = Inr ups" "map base_name ups = expected_rounds version"
    and agg: "aggregate w rd paths = Inr saved"
    using assms unfolding audit_version_def Let_def prod.case option.case bindE_Inr require_Inr by blast
  have "length (expected_rounds version) = 2" by (simp add: expected_rounds_def)
  then have "length paths = 2" using mapE_length [OF ups(1)] ups(2) by (metis length_map)
  moreover have "resolved w (path_parents p ! 2) = resolved w d" if "p \<in> set paths" for p
    using mapE_set [OF roots(1) that] roots(2) by auto
  ultimately show ?thesis using ids agg by (simp add: raw_arm_def card_distinct)
qed

lemma audit_phase_raw:
  assumes "audit_phase w rd (Some d) (name, vs) = Inr paths" "map_of vs version = Some r"
  shows "\<exists>ps. raw_arm w rd d name version ps r"
proof -
  obtain pss where pss: "mapE (audit_version w rd (Some d) name) vs = Inr pss"
    using assms(1) by (auto simp: audit_phase_def)
  from mapE_set [OF pss map_of_SomeD [OF assms(2)]] show ?thesis by (blast dest: audit_version_raw)
qed

lemma version_of_Inr [simp]: "version_of vs k = Inr r \<longleftrightarrow> map_of vs k = Some r"
  by (simp add: version_of_def split: option.splits)

text \<open>The two comparisons of the gate, as one bound.\<close>

definition within_gate :: "string \<Rightarrow> arm_result \<Rightarrow> arm_result \<Rightarrow> bool" where
  "within_gate name b c \<longleftrightarrow> 0 < arm_worst_planned_p999_ns b
     \<and> arm_worst_planned_p999_ns c * 100 \<le> arm_worst_planned_p999_ns b * (if name \<in> set targeted_phases then 80 else 105)"

lemma relative_gate_pass:
  assumes "relative_gate name b c = Inr g" "pass g"
  shows "within_gate name b c" "arm_valid_and_complete b" "arm_valid_and_complete c"
  using assms by (auto simp: relative_gate_def Let_def within_gate_def split: if_splits)

lemma assess_group_pass:
  assumes "assess_group g = Inr rs" "\<forall>(_, r) \<in> set rs. pass r" "name \<in> set expected_phases"
  shows "\<exists>vs b c. (name, vs) \<in> set (group_phases g) \<and> map_of vs ''baseline'' = Some b \<and> map_of vs ''candidate'' = Some c
    \<and> within_gate name b c \<and> arm_valid_and_complete b \<and> arm_valid_and_complete c"
proof -
  have names: "set (map fst (group_phases g)) = set expected_phases"
    and rs: "mapE (\<lambda>(name, vs). bindE (version_of vs ''baseline'') (\<lambda>b. bindE (version_of vs ''candidate'') (\<lambda>c.
       bindE (relative_gate name b c) (\<lambda>r. Inr (name, r))))) (group_phases g) = Inr rs"
    using assms(1) by (auto simp: assess_group_def)
  from assms(3) names obtain nv where "nv \<in> set (group_phases g)" "fst nv = name" by (metis imageE set_map)
  then obtain vs where vs: "(name, vs) \<in> set (group_phases g)" using prod.collapse by metis
  from mapE_set [OF rs this] obtain b c r where "map_of vs ''baseline'' = Some b" "map_of vs ''candidate'' = Some c"
    "relative_gate name b c = Inr r" "(name, r) \<in> set rs" by auto
  then show ?thesis using vs assms(2) relative_gate_pass [of name b c r] by blast
qed

lemma rnd_small: "\<bar>x\<bar> \<le> 2 ^ 53 \<Longrightarrow> \<exists>r. rnd x = Fin r"
proof -
  assume x: "\<bar>x\<bar> \<le> 2 ^ 53"
  have b: "rnd (2 ^ 53) = Fin (2 ^ 53)" "rnd (- (2 ^ 53)) = Fin (- (2 ^ 53))"
    using rnd_of_int [of "2 ^ 53"] rnd_of_int [of "- (2 ^ 53)"] by simp_all
  have "x \<le> 2 ^ 53" "- (2 ^ 53) \<le> x" using x by linarith+
  then have "fle (rnd x) (Fin (2 ^ 53))" "fle (Fin (- (2 ^ 53))) (rnd x)"
    using rnd_mono [of x "2 ^ 53"] rnd_mono [of "- (2 ^ 53)" x] unfolding b by blast+
  then show ?thesis by (cases "rnd x") (auto simp: fle_def feq_def)
qed

text \<open>The percentage is always computable on nanosecond counts below \<open>2 ^ 53\<close>.\<close>

lemma percent_change_total:
  assumes "a \<noteq> 0" "\<bar>b\<bar> \<le> 2 ^ 53" shows "\<exists>c. percent_change a b = Inr c"
proof -
  have "\<bar>of_int b / of_int a :: rat\<bar> = of_int \<bar>b\<bar> / of_int \<bar>a\<bar>" by simp
  also have "\<dots> \<le> of_int \<bar>b\<bar>"
  proof -
    have "(1::rat) \<le> of_int \<bar>a\<bar>" using assms(1) by (simp only: of_int_1_le_iff)
    then have "(of_int \<bar>b\<bar> :: rat) * 1 \<le> of_int \<bar>b\<bar> * of_int \<bar>a\<bar>" by (intro mult_left_mono) simp_all
    then show ?thesis using assms(1) by (simp add: divide_le_eq)
  qed
  also have "\<dots> \<le> 2 ^ 53" using assms(2) by (metis of_int_le_iff of_int_numeral of_int_power)
  finally obtain r where r: "rnd (of_int b / of_int a) = Fin r" using rnd_small by blast
  have "rnd (of_int 1) = Fin 1" "rnd (of_int 100) = Fin 100" by simp_all
  then show ?thesis using assms(1) r
    by (simp add: percent_change_def ndiv_def nsub_def nmul_def lift_num_def)
qed

lemma relative_gate_total:
  assumes "\<bar>arm_worst_planned_p999_ns c\<bar> \<le> 2 ^ 53"
  shows "\<exists>g. relative_gate name b c = Inr g
    \<and> pass g = (arm_valid_and_complete b \<and> arm_valid_and_complete c \<and> within_gate name b c)"
proof (cases "arm_worst_planned_p999_ns b = 0")
  case True
  then show ?thesis by (simp add: relative_gate_def Let_def within_gate_def)
next
  case False
  from percent_change_total [OF this assms] show ?thesis
    using False by (auto simp: relative_gate_def Let_def within_gate_def)
qed

lemma assess_group_complete:
  assumes "set (map fst (group_phases g)) = set expected_phases" "order g = abba_order"
    "\<And>name vs. (name, vs) \<in> set (group_phases g) \<Longrightarrow> \<exists>b c. vs = [(''baseline'', b), (''candidate'', c)]
       \<and> within_gate name b c \<and> (\<forall>v \<in> {b, c}. arm_valid_and_complete v \<and> arm_measurement_seconds v = 60
         \<and> run_count v = 2 \<and> seconds_per_run v = 30 \<and> \<bar>arm_worst_planned_p999_ns v\<bar> \<le> 2 ^ 53)"
  shows "\<exists>rs. assess_group g = Inr rs \<and> (\<forall>(_, r) \<in> set rs. pass r)"
proof -
  let ?f = "\<lambda>(name, vs). bindE (version_of vs ''baseline'') (\<lambda>b. bindE (version_of vs ''candidate'') (\<lambda>c.
       bindE (relative_gate name b c) (\<lambda>r. Inr (name, r))))"
  have "\<exists>r. ?f nv = Inr r \<and> pass (snd r)" if m: "nv \<in> set (group_phases g)" for nv
  proof -
    obtain name vs where nv: "nv = (name, vs)" by (cases nv)
    from assms(3) [OF m [unfolded nv]] obtain b c where bc: "vs = [(''baseline'', b), (''candidate'', c)]"
      "within_gate name b c" "arm_valid_and_complete b" "arm_valid_and_complete c" "\<bar>arm_worst_planned_p999_ns c\<bar> \<le> 2 ^ 53"
      by (metis insertCI)
    obtain r where r: "relative_gate name b c = Inr r" "pass r"
      using relative_gate_total [OF bc(5), of name b] bc(2-4) by blast
    have "?f nv = Inr (name, r)" unfolding nv bc(1) prod.case by (simp add: version_of_def r(1))
    then show ?thesis using r(2) by (intro exI [of _ "(name, r)"]) simp
  qed
  then have "\<forall>nv \<in> set (group_phases g). \<exists>r. ?f nv = Inr r \<and> pass (snd r)" by (rule ballI)
  from bchoice [OF this] obtain f where f: "\<forall>nv \<in> set (group_phases g). ?f nv = Inr (f nv) \<and> pass (snd (f nv))" ..
  then have m: "mapE ?f (group_phases g) = Inr (map f (group_phases g))" by (intro mapE_total) blast
  have v: "arm_measurement_seconds v = 60 \<and> run_count v = 2 \<and> seconds_per_run v = 30"
    if "(name, vs) \<in> set (group_phases g)" "(k, v) \<in> set vs" for name vs k v
    using assms(3) [OF that(1)] that(2) by auto
  have secs: "(\<forall>(_, vs) \<in> set (group_phases g). \<forall>(_, v) \<in> set vs. arm_measurement_seconds v = 60) = True"
    "(\<forall>(_, vs) \<in> set (group_phases g). \<forall>(_, v) \<in> set vs. run_count v = 2 \<and> seconds_per_run v = 30) = True"
    using v by blast+
  have "assess_group g = Inr (map f (group_phases g))"
    unfolding assess_group_def assms(1,2) secs using m by simp
  moreover have "\<forall>(_, r) \<in> set (map f (group_phases g)). pass r" using f by auto
  ultimately show ?thesis by blast
qed

lemma audit_suite_group:
  assumes "audit_suite w rd lg directory = Inr (res, inputs)" "i \<in> {1, 2, 3}"
  shows "\<exists>g rs. audit_saved_group w rd (Some (slash directory (''group-'' @ show_int i))) g = Inr ()
    \<and> assess_group g = Inr rs \<and> rs \<in> set (assessments res)
    \<and> (relative_acceptance_pass res \<longrightarrow> (\<forall>(_, r) \<in> set rs. pass r))"
proof -
  let ?dirs = "map (\<lambda>i. slash directory (''group-'' @ show_int i)) [1, 2, 3]"
  obtain groups us where g: "mapE (\<lambda>d. bindE (read_text w (slash d ''ab-summary.json'')) lg) ?dirs = Inr groups"
    and us: "mapE (\<lambda>(g, d). audit_saved_group w rd (Some d) g) (zip groups ?dirs) = Inr us"
    and res: "assess_groups groups = Inr res"
    using assms(1) unfolding audit_suite_def Let_def bindE_Inr sum.inject prod.inject by blast
  obtain rss where rss: "mapE assess_group groups = Inr rss" "assessments res = rss"
    "relative_acceptance_pass res \<longleftrightarrow> (\<forall>g \<in> set rss. \<forall>(_, r) \<in> set g. pass r)"
    using res by (auto simp: assess_groups_def)
  have len: "length groups = 3" using mapE_length [OF g] by simp
  obtain k where k: "k < 3" "i = int k + 1" using assms(2) by (auto intro: that [of 0] that [of 1] that [of 2])
  have dk: "?dirs ! k = slash directory (''group-'' @ show_int i)"
    using k by (auto simp: less_Suc_eq numeral_3_eq_3)
  have "audit_saved_group w rd (Some (?dirs ! k)) (groups ! k) = Inr (us ! k)"
    using mapE_nth [OF us, of k] k len by (simp del: list.map)
  moreover have "assess_group (groups ! k) = Inr (rss ! k)" using mapE_nth [OF rss(1), of k] k len by simp
  moreover have "rss ! k \<in> set rss" using mapE_length [OF rss(1)] k len by simp
  ultimately show ?thesis using rss(2,3) dk by auto
qed

section \<open>The names of raw files\<close>

text \<open>A version, a round and a configuration name identify a raw file, and can be read back from its path.\<close>

lemma show_round: "show_int 0 = ''0''" "show_int 1 = ''1''" "show_int 2 = ''2''" "show_int 3 = ''3''"
  by code_simp+

lemma round_path_parts:
  assumes "d \<noteq> []" "n \<noteq> []" "CHR ''/'' \<notin> set n" "version \<in> {''baseline'', ''candidate''}" "r \<in> {0, 1, 2, 3}"
  shows "path_stem (round_path d version n r) = n" "base_name (path_parent (round_path d version n r)) = version"
    "\<exists>ps. path_parents (round_path d version n r) =
       [slash (slash d (''round-'' @ show_int r)) version, slash d (''round-'' @ show_int r), d] @ ps"
    "base_name (slash d (''round-'' @ show_int r)) = ''round-'' @ show_int r"
proof -
  let ?a = "slash d (''round-'' @ show_int r)" let ?b = "slash ?a version"
  have sr: "CHR ''/'' \<notin> set (''round-'' @ show_int r)" using assms(5) by (auto simp: show_round)
  have v: "version \<noteq> []" "CHR ''/'' \<notin> set version" using assms(4) by auto
  have f: "n @ ''.jsonl'' \<noteq> []" "CHR ''/'' \<notin> set (n @ ''.jsonl'')" using assms(3) by auto
  have ne: "slash e x \<noteq> []" if "e \<noteq> []" for e x using that by (cases x) (auto simp: slash_def)
  have na: "?a \<noteq> []" "?b \<noteq> []" using ne assms(1) by blast+
  note a = slash_parts [OF assms(1) _ sr] and b = slash_parts [OF na(1) v] and c = slash_parts [OF na(2) f]
  show "path_stem (round_path d version n r) = n"
    using stem_jsonl [OF assms(2)] c(1) by (simp add: round_path_def)
  show "base_name (path_parent (round_path d version n r)) = version"
    using c(2) b(1) by (simp add: round_path_def)
  show "\<exists>ps. path_parents (round_path d version n r) = [?b, ?a, d] @ ps"
    using a(3) b(3) c(3) by (simp add: round_path_def)
  show "base_name ?a = ''round-'' @ show_int r" using a(1) by simp
qed

lemma expected_names: "n \<in> set expected_phases \<Longrightarrow> n \<noteq> [] \<and> CHR ''/'' \<notin> set n"
proof -
  have "\<forall>n \<in> set expected_phases. n \<noteq> [] \<and> list_all (\<lambda>c. c \<noteq> CHR ''/'') n" by code_simp
  then show "n \<in> set expected_phases \<Longrightarrow> n \<noteq> [] \<and> CHR ''/'' \<notin> set n" by (auto simp: list_all_iff)
qed

text \<open>A freshly summarised arm passes the audit of its version.\<close>

lemma aggregate_run_paths:
  assumes "aggregate w rd paths = Inr r" shows "map run_path (runs r) = paths"
proof -
  obtain phs subs pubs where phs: "mapE (load_phase w rd) paths = Inr phs"
    and arm: "arm_of paths phs (start (hd phs)) subs pubs = Inr r" using aggregate_parts [OF assms] by blast
  have "map run_path (runs r) = map fst (zip paths phs)" using arm by (auto simp: arm_of_def Let_def)
  then show ?thesis using mapE_length [OF phs] by simp
qed

lemma audit_fresh_version:
  assumes d: "d \<noteq> []" and n: "n \<in> set expected_phases"
    and agg: "aggregate w rd (map (round_path d version n) rs) = Inr r"
    and v: "version \<in> {''baseline'', ''candidate''}" and rs: "rs = (if version = ''baseline'' then [0, 3] else [1, 2])"
  shows "audit_version w rd (Some d) n (version, r) = Inr (map (round_path d version n) rs)"
proof -
  let ?ps = "map (round_path d version n) rs"
  have sub: "set rs \<subseteq> {0, 1, 2, 3}" using rs by auto
  have parts: "path_stem (round_path d version n k) = n" "base_name (path_parent (round_path d version n k)) = version"
    "nthE (path_parents (round_path d version n k)) 2 = Inr d"
    "nthE (path_parents (round_path d version n k)) 1 = Inr (slash d (''round-'' @ show_int k))"
    "base_name (slash d (''round-'' @ show_int k)) = ''round-'' @ show_int k" if "k \<in> set rs" for k
  proof -
    have k: "k \<in> {0, 1, 2, 3}" using that sub by blast
    note q = round_path_parts [OF d conjunct1 [OF expected_names [OF n]] conjunct2 [OF expected_names [OF n]] v k]
    obtain ps where ps: "path_parents (round_path d version n k) =
        [slash (slash d (''round-'' @ show_int k)) version, slash d (''round-'' @ show_int k), d] @ ps" using q(3) by blast
    show "path_stem (round_path d version n k) = n" "base_name (path_parent (round_path d version n k)) = version"
      "base_name (slash d (''round-'' @ show_int k)) = ''round-'' @ show_int k" using q by blast+
    show "nthE (path_parents (round_path d version n k)) 2 = Inr d"
      "nthE (path_parents (round_path d version n k)) 1 = Inr (slash d (''round-'' @ show_int k))"
      unfolding ps by (simp_all add: nthE_def)
  qed
  have roots: "mapE (\<lambda>p. nthE (path_parents p) 2) ?ps = Inr (map (\<lambda>_. d) ?ps)"
    using parts(3) by (intro mapE_total) auto
  have ups: "mapE (\<lambda>p. nthE (path_parents p) 1) ?ps = Inr (map (\<lambda>k. slash d (''round-'' @ show_int k)) rs)"
    using parts(4) mapE_Inr by (auto simp: mapE_Inr list_all2_conv_all_nth)
  have rounds: "map base_name (map (\<lambda>k. slash d (''round-'' @ show_int k)) rs) = expected_rounds version"
  proof -
    have "map base_name (map (\<lambda>k. slash d (''round-'' @ show_int k)) rs) = map (\<lambda>k. ''round-'' @ show_int k) rs"
      using parts(5) by simp
    also have "\<dots> = expected_rounds version"
      using rs by (auto simp: expected_rounds_def show_round)
    finally show ?thesis .
  qed
  have "card (set ?ps) = length ?ps"
  proof -
    have "map (base_name \<circ> (\<lambda>p. path_parents p ! 1)) ?ps = map base_name (map (\<lambda>k. slash d (''round-'' @ show_int k)) rs)"
      using parts(4) by (auto simp: nthE_def split: if_splits)
    then have "map (base_name \<circ> (\<lambda>p. path_parents p ! 1)) ?ps = expected_rounds version" unfolding rounds .
    moreover have "distinct (expected_rounds version)" by (simp add: expected_rounds_def)
    ultimately have "distinct ?ps" by (metis distinct_map)
    then show ?thesis using distinct_card by fastforce
  qed
  then show ?thesis
    unfolding audit_version_def Let_def prod.case aggregate_run_paths [OF agg]
    using roots ups rounds parts agg by simp
qed

lemma ab_phase_name: "ab_phase w rd d n = Inr nv \<Longrightarrow> fst nv = n"
proof -
  assume "ab_phase w rd d n = Inr nv"
  then obtain b c where "(n, [(''baseline'', b), (''candidate'', c)]) = nv"
    unfolding ab_phase_def bindE_Inr sum.inject by blast
  then show ?thesis by (metis fst_conv)
qed

lemma ab_phase_audited:
  assumes "d \<noteq> []" "n \<in> set expected_phases" "ab_phase w rd d n = Inr nv"
  shows "audit_phase w rd (Some d) nv = Inr (map (round_path d ''baseline'' n) [0, 3] @ map (round_path d ''candidate'' n) [1, 2])"
proof -
  obtain b c where b: "aggregate w rd (map (round_path d ''baseline'' n) [0, 3]) = Inr b"
    and c: "aggregate w rd (map (round_path d ''candidate'' n) [1, 2]) = Inr c"
    and cfg: "configuration b = configuration c" and nv: "nv = (n, [(''baseline'', b), (''candidate'', c)])"
    using assms(3) unfolding ab_phase_def bindE_Inr require_Inr by blast
  have "audit_version w rd (Some d) n (''baseline'', b) = Inr (map (round_path d ''baseline'' n) [0, 3])"
    by (rule audit_fresh_version [OF assms(1,2) b]) auto
  moreover have "audit_version w rd (Some d) n (''candidate'', c) = Inr (map (round_path d ''candidate'' n) [1, 2])"
    by (rule audit_fresh_version [OF assms(1,2) c]) auto
  ultimately show ?thesis using cfg by (simp add: audit_phase_def nv insert_commute version_of_def)
qed

lemma ab_summary_audited:
  assumes "d \<noteq> []" "ab_summary w rd d = Inr doc"
  shows "audit_saved_group w rd (Some d) (ab_group doc) = Inr ()"
proof -
  define paths where "paths n = map (round_path d ''baseline'' n) [0, 3] @ map (round_path d ''candidate'' n) [1, 2]" for n
  obtain phs where phs: "mapE (ab_phase w rd d) (sort expected_phases) = Inr phs"
    and glob: "set (globbed w d ''round-*/*/2p*.jsonl'') = set (concat (map paths (sort expected_phases)))"
    and doc: "group_phases (ab_group doc) = phs"
    using assms(2) by (auto simp: ab_summary_def Let_def paths_def)
  have "audit_phase w rd (Some d) (phs ! k) = Inr (paths (sort expected_phases ! k))" if "k < length phs" for k
  proof -
    have k: "k < length (sort expected_phases)" using that mapE_length [OF phs] by simp
    then have "sort expected_phases ! k \<in> set expected_phases" using nth_mem [OF k] by simp
    from ab_phase_audited [OF assms(1) this mapE_nth [OF phs k]] show ?thesis by (simp add: paths_def)
  qed
  then have "mapE (audit_phase w rd (Some d)) phs = Inr (map paths (sort expected_phases))"
    using mapE_length [OF phs] by (auto simp: mapE_Inr list_all2_conv_all_nth)
  then show ?thesis using glob doc by (simp add: audit_saved_group_def)
qed

section \<open>A small suite\<close>

text \<open>Raw files whose key is taken from their path: every run is complete; the candidate is faster.\<close>

definition gate_key :: "string \<Rightarrow> string" where
  "gate_key p = (let n = path_stem p in [n ! 2, n ! 5, last n, hd (base_name (path_parent p))])"

definition gate_histogram :: "char \<Rightarrow> histogram" where
  "gate_histogram v = (let q = (if v = CHR ''b'' then 10 else 8) in
     one_sample\<lparr>p50_ns := q, p99_ns := q, p999_ns := q, max_sampled_ns := q, buckets := [(q, 1)]\<rparr>)"

definition gate_start :: "string \<Rightarrow> phase_start" where
  "gate_start k = (let burst = k ! 2 = CHR ''t'';
       st = demo_start\<lparr>subscriber_count := (if k ! 0 = CHR ''1'' then 1 else 2),
         payload_bytes := (if k ! 1 = CHR ''6'' then 64 else 256), pattern := (if burst then ''burst'' else ''steady''),
         burst_ms_per_second := (if burst then 100 else 0), duration_s := 30\<rparr>
     in st\<lparr>planned_total := planned_arrivals st\<rparr>)"

definition gate_result :: "string \<Rightarrow> phase_result" where
  "gate_result k = (let st = gate_start k; n = planned_total st; h = gate_histogram (k ! 3);
       m = (if subscriber_count st = 1 then h else
         h\<lparr>samples := 2, max_sampled_ns := max_sampled_ns h, buckets := [(fst (hd (buckets h)), 2)]\<rparr>) in
     demo_result\<lparr>publishers := [demo_publisher 0 h\<lparr>sent := n\<rparr>, demo_publisher 1 no_samples\<lparr>sent := 0\<rparr>],
       subscribers := map (\<lambda>i. \<lparr>subscriber = i, received = n, sub_integrity_pass = True,
         sequences = [demo_sequence 0\<lparr>unique := n\<rparr>, demo_sequence 1\<lparr>unique := 0\<rparr>], from_first_attempt = h,
         from_planned_arrival = h\<rparr>) [0..subscriber_count st - 1],
       measurement_seconds := 30, wall_seconds := I 31, planned_published := n, published := n,
       delivered := n * subscriber_count st,
       aggregate_from_first_attempt := m, aggregate_from_planned_arrival := m\<rparr>)"

definition gate_row :: "string \<Rightarrow> row py" where
  "gate_row l = Inr (if hd l = CHR ''s'' then StartRow (gate_start (tl l)) else ResultRow (gate_result (tl l)))"

definition gate_world :: world where
  "gate_world = demo_world\<lparr>file_text := (\<lambda>p. let k = gate_key p in Some (CHR ''s'' # k @ [nl] @ CHR ''r'' # k)),
     globbed := (\<lambda>d pat. concat (map (\<lambda>n. map (round_path d ''baseline'' n) [0, 3]
       @ map (round_path d ''candidate'' n) [1, 2]) expected_phases))\<rparr>"

definition gate_phase :: "string \<Rightarrow> string \<Rightarrow> phase" where
  "gate_phase n k = (case phase_of n ''digest'' [StartRow (gate_start k), ResultRow (gate_result k)] (gate_start k) (gate_result k) of
     Inr ph \<Rightarrow> ph)"

lemma gate_phases: "\<forall>n \<in> set expected_phases. \<forall>v \<in> set ''bc''. let k = [n ! 2, n ! 5, last n, v] in
  splitlines (CHR ''s'' # k @ [nl] @ CHR ''r'' # k) = [CHR ''s'' # k, CHR ''r'' # k]
  \<and> isl (phase_of n ''digest'' [StartRow (gate_start k), ResultRow (gate_result k)] (gate_start k) (gate_result k)) = False"
  by code_simp

lemma gate_load:
  assumes "n \<in> set expected_phases" "path_stem p = n" "hd (base_name (path_parent p)) = v" "v \<in> set ''bc''"
  shows "load_phase gate_world gate_row p = Inr (gate_phase n [n ! 2, n ! 5, last n, v])"
proof -
  let ?k = "[n ! 2, n ! 5, last n, v]"
  have key: "gate_key p = ?k" using assms by (simp add: gate_key_def Let_def)
  have g: "splitlines (CHR ''s'' # ?k @ [nl] @ CHR ''r'' # ?k) = [CHR ''s'' # ?k, CHR ''r'' # ?k]"
    "\<not> isl (phase_of n ''digest'' [StartRow (gate_start ?k), ResultRow (gate_result ?k)] (gate_start ?k) (gate_result ?k))"
    using gate_phases assms(1,4) unfolding Let_def by blast+
  have w: "read_text gate_world p = Inr (CHR ''s'' # ?k @ [nl] @ CHR ''r'' # ?k)" "sha256_hex gate_world t = ''digest''" for t
    unfolding read_text_def by (simp_all add: gate_world_def demo_world_def key Let_def)
  have rows: "mapE gate_row [CHR ''s'' # ?k, CHR ''r'' # ?k] = Inr [StartRow (gate_start ?k), ResultRow (gate_result ?k)]"
    by (simp add: gate_row_def)
  have "phase_of n ''digest'' [StartRow (gate_start ?k), ResultRow (gate_result ?k)] (gate_start ?k) (gate_result ?k) = Inr (gate_phase n ?k)"
    using g(2) by (auto simp: gate_phase_def isl_def split: sum.splits)
  then show ?thesis
    unfolding load_phase_def w bindE.simps g(1) rows by (simp add: start_rows_def result_rows_def List.map_filter_def assms(2))
qed

definition gate_fields :: "string \<Rightarrow> char \<Rightarrow> arm_result \<Rightarrow> bool" where
  "gate_fields n v r \<longleftrightarrow> arm_valid_and_complete r \<and> arm_measurement_seconds r = 60 \<and> run_count r = 2
     \<and> seconds_per_run r = 30 \<and> arm_worst_planned_p999_ns r = (if v = CHR ''b'' then 10 else 8)
     \<and> configuration r = config_of (gate_start [n ! 2, n ! 5, last n, CHR ''b''])
     \<and> phase_label (c_subscribers (configuration r)) (c_payload_bytes (configuration r)) (c_pattern (configuration r)) = n"

definition gate_ok :: "string \<Rightarrow> string \<Rightarrow> string \<Rightarrow> char \<Rightarrow> bool" where
  "gate_ok p q n v \<longleftrightarrow> (let ph = gate_phase n [n ! 2, n ! 5, last n, v] in
     case aggregate_phases [p, q] [ph, ph] of Inl _ \<Rightarrow> False | Inr r \<Rightarrow> gate_fields n v r)"

lemma gate_arms_1:
  "gate_ok p q ''2p1s-64b-steady'' (CHR ''b'')"
  "gate_ok p q ''2p1s-64b-steady'' (CHR ''c'')"
  "gate_ok p q ''2p1s-64b-burst'' (CHR ''b'')"
  "gate_ok p q ''2p1s-64b-burst'' (CHR ''c'')"
  by code_simp+

lemma gate_arms_2:
  "gate_ok p q ''2p1s-256b-steady'' (CHR ''b'')"
  "gate_ok p q ''2p1s-256b-steady'' (CHR ''c'')"
  "gate_ok p q ''2p1s-256b-burst'' (CHR ''b'')"
  "gate_ok p q ''2p1s-256b-burst'' (CHR ''c'')"
  by code_simp+

lemma gate_arms_3:
  "gate_ok p q ''2p2s-64b-steady'' (CHR ''b'')"
  "gate_ok p q ''2p2s-64b-steady'' (CHR ''c'')"
  "gate_ok p q ''2p2s-64b-burst'' (CHR ''b'')"
  "gate_ok p q ''2p2s-64b-burst'' (CHR ''c'')"
  by code_simp+

lemma gate_arms_4:
  "gate_ok p q ''2p2s-256b-steady'' (CHR ''b'')"
  "gate_ok p q ''2p2s-256b-steady'' (CHR ''c'')"
  "gate_ok p q ''2p2s-256b-burst'' (CHR ''b'')"
  "gate_ok p q ''2p2s-256b-burst'' (CHR ''c'')"
  by code_simp+

lemmas gate_arms_each = gate_arms_1 gate_arms_2 gate_arms_3 gate_arms_4

lemma expected_list: "expected_phases = [''2p1s-64b-steady'', ''2p1s-64b-burst'', ''2p1s-256b-steady'', ''2p1s-256b-burst'', ''2p2s-64b-steady'', ''2p2s-64b-burst'', ''2p2s-256b-steady'', ''2p2s-256b-burst'']"
  by code_simp

lemma gate_arms: "n \<in> set expected_phases \<Longrightarrow> v \<in> set ''bc'' \<Longrightarrow> gate_ok p q n v"
  unfolding expected_list list.set insert_iff empty_iff by (elim disjE FalseE) (simp_all only: gate_arms_each)

lemma gate_aggregate:
  assumes "d \<noteq> []" "n \<in> set expected_phases" "version \<in> {''baseline'', ''candidate''}"
    "i \<in> {0, 1, 2, 3}" "j \<in> {0, 1, 2, 3}"
  shows "\<exists>r. aggregate gate_world gate_row [round_path d version n i, round_path d version n j] = Inr r
    \<and> gate_fields n (hd version) r"
proof -
  let ?k = "[n ! 2, n ! 5, last n, hd version]"
  have v: "hd version \<in> set ''bc''" using assms(3) by auto
  have ne: "n \<noteq> []" "CHR ''/'' \<notin> set n" using expected_names [OF assms(2)] by auto
  have "load_phase gate_world gate_row (round_path d version n r) = Inr (gate_phase n ?k)" if "r \<in> {0, 1, 2, 3}" for r
    using round_path_parts(1,2) [OF assms(1) ne assms(3) that] v by (intro gate_load [OF assms(2)]) simp_all
  then have "aggregate gate_world gate_row [round_path d version n i, round_path d version n j]
    = aggregate_phases [round_path d version n i, round_path d version n j] [gate_phase n ?k, gate_phase n ?k]"
    using assms(4,5) by (simp only: aggregate_def mapE.simps bindE.simps)
  moreover have "case aggregate_phases [round_path d version n i, round_path d version n j] [gate_phase n ?k, gate_phase n ?k] of
      Inl _ \<Rightarrow> False | Inr r \<Rightarrow> gate_fields n (hd version) r"
    using gate_arms [OF assms(2) v] by (simp only: gate_ok_def Let_def)
  ultimately show ?thesis
    by (cases "aggregate_phases [round_path d version n i, round_path d version n j] [gate_phase n ?k, gate_phase n ?k]") auto
qed

lemma gate_ab_phase:
  assumes "d \<noteq> []" "n \<in> set expected_phases"
  shows "\<exists>b c. ab_phase gate_world gate_row d n = Inr (n, [(''baseline'', b), (''candidate'', c)])
    \<and> gate_fields n (CHR ''b'') b \<and> gate_fields n (CHR ''c'') c"
proof -
  obtain b c where b: "aggregate gate_world gate_row (map (round_path d ''baseline'' n) [0, 3]) = Inr b" "gate_fields n (CHR ''b'') b"
    and c: "aggregate gate_world gate_row (map (round_path d ''candidate'' n) [1, 2]) = Inr c" "gate_fields n (CHR ''c'') c"
    using gate_aggregate [OF assms, of "''baseline''" 0 3] gate_aggregate [OF assms, of "''candidate''" 1 2] by auto
  have eq: "arm_measurement_seconds b = arm_measurement_seconds c" "configuration b = configuration c"
    using b(2) c(2) unfolding gate_fields_def by simp_all
  have lab: "phase_label (c_subscribers (configuration b)) (c_payload_bytes (configuration b)) (c_pattern (configuration b)) = n"
    using b(2) unfolding gate_fields_def by blast
  have "ab_phase gate_world gate_row d n = Inr (n, [(''baseline'', b), (''candidate'', c)])"
    unfolding ab_phase_def b(1) c(1) bindE.simps lab by (simp only: eq require_True bindE.simps simp_thms)
  then show ?thesis using b(2) c(2) by blast
qed

lemma gate_summary:
  assumes "d \<noteq> []"
  shows "\<exists>doc rs. ab_summary gate_world gate_row d = Inr doc \<and> assess_group (ab_group doc) = Inr rs \<and> (\<forall>(_, r) \<in> set rs. pass r)"
proof -
  have "\<forall>n \<in> set (sort expected_phases). \<exists>nv. ab_phase gate_world gate_row d n = Inr nv \<and> (\<exists>b c. nv = (n, [(''baseline'', b), (''candidate'', c)])
      \<and> gate_fields n (CHR ''b'') b \<and> gate_fields n (CHR ''c'') c)"
    using gate_ab_phase [OF assms] by (metis set_sort)
  from bchoice [OF this] obtain f where f: "\<forall>n \<in> set (sort expected_phases). ab_phase gate_world gate_row d n = Inr (f n)
      \<and> (\<exists>b c. f n = (n, [(''baseline'', b), (''candidate'', c)]) \<and> gate_fields n (CHR ''b'') b \<and> gate_fields n (CHR ''c'') c)" ..
  have m: "mapE (ab_phase gate_world gate_row d) (sort expected_phases) = Inr (map f (sort expected_phases))"
    using f by (intro mapE_total) blast
  define doc where "doc = \<lparr>ab_group = \<lparr>order = abba_order, group_phases = map f (sort expected_phases)\<rparr>,
       ab_measurement_seconds = sum_list (map (\<lambda>(_, vs). sum_list (map (\<lambda>(_, v). arm_measurement_seconds v) vs)) (map f (sort expected_phases))),
       all_valid_and_complete = (\<forall>(_, vs) \<in> set (map f (sort expected_phases)). \<forall>(_, v) \<in> set vs. arm_valid_and_complete v)\<rparr>"
  have "set (globbed gate_world d pat) = set (concat (map (\<lambda>name. map (round_path d ''baseline'' name) [0, 3]
            @ map (round_path d ''candidate'' name) [1, 2]) (sort expected_phases)))" for pat
    by (simp add: gate_world_def)
  then have doc: "ab_summary gate_world gate_row d = Inr doc"
    unfolding ab_summary_def Let_def m bindE.simps by (simp only: require_True simp_thms bindE.simps doc_def)
  have names: "set (map fst (group_phases (ab_group doc))) = set expected_phases"
    using f by (force simp: doc_def)
  have "\<exists>rs. assess_group (ab_group doc) = Inr rs \<and> (\<forall>(_, r) \<in> set rs. pass r)"
  proof (rule assess_group_complete [OF names])
    show "order (ab_group doc) = abba_order" by (simp add: doc_def)
    fix name vs assume "(name, vs) \<in> set (group_phases (ab_group doc))"
    then obtain b c where bc: "vs = [(''baseline'', b), (''candidate'', c)]" "gate_fields name (CHR ''b'') b" "gate_fields name (CHR ''c'') c"
      using f by (auto simp: doc_def)
    then have "within_gate name b c" by (simp add: gate_fields_def within_gate_def)
    then show "\<exists>b c. vs = [(''baseline'', b), (''candidate'', c)]
       \<and> within_gate name b c \<and> (\<forall>v \<in> {b, c}. arm_valid_and_complete v \<and> arm_measurement_seconds v = 60
         \<and> run_count v = 2 \<and> seconds_per_run v = 30 \<and> \<bar>arm_worst_planned_p999_ns v\<bar> \<le> 2 ^ 53)"
      using bc by (intro exI [of _ b] exI [of _ c]) (simp add: gate_fields_def)
  qed
  then show ?thesis using doc by blast
qed

section \<open>Properties\<close>

text \<open>C25. The worst p99.9 of an arm is the greatest, over subscribers, of the nearest-rank quantile
  of that subscriber's own planned-arrival observations pooled over the runs: it bounds every
  subscriber and is attained by one, so no subscriber is averaged away.\<close>

theorem aggregate_worst_p999:
  assumes "aggregate w read_row paths = Inr r" "mapE (load_phase w read_row) paths = Inr phs"
  shows "(\<forall>i < nat (c_subscribers (configuration r)).
      nearest_rank (concat (map (\<lambda>ph. expand (from_planned_arrival (subscribers (result ph) ! i))) phs)) 999 1000
        \<le> arm_worst_planned_p999_ns r)
    \<and> (\<exists>i < nat (c_subscribers (configuration r)).
      nearest_rank (concat (map (\<lambda>ph. expand (from_planned_arrival (subscribers (result ph) ! i))) phs)) 999 1000
        = arm_worst_planned_p999_ns r)"
proof -
  define st0 where "st0 = start (hd phs)"
  obtain subs pubs where subs: "mapE (merge_subscriber phs) [0..<nat (subscriber_count st0)] = Inr subs"
    and arm: "arm_of paths phs st0 subs pubs = Inr r"
    using aggregate_parts [OF assms(1)] assms(2) by (auto simp: st0_def)
  let ?n = "nat (subscriber_count st0)"
  let ?q = "\<lambda>i. nearest_rank (concat (map (\<lambda>ph. expand (from_planned_arrival (subscribers (result ph) ! i))) phs)) 999 1000"
  have len: "length subs = ?n" using mapE_length [OF subs] by simp
  have q: "p999_ns (m_planned_arrival (subs ! i)) = ?q i" if "i < ?n" for i
  proof -
    have "merge_subscriber phs i = Inr (subs ! i)" using mapE_nth [OF subs, of i] that by simp
    from pooled_quantiles(3) [OF merge_subscriber_pooled(1) [OF this loaded_checked [OF assms(2)]]]
    show ?thesis by (simp add: comp_def)
  qed
  note w = worst_Inr [OF arm_of_fields(3) [OF arm]]
  have n: "nat (c_subscribers (configuration r)) = ?n" using arm_of_fields(6) [OF arm] by (simp add: config_of_def)
  have "\<forall>i < ?n. ?q i \<le> arm_worst_planned_p999_ns r" using w(2) q len by (metis nth_mem)
  moreover have "\<exists>i < ?n. ?q i = arm_worst_planned_p999_ns r" using w(1) q len by (metis in_set_conv_nth)
  ultimately show ?thesis unfolding n by simp
qed


lemma aggregate_worst_p999_witness:
  "\<exists>r (phs :: phase list). aggregate gate_world gate_row [round_path ''d'' ''baseline'' ''2p1s-64b-steady'' 0, round_path ''d'' ''baseline'' ''2p1s-64b-steady'' 3] = Inr r
    \<and> nearest_rank (concat (map (\<lambda>ph. expand (from_planned_arrival (subscribers (result ph) ! 0))) phs)) 999 1000
      \<le> arm_worst_planned_p999_ns r"
proof -
  let ?ps = "[round_path ''d'' ''baseline'' ''2p1s-64b-steady'' 0, round_path ''d'' ''baseline'' ''2p1s-64b-steady'' 3]"
  have "''2p1s-64b-steady'' \<in> set expected_phases" by code_simp
  then obtain r where r: "aggregate gate_world gate_row ?ps = Inr r" "gate_fields ''2p1s-64b-steady'' (CHR ''b'') r"
    using gate_aggregate [of "''d''" "''2p1s-64b-steady''" "''baseline''" 0 3] by auto
  obtain phs where phs: "mapE (load_phase gate_world gate_row) ?ps = Inr phs" using aggregate_parts [OF r(1)] by blast
  have "c_subscribers (configuration r) = 1"
    using r(2) by (simp add: gate_fields_def config_of_def gate_start_def Let_def)
  then have "nearest_rank (concat (map (\<lambda>ph. expand (from_planned_arrival (subscribers (result ph) ! 0))) phs)) 999 1000
      \<le> arm_worst_planned_p999_ns r"
    using aggregate_worst_p999 [OF r(1) phs] by simp
  from conjI [OF r(1) this] show ?thesis by (intro exI)
qed

text \<open>C11. A group that passes the audit and the gate passes on raw data: for each of the eight
  configurations, the baseline and the candidate are what two distinct raw files of that group, configuration
  and version re-audit to, every one of these runs is complete, and the candidate's worst p99.9
  is within 80 percent (targeted bursts) or 105 percent (others) of the baseline's.\<close>

theorem audited_group_pass:
  assumes "audit_saved_group w read_row (Some d) g = Inr ()" "assess_group g = Inr rs"
    "\<forall>(_, r) \<in> set rs. pass r" "name \<in> set expected_phases"
  shows "\<exists>b c bs cs. raw_arm w read_row d name ''baseline'' bs b \<and> raw_arm w read_row d name ''candidate'' cs c
    \<and> (\<forall>p \<in> set (bs @ cs). \<exists>ph. load_phase w read_row p = Inr ph \<and> valid_and_complete (acceptance ph))
    \<and> within_gate name b c"
proof -
  obtain vs b c where vs: "(name, vs) \<in> set (group_phases g)" and b: "map_of vs ''baseline'' = Some b"
    and c: "map_of vs ''candidate'' = Some c" and gate: "within_gate name b c"
    and valid: "arm_valid_and_complete b" "arm_valid_and_complete c"
    using assess_group_pass [OF assms(2,3,4)] by blast
  obtain pss where pss: "mapE (audit_phase w read_row (Some d)) (group_phases g) = Inr pss"
    using assms(1) by (auto simp: audit_saved_group_def)
  obtain ps where ps: "audit_phase w read_row (Some d) (name, vs) = Inr ps" using mapE_set [OF pss vs] by blast
  obtain bs cs where raw: "raw_arm w read_row d name ''baseline'' bs b" "raw_arm w read_row d name ''candidate'' cs c"
    using audit_phase_raw [OF ps b] audit_phase_raw [OF ps c] by blast
  have "\<forall>p \<in> set (bs @ cs). \<exists>ph. load_phase w read_row p = Inr ph \<and> valid_and_complete (acceptance ph)"
    using raw arm_valid_runs valid unfolding raw_arm_def set_append by blast
  then show ?thesis using raw gate by blast
qed

lemma audited_group_pass_witness:
  "\<exists>b c bs cs. raw_arm gate_world gate_row ''d'' ''2p2s-64b-burst'' ''baseline'' bs b
    \<and> raw_arm gate_world gate_row ''d'' ''2p2s-64b-burst'' ''candidate'' cs c \<and> within_gate ''2p2s-64b-burst'' b c"
proof -
  obtain doc rs where doc: "ab_summary gate_world gate_row ''d'' = Inr doc" and rs: "assess_group (ab_group doc) = Inr rs"
    and ok: "\<forall>(_, r) \<in> set rs. pass r"
    using gate_summary [of "''d''"] by blast
  have "''2p2s-64b-burst'' \<in> set expected_phases" by code_simp
  from audited_group_pass [OF ab_summary_audited [OF _ doc] rs ok this] show ?thesis by auto
qed

text \<open>C27. The writer and the auditor agree: a group summary computed by the tool from a directory passes
  its own re-audit in that directory, so a rejected summary was changed or its raw files were.\<close>

theorem fresh_summary_audited:
  assumes "d \<noteq> []" "ab_summary w read_row d = Inr doc"
  shows "audit_saved_group w read_row (Some d) (ab_group doc) = Inr ()
    \<and> map fst (group_phases (ab_group doc)) = sort expected_phases"
proof -
  have "map fst (group_phases (ab_group doc)) = sort expected_phases"
  proof -
    obtain phs where phs: "mapE (ab_phase w read_row d) (sort expected_phases) = Inr phs" "group_phases (ab_group doc) = phs"
      using assms(2) by (auto simp: ab_summary_def Let_def)
    have "fst (phs ! k) = sort expected_phases ! k" if "k < length (sort expected_phases)" for k
      by (rule ab_phase_name [OF mapE_nth [OF phs(1) that]])
    then show ?thesis using mapE_length [OF phs(1)] phs(2) by (auto simp: list_eq_iff_nth_eq)
  qed
  then show ?thesis using ab_summary_audited [OF assms] by simp
qed

lemma fresh_summary_audited_witness:
  "\<exists>doc. ab_summary gate_world gate_row ''d'' = Inr doc \<and> audit_saved_group gate_world gate_row (Some ''d'') (ab_group doc) = Inr ()"
proof -
  obtain doc where "ab_summary gate_world gate_row ''d'' = Inr doc" using gate_summary [of "''d''"] by blast
  then show ?thesis using fresh_summary_audited [of "''d''"] by auto
qed

end
