(* ===== verification/P31Tail.thy ===== *)
theory P31Tail
  imports TailGate
begin

text \<open>
  The HFT non-inferiority audit \<open>tools/hft_acceptance/compare_p31_tail.py\<close>: the frozen protocol,
  the run-by-run identity checks of the manifest against 96 expected runs (\<open>check_run\<close>), the integer
  105 percent gate on both quantiles (\<open>assess_pair\<close>) and the audit that re-reads every raw file.
  The manifest is the JSON document; raw rows are read through \<open>read_row\<close>.
\<close>

section \<open>The protocol\<close>

definition disable_fence :: json where
  "disable_fence = JObj [(''SALIAS_DISABLE_ASYMMETRIC_FENCE'', JStr ''1'')]"

definition arm_environment :: "(string \<times> json) list" where
  "arm_environment = [(''S'', disable_fence), (''A'', JObj [])]"

definition tail_order :: "string list" where
  "tail_order = [''S'', ''A'', ''A'', ''S'']"

definition configurations :: "string list" where
  "configurations = expected_phases"

definition metrics :: "string list" where
  "metrics = [''worst_planned_p99_ns'', ''worst_planned_p999_ns'']"

definition protocol :: json where
  "protocol = JObj
    [(''name'', JStr ''P3-1 G4 HFT non-inferiority''),
     (''groups'', jint 3),
     (''seconds_per_run'', jint 30),
     (''order'', JList (map JStr tail_order)),
     (''configurations'', JList (map JStr configurations)),
     (''environment'', JObj arm_environment),
     (''metrics'', JList (map JStr metrics)),
     (''maximum_candidate_percent_of_seq'', jint 105),
     (''every_group_and_configuration_required'', JBool True),
     (''integrity_and_original_input_completion_required'', JBool True),
     (''independent_50us_budget_is_not_the_relative_gate'', JBool True)]"

section \<open>The gate\<close>

record metric_result =
  seq_ns :: int
  asym_ns :: int
  metric_change :: "num option"
  metric_passed :: bool

record pair_result =
  pair_valid :: bool
  pair_metrics :: "(string \<times> metric_result) list"
  pair_passed :: bool
  pair_50us_pass :: bool

definition metric_ns :: "string \<Rightarrow> arm_result \<Rightarrow> int" where
  "metric_ns m r = (if m = ''worst_planned_p99_ns'' then arm_worst_planned_p99_ns r else arm_worst_planned_p999_ns r)"

definition assess_metric :: "bool \<Rightarrow> int \<Rightarrow> int \<Rightarrow> metric_result py" where
  "assess_metric valid before after =
     bindE (if before \<noteq> 0 then bindE (percent_change before after) (\<lambda>c. Inr (Some c)) else Inr None) (\<lambda>change.
     Inr \<lparr>seq_ns = before, asym_ns = after, metric_change = change,
       metric_passed = (valid \<and> 0 < before \<and> after * 100 \<le> before * 105)\<rparr>)"

definition assess_pair :: "arm_result \<Rightarrow> arm_result \<Rightarrow> pair_result py" where
  "assess_pair seq asy =
     (let valid = arm_valid_and_complete seq \<and> arm_valid_and_complete asy in
      bindE (mapE (\<lambda>m. bindE (assess_metric valid (metric_ns m seq) (metric_ns m asy)) (\<lambda>r. Inr (m, r))) metrics) (\<lambda>ms.
      Inr \<lparr>pair_valid = valid, pair_metrics = ms, pair_passed = (\<forall>(_, r) \<in> set ms. metric_passed r),
        pair_50us_pass = planned_p999_budget_pass asy\<rparr>))"

section \<open>The manifest\<close>

type_synonym identity = "int \<times> string \<times> int \<times> string"

definition expected_runs :: "identity list" where
  "expected_runs = concat (map (\<lambda>grp. concat (map (\<lambda>name.
     map (\<lambda>(r, arm). (grp, name, r, arm)) (zip [0, 1, 2, 3] tail_order)) configurations)) [1, 2, 3])"

definition relative_path :: "identity \<Rightarrow> string" where
  "relative_path i = (case i of (grp, name, r, arm) \<Rightarrow>
     ''group-'' @ show_int grp @ ''/round-'' @ show_int r @ ''/'' @ arm @ ''/'' @ name @ ''.jsonl'')"

text \<open>\<open>subscribers, payload, pattern = name.split("-")\<close>\<close>

fun split_on :: "char \<Rightarrow> string \<Rightarrow> string list" where
  "split_on c [] = [[]]"
| "split_on c (x # s) = (if x = c then [] # split_on c s
     else (case split_on c s of [] \<Rightarrow> [[x]] | w # ws \<Rightarrow> (x # w) # ws))"

definition expected_command :: "json \<Rightarrow> string \<Rightarrow> json py" where
  "expected_command client name =
     (case split_on (CHR ''-'') name of
        [subs, payload, pat] \<Rightarrow>
          bindE (nthE subs 2) (\<lambda>s.
          Inr (JList ([JStr ''timeout'', JStr ''--signal=TERM'', JStr ''--kill-after=10s'', JStr ''70s'', client]
            @ map JStr [''--subscribers'', [s], ''--payload'', butlast payload, ''--seconds'', ''30'',
              ''--pattern'', pat, ''--rate'', ''1000000'', ''--peak-rate'', ''4000000'', ''--burst-ms'', ''100'',
              ''--cpu-base'', ''0''])))
      | _ \<Rightarrow> Inl (ValueError ''unpack''))"

text \<open>Two values compared as \<open>(run[k], ...) == identity\<close>.\<close>

definition identity_matches :: "json \<Rightarrow> identity \<Rightarrow> bool py" where
  "identity_matches run i = (case i of (grp, name, r, arm) \<Rightarrow>
     bindE (getitem run ''group'') (\<lambda>g. bindE (getitem run ''configuration'') (\<lambda>c.
     bindE (getitem run ''round'') (\<lambda>n. bindE (getitem run ''arm'') (\<lambda>a.
     Inr (jeq g (jint grp) \<and> jeq c (JStr name) \<and> jeq n (jint r) \<and> jeq a (JStr arm)))))))"

definition lookup_arm :: "string \<Rightarrow> json py" where
  "lookup_arm arm = (case map_of arm_environment arm of None \<Rightarrow> Inl KeyError | Some e \<Rightarrow> Inr e)"

definition check_file :: "world \<Rightarrow> string \<Rightarrow> json \<Rightarrow> string \<Rightarrow> unit py" where
  "check_file w directory run key =
     bindE (bindE (getitem run key) as_str) (\<lambda>name.
     let path = slash directory name in
     if directory \<notin> set (path_parents (resolved w path)) then Inl (ValueError (''HFT '' @ key @ '' hash/path mismatch''))
     else bindE (file_sha w path) (\<lambda>h. bindE (getitem run (key @ ''_sha256'')) (\<lambda>sha.
       require (jeq sha (JStr h)) (ValueError (''HFT '' @ key @ '' hash/path mismatch'')))))"

definition check_run :: "world \<Rightarrow> string \<Rightarrow> json \<Rightarrow> json \<times> identity \<Rightarrow> string py" where
  "check_run w directory manifest ri = (case ri of (run, grp, name, r, arm) \<Rightarrow>
     let relative = relative_path (grp, name, r, arm) in
     bindE (identity_matches run (grp, name, r, arm)) (\<lambda>same.
     bindE (require same (ValueError ''HFT run order/identity mismatch'')) (\<lambda>_.
     bindE (getitem run ''raw'') (\<lambda>raw.
     bindE (require (jeq raw (JStr relative)) (ValueError ''HFT run arm, environment or raw path mismatch'')) (\<lambda>_.
     bindE (getitem run ''environment'') (\<lambda>env. bindE (lookup_arm arm) (\<lambda>arm_env.
     bindE (require (jeq env arm_env) (ValueError ''HFT run arm, environment or raw path mismatch'')) (\<lambda>_.
     bindE (getitem run ''client_sha256'') (\<lambda>sha. bindE (getitem manifest ''client_sha256'') (\<lambda>client_sha.
     bindE (require (jeq sha client_sha) (ValueError ''HFT run arm, environment or raw path mismatch'')) (\<lambda>_.
     bindE (getitem run ''command'') (\<lambda>command. bindE (getitem manifest ''client'') (\<lambda>client.
     bindE (expected_command client name) (\<lambda>expected.
     bindE (require (jeq command expected) (ValueError ''HFT run command differs from protocol'')) (\<lambda>_.
     bindE (mapE (check_file w directory run) [''raw'', ''stderr'']) (\<lambda>_.
     bindE (getitem run ''returncode'') (\<lambda>code.
     bindE (require (jeq code (jint 0)) (ValueError (''HFT run failed: '' @ relative))) (\<lambda>_.
     Inr (slash directory relative)))))))))))))))))))"

definition check_input :: "world \<Rightarrow> string \<times> json \<Rightarrow> unit py" where
  "check_input w ps = (case ps of (path, sha) \<Rightarrow> bindE (file_sha w path) (\<lambda>h.
     require (jeq sha (JStr h)) (ValueError (''frozen input changed: '' @ path))))"

definition check_manifest :: "world \<Rightarrow> string \<Rightarrow> json \<Rightarrow> string list py" where
  "check_manifest w directory manifest =
     bindE (getitem manifest ''protocol'') (\<lambda>p.
     bindE (require (jeq p protocol) (ValueError ''HFT protocol differs from the pre-measurement specification'')) (\<lambda>_.
     bindE (bindE (getitem manifest ''client'') as_str) (\<lambda>client. bindE (file_sha w client) (\<lambda>h.
     bindE (getitem manifest ''client_sha256'') (\<lambda>sha.
     bindE (require (jeq sha (JStr h)) (ValueError ''HFT client hash changed'')) (\<lambda>_.
     bindE (bindE (getitem manifest ''inputs'') as_items) (\<lambda>inputs.
     bindE (mapE (check_input w) inputs) (\<lambda>_.
     bindE (bindE (getitem manifest ''runs'') as_list) (\<lambda>rs.
     bindE (require (length rs = length expected_runs) (ValueError ''formal HFT runs'')) (\<lambda>_.
     bindE (mapE (check_run w directory manifest) (zip rs expected_runs)) (\<lambda>paths.
     bindE (require (set (globbed w directory ''group-*/round-*/*/*.jsonl'') = set paths) (ValueError ''unexpected HFT raw files'')) (\<lambda>_.
     Inr paths))))))))))))"

section \<open>The audit\<close>

record tail_phase =
  tail_arms :: "(string \<times> arm_result) list"
  tail_pair :: pair_result

record tail_group =
  tail_group_id :: int
  tail_phases :: "(string \<times> tail_phase) list"
  tail_group_passed :: bool

record tail_audit =
  tail_groups :: "tail_group list"
  formal_runs :: int
  tail_measurement_seconds :: int
  tail_all_valid :: bool
  tail_passed :: bool
  tail_candidate_50us_pass :: bool

definition arm_paths :: "string \<Rightarrow> int \<Rightarrow> string \<Rightarrow> string \<Rightarrow> string list" where
  "arm_paths directory grp name arm = map (\<lambda>(r, _). slash directory (relative_path (grp, name, r, arm)))
     (filter (\<lambda>(_, selected). selected = arm) (zip [0, 1, 2, 3] tail_order))"

definition audit_configuration :: "world \<Rightarrow> (string \<Rightarrow> row py) \<Rightarrow> string \<Rightarrow> int \<Rightarrow> string \<Rightarrow> (string \<times> tail_phase) py" where
  "audit_configuration w read_row directory grp name =
     bindE (aggregate w read_row (arm_paths directory grp name ''S'')) (\<lambda>seq.
     bindE (aggregate w read_row (arm_paths directory grp name ''A'')) (\<lambda>asy.
     bindE (require (configuration seq = configuration asy) (ValueError ''HFT A/S configuration mismatch'')) (\<lambda>_.
     let c = configuration seq in
     bindE (require (name = phase_label (c_subscribers c) (c_payload_bytes c) (c_pattern c)
         \<and> c_cpus c = [0..c_subscribers c + 1]) (ValueError ''HFT filename/configuration/CPU mismatch'')) (\<lambda>_.
     bindE (require (\<forall>v \<in> {seq, asy}. run_count v = 2 \<and> seconds_per_run v = 30)
       (ValueError ''formal HFT needs two 30-second runs per arm/group'')) (\<lambda>_.
     bindE (assess_pair seq asy) (\<lambda>pair.
     Inr (name, \<lparr>tail_arms = [(''S'', seq), (''A'', asy)], tail_pair = pair\<rparr>)))))))"

definition audit_group :: "world \<Rightarrow> (string \<Rightarrow> row py) \<Rightarrow> string \<Rightarrow> int \<Rightarrow> tail_group py" where
  "audit_group w read_row directory grp =
     bindE (mapE (audit_configuration w read_row directory grp) configurations) (\<lambda>phs.
     Inr \<lparr>tail_group_id = grp, tail_phases = phs,
       tail_group_passed = (\<forall>(_, p) \<in> set phs. pair_passed (tail_pair p))\<rparr>)"

definition all_pairs :: "(pair_result \<Rightarrow> bool) \<Rightarrow> tail_group list \<Rightarrow> bool" where
  "all_pairs f gs \<longleftrightarrow> (\<forall>g \<in> set gs. \<forall>(_, p) \<in> set (tail_phases g). f (tail_pair p))"

definition audit :: "world \<Rightarrow> (string \<Rightarrow> row py) \<Rightarrow> string \<Rightarrow> tail_audit py" where
  "audit w read_row directory0 =
     (let directory = resolved w directory0 in
     bindE (bindE (read_text w (slash directory ''experiment.json'')) (json_loads w)) (\<lambda>manifest.
     bindE (check_manifest w directory manifest) (\<lambda>_.
     bindE (mapE (audit_group w read_row directory) [1, 2, 3]) (\<lambda>gs.
     Inr \<lparr>tail_groups = gs, formal_runs = int (length expected_runs),
       tail_measurement_seconds = int (length expected_runs) * 30,
       tail_all_valid = all_pairs pair_valid gs,
       tail_passed = (\<forall>g \<in> set gs. tail_group_passed g),
       tail_candidate_50us_pass = all_pairs pair_50us_pass gs\<rparr>))))"


section \<open>Properties\<close>

lemma getitem_as_list_length: "length expected_runs = 96"
  by code_simp

definition recorded :: "world \<Rightarrow> string \<Rightarrow> json \<Rightarrow> identity \<Rightarrow> bool" where
  "recorded w d run i \<longleftrightarrow> getitem run ''raw'' = Inr (JStr (relative_path i))
     \<and> (\<exists>t. file_text w (slash d (relative_path i)) = Some t \<and> getitem run ''raw_sha256'' = Inr (JStr (sha256_hex w t)))
     \<and> (\<exists>code. getitem run ''returncode'' = Inr code \<and> jeq code (jint 0))"

lemma check_file_recorded:
  assumes "check_file w d run key = Inr ()" "getitem run key = Inr (JStr name)"
  shows "\<exists>t. file_text w (slash d name) = Some t \<and> getitem run (key @ ''_sha256'') = Inr (JStr (sha256_hex w t))"
  using assms by (auto simp: check_file_def Let_def file_sha_Inr split: if_splits)

lemma check_run_recorded:
  assumes "check_run w d m (run, i) = Inr p"
  shows "recorded w d run i" "p = slash d (relative_path i)"
proof -
  obtain grp name r arm where i: "i = (grp, name, r, arm)" by (cases i)
  obtain raw us code where raw: "getitem run ''raw'' = Inr raw" "jeq raw (JStr (relative_path i))"
    and us: "mapE (check_file w d run) [''raw'', ''stderr''] = Inr us"
    and code: "getitem run ''returncode'' = Inr code" "jeq code (jint 0)" and p: "slash d (relative_path i) = p"
    using assms unfolding check_run_def Let_def i prod.case bindE_Inr require_Inr sum.inject by blast
  have r: "getitem run ''raw'' = Inr (JStr (relative_path i))" using raw by simp
  have "check_file w d run ''raw'' = Inr ()" using us by auto
  from check_file_recorded [OF this r] r code show "recorded w d run i" by (simp add: recorded_def)
  show "p = slash d (relative_path i)" using p by simp
qed

text \<open>A manifest that records everything, in a directory where every digest is the same.\<close>

definition ledger_world :: "json \<Rightarrow> world" where
  "ledger_world m = \<lparr>file_text = (\<lambda>p. Some []), sha256_hex = (\<lambda>t. ''digest''), json_loads = (\<lambda>t. Inr m),
     globbed = (\<lambda>d pat. map (\<lambda>i. slash d (relative_path i)) expected_runs),
     resolved = (\<lambda>p. if p = ''d'' then ''d'' else ''d/x'')\<rparr>"

definition ledger_run :: "identity \<Rightarrow> json" where
  "ledger_run i = (case i of (grp, name, r, arm) \<Rightarrow> JObj
     [(''group'', jint grp), (''configuration'', JStr name), (''round'', jint r), (''arm'', JStr arm),
      (''raw'', JStr (relative_path i)), (''stderr'', JStr ''err''),
      (''environment'', if arm = ''S'' then disable_fence else JObj []), (''client_sha256'', JStr ''digest''),
      (''command'', case expected_command (JStr ''client'') name of Inr c \<Rightarrow> c | Inl _ \<Rightarrow> JNull),
      (''raw_sha256'', JStr ''digest''), (''stderr_sha256'', JStr ''digest''), (''returncode'', jint 0)])"

definition ledger :: json where
  "ledger = JObj [(''protocol'', protocol), (''client'', JStr ''client''), (''client_sha256'', JStr ''digest''),
     (''inputs'', JObj []), (''runs'', JList (map ledger_run expected_runs))]"

lemma ledger_commands: "\<forall>name \<in> set configurations. case expected_command (JStr ''client'') name of Inl _ \<Rightarrow> False | Inr c \<Rightarrow> jeq c c"
  by code_simp

lemma ledger_file:
  assumes "getitem run key = Inr (JStr name)" "getitem run (key @ ''_sha256'') = Inr (JStr ''digest'')"
  shows "check_file (ledger_world m) ''d'' run key = Inr ()"
proof -
  have "''d'' \<in> set (path_parents ''d/x'')" by code_simp
  moreover have "resolved (ledger_world m) (slash ''d'' name) = ''d/x''"
    by (cases name) (auto simp: ledger_world_def slash_def)
  ultimately show ?thesis using assms by (simp add: check_file_def file_sha_def read_text_def ledger_world_def)
qed

lemma ledger_check_run:
  assumes "name \<in> set configurations" "arm \<in> {''S'', ''A''}"
  shows "check_run (ledger_world m) ''d'' ledger (ledger_run (grp, name, r, arm), grp, name, r, arm)
    = Inr (slash ''d'' (relative_path (grp, name, r, arm)))"
proof -
  obtain c where c: "expected_command (JStr ''client'') name = Inr c" "jeq c c"
    using bspec [OF ledger_commands assms(1)] by (auto split: sum.splits)
  have f: "check_file (ledger_world m) ''d'' (ledger_run (grp, name, r, arm)) ''raw'' = Inr ()"
    "check_file (ledger_world m) ''d'' (ledger_run (grp, name, r, arm)) ''stderr'' = Inr ()"
    by (rule ledger_file; simp add: ledger_run_def)+
  have env: "lookup_arm arm = Inr (if arm = ''S'' then disable_fence else JObj [])" "jeq disable_fence disable_fence"
    using assms(2) by (auto simp: lookup_arm_def arm_environment_def disable_fence_def)
  have g: "getitem (ledger_run (grp, name, r, arm)) ''environment'' = Inr (if arm = ''S'' then disable_fence else JObj [])"
    "getitem (ledger_run (grp, name, r, arm)) ''raw'' = Inr (JStr (relative_path (grp, name, r, arm)))"
    "getitem (ledger_run (grp, name, r, arm)) ''client_sha256'' = Inr (JStr ''digest'')"
    "getitem (ledger_run (grp, name, r, arm)) ''command'' = Inr c"
    "getitem (ledger_run (grp, name, r, arm)) ''returncode'' = Inr (jint 0)"
    "identity_matches (ledger_run (grp, name, r, arm)) (grp, name, r, arm) = Inr True"
    "getitem ledger ''client_sha256'' = Inr (JStr ''digest'')" "getitem ledger ''client'' = Inr (JStr ''client'')"
    using c by (simp_all add: ledger_run_def ledger_def identity_matches_def)
  show ?thesis
    unfolding check_run_def Let_def prod.case g bindE.simps env(1) c(1)
    using c(2) env(2) f by (simp add: if_distrib)
qed

lemma ledger_accepted: "\<exists>paths. check_manifest (ledger_world ledger) ''d'' ledger = Inr paths"
proof -
  have ids: "\<forall>(grp, name, r, arm) \<in> set expected_runs. name \<in> set configurations \<and> arm \<in> {''S'', ''A''}" by code_simp
  have "mapE (check_run (ledger_world ledger) ''d'' ledger) (zip (map ledger_run expected_runs) expected_runs)
    = Inr (map (\<lambda>ri. slash ''d'' (relative_path (snd ri))) (zip (map ledger_run expected_runs) expected_runs))"
  proof (rule mapE_total)
    fix ri assume "ri \<in> set (zip (map ledger_run expected_runs) expected_runs)"
    then obtain k where k: "k < length expected_runs" "ri = (ledger_run (expected_runs ! k), expected_runs ! k)"
      by (auto simp: set_zip)
    define i where "i = expected_runs ! k"
    have i: "i \<in> set expected_runs" "ri = (ledger_run i, i)" using nth_mem [OF k(1)] k(2) by (simp_all add: i_def)
    obtain grp name r arm where "i = (grp, name, r, arm)" by (cases i)
    then show "check_run (ledger_world ledger) ''d'' ledger ri = Inr (slash ''d'' (relative_path (snd ri)))"
      using bspec [OF ids i(1)] i(2) ledger_check_run [of name arm ledger grp r] by simp
  qed
  moreover have "map (\<lambda>ri. slash ''d'' (relative_path (snd ri))) (zip (map ledger_run expected_runs) expected_runs)
      = map (\<lambda>i. slash ''d'' (relative_path i)) expected_runs"
    by (simp add: list_eq_iff_nth_eq)
  moreover have "globbed (ledger_world ledger) ''d'' pat = map (\<lambda>i. slash ''d'' (relative_path i)) expected_runs" for pat
    by (simp add: ledger_world_def)
  moreover have "jeq protocol protocol" by code_simp
  moreover have "file_sha (ledger_world ledger) p = Inr ''digest''" for p
    by (simp add: file_sha_def read_text_def ledger_world_def)
  ultimately show ?thesis
    unfolding check_manifest_def by (simp add: ledger_def)
qed

text \<open>An accepted manifest records the whole experiment: its runs are the 96 runs of the protocol
  (three groups, eight configurations, ABBA order) one by one, each with a raw file of that name in the
  directory whose digest is the recorded one and a zero exit code, and the directory has no other raw file.\<close>

theorem manifest_complete:
  assumes "check_manifest w directory manifest = Inr paths"
  shows "paths = map (\<lambda>i. slash directory (relative_path i)) expected_runs
    \<and> set (globbed w directory ''group-*/round-*/*/*.jsonl'') = set paths
    \<and> (\<exists>rs. bindE (getitem manifest ''runs'') as_list = Inr rs \<and> length rs = 96
         \<and> (\<forall>k < 96. recorded w directory (rs ! k) (expected_runs ! k)))"
proof -
  obtain rs where rs: "bindE (getitem manifest ''runs'') as_list = Inr rs" and len: "length rs = length expected_runs"
    and ps: "mapE (check_run w directory manifest) (zip rs expected_runs) = Inr paths"
    and glob: "set (globbed w directory ''group-*/round-*/*/*.jsonl'') = set paths"
    using assms unfolding check_manifest_def bindE_Inr [of _ "\<lambda>x. bindE (require _ _) _"] bindE_Inr require_Inr sum.inject by blast
  have each: "recorded w directory (rs ! k) (expected_runs ! k)" "paths ! k = slash directory (relative_path (expected_runs ! k))"
    if "k < length expected_runs" for k
    using check_run_recorded [of w directory manifest "rs ! k" "expected_runs ! k" "paths ! k"]
      mapE_nth [OF ps, of k] that len by simp_all
  have "paths = map (\<lambda>i. slash directory (relative_path i)) expected_runs"
    using each(2) mapE_length [OF ps] len by (auto simp: list_eq_iff_nth_eq)
  then show ?thesis using rs glob each(1) len getitem_as_list_length by metis
qed

lemma manifest_complete_witness:
  "\<exists>paths. check_manifest (ledger_world ledger) ''d'' ledger = Inr paths \<and> length paths = 96"
proof -
  obtain paths where p: "check_manifest (ledger_world ledger) ''d'' ledger = Inr paths" using ledger_accepted by blast
  from manifest_complete [OF p] have "length paths = 96" by (simp add: getitem_as_list_length)
  then show ?thesis using p by blast
qed

end
