(* ===== verification/FixedRingGates.thy ===== *)
theory FixedRingGates
  imports PyStats
begin

text \<open>
  The release gates of the fixed ring, \<open>tools/aeron_compare/verify_fixed_ring_gates.py\<close>: indexing
  the groups of a suite summary, the protocol requirements, the per-cell throughput and latency
  gates and the verdict.  Summaries are JSON documents; a failure message is a constructor of
  \<open>failure\<close> with the values the message prints.
\<close>

section \<open>Data\<close>

definition topologies :: "string list" where
  "topologies = [''spsc'', ''mpsc'', ''spmc'', ''mpmc'']"

definition payloads :: "int list" where
  "payloads = [64, 256]"

abbreviation min_throughput_ratio :: num where "min_throughput_ratio \<equiv> flit (110 / 100)"
abbreviation min_baseline_gain :: num where "min_baseline_gain \<equiv> flit (125 / 100)"
abbreviation max_attempt_p99_ratio :: num where "max_attempt_p99_ratio \<equiv> flit (110 / 100)"

datatype cell_failure =
    TooFewRounds num num | LowThroughput | P50AboveAeron | P99AboveLimit | LowFifoGain

datatype failure =
    FewGroups int | FewRounds int | NotAbba | NotFullyVerified | BaselineFewRounds int
  | BaselineNotVerified | ProtocolMismatch string | NotRequiredDedicated | NoDedicatedDriver
  | MissingFast string | MissingBaseline string | CellFailure string cell_failure

type_synonym group_key = "json \<times> json \<times> int \<times> json \<times> json"

record suite_protocol =
  protocol_groups :: int
  rounds_per_group :: int
  engine_order :: json
  verification :: json

record cell =
  cell_topology :: string
  cell_payload :: int
  cell_rounds :: num
  cell_groups :: num
  fast_mmsg_s :: num
  aeron_mmsg_s :: num
  fifo_mmsg_s :: "num option"
  throughput_ratio :: num
  fifo_ratio :: "num option"
  p50_fast_ns :: num
  p50_aeron_ns :: num
  p99_fast_ns :: num
  p99_aeron_ns :: num
  p99_ratio :: num
  cell_failures :: "cell_failure list"

record requirements =
  minimum_rounds :: int
  minimum_groups :: int
  require_dedicated_driver :: bool
  require_full_verification :: bool
  require_abba :: bool
  require_matched_protocol :: bool

record report =
  passed :: bool
  fast_protocol :: suite_protocol
  baseline_protocol :: "suite_protocol option"
  cells :: "cell list"
  failures :: "failure list"

section \<open>Reading a summary\<close>

fun hashable :: "json \<Rightarrow> bool" where
  "hashable (JList _) = False"
| "hashable (JObj _) = False"
| "hashable _ = True"

definition group_entry :: "json \<Rightarrow> (group_key \<times> json) py" where
  "group_entry g =
     bindE (getitem g ''topology'') (\<lambda>t. bindE (getitem g ''kind'') (\<lambda>k.
     bindE (bindE (getitem g ''payload'') to_int) (\<lambda>p.
     bindE (getitem g ''origin'') (\<lambda>q. bindE (getitem g ''engine'') (\<lambda>e.
     if hashable t \<and> hashable k \<and> hashable q \<and> hashable e then Inr ((t, k, p, q, e), g) else Inl TypeError)))))"

definition group_list :: "json \<Rightarrow> json list py" where
  "group_list summary = bindE (get_or summary ''groups'' (JList [])) as_list"

definition group_index :: "json \<Rightarrow> (group_key \<times> json) list py" where
  "group_index summary = bindE (group_list summary) (\<lambda>gs. bindE (mapE group_entry gs) (\<lambda>es. Inr (dict_of es)))"

fun walk :: "json \<Rightarrow> string list \<Rightarrow> json py" where
  "walk v [] = Inr v"
| "walk v (k # ks) = bindE (getitem v k) (\<lambda>u. walk u ks)"

definition median_range_median :: "json \<Rightarrow> string list \<Rightarrow> num py" where
  "median_range_median g path = bindE (bindE (walk g path) (\<lambda>v. getitem v ''median'')) as_num"

definition int_field :: "string \<Rightarrow> int \<Rightarrow> json \<Rightarrow> int py" where
  "int_field k d g = bindE (get_or g k (jint d)) to_int"

text \<open>\<open>max(xs, default=d)\<close>\<close>

definition max_default :: "int \<Rightarrow> int list \<Rightarrow> int" where
  "max_default d xs = (case xs of [] \<Rightarrow> d | y # ys \<Rightarrow> fold max ys y)"

definition protocol :: "json \<Rightarrow> suite_protocol py" where
  "protocol summary =
     bindE (bindE (get_or summary ''environment'' (JObj [])) (\<lambda>e. get_or e ''workload'' (JObj []))) (\<lambda>workload.
     bindE (group_list summary) (\<lambda>gs.
     bindE (mapE (int_field ''rounds'' 0) gs) (\<lambda>rs.
     bindE (mapE (int_field ''groups'' 1) gs) (\<lambda>ns.
     bindE (int_field ''groups'' (max_default 1 ns) workload) (\<lambda>n.
     bindE (get_or workload ''measured_rounds'' (jint (max_default 0 rs))) (\<lambda>legacy.
     bindE (bindE (get_or workload ''measured_rounds_per_engine_per_group'' legacy) to_int) (\<lambda>r.
     bindE (get_or workload ''engine_order'' (JStr ''legacy paired rounds'')) (\<lambda>order.
     bindE (get_or summary ''verification'' (JStr ''none'')) (\<lambda>v0.
     bindE (get_or workload ''verification'' v0) (\<lambda>v.
     Inr \<lparr>protocol_groups = n, rounds_per_group = r, engine_order = order, verification = v\<rparr>))))))))))"

section \<open>Protocol requirements\<close>

definition fast_failures :: "requirements \<Rightarrow> suite_protocol \<Rightarrow> failure list" where
  "fast_failures q p =
     (if protocol_groups p < minimum_groups q then [FewGroups (protocol_groups p)] else [])
     @ (if rounds_per_group p < minimum_rounds q then [FewRounds (rounds_per_group p)] else [])
     @ (if require_abba q \<and> \<not> jeq (engine_order p) (JStr ''ABBA paired rounds'') then [NotAbba] else [])
     @ (if require_full_verification q \<and> \<not> jeq (verification p) (JStr ''full'') then [NotFullyVerified] else [])"

definition mismatches :: "suite_protocol \<Rightarrow> suite_protocol \<Rightarrow> failure list" where
  "mismatches b f =
     (if protocol_groups b \<noteq> protocol_groups f then [ProtocolMismatch ''groups''] else [])
     @ (if rounds_per_group b \<noteq> rounds_per_group f then [ProtocolMismatch ''rounds_per_group''] else [])
     @ (if \<not> jeq (engine_order b) (engine_order f) then [ProtocolMismatch ''engine_order''] else [])
     @ (if \<not> jeq (verification b) (verification f) then [ProtocolMismatch ''verification''] else [])"

definition baseline_failures :: "requirements \<Rightarrow> suite_protocol \<Rightarrow> suite_protocol \<Rightarrow> failure list" where
  "baseline_failures q b f =
     (if rounds_per_group b < minimum_rounds q then [BaselineFewRounds (rounds_per_group b)] else [])
     @ (if require_full_verification q \<and> \<not> jeq (verification b) (JStr ''full'') then [BaselineNotVerified] else [])
     @ (if require_matched_protocol q then mismatches b f else [])"

definition driver_failures :: "requirements \<Rightarrow> json \<Rightarrow> failure list py" where
  "driver_failures q summary =
     (if \<not> require_dedicated_driver q then Inr []
      else bindE (bindE (get_or summary ''environment'' (JObj [])) (\<lambda>e. get_or e ''cpu_capacity'' (JObj []))) (\<lambda>c.
        bindE (get c ''require_dedicated_driver'') (\<lambda>required.
        if \<not> truthy required then Inr [NotRequiredDedicated]
        else bindE (get c ''dedicated_driver_available'') (\<lambda>available.
          Inr (if truthy available then [] else [NoDedicatedDriver])))))"

section \<open>One cell\<close>

definition cell_label :: "string \<Rightarrow> int \<Rightarrow> string" where
  "cell_label topology payload = topology @ ''/'' @ show_int payload @ ''B''"

definition key_of :: "string \<Rightarrow> string \<Rightarrow> int \<Rightarrow> string \<Rightarrow> string \<Rightarrow> group_key" where
  "key_of topology kind payload origin engine = (JStr topology, JStr kind, payload, JStr origin, JStr engine)"

text \<open>The six lookups of a cell: throughput, p50 and p99 of both engines.\<close>

definition required_keys :: "string \<Rightarrow> int \<Rightarrow> (group_key \<times> string) list" where
  "required_keys topology payload = (let label = cell_label topology payload in
     [(key_of topology ''throughput'' payload ''claim'' ''salias'', label @ '' throughput''),
      (key_of topology ''throughput'' payload ''claim'' ''aeron'', label @ '' Aeron throughput''),
      (key_of topology ''latency'' payload ''attempt'' ''salias'', label @ '' attempt p50''),
      (key_of topology ''latency'' payload ''attempt'' ''aeron'', label @ '' Aeron attempt p50''),
      (key_of topology ''latency'' payload ''attempt'' ''salias'', label @ '' attempt p99''),
      (key_of topology ''latency'' payload ''attempt'' ''aeron'', label @ '' Aeron attempt p99'')])"

definition missing_groups :: "(group_key \<times> json) list \<Rightarrow> string \<Rightarrow> int \<Rightarrow> failure list" where
  "missing_groups fast topology payload = map (\<lambda>(_, label). MissingFast label)
     (filter (\<lambda>(k, _). map_of fast k = None) (required_keys topology payload))"

definition num_field :: "string \<Rightarrow> json \<Rightarrow> num py" where
  "num_field k g = bindE (getitem g k) as_num"

definition num_field_or :: "string \<Rightarrow> int \<Rightarrow> json \<Rightarrow> num py" where
  "num_field_or k d g = bindE (get_or g k (jint d)) as_num"

definition gate_failures :: "requirements \<Rightarrow> num \<Rightarrow> num \<Rightarrow> num \<Rightarrow> num \<Rightarrow> num \<Rightarrow> num \<Rightarrow> num option \<Rightarrow> cell_failure list" where
  "gate_failures q rounds groups ratio p50_fast p50_aeron p99r fifo =
     (if nlt groups (I (minimum_groups q)) \<or> nlt rounds (I (minimum_rounds q * minimum_groups q))
      then [TooFewRounds rounds groups] else [])
     @ (if nlt ratio min_throughput_ratio then [LowThroughput] else [])
     @ (if nlt p50_aeron p50_fast then [P50AboveAeron] else [])
     @ (if nlt max_attempt_p99_ratio p99r then [P99AboveLimit] else [])
     @ (case fifo of None \<Rightarrow> [] | Some r \<Rightarrow> if nlt r min_baseline_gain then [LowFifoGain] else [])"

text \<open>The FIFO baseline of a cell: absent, missing from the baseline summary, or its median and the gain.\<close>

definition fifo_of :: "(group_key \<times> json) list option \<Rightarrow> string \<Rightarrow> int \<Rightarrow> num \<Rightarrow> (failure list \<times> (num \<times> num) option) py" where
  "fifo_of baseline topology payload fast_median = (case baseline of
       None \<Rightarrow> Inr ([], None)
     | Some b \<Rightarrow> (case map_of b (key_of topology ''throughput'' payload ''claim'' ''salias'') of
           None \<Rightarrow> Inr ([MissingBaseline (cell_label topology payload @ '' throughput'')], None)
         | Some g \<Rightarrow> bindE (median_range_median g [''publish_mmsg_s'']) (\<lambda>m.
             bindE (ndiv fast_median m) (\<lambda>r. Inr ([], Some (m, r))))))"

definition measured_cell :: "requirements \<Rightarrow> (group_key \<times> json) list option \<Rightarrow> string \<Rightarrow> int
    \<Rightarrow> json \<Rightarrow> json \<Rightarrow> json \<Rightarrow> json \<Rightarrow> (failure list \<times> cell) py" where
  "measured_cell q baseline topology payload ft ag fl al =
     bindE (bindE (mapE (num_field ''rounds'') [ft, ag, fl, al]) num_min) (\<lambda>rounds.
     bindE (bindE (mapE (num_field_or ''groups'' 1) [ft, ag, fl, al]) num_min) (\<lambda>groups.
     bindE (median_range_median ft [''publish_mmsg_s'']) (\<lambda>tf.
     bindE (median_range_median ag [''publish_mmsg_s'']) (\<lambda>ta.
     bindE (ndiv tf ta) (\<lambda>ratio.
     bindE (median_range_median fl [''latency_ns'', ''p50'']) (\<lambda>p50f.
     bindE (median_range_median al [''latency_ns'', ''p50'']) (\<lambda>p50a.
     bindE (median_range_median fl [''latency_ns'', ''p99'']) (\<lambda>p99f.
     bindE (median_range_median al [''latency_ns'', ''p99'']) (\<lambda>p99a.
     bindE (ndiv p99f p99a) (\<lambda>p99r.
     bindE (fifo_of baseline topology payload tf) (\<lambda>(missing, fifo).
     let fs = gate_failures q rounds groups ratio p50f p50a p99r (map_option snd fifo) in
     Inr (missing @ map (CellFailure (cell_label topology payload)) fs,
       \<lparr>cell_topology = topology, cell_payload = payload, cell_rounds = rounds, cell_groups = groups,
        fast_mmsg_s = tf, aeron_mmsg_s = ta, fifo_mmsg_s = map_option fst fifo, throughput_ratio = ratio,
        fifo_ratio = map_option snd fifo, p50_fast_ns = p50f, p50_aeron_ns = p50a, p99_fast_ns = p99f,
        p99_aeron_ns = p99a, p99_ratio = p99r, cell_failures = fs\<rparr>))))))))))))"

definition verify_cell :: "requirements \<Rightarrow> (group_key \<times> json) list \<Rightarrow> (group_key \<times> json) list option
    \<Rightarrow> string \<times> int \<Rightarrow> (failure list \<times> cell list) py" where
  "verify_cell q fast baseline tp = (case tp of (topology, payload) \<Rightarrow>
     (case (map_of fast (key_of topology ''throughput'' payload ''claim'' ''salias''),
            map_of fast (key_of topology ''throughput'' payload ''claim'' ''aeron''),
            map_of fast (key_of topology ''latency'' payload ''attempt'' ''salias''),
            map_of fast (key_of topology ''latency'' payload ''attempt'' ''aeron'')) of
        (Some ft, Some ag, Some fl, Some al) \<Rightarrow>
          bindE (measured_cell q baseline topology payload ft ag fl al) (\<lambda>(fs, c). Inr (fs, [c]))
      | _ \<Rightarrow> Inr (missing_groups fast topology payload, [])))"

definition all_cells :: "(string \<times> int) list" where
  "all_cells = concat (map (\<lambda>t. map (\<lambda>p. (t, p)) payloads) topologies)"

definition optionally :: "('a \<Rightarrow> 'b py) \<Rightarrow> 'a option \<Rightarrow> 'b option py" where
  "optionally f x = (case x of None \<Rightarrow> Inr None | Some y \<Rightarrow> bindE (f y) (\<lambda>z. Inr (Some z)))"

definition verify_gates :: "json \<Rightarrow> json option \<Rightarrow> requirements \<Rightarrow> report py" where
  "verify_gates fast_summary baseline_summary q =
     bindE (group_index fast_summary) (\<lambda>fast.
     bindE (optionally group_index baseline_summary) (\<lambda>baseline.
     bindE (protocol fast_summary) (\<lambda>fp.
     bindE (optionally protocol baseline_summary) (\<lambda>bp.
     bindE (driver_failures q fast_summary) (\<lambda>df.
     bindE (mapE (verify_cell q fast baseline) all_cells) (\<lambda>rs.
     let fs = fast_failures q fp @ (case bp of None \<Rightarrow> [] | Some b \<Rightarrow> baseline_failures q b fp) @ df
           @ concat (map fst rs);
         cs = concat (map snd rs)
     in Inr \<lparr>passed = (fs = [] \<and> length cs = length topologies * length payloads),
          fast_protocol = fp, baseline_protocol = bp, cells = cs, failures = fs\<rparr>))))))"

definition load_summary :: "world \<Rightarrow> string \<Rightarrow> json py" where
  "load_summary w path = bindE (read_text w path) (json_loads w)"

text \<open>\<open>main\<close>: the arguments are checked, the exit status is the verdict.\<close>

definition gate_main :: "world \<Rightarrow> string \<Rightarrow> string option \<Rightarrow> requirements \<Rightarrow> (report \<times> int) py" where
  "gate_main w fast_path baseline_path q =
     (if minimum_rounds q < 1 then Inl (SystemExit ''--minimum-rounds must be positive'')
      else if minimum_groups q < 1 then Inl (SystemExit ''--minimum-groups must be positive'')
      else bindE (optionally (load_summary w) baseline_path) (\<lambda>baseline.
        bindE (load_summary w fast_path) (\<lambda>fast.
        bindE (verify_gates fast baseline q) (\<lambda>r. Inr (r, if passed r then 0 else 1)))))"


section \<open>What a pass means\<close>

lemma gate_failures_Nil:
  "gate_failures q rounds groups ratio p50f p50a p99r fifo = [] \<longleftrightarrow>
     \<not> nlt groups (I (minimum_groups q)) \<and> \<not> nlt rounds (I (minimum_rounds q * minimum_groups q))
     \<and> \<not> nlt ratio min_throughput_ratio \<and> \<not> nlt p50a p50f \<and> \<not> nlt max_attempt_p99_ratio p99r
     \<and> (\<forall>r. fifo = Some r \<longrightarrow> \<not> nlt r min_baseline_gain)"
  by (auto simp: gate_failures_def split: option.splits)

lemma missing_groups_ne:
  assumes "map_of fast (key_of t ''throughput'' p ''claim'' ''salias'') = None
    \<or> map_of fast (key_of t ''throughput'' p ''claim'' ''aeron'') = None
    \<or> map_of fast (key_of t ''latency'' p ''attempt'' ''salias'') = None
    \<or> map_of fast (key_of t ''latency'' p ''attempt'' ''aeron'') = None"
  shows "missing_groups fast t p \<noteq> []"
  using assms by (auto simp: missing_groups_def required_keys_def Let_def)

text \<open>The gates of one cell on the documents' own medians.\<close>

definition cell_gates :: "requirements \<Rightarrow> (group_key \<times> json) list \<Rightarrow> (group_key \<times> json) list option \<Rightarrow> string \<Rightarrow> int \<Rightarrow> bool" where
  "cell_gates q fast baseline t p \<longleftrightarrow> (\<exists>ft at' fl al tf ta ratio p50f p50a p99f p99a p99r.
     map_of fast (key_of t ''throughput'' p ''claim'' ''salias'') = Some ft
     \<and> map_of fast (key_of t ''throughput'' p ''claim'' ''aeron'') = Some at'
     \<and> map_of fast (key_of t ''latency'' p ''attempt'' ''salias'') = Some fl
     \<and> map_of fast (key_of t ''latency'' p ''attempt'' ''aeron'') = Some al
     \<and> median_range_median ft [''publish_mmsg_s''] = Inr tf \<and> median_range_median at' [''publish_mmsg_s''] = Inr ta
     \<and> ndiv tf ta = Inr ratio \<and> \<not> nlt ratio min_throughput_ratio
     \<and> median_range_median fl [''latency_ns'', ''p50''] = Inr p50f \<and> median_range_median al [''latency_ns'', ''p50''] = Inr p50a
     \<and> \<not> nlt p50a p50f
     \<and> median_range_median fl [''latency_ns'', ''p99''] = Inr p99f \<and> median_range_median al [''latency_ns'', ''p99''] = Inr p99a
     \<and> ndiv p99f p99a = Inr p99r \<and> \<not> nlt max_attempt_p99_ratio p99r
     \<and> (\<forall>g \<in> {ft, at', fl, al}. \<exists>n. num_field ''rounds'' g = Inr n)
     \<and> (\<forall>b. baseline = Some b \<longrightarrow> (\<exists>bg m gain. map_of b (key_of t ''throughput'' p ''claim'' ''salias'') = Some bg
          \<and> median_range_median bg [''publish_mmsg_s''] = Inr m \<and> ndiv tf m = Inr gain \<and> \<not> nlt gain min_baseline_gain)))"

lemma verify_cell_gates:
  assumes "verify_cell q fast baseline (t, p) = Inr ([], cs)"
  shows "cell_gates q fast baseline t p \<and> length cs = 1 \<and> (\<forall>c \<in> set cs. \<not> nlt (cell_groups c) (I (minimum_groups q))
    \<and> \<not> nlt (cell_rounds c) (I (minimum_rounds q * minimum_groups q)) \<and> cell_topology c = t \<and> cell_payload c = p)"
proof -
  obtain ft ag fl al where k: "map_of fast (key_of t ''throughput'' p ''claim'' ''salias'') = Some ft"
    "map_of fast (key_of t ''throughput'' p ''claim'' ''aeron'') = Some ag"
    "map_of fast (key_of t ''latency'' p ''attempt'' ''salias'') = Some fl"
    "map_of fast (key_of t ''latency'' p ''attempt'' ''aeron'') = Some al"
    using assms missing_groups_ne [of fast t p] by (auto simp: verify_cell_def split: option.splits)
  obtain c where m: "measured_cell q baseline t p ft ag fl al = Inr ([], c)" and cs: "cs = [c]"
    using assms k by (auto simp: verify_cell_def)
  obtain rs rounds groups tf ta ratio p50f p50a p99f p99a p99r missing fifo where
    rs: "mapE (num_field ''rounds'') [ft, ag, fl, al] = Inr rs"
    and v: "median_range_median ft [''publish_mmsg_s''] = Inr tf" "median_range_median ag [''publish_mmsg_s''] = Inr ta"
     "ndiv tf ta = Inr ratio"
     "median_range_median fl [''latency_ns'', ''p50''] = Inr p50f" "median_range_median al [''latency_ns'', ''p50''] = Inr p50a"
     "median_range_median fl [''latency_ns'', ''p99''] = Inr p99f" "median_range_median al [''latency_ns'', ''p99''] = Inr p99a"
     "ndiv p99f p99a = Inr p99r"
    and fifo: "fifo_of baseline t p tf = Inr (missing, fifo)"
    and r: "Inr (missing @ map (CellFailure (cell_label t p)) (gate_failures q rounds groups ratio p50f p50a p99r (map_option snd fifo)),
       \<lparr>cell_topology = t, cell_payload = p, cell_rounds = rounds, cell_groups = groups,
        fast_mmsg_s = tf, aeron_mmsg_s = ta, fifo_mmsg_s = map_option fst fifo, throughput_ratio = ratio,
        fifo_ratio = map_option snd fifo, p50_fast_ns = p50f, p50_aeron_ns = p50a, p99_fast_ns = p99f,
        p99_aeron_ns = p99a, p99_ratio = p99r, cell_failures = gate_failures q rounds groups ratio p50f p50a p99r (map_option snd fifo)\<rparr>)
       = Inr ([], c)"
    using m unfolding measured_cell_def bindE_Inr Let_def by fastforce
  have g: "gate_failures q rounds groups ratio p50f p50a p99r (map_option snd fifo) = []" and mi: "missing = []"
    using r by auto
  note g = g [unfolded gate_failures_Nil]
  have b: "\<forall>b. baseline = Some b \<longrightarrow> (\<exists>bg m gain. map_of b (key_of t ''throughput'' p ''claim'' ''salias'') = Some bg
          \<and> median_range_median bg [''publish_mmsg_s''] = Inr m \<and> ndiv tf m = Inr gain \<and> \<not> nlt gain min_baseline_gain)"
    using fifo mi g by (auto simp: fifo_of_def split: option.splits)
  have n: "\<forall>g \<in> {ft, ag, fl, al}. \<exists>n. num_field ''rounds'' g = Inr n" using mapE_set [OF rs] by auto
  have "cell_gates q fast baseline t p" unfolding cell_gates_def using k v g b n by blast
  then show ?thesis using r g by (auto simp: cs)
qed


section \<open>A passing suite\<close>

definition demo_group :: "num \<Rightarrow> num \<Rightarrow> string \<Rightarrow> string \<Rightarrow> int \<Rightarrow> string \<Rightarrow> string \<Rightarrow> json" where
  "demo_group rate lat t k p origin engine = JObj
     [(''topology'', JStr t), (''kind'', JStr k), (''payload'', jint p), (''origin'', JStr origin), (''engine'', JStr engine),
      (''rounds'', jint 5), (''publish_mmsg_s'', JObj [(''median'', JNum rate)]),
      (''latency_ns'', JObj [(''p50'', JObj [(''median'', JNum lat)]), (''p99'', JObj [(''median'', JNum lat)])])]"

definition demo_groups :: "num \<Rightarrow> num \<Rightarrow> num \<Rightarrow> json list" where
  "demo_groups fast slow lat = concat (map (\<lambda>(t, p).
     [demo_group fast lat t ''throughput'' p ''claim'' ''salias'', demo_group slow lat t ''throughput'' p ''claim'' ''aeron'',
      demo_group fast lat t ''latency'' p ''attempt'' ''salias'', demo_group slow lat t ''latency'' p ''attempt'' ''aeron'']) all_cells)"

definition demo_summary :: "num \<Rightarrow> num \<Rightarrow> num \<Rightarrow> json" where
  "demo_summary fast slow lat = JObj [(''groups'', JList (demo_groups fast slow lat))]"

definition plain_requirements :: requirements where
  "plain_requirements = \<lparr>minimum_rounds = 5, minimum_groups = 1, require_dedicated_driver = False,
     require_full_verification = False, require_abba = False, require_matched_protocol = False\<rparr>"

lemma demo_protocol: "protocol (demo_summary fast slow lat) = Inr \<lparr>protocol_groups = 1, rounds_per_group = 5,
    engine_order = JStr ''legacy paired rounds'', verification = JStr ''none''\<rparr>"
  by code_simp

lemma demo_index: "\<exists>idx. group_index (demo_summary fast slow lat) = Inr idx \<and>
    (\<forall>t p. (t, p) \<in> set all_cells \<longrightarrow> map_of idx (key_of t ''throughput'' p ''claim'' ''salias'') = Some (demo_group fast lat t ''throughput'' p ''claim'' ''salias'')
     \<and> map_of idx (key_of t ''throughput'' p ''claim'' ''aeron'') = Some (demo_group slow lat t ''throughput'' p ''claim'' ''aeron'')
     \<and> map_of idx (key_of t ''latency'' p ''attempt'' ''salias'') = Some (demo_group fast lat t ''latency'' p ''attempt'' ''salias'')
     \<and> map_of idx (key_of t ''latency'' p ''attempt'' ''aeron'') = Some (demo_group slow lat t ''latency'' p ''attempt'' ''aeron''))"
proof -
  define es where "es = concat (map (\<lambda>(t, p).
     [(key_of t ''throughput'' p ''claim'' ''salias'', demo_group fast lat t ''throughput'' p ''claim'' ''salias''),
      (key_of t ''throughput'' p ''claim'' ''aeron'', demo_group slow lat t ''throughput'' p ''claim'' ''aeron''),
      (key_of t ''latency'' p ''attempt'' ''salias'', demo_group fast lat t ''latency'' p ''attempt'' ''salias''),
      (key_of t ''latency'' p ''attempt'' ''aeron'', demo_group slow lat t ''latency'' p ''attempt'' ''aeron'')]) all_cells)"
  have e: "group_entry (demo_group r l t k p orig eng) = Inr (key_of t k p orig eng, demo_group r l t k p orig eng)" for r l t k p orig eng
    by (simp add: group_entry_def demo_group_def key_of_def)
  have m: "mapE group_entry (concat (map (\<lambda>(t, p).
     [demo_group fast lat t ''throughput'' p ''claim'' ''salias'', demo_group slow lat t ''throughput'' p ''claim'' ''aeron'',
      demo_group fast lat t ''latency'' p ''attempt'' ''salias'', demo_group slow lat t ''latency'' p ''attempt'' ''aeron'']) tps))
    = Inr (concat (map (\<lambda>(t, p).
     [(key_of t ''throughput'' p ''claim'' ''salias'', demo_group fast lat t ''throughput'' p ''claim'' ''salias''),
      (key_of t ''throughput'' p ''claim'' ''aeron'', demo_group slow lat t ''throughput'' p ''claim'' ''aeron''),
      (key_of t ''latency'' p ''attempt'' ''salias'', demo_group fast lat t ''latency'' p ''attempt'' ''salias''),
      (key_of t ''latency'' p ''attempt'' ''aeron'', demo_group slow lat t ''latency'' p ''attempt'' ''aeron'')]) tps))" for tps
    by (induction tps) (auto simp: e)
  then have "group_index (demo_summary fast slow lat) = Inr (dict_of es)"
    by (simp add: group_index_def group_list_def demo_summary_def demo_groups_def dict_get_def es_def)
  moreover have "\<forall>t p. (t, p) \<in> set all_cells \<longrightarrow>
      map_of (dict_of es) (key_of t ''throughput'' p ''claim'' ''salias'') = Some (demo_group fast lat t ''throughput'' p ''claim'' ''salias'')
     \<and> map_of (dict_of es) (key_of t ''throughput'' p ''claim'' ''aeron'') = Some (demo_group slow lat t ''throughput'' p ''claim'' ''aeron'')
     \<and> map_of (dict_of es) (key_of t ''latency'' p ''attempt'' ''salias'') = Some (demo_group fast lat t ''latency'' p ''attempt'' ''salias'')
     \<and> map_of (dict_of es) (key_of t ''latency'' p ''attempt'' ''aeron'') = Some (demo_group slow lat t ''latency'' p ''attempt'' ''aeron'')"
    by (intro allI impI conjI dict_of_lookup) (fastforce simp: es_def key_of_def)+
  ultimately show ?thesis by blast
qed

text \<open>The gates hold at a ratio whose comparisons do.\<close>

lemma demo_gates:
  assumes "ndiv fast slow = Inr r" "\<not> nlt r min_throughput_ratio" "ndiv lat lat = Inr l"
    "\<not> nlt max_attempt_p99_ratio l" "\<not> nlt lat lat"
  shows "\<exists>rep. verify_gates (demo_summary fast slow lat) None plain_requirements = Inr rep \<and> passed rep"
proof -
  obtain idx where idx: "group_index (demo_summary fast slow lat) = Inr idx"
    and k: "\<forall>t p. (t, p) \<in> set all_cells \<longrightarrow> map_of idx (key_of t ''throughput'' p ''claim'' ''salias'') = Some (demo_group fast lat t ''throughput'' p ''claim'' ''salias'')
     \<and> map_of idx (key_of t ''throughput'' p ''claim'' ''aeron'') = Some (demo_group slow lat t ''throughput'' p ''claim'' ''aeron'')
     \<and> map_of idx (key_of t ''latency'' p ''attempt'' ''salias'') = Some (demo_group fast lat t ''latency'' p ''attempt'' ''salias'')
     \<and> map_of idx (key_of t ''latency'' p ''attempt'' ''aeron'') = Some (demo_group slow lat t ''latency'' p ''attempt'' ''aeron'')"
    using demo_index [of fast slow lat] by blast
  have "\<exists>c. verify_cell plain_requirements idx None tp = Inr ([], [c])" if "tp \<in> set all_cells" for tp
  proof -
    obtain t p where tp: "tp = (t, p)" by (cases tp)
    have g: "gate_failures plain_requirements (I 5) (I 1) r lat lat l None = []"
      unfolding gate_failures_Nil using assms by (simp add: plain_requirements_def)
    show ?thesis
      using k that assms g
      by (simp add: tp verify_cell_def measured_cell_def median_range_median_def demo_group_def num_field_def
          num_field_or_def dict_get_def num_min_def fifo_of_def)
  qed
  then have "\<forall>tp \<in> set all_cells. \<exists>c. verify_cell plain_requirements idx None tp = Inr ([], [c])" by blast
  from bchoice [OF this] obtain f where f: "\<forall>tp \<in> set all_cells. verify_cell plain_requirements idx None tp = Inr ([], [f tp])" ..
  have m: "mapE (verify_cell plain_requirements idx None) all_cells = Inr (map (\<lambda>tp. ([], [f tp])) all_cells)"
    using f by (intro mapE_total) blast
  have z: "concat (map fst (map (\<lambda>tp. ([] :: failure list, [f tp])) all_cells)) = []" by (simp add: comp_def)
  have l: "length (concat (map snd (map (\<lambda>tp. ([] :: failure list, [f tp])) all_cells))) = length topologies * length payloads"
    by (simp add: comp_def all_cells_def topologies_def payloads_def)
  show ?thesis
    unfolding verify_gates_def idx demo_protocol optionally_def option.case bindE.simps m Let_def z l
    by (simp add: driver_failures_def plain_requirements_def fast_failures_def)
qed

section \<open>Properties\<close>



text \<open>Not-a-number medians pass: comparisons with NaN are false, so a suite whose every median is NaN,
  which \<open>json.loads\<close> accepts, raises no failure and the report says passed.\<close>

theorem nan_suite_passes:
  "\<exists>rep. verify_gates (demo_summary (F NaN) (F NaN) (F NaN)) None plain_requirements = Inr rep \<and> passed rep"
  by (rule demo_gates [of _ _ "F NaN" _ "F NaN"]) (simp_all add: ndiv_def nlt_def)

end
