(* ===== verification/TopologyPlan.thy ===== *)
theory TopologyPlan
  imports PyStats
begin

text \<open>
  The plan of a topology suite, \<open>tools/aeron_compare/run_topology_suite.py\<close>: argument and resource
  checks, the CPU layout of one case, worker roles, expected message and sample counts, the engine
  order of a paired round, and the schedule of all cases \<open>main\<close> runs.
\<close>

section \<open>Arguments\<close>

record suite_args =
  salias_client :: string
  salias_engine :: string
  fast_throughput_client :: string
  fast_latency_client :: string
  aeron_client :: string
  aeron_driver :: string
  arg_rounds :: int
  arg_groups :: int
  cooldown :: num
  verify :: string
  dedicated_driver_required :: bool
  topology_names :: "string list"
  kinds :: "string list"
  payload_sizes :: "int list"
  throughput_messages_per_producer :: int
  latency_total_rate :: int
  latency_seconds :: int
  latency_sample_rate :: int
  origins :: "string list"

definition topology_table :: "(string \<times> int \<times> int) list" where
  "topology_table = [(''spsc'', 1, 1), (''mpsc'', 2, 1), (''spmc'', 1, 2), (''mpmc'', 2, 2)]"

definition topology_shape :: "string \<Rightarrow> (int \<times> int) py" where
  "topology_shape t = (case map_of topology_table t of None \<Rightarrow> Inl KeyError | Some pc \<Rightarrow> Inr pc)"

definition client_paths :: "suite_args \<Rightarrow> string list" where
  "client_paths a = [salias_client a, aeron_client a, aeron_driver a]
     @ (if salias_engine a = ''fast'' then [fast_throughput_client a, fast_latency_client a] else [])"

definition usage :: "bool \<Rightarrow> string \<Rightarrow> unit py" where
  "usage ok msg = require ok (SystemExit msg)"

text \<open>\<open>executable\<close> is \<open>os.access(path, os.X_OK)\<close>, \<open>output_used\<close> tells whether the output directory exists and has entries.\<close>

definition validate_args :: "world \<Rightarrow> (string \<Rightarrow> bool) \<Rightarrow> bool \<Rightarrow> suite_args \<Rightarrow> unit py" where
  "validate_args w executable output_used a =
     bindE (usage (1 \<le> arg_rounds a \<and> arg_rounds a \<le> 20) ''--rounds must be in [1, 20]'') (\<lambda>_.
     bindE (usage (1 \<le> arg_groups a \<and> arg_groups a \<le> 6) ''--groups must be in [1, 6]'') (\<lambda>_.
     bindE (usage (1 \<le> latency_seconds a \<and> latency_seconds a \<le> 10) ''--latency-seconds must be in [1, 10]'') (\<lambda>_.
     bindE (usage (2000 \<le> latency_total_rate a \<and> latency_total_rate a \<le> 1000000) ''--latency-total-rate must be in [2000, 1000000]'') (\<lambda>_.
     bindE (usage (\<not> (\<exists>p \<in> {1, 2}. latency_total_rate a mod p \<noteq> 0)) ''--latency-total-rate must divide evenly across one and two publishers'') (\<lambda>_.
     bindE (usage (\<not> (latency_sample_rate a < 1 \<or> 1024 < latency_sample_rate a)) ''--latency-sample-rate must be in [1, 1024]'') (\<lambda>_.
     bindE (usage (\<not> throughput_messages_per_producer a < 100000) ''--throughput-messages-per-producer must be at least 100000'') (\<lambda>_.
     bindE (usage (\<not> (\<exists>p \<in> set (payload_sizes a). p < 16 \<or> 1024 < p)) ''payloads must be in [16, 1024]'') (\<lambda>_.
     bindE (usage (\<not> nlt (cooldown a) (F (Fin (1 / 4)))) ''--cooldown must be at least 0.25 seconds'') (\<lambda>_.
     bindE (usage (\<forall>p \<in> set (client_paths a). is_file w p) ''missing executable'') (\<lambda>_.
     bindE (usage (\<forall>p \<in> set (client_paths a). executable p) ''comparison clients must be executable'') (\<lambda>_.
     usage (\<not> output_used) ''--output must be absent or empty'')))))))))))"

section \<open>Resources\<close>

text \<open>What \<open>verify_limits\<close> reads: the cgroup files, the CPU affinity and the environment variable.\<close>

record host =
  memory_max :: string
  memory_swap_max :: string
  affinity :: "int list"
  resource_capped :: "string option"

definition verify_limits :: "host \<Rightarrow> int \<Rightarrow> bool \<Rightarrow> unit py" where
  "verify_limits h required_workers need_driver =
     (let limit = strip (memory_max h); required_cpus = required_workers + (if need_driver then 1 else 0);
          refuse = Inl (RuntimeError ''Require allowed CPUs, MemoryMax<=704M, MemorySwapMax=0 and SALIAS_RESOURCE_CAPPED=1'')
      in if resource_capped h \<noteq> Some ''1'' \<or> int (length (affinity h)) < required_cpus \<or> limit = ''max'' then refuse
         else bindE (str_int limit) (\<lambda>n.
           if 704 * 1024 * 1024 < n \<or> strip (memory_swap_max h) \<noteq> ''0'' then refuse else Inr ()))"

record cpu_layout =
  worker_cpu_base :: int
  worker_cpus :: "int list"
  driver_cpu :: int
  coordinator_cpu :: int
  dedicated_driver :: bool
  layout_text :: string

fun gap :: "int list \<Rightarrow> bool" where
  "gap (l # r # cs) = (r \<noteq> l + 1 \<or> gap (r # cs))"
| "gap _ = False"

text \<open>\<open>allowed\<close> is the set of allowed CPUs, a list without repetition.\<close>

definition cpu_layout_of :: "int \<Rightarrow> int \<Rightarrow> int list \<Rightarrow> bool \<Rightarrow> cpu_layout py" where
  "cpu_layout_of producers consumers allowed need_driver =
     (let cpus = sort allowed; worker_count = nat (producers + consumers) in
      if length cpus < worker_count then Inl (RuntimeError ''Need application CPUs'')
      else bindE (nthE cpus 0) (\<lambda>driver.
        let can_reserve = worker_count + 1 \<le> length cpus in
        if need_driver \<and> \<not> can_reserve then Inl (RuntimeError ''Dedicated Aeron driver needs CPUs'')
        else let workers = (if can_reserve then take worker_count (drop 1 cpus) else take worker_count cpus) in
          if gap workers then Inl (RuntimeError ''Application CPUs must be contiguous'')
          else bindE (nthE workers 0) (\<lambda>base.
            let dedicated = driver \<notin> set workers in
            Inr \<lparr>worker_cpu_base = base, worker_cpus = workers, driver_cpu = driver, coordinator_cpu = driver,
              dedicated_driver = dedicated,
              layout_text = ''workers on CPUs '' @ show_int base @ ''-'' @ show_int (last workers)
                @ ''; coordinator and Aeron driver on CPU'' @ show_int driver
                @ (if dedicated then [] else ''; driver shares an application CPU'')\<rparr>)))"

record role =
  role_name :: string
  role_index :: int
  role_cpu :: int

definition worker_roles :: "int \<Rightarrow> int \<Rightarrow> int \<Rightarrow> role list" where
  "worker_roles producers consumers cpu_base =
     map (\<lambda>c. \<lparr>role_name = ''subscriber'', role_index = c, role_cpu = cpu_base + c\<rparr>) [0..consumers - 1]
     @ map (\<lambda>p. \<lparr>role_name = ''publisher'', role_index = p, role_cpu = cpu_base + consumers + p\<rparr>) [0..producers - 1]"

section \<open>Counts\<close>

definition expected_counts :: "string \<Rightarrow> int \<Rightarrow> int \<Rightarrow> int \<Rightarrow> int \<Rightarrow> (int \<times> int \<times> int) py" where
  "expected_counts kind producers consumers messages sample_rate =
     (let published = producers * messages; delivered = published * consumers in
      if kind = ''latency'' then
        (if sample_rate = 0 then Inl ZeroDivisionError
         else Inr (published, delivered, producers * ((messages + sample_rate - 1) div sample_rate) * consumers))
      else Inr (published, delivered, 0))"

text \<open>Messages and rate per producer and the sampling of a case.\<close>

definition workload_of :: "suite_args \<Rightarrow> string \<Rightarrow> int \<Rightarrow> int \<times> int \<times> int" where
  "workload_of a kind producers =
     (if kind = ''latency'' then (latency_total_rate a * latency_seconds a div producers,
        latency_total_rate a div producers, latency_sample_rate a)
      else (throughput_messages_per_producer a, 0, 0))"

section \<open>The schedule\<close>

definition abba_engines :: "string list" where
  "abba_engines = [''salias'', ''aeron'', ''aeron'', ''salias'']"

definition other_engine :: "string \<Rightarrow> string" where
  "other_engine e = (if e = ''salias'' then ''aeron'' else ''salias'')"

definition engine_order :: "nat \<Rightarrow> nat \<Rightarrow> nat \<Rightarrow> string \<times> string" where
  "engine_order round_number cell_index group_index =
     (let first = (if round_number = 0 then (if (cell_index + group_index) mod 2 = 0 then ''salias'' else ''aeron'')
        else abba_engines ! ((round_number - 1 + cell_index + group_index) mod 4))
      in (first, other_engine first))"

record suite_cell =
  cell_topology :: string
  cell_kind :: string
  cell_payload :: int
  cell_origin :: string

definition suite_cells :: "suite_args \<Rightarrow> suite_cell list" where
  "suite_cells a =
     concat (map (\<lambda>t. concat (map (\<lambda>p. if ''latency'' \<in> set (kinds a)
        then map (\<lambda>q. \<lparr>cell_topology = t, cell_kind = ''latency'', cell_payload = p, cell_origin = q\<rparr>) (origins a)
        else []) (payload_sizes a))) (topology_names a))
     @ concat (map (\<lambda>t. if ''throughput'' \<in> set (kinds a)
        then map (\<lambda>p. \<lparr>cell_topology = t, cell_kind = ''throughput'', cell_payload = p, cell_origin = ''claim''\<rparr>) (payload_sizes a)
        else []) (topology_names a))"

record suite_case = suite_cell +
  case_engine :: string
  case_group :: nat
  case_order_index :: nat
  case_round :: nat

definition case_of :: "suite_cell \<Rightarrow> nat \<Rightarrow> nat \<Rightarrow> nat \<Rightarrow> string \<Rightarrow> suite_case" where
  "case_of c g r i e = \<lparr>cell_topology = cell_topology c, cell_kind = cell_kind c, cell_payload = cell_payload c,
     cell_origin = cell_origin c, case_engine = e, case_group = g, case_order_index = i, case_round = r\<rparr>"

definition round_cases :: "suite_cell list \<Rightarrow> nat \<Rightarrow> nat \<Rightarrow> suite_case list" where
  "round_cases cells g r = (let offset = r mod length cells; rotated = drop offset cells @ take offset cells in
     concat (map (\<lambda>(k, c). let (first, second) = engine_order r k g in [case_of c g r 0 first, case_of c g r 1 second])
       (zip [0..<length rotated] rotated)))"

definition schedule :: "suite_args \<Rightarrow> suite_case list" where
  "schedule a = concat (map (\<lambda>g. concat (map (\<lambda>r. round_cases (suite_cells a) g r) [0..<nat (arg_rounds a) + 1]))
     [0..<nat (arg_groups a)])"

definition max_workers :: "suite_args \<Rightarrow> int py" where
  "max_workers a = bindE (mapE topology_shape (topology_names a)) (\<lambda>ss. case map (\<lambda>(p, c). p + c) ss of
     [] \<Rightarrow> Inl (ValueError ''max() arg is an empty sequence'') | n # ns \<Rightarrow> Inr (fold max ns n))"

definition suite_plan :: "world \<Rightarrow> (string \<Rightarrow> bool) \<Rightarrow> bool \<Rightarrow> host \<Rightarrow> suite_args \<Rightarrow> suite_case list py" where
  "suite_plan w executable output_used h a =
     bindE (validate_args w executable output_used a) (\<lambda>_.
     bindE (max_workers a) (\<lambda>n.
     bindE (verify_limits h n (dedicated_driver_required a)) (\<lambda>_.
     if suite_cells a = [] \<and> 0 < arg_groups a then Inl ZeroDivisionError else Inr (schedule a))))"

section \<open>The CPU layout\<close>

lemma gap_contiguous: "\<not> gap xs \<Longrightarrow> i < length xs \<Longrightarrow> xs ! i = hd xs + int i"
proof (induction xs arbitrary: i rule: gap.induct)
  case (1 l r cs)
  then show ?case by (cases i) auto
qed auto

lemma contiguous_list: "\<not> gap xs \<Longrightarrow> xs \<noteq> [] \<Longrightarrow> xs = [hd xs..hd xs + int (length xs) - 1]"
  by (rule nth_equalityI) (auto simp: gap_contiguous nth_upto)

lemma roles_cpus:
  assumes "0 \<le> producers" "0 \<le> consumers"
  shows "map role_cpu (worker_roles producers consumers b) = [b..b + producers + consumers - 1]"
proof (rule nth_equalityI)
  fix i assume "i < length (map role_cpu (worker_roles producers consumers b))"
  then have "i < nat consumers + nat producers" using assms by (simp add: worker_roles_def)
  then show "map role_cpu (worker_roles producers consumers b) ! i = [b..b + producers + consumers - 1] ! i"
    using assms by (auto simp: worker_roles_def nth_append nth_upto)
qed (use assms in \<open>simp add: worker_roles_def\<close>)

lemma cpu_layout_facts:
  assumes "cpu_layout_of producers consumers allowed need = Inr l" "0 < producers" "0 < consumers" "distinct allowed"
  shows "worker_cpus l = [worker_cpu_base l..worker_cpu_base l + producers + consumers - 1]"
    "set (worker_cpus l) \<subseteq> set allowed" "driver_cpu l = Min (set allowed)"
    "dedicated_driver l \<longleftrightarrow> producers + consumers + 1 \<le> int (length allowed)"
    "need \<Longrightarrow> dedicated_driver l" "dedicated_driver l \<longleftrightarrow> driver_cpu l \<notin> set (worker_cpus l)"
proof -
  let ?cpus = "sort allowed" and ?n = "nat (producers + consumers)"
  let ?w = "if ?n + 1 \<le> length ?cpus then take ?n (drop 1 ?cpus) else take ?n ?cpus"
  have len: "?n \<le> length allowed" "need \<longrightarrow> ?n + 1 \<le> length allowed" and g: "\<not> gap ?w"
    and l: "worker_cpus l = ?w" "worker_cpu_base l = ?w ! 0" "driver_cpu l = ?cpus ! 0" "dedicated_driver l \<longleftrightarrow> ?cpus ! 0 \<notin> set ?w"
    using assms(1) by (auto simp: cpu_layout_of_def Let_def split: if_splits)
  have wn: "length ?w = ?n" "0 < ?n" using len assms(2,3) by auto
  have ne: "?w \<noteq> []" using wn by auto
  have "?w = [?w ! 0..?w ! 0 + int ?n - 1]" using contiguous_list [OF g ne] wn ne by (simp add: hd_conv_nth)
  then show "worker_cpus l = [worker_cpu_base l..worker_cpu_base l + producers + consumers - 1]"
    using l assms(2,3) by (simp add: algebra_simps)
  have "set (take ?n (drop 1 ?cpus)) \<subseteq> set ?cpus" "set (take ?n ?cpus) \<subseteq> set ?cpus"
    by (meson set_take_subset set_drop_subset subset_trans)+
  then have "set ?w \<subseteq> set ?cpus" by simp
  then show "set (worker_cpus l) \<subseteq> set allowed" using l by simp
  have ne': "allowed \<noteq> []" using len wn by auto
  have hdc: "?cpus = ?cpus ! 0 # drop 1 ?cpus"
    using ne' by (metis Cons_nth_drop_Suc One_nat_def drop0 length_greater_0_conv length_sort)
  have "sorted ?cpus" by simp
  then have "\<forall>x \<in> set (drop 1 ?cpus). ?cpus ! 0 \<le> x" using hdc by (metis sorted_simps(2))
  moreover have "set allowed = insert (?cpus ! 0) (set (drop 1 ?cpus))" using hdc by (metis list.simps(15) set_sort)
  ultimately show "driver_cpu l = Min (set allowed)" using l(3) by (auto intro!: Min_eqI [symmetric])
  have "distinct ?cpus" using assms(4) by simp
  then have "?cpus ! 0 \<notin> set (drop 1 ?cpus)" using hdc by (metis distinct.simps(2))
  then have nd: "?cpus ! 0 \<notin> set (take ?n (drop 1 ?cpus))" by (auto dest: in_set_takeD)
  have "?cpus ! 0 \<in> set (take ?n ?cpus)" using hdc wn(2) by (metis Suc_pred list.set_intros(1) take_Suc_Cons)
  then show ded: "dedicated_driver l \<longleftrightarrow> producers + consumers + 1 \<le> int (length allowed)"
    using l(4) nd assms(2,3) by (auto split: if_splits)
  show "need \<Longrightarrow> dedicated_driver l" using ded len(2) assms(2,3) by auto
  show "dedicated_driver l \<longleftrightarrow> driver_cpu l \<notin> set (worker_cpus l)" using l by simp
qed


section \<open>Sample counts\<close>

lemma sampled_indices: "0 < k \<Longrightarrow> card {i. i < n \<and> i mod k = (0::nat)} = (n + k - 1) div k"
proof (induction n)
  case (Suc n)
  have e: "{i. i < Suc n \<and> i mod k = 0} = (if n mod k = 0 then insert n {i. i < n \<and> i mod k = 0} else {i. i < n \<and> i mod k = 0})"
    by (auto simp: less_Suc_eq)
  have fin: "finite {i. i < n \<and> i mod k = 0}" by simp
  have "Suc n + k - 1 = n + k" using Suc.prems by simp
  moreover have "(n + k) div k = (if n mod k = 0 then Suc ((n + k - 1) div k) else (n + k - 1) div k)"
  proof (cases "n mod k = 0")
    case True
    then obtain q where "n = k * q" by auto
    moreover have "(k * q + k - 1) div k = q"
    proof -
      have e: "k * q + k - 1 = (k - 1) + k * q" using Suc.prems by simp
      have "((k - 1) + k * q) div k = q + (k - 1) div k" using Suc.prems by (simp only: div_mult_self2)
      then show ?thesis using Suc.prems by (simp only: e) simp
    qed
    ultimately show ?thesis using Suc.prems True by simp
  next
    case False
    obtain m where m: "n = Suc m" using False by (cases n) auto
    have "(n + k) div k = Suc (n div k)" using Suc.prems by simp
    moreover have "(n + k - 1) div k = Suc (m div k)" using Suc.prems m by simp
    moreover have "n div k = m div k" using False m by (simp add: div_Suc)
    ultimately show ?thesis using False by simp
  qed
  ultimately show ?case using e fin Suc by simp
qed simp

section \<open>The schedule\<close>

lemma fst_snd_engines: "{fst (engine_order r k g), snd (engine_order r k g)} = {''salias'', ''aeron''}
    \<and> fst (engine_order r k g) \<noteq> snd (engine_order r k g)"
proof -
  have "abba_engines ! i \<in> {''salias'', ''aeron''}" if "i < 4" for i
    using that nth_mem [of i abba_engines] by (auto simp: abba_engines_def)
  then have f: "fst (engine_order r k g) \<in> {''salias'', ''aeron''}"
    unfolding engine_order_def Let_def fst_conv by simp
  have "snd (engine_order r k g) = other_engine (fst (engine_order r k g))" by (simp add: engine_order_def Let_def)
  then show ?thesis using f unfolding other_engine_def by fastforce
qed

lemma rotated_cells: "cells \<noteq> [] \<Longrightarrow> drop (r mod length cells) cells @ take (r mod length cells) cells = rotate r cells"
  by (simp add: rotate_drop_take)

lemma round_cases_rotate:
  "round_cases cells g r = concat (map (\<lambda>(k, c). [case_of c g r 0 (fst (engine_order r k g)), case_of c g r 1 (snd (engine_order r k g))])
     (zip [0..<length cells] (rotate r cells)))"
proof (cases "cells = []")
  case False
  then show ?thesis unfolding round_cases_def Let_def rotated_cells [OF False] by (simp add: case_prod_beta)
qed (simp add: round_cases_def)

definition unordered :: "suite_case \<Rightarrow> suite_case" where
  "unordered c = c\<lparr>case_order_index := 0\<rparr>"

text \<open>Both engines of one cell, whatever ran first.\<close>

definition both_engines :: "nat \<Rightarrow> nat \<Rightarrow> suite_cell \<Rightarrow> suite_case list" where
  "both_engines g r c = [case_of c g r 0 ''salias'', case_of c g r 0 ''aeron'']"

lemma unordered_pair:
  "mset (map unordered [case_of c g r 0 (fst (engine_order r k g)), case_of c g r 1 (snd (engine_order r k g))])
   = mset (both_engines g r c)"
  using fst_snd_engines [of r k g] by (auto simp: unordered_def case_of_def both_engines_def doubleton_eq_iff)

lemma round_cases_covers:
  "mset (map unordered (round_cases cells g r)) = mset (concat (map (both_engines g r) cells))"
proof -
  have "mset (map unordered (concat (map (\<lambda>(k, c). [case_of c g r 0 (fst (engine_order r k g)), case_of c g r 1 (snd (engine_order r k g))]) kcs)))
      = mset (concat (map (\<lambda>(k, c). both_engines g r c) kcs))" for kcs
  proof (induction kcs)
    case (Cons kc kcs)
    then show ?case using unordered_pair [of "snd kc" g r "fst kc"] by (cases kc) (simp add: add_mset_commute)
  qed simp
  moreover have "map (\<lambda>(k, c). both_engines g r c) (zip [0..<length cells] (rotate r cells)) = map (both_engines g r) (rotate r cells)"
    by (rule nth_equalityI) simp_all
  moreover have "mset (concat (map f (rotate r cells))) = mset (concat (map f cells))" for f :: "suite_cell \<Rightarrow> suite_case list"
  proof -
    have "mset (concat (map f xs)) = (\<Sum>x \<in># mset xs. mset (f x))" for xs by (induction xs) auto
    moreover have "mset (rotate r cells) = mset cells"
      by (metis append_take_drop_id mset_append rotate_drop_take union_commute)
    ultimately show ?thesis by simp
  qed
  ultimately show ?thesis by (simp add: round_cases_rotate)
qed

lemma concat_mset_cong: "(\<And>x. x \<in> set xs \<Longrightarrow> mset (f x) = mset (g x)) \<Longrightarrow> mset (concat (map f xs)) = mset (concat (map g xs))"
  by (induction xs) auto

lemma round_case_first:
  assumes "c \<in> set (round_cases cells g r)" "case_order_index c = 0"
  shows "\<exists>k < length cells. c = case_of (cells ! ((k + r) mod length cells)) g r 0 (fst (engine_order r k g))"
proof -
  let ?f = "\<lambda>(k, c). [case_of c g r 0 (fst (engine_order r k g)), case_of c g r 1 (snd (engine_order r k g))]"
  obtain kc where kc: "kc \<in> set (zip [0..<length cells] (rotate r cells))" "c \<in> set (?f kc)"
    using assms(1) by (auto simp: round_cases_rotate)
  then obtain k where k: "k < length cells" "kc = (k, rotate r cells ! k)" by (auto simp: in_set_zip prod_eq_iff)
  then have "c = case_of (rotate r cells ! k) g r 0 (fst (engine_order r k g))"
    using kc(2) assms(2) by (auto simp: case_of_def)
  then show ?thesis using k(1) nth_rotate [OF k(1), of r] by (auto simp: add.commute)
qed

lemma first_engine_of_cell:
  assumes "1 \<le> r" "4 dvd n" "k < n"
  shows "fst (engine_order r k g) = abba_engines ! (((k + r) mod n + 3 + g) mod 4)"
proof -
  have "((k + r) mod n) mod 4 = (k + r) mod 4" using assms(2) by (rule mod_mod_cancel)
  then have "((k + r) mod n + (3 + g)) mod 4 = (k + r + (3 + g)) mod 4" by (metis mod_add_left_eq)
  also have "\<dots> = (r - 1 + k + g + 4) mod 4" using assms(1) by (intro arg_cong [of _ _ "\<lambda>x. x mod 4"]) simp
  also have "\<dots> = (r - 1 + k + g) mod 4" by (rule mod_add_self2)
  finally have "((k + r) mod n + 3 + g) mod 4 = (r - 1 + k + g) mod 4" by (simp only: add.assoc)
  then show ?thesis using assms(1) by (simp add: engine_order_def Let_def)
qed


section \<open>Properties\<close>

text \<open>C32. An accepted layout gives every worker its own CPU: the roles occupy exactly the layout's
  worker CPUs, contiguous and all allowed; the driver takes the lowest allowed CPU and shares it with a
  worker exactly when there is no spare CPU, which a required dedicated driver excludes.\<close>

theorem cpu_layout_correct:
  assumes "cpu_layout_of producers consumers allowed need = Inr l" "0 < producers" "0 < consumers" "distinct allowed"
  shows "map role_cpu (worker_roles producers consumers (worker_cpu_base l)) = worker_cpus l
    \<and> distinct (worker_cpus l) \<and> int (length (worker_cpus l)) = producers + consumers
    \<and> set (worker_cpus l) \<subseteq> set allowed \<and> driver_cpu l = Min (set allowed)
    \<and> (driver_cpu l \<notin> set (worker_cpus l) \<longleftrightarrow> producers + consumers < int (length allowed))
    \<and> (need \<longrightarrow> driver_cpu l \<notin> set (worker_cpus l))"
proof -
  note f = cpu_layout_facts [OF assms]
  have "map role_cpu (worker_roles producers consumers (worker_cpu_base l)) = worker_cpus l"
    using roles_cpus [of producers consumers "worker_cpu_base l"] assms(2,3) f(1) by simp
  moreover have "distinct (worker_cpus l)" "int (length (worker_cpus l)) = producers + consumers"
    unfolding f(1) using assms(2,3) by auto
  ultimately show ?thesis using f(2,3,4,5,6) by auto
qed

lemma cpu_layout_correct_witness:
  "\<exists>l. cpu_layout_of 2 1 [3, 0, 2, 1] True = Inr l \<and> map role_cpu (worker_roles 2 1 (worker_cpu_base l)) = worker_cpus l"
proof -
  have "case cpu_layout_of 2 1 [3, 0, 2, 1] True of Inl _ \<Rightarrow> False | Inr l \<Rightarrow> worker_cpus l = [1, 2, 3]" by code_simp
  then obtain l where "cpu_layout_of 2 1 [3, 0, 2, 1] True = Inr l" by (auto split: sum.splits)
  then show ?thesis using cpu_layout_correct [of 2 1 "[3, 0, 2, 1]" True l] by auto
qed

text \<open>The expected counts are the counts of what the workers do: every producer publishes its messages,
  every consumer receives all of them, and a latency sample is due for each message whose index is a
  multiple of the sampling rate, per producer and consumer.\<close>

theorem expected_counts_correct:
  assumes "0 < k" "expected_counts ''latency'' (int p) (int c) (int n) (int k) = Inr (published, delivered, sampled)"
  shows "published = int (card ({..<p} \<times> {..<n})) \<and> delivered = int (card ({..<p} \<times> {..<n} \<times> {..<c}))
    \<and> sampled = int (card ({..<p} \<times> {i. i < n \<and> i mod k = 0} \<times> {..<c}))"
proof -
  have "(int n + int k - 1) div int k = int ((n + k - 1) div k)"
    using assms(1) by (simp add: zdiv_int of_nat_diff)
  moreover have "card {i. i < n \<and> i mod k = 0} = (n + k - 1) div k" by (rule sampled_indices [OF assms(1)])
  ultimately show ?thesis
    using assms by (auto simp: expected_counts_def Let_def card_cartesian_product)
qed

lemma expected_counts_correct_witness:
  "expected_counts ''latency'' 2 2 33 16 = Inr (66, 132, 12) \<and> (12::int) = int (card ({..<2::nat} \<times> {i::nat. i < 33 \<and> i mod 16 = 0} \<times> {..<2::nat}))"
proof -
  have "expected_counts ''latency'' 2 2 33 16 = Inr (66, 132, 12)" by (simp add: expected_counts_def)
  then show ?thesis using expected_counts_correct [of 16 2 2 33 66 132 12] by simp
qed

text \<open>The schedule is complete and paired: over all groups and rounds, warm-up included, every cell
  is run exactly once with each engine, and nothing else is run.\<close>

theorem schedule_complete:
  "mset (map unordered (schedule a)) = mset (concat (map (\<lambda>g. concat (map (\<lambda>r.
      concat (map (both_engines g r) (suite_cells a))) [0..<nat (arg_rounds a) + 1])) [0..<nat (arg_groups a)]))"
proof -
  have "mset (map unordered (concat (map (round_cases (suite_cells a) g) rs)))
      = mset (concat (map (\<lambda>r. concat (map (both_engines g r) (suite_cells a))) rs))" for g rs
    using round_cases_covers [of "suite_cells a" g] by (induction rs) (auto simp del: mset_map)
  then have key: "mset (map unordered (concat (map (\<lambda>g. concat (map (round_cases (suite_cells a) g) rs)) gs)))
      = mset (concat (map (\<lambda>g. concat (map (\<lambda>r. concat (map (both_engines g r) (suite_cells a))) rs)) gs))" for rs gs
    by (induction gs) (auto simp del: mset_map)
  show ?thesis unfolding schedule_def by (rule key)
qed

text \<open>C15. The engine order does not alternate within a group when the number of cells is a multiple of
  four, as it is by default: rotating the cells by the round number cancels the round number in
  \<open>engine_order\<close>, so a cell runs the same engine first in every measured round of the group.\<close>

theorem abba_order_constant:
  assumes "4 dvd length (suite_cells a)" "distinct (suite_cells a)"
    "c \<in> set (schedule a)" "d \<in> set (schedule a)" "case_order_index c = 0" "case_order_index d = 0"
    "1 \<le> case_round c" "1 \<le> case_round d" "case_group c = case_group d" "suite_cell.truncate c = suite_cell.truncate d"
  shows "case_engine c = case_engine d"
proof -
  let ?cells = "suite_cells a" let ?n = "length ?cells"
  have first: "\<exists>j < ?n. suite_cell.truncate x = ?cells ! j \<and> case_engine x = abba_engines ! ((j + 3 + case_group x) mod 4)"
    if x: "x \<in> set (schedule a)" "case_order_index x = 0" "1 \<le> case_round x" for x
  proof -
    obtain g r where gr: "x \<in> set (round_cases ?cells g r)" using x(1) by (auto simp: schedule_def)
    from round_case_first [OF gr x(2)] obtain k where k: "k < ?n"
      "x = case_of (?cells ! ((k + r) mod ?n)) g r 0 (fst (engine_order r k g))" by blast
    have "1 \<le> r" using k(2) x(3) by (simp add: case_of_def)
    moreover have "(k + r) mod ?n < ?n" using k(1) by (intro mod_less_divisor) auto
    ultimately show ?thesis
      using k first_engine_of_cell [of r ?n k g] assms(1) by (intro exI [of _ "(k + r) mod ?n"]) (auto simp: case_of_def suite_cell.truncate_def)
  qed
  obtain i j where "i < ?n" "suite_cell.truncate c = ?cells ! i" "case_engine c = abba_engines ! ((i + 3 + case_group c) mod 4)"
    "j < ?n" "suite_cell.truncate d = ?cells ! j" "case_engine d = abba_engines ! ((j + 3 + case_group d) mod 4)"
    using first [OF assms(3,5,7)] first [OF assms(4,6,8)] by auto
  then show ?thesis using assms(2,9,10) by (metis nth_eq_iff_index_eq)
qed


text \<open>Two topologies, two payloads, throughput only: four cells.\<close>

definition demo_args :: suite_args where
  "demo_args = \<lparr>salias_client = ''s'', salias_engine = ''fifo'', fast_throughput_client = ''t'', fast_latency_client = ''l'',
     aeron_client = ''a'', aeron_driver = ''d'', arg_rounds = 2, arg_groups = 1, cooldown = I 1, verify = ''full'',
     dedicated_driver_required = False, topology_names = [''spsc'', ''mpsc''], kinds = [''throughput''],
     payload_sizes = [64, 256], throughput_messages_per_producer = 100000, latency_total_rate = 2000,
     latency_seconds = 1, latency_sample_rate = 16, origins = [''attempt'']\<rparr>"

definition demo_cell :: suite_cell where
  "demo_cell = \<lparr>cell_topology = ''spsc'', cell_kind = ''throughput'', cell_payload = 64, cell_origin = ''claim''\<rparr>"

lemma demo_schedule:
  "distinct (suite_cells demo_args) \<and> length (suite_cells demo_args) = 4
   \<and> case_of demo_cell 0 1 0 ''salias'' \<in> set (schedule demo_args)
   \<and> case_of demo_cell 0 2 0 ''salias'' \<in> set (schedule demo_args)"
  by code_simp

lemma abba_order_constant_witness:
  "case_engine (case_of demo_cell 0 1 0 ''salias'') = case_engine (case_of demo_cell 0 2 0 ''salias'')"
  by (rule abba_order_constant [of demo_args])
    (use demo_schedule in \<open>auto simp: case_of_def suite_cell.truncate_def\<close>)

end
