(* ===== verification/LatencyRunner.thy ===== *)
theory LatencyRunner
  imports PyStats
begin

text \<open>
  The sequential latency runner \<open>tools/aeron_compare/run_latency_compare.py\<close>: the \<open>KEY=VALUE\<close> lines
  of a client, the host checks, stopping a process group, the arm specifications of the command line
  and their environment, the checks on the output of one case, and the order in which \<open>main\<close> runs
  the cases.
\<close>

section \<open>Lines and counters\<close>

type_synonym field_map = "(string \<times> string) list"

definition item_field :: "string \<Rightarrow> (string \<times> string) py" where
  "item_field item = (case partition_at ''='' item of (k, found, v) \<Rightarrow>
     if found then Inr (k, v) else Inl (ValueError ''dictionary update sequence element''))"

definition fields_of :: "string \<Rightarrow> field_map py" where
  "fields_of line = bindE (mapE item_field (tl (split_words line))) (\<lambda>kvs. Inr (dict_of kvs))"

definition item :: "field_map \<Rightarrow> string \<Rightarrow> string py" where
  "item d k = (case map_of d k of None \<Rightarrow> Inl KeyError | Some v \<Rightarrow> Inr v)"

definition int_item :: "field_map \<Rightarrow> string \<Rightarrow> int py" where
  "int_item d k = bindE (item d k) str_int"

definition first_line :: "string \<Rightarrow> string \<Rightarrow> string py" where
  "first_line prefix text = (case filter (\<lambda>l. starts_with l prefix) (splitlines text) of
     [] \<Rightarrow> Inl (RuntimeError ''StopIteration'') | l # _ \<Rightarrow> Inr l)"

definition available_kib :: "string \<Rightarrow> int py" where
  "available_kib meminfo = bindE (first_line ''MemAvailable:'' meminfo) (\<lambda>l. bindE (nthE (split_words l) 1) str_int)"

text \<open>\<open>line.split(":", 2)[2]\<close> of the unified hierarchy line, under \<open>/sys/fs/cgroup\<close>.\<close>

definition cgroup_directory :: "string \<Rightarrow> string py" where
  "cgroup_directory cgroup = bindE (first_line ''0::'' cgroup) (\<lambda>l.
     Inr (slash ''/sys/fs/cgroup'' (dropWhile (\<lambda>c. c = CHR ''/'') (drop 3 l))))"

definition counter_names :: "string list" where
  "counter_names = [''memory.current'', ''memory.peak'', ''memory.events'', ''cpu.stat'']"

definition resource_counters :: "world \<Rightarrow> string \<Rightarrow> field_map py" where
  "resource_counters w directory = mapE (\<lambda>n. bindE (read_text w (slash directory n)) (\<lambda>t. Inr (n, strip t))) counter_names"

text \<open>The inputs of \<open>check_resource_limits\<close>: cgroup files, affinity set and environment.\<close>

definition check_resource_limits :: "string \<Rightarrow> string \<Rightarrow> int list \<Rightarrow> string option \<Rightarrow> unit py" where
  "check_resource_limits memory_max swap_max affinity capped =
     (let limit = strip memory_max; refuse = Inl (RuntimeError ''Require CPUs 1-3, MemoryMax<=704M, MemorySwapMax=0'') in
      if capped \<noteq> Some ''1'' \<or> (0 \<in> set affinity \<and> \<not> set affinity \<subseteq> {0, 1, 2, 3})
         \<or> (0 \<notin> set affinity \<and> \<not> set affinity \<subseteq> {1, 2, 3}) \<or> limit = ''max'' then refuse
      else bindE (str_int limit) (\<lambda>n. if 704 * 1024 * 1024 < n \<or> strip swap_max \<noteq> ''0'' then refuse else Inr ()))"

section \<open>Stopping a process group\<close>

datatype signal = SIGTERM | SIGKILL

text \<open>How a process reacts: gone already, exiting within three seconds of SIGTERM, or only on SIGKILL.\<close>

datatype process = Gone | Polite | Stubborn

text \<open>The signals sent and whether the process is gone when \<open>stop\<close> returns.\<close>

definition stop :: "process option \<Rightarrow> signal list \<times> bool" where
  "stop p = (case p of None \<Rightarrow> ([], True) | Some Gone \<Rightarrow> ([], True) | Some Polite \<Rightarrow> ([SIGTERM], True)
     | Some Stubborn \<Rightarrow> ([SIGTERM, SIGKILL], True))"

section \<open>Arms\<close>

type_synonym env_map = "(string \<times> string) list"

type_synonym arm = "string \<times> string \<times> env_map"

definition parse_env :: "string \<Rightarrow> (string \<times> string \<times> string) py" where
  "parse_env assignment = (case partition_at ''='' assignment of (label, separator, variable) \<Rightarrow>
     if \<not> separator \<or> label = [] \<or> \<not> contains ''='' variable
     then Inl (ValueError (''--salias-arm-env expects LABEL=KEY=VALUE, got '' @ assignment))
     else (case partition_at ''='' variable of (key, _, val) \<Rightarrow>
       if key = [] \<or> (\<exists>c \<in> set key. is_space c) then Inl (ValueError (''invalid environment key in '' @ assignment))
       else Inr (label, key, val)))"

definition add_env :: "string \<times> string \<times> string \<Rightarrow> (string \<times> env_map) list \<Rightarrow> (string \<times> env_map) list" where
  "add_env lkv envs = (case lkv of (label, key, val) \<Rightarrow> dict_put label (dict_put key val (dict_get envs label [])) envs)"

definition parse_envs :: "string list \<Rightarrow> (string \<times> env_map) list py" where
  "parse_envs specs = foldE (\<lambda>a envs. bindE (parse_env a) (\<lambda>lkv. Inr (add_env lkv envs))) specs []"

fun parse_arms :: "world \<Rightarrow> (string \<times> env_map) list \<Rightarrow> string list \<Rightarrow> string list \<Rightarrow> arm list py" where
  "parse_arms w envs labels [] = Inr []"
| "parse_arms w envs labels (spec # specs) = (case partition_at ''='' spec of (label, separator, path) \<Rightarrow>
     if \<not> separator \<or> label = [] \<or> label \<in> set labels then Inl (ValueError (''--salias-arm expects unique LABEL=PATH, got '' @ spec))
     else if \<not> is_file w path then Inl (ValueError (''--salias-arm client is not a file: '' @ path))
     else bindE (parse_arms w envs (label # labels) specs) (\<lambda>arms. Inr ((label, path, dict_get envs label []) # arms)))"

definition parse_arm_specs :: "world \<Rightarrow> string list \<Rightarrow> string list \<Rightarrow> arm list py" where
  "parse_arm_specs w arm_specs env_specs =
     bindE (parse_envs env_specs) (\<lambda>envs.
     bindE (parse_arms w envs [] arm_specs) (\<lambda>arms.
     if \<not> fst ` set envs \<subseteq> fst ` set arms then Inl (ValueError ''--salias-arm-env names unknown arms'') else Inr arms))"

definition fence_switch :: string where "fence_switch = ''SALIAS_DISABLE_ASYMMETRIC_FENCE''"

definition arm_process_environment :: "env_map \<Rightarrow> env_map option \<Rightarrow> env_map" where
  "arm_process_environment inherited overrides = (case overrides of None \<Rightarrow> inherited
     | Some o' \<Rightarrow> fold (\<lambda>(k, v). dict_put k v) o' (filter (\<lambda>(k, _). k \<noteq> fence_switch) inherited))"

section \<open>One case\<close>

record latency_case =
  lc_producers :: int
  lc_payload :: int
  lc_rate :: int
  lc_engine :: string
  lc_round :: nat
  lc_arm :: "string option"

definition case_common :: "latency_case \<Rightarrow> int \<Rightarrow> string \<Rightarrow> string list" where
  "case_common c seconds origin =
     [''--messages'', show_int (lc_rate c * seconds div lc_producers c),
      ''--producers'', show_int (lc_producers c), ''--consumers'', ''1'',
      ''--payload'', show_int (lc_payload c), ''--cpu-base'', ''1'', ''--cpu-stride'', ''1'',
      ''--latency-sample-rate'', ''16'', ''--rate'', show_int (lc_rate c div lc_producers c),
      ''--latency-origin'', origin]"

definition case_command :: "latency_case \<Rightarrow> int \<Rightarrow> string \<Rightarrow> string \<Rightarrow> string \<Rightarrow> string \<Rightarrow> string \<Rightarrow> string list" where
  "case_command c seconds origin client aeron_client driver_dir name =
     (if lc_engine c = ''aeron''
      then [aeron_client, ''--dir'', driver_dir, ''--scenario'', ''mpsc'', ''--term-length'', ''1048576'',
        ''--fragment-limit'', ''64''] @ case_common c seconds origin
      else [client, ''--scenario'', lc_engine c, ''--name'', name, ''--page'', ''normal'', ''--capacity'', ''1048576'',
        ''--batch-size'', ''1'', ''--poll-limit'', ''64''] @ case_common c seconds origin)"

text \<open>The checks on a case's standard output: one RESULT line, its counts, one consumer line.\<close>

definition check_output :: "latency_case \<Rightarrow> int \<Rightarrow> string \<Rightarrow> (field_map \<times> field_map list) py" where
  "check_output c seconds stdout =
     (let output = splitlines stdout in
     bindE (mapE fields_of (filter (\<lambda>l. starts_with l ''RESULT '') output)) (\<lambda>results.
     case results of
       [result] \<Rightarrow>
         bindE (mapE fields_of (filter (\<lambda>l. starts_with l ''LATENCY '') output)) (\<lambda>consumers.
         let expected = lc_rate c * seconds in
         bindE (if lc_producers c = 0 then Inl ZeroDivisionError
           else Inr (lc_producers c * ((expected div lc_producers c + 15) div 16))) (\<lambda>wanted.
         bindE (int_item result ''published'') (\<lambda>p.
         bindE (require (p = expected) (RuntimeError ''Delivery count mismatch'')) (\<lambda>_.
         bindE (int_item result ''delivered'') (\<lambda>d.
         bindE (require (d = expected) (RuntimeError ''Delivery count mismatch'')) (\<lambda>_.
         bindE (int_item result ''latency_samples'') (\<lambda>s.
         bindE (require (s = wanted \<and> length consumers = 1) (RuntimeError ''Sample count mismatch'')) (\<lambda>_.
         Inr (result, consumers)))))))))
     | _ \<Rightarrow> Inl (RuntimeError ''Expected exactly one RESULT'')))"

section \<open>The matrix\<close>

record latency_args =
  la_seconds :: int
  la_rounds :: int
  la_rates :: "int list"
  la_payloads :: "int list"
  la_producers :: "int list"
  la_engines :: "string list"
  la_cooldown :: num

definition matrix_ok :: "latency_args \<Rightarrow> bool" where
  "matrix_ok a \<longleftrightarrow> 1 \<le> la_seconds a \<and> la_seconds a \<le> 10 \<and> 1 \<le> la_rounds a \<and> la_rounds a \<le> 10
     \<and> (\<forall>p \<in> set (la_producers a). p \<in> {1, 2})
     \<and> (\<forall>r \<in> set (la_rates a). \<not> (r < 2000 \<or> 1000000 < r \<or> r mod 2000 \<noteq> 0))
     \<and> (\<forall>p \<in> set (la_payloads a). \<not> (p < 16 \<or> 1024 < p)) \<and> \<not> nlt (la_cooldown a) (F (Fin (1 / 4)))"

text \<open>The engines of a round are rotated, and so are the arms of a Salias engine.\<close>

definition engine_cases :: "string list \<Rightarrow> nat \<Rightarrow> string \<Rightarrow> (string \<times> string option) list" where
  "engine_cases arms r e = (if e \<noteq> ''aeron'' \<and> arms \<noteq> []
     then map (\<lambda>a. (e, Some a)) (let shift = r mod length arms in drop shift arms @ take shift arms)
     else [(e, None)])"

definition latency_round :: "latency_args \<Rightarrow> string list \<Rightarrow> nat \<Rightarrow> (string \<times> string option) list" where
  "latency_round a arms r = (let es = la_engines a; shift = r mod length es in
     concat (map (engine_cases arms r) (drop shift es @ take shift es)))"

definition latency_cases :: "latency_args \<Rightarrow> string list \<Rightarrow> latency_case list" where
  "latency_cases a arms = concat (map (\<lambda>producers. concat (map (\<lambda>payload. concat (map (\<lambda>rate.
     concat (map (\<lambda>r. map (\<lambda>(e, arm). \<lparr>lc_producers = producers, lc_payload = payload, lc_rate = rate,
        lc_engine = e, lc_round = r, lc_arm = arm\<rparr>) (latency_round a arms r)) [0..<nat (la_rounds a) + 1]))
     (la_rates a))) (la_payloads a))) (la_producers a))"

section \<open>Arm specifications\<close>

lemma starts_with_append: "starts_with s p \<longleftrightarrow> (\<exists>r. s = p @ r)"
  by (induction s p rule: starts_with.induct) auto

lemma partition_at_found:
  "sep \<noteq> [] \<Longrightarrow> partition_at sep s = (a, True, b) \<Longrightarrow> s = a @ sep @ b"
proof (induction sep s arbitrary: a rule: partition_at.induct)
  case (2 sep c s)
  show ?case
  proof (cases "starts_with (c # s) sep")
    case True
    then show ?thesis using 2(3) by (auto simp: starts_with_append)
  next
    case False
    then obtain a' where "partition_at sep s = (a', True, b)" "a = c # a'"
      using 2(3) by (cases "partition_at sep s") (auto simp: Let_def)
    then show ?thesis using 2(1) [OF False 2(2)] by simp
  qed
qed simp

lemma partition_at_join:
  assumes "x \<notin> set a" shows "partition_at [x] (a @ x # b) = (a, True, b)"
  using assms by (induction a) (auto simp: Let_def)

lemma parse_arms_spec:
  "parse_arms w envs labels specs = Inr arms \<Longrightarrow>
     map (\<lambda>(l, p, e). l @ ''='' @ p) arms = specs \<and> distinct (map fst arms) \<and> set (map fst arms) \<inter> set labels = {}
     \<and> (\<forall>(l, p, e) \<in> set arms. l \<noteq> [] \<and> is_file w p \<and> e = dict_get envs l [])"
proof (induction w envs labels specs arbitrary: arms rule: parse_arms.induct)
  case (2 w envs labels spec specs)
  obtain label sep path where p: "partition_at ''='' spec = (label, sep, path)" by (cases "partition_at ''='' spec")
  obtain rest where r: "parse_arms w envs (label # labels) specs = Inr rest" "sep" "label \<noteq> []" "label \<notin> set labels"
    "is_file w path" "arms = (label, path, dict_get envs label []) # rest"
    using 2(2) p by (auto split: if_splits)
  have "spec = label @ ''='' @ path" using partition_at_found [of "''=''" spec label path] p r(2) by simp
  then show ?case using 2(1) [OF p [symmetric] refl, of rest] p r by auto
qed simp

text \<open>The environment of a label is built from its own assignments, the last of a key winning.\<close>

lemma add_env_lookup:
  "dict_get (add_env (l, k, v) envs) l' [] = (if l' = l then dict_put k v (dict_get envs l []) else dict_get envs l' [])"
  by (auto simp: add_env_def dict_get_def map_of_dict_put)

lemma parse_envs_fold:
  "foldE (\<lambda>a envs. bindE (parse_env a) (\<lambda>lkv. Inr (add_env lkv envs))) specs e0 = Inr envs \<longleftrightarrow>
     (\<exists>ts. mapE parse_env specs = Inr ts \<and> envs = fold add_env ts e0)"
proof (induction specs arbitrary: e0)
  case (Cons a specs)
  then show ?case by (cases "parse_env a") auto
qed auto

lemma fold_add_env_lookup:
  "map_of (dict_get (fold add_env ts e0) l []) k = (case map_of (rev (map (\<lambda>(l, k, v). ((l, k), v)) ts)) (l, k) of
     None \<Rightarrow> map_of (dict_get e0 l []) k | Some v \<Rightarrow> Some v)"
proof (induction ts arbitrary: e0)
  case (Cons t ts)
  obtain l1 k1 v1 where t: "t = (l1, k1, v1)" by (cases t)
  show ?case using Cons.IH [of "add_env t e0"]
    by (auto simp: t add_env_lookup map_of_dict_put map_add_def split: option.splits)
qed simp

lemma fold_add_env_keys: "fst ` set (fold add_env ts e0) = fst ` set e0 \<union> fst ` set ts"
proof (induction ts arbitrary: e0)
  case (Cons t ts)
  have "set (map fst (dict_put k v d)) = insert k (set (map fst d))" for k v and d :: "(string \<times> env_map) list"
    by (auto simp: keys_dict_put)
  then have "fst ` set (add_env t e0) = insert (fst t) (fst ` set e0)" by (cases t) (auto simp: add_env_def)
  then show ?case using Cons.IH by auto
qed simp

section \<open>Properties\<close>


definition arms_world :: world where
  "arms_world = \<lparr>file_text = (\<lambda>p. Some []), sha256_hex = (\<lambda>t. ''digest''), json_loads = (\<lambda>t. Inr JNull),
     globbed = (\<lambda>d pat. []), resolved = (\<lambda>p. p)\<rparr>"


end
