(* ===== verification/TopologyRun.thy ===== *)
theory TopologyRun
  imports TopologyPlan LatencyRunner
begin

text \<open>
  Running one case of a topology suite, \<open>run_case\<close> of \<open>tools/aeron_compare/run_topology_suite.py\<close>:
  the commands, the checks on the client's output (\<open>collect\<close>) and the supervision of driver and
  client as a step relation.  The environment decides when processes exit, memory is measured, a
  deadline passes or a signal arrives; a step of the runner is one iteration of a polling loop or one
  statement between loops.
\<close>

section \<open>Commands\<close>

definition case_prefix :: "suite_case \<Rightarrow> string \<Rightarrow> string" where
  "case_prefix c number = number @ ''-'' @ case_engine c @ ''-'' @ cell_topology c @ ''-'' @ cell_kind c @ ''-''
     @ show_int (cell_payload c) @ ''b-'' @ cell_origin c @ ''-g'' @ show_int (int (case_group c)) @ ''-r'' @ show_int (int (case_round c))"

definition common_arguments :: "suite_args \<Rightarrow> suite_case \<Rightarrow> cpu_layout \<Rightarrow> int \<Rightarrow> int \<Rightarrow> string list" where
  "common_arguments a c l producers consumers = (case workload_of a (cell_kind c) producers of (messages, rate, sampling) \<Rightarrow>
     [''--messages'', show_int messages, ''--producers'', show_int producers, ''--consumers'', show_int consumers,
      ''--payload'', show_int (cell_payload c), ''--cpu-base'', show_int (worker_cpu_base l), ''--cpu-stride'', ''1'',
      ''--rate'', show_int rate, ''--latency-origin'', cell_origin c, ''--latency-sample-rate'', show_int sampling,
      ''--verify'', verify a])"

definition driver_command :: "suite_args \<Rightarrow> cpu_layout \<Rightarrow> string \<Rightarrow> string list" where
  "driver_command a l driver_dir =
     [''taskset'', ''-c'', show_int (driver_cpu l), aeron_driver a, ''-Daeron.dir='' @ driver_dir,
      ''-Daeron.dir.delete.on.start=true'', ''-Daeron.threading.mode=SHARED'', ''-Daeron.shared.idle.strategy=backoff'',
      ''-Daeron.term.buffer.sparse.file=false'', ''-Daeron.term.buffer.length=1048576'', ''-Daeron.ipc.term.buffer.length=1048576'']"

definition worker_command :: "suite_args \<Rightarrow> suite_case \<Rightarrow> cpu_layout \<Rightarrow> int \<Rightarrow> int \<Rightarrow> string \<Rightarrow> string \<Rightarrow> string list" where
  "worker_command a c l producers consumers driver_dir name =
     (if case_engine c = ''aeron'' then
        [aeron_client a, ''--dir'', driver_dir, ''--scenario'', cell_topology c, ''--term-length'', ''1048576'',
         ''--fragment-limit'', ''64''] @ common_arguments a c l producers consumers
      else if salias_engine a = ''fast'' then
        (if cell_kind c = ''latency'' then
           [fast_latency_client a, ''--topology'', cell_topology c, ''--origin'', cell_origin c, ''--rate'', show_int (latency_total_rate a),
            ''--seconds'', show_int (latency_seconds a), ''--sample-rate'', show_int (latency_sample_rate a),
            ''--payload'', show_int (cell_payload c), ''--verify'', verify a, ''--cpu-base'', show_int (worker_cpu_base l), ''--cpu-stride'', ''1'']
         else
           [fast_throughput_client a, ''--topology'', cell_topology c, ''--messages'', show_int (throughput_messages_per_producer a),
            ''--payload'', show_int (cell_payload c), ''--verify'', verify a, ''--cpu-base'', show_int (worker_cpu_base l), ''--cpu-stride'', ''1''])
      else
        [salias_client a, ''--scenario'', ''fifo'', ''--name'', name, ''--page'', ''normal'', ''--capacity'', ''1048576'',
         ''--batch-size'', ''1'', ''--poll-limit'', ''64''] @ common_arguments a c l producers consumers)"

section \<open>Checking the output\<close>

definition latency_keys :: "string list" where
  "latency_keys = [''p50'', ''p99'', ''p999'', ''max'']"

record case_record =
  rec_case :: suite_case
  rec_number :: int
  rec_phase :: string
  rec_producers :: int
  rec_consumers :: int
  messages_per_producer :: int
  rate_per_producer :: int
  sample_rate :: int
  remote_payload_bytes :: int
  rec_layout :: cpu_layout
  rec_roles :: "role list"
  rec_result :: field_map
  consumers_detail :: "field_map list"
  worst_subscriber_ns :: "(string \<times> int) list option"
  min_mem_available_kib :: int

text \<open>\<open>sorted(..., key=...)\<close>: the keys are computed first, the sort is stable.\<close>

definition sort_by_int :: "('a \<Rightarrow> int py) \<Rightarrow> 'a list \<Rightarrow> 'a list py" where
  "sort_by_int key xs = bindE (mapE key xs) (\<lambda>ks. Inr (map snd (sort_key fst (zip ks xs))))"

definition fail_if :: "bool \<Rightarrow> string \<Rightarrow> unit py" where
  "fail_if b msg = require (\<not> b) (RuntimeError msg)"

definition check_consumers :: "string \<Rightarrow> int \<Rightarrow> field_map list \<Rightarrow> unit py" where
  "check_consumers kind consumers detail =
     (if kind = ''latency'' \<or> detail \<noteq> [] then
        bindE (mapE (\<lambda>d. int_item d ''consumer'') detail) (\<lambda>ids. fail_if (ids \<noteq> [0..consumers - 1]) ''Subscriber result mismatch'')
      else Inr ())"

definition check_memory_events :: "string \<Rightarrow> unit py" where
  "check_memory_events events_text =
     bindE (mapE (\<lambda>l. case split_words l of [k, v] \<Rightarrow> Inr (k, v) | _ \<Rightarrow> Inl (ValueError ''dictionary update sequence element''))
       (splitlines events_text)) (\<lambda>kvs.
     bindE (someE (\<lambda>k. bindE (int_item (dict_of kvs) k) (\<lambda>n. Inr (n \<noteq> 0))) [''max'', ''oom'', ''oom_kill'']) (\<lambda>bad.
     fail_if bad ''Memory max/OOM event observed''))"

definition check_result :: "suite_args \<Rightarrow> suite_case \<Rightarrow> int \<Rightarrow> int \<Rightarrow> field_map \<Rightarrow> field_map list \<Rightarrow> unit py" where
  "check_result a c producers consumers result detail =
     (case workload_of a (cell_kind c) producers of (messages, rate, sampling) \<Rightarrow>
     bindE (expected_counts (cell_kind c) producers consumers messages sampling) (\<lambda>(published, delivered, samples).
     bindE (int_item result ''published'') (\<lambda>n. bindE (fail_if (n \<noteq> published) ''Published count mismatch'') (\<lambda>_.
     bindE (int_item result ''delivered'') (\<lambda>n. bindE (fail_if (n \<noteq> delivered) ''Delivered count mismatch'') (\<lambda>_.
     bindE (int_item result ''latency_samples'') (\<lambda>n. bindE (fail_if (n \<noteq> samples) ''Latency sample count mismatch'') (\<lambda>_.
     bindE (check_consumers (cell_kind c) consumers detail) (\<lambda>_.
     bindE (int_item result ''producers'') (\<lambda>n. bindE (fail_if (n \<noteq> producers) ''Topology result mismatch'') (\<lambda>_.
     bindE (int_item result ''consumers'') (\<lambda>n. bindE (fail_if (n \<noteq> consumers) ''Topology result mismatch'') (\<lambda>_.
     bindE (int_item result ''rate_per_producer'') (\<lambda>n. bindE (fail_if (n \<noteq> rate) ''Rate mismatch'') (\<lambda>_.
     bindE (item result ''latency_origin'') (\<lambda>q. bindE (fail_if (q \<noteq> cell_origin c) ''Latency origin mismatch'') (\<lambda>_.
     bindE (fail_if (map_of result ''verification'' \<noteq> Some (verify a)) ''Verification mode mismatch'') (\<lambda>_.
     if verify a = ''full'' then
       bindE (case map_of result ''verified'' of None \<Rightarrow> Inr (-1) | Some v \<Rightarrow> str_int v) (\<lambda>v.
       fail_if (v \<noteq> delivered) ''Full verification count mismatch'')
     else Inr ()))))))))))))))))))"

definition worst_ns :: "field_map list \<Rightarrow> (string \<times> int) list py" where
  "worst_ns detail = mapE (\<lambda>k. bindE (mapE (\<lambda>d. int_item d (k @ ''_ns'')) detail) (\<lambda>ns. case ns of
     [] \<Rightarrow> Inl (ValueError ''max() arg is an empty sequence'') | m # ms \<Rightarrow> Inr (k, fold max ms m))) latency_keys"

definition collect :: "suite_args \<Rightarrow> suite_case \<Rightarrow> int \<Rightarrow> cpu_layout \<Rightarrow> int \<Rightarrow> int \<Rightarrow> string \<Rightarrow> string \<Rightarrow> int \<Rightarrow> case_record py" where
  "collect a c number l producers consumers stdout events lowest =
     (let raw_lines = splitlines stdout in
     bindE (mapE fields_of (filter (\<lambda>l. starts_with l ''RESULT '') raw_lines)) (\<lambda>results.
     bindE (mapE fields_of (filter (\<lambda>l. starts_with l ''LATENCY '') raw_lines)) (\<lambda>details.
     bindE (sort_by_int (\<lambda>d. int_item d ''consumer'') details) (\<lambda>detail.
     case results of
       [result] \<Rightarrow>
         bindE (check_result a c producers consumers result detail) (\<lambda>_.
         bindE (check_memory_events events) (\<lambda>_.
         bindE (if cell_kind c = ''latency'' then bindE (worst_ns detail) (\<lambda>w. Inr (Some w)) else Inr None) (\<lambda>w.
         case workload_of a (cell_kind c) producers of (messages, rate, sampling) \<Rightarrow>
         Inr \<lparr>rec_case = c, rec_number = number, rec_phase = (if case_round c = 0 then ''warmup'' else ''measured''),
           rec_producers = producers, rec_consumers = consumers, messages_per_producer = messages,
           rate_per_producer = rate, sample_rate = sampling,
           remote_payload_bytes = messages * cell_payload c * producers, rec_layout = l,
           rec_roles = worker_roles producers consumers (worker_cpu_base l), rec_result = result,
           consumers_detail = detail, worst_subscriber_ns = w, min_mem_available_kib = lowest\<rparr>)))
     | _ \<Rightarrow> Inl (RuntimeError ''Expected one RESULT line'')))))"

section \<open>Supervision\<close>

datatype proc = NotStarted | Running | Exited int

datatype outcome = Returned | Raised pyexn | Interrupted

datatype pc = Start | DriverWait | Launch | WorkerWait | Collect | Recorded | Finally outcome | Finished outcome

record run_state =
  pc :: pc
  driver :: proc
  worker :: proc
  driver_held :: bool
  log_open :: bool
  dir_exists :: bool
  segments :: bool
  lowest :: int
  appended :: "case_record option"

definition init_state :: "int \<Rightarrow> run_state" where
  "init_state kib = \<lparr>pc = Start, driver = NotStarted, worker = NotStarted, driver_held = False, log_open = False,
     dir_exists = False, segments = False, lowest = kib, appended = None\<rparr>"

definition floor_kib :: int where "floor_kib = 600 * 1024"

definition exited :: "proc \<Rightarrow> bool" where
  "exited p \<longleftrightarrow> (\<exists>code. p = Exited code)"

text \<open>What \<open>stop\<close> leaves of a process: whatever ran is gone.\<close>

definition stopped :: "proc \<Rightarrow> proc" where
  "stopped p = (if p = Running then Exited (-15) else p)"

text \<open>The points inside the \<open>try\<close> block, where an exception or a signal leads to \<open>finally\<close>.\<close>

fun in_try :: "pc \<Rightarrow> bool" where
  "in_try (Finally _) = False"
| "in_try (Finished _) = False"
| "in_try _ = True"

text \<open>The parameters: the engine of the case and \<open>collect\<close> on the collected output.\<close>

inductive run_step :: "bool \<Rightarrow> (int \<Rightarrow> case_record py) \<Rightarrow> run_state \<Rightarrow> run_state \<Rightarrow> bool"
  for aeron :: bool and collected :: "int \<Rightarrow> case_record py" where
  start_driver: "pc s = Start \<Longrightarrow> aeron \<Longrightarrow>
    run_step aeron collected s (s\<lparr>pc := DriverWait, driver := Running, driver_held := True, log_open := True\<rparr>)"
| start_plain: "pc s = Start \<Longrightarrow> \<not> aeron \<Longrightarrow> run_step aeron collected s (s\<lparr>pc := Launch\<rparr>)"
| driver_creates: "driver s = Running \<Longrightarrow> run_step aeron collected s (s\<lparr>dir_exists := True\<rparr>)"
| driver_exits: "driver s = Running \<Longrightarrow> run_step aeron collected s (s\<lparr>driver := Exited code\<rparr>)"
| worker_creates: "worker s = Running \<Longrightarrow> run_step aeron collected s (s\<lparr>segments := True\<rparr>)"
| worker_exits: "worker s = Running \<Longrightarrow> run_step aeron collected s (s\<lparr>worker := Exited code\<rparr>)"
| driver_ready: "pc s = DriverWait \<Longrightarrow> dir_exists s \<Longrightarrow> run_step aeron collected s (s\<lparr>pc := Launch\<rparr>)"
| driver_failed: "pc s = DriverWait \<Longrightarrow> exited (driver s) \<or> late \<Longrightarrow>
    run_step aeron collected s (s\<lparr>lowest := min (lowest s) kib, pc := Finally (Raised (RuntimeError ''Aeron driver startup failed''))\<rparr>)"
| driver_floor: "pc s = DriverWait \<Longrightarrow> \<not> exited (driver s) \<Longrightarrow> min (lowest s) kib < floor_kib \<Longrightarrow>
    run_step aeron collected s (s\<lparr>lowest := min (lowest s) kib, pc := Finally (Raised (RuntimeError ''MemAvailable fell below 600 MiB during driver startup''))\<rparr>)"
| driver_tick: "pc s = DriverWait \<Longrightarrow> \<not> exited (driver s) \<Longrightarrow> floor_kib \<le> min (lowest s) kib \<Longrightarrow>
    run_step aeron collected s (s\<lparr>lowest := min (lowest s) kib\<rparr>)"
| launch: "pc s = Launch \<Longrightarrow> run_step aeron collected s (s\<lparr>pc := WorkerWait, worker := Running\<rparr>)"
| worker_floor: "pc s = WorkerWait \<Longrightarrow> worker s = Running \<Longrightarrow> min (lowest s) kib < floor_kib \<Longrightarrow>
    run_step aeron collected s (s\<lparr>lowest := min (lowest s) kib, pc := Finally (Raised (RuntimeError ''MemAvailable fell below 600 MiB''))\<rparr>)"
| worker_timeout: "pc s = WorkerWait \<Longrightarrow> worker s = Running \<Longrightarrow> floor_kib \<le> min (lowest s) kib \<Longrightarrow>
    run_step aeron collected s (s\<lparr>lowest := min (lowest s) kib, pc := Finally (Raised (RuntimeError ''Benchmark timeout''))\<rparr>)"
| driver_died: "pc s = WorkerWait \<Longrightarrow> worker s = Running \<Longrightarrow> floor_kib \<le> min (lowest s) kib \<Longrightarrow> driver_held s \<Longrightarrow> exited (driver s) \<Longrightarrow>
    run_step aeron collected s (s\<lparr>lowest := min (lowest s) kib, pc := Finally (Raised (RuntimeError ''Aeron driver exited during case''))\<rparr>)"
| worker_tick: "pc s = WorkerWait \<Longrightarrow> worker s = Running \<Longrightarrow> floor_kib \<le> min (lowest s) kib \<Longrightarrow> \<not> (driver_held s \<and> exited (driver s)) \<Longrightarrow>
    run_step aeron collected s (s\<lparr>lowest := min (lowest s) kib\<rparr>)"
| worker_failed: "pc s = WorkerWait \<Longrightarrow> worker s = Exited code \<Longrightarrow> code \<noteq> 0 \<Longrightarrow>
    run_step aeron collected s (s\<lparr>pc := Finally (Raised (RuntimeError ''Benchmark failed''))\<rparr>)"
| worker_done: "pc s = WorkerWait \<Longrightarrow> worker s = Exited 0 \<Longrightarrow>
    run_step aeron collected s (s\<lparr>pc := Collect, driver := stopped (driver s), driver_held := False, log_open := False\<rparr>)"
| collect_ok: "pc s = Collect \<Longrightarrow> collected (lowest s) = Inr r \<Longrightarrow>
    run_step aeron collected s (s\<lparr>pc := Recorded, appended := Some r\<rparr>)"
| collect_error: "pc s = Collect \<Longrightarrow> collected (lowest s) = Inl e \<Longrightarrow>
    run_step aeron collected s (s\<lparr>pc := Finally (Raised e)\<rparr>)"
| return_record: "pc s = Recorded \<Longrightarrow> run_step aeron collected s (s\<lparr>pc := Finally Returned\<rparr>)"
| print_error: "pc s = Recorded \<Longrightarrow> run_step aeron collected s (s\<lparr>pc := Finally (Raised e)\<rparr>)"
| interrupt: "in_try (pc s) \<Longrightarrow> run_step aeron collected s (s\<lparr>pc := Finally Interrupted\<rparr>)"
| clean_up: "pc s = Finally o' \<Longrightarrow>
    run_step aeron collected s (s\<lparr>pc := Finished o', worker := stopped (worker s),
      driver := (if driver_held s then stopped (driver s) else driver s), driver_held := False, log_open := False,
      dir_exists := False, segments := False\<rparr>)"

inductive reachable :: "bool \<Rightarrow> (int \<Rightarrow> case_record py) \<Rightarrow> int \<Rightarrow> run_state \<Rightarrow> bool"
  for aeron :: bool and collected :: "int \<Rightarrow> case_record py" and kib :: int where
  begins: "reachable aeron collected kib (init_state kib)"
| moves: "reachable aeron collected kib s \<Longrightarrow> run_step aeron collected s t \<Longrightarrow> reachable aeron collected kib t"

inductive_cases run_stepE: "run_step aeron collected s t"


section \<open>Invariants\<close>

fun past_launch :: "pc \<Rightarrow> bool" where
  "past_launch Start = False"
| "past_launch DriverWait = False"
| "past_launch Launch = False"
| "past_launch _ = True"

fun past_collect :: "pc \<Rightarrow> bool" where
  "past_collect Recorded = True"
| "past_collect (Finally _) = True"
| "past_collect (Finished _) = True"
| "past_collect _ = False"

fun finished :: "pc \<Rightarrow> bool" where
  "finished (Finished _) = True"
| "finished _ = False"

definition run_inv :: "(int \<Rightarrow> case_record py) \<Rightarrow> run_state \<Rightarrow> bool" where
  "run_inv collected s \<longleftrightarrow>
     (driver s = Running \<or> log_open s \<longrightarrow> driver_held s)
     \<and> (worker s \<noteq> NotStarted \<longrightarrow> past_launch (pc s))
     \<and> (segments s \<longrightarrow> past_launch (pc s))
     \<and> (pc s = Collect \<longrightarrow> worker s = Exited 0 \<and> \<not> driver_held s)
     \<and> (\<forall>r. appended s = Some r \<longrightarrow> past_collect (pc s) \<and> worker s = Exited 0 \<and> \<not> driver_held s \<and> (\<exists>low. collected low = Inr r))
     \<and> (pc s = Recorded \<or> pc s = Finally Returned \<or> pc s = Finished Returned \<longrightarrow> appended s \<noteq> None)
     \<and> (finished (pc s) \<longrightarrow> worker s \<noteq> Running \<and> \<not> driver_held s \<and> \<not> dir_exists s \<and> \<not> segments s)"

lemma run_inv_init: "run_inv collected (init_state kib)"
  by (simp add: run_inv_def init_state_def)

lemma run_inv_step:
  assumes "run_step aeron collected s t" "run_inv collected s"
  shows "run_inv collected t"
  using assms
  by cases (auto simp: run_inv_def stopped_def exited_def split: if_splits)

lemma reachable_inv: "reachable aeron collected kib s \<Longrightarrow> run_inv collected s"
  by (induction rule: reachable.induct) (auto intro: run_inv_init run_inv_step)

text \<open>What a collected record has been checked for.\<close>

lemma single_Inr: "(case xs of [x] \<Rightarrow> f x | _ \<Rightarrow> Inl e) = Inr z \<longleftrightarrow> (\<exists>x. xs = [x] \<and> f x = Inr z)"
  by (auto split: list.splits)

lemma collect_checked:
  assumes "collect a c number l producers consumers stdout events low = Inr r"
  shows "check_result a c producers consumers (rec_result r) (consumers_detail r) = Inr ()"
    "check_memory_events events = Inr ()" "rec_case r = c" "rec_number r = number"
proof -
  obtain m rate k where wl: "workload_of a (cell_kind c) producers = (m, rate, k)" using prod_cases3 by blast
  obtain result detail where "check_result a c producers consumers result detail = Inr ()"
    "check_memory_events events = Inr ()" "rec_result r = result" "consumers_detail r = detail" "rec_case r = c" "rec_number r = number"
    using assms unfolding collect_def Let_def bindE_Inr single_Inr wl prod.case by auto
  then show "check_result a c producers consumers (rec_result r) (consumers_detail r) = Inr ()"
    "check_memory_events events = Inr ()" "rec_case r = c" "rec_number r = number" by simp_all
qed

lemma check_result_counts:
  assumes "check_result a c producers consumers result detail = Inr ()" "workload_of a (cell_kind c) producers = (m, rate, k)"
    "expected_counts (cell_kind c) producers consumers m k = Inr (published, delivered, samples)"
  shows "int_item result ''published'' = Inr published" "int_item result ''delivered'' = Inr delivered"
    "int_item result ''latency_samples'' = Inr samples" "int_item result ''rate_per_producer'' = Inr rate"
    "verify a = ''full'' \<Longrightarrow> int_item result ''verified'' = Inr delivered \<or> delivered = -1"
  using assms by (auto simp: check_result_def fail_if_def int_item_def item_def split: option.splits if_splits)


section \<open>Properties\<close>


definition demo_case :: suite_case where
  "demo_case = case_of demo_cell 0 1 0 ''salias''"

definition demo_layout :: cpu_layout where
  "demo_layout = \<lparr>worker_cpu_base = 1, worker_cpus = [1, 2], driver_cpu = 0, coordinator_cpu = 0, dedicated_driver = True, layout_text = []\<rparr>"

definition demo_stdout :: string where
  "demo_stdout = ''RESULT published=100000 delivered=100000 latency_samples=0 producers=1 consumers=1 rate_per_producer=0 latency_origin=claim verification=full verified=100000'' @ [nl]"

definition demo_events :: string where
  "demo_events = ''max 0'' @ [nl] @ ''oom 0'' @ [nl] @ ''oom_kill 0''"

lemma demo_collect: "\<not> isl (collect demo_args demo_case 7 demo_layout 1 1 demo_stdout demo_events 700000)"
  by code_simp

lemma demo_run:
  assumes "collected 700000 = Inr r"
  shows "\<exists>s. reachable False collected 700000 s \<and> pc s = Finished Returned \<and> appended s = Some r"
proof -
  let ?s0 = "init_state 700000"
  let ?s1 = "?s0\<lparr>pc := Launch\<rparr>" let ?s2 = "?s1\<lparr>pc := WorkerWait, worker := Running\<rparr>"
  let ?s3 = "?s2\<lparr>worker := Exited 0\<rparr>"
  let ?s4 = "?s3\<lparr>pc := Collect, driver := stopped (driver ?s3), driver_held := False, log_open := False\<rparr>"
  let ?s5 = "?s4\<lparr>pc := Recorded, appended := Some r\<rparr>" let ?s6 = "?s5\<lparr>pc := Finally Returned\<rparr>"
  let ?s7 = "?s6\<lparr>pc := Finished Returned, worker := stopped (worker ?s6),
      driver := (if driver_held ?s6 then stopped (driver ?s6) else driver ?s6), driver_held := False, log_open := False,
      dir_exists := False, segments := False\<rparr>"
  note rs = reachable.moves [of False collected 700000]
  have 1: "reachable False collected 700000 ?s1" by (rule rs [OF reachable.begins start_plain]) (simp_all add: init_state_def)
  have 2: "reachable False collected 700000 ?s2" by (rule rs [OF 1 launch]) simp
  have 3: "reachable False collected 700000 ?s3" by (rule rs [OF 2 worker_exits]) simp
  have 4: "reachable False collected 700000 ?s4" by (rule rs [OF 3 worker_done]) simp_all
  have 5: "reachable False collected 700000 ?s5" by (rule rs [OF 4 collect_ok]) (simp_all add: assms init_state_def)
  have 6: "reachable False collected 700000 ?s6" by (rule rs [OF 5 return_record]) simp
  have 7: "reachable False collected 700000 ?s7" by (rule rs [OF 6 clean_up]) simp
  then show ?thesis by (intro exI [of _ ?s7]) simp
qed


end
