(* ===== verification/TopologySummary.thy ===== *)
theory TopologySummary
  imports TopologyRun PyStats
begin

text \<open>
  The summary of \<open>run_topology_suite.py\<close>: the measured rows are grouped by topology, kind,
  payload, origin and engine, every group gets its medians and ranges, and the cells measured
  on both engines are compared.  The rows are the records \<open>case_record\<close> of \<open>run_case\<close>.
\<close>

section \<open>Groups\<close>

record spread =
  mid :: num
  least :: num
  greatest :: num

definition median_range :: "num list \<Rightarrow> spread py" where
  "median_range values = bindE (median values) (\<lambda>m. bindE (num_min values) (\<lambda>l. bindE (num_max values) (\<lambda>h.
     Inr \<lparr>mid = m, least = l, greatest = h\<rparr>)))"

type_synonym cell_key = "string \<times> string \<times> int \<times> string"
type_synonym group_key = "string \<times> string \<times> int \<times> string \<times> string"

definition key_of_row :: "case_record \<Rightarrow> group_key" where
  "key_of_row r = (let c = rec_case r in
     (cell_topology c, cell_kind c, cell_payload c, cell_origin c, case_engine c))"

record cell_group =
  group_id :: group_key
  rounds_seen :: nat
  groups_seen :: nat
  publish_mmsg_s :: spread
  delivery_mmsg_s :: spread
  duration_s :: spread
  latency_ns :: "(string \<times> spread) list"
  per_subscriber :: "(string \<times> num) list list"

definition float_item :: "field_map \<Rightarrow> string \<Rightarrow> pyfloat py" where
  "float_item d k = bindE (item d k) str_float"

definition worst_of :: "case_record \<Rightarrow> string \<Rightarrow> num py" where
  "worst_of r k = (case worst_subscriber_ns r of None \<Rightarrow> Inl TypeError
     | Some w \<Rightarrow> (case map_of w k of None \<Rightarrow> Inl KeyError | Some n \<Rightarrow> Inr (I n)))"

definition rate_spread :: "case_record list \<Rightarrow> string \<Rightarrow> spread py" where
  "rate_spread rows k = bindE (mapE (\<lambda>r. bindE (float_item (rec_result r) k) (\<lambda>x. Inr (F (fdiv x (Fin 1000000))))) rows)
     median_range"

definition subscriber_medians :: "case_record list \<Rightarrow> nat \<Rightarrow> (string \<times> num) list py" where
  "subscriber_medians rows i = mapE (\<lambda>k.
     bindE (mapE (\<lambda>r. bindE (nthE (consumers_detail r) i) (\<lambda>d. bindE (int_item d (k @ ''_ns'')) (\<lambda>n. Inr (I n)))) rows) (\<lambda>ns.
     bindE (median ns) (\<lambda>m. Inr (k, m)))) latency_keys"

definition group_of :: "case_record list \<Rightarrow> group_key \<Rightarrow> cell_group py" where
  "group_of measured key = (let rows = cell_of key_of_row key measured; kind = fst (snd key) in
     bindE (rate_spread rows ''publish_msg_per_sec'') (\<lambda>pub.
     bindE (rate_spread rows ''delivery_msg_per_sec'') (\<lambda>dlv.
     bindE (mapE (\<lambda>r. bindE (float_item (rec_result r) ''seconds'') (\<lambda>x. Inr (F x))) rows) (\<lambda>secs.
     bindE (median_range secs) (\<lambda>dur.
     bindE (if kind = ''latency'' then mapE (\<lambda>k. bindE (mapE (\<lambda>r. worst_of r k) rows) (\<lambda>ns.
              bindE (median_range ns) (\<lambda>s. Inr (k, s)))) latency_keys else Inr []) (\<lambda>lat.
     bindE (if kind = ''latency'' then bindE (nthE rows 0) (\<lambda>r0.
              mapE (subscriber_medians rows) [0 ..< length (consumers_detail r0)]) else Inr []) (\<lambda>per.
     Inr \<lparr>group_id = key, rounds_seen = length rows,
       groups_seen = length (remdups (map (\<lambda>r. case_group (rec_case r)) rows)),
       publish_mmsg_s = pub, delivery_mmsg_s = dlv, duration_s = dur, latency_ns = lat, per_subscriber = per\<rparr>)))))))"

section \<open>Pairs of engines\<close>

definition cell_key_of :: "cell_group \<Rightarrow> cell_key" where
  "cell_key_of g = (case group_id g of (t, k, p, q, e) \<Rightarrow> (t, k, p, q))"

definition engine_of :: "cell_group \<Rightarrow> string" where
  "engine_of g = (case group_id g of (t, k, p, q, e) \<Rightarrow> e)"

record pair_row =
  pair_id :: cell_key
  pair_salias :: cell_group
  pair_aeron :: cell_group
  salias_over_aeron :: num
  salias_minus_aeron :: "(string \<times> num) list"

definition spread_at :: "(string \<times> spread) list \<Rightarrow> string \<Rightarrow> spread py" where
  "spread_at d k = (case map_of d k of None \<Rightarrow> Inl KeyError | Some s \<Rightarrow> Inr s)"

definition compare_pair :: "cell_key \<Rightarrow> cell_group \<Rightarrow> cell_group \<Rightarrow> pair_row py" where
  "compare_pair key s a =
     bindE (ndiv (mid (publish_mmsg_s s)) (mid (publish_mmsg_s a))) (\<lambda>ratio.
     bindE (if fst (snd key) = ''latency'' then
         mapE (\<lambda>k. bindE (spread_at (latency_ns s) k) (\<lambda>x. bindE (spread_at (latency_ns a) k) (\<lambda>y.
           bindE (nsub (mid x) (mid y)) (\<lambda>d. Inr (k, d))))) latency_keys
       else Inr []) (\<lambda>ds.
     Inr \<lparr>pair_id = key, pair_salias = s, pair_aeron = a, salias_over_aeron = ratio, salias_minus_aeron = ds\<rparr>))"

definition engines_of :: "cell_group list \<Rightarrow> cell_key \<Rightarrow> (string \<times> cell_group) list" where
  "engines_of gs key = dict_of (map (\<lambda>g. (engine_of g, g)) (cell_of cell_key_of key gs))"

definition pair_of :: "cell_group list \<Rightarrow> cell_key \<Rightarrow> pair_row option py" where
  "pair_of gs key = (let pair = engines_of gs key in
     if set (map fst pair) \<noteq> {''salias'', ''aeron''} then Inr None
     else case (map_of pair ''salias'', map_of pair ''aeron'') of
       (Some s, Some a) \<Rightarrow> bindE (compare_pair key s a) (\<lambda>p. Inr (Some p)) | _ \<Rightarrow> Inl KeyError)"

definition paired_of :: "cell_group list \<Rightarrow> pair_row list py" where
  "paired_of gs = bindE (mapE (pair_of gs) (keys_of cell_key_of gs)) (\<lambda>ps. Inr (concat (map (\<lambda>p. case p of None \<Rightarrow> [] | Some x \<Rightarrow> [x]) ps)))"

section \<open>The whole summary\<close>

record suite_summary =
  sum_environment :: json
  sum_groups :: "cell_group list"
  sum_paired :: "pair_row list"
  measured_runs :: nat
  warmup_runs :: nat
  sum_verification :: json
  measured_published :: int
  measured_delivered :: int
  measured_latency_samples :: int
  verified_messages :: int
  sum_min_mem :: int

definition sum_items :: "case_record list \<Rightarrow> string \<Rightarrow> int py" where
  "sum_items rows k = bindE (mapE (\<lambda>r. int_item (rec_result r) k) rows) (\<lambda>ns. Inr (sum_list ns))"

definition verified_of :: "case_record \<Rightarrow> int py" where
  "verified_of r = (case map_of (rec_result r) ''verified'' of None \<Rightarrow> Inr 0 | Some v \<Rightarrow> str_int v)"

definition summarize :: "case_record list \<Rightarrow> json \<Rightarrow> suite_summary py" where
  "summarize rows environment = (let measured = filter (\<lambda>r. rec_phase r = ''measured'') rows in
     bindE (mapE (group_of measured) (keys_of key_of_row measured)) (\<lambda>gs.
     bindE (paired_of gs) (\<lambda>ps.
     bindE (get_or environment ''workload'' (JObj [])) (\<lambda>w. bindE (get_or w ''verification'' (JStr ''none'')) (\<lambda>v.
     bindE (sum_items measured ''published'') (\<lambda>pub. bindE (sum_items measured ''delivered'') (\<lambda>dlv.
     bindE (sum_items measured ''latency_samples'') (\<lambda>smp.
     bindE (mapE verified_of measured) (\<lambda>vs.
     bindE (case map min_mem_available_kib rows of [] \<Rightarrow> Inl (ValueError ''min() arg is an empty sequence'')
         | m # ms \<Rightarrow> Inr (fold min ms m)) (\<lambda>low.
     Inr \<lparr>sum_environment = environment, sum_groups = gs, sum_paired = ps, measured_runs = length measured,
       warmup_runs = length rows - length measured, sum_verification = v, measured_published = pub,
       measured_delivered = dlv, measured_latency_samples = smp, verified_messages = sum_list vs,
       sum_min_mem = low\<rparr>))))))))))"

section \<open>Facts\<close>

lemma group_of_Inr:
  assumes "group_of measured key = Inr g"
  shows "group_id g = key" "rounds_seen g = length (cell_of key_of_row key measured)"
    "fst (snd key) = ''latency'' \<Longrightarrow> mapE (\<lambda>k. bindE (mapE (\<lambda>r. worst_of r k) (cell_of key_of_row key measured)) (\<lambda>ns.
              bindE (median_range ns) (\<lambda>s. Inr (k, s)))) latency_keys = Inr (latency_ns g)"
    "fst (snd key) \<noteq> ''latency'' \<Longrightarrow> latency_ns g = []"
  using assms by (auto simp: group_of_def Let_def split: if_splits)

lemma groups_ids: "mapE (group_of measured) ks = Inr gs \<Longrightarrow> map group_id gs = ks"
  by (induction ks arbitrary: gs) (auto dest: group_of_Inr(1))

lemma groups_rounds: "mapE (group_of measured) ks = Inr gs \<Longrightarrow>
    map rounds_seen gs = map (\<lambda>k. length (cell_of key_of_row k measured)) ks"
  by (induction ks arbitrary: gs) (auto dest: group_of_Inr(2))

lemma summarize_Inr:
  assumes "summarize rows env = Inr s"
  defines "measured \<equiv> filter (\<lambda>r. rec_phase r = ''measured'') rows"
  shows "mapE (group_of measured) (keys_of key_of_row measured) = Inr (sum_groups s)"
    "paired_of (sum_groups s) = Inr (sum_paired s)" "measured_runs s = length measured"
    "warmup_runs s = length rows - length measured" "sum_items measured ''delivered'' = Inr (measured_delivered s)"
  using assms by (auto simp: summarize_def Let_def)

lemma group_id_split: "group_id g = (t, k, p, q, e) \<longleftrightarrow> cell_key_of g = (t, k, p, q) \<and> engine_of g = e"
  by (cases "group_id g") (simp add: cell_key_of_def engine_of_def)

lemma keys_dict_of: "set (map fst (dict_of kvs)) = fst ` set kvs"
  using arg_cong [OF map_of_dict_of [of kvs], of dom] by (simp add: dom_map_of_conv_image_fst)

text \<open>A cell is paired exactly when its engines are the two.\<close>

lemma pair_of_Inr:
  assumes "pair_of gs key = Inr p"
  shows "p = None \<longleftrightarrow> engine_of ` {g \<in> set gs. cell_key_of g = key} \<noteq> {''salias'', ''aeron''}"
    "p = Some x \<Longrightarrow> pair_id x = key \<and> pair_salias x \<in> set gs \<and> pair_aeron x \<in> set gs
      \<and> group_id (pair_salias x) = (fst key, fst (snd key), fst (snd (snd key)), snd (snd (snd key)), ''salias'')
      \<and> group_id (pair_aeron x) = (fst key, fst (snd key), fst (snd (snd key)), snd (snd (snd key)), ''aeron'')
      \<and> ndiv (mid (publish_mmsg_s (pair_salias x))) (mid (publish_mmsg_s (pair_aeron x))) = Inr (salias_over_aeron x)"
proof -
  have keys: "set (map fst (engines_of gs key)) = engine_of ` {g \<in> set gs. cell_key_of g = key}"
    unfolding engines_of_def keys_dict_of by (force simp: cell_of_def)
  show "p = None \<longleftrightarrow> engine_of ` {g \<in> set gs. cell_key_of g = key} \<noteq> {''salias'', ''aeron''}"
    using assms unfolding keys [symmetric] by (auto simp: pair_of_def Let_def split: if_splits option.splits)
  assume "p = Some x"
  then obtain sg ag where sa: "map_of (engines_of gs key) ''salias'' = Some sg" "map_of (engines_of gs key) ''aeron'' = Some ag"
    "compare_pair key sg ag = Inr x"
    using assms by (auto simp: pair_of_def Let_def split: if_splits option.splits)
  have member: "g \<in> set gs \<and> cell_key_of g = key \<and> engine_of g = e" if "map_of (engines_of gs key) e = Some g" for e g
    using map_of_SomeD [OF that [unfolded engines_of_def map_of_dict_of]] by (auto simp: cell_of_def)
  have "pair_id x = key" "pair_salias x = sg" "pair_aeron x = ag"
    "ndiv (mid (publish_mmsg_s sg)) (mid (publish_mmsg_s ag)) = Inr (salias_over_aeron x)"
    using sa(3) by (auto simp: compare_pair_def)
  then show "pair_id x = key \<and> pair_salias x \<in> set gs \<and> pair_aeron x \<in> set gs
      \<and> group_id (pair_salias x) = (fst key, fst (snd key), fst (snd (snd key)), snd (snd (snd key)), ''salias'')
      \<and> group_id (pair_aeron x) = (fst key, fst (snd key), fst (snd (snd key)), snd (snd (snd key)), ''aeron'')
      \<and> ndiv (mid (publish_mmsg_s (pair_salias x))) (mid (publish_mmsg_s (pair_aeron x))) = Inr (salias_over_aeron x)"
    using member [OF sa(1)] member [OF sa(2)]
    by (auto simp: cell_key_of_def engine_of_def split: prod.splits)
qed

lemma paired_ids:
  assumes "paired_of gs = Inr ps"
  shows "map pair_id ps = filter (\<lambda>key. engine_of ` {g \<in> set gs. cell_key_of g = key} = {''salias'', ''aeron''}) (keys_of cell_key_of gs)"
proof -
  have "map pair_id (concat (map (\<lambda>p. case p of None \<Rightarrow> [] | Some x \<Rightarrow> [x]) qs))
      = filter (\<lambda>key. engine_of ` {g \<in> set gs. cell_key_of g = key} = {''salias'', ''aeron''}) ks"
    if "mapE (pair_of gs) ks = Inr qs" for ks qs
    using that
  proof (induction ks arbitrary: qs)
    case (Cons k ks)
    then obtain q qs' where q: "pair_of gs k = Inr q" "mapE (pair_of gs) ks = Inr qs'" "qs = q # qs'" by auto
    show ?case using Cons.IH [OF q(2)] pair_of_Inr [OF q(1)] q(3) by (cases q) auto
  qed simp
  then show ?thesis using assms by (auto simp: paired_of_def)
qed

section \<open>Correctness\<close>

text \<open>C36. When the summary is returned, its groups are the measured rows' keys in increasing order
  without repetition; every measured row is counted in exactly one group, so that the rounds add
  up to the measured runs, and measured and warm-up runs to all rows; and a cell appears among
  the pairs exactly when its measured rows come from both engines and no other.\<close>

theorem summary_partitions_runs:
  assumes "summarize rows env = Inr s"
  shows "sorted_wrt (<) (map group_id (sum_groups s))
    \<and> set (map group_id (sum_groups s)) = key_of_row ` {r \<in> set rows. rec_phase r = ''measured''}
    \<and> (\<forall>g \<in> set (sum_groups s). rounds_seen g = length (filter (\<lambda>r. rec_phase r = ''measured'' \<and> key_of_row r = group_id g) rows))
    \<and> sum_list (map rounds_seen (sum_groups s)) = measured_runs s
    \<and> measured_runs s + warmup_runs s = length rows
    \<and> set (map pair_id (sum_paired s)) = {(t, k, p, q). {e. \<exists>r \<in> set rows. rec_phase r = ''measured'' \<and> key_of_row r = (t, k, p, q, e)}
        = {''salias'', ''aeron''}}"
proof -
  define measured where "measured = filter (\<lambda>r. rec_phase r = ''measured'') rows"
  note s = summarize_Inr [OF assms, folded measured_def]
  have ids: "map group_id (sum_groups s) = keys_of key_of_row measured" by (rule groups_ids [OF s(1)])
  have mem: "set measured = {r \<in> set rows. rec_phase r = ''measured''}" by (auto simp: measured_def)
  have sum: "sum_list (map rounds_seen (sum_groups s)) = measured_runs s"
    using cells_count [of key_of_row measured] by (simp add: groups_rounds [OF s(1)] s(3))
  have each: "\<forall>g \<in> set (sum_groups s). rounds_seen g = length (filter (\<lambda>r. rec_phase r = ''measured'' \<and> key_of_row r = group_id g) rows)"
  proof
    fix g assume "g \<in> set (sum_groups s)"
    from mapE_set_D [OF s(1) this] obtain k where k: "group_of measured k = Inr g" by blast
    then show "rounds_seen g = length (filter (\<lambda>r. rec_phase r = ''measured'' \<and> key_of_row r = group_id g) rows)"
      using group_of_Inr(1,2) [OF k] by (simp add: cell_of_def measured_def conj_commute)
  qed
  have rows: "measured_runs s + warmup_runs s = length rows" using s(3,4) by (simp add: measured_def)
  have gid: "group_id ` set (sum_groups s) = key_of_row ` set measured" using ids by (metis list.set_map set_keys_of)
  have engines: "engine_of ` {g \<in> set (sum_groups s). cell_key_of g = (t, k, p, q)} = {e. \<exists>r \<in> set measured. key_of_row r = (t, k, p, q, e)}"
    for t k p q
  proof -
    have "engine_of ` {g \<in> set (sum_groups s). cell_key_of g = (t, k, p, q)} = {e. (t, k, p, q, e) \<in> group_id ` set (sum_groups s)}"
      by (auto simp: image_iff eq_commute [of "(t, k, p, q, _)"] group_id_split)
    then show ?thesis unfolding gid by (auto simp: image_iff) metis
  qed
  have "set (map pair_id (sum_paired s)) = {(t, k, p, q). {e. \<exists>r \<in> set measured. key_of_row r = (t, k, p, q, e)} = {''salias'', ''aeron''}}"
  proof (intro set_eqI iffI)
    fix c assume "c \<in> set (map pair_id (sum_paired s))"
    then have "engine_of ` {g \<in> set (sum_groups s). cell_key_of g = c} = {''salias'', ''aeron''}"
      unfolding paired_ids [OF s(2)] by simp
    then show "c \<in> {(t, k, p, q). {e. \<exists>r \<in> set measured. key_of_row r = (t, k, p, q, e)} = {''salias'', ''aeron''}}"
      using engines by (cases c) simp
  next
    fix c assume c: "c \<in> {(t, k, p, q). {e. \<exists>r \<in> set measured. key_of_row r = (t, k, p, q, e)} = {''salias'', ''aeron''}}"
    obtain t k p q where tk: "c = (t, k, p, q)" by (cases c)
    have e: "engine_of ` {g \<in> set (sum_groups s). cell_key_of g = c} = {''salias'', ''aeron''}" using c engines tk by simp
    then have "c \<in> cell_key_of ` set (sum_groups s)" by blast
    then show "c \<in> set (map pair_id (sum_paired s))" using e unfolding paired_ids [OF s(2)] by simp
  qed
  then have pairs: "set (map pair_id (sum_paired s)) = {(t, k, p, q). {e. \<exists>r \<in> set rows. rec_phase r = ''measured'' \<and> key_of_row r = (t, k, p, q, e)}
        = {''salias'', ''aeron''}}"
    unfolding mem by (simp add: conj_assoc Bex_def)
  show ?thesis using ids keys_of_increasing [of key_of_row measured] gid mem sum rows each pairs by simp
qed

text \<open>For latency counts below \<open>2^53\<close> ns, every latency spread of a returned summary encloses the
  worst-subscriber count of every measured row of its group, and its median lies between its
  least and its greatest value although the midpoint of an even group is a rounded double.\<close>

theorem summary_latency_ranges:
  assumes s: "summarize rows env = Inr s"
    and small: "\<And>r w k n. r \<in> set rows \<Longrightarrow> worst_subscriber_ns r = Some w \<Longrightarrow> (k, n) \<in> set w \<Longrightarrow> \<bar>n\<bar> \<le> 2 ^ 53"
    and g: "g \<in> set (sum_groups s)" "(k, sp) \<in> set (latency_ns g)"
  shows "nle (least sp) (mid sp) \<and> nle (mid sp) (greatest sp)
    \<and> (\<forall>r \<in> set rows. rec_phase r = ''measured'' \<and> key_of_row r = group_id g \<longrightarrow>
        (\<exists>x. worst_of r k = Inr x \<and> nle (least sp) x \<and> nle x (greatest sp)))"
proof -
  define measured where "measured = filter (\<lambda>r. rec_phase r = ''measured'') rows"
  from mapE_set_D [OF summarize_Inr(1) [OF s, folded measured_def] g(1)] obtain key
    where key: "group_of measured key = Inr g" "key \<in> set (keys_of key_of_row measured)" by blast
  define cell where "cell = cell_of key_of_row key measured"
  have kind: "fst (snd key) = ''latency''" using group_of_Inr(4) [OF key(1)] g(2) by (cases "fst (snd key) = ''latency''") auto
  from mapE_set_D [OF group_of_Inr(3) [OF key(1) kind, folded cell_def] g(2)] obtain ns
    where ns: "mapE (\<lambda>r. worst_of r k) cell = Inr ns" "median_range ns = Inr sp" by auto
  have "cell \<noteq> []" unfolding cell_def using key(2) by (rule cell_nonempty)
  then have ne: "ns \<noteq> []" using mapE_length [OF ns(1)] by auto
  have "tame x" if x: "x \<in> set ns" for x
  proof -
    from mapE_set_D [OF ns(1) x] obtain r where r: "r \<in> set cell" "worst_of r k = Inr x" by blast
    then obtain w n where "worst_subscriber_ns r = Some w" "map_of w k = Some n" "x = I n"
      by (auto simp: worst_of_def split: option.splits)
    moreover have "r \<in> set rows" using r(1) by (simp add: cell_def cell_of_def measured_def)
    ultimately show ?thesis using tame_int [OF small [of r w k n]] map_of_SomeD [of w k n] by simp
  qed
  then obtain lo m hi where m: "num_min ns = Inr lo" "median ns = Inr m" "num_max ns = Inr hi" "nle lo m" "nle m hi"
    "\<forall>x \<in> set ns. nle lo x \<and> nle x hi" using median_in_range [OF ne] by metis
  have sp: "least sp = lo" "mid sp = m" "greatest sp = hi" using ns(2) m(1-3) by (auto simp: median_range_def)
  have "\<exists>x. worst_of r k = Inr x \<and> nle lo x \<and> nle x hi"
    if "r \<in> set rows" "rec_phase r = ''measured''" "key_of_row r = group_id g" for r
  proof -
    have "r \<in> set cell" using that group_of_Inr(1) [OF key(1)] by (simp add: cell_def cell_of_def measured_def)
    from mapE_set [OF ns(1) this] show ?thesis using m(6) by blast
  qed
  then show ?thesis using m(4,5) sp by auto
qed

section \<open>A concrete suite\<close>

definition demo_row :: "string \<Rightarrow> string \<Rightarrow> string \<Rightarrow> int \<Rightarrow> case_record" where
  "demo_row engine phase rate worst = \<lparr>rec_case = demo_case\<lparr>cell_kind := ''latency'', case_engine := engine\<rparr>, rec_number = 1, rec_phase = phase,
     rec_producers = 1, rec_consumers = 1, messages_per_producer = 4, rate_per_producer = 0, sample_rate = 0,
     remote_payload_bytes = 64, rec_layout = demo_layout, rec_roles = [],
     rec_result = [(''publish_msg_per_sec'', rate), (''delivery_msg_per_sec'', rate), (''seconds'', ''1''),
       (''published'', ''4''), (''delivered'', ''4''), (''latency_samples'', ''0''), (''verified'', ''4'')],
     consumers_detail = [], worst_subscriber_ns = Some (map (\<lambda>k. (k, worst)) latency_keys), min_mem_available_kib = 1000\<rparr>"

definition demo_rows :: "case_record list" where
  "demo_rows = [demo_row ''salias'' ''warmup'' ''1000000'' 9, demo_row ''aeron'' ''measured'' ''1000000'' 10,
     demo_row ''salias'' ''measured'' ''2000000'' 7, demo_row ''salias'' ''measured'' ''1000000'' 8]"

lemma demo_summary: "\<not> isl (summarize demo_rows (JObj []))"
  by code_simp

lemma demo_key: "key_of_row (demo_row e p q w) = (cell_topology demo_case, ''latency'', cell_payload demo_case, cell_origin demo_case, e)"
  by (simp add: key_of_row_def demo_row_def)

lemma demo_phase: "rec_phase (demo_row e p q w) = p"
  by (simp add: demo_row_def)

lemma summary_partitions_runs_witness:
  "\<exists>s. summarize demo_rows (JObj []) = Inr s \<and> sum_list (map rounds_seen (sum_groups s)) = measured_runs s
     \<and> measured_runs s + warmup_runs s = 4
     \<and> (cell_topology demo_case, ''latency'', cell_payload demo_case, cell_origin demo_case) \<in> set (map pair_id (sum_paired s))"
proof -
  obtain s where s: "summarize demo_rows (JObj []) = Inr s"
    using demo_summary by (cases "summarize demo_rows (JObj [])") simp_all
  note all = summary_partitions_runs [OF s]
  have engines: "{e. \<exists>r \<in> set demo_rows. rec_phase r = ''measured'' \<and> key_of_row r = (cell_topology demo_case, ''latency'',
      cell_payload demo_case, cell_origin demo_case, e)} = {''salias'', ''aeron''}"
    unfolding demo_rows_def by (auto simp: demo_key demo_phase)
  have "length demo_rows = 4" by (simp add: demo_rows_def)
  then show ?thesis using s all engines by (intro exI [of _ s]) simp
qed

lemma summary_latency_ranges_witness:
  "\<exists>s g sp. summarize demo_rows (JObj []) = Inr s \<and> g \<in> set (sum_groups s) \<and> (''p99'', sp) \<in> set (latency_ns g)
     \<and> nle (least sp) (mid sp) \<and> nle (mid sp) (greatest sp)"
proof -
  obtain s where s: "summarize demo_rows (JObj []) = Inr s"
    using demo_summary by (cases "summarize demo_rows (JObj [])") simp_all
  have "case summarize demo_rows (JObj []) of Inl e \<Rightarrow> False
     | Inr s \<Rightarrow> sum_groups s \<noteq> [] \<and> map_of (latency_ns (hd (sum_groups s))) ''p99'' \<noteq> None" by code_simp
  then obtain sp where g: "hd (sum_groups s) \<in> set (sum_groups s)" "(''p99'', sp) \<in> set (latency_ns (hd (sum_groups s)))"
    unfolding s by (auto dest: map_of_SomeD)
  have small: "\<bar>n\<bar> \<le> 2 ^ 53" if "r \<in> set demo_rows" "worst_subscriber_ns r = Some w" "(k, n) \<in> set w" for r w k n
    using that by (auto simp: demo_rows_def demo_row_def)
  show ?thesis using s g summary_latency_ranges [OF s _ g] small by blast
qed

end
