(* ===== verification/GroupStats.thy ===== *)
theory GroupStats
  imports PyStats
begin

text \<open>
  The inference of \<open>compare_throughput_ab.py\<close> on group medians: the exact two-sided 6-versus-6
  permutation test, the cluster bootstrap and the decision rule.  The draws of
  \<open>random.Random(seed).choice\<close> are the argument \<open>pick\<close>: \<open>pick k\<close> is the index of the
  \<open>k\<close>-th draw.
\<close>

section \<open>The permutation test\<close>

definition GROUPS :: nat where "GROUPS = 6"

fun bit_count :: "nat \<Rightarrow> nat" where
  "bit_count m = (if m = 0 then 0 else m mod 2 + bit_count (m div 2))"

declare bit_count.simps [simp del]

definition in_mask :: "nat \<Rightarrow> nat \<Rightarrow> bool" where
  "in_mask msk i = odd (msk div 2 ^ i)"

definition chosen :: "num list \<Rightarrow> nat \<Rightarrow> num list" where
  "chosen values msk = map ((!) values) (filter (in_mask msk) [0 ..< length values])"

definition unchosen :: "num list \<Rightarrow> nat \<Rightarrow> num list" where
  "unchosen values msk = map ((!) values) (filter (\<lambda>i. \<not> in_mask msk i) [0 ..< length values])"

definition mean_difference :: "num list \<Rightarrow> num list \<Rightarrow> num py" where
  "mean_difference candidate baseline = bindE (mean candidate) (\<lambda>c. bindE (mean baseline) (nsub c))"

record permutation =
  observed_difference :: num
  extreme_partitions :: nat
  partitions :: nat
  p_value :: num

definition tolerance :: num where
  "tolerance = flit (1 / 10 ^ 12)"

definition count_partition :: "num list \<Rightarrow> num \<Rightarrow> nat \<Rightarrow> nat \<times> nat \<Rightarrow> (nat \<times> nat) py" where
  "count_partition values observed msk te = (if bit_count msk \<noteq> GROUPS then Inr te else
     bindE (mean_difference (chosen values msk) (unchosen values msk)) (\<lambda>d.
     bindE (nadd (nabs d) tolerance) (\<lambda>bound.
     Inr (fst te + 1, if nle (nabs observed) bound then snd te + 1 else snd te))))"

definition permutation_test :: "num list \<Rightarrow> num list \<Rightarrow> permutation py" where
  "permutation_test baseline_groups candidate_groups = (let values = baseline_groups @ candidate_groups in
     bindE (require (length values = 2 * GROUPS) (AnalysisError ''permutation test requires 6 + 6 groups'')) (\<lambda>_.
     bindE (mean_difference candidate_groups baseline_groups) (\<lambda>observed.
     bindE (foldE (count_partition values observed) [0 ..< 2 ^ length values] (0, 0)) (\<lambda>te.
     bindE (ndiv (I (int (snd te))) (I (int (fst te)))) (\<lambda>p.
     Inr \<lparr>observed_difference = observed, extreme_partitions = snd te, partitions = fst te, p_value = p\<rparr>)))))"

section \<open>The cluster bootstrap\<close>

definition BOOTSTRAP_SAMPLES :: nat where "BOOTSTRAP_SAMPLES = 20000"

definition resample :: "(nat \<Rightarrow> nat) \<Rightarrow> nat \<Rightarrow> num list list \<Rightarrow> num list py" where
  "resample pick start groups = bindE (mapE (\<lambda>i. nthE groups (pick (start + i))) [0 ..< GROUPS]) (\<lambda>gs. Inr (concat gs))"

text \<open>\<open>math.floor\<close> and \<open>math.ceil\<close> of a float.\<close>

fun float_floor :: "pyfloat \<Rightarrow> int py" where
  "float_floor (Fin r) = Inr \<lfloor>r\<rfloor>"
| "float_floor NaN = Inl (ValueError ''cannot convert float NaN to integer'')"
| "float_floor _ = Inl OverflowError"

fun float_ceil :: "pyfloat \<Rightarrow> int py" where
  "float_ceil (Fin r) = Inr \<lceil>r\<rceil>"
| "float_ceil NaN = Inl (ValueError ''cannot convert float NaN to integer'')"
| "float_ceil _ = Inl OverflowError"

definition low_index :: "nat \<Rightarrow> int py" where
  "low_index n = bindE (float_floor (fmul (rnd (1 / 40)) (rnd (of_int (int n - 1))))) (\<lambda>i. Inr (max 0 i))"

definition high_index :: "nat \<Rightarrow> int py" where
  "high_index n = bindE (float_ceil (fmul (rnd (39 / 40)) (rnd (of_int (int n - 1))))) (\<lambda>i. Inr (min (int n - 1) i))"

record interval =
  samples :: nat
  median_difference :: num
  ci_low :: num
  ci_high :: num

definition one_difference :: "(nat \<Rightarrow> nat) \<Rightarrow> num list list \<Rightarrow> num list list \<Rightarrow> nat \<Rightarrow> num py" where
  "one_difference pick baseline_groups candidate_groups s =
     bindE (resample pick (2 * GROUPS * s) baseline_groups) (\<lambda>baseline.
     bindE (resample pick (2 * GROUPS * s + GROUPS) candidate_groups) (\<lambda>candidate.
     bindE (median candidate) (\<lambda>c. bindE (median baseline) (nsub c))))"

definition bootstrap_interval :: "(nat \<Rightarrow> nat) \<Rightarrow> nat \<Rightarrow> num list list \<Rightarrow> num list list \<Rightarrow> interval py" where
  "bootstrap_interval pick n baseline_groups candidate_groups =
     bindE (mapE (one_difference pick baseline_groups candidate_groups) [0 ..< n]) (\<lambda>ds. let differences = num_sort ds in
     bindE (low_index (length differences)) (\<lambda>lo. bindE (high_index (length differences)) (\<lambda>hi.
     bindE (median differences) (\<lambda>m.
     bindE (nthE differences (nat lo)) (\<lambda>l. bindE (nthE differences (nat hi)) (\<lambda>h.
     Inr \<lparr>samples = n, median_difference = m, ci_low = l, ci_high = h\<rparr>))))))"

section \<open>The decision rule\<close>

definition decide :: "num \<Rightarrow> num \<Rightarrow> nat \<Rightarrow> string" where
  "decide ratio p directions =
     (if nle (flit (5 / 4)) ratio \<and> nlt p (flit (1 / 100)) \<and> 5 \<le> directions then ''GO''
      else if nlt ratio (flit (11 / 10)) \<or> nle (flit (1 / 20)) p then ''NO-GO''
      else ''INCONCLUSIVE'')"

section \<open>Counting the partitions\<close>

lemma bit_count_0 [simp]: "bit_count 0 = 0"
  by (simp add: bit_count.simps)

lemma bit_count_even [simp]: "bit_count (2 * m) = bit_count m"
  by (subst bit_count.simps) auto

lemma bit_count_odd [simp]: "bit_count (Suc (2 * m)) = Suc (bit_count m)"
  by (subst bit_count.simps) auto

lemma masks_step:
  "{m. m < 2 ^ Suc n \<and> bit_count m = k} =
     (\<lambda>m. 2 * m) ` {m. m < 2 ^ n \<and> bit_count m = k} \<union> (\<lambda>m. Suc (2 * m)) ` {m. m < 2 ^ n \<and> Suc (bit_count m) = k}"
proof (intro set_eqI iffI)
  fix m assume m: "m \<in> {m. m < 2 ^ Suc n \<and> bit_count m = k}"
  show "m \<in> (\<lambda>m. 2 * m) ` {m. m < 2 ^ n \<and> bit_count m = k} \<union> (\<lambda>m. Suc (2 * m)) ` {m. m < 2 ^ n \<and> Suc (bit_count m) = k}"
  proof (cases "even m")
    case True then obtain j where "m = 2 * j" by blast
    then show ?thesis using m by auto
  next
    case False then obtain j where "m = Suc (2 * j)" by (auto elim: oddE)
    then show ?thesis using m by auto
  qed
qed auto

text \<open>As many masks of \<open>n\<close> bits have \<open>k\<close> ones as there are \<open>k\<close>-subsets of \<open>n\<close> groups.\<close>

lemma card_masks: "card {m. m < 2 ^ n \<and> bit_count m = k} = n choose k"
proof (induction n arbitrary: k)
  case 0
  have "{m::nat. m < 2 ^ 0 \<and> bit_count m = k} = (if k = 0 then {0} else {})" by auto
  then show ?case by (cases k) simp_all
next
  case (Suc n)
  have fin: "finite {m::nat. m < 2 ^ n \<and> P m}" for P by simp
  have inj: "inj_on (\<lambda>m::nat. 2 * m) A" "inj_on (\<lambda>m::nat. Suc (2 * m)) A" for A by (auto simp: inj_on_def)
  have disj: "(\<lambda>m::nat. 2 * m) ` A \<inter> (\<lambda>m. Suc (2 * m)) ` B = {}" for A B by (auto; presburger)
  have "card {m. m < 2 ^ Suc n \<and> bit_count m = k} = (n choose k) + card {m. m < 2 ^ n \<and> Suc (bit_count m) = k}"
    unfolding masks_step by (subst card_Un_disjoint) (simp_all only: disj finite_imageI fin card_image [OF inj(1)] card_image [OF inj(2)] Suc.IH)
  then show ?case
  proof (cases k)
    case (Suc j)
    then have "card {m. m < 2 ^ n \<and> Suc (bit_count m) = k} = n choose j" using Suc.IH [of j] by simp
    then show ?thesis using \<open>card {m. m < 2 ^ Suc n \<and> bit_count m = k} = _\<close> Suc by simp
  qed simp
qed

lemma length_masks: "length (filter (\<lambda>m. bit_count m = k) [0 ..< 2 ^ n]) = n choose k"
proof -
  have "{m. m < length [0 ..< 2 ^ n] \<and> bit_count ([0 ..< 2 ^ n] ! m) = k} = {m. m < 2 ^ n \<and> bit_count m = k}" by auto
  then show ?thesis by (simp add: length_filter_conv_card flip: card_masks)
qed

lemma partitions_924: "length (filter (\<lambda>m. bit_count m = GROUPS) [0 ..< 4096]) = 924"
proof -
  have "(2::nat) ^ 12 = 4096" by simp
  moreover have "(12::nat) choose 6 = 924" using binomial_fact_lemma [of 6 12] by (simp add: fact_numeral)
  ultimately show ?thesis using length_masks [of 6 12] by (simp only: GROUPS_def)
qed

section \<open>Every partition has a finite difference\<close>

text \<open>A mild number is a float of moderate size: sums, means and differences of a few stay finite.\<close>

definition mild :: "num \<Rightarrow> bool" where
  "mild x \<longleftrightarrow> (\<exists>r. x = F (Fin r) \<and> rnd_rat r = r \<and> \<bar>r\<bar> \<le> 2 ^ 990)"

lemma mild_tame: "mild x \<Longrightarrow> tame x"
proof -
  have "(2::rat) ^ 990 \<le> 2 ^ 1000" by simp
  then show "mild x \<Longrightarrow> tame x" by (auto simp: mild_def tame_def intro: order_trans)
qed

lemma rnd_rat_pow2: "rnd_rat (2 ^ k) = 2 ^ k"
  using rnd_rat_short [of 1 "int k" "2 ^ k"] by simp

lemma rnd_below: "\<bar>q\<bar> \<le> 2 ^ k \<Longrightarrow> k \<le> 1001 \<Longrightarrow> rnd q = Fin (rnd_rat q) \<and> \<bar>rnd_rat q\<bar> \<le> 2 ^ k"
proof -
  assume q: "\<bar>q\<bar> \<le> 2 ^ k" and k: "k \<le> 1001"
  have "- (2 ^ k) \<le> rnd_rat q \<and> rnd_rat q \<le> 2 ^ k"
    using q by (intro dbl.enclose) (auto simp: rnd_rat_pow2)
  then have b: "\<bar>rnd_rat q\<bar> \<le> 2 ^ k" by linarith
  also have "(2::rat) ^ k \<le> 2 ^ 1001" using k by (intro power_increasing) auto
  finally have "rnd q = Fin (rnd_rat q)" by (rule small_rnd)
  then show ?thesis using b by simp
qed

definition avg :: "num list \<Rightarrow> rat" where
  "avg xs = rnd_rat (exact_sum xs / of_nat (length xs))"

lemma exact_sum_bound:
  "\<forall>x \<in> set xs. mild x \<Longrightarrow> \<bar>exact_sum xs\<bar> \<le> of_nat (length xs) * 2 ^ 990"
proof (induction xs)
  case (Cons x xs)
  then obtain r where "x = F (Fin r)" "\<bar>r\<bar> \<le> 2 ^ 990" by (auto simp: mild_def)
  then show ?case using Cons by (simp add: distrib_right)
qed simp

lemma mean_mild:
  assumes "xs \<noteq> []" "\<forall>x \<in> set xs. mild x"
  shows "mean xs = Inr (F (Fin (avg xs)))" "\<bar>avg xs\<bar> \<le> 2 ^ 990"
proof -
  define n where "n = (of_nat (length xs) :: rat)"
  have n: "0 < n" using assms(1) by (simp add: n_def)
  have "\<bar>exact_sum xs\<bar> \<le> n * 2 ^ 990" using exact_sum_bound [OF assms(2)] by (simp add: n_def)
  then have "\<bar>exact_sum xs\<bar> / n \<le> 2 ^ 990" using n by (simp add: pos_divide_le_eq mult.commute)
  then have b: "\<bar>exact_sum xs / n\<bar> \<le> 2 ^ 990" using n by (simp only: abs_divide abs_of_pos)
  note r = rnd_below [OF b, simplified]
  show "\<bar>avg xs\<bar> \<le> 2 ^ 990" using r by (simp add: avg_def n_def)
  have fin: "\<forall>x \<in> set xs. is_finite (exact x)" using assms(2) by (auto simp: mild_def)
  have "\<not> (\<forall>x \<in> set xs. is_int x)" using assms by (cases xs) (auto simp: mild_def)
  then show "mean xs = Inr (F (Fin (avg xs)))"
    using assms(1) fin r by (auto simp: mean_def Let_def avg_def n_def)
qed

lemma difference_mild:
  assumes "xs \<noteq> []" "\<forall>x \<in> set xs. mild x" "ys \<noteq> []" "\<forall>x \<in> set ys. mild x"
  shows "mean_difference xs ys = Inr (F (Fin (rnd_rat (avg xs - avg ys))))" "\<bar>rnd_rat (avg xs - avg ys)\<bar> \<le> 2 ^ 991"
proof -
  note x = mean_mild [OF assms(1,2)] and y = mean_mild [OF assms(3,4)]
  have "\<bar>avg xs - avg ys\<bar> \<le> 2 * 2 ^ 990" using x(2) y(2) by linarith
  then have "\<bar>avg xs - avg ys\<bar> \<le> 2 ^ 991" by simp
  note r = rnd_below [OF this]
  show "\<bar>rnd_rat (avg xs - avg ys)\<bar> \<le> 2 ^ 991" using r by simp
  show "mean_difference xs ys = Inr (F (Fin (rnd_rat (avg xs - avg ys))))"
    using x(1) y(1) r by (simp add: mean_difference_def nsub_def lift_num_def fsub_def)
qed

lemma tolerance_value: "\<exists>t. tolerance = F (Fin t) \<and> 0 \<le> t \<and> t \<le> 1"
proof -
  have "rnd (1 / 10 ^ 12) = Fin (rnd_rat (1 / 10 ^ 12))"
    using rnd_below [of "1 / 10 ^ 12" 0] by simp
  moreover have "0 \<le> rnd_rat (1 / 10 ^ 12) \<and> rnd_rat (1 / 10 ^ 12) \<le> 1"
    using dbl.enclose [of 0 1 "1 / 10 ^ 12"] rnd_rat_pow2 [of 0] by simp
  ultimately show ?thesis by (simp add: tolerance_def)
qed

text \<open>Adding the tolerance never makes an absolute difference smaller.\<close>

lemma bound_mild:
  assumes "rnd_rat d = d" "\<bar>d\<bar> \<le> 2 ^ 991"
  shows "\<exists>b. nadd (nabs (F (Fin d))) tolerance = Inr (F (Fin b)) \<and> \<bar>d\<bar> \<le> b"
proof -
  obtain t where t: "tolerance = F (Fin t)" "0 \<le> t" "t \<le> 1" using tolerance_value by blast
  have "\<bar>\<bar>d\<bar> + t\<bar> \<le> 2 ^ 991 + 1" using assms(2) t by linarith
  also have "\<dots> \<le> 2 ^ 992" by simp
  finally have r: "rnd (\<bar>d\<bar> + t) = Fin (rnd_rat (\<bar>d\<bar> + t))" using rnd_below [of "\<bar>d\<bar> + t" 992] by simp
  have "rnd_rat \<bar>d\<bar> = \<bar>d\<bar>" using assms(1) by (simp add: abs_if)
  then have "\<bar>d\<bar> \<le> rnd_rat (\<bar>d\<bar> + t)" using t(2) by (rule dbl.add_nonneg_ge)
  then show ?thesis using r by (simp add: t(1) nadd_def lift_num_def)
qed

section \<open>The permutation test is total and exact\<close>

lemma in_mask_0: "in_mask m 0 = odd m" and in_mask_Suc: "in_mask m (Suc i) = in_mask (m div 2) i"
  by (simp_all add: in_mask_def div_mult2_eq)

lemma bit_count_filter: "m < 2 ^ n \<Longrightarrow> length (filter (in_mask m) [0 ..< n]) = bit_count m"
proof (induction n arbitrary: m)
  case (Suc n)
  have "length (filter (in_mask m) [0 ..< Suc n]) = (if odd m then 1 else 0) + length (filter (in_mask (m div 2)) [0 ..< n])"
    by (simp add: upt_conv_Cons in_mask_0 filter_map comp_def in_mask_Suc flip: map_Suc_upt del: upt_Suc)
  also have "\<dots> = (if odd m then 1 else 0) + bit_count (m div 2)" using Suc by simp
  also have "\<dots> = bit_count m" by (subst (2) bit_count.simps) (auto simp: odd_iff_mod_2_eq_one)
  finally show ?case .
qed simp

lemma length_chosen: "m < 2 ^ length vs \<Longrightarrow> length (chosen vs m) = bit_count m"
  by (simp add: chosen_def bit_count_filter)

lemma length_unchosen: "m < 2 ^ length vs \<Longrightarrow> length (unchosen vs m) = length vs - bit_count m"
  using sum_length_filter_compl [of "in_mask m" "[0 ..< length vs]"] bit_count_filter [of m "length vs"]
  by (simp add: unchosen_def)

lemma set_chosen: "set (chosen vs m) \<subseteq> set vs" "set (unchosen vs m) \<subseteq> set vs"
  by (auto simp: chosen_def unchosen_def)

definition shift_of :: "num list \<Rightarrow> nat \<Rightarrow> rat" where
  "shift_of vs m = rnd_rat (avg (chosen vs m) - avg (unchosen vs m))"

definition is_extreme :: "num list \<Rightarrow> rat \<Rightarrow> nat \<Rightarrow> bool" where
  "is_extreme vs obs m \<longleftrightarrow> (\<exists>b. nadd (nabs (F (Fin (shift_of vs m)))) tolerance = Inr (F (Fin b)) \<and> \<bar>obs\<bar> \<le> b)"

lemma count_partition_step:
  assumes vs: "length vs = 12" "\<forall>x \<in> set vs. mild x" and m: "m < 4096"
  shows "count_partition vs (F (Fin obs)) m te = Inr (if bit_count m = GROUPS
     then (fst te + 1, if is_extreme vs obs m then snd te + 1 else snd te) else te)"
proof (cases "bit_count m = GROUPS")
  case True
  have m': "m < 2 ^ length vs" using m vs(1) by simp
  have ne: "chosen vs m \<noteq> []" "unchosen vs m \<noteq> []"
    using length_chosen [OF m'] length_unchosen [OF m'] True vs(1) by (auto simp: GROUPS_def)
  have ml: "\<forall>x \<in> set (chosen vs m). mild x" "\<forall>x \<in> set (unchosen vs m). mild x"
    using vs(2) set_chosen [of vs m] by auto
  note d = difference_mild [OF ne(1) ml(1) ne(2) ml(2), folded shift_of_def]
  have "rnd_rat (shift_of vs m) = shift_of vs m" by (simp add: shift_of_def)
  from bound_mild [OF this d(2)] obtain b where b: "nadd (nabs (F (Fin (shift_of vs m)))) tolerance = Inr (F (Fin b))"
    by blast
  then show ?thesis using True d(1) by (auto simp: count_partition_def is_extreme_def nle_def)
qed (simp add: count_partition_def)

lemma fold_counts:
  "fold (\<lambda>m te. if P m then (fst te + 1, if Q m then snd te + 1 else snd te) else te) ms te
   = (fst te + length (filter P ms), snd te + length (filter (\<lambda>m. P m \<and> Q m) ms))"
  by (induction ms arbitrary: te) auto

lemma own_partition: "length b = 6 \<Longrightarrow> length c = 6 \<Longrightarrow> chosen (b @ c) 4032 = c \<and> unchosen (b @ c) 4032 = b"
  and mirror_partition: "length b = 6 \<Longrightarrow> length c = 6 \<Longrightarrow> chosen (b @ c) 63 = b \<and> unchosen (b @ c) 63 = c"
proof -
  have u: "[0 ..< 12] = [0, 1, 2, 3, 4, 5, 6, 7, 8, 9, 10, 11::nat]" by (simp add: upt_rec)
  have "filter (in_mask 4032) [0 ..< 12] = [6 ..< 12]" "filter (\<lambda>i. \<not> in_mask 4032 i) [0 ..< 12] = [0 ..< 6]"
    "filter (in_mask 63) [0 ..< 12] = [0 ..< 6]" "filter (\<lambda>i. \<not> in_mask 63 i) [0 ..< 12] = [6 ..< 12]"
    by (simp_all add: u upt_rec in_mask_def)
  moreover have "map ((!) (b @ c)) [0 ..< length b] = b" "map ((!) (b @ c)) [length b ..< length b + length c] = c"
    by (auto intro!: nth_equalityI simp: nth_append)
  ultimately show "length b = 6 \<Longrightarrow> length c = 6 \<Longrightarrow> chosen (b @ c) 4032 = c \<and> unchosen (b @ c) 4032 = b"
    "length b = 6 \<Longrightarrow> length c = 6 \<Longrightarrow> chosen (b @ c) 63 = b \<and> unchosen (b @ c) 63 = c"
    by (simp_all only: chosen_def unchosen_def length_append) simp_all
qed

text \<open>The observed partition and its mirror image are always extreme.\<close>

lemma two_extreme:
  assumes len: "length b = 6" "length c = 6" and ml: "\<forall>x \<in> set (b @ c). mild x"
  defines "obs \<equiv> rnd_rat (avg c - avg b)"
  shows "is_extreme (b @ c) obs 4032" "is_extreme (b @ c) obs 63"
proof -
  have ne: "b \<noteq> []" "c \<noteq> []" using len by auto
  have o: "\<bar>obs\<bar> \<le> 2 ^ 991" unfolding obs_def
    using difference_mild(2) [of c b] ne ml by simp
  have mirror: "shift_of (b @ c) 63 = - obs"
    using mirror_partition [OF len] rnd_rat_minus [of "avg c - avg b"] by (simp add: shift_of_def obs_def)
  have own: "shift_of (b @ c) 4032 = obs" using own_partition [OF len] by (simp add: shift_of_def obs_def)
  have "rnd_rat obs = obs" by (simp add: obs_def)
  then show "is_extreme (b @ c) obs 4032" "is_extreme (b @ c) obs 63"
    using bound_mild [of obs] bound_mild [of "- obs"] o by (auto simp: is_extreme_def own mirror)
qed

lemma two_members: "a \<in> set xs \<Longrightarrow> b \<in> set xs \<Longrightarrow> a \<noteq> b \<Longrightarrow> P a \<Longrightarrow> P b \<Longrightarrow> distinct xs \<Longrightarrow> 2 \<le> length (filter P xs)"
proof -
  assume a: "a \<in> set xs" "b \<in> set xs" "a \<noteq> b" "P a" "P b" "distinct xs"
  then have "card {a, b} \<le> card (set (filter P xs))" by (intro card_mono) auto
  then show ?thesis using a distinct_card [of "filter P xs"] by simp
qed

lemma filter_conj_le: "length (filter (\<lambda>m. P m \<and> Q m) ms) \<le> length (filter P ms)"
  by (induction ms) auto

lemma masks_ok: "bit_count 4032 = GROUPS" "bit_count 63 = GROUPS"
  by (simp_all add: GROUPS_def bit_count.simps)

lemma permutation_ok:
  assumes len: "length b = 6" "length c = 6" and ml: "\<forall>x \<in> set (b @ c). mild x"
  shows "\<exists>r. permutation_test b c = Inr r \<and> partitions r = 924 \<and> 2 \<le> extreme_partitions r \<and> extreme_partitions r \<le> 924
     \<and> p_value r = flit (of_nat (extreme_partitions r) / 924) \<and> nle (flit (2 / 924)) (p_value r) \<and> nle (p_value r) (I 1)"
proof -
  define obs where "obs = rnd_rat (avg c - avg b)"
  define e where "e = length (filter (\<lambda>m. bit_count m = GROUPS \<and> is_extreme (b @ c) obs m) [0 ..< 4096])"
  have ne: "b \<noteq> []" "c \<noteq> []" using len by auto
  have o: "mean_difference c b = Inr (F (Fin obs))"
    unfolding obs_def using difference_mild(1) [of c b] ne ml by simp
  have len12: "length (b @ c) = 12" and size: "(2::nat) ^ length (b @ c) = 4096" using len by auto
  have "foldE (count_partition (b @ c) (F (Fin obs))) [0 ..< 4096] (0, 0) =
      Inr (fold (\<lambda>m te. if bit_count m = GROUPS then (fst te + 1, if is_extreme (b @ c) obs m then snd te + 1 else snd te) else te)
        [0 ..< 4096] (0, 0))"
    by (intro foldE_total count_partition_step [OF len12 ml]) simp
  also have "\<dots> = Inr (924, e)" unfolding fold_counts e_def partitions_924 by simp
  finally have count: "foldE (count_partition (b @ c) (F (Fin obs))) [0 ..< 2 ^ length (b @ c)] (0, 0) = Inr (924, e)"
    unfolding size .
  have lo: "2 \<le> e" unfolding e_def
    by (rule two_members [of 4032 _ 63]) (simp_all add: masks_ok two_extreme [OF len ml, folded obs_def])
  have "e \<le> length (filter (\<lambda>m. bit_count m = GROUPS) [0 ..< 4096])" unfolding e_def
    by (rule filter_conj_le)
  then have hi: "e \<le> 924" unfolding partitions_924 .
  have "\<bar>of_nat e / 924 :: rat\<bar> \<le> 2 ^ 0" using hi by simp
  from rnd_below [OF this] have p: "rnd (of_nat e / 924) = Fin (rnd_rat (of_nat e / 924))" by simp
  then have pv: "ndiv (I (int e)) (I (int 924)) = Inr (flit (of_nat e / 924))" by (simp add: ndiv_def)
  have "permutation_test b c = Inr \<lparr>observed_difference = F (Fin obs), extreme_partitions = e, partitions = 924, p_value = flit (of_nat e / 924)\<rparr>"
    using len count o pv by (simp add: permutation_test_def Let_def GROUPS_def)
  moreover have "nle (flit (2 / 924)) (flit (of_nat e / 924))"
    using lo by (simp add: nle_def) (rule rnd_mono, simp)
  moreover have "nle (flit (of_nat e / 924)) (I 1)"
    using rnd_mono [of "of_nat e / 924" 1] hi by (simp add: nle_def)
  ultimately show ?thesis using lo hi by simp
qed

text \<open>C5. On six group medians per arm (finite floats of moderate size) the permutation test returns:
  it visits exactly the 924 ways to choose six of twelve groups, counts at least the observed
  partition and its mirror image as extreme, so that the p-value is their share, never below
  2/924 and never above 1.\<close>

theorem permutation_exact:
  assumes len: "length b = 6" "length c = 6" and ml: "\<forall>x \<in> set (b @ c). mild x"
  shows "\<exists>r. permutation_test b c = Inr r \<and> partitions r = 924 \<and> 2 \<le> extreme_partitions r \<and> extreme_partitions r \<le> 924
     \<and> p_value r = flit (of_nat (extreme_partitions r) / 924) \<and> nle (flit (2 / 924)) (p_value r) \<and> nle (p_value r) (I 1)"
  by (rule permutation_ok [OF assms])

lemma permutation_exact_witness:
  "\<exists>r. permutation_test (replicate 6 (F (Fin 8))) (replicate 6 (F (Fin 12))) = Inr r \<and> partitions r = 924"
proof -
  have "rnd_rat 8 = 8" "rnd_rat 12 = 12" using rnd_rat_of_int [of 8] rnd_rat_of_int [of 12] by simp_all
  then have "\<forall>x \<in> set (replicate 6 (F (Fin 8)) @ replicate 6 (F (Fin 12))). mild x" by (simp add: mild_def)
  from permutation_exact [OF _ _ this] show ?thesis by auto
qed

section \<open>The bootstrap interval encloses its median\<close>

lemma insert_last: "\<forall>y \<in> set ys. nle y x \<Longrightarrow> num_insert x ys = ys @ [x]"
proof (induction ys)
  case (Cons y ys)
  have "\<not> nlt x y" using Cons.prems flt_not_fle [of "exact x" "exact y"] by (auto simp: nlt_def nle_def)
  then show ?case using Cons by simp
qed simp

lemma num_sort_sorted: "sorted_wrt nle d \<Longrightarrow> num_sort d = d"
proof -
  have "sorted_wrt nle (ys @ d) \<Longrightarrow> fold num_insert d ys = ys @ d" for ys
  proof (induction d arbitrary: ys)
    case (Cons x d)
    then have "num_insert x ys = ys @ [x]" by (intro insert_last) (auto simp: sorted_wrt_append)
    then show ?case using Cons.IH [of "ys @ [x]"] Cons.prems by simp
  qed simp
  from this [of "[]"] show "sorted_wrt nle d \<Longrightarrow> num_sort d = d" by (simp add: num_sort_def)
qed

lemma median_between:
  assumes d: "sorted_wrt nle d" "\<forall>x \<in> set d. tame x" and i: "i \<le> (length d - 1) div 2" and j: "length d div 2 \<le> j" "j < length d"
  shows "\<exists>m. median d = Inr m \<and> nle (d ! i) m \<and> nle m (d ! j)"
proof -
  have nan: "\<forall>x \<in> set d. \<not> is_nan x" using d(2) by (auto dest: tame_not_nan)
  note le = sorted_wrt_nle_nth [OF d(1) nan]
  show ?thesis
  proof (cases "odd (length d)")
    case True
    then have "median d = Inr (d ! (length d div 2))" by (auto simp: median_def Let_def num_sort_sorted [OF d(1)])
    moreover have "i \<le> length d div 2" using i by (meson diff_le_self div_le_mono le_trans)
    ultimately show ?thesis using le [of i "length d div 2"] le [of "length d div 2" j] j by auto
  next
    case False
    have h: "i \<le> length d div 2 - 1" "length d div 2 - 1 < length d" "length d div 2 < length d" "0 < length d"
    proof -
      from False obtain k where k: "length d = 2 * k" by (auto elim: evenE)
      then have "0 < k" using j by simp
      moreover have "(2 * k - 1) div 2 = k - 1" using \<open>0 < k\<close> by presburger
      ultimately show "i \<le> length d div 2 - 1" "length d div 2 - 1 < length d" "length d div 2 < length d" "0 < length d"
        using i unfolding k by simp_all
    qed
    have mem: "d ! (length d div 2 - 1) \<in> set d" "d ! (length d div 2) \<in> set d" using h by auto
    have "nle (d ! (length d div 2 - 1)) (d ! (length d div 2))" using le h by simp
    from midpoint_num [OF _ _ this] mem d(2) obtain m where
      m: "bindE (nadd (d ! (length d div 2 - 1)) (d ! (length d div 2))) (\<lambda>s. ndiv s (I 2)) = Inr m"
      "nle (d ! (length d div 2 - 1)) m" "nle m (d ! (length d div 2))" by blast
    have "median d = Inr m" using False h(4) m(1) by (simp add: median_def Let_def num_sort_sorted [OF d(1)])
    moreover have "nle (d ! i) m" using le [OF h(1,2)] m(2) by (rule nle_trans)
    moreover have "nle m (d ! j)" using m(3) le [OF j] by (rule nle_trans)
    ultimately show ?thesis by blast
  qed
qed

lemma median_float: "\<forall>x \<in> set xs. \<not> is_int x \<Longrightarrow> median xs = Inr m \<Longrightarrow> \<not> is_int m"
proof -
  assume f: "\<forall>x \<in> set xs. \<not> is_int x" and m: "median xs = Inr m"
  have ff: "\<not> is_int (num_sort xs ! k)" if "k < length xs" for k
    using f nth_mem [of k "num_sort xs"] that by simp
  have op: "\<not> is_int z" if "\<not> is_int x" "bindE (nadd x y) (\<lambda>s. ndiv s (I 2)) = Inr z" for x y z
    using that by (cases x; cases y) (auto simp: nadd_def lift_num_def ndiv_def split: if_splits)
  have n: "length xs \<noteq> 0" using m by (auto simp: median_empty)
  then have k: "length xs div 2 < length xs" "length xs div 2 - 1 < length xs" by linarith+
  show "\<not> is_int m"
  proof (cases "odd (length xs)")
    case True then show ?thesis using m n ff [OF k(1)] by (auto simp: median_def Let_def)
  next
    case False
    then have "bindE (nadd (num_sort xs ! (length xs div 2 - 1)) (num_sort xs ! (length xs div 2))) (\<lambda>s. ndiv s (I 2)) = Inr m"
      using m n by (simp add: median_def Let_def)
    then show ?thesis by (rule op [OF ff [OF k(2)]])
  qed
qed

lemma median_mild:
  assumes "xs \<noteq> []" "\<forall>x \<in> set xs. mild x"
  shows "\<exists>m. median xs = Inr m \<and> mild m"
proof -
  have "\<forall>x \<in> set xs. tame x" using assms(2) mild_tame by blast
  from median_tame [OF assms(1) this] obtain m x y where m: "median xs = Inr m" "tame m"
    "x \<in> set xs" "nle x m" "y \<in> set xs" "nle m y" by auto
  have "\<forall>x \<in> set xs. \<not> is_int x" using assms(2) by (auto simp: mild_def)
  then have "\<not> is_int m" using m(1) by (rule median_float)
  then obtain r where r: "m = F (Fin r)" "rnd_rat r = r" using m(2) by (cases m) (auto simp: tame_def)
  obtain a b where "x = F (Fin a)" "\<bar>a\<bar> \<le> 2 ^ 990" "y = F (Fin b)" "\<bar>b\<bar> \<le> 2 ^ 990"
    using assms(2) m(3,5) unfolding mild_def by blast
  then have "\<bar>r\<bar> \<le> 2 ^ 990" using m(4,6) r(1) by (simp add: nle_def)
  then show ?thesis using m(1) r by (simp add: mild_def)
qed

lemma nsub_mild: "mild x \<Longrightarrow> mild y \<Longrightarrow> \<exists>d. nsub x y = Inr d \<and> tame d"
proof -
  assume "mild x" "mild y"
  then obtain a b where ab: "x = F (Fin a)" "y = F (Fin b)" "\<bar>a\<bar> \<le> 2 ^ 990" "\<bar>b\<bar> \<le> 2 ^ 990" by (auto simp: mild_def)
  have "\<bar>a - b\<bar> \<le> 2 * 2 ^ 990" using ab(3,4) by linarith
  then have "\<bar>a - b\<bar> \<le> 2 ^ 991" by simp
  note r = rnd_below [OF this]
  have "(2::rat) ^ 991 \<le> 2 ^ 1000" by simp
  then show ?thesis using ab(1,2) r by (auto simp: nsub_def lift_num_def fsub_def tame_def)
qed

lemma resample_mild:
  assumes "\<And>k. pick k < length groups" "\<forall>g \<in> set groups. g \<noteq> [] \<and> (\<forall>x \<in> set g. mild x)"
  shows "\<exists>xs. resample pick start groups = Inr xs \<and> xs \<noteq> [] \<and> (\<forall>x \<in> set xs. mild x)"
proof -
  have "resample pick start groups = Inr (concat (map (\<lambda>i. groups ! pick (start + i)) [0 ..< GROUPS]))"
    using assms(1) by (simp add: resample_def nthE_def mapE_total [where g = "\<lambda>i. groups ! pick (start + i)"])
  moreover have "groups ! pick (start + i) \<noteq> []" for i using assms by (meson nth_mem)
  moreover have "\<forall>x \<in> set (groups ! pick (start + i)). mild x" for i using assms by (meson nth_mem)
  ultimately show ?thesis by (auto simp: GROUPS_def) (rule exI [of _ 0], simp)
qed

lemma one_difference_tame:
  assumes "\<And>k. pick k < 6" "length bs = 6" "length cs = 6" "\<forall>g \<in> set (bs @ cs). g \<noteq> [] \<and> (\<forall>x \<in> set g. mild x)"
  shows "\<exists>d. one_difference pick bs cs s = Inr d \<and> tame d"
proof -
  have bs: "\<forall>g \<in> set bs. g \<noteq> [] \<and> (\<forall>x \<in> set g. mild x)" "\<And>k. pick k < length bs"
    and cs: "\<forall>g \<in> set cs. g \<noteq> [] \<and> (\<forall>x \<in> set g. mild x)" "\<And>k. pick k < length cs" using assms by auto
  obtain b where b: "resample pick (2 * GROUPS * s) bs = Inr b" "b \<noteq> []" "\<forall>x \<in> set b. mild x"
    using resample_mild [of pick bs, OF bs(2,1)] by blast
  obtain c where c: "resample pick (2 * GROUPS * s + GROUPS) cs = Inr c" "c \<noteq> []" "\<forall>x \<in> set c. mild x"
    using resample_mild [of pick cs, OF cs(2,1)] by blast
  obtain mb mc where "median b = Inr mb" "mild mb" "median c = Inr mc" "mild mc"
    using median_mild [OF b(2,3)] median_mild [OF c(2,3)] by blast
  then show ?thesis using nsub_mild [of mc mb] b(1) c(1) by (simp add: one_difference_def)
qed

lemma bootstrap_indices: "low_index 20000 = Inr 499" "high_index 20000 = Inr 19500"
proof -
  have n: "int 20000 - 1 = 19999" by simp
  show "low_index 20000 = Inr 499" unfolding low_index_def n by code_simp
  show "high_index 20000 = Inr 19500" unfolding high_index_def n by code_simp
qed

lemma bootstrap_ok:
  assumes pick: "\<And>k. pick k < 6" and len: "length bs = 6" "length cs = 6"
    and rates: "\<forall>g \<in> set (bs @ cs). g \<noteq> [] \<and> (\<forall>x \<in> set g. mild x)"
  shows "\<exists>r. bootstrap_interval pick BOOTSTRAP_SAMPLES bs cs = Inr r \<and> samples r = 20000
     \<and> nle (ci_low r) (median_difference r) \<and> nle (median_difference r) (ci_high r)"
proof -
  have "\<forall>s. \<exists>d. one_difference pick bs cs s = Inr d \<and> tame d"
    using one_difference_tame [of pick bs cs, OF pick len rates] by blast
  from choice [OF this] obtain g where g: "\<And>s. one_difference pick bs cs s = Inr (g s)" "\<And>s. tame (g s)" by blast
  define d where "d = num_sort (map g [0 ..< 20000])"
  have ds: "mapE (one_difference pick bs cs) [0 ..< 20000] = Inr (map g [0 ..< 20000])"
    by (intro mapE_total) (simp add: g)
  have len_d: "length d = 20000" by (simp add: d_def del: upt_rec_numeral)
  have sorted: "sorted_wrt nle d" unfolding d_def
    by (intro sorted_num_sort) (auto simp: tame_not_nan [OF g(2)] simp del: upt_rec_numeral)
  have t: "\<forall>x \<in> set d. tame x" by (auto simp: d_def g(2) simp del: upt_rec_numeral)
  obtain m where "median d = Inr m" "nle (d ! 499) m" "nle m (d ! 19500)"
    using median_between [OF sorted t, of 499 19500] len_d by auto
  then show ?thesis
    using len_d by (simp add: bootstrap_interval_def BOOTSTRAP_SAMPLES_def ds Let_def bootstrap_indices nthE_def
        flip: d_def del: upt_rec_numeral)
qed

text \<open>Whatever the draws, if every draw names one of the six groups and the rates are finite floats
  of moderate size, the bootstrap of 20,000 samples returns, and its median difference lies
  inside its 95 percent interval.\<close>

theorem bootstrap_encloses:
  assumes pick: "\<And>k. pick k < 6" and len: "length bs = 6" "length cs = 6"
    and rates: "\<forall>g \<in> set (bs @ cs). g \<noteq> [] \<and> (\<forall>x \<in> set g. mild x)"
  shows "\<exists>r. bootstrap_interval pick BOOTSTRAP_SAMPLES bs cs = Inr r \<and> samples r = 20000
     \<and> nle (ci_low r) (median_difference r) \<and> nle (median_difference r) (ci_high r)"
  by (rule bootstrap_ok [OF assms])

lemma bootstrap_encloses_witness:
  "\<exists>r. bootstrap_interval (\<lambda>k. k mod 6) BOOTSTRAP_SAMPLES (replicate 6 [F (Fin 8)]) (replicate 6 [F (Fin 12)]) = Inr r"
proof -
  have "rnd_rat 8 = 8" "rnd_rat 12 = 12" using rnd_rat_of_int [of 8] rnd_rat_of_int [of 12] by simp_all
  then have "mild (F (Fin 8))" "mild (F (Fin 12))" by (simp_all add: mild_def)
  then have "\<forall>g \<in> set (replicate 6 [F (Fin 8)] @ replicate 6 [F (Fin 12)]). g \<noteq> [] \<and> (\<forall>x \<in> set g. mild x)" by simp
  from bootstrap_encloses [OF _ _ _ this, of "\<lambda>k. k mod 6"] show ?thesis by auto
qed

end
