(* ===== verification/ThroughputAB.thy ===== *)
theory ThroughputAB
  imports GroupStats
begin

text \<open>
  \<open>compare_throughput_ab.py\<close>: the evidence of an arm is loaded only after its environment, its
  checksum file, the order and number of its rounds and every raw RESULT line have been
  checked; two arms are then compared by median ratio, permutation test, directions and
  bootstrap, and judged by the fixed decision rule.  Every failed check is an
  \<open>AnalysisError\<close>.
\<close>

section \<open>Integrity of one arm\<close>

definition ROUNDS :: nat where "ROUNDS = 20"
definition MESSAGES :: int where "MESSAGES = 50000000"

definition analysis :: "bool \<Rightarrow> string \<Rightarrow> unit py" where
  "analysis b msg = require b (AnalysisError msg)"

lemma analysis_Inr [simp]: "analysis b msg = Inr u \<longleftrightarrow> b"
  by (simp add: analysis_def)

text \<open>\<open>^RESULT\s+(.*)$\<close>: the text after the spaces, when it has no line break before its end.\<close>

definition result_match :: "string \<Rightarrow> string option" where
  "result_match line = (let rest = drop 6 line; body = dropWhile is_space rest in
     if starts_with line ''RESULT'' \<and> rest \<noteq> [] \<and> is_space (hd rest) \<and> char_of (10::nat) \<notin> set (butlast body)
     then Some body else None)"

definition put_field :: "string \<Rightarrow> (string \<times> string) list \<Rightarrow> (string \<times> string) list py" where
  "put_field field fs = (let (key, found, v) = partition_at ''='' field in
     bindE (analysis found ''malformed RESULT field'') (\<lambda>_.
     bindE (analysis (map_of fs key = None) ''duplicate RESULT field'') (\<lambda>_. Inr (dict_put key v fs))))"

definition parse_result :: "string \<Rightarrow> (string \<times> string) list py" where
  "parse_result line = (case result_match line of None \<Rightarrow> Inl (AnalysisError ''not a RESULT line'')
     | Some body \<Rightarrow> foldE put_field (split_words body) [])"

definition verify_line :: "world \<Rightarrow> string \<Rightarrow> string \<Rightarrow> unit py" where
  "verify_line w directory line = (let expected = take 64 line; relative = drop 66 line; target = slash directory relative in
     bindE (analysis (67 \<le> length line \<and> take 2 (drop 64 line) = ''  '') ''malformed SHA256SUMS line'') (\<lambda>_.
     bindE (analysis (is_file w target) ''SHA256SUMS names a missing file'') (\<lambda>_.
     bindE (file_sha w target) (\<lambda>actual. analysis (actual = expected) ''SHA256 mismatch''))))"

definition verify_checksums :: "world \<Rightarrow> string \<Rightarrow> nat py" where
  "verify_checksums w directory = (let path = slash directory ''SHA256SUMS'' in
     bindE (analysis (is_file w path) ''missing SHA256SUMS'') (\<lambda>_.
     bindE (read_text w path) (\<lambda>text. let entries = filter (\<lambda>l. strip l \<noteq> []) (splitlines text) in
     bindE (mapE (verify_line w directory) entries) (\<lambda>_.
     bindE (analysis (entries \<noteq> []) ''empty SHA256SUMS'') (\<lambda>_. Inr (length entries))))))"

definition read_environment :: "world \<Rightarrow> string \<Rightarrow> json py" where
  "read_environment w directory = (let path = slash directory ''environment.json'' in
     bindE (analysis (is_file w path) ''missing environment.json'') (\<lambda>_.
     bindE (read_text w path) (\<lambda>text. bindE (json_loads w text) (\<lambda>environment.
     bindE (mapE (\<lambda>(k, v). bindE (get environment k) (\<lambda>x. Inr (jeq x (jint v))))
        [(''messages_per_round'', MESSAGES), (''rate_per_producer'', 0), (''latency_sample_rate'', 0)]) (\<lambda>same.
     bindE (analysis (False \<notin> set same) ''environment differs from E1'') (\<lambda>_. Inr environment))))))"

text \<open>\<open>command.index("--payload")\<close> and the item after it; a string command is searched as a string.\<close>

fun index_json :: "json list \<Rightarrow> json \<Rightarrow> nat option" where
  "index_json [] v = None"
| "index_json (x # xs) v = (if jeq x v then Some 0 else map_option Suc (index_json xs v))"

fun after_payload :: "json \<Rightarrow> json option py" where
  "after_payload (JList xs) = Inr (case index_json xs (JStr ''--payload'') of None \<Rightarrow> None
     | Some i \<Rightarrow> (if Suc i < length xs then Some (xs ! Suc i) else None))"
| "after_payload (JStr s) = Inr (case find_sub ''--payload'' s of None \<Rightarrow> None
     | Some i \<Rightarrow> (if Suc i < length s then Some (JStr [s ! Suc i]) else None))"
| "after_payload _ = Inl AttributeError"

definition check_command :: "json \<Rightarrow> int \<Rightarrow> unit py" where
  "check_command row payload = bindE (get row ''payload'') (\<lambda>p.
     if p = JNull \<and> has_key row ''command'' then
       bindE (getitem row ''command'') (\<lambda>command. bindE (after_payload command) (\<lambda>arg. case arg of
         None \<Rightarrow> Inl (AnalysisError ''round command has no payload'')
       | Some v \<Rightarrow> bindE (to_int v) (\<lambda>n. analysis (n = payload) ''round payload differs'')))
     else Inr ())"

definition expected_fields :: "int \<Rightarrow> (string \<times> string) list" where
  "expected_fields payload = [(''library'', ''salias-ipc''), (''scenario'', ''fifo''), (''producers'', ''1''),
     (''consumers'', ''2''), (''payload'', show_int payload), (''capacity'', ''1048576''), (''batch_size'', ''1''),
     (''poll_limit'', ''64''), (''published'', ''50000000''), (''delivered'', ''100000000'')]"

definition result_lines :: "string \<Rightarrow> string list" where
  "result_lines text = filter (\<lambda>l. starts_with l ''RESULT '') (splitlines text)"

text \<open>\<open>math.isclose(a, b, rel_tol=0, abs_tol=t)\<close>\<close>

definition isclose_abs :: "pyfloat \<Rightarrow> pyfloat \<Rightarrow> pyfloat \<Rightarrow> bool" where
  "isclose_abs a b t \<longleftrightarrow> feq a b \<or> (a \<notin> {PInf, NInf} \<and> b \<notin> {PInf, NInf} \<and>
     (let d = fabs (fsub b a) in fle d (fabs (fmul (Fin 0) b)) \<or> fle d (fabs (fmul (Fin 0) a)) \<or> fle d t))"

definition published_rate :: "(string \<times> string) list \<Rightarrow> pyfloat py" where
  "published_rate fs = (case map_of fs ''publish_msg_per_sec'' of None \<Rightarrow> Inl KeyError
     | Some v \<Rightarrow> bindE (str_float v) (\<lambda>x. Inr (fdiv x (Fin 1000000))))"

definition verify_round :: "world \<Rightarrow> json \<Rightarrow> string \<Rightarrow> int \<Rightarrow> num py" where
  "verify_round w row stdout_path payload =
     bindE (check_command row payload) (\<lambda>_.
     bindE (analysis (is_file w stdout_path) ''missing round stdout'') (\<lambda>_.
     bindE (read_text w stdout_path) (\<lambda>text. let found = result_lines text in
     bindE (analysis (length found = 1) ''expected one RESULT line'') (\<lambda>_.
     bindE (parse_result (hd found)) (\<lambda>fs.
     bindE (analysis (\<forall>(k, v) \<in> set (expected_fields payload). map_of fs k = Some v) ''RESULT mismatch'') (\<lambda>_.
     bindE (published_rate fs) (\<lambda>rate.
     bindE (getitem row ''publish_mmsg_s'') (\<lambda>v. bindE (jfloat v) (\<lambda>recorded.
     bindE (analysis (isclose_abs rate recorded (rnd (1 / 10 ^ 6))) ''RESULT/JSON throughput mismatch'') (\<lambda>_.
     Inr (F rate)))))))))))"

section \<open>Loading an arm\<close>

record arm_group =
  grp_index :: nat
  grp_rates :: "num list"
  grp_median :: num
  grp_mean :: num
  grp_cv :: num
  grp_high :: nat

record arm =
  arm_directory :: string
  arm_sha :: json
  arm_payload :: int
  arm_verified :: nat
  arm_groups :: "arm_group list"
  arm_rates :: "num list"
  arm_median :: num
  arm_mean :: num
  arm_cv :: num
  arm_high :: nat

definition cv_of :: "num list \<Rightarrow> num py" where
  "cv_of xs = bindE (pstdev xs) (\<lambda>s. bindE (mean xs) (ndiv s))"

definition high_count :: "num list \<Rightarrow> nat" where
  "high_count xs = length (filter (nle (flit 10)) xs)"

definition group_name :: "nat \<Rightarrow> string" where
  "group_name i = ''group-'' @ pad_zeros 2 (show_pos (int i))"

text \<open>\<open>str(v)\<close> of a scalar; the text of a float or a container is not modelled and names no file.\<close>

fun scalar_str :: "json \<Rightarrow> string py" where
  "scalar_str (JStr s) = Inr s"
| "scalar_str (JNum (I n)) = Inr (show_int n)"
| "scalar_str (JBool b) = Inr (show_bool b)"
| "scalar_str JNull = Inr ''None''"
| "scalar_str _ = Inl (AnalysisError ''missing round stdout'')"

definition load_rows :: "world \<Rightarrow> string \<Rightarrow> json list py" where
  "load_rows w path = bindE (read_text w path) (\<lambda>text.
     mapE (json_loads w) (filter (\<lambda>l. strip l \<noteq> []) (splitlines text)))"

definition rounds_in_order :: "json list \<Rightarrow> bool py" where
  "rounds_in_order rows = bindE (mapE (\<lambda>r. get r ''round'') rows) (\<lambda>ks.
     Inr (jeq (JList ks) (JList (map (\<lambda>i. jint (int i)) [0 ..< ROUNDS]))))"

definition load_round :: "world \<Rightarrow> string \<Rightarrow> nat \<Rightarrow> int \<Rightarrow> json \<Rightarrow> num py" where
  "load_round w group_dir i payload row = bindE (get row ''group'') (\<lambda>g.
     bindE (analysis (jeq g (jint (int i))) ''group index mismatch'') (\<lambda>_.
     bindE (getitem row ''stdout'') (\<lambda>v. bindE (scalar_str v) (\<lambda>name.
     verify_round w row (slash group_dir name) payload))))"

definition load_group :: "world \<Rightarrow> string \<Rightarrow> int \<Rightarrow> nat \<Rightarrow> arm_group py" where
  "load_group w directory payload i = (let group_dir = slash directory (group_name i); results = slash group_dir ''results.jsonl'' in
     bindE (analysis (is_file w results) ''missing group results'') (\<lambda>_.
     bindE (load_rows w results) (\<lambda>rows.
     bindE (analysis (length rows = ROUNDS) ''wrong number of rounds'') (\<lambda>_.
     bindE (rounds_in_order rows) (\<lambda>ordered. bindE (analysis ordered ''round order is invalid'') (\<lambda>_.
     bindE (mapE (load_round w group_dir i payload) rows) (\<lambda>rates.
     bindE (median rates) (\<lambda>md. bindE (mean rates) (\<lambda>mn. bindE (cv_of rates) (\<lambda>cv.
     Inr \<lparr>grp_index = i, grp_rates = rates, grp_median = md, grp_mean = mn, grp_cv = cv,
       grp_high = high_count rates\<rparr>))))))))))"

definition int_is :: "json \<Rightarrow> string \<Rightarrow> int \<Rightarrow> string \<Rightarrow> unit py" where
  "int_is d k n msg = bindE (get_or d k (jint (- 1))) (\<lambda>v. bindE (to_int v) (\<lambda>x. analysis (x = n) msg))"

definition load_arm :: "world \<Rightarrow> string \<Rightarrow> int option \<Rightarrow> arm py" where
  "load_arm w path expected_payload = (let directory = resolved w path in
     bindE (read_environment w directory) (\<lambda>environment.
     bindE (getitem environment ''payload_bytes'') (\<lambda>p. bindE (to_int p) (\<lambda>payload.
     bindE (analysis (expected_payload = None \<or> expected_payload = Some payload) ''unexpected payload'') (\<lambda>_.
     bindE (int_is environment ''groups'' (int GROUPS) ''wrong number of groups'') (\<lambda>_.
     bindE (int_is environment ''rounds_per_group'' (int ROUNDS) ''wrong rounds_per_group'') (\<lambda>_.
     bindE (int_is environment ''capacity_bytes'' 1048576 ''capacity is not 1 MiB'') (\<lambda>_.
     bindE (verify_checksums w directory) (\<lambda>verified.
     bindE (mapE (load_group w directory payload) [0 ..< GROUPS]) (\<lambda>gs. let rates = concat (map grp_rates gs) in
     bindE (get environment ''client_sha256'') (\<lambda>sha.
     bindE (median rates) (\<lambda>md. bindE (mean rates) (\<lambda>mn. bindE (cv_of rates) (\<lambda>cv.
     Inr \<lparr>arm_directory = directory, arm_sha = sha, arm_payload = payload, arm_verified = verified, arm_groups = gs,
       arm_rates = rates, arm_median = md, arm_mean = mn, arm_cv = cv, arm_high = high_count rates\<rparr>))))))))))))))"

section \<open>Comparing two arms\<close>

record e1_report =
  rep_payload :: int
  rep_baseline :: arm
  rep_candidate :: arm
  rep_ratio :: num
  rep_difference :: num
  rep_permutation :: permutation
  rep_directions :: nat
  rep_bootstrap :: interval
  rep_eligible :: bool
  rep_decision :: string

definition directions_of :: "num list \<Rightarrow> num list \<Rightarrow> nat" where
  "directions_of baseline candidate = length (filter (\<lambda>(b, c). nlt b c) (zip baseline candidate))"

definition compare_arms :: "(nat \<Rightarrow> nat) \<Rightarrow> world \<Rightarrow> string \<Rightarrow> string \<Rightarrow> int option \<Rightarrow> e1_report py" where
  "compare_arms pick w baseline_dir candidate_dir expected_payload =
     bindE (load_arm w baseline_dir expected_payload) (\<lambda>b.
     bindE (load_arm w candidate_dir expected_payload) (\<lambda>c.
     bindE (analysis (arm_payload b = arm_payload c) ''arms use different payloads'') (\<lambda>_.
     bindE (analysis (\<not> jeq (arm_sha b) (arm_sha c)) ''baseline and candidate client hashes are identical'') (\<lambda>_.
     bindE (ndiv (arm_median c) (arm_median b)) (\<lambda>ratio.
     bindE (permutation_test (map grp_median (arm_groups b)) (map grp_median (arm_groups c))) (\<lambda>perm.
     bindE (nsub (arm_median c) (arm_median b)) (\<lambda>diff.
     bindE (bootstrap_interval pick BOOTSTRAP_SAMPLES (map grp_rates (arm_groups b)) (map grp_rates (arm_groups c))) (\<lambda>boot.
     let dirs = directions_of (map grp_median (arm_groups b)) (map grp_median (arm_groups c)) in
     Inr \<lparr>rep_payload = arm_payload b, rep_baseline = b, rep_candidate = c, rep_ratio = ratio, rep_difference = diff,
       rep_permutation = perm, rep_directions = dirs, rep_bootstrap = boot, rep_eligible = (arm_payload b = 64),
       rep_decision = (if arm_payload b = 64 then decide ratio (p_value perm) dirs else ''DESCRIPTIVE'')\<rparr>))))))))"

section \<open>What a loaded arm guarantees\<close>

text \<open>The rate of a round is the one its raw output reports, with the frozen counts.\<close>

definition round_evidence :: "world \<Rightarrow> int \<Rightarrow> string \<Rightarrow> num \<Rightarrow> bool" where
  "round_evidence w payload path rate \<longleftrightarrow> (\<exists>text line fs x. file_text w path = Some text \<and> result_lines text = [line]
     \<and> parse_result line = Inr fs \<and> map_of fs ''published'' = Some ''50000000'' \<and> map_of fs ''delivered'' = Some ''100000000''
     \<and> map_of fs ''payload'' = Some (show_int payload) \<and> published_rate fs = Inr x \<and> rate = F x)"

lemma verify_round_sound:
  assumes "verify_round w row path payload = Inr rate" shows "round_evidence w payload path rate"
proof -
  from assms obtain doc fs x where t: "read_text w path = Inr doc" "length (result_lines doc) = 1"
    "parse_result (hd (result_lines doc)) = Inr fs" "\<forall>(k, v) \<in> set (expected_fields payload). map_of fs k = Some v"
    "published_rate fs = Inr x" "rate = F x"
    unfolding verify_round_def bindE_Inr analysis_Inr Let_def sum.inject by blast
  have "result_lines doc = [hd (result_lines doc)]" using t(2) by (cases "result_lines doc") auto
  moreover have "file_text w path = Some doc" using t(1) by (simp add: read_text_Inr)
  moreover have "map_of fs ''published'' = Some ''50000000''" "map_of fs ''delivered'' = Some ''100000000''"
    "map_of fs ''payload'' = Some (show_int payload)"
    using t(4) by (auto simp: expected_fields_def)
  ultimately show ?thesis unfolding round_evidence_def using t(3,5,6) by metis
qed

lemma load_group_sound:
  assumes "load_group w directory payload i = Inr g"
  shows "grp_index g = i" "length (grp_rates g) = ROUNDS" "median (grp_rates g) = Inr (grp_median g)"
    "\<forall>rate \<in> set (grp_rates g). \<exists>name. round_evidence w payload (slash (slash directory (group_name i)) name) rate"
proof -
  from assms obtain rows rates where r: "length rows = ROUNDS"
    "mapE (load_round w (slash directory (group_name i)) i payload) rows = Inr rates" "grp_rates g = rates"
    "median rates = Inr (grp_median g)" "grp_index g = i"
    unfolding load_group_def bindE_Inr analysis_Inr Let_def sum.inject by auto
  show "grp_index g = i" "length (grp_rates g) = ROUNDS" "median (grp_rates g) = Inr (grp_median g)"
    using r mapE_length [OF r(2)] by simp_all
  show "\<forall>rate \<in> set (grp_rates g). \<exists>name. round_evidence w payload (slash (slash directory (group_name i)) name) rate"
  proof
    fix rate assume "rate \<in> set (grp_rates g)"
    then obtain row where "load_round w (slash directory (group_name i)) i payload row = Inr rate"
      using mapE_set_D [OF r(2)] r(3) by blast
    then obtain name where "verify_round w row (slash (slash directory (group_name i)) name) payload = Inr rate"
      by (auto simp: load_round_def)
    then show "\<exists>name. round_evidence w payload (slash (slash directory (group_name i)) name) rate"
      by (blast dest: verify_round_sound)
  qed
qed

lemma verify_checksums_sound:
  assumes "verify_checksums w directory = Inr n"
  shows "\<exists>text. file_text w (slash directory ''SHA256SUMS'') = Some text \<and> n = length (filter (\<lambda>l. strip l \<noteq> []) (splitlines text)) \<and> 0 < n
    \<and> (\<forall>l \<in> set (splitlines text). strip l \<noteq> [] \<longrightarrow> file_sha w (slash directory (drop 66 l)) = Inr (take 64 l))"
proof -
  from assms obtain doc ys where t: "read_text w (slash directory ''SHA256SUMS'') = Inr doc"
    "mapE (verify_line w directory) (filter (\<lambda>l. strip l \<noteq> []) (splitlines doc)) = Inr ys"
    "filter (\<lambda>l. strip l \<noteq> []) (splitlines doc) \<noteq> []" "n = length (filter (\<lambda>l. strip l \<noteq> []) (splitlines doc))"
    unfolding verify_checksums_def bindE_Inr analysis_Inr Let_def sum.inject by blast
  have "file_sha w (slash directory (drop 66 l)) = Inr (take 64 l)" if l: "l \<in> set (splitlines doc)" "strip l \<noteq> []" for l
    using mapE_set [OF t(2), of l] l by (auto simp: verify_line_def Let_def)
  then show ?thesis using t(1,3,4) by (auto simp: read_text_Inr)
qed

text \<open>C3. A loaded arm has six groups of twenty rates, pooled in order; every rate is the throughput
  of one raw output whose single RESULT line reports fifty million published and a hundred
  million delivered messages of the arm's payload; and every file its checksum list names has
  the listed digest.\<close>

theorem arm_is_audited:
  assumes "load_arm w path expected = Inr a"
  shows "map grp_index (arm_groups a) = [0 ..< 6] \<and> arm_rates a = concat (map grp_rates (arm_groups a)) \<and> length (arm_rates a) = 120
    \<and> (\<forall>g \<in> set (arm_groups a). length (grp_rates g) = 20 \<and> median (grp_rates g) = Inr (grp_median g)
        \<and> (\<forall>rate \<in> set (grp_rates g). \<exists>name. round_evidence w (arm_payload a) (slash (slash (resolved w path) (group_name (grp_index g))) name) rate))
    \<and> (\<exists>text. file_text w (slash (resolved w path) ''SHA256SUMS'') = Some text \<and> 0 < arm_verified a
        \<and> (\<forall>l \<in> set (splitlines text). strip l \<noteq> [] \<longrightarrow> file_sha w (slash (resolved w path) (drop 66 l)) = Inr (take 64 l)))"
proof -
  from assms obtain payload gs n where a: "verify_checksums w (resolved w path) = Inr n"
    "mapE (load_group w (resolved w path) payload) [0 ..< GROUPS] = Inr gs"
    "arm_payload a = payload" "arm_verified a = n" "arm_groups a = gs" "arm_rates a = concat (map grp_rates gs)"
    unfolding load_arm_def bindE_Inr analysis_Inr Let_def sum.inject by auto
  have each: "grp_index g \<in> set [0 ..< GROUPS] \<and> load_group w (resolved w path) payload (grp_index g) = Inr g" if "g \<in> set gs" for g
    using mapE_set_D [OF a(2) that] load_group_sound(1) by metis
  have len: "length gs = 6" using mapE_length [OF a(2)] by (simp add: GROUPS_def)
  have "map grp_index gs = [0 ..< 6]"
  proof (rule nth_equalityI)
    fix i assume "i < length (map grp_index gs)"
    then have "load_group w (resolved w path) payload i = Inr (gs ! i)" "i < 6"
      using mapE_nth [OF a(2), of i] len by (simp_all add: GROUPS_def)
    then show "map grp_index gs ! i = [0 ..< 6] ! i" using load_group_sound(1) len by (simp del: upt_rec_numeral)
  qed (simp add: len)
  moreover have twenty: "length (grp_rates g) = 20" if "g \<in> set gs" for g
    using load_group_sound(2) [of w] each [OF that] by (fastforce simp: ROUNDS_def)
  moreover have "length (concat (map grp_rates gs)) = 120"
  proof -
    have "length (concat (map grp_rates gs)) = sum_list (map (\<lambda>g. length (grp_rates g)) gs)"
      by (simp add: length_concat comp_def)
    also have "\<dots> = sum_list (map (\<lambda>_. 20) gs)"
      using twenty by (intro arg_cong [where f = sum_list] map_cong) auto
    finally show ?thesis by (simp add: len sum_list_triv)
  qed
  ultimately show ?thesis
    using a(3-6) each load_group_sound(3,4) verify_checksums_sound [OF a(1)] by fastforce
qed


section \<open>A concrete experiment\<close>

text \<open>Two arms in the directories \<open>b\<close> and \<open>c\<close>, every round at 2 and at 3 million messages per second.\<close>

definition demo_rate :: "string \<Rightarrow> rat" where
  "demo_rate d = (if d = ''b'' then 2 else 3)"

definition demo_line :: "string \<Rightarrow> string" where
  "demo_line d = ''RESULT library=salias-ipc scenario=fifo producers=1 consumers=2 payload=64 capacity=1048576 batch_size=1 poll_limit=64 published=50000000 delivered=100000000 publish_msg_per_sec='' @ (if d = ''b'' then ''2000000'' else ''3000000'')"

definition demo_row :: "string \<Rightarrow> nat \<Rightarrow> nat \<Rightarrow> json" where
  "demo_row d i r = JObj [(''group'', jint (int i)), (''round'', jint (int r)), (''payload'', jint 64), (''stdout'', JStr ''out''),
     (''publish_mmsg_s'', JNum (F (Fin (demo_rate d))))]"

text \<open>
  The directory \<open>e\<close> is a three-arm experiment over the same rounds: its baseline is the arm \<open>b\<close>, both
  candidates are the arm \<open>c\<close>.
\<close>

definition three_arm_file :: "string \<Rightarrow> string option" where
  "three_arm_file = map_of [(''e/experiment.json'', ''xm''), (''e/baseline/environment.json'', ''xB''),
     (''e/candidate-seq/environment.json'', ''xS''), (''e/candidate-asym/environment.json'', ''xA''), (''e/v3'', ''x3''), (''e/v4'', ''x4'')]"

definition three_arm_fence :: "char \<Rightarrow> json" where
  "three_arm_fence c = JList (if c = CHR ''S'' then [JStr ''SALIAS_DISABLE_ASYMMETRIC_FENCE=1''] else [])"

definition three_arm_entry :: "char \<Rightarrow> string \<Rightarrow> string \<times> json" where
  "three_arm_entry c out = ([c], JObj [(''output'', JStr (''e/'' @ out)), (''setenv'', three_arm_fence c),
     (''client'', JStr (if c = CHR ''B'' then ''e/v3'' else ''e/v4'')), (''sha256'', JStr (if c = CHR ''B'' then ''b'' else ''c''))])"

definition three_arm_block :: "nat \<Rightarrow> json" where
  "three_arm_block i = JObj [(''block'', jint (int i)), (''arm'', JStr [(if even (i div 3) then ''BSA'' else ''ASB'') ! (i mod 3)]),
     (''group'', jint (int (i div 3))), (''returncode'', jint 0)]"

definition three_arm_json :: "string \<Rightarrow> json" where
  "three_arm_json t = (if t = ''xm'' then JObj [(''groups'', jint 6), (''rounds_per_group'', jint 20), (''payload_bytes'', jint 64),
       (''capacity_bytes'', jint 1048576), (''messages_per_round'', jint 50000000),
       (''sequence'', JList (map (\<lambda>g. JList (map (\<lambda>c. JStr [c, char_of (48 + g)]) (if even g then ''BSA'' else ''ASB''))) [0 ..< 6])),
       (''blocks'', JList (map three_arm_block [0 ..< 18])),
       (''arms'', JObj [three_arm_entry CHR ''B'' ''baseline'', three_arm_entry CHR ''S'' ''candidate-seq'', three_arm_entry CHR ''A'' ''candidate-asym''])]
     else JObj [(''messages_per_round'', jint 50000000), (''rate_per_producer'', jint 0), (''latency_sample_rate'', jint 0),
       (''environment_variables'', three_arm_fence (t ! 1)), (''client'', JStr (if t = ''xB'' then ''e/v3'' else ''e/v4'')),
       (''client_sha256'', JStr (if t = ''xB'' then ''b'' else ''c''))])"

definition demo_file :: "string \<Rightarrow> string option" where
  "demo_file p = (let n = base_name p; d = take 1 p in
     if d = ''e'' then three_arm_file p
     else if n = ''environment.json'' then Some d
     else if n = ''SHA256SUMS'' then Some (replicate 64 CHR ''a'' @ ''  out'')
     else if n = ''out'' then Some (demo_line d)
     else if n = ''results.jsonl'' then Some (concat (map (\<lambda>l. l @ [nl]) (map (\<lambda>r. d @ [p ! 9, char_of (r + 65)]) [0 ..< 20])))
     else None)"

definition demo_json :: "string \<Rightarrow> json py" where
  "demo_json t = (if length t = 1 then Inr (JObj [(''messages_per_round'', jint 50000000), (''rate_per_producer'', jint 0),
       (''latency_sample_rate'', jint 0), (''payload_bytes'', jint 64), (''groups'', jint 6), (''rounds_per_group'', jint 20),
       (''capacity_bytes'', jint 1048576), (''client_sha256'', JStr t)])
     else if take 1 t = ''x'' then Inr (three_arm_json t)
     else Inr (demo_row (take 1 t) (of_char (t ! 1) - 48) (of_char (t ! 2) - 65)))"

definition demo_world :: world where
  "demo_world = \<lparr>file_text = demo_file, sha256_hex = (\<lambda>t. if t = ''x3'' then ''b'' else if t = ''x4'' then ''c'' else replicate 64 CHR ''a''),
     json_loads = demo_json, globbed = (\<lambda>_ _. []),
     resolved = (\<lambda>p. if p = ''e/baseline'' then ''b'' else if p = ''e/candidate-seq'' \<or> p = ''e/candidate-asym'' then ''c'' else p)\<rparr>"

lemma demo_environment:
  "read_environment demo_world ''b'' = demo_json ''b'' \<and> read_environment demo_world ''c'' = demo_json ''c''"
  by code_simp

lemma demo_checksums: "verify_checksums demo_world ''b'' = Inr 1 \<and> verify_checksums demo_world ''c'' = Inr 1"
  by code_simp

lemma demo_names: "\<forall>i \<in> {0, 1, 2, 3, 4, 5}. group_name i = ''group-0'' @ [char_of (i + 48)]"
  by code_simp

lemma printable:
  assumes "33 \<le> n" "n < 127"
  shows "\<not> is_eol (char_of (n::nat))" "\<not> is_space (char_of n)" "of_char (char_of n :: char) = n"
proof -
  show o: "of_char (char_of n :: char) = n" using assms by simp
  have "is_eol c \<Longrightarrow> (of_char c :: nat) < 33" for c by (auto simp: is_eol_def)
  then show "\<not> is_eol (char_of n)" using assms o by fastforce
  have "is_space c \<Longrightarrow> (of_char c :: nat) < 33 \<or> 127 \<le> (of_char c :: nat)" for c by (auto simp: is_space_def)
  then show "\<not> is_space (char_of n)" using assms o by fastforce
qed

lemma demo_rows:
  assumes d: "d = ''b'' \<or> d = ''c''" and i: "i \<in> {0, 1, 2, 3, 4, 5}"
  shows "load_rows demo_world (slash (slash d (group_name i)) ''results.jsonl'') = Inr (map (demo_row d i) [0 ..< 20])"
    "is_file demo_world (slash (slash d (group_name i)) ''results.jsonl'')"
proof -
  let ?p = "slash (slash d (group_name i)) ''results.jsonl''"
  let ?ls = "map (\<lambda>r. d @ [char_of (i + 48), char_of (r + 65)]) [0 ..< 20]"
  have n: "group_name i = ''group-0'' @ [char_of (i + 48)]" using demo_names i by blast
  have "take 1 ?p = d" "?p ! 9 = char_of (i + 48)" using d by (auto simp: slash_def n)
  moreover have "base_name ?p = ''results.jsonl''"
    using d by (intro slash_parts) (auto simp: slash_def group_name_def)
  moreover have "d \<noteq> ''e''" using d by auto
  ultimately have t: "file_text demo_world ?p = Some (concat (map (\<lambda>l. l @ [nl]) ?ls))"
    by (simp add: demo_world_def demo_file_def Let_def del: upt_rec_numeral)
  then show "is_file demo_world ?p" by (simp add: is_file_def)
  have l: "\<forall>l \<in> set ?ls. (\<forall>c \<in> set l. \<not> is_eol c) \<and> strip l \<noteq> []"
  proof
    fix l assume "l \<in> set ?ls"
    then obtain r where r: "l = d @ [char_of (i + 48), char_of (r + 65)]" "r < (20::nat)" by auto
    have "\<not> is_eol (CHR ''b'')" "\<not> is_eol (CHR ''c'')" "\<not> is_space (CHR ''b'')" "\<not> is_space (CHR ''c'')" by code_simp+
    then show "(\<forall>c \<in> set l. \<not> is_eol c) \<and> strip l \<noteq> []"
      using d r printable [of "r + 65"] printable [of "i + 48"] i by (auto simp: strip_def)
  qed
  then have "splitlines (concat (map (\<lambda>l. l @ [nl]) ?ls)) = ?ls" by (intro splitlines_concat) blast
  moreover have "filter (\<lambda>l. strip l \<noteq> []) ?ls = ?ls" using l by (intro filter_True) blast
  moreover have "mapE (json_loads demo_world) ?ls = Inr (map (demo_row d i) [0 ..< 20])"
  proof -
    have "json_loads demo_world (d @ [char_of (i + 48), char_of (r + 65)]) = Inr (demo_row d i r)" if "r < 20" for r
      using that d i printable(3) [of "r + 65"] printable(3) [of "i + 48"] by (auto simp: demo_world_def demo_json_def)
    then show ?thesis by (simp add: mapE_Inr list_all2_conv_all_nth del: upt_rec_numeral)
  qed
  ultimately show "load_rows demo_world ?p = Inr (map (demo_row d i) [0 ..< 20])"
    using t by (simp add: load_rows_def read_text_def del: upt_rec_numeral)
qed

lemma demo_parse:
  "\<exists>fs. parse_result (demo_line ''b'') = Inr fs \<and> (\<forall>(k, v) \<in> set (expected_fields 64). map_of fs k = Some v) \<and> published_rate fs = Inr (Fin 2)"
  "\<exists>fs. parse_result (demo_line ''c'') = Inr fs \<and> (\<forall>(k, v) \<in> set (expected_fields 64). map_of fs k = Some v) \<and> published_rate fs = Inr (Fin 3)"
proof -
  have "case parse_result (demo_line ''b'') of Inl _ \<Rightarrow> False | Inr fs \<Rightarrow>
     (\<forall>(k, v) \<in> set (expected_fields 64). map_of fs k = Some v) \<and> published_rate fs = Inr (Fin 2)" by code_simp
  then show "\<exists>fs. parse_result (demo_line ''b'') = Inr fs \<and> (\<forall>(k, v) \<in> set (expected_fields 64). map_of fs k = Some v) \<and> published_rate fs = Inr (Fin 2)"
    by (cases "parse_result (demo_line ''b'')") simp_all
  have "case parse_result (demo_line ''c'') of Inl _ \<Rightarrow> False | Inr fs \<Rightarrow>
     (\<forall>(k, v) \<in> set (expected_fields 64). map_of fs k = Some v) \<and> published_rate fs = Inr (Fin 3)" by code_simp
  then show "\<exists>fs. parse_result (demo_line ''c'') = Inr fs \<and> (\<forall>(k, v) \<in> set (expected_fields 64). map_of fs k = Some v) \<and> published_rate fs = Inr (Fin 3)"
    by (cases "parse_result (demo_line ''c'')") simp_all
qed

lemma demo_lines: "result_lines (demo_line ''b'') = [demo_line ''b'']" "result_lines (demo_line ''c'') = [demo_line ''c'']"
  by code_simp+

lemma demo_path:
  assumes "d = ''b'' \<or> d = ''c''" shows "file_text demo_world (slash (slash d (group_name i)) ''out'') = Some (demo_line d)"
proof -
  have "take 1 (slash (slash d (group_name i)) ''out'') = d"
    using assms by (auto simp: slash_def group_name_def)
  moreover have "base_name (slash (slash d (group_name i)) ''out'') = ''out''"
    using assms by (intro slash_parts) (auto simp: slash_def group_name_def)
  moreover have "d \<noteq> ''e''" using assms by auto
  ultimately show ?thesis by (simp add: demo_world_def demo_file_def Let_def)
qed

lemma demo_round:
  assumes d: "d = ''b'' \<or> d = ''c''"
  shows "load_round demo_world (slash d (group_name i)) i 64 (demo_row d i r) = Inr (F (Fin (demo_rate d)))"
proof -
  obtain fs where fs: "parse_result (demo_line d) = Inr fs" "\<forall>(k, v) \<in> set (expected_fields 64). map_of fs k = Some v"
    "published_rate fs = Inr (Fin (demo_rate d))" using d demo_parse by (auto simp: demo_rate_def)
  have c: "check_command (demo_row d i r) 64 = Inr ()" by (simp add: check_command_def demo_row_def dict_get_def)
  have l: "result_lines (demo_line d) = [demo_line d]" using d demo_lines by auto
  have v: "verify_round demo_world (demo_row d i r) (slash (slash d (group_name i)) ''out'') 64 = Inr (F (Fin (demo_rate d)))"
    using fs c l demo_path [OF d, of i]
    by (simp add: verify_round_def is_file_def read_text_def demo_row_def isclose_abs_def feq_def analysis_def)
  then show ?thesis by (simp add: load_round_def demo_row_def dict_get_def analysis_def)
qed

lemma double_rate: "d = ''b'' \<or> d = ''c'' \<Longrightarrow> rnd (demo_rate d) = Fin (demo_rate d) \<and> rnd (2 * demo_rate d) = Fin (2 * demo_rate d)"
  by (auto simp: demo_rate_def)

lemma demo_mild: "d = ''b'' \<or> d = ''c'' \<Longrightarrow> mild (F (Fin (demo_rate d)))"
  using rnd_rat_of_int [of 2] rnd_rat_of_int [of 3] by (auto simp: mild_def demo_rate_def)

lemma sorted_replicate: "\<not> is_nan x \<Longrightarrow> num_sort (replicate n x) = replicate n x"
  by (intro num_sort_sorted) (induction n; simp add: nle_refl)

lemma constant_stats:
  assumes d: "d = ''b'' \<or> d = ''c''" and n: "0 < n"
  defines "x \<equiv> F (Fin (demo_rate d))"
  shows "median (replicate (2 * n) x) = Inr x" "mean (replicate (2 * n) x) = Inr x" "\<exists>v. cv_of (replicate (2 * n) x) = Inr v"
proof -
  have xs: "num_sort (replicate (2 * n) x) = replicate (2 * n) x" by (rule sorted_replicate) (simp add: x_def)
  show "median (replicate (2 * n) x) = Inr x"
    using n double_rate [OF d] unfolding median_def Let_def xs
    by (simp add: x_def nadd_def lift_num_def ndiv_def nth_Cons split: nat.splits) 
  have sum: "exact_sum (replicate k x) = of_nat k * demo_rate d" for k
    by (induction k) (simp_all add: x_def distrib_right)
  show m: "mean (replicate (2 * n) x) = Inr x"
    using n double_rate [OF d] by (simp add: mean_def Let_def sum) (simp add: x_def)
  have "demo_rate d \<noteq> 0" using d by (auto simp: demo_rate_def)
  then show "\<exists>v. cv_of (replicate (2 * n) x) = Inr v"
    using n m by (simp add: cv_of_def pstdev_def ndiv_def) (simp add: x_def)
qed

lemma demo_group:
  assumes d: "d = ''b'' \<or> d = ''c''" and i: "i \<in> {0, 1, 2, 3, 4, 5}"
  shows "\<exists>g. load_group demo_world d 64 i = Inr g \<and> grp_rates g = replicate 20 (F (Fin (demo_rate d))) \<and> grp_median g = F (Fin (demo_rate d))"
proof -
  let ?rates = "replicate 20 (F (Fin (demo_rate d)))"
  have m: "mapE (load_round demo_world (slash d (group_name i)) i 64) (map (demo_row d i) [0 ..< 20]) = Inr ?rates"
    by (simp add: mapE_Inr list_all2_conv_all_nth demo_round [OF d] del: upt_rec_numeral)
  have o: "rounds_in_order (map (demo_row d i) [0 ..< 20]) = Inr True"
  proof -
    have g: "get (demo_row d i r) ''round'' = Inr (jint (int r))" for r by (simp add: demo_row_def dict_get_def)
    have "mapE (\<lambda>r. get r ''round'') (map (demo_row d i) [0 ..< 20]) = Inr (map (\<lambda>r. jint (int r)) [0 ..< 20])"
      by (simp add: mapE_Inr list_all2_conv_all_nth g del: upt_rec_numeral get_or.simps)
    moreover have "jeq_list (map (\<lambda>r. jint (int r)) rs) (map (\<lambda>r. jint (int r)) rs)" for rs :: "nat list"
      by (induction rs) auto
    ultimately show ?thesis by (simp add: rounds_in_order_def ROUNDS_def del: upt_rec_numeral)
  qed
  note stats = constant_stats [OF d, of 10, simplified]
  obtain v where "cv_of ?rates = Inr v" using stats(3) by blast
  then show ?thesis using m o stats(1,2) demo_rows [OF d i]
    by (simp add: load_group_def Let_def analysis_def ROUNDS_def del: upt_rec_numeral)
qed

lemma demo_arm:
  assumes d: "d = ''b'' \<or> d = ''c''"
  shows "\<exists>a. load_arm demo_world d (Some 64) = Inr a \<and> arm_payload a = 64 \<and> arm_sha a = JStr d \<and> arm_median a = F (Fin (demo_rate d))
     \<and> map grp_median (arm_groups a) = replicate 6 (F (Fin (demo_rate d)))
     \<and> map grp_rates (arm_groups a) = replicate 6 (replicate 20 (F (Fin (demo_rate d))))"
proof -
  let ?x = "F (Fin (demo_rate d))"
  have "\<forall>i \<in> {0, 1, 2, 3, 4, 5}. \<exists>g. load_group demo_world d 64 i = Inr g \<and> grp_rates g = replicate 20 ?x \<and> grp_median g = ?x"
    using demo_group [OF d] by blast
  from bchoice [OF this] obtain g where g: "\<forall>i \<in> {0, 1, 2, 3, 4, 5}. load_group demo_world d 64 i = Inr (g i) \<and> grp_rates (g i) = replicate 20 ?x \<and> grp_median (g i) = ?x"
    by blast
  let ?gs = "map g [0, 1, 2, 3, 4, 5]"
  have six: "[0 ..< GROUPS] = [0, 1, 2, 3, 4, 5]" by (simp add: GROUPS_def upt_rec)
  have gs: "mapE (load_group demo_world d 64) [0 ..< GROUPS] = Inr ?gs" unfolding six by (rule mapE_total) (use g in auto)
  have rates: "concat (map grp_rates ?gs) = replicate 120 ?x"
    using g by (simp flip: replicate_add)
  note stats = constant_stats [OF d, of 60, simplified]
  obtain v where v: "cv_of (replicate 120 ?x) = Inr v" using stats(3) by blast
  have e: "read_environment demo_world d = demo_json d" "verify_checksums demo_world d = Inr 1"
    using d demo_environment demo_checksums by auto
  have j: "demo_json d = Inr (JObj [(''messages_per_round'', jint 50000000), (''rate_per_producer'', jint 0),
       (''latency_sample_rate'', jint 0), (''payload_bytes'', jint 64), (''groups'', jint 6), (''rounds_per_group'', jint 20),
       (''capacity_bytes'', jint 1048576), (''client_sha256'', JStr d)])" using d by (auto simp: demo_json_def)
  have ig: "int GROUPS = 6" by (simp add: GROUPS_def)
  have r: "resolved demo_world d = d" using d by (auto simp: demo_world_def)
  have six_copies: "replicate 6 y = [y, y, y, y, y, y]" for y :: 'z by (simp add: eval_nat_numeral)
  show ?thesis unfolding load_arm_def Let_def r e j six_copies
    using gs rates v stats(1,2) g
    by (simp add: int_is_def dict_get_def analysis_def ig ROUNDS_def del: upt_rec_numeral)
qed

lemma arm_is_audited_witness:
  "\<exists>a. load_arm demo_world ''b'' (Some 64) = Inr a \<and> length (arm_rates a) = 120"
proof -
  obtain a where "load_arm demo_world ''b'' (Some 64) = Inr a" using demo_arm [of "''b''"] by blast
  then show ?thesis using arm_is_audited by blast
qed


end
