(* ===== verification/PyJson.thy ===== *)
theory PyJson
  imports PyStats
begin

text \<open>
  Prelude for the tools that read whole experiments: sets of documents (hashing a list or a
  dictionary raises \<open>TypeError\<close>), sorting records by a document key, the lines of a string
  document, and the event counters of a control group.  Membership and equality in a set are
  Python's \<open>==\<close> on its elements.
\<close>

section \<open>Sets of documents\<close>

fun hashable :: "json \<Rightarrow> bool" where
  "hashable (JList _) = False"
| "hashable (JObj _) = False"
| "hashable _ = True"

definition mem_json :: "json \<Rightarrow> json list \<Rightarrow> bool" where
  "mem_json v xs \<longleftrightarrow> (\<exists>x \<in> set xs. jeq x v)"

text \<open>\<open>set(xs)\<close>, first occurrences kept.\<close>

definition add_json :: "json \<Rightarrow> json list \<Rightarrow> json list" where
  "add_json v xs = (if mem_json v xs then xs else xs @ [v])"

definition json_set :: "json list \<Rightarrow> json list py" where
  "json_set xs = bindE (require (\<forall>x \<in> set xs. hashable x) TypeError) (\<lambda>_. Inr (fold add_json xs []))"

definition same_set :: "json list \<Rightarrow> json list \<Rightarrow> bool" where
  "same_set xs ys \<longleftrightarrow> (\<forall>x \<in> set xs. mem_json x ys) \<and> (\<forall>y \<in> set ys. mem_json y xs)"

text \<open>A tuple of hashable documents, as a set element.\<close>

definition tuple_json :: "json list \<Rightarrow> json py" where
  "tuple_json vs = bindE (require (\<forall>v \<in> set vs. hashable v) TypeError) (\<lambda>_. Inr (JList vs))"

lemma set_add_json: "set (add_json v xs) \<subseteq> insert v (set xs)" "set xs \<subseteq> set (add_json v xs)"
  by (auto simp: add_json_def)

lemma length_fold_add: "length (fold add_json xs ys) \<le> length ys + length xs"
proof (induction xs arbitrary: ys)
  case (Cons x xs)
  have "length (fold add_json xs (add_json x ys)) \<le> length (add_json x ys) + length xs" by (rule Cons)
  also have "length (add_json x ys) \<le> Suc (length ys)" by (simp add: add_json_def)
  finally show ?case by simp
qed simp

lemma set_fold_add: "set (fold add_json xs ys) \<subseteq> set xs \<union> set ys"
proof (induction xs arbitrary: ys)
  case (Cons x xs)
  show ?case using Cons [of "add_json x ys"] set_add_json(1) [of x ys] by auto
qed simp

section \<open>Sorting records by a key\<close>

fun insert_by :: "num \<times> 'a \<Rightarrow> (num \<times> 'a) list \<Rightarrow> (num \<times> 'a) list" where
  "insert_by x [] = [x]"
| "insert_by x (y # ys) = (if nlt (fst x) (fst y) then x # y # ys else y # insert_by x ys)"

definition sort_by_num :: "(num \<times> 'a) list \<Rightarrow> 'a list" where
  "sort_by_num xs = map snd (fold insert_by xs [])"

fun is_str :: "json \<Rightarrow> bool" where
  "is_str (JStr _) = True"
| "is_str _ = False"

fun str_of :: "json \<Rightarrow> string" where
  "str_of (JStr s) = s"
| "str_of _ = []"

text \<open>
  \<open>sorted(xs, key=...)\<close>: numbers by value, strings by code point, one element without any
  comparison; keys of different kinds, and keys without an order, raise \<open>TypeError\<close>.
\<close>

definition sort_rows :: "('a \<Rightarrow> json py) \<Rightarrow> 'a list \<Rightarrow> 'a list py" where
  "sort_rows key xs = bindE (mapE key xs) (\<lambda>ks.
     if length xs < 2 then Inr xs
     else if \<forall>k \<in> set ks. is_str k then Inr (map snd (sort_key fst (zip (map str_of ks) xs)))
     else bindE (mapE as_num ks) (\<lambda>ns. Inr (sort_by_num (zip ns xs))))"

lemma mset_insert_by [simp]: "mset (insert_by x ys) = add_mset x (mset ys)"
  by (induction x ys rule: insert_by.induct) auto

lemma mset_sort_by_num: "mset (sort_by_num xs) = mset (map snd xs)"
proof -
  have "mset (fold insert_by xs ys) = mset xs + mset ys" for ys :: "(num \<times> 'a) list"
    by (induction xs arbitrary: ys) auto
  from this [of "[]"] show ?thesis by (simp add: sort_by_num_def)
qed

lemma mset_sort_rows: "sort_rows key xs = Inr ys \<Longrightarrow> mset ys = mset xs"
  by (auto simp: sort_rows_def mset_sort_by_num dest!: mapE_length split: if_splits) (simp flip: mset_map)

text \<open>\<open>sorted(set(vs))\<close>, and the fields of a row.\<close>

definition sorted_set :: "json list \<Rightarrow> json list py" where
  "sorted_set vs = bindE (json_set vs) (sort_rows Inr)"

definition item_is :: "string \<Rightarrow> json \<Rightarrow> json \<Rightarrow> bool py" where
  "item_is k v row = bindE (getitem row k) (\<lambda>x. Inr (jeq x v))"

definition result_int :: "string \<Rightarrow> json \<Rightarrow> int py" where
  "result_int k row = bindE (getitem row ''result'') (\<lambda>r. bindE (getitem r k) to_int)"

lemma jeq_list_nth: "jeq_list xs ys \<Longrightarrow> length xs = length ys \<and> (\<forall>i < length ys. jeq (xs ! i) (ys ! i))"
proof (induction ys arbitrary: xs)
  case Nil then show ?case by (cases xs) auto
next
  case (Cons y ys) then show ?case by (cases xs) (auto simp: nth_Cons split: nat.splits)
qed

lemma filterE_set: "filterE p xs = Inr ys \<Longrightarrow> \<forall>y \<in> set ys. y \<in> set xs \<and> p y = Inr True"
  using filterE_Inr [of p xs ys] by auto

section \<open>Typed values\<close>

text \<open>\<open>isinstance(v, int) and not isinstance(v, bool)\<close>, and \<open>math.isfinite(x)\<close>, which converts to a double.\<close>

fun int_arg :: "json \<Rightarrow> int option" where
  "int_arg (JNum (I n)) = Some n"
| "int_arg _ = None"

definition finite_num :: "num \<Rightarrow> bool py" where
  "finite_num x = bindE (to_float x) (\<lambda>f. Inr (is_finite f))"

lemma int_arg_Some [simp]: "int_arg v = Some n \<longleftrightarrow> v = jint n"
  by (cases v rule: int_arg.cases) auto

text \<open>
  The interface of a loader: it raises, or returns a value that satisfies what it checks.  A
  comprehension over a loader returns only such values.
\<close>

locale loader =
  fixes load :: "'a \<Rightarrow> 'b py" and sound :: "'b \<Rightarrow> bool"
  assumes load_sound: "load x = Inr y \<Longrightarrow> sound y"
begin

lemma all_sound: "mapE load xs = Inr ys \<Longrightarrow> y \<in> set ys \<Longrightarrow> sound y"
  using mapE_set_D [of load xs ys y] load_sound by auto

lemma nth_sound: "mapE load xs = Inr ys \<Longrightarrow> i < length xs \<Longrightarrow> sound (ys ! i)"
  using mapE_nth [of load xs ys i] load_sound by auto

lemma filter_sound: "mapE load xs = Inr ys \<Longrightarrow> filterE p ys = Inr zs \<Longrightarrow> z \<in> set zs \<Longrightarrow> sound z"
  using filterE_set [of p ys zs] all_sound by auto

end

section \<open>Text documents\<close>

text \<open>\<open>v.splitlines()\<close>, and \<open>dict(item.split() for item in v.splitlines())\<close>.\<close>

fun lines_of :: "json \<Rightarrow> string list py" where
  "lines_of (JStr s) = Inr (splitlines s)"
| "lines_of _ = Inl AttributeError"

definition split_pair :: "string \<Rightarrow> (string \<times> string) py" where
  "split_pair s = (case split_words s of [k, v] \<Rightarrow> Inr (k, v)
     | _ \<Rightarrow> Inl (ValueError ''dictionary update sequence element''))"

definition event_counts :: "json \<Rightarrow> (string \<times> string) list py" where
  "event_counts v = bindE (lines_of v) (\<lambda>ls. bindE (mapE split_pair ls) (\<lambda>kvs. Inr (dict_of kvs)))"

definition counter_of :: "(string \<times> string) list \<Rightarrow> string \<Rightarrow> int py" where
  "counter_of d k = (case map_of d k of None \<Rightarrow> Inr 0 | Some s \<Rightarrow> str_int s)"

text \<open>\<open>any(int(events.get(name, 0)) for name in names)\<close>\<close>

definition any_event :: "string list \<Rightarrow> (string \<times> string) list \<Rightarrow> bool py" where
  "any_event names d = someE (\<lambda>k. bindE (counter_of d k) (\<lambda>n. Inr (n \<noteq> 0))) names"

lemma any_event_False: "any_event names d = Inr False \<longleftrightarrow> (\<forall>k \<in> set names. counter_of d k = Inr 0)"
  by (auto simp: any_event_def someE_False)

section \<open>Equality and sets of hashable documents\<close>

lemma jeq_common: "hashable x \<Longrightarrow> hashable x' \<Longrightarrow> hashable y \<Longrightarrow> jeq x y \<Longrightarrow> jeq x' y \<Longrightarrow> jeq x x'"
  by (cases x; cases x'; cases y) (auto simp: neq_def feq_def split: if_splits)

lemma jeq_sym_hash: "hashable x \<Longrightarrow> hashable y \<Longrightarrow> jeq x y \<Longrightarrow> jeq y x"
  by (cases x; cases y) (auto simp: neq_def feq_def)

lemma jeq_trans_hash: "hashable x \<Longrightarrow> hashable y \<Longrightarrow> hashable z \<Longrightarrow> jeq x y \<Longrightarrow> jeq y z \<Longrightarrow> jeq x z"
  using jeq_common [of x z y] jeq_sym_hash [of y z] by blast

lemma jeq_jint_hashable: "jeq v (jint n) \<Longrightarrow> hashable v"
  by (cases v) auto

lemma fold_add_covers: "x \<in> set xs \<union> set ys \<Longrightarrow> x \<in> set (fold add_json xs ys) \<or> mem_json x (fold add_json xs ys)"
proof (induction xs arbitrary: ys)
  case (Cons v xs)
  have keep: "y \<in> set (fold add_json xs zs)" if "y \<in> set zs" for y zs
    using that by (induction xs arbitrary: zs) (auto simp: add_json_def)
  consider "x \<in> set xs \<union> set (add_json v ys)" | "x = v" "mem_json v ys" using Cons.prems by (cases "mem_json v ys"; cases "x = v") (auto simp: add_json_def)
  then show ?case
  proof cases
    case 1 then show ?thesis using Cons.IH by simp
  next
    case 2
    then obtain y where "y \<in> set ys" "jeq y x" by (auto simp: mem_json_def)
    then have "y \<in> set (fold add_json xs (add_json v ys))" by (intro keep) (simp add: add_json_def)
    then show ?thesis using \<open>jeq y x\<close> unfolding mem_json_def fold_simps by blast
  qed
qed simp

lemma json_set_covers: "json_set xs = Inr ys \<Longrightarrow> x \<in> set xs \<Longrightarrow> hashable x \<and> (x \<in> set ys \<or> mem_json x ys)"
  using fold_add_covers [of x xs "[]"] by (auto simp: json_set_def bindE_Inr require_def split: if_splits)

lemma sorted_set_members: "sorted_set xs = Inr ys \<Longrightarrow> \<exists>zs. json_set xs = Inr zs \<and> set zs = set ys"
  unfolding sorted_set_def bindE_Inr using mset_sort_rows by (metis set_mset_mset)

section \<open>Arithmetic on documents\<close>

text \<open>\<open>n * v\<close> for an integer and a document: sequences are repeated.\<close>

fun times_json :: "int \<Rightarrow> json \<Rightarrow> json py" where
  "times_json n (JNum x) = bindE (nmul (I n) x) (\<lambda>y. Inr (JNum y))"
| "times_json n (JBool b) = Inr (jint (if b then n else 0))"
| "times_json n (JStr s) = Inr (JStr (concat (replicate (nat n) s)))"
| "times_json n (JList xs) = Inr (JList (concat (replicate (nat n) xs)))"
| "times_json n _ = Inl TypeError"

text \<open>\<open>x * y\<close> of two documents; a boolean counts as an integer.\<close>

fun whole_number :: "json \<Rightarrow> int option" where
  "whole_number (JNum (I n)) = Some n"
| "whole_number (JBool b) = Some (if b then 1 else 0)"
| "whole_number _ = None"

definition mul_json :: "json \<Rightarrow> json \<Rightarrow> json py" where
  "mul_json x y = (case (whole_number x, whole_number y) of
     (Some n, _) \<Rightarrow> times_json n y
   | (None, Some n) \<Rightarrow> times_json n x
   | (None, None) \<Rightarrow> bindE (as_num x) (\<lambda>a. bindE (as_num y) (\<lambda>b. bindE (nmul a b) (\<lambda>p. Inr (JNum p)))))"

text \<open>\<open>x // y\<close> of two doubles: the interpreter subtracts the exact remainder, divides and corrects.\<close>

fun floor_float :: "pyfloat \<Rightarrow> pyfloat" where
  "floor_float (Fin q) = (let f = of_int \<lfloor>q\<rfloor> in if 1 / 2 < q - f then rnd (f + 1) else Fin f)"
| "floor_float x = x"

definition exact_fmod :: "rat \<Rightarrow> rat \<Rightarrow> rat" where
  "exact_fmod x y = (let k = of_int \<lfloor>\<bar>x / y\<bar>\<rfloor> in if 0 \<le> x / y then x - y * k else x + y * k)"

fun ffloordiv :: "pyfloat \<Rightarrow> pyfloat \<Rightarrow> pyfloat" where
  "ffloordiv (Fin x) (Fin y) = (let m = exact_fmod x y; d = fdiv (rnd (x - m)) (Fin y) in
     floor_float (if m \<noteq> 0 \<and> (y < 0) \<noteq> (m < 0) then fsub d (Fin 1) else d))"
| "ffloordiv (Fin x) PInf = (if x < 0 then Fin (- 1) else Fin 0)"
| "ffloordiv (Fin x) NInf = (if 0 < x then Fin (- 1) else Fin 0)"
| "ffloordiv _ _ = NaN"

definition nfloordiv :: "num \<Rightarrow> num \<Rightarrow> num py" where
  "nfloordiv x y = (case (x, y) of
     (I m, I n) \<Rightarrow> if n = 0 then Inl ZeroDivisionError else Inr (I (m div n))
   | _ \<Rightarrow> bindE (to_float x) (\<lambda>a. bindE (to_float y) (\<lambda>b. if feq b (Fin 0) then Inl ZeroDivisionError else Inr (F (ffloordiv a b)))))"

end
