(* ===== verification/ClaimV4.thy ===== *)
theory ClaimV4
  imports ThroughputAB PyJson
begin

text \<open>
  \<open>analyze_claim_v4_ab.py\<close>: the three-arm product comparison B (v3), S (v4, sequential fence) and
  A (v4, default fence).  The experiment manifest with its block ledger, the throughput arms
  and the latency cases are verified before any number is used; rounds are never pooled across
  arms.  The report text (\<open>markdown\<close>) and the files \<open>analyze\<close> writes are not modelled.
\<close>

section \<open>The frozen protocol\<close>

definition ARMS :: "string list" where "ARMS = [''B'', ''S'', ''A'']"
definition PAYLOADS :: "int list" where "PAYLOADS = [64, 256]"
definition LATENCY_ORIGINS :: "string list" where "LATENCY_ORIGINS = [''attempt'', ''planned'']"
definition METRICS :: "string list" where "METRICS = [''p50'', ''p99'', ''p999'']"
definition LATENCY_ROUNDS :: nat where "LATENCY_ROUNDS = 10"

definition COMPARISONS :: "(string \<times> string \<times> string) list" where
  "COMPARISONS = [(''claim_api_S_vs_B'', ''S'', ''B''), (''fence_A_vs_S'', ''A'', ''S''), (''combined_A_vs_B'', ''A'', ''B'')]"

definition arm_directory_of :: "string \<Rightarrow> string" where
  "arm_directory_of arm = (if arm = ''B'' then ''baseline'' else if arm = ''S'' then ''candidate-sequential-fence''
     else ''candidate-default-fence'')"

definition fence_environment :: "string \<Rightarrow> json" where
  "fence_environment arm = JList (if arm = ''S'' then [JStr ''SALIAS_DISABLE_ASYMMETRIC_FENCE=1''] else [])"

definition strs :: "string list \<Rightarrow> json" where "strs ss = JList (map JStr ss)"
definition ints :: "int list \<Rightarrow> json" where "ints ns = JList (map jint ns)"

definition all_equal :: "json \<Rightarrow> (string \<times> json) list \<Rightarrow> bool py" where
  "all_equal d kvs = bindE (mapE (\<lambda>(k, v). bindE (get d k) (\<lambda>x. Inr (jeq x v))) kvs) (\<lambda>bs. Inr (False \<notin> set bs))"

section \<open>The block ledger\<close>

definition cross :: "'a list \<Rightarrow> 'b list \<Rightarrow> ('a \<times> 'b) list" where
  "cross xs ys = concat (map (\<lambda>x. map (Pair x) ys) xs)"

definition expected_throughput :: "json list" where
  "expected_throughput = map (\<lambda>(p, a, g). JList [JStr ''throughput'', jint p, JStr a, jint (int g)]) (cross PAYLOADS (cross ARMS [0 ..< GROUPS]))"

definition expected_latency :: "json list" where
  "expected_latency = map (\<lambda>(p, q). JList [JStr ''latency'', jint p, JStr q, JNull]) (cross PAYLOADS LATENCY_ORIGINS)"

definition observe_block :: "json \<Rightarrow> json list \<times> json list \<Rightarrow> (json list \<times> json list) py" where
  "observe_block block seen =
     bindE (get block ''returncode'') (\<lambda>rc. bindE (analysis (jeq rc (jint 0)) ''experiment block failed'') (\<lambda>_.
     bindE (get block ''kind'') (\<lambda>kind. bindE (get block ''payload'') (\<lambda>payload.
     if jeq kind (JStr ''throughput'') then
       bindE (get block ''arm'') (\<lambda>a. bindE (get block ''group'') (\<lambda>g.
       bindE (tuple_json [kind, payload, a, g]) (\<lambda>t. Inr (add_json t (fst seen), snd seen))))
     else if jeq kind (JStr ''latency'') then
       bindE (get block ''origin'') (\<lambda>q.
       bindE (tuple_json [kind, payload, q, JNull]) (\<lambda>t. Inr (fst seen, add_json t (snd seen))))
     else Inl (AnalysisError ''unknown experiment block kind'')))))"

definition verify_blocks :: "json \<Rightarrow> unit py" where
  "verify_blocks data = bindE (get data ''blocks'') (\<lambda>blocks. case blocks of
     JList bs \<Rightarrow> bindE (get data ''finished'') (\<lambda>fin.
       bindE (analysis (truthy fin) ''experiment is not finished or has no block ledger'') (\<lambda>_.
       bindE (foldE observe_block bs ([], [])) (\<lambda>(thr, lat).
       bindE (analysis (same_set thr expected_throughput \<and> int (length thr) = int (length bs) - int (length expected_latency))
          ''throughput block ledger is incomplete or duplicated'') (\<lambda>_.
       analysis (same_set lat expected_latency) ''latency block ledger is incomplete or duplicated''))))
   | _ \<Rightarrow> Inl (AnalysisError ''experiment is not finished or has no block ledger''))"

section \<open>The experiment manifest\<close>

text \<open>\<open>sorted(xs) == [..]\<close> for a list of numbers.\<close>

definition sorted_is :: "json list \<Rightarrow> int list \<Rightarrow> bool py" where
  "sorted_is xs ns = bindE (sort_rows (\<lambda>x. Inr x) xs) (\<lambda>ys. Inr (jeq (JList ys) (ints ns)))"

definition expected_sequence :: json where
  "expected_sequence = JList (map (\<lambda>g. strs (map (\<lambda>a. a @ show_int (int g)) (if even g then ARMS else rev ARMS))) [0 ..< GROUPS])"

definition check_client :: "json \<Rightarrow> string \<Rightarrow> unit py" where
  "check_client clients arm = bindE (getitem clients arm) (\<lambda>client.
     bindE (get client ''environment'') (\<lambda>e. bindE (analysis (jeq e (fence_environment arm)) ''unexpected environment'') (\<lambda>_.
     bindE (get client ''path'') (\<lambda>p. analysis (is_str p \<and> truthy p) ''arm has no client path''))))"

definition client_path :: "json \<Rightarrow> string \<Rightarrow> string py" where
  "client_path clients arm = bindE (getitem clients arm) (\<lambda>c. bindE (getitem c ''path'') as_str)"

definition check_clients :: "world \<Rightarrow> json \<Rightarrow> unit py" where
  "check_clients w clients = bindE (as_list clients) (\<lambda>names. bindE (json_set names) (\<lambda>names.
     bindE (analysis (same_set names (map JStr ARMS)) ''experiment must contain B, S and A clients'') (\<lambda>_.
     bindE (mapE (check_client clients) ARMS) (\<lambda>_.
     bindE (client_path clients ''S'') (\<lambda>s. bindE (client_path clients ''A'') (\<lambda>a. bindE (client_path clients ''B'') (\<lambda>b.
     bindE (analysis (s = a) ''sequential and default fence arms must use the same v4 client'') (\<lambda>_.
     analysis (resolved w b \<noteq> resolved w s) ''baseline and candidate executable paths are identical''))))))))"

definition check_throughput_matrix :: "json \<Rightarrow> unit py" where
  "check_throughput_matrix throughput =
     bindE (all_equal throughput [(''groups'', jint (int GROUPS)), (''rounds_per_group'', jint (int ROUNDS)),
        (''messages_per_round'', jint MESSAGES), (''capacity_bytes'', jint 1048576)]) (\<lambda>same.
     bindE (analysis same ''throughput matrix differs from the frozen protocol'') (\<lambda>_.
     bindE (get_or throughput ''payloads'' (JList [])) (\<lambda>p. bindE (as_list p) (\<lambda>ps. bindE (sorted_is ps PAYLOADS) (\<lambda>ok.
     bindE (analysis ok ''throughput payloads must be exactly 64 B and 256 B'') (\<lambda>_.
     bindE (get throughput ''sequence'') (\<lambda>sq. analysis (jeq sq expected_sequence) ''throughput arm order is not the pre-registered rotation'')))))))"

definition load_experiment :: "world \<Rightarrow> string \<Rightarrow> json py" where
  "load_experiment w path = (let manifest = (if is_file w path then path else slash path ''experiment.json'') in
     bindE (read_text w manifest) (\<lambda>t. bindE (json_loads w t) (\<lambda>data.
     bindE (all_equal data [(''protocol'', JStr ''p3-claim-api-v4-formal-ab-v1'')]) (\<lambda>ok.
     bindE (analysis ok ''experiment is not the claim API v4 formal protocol'') (\<lambda>_.
     bindE (all_equal data [(''mode'', JStr ''formal'')]) (\<lambda>ok.
     bindE (analysis ok ''smoke results are not acceptance evidence'') (\<lambda>_.
     bindE (get_or data ''throughput'' (JObj [])) (\<lambda>throughput. bindE (get_or data ''latency'' (JObj [])) (\<lambda>latency.
     bindE (check_throughput_matrix throughput) (\<lambda>_.
     bindE (everyE (\<lambda>(k, v). bindE (get latency k) (\<lambda>x. Inr (jeq x v)))
        [(''payloads'', ints PAYLOADS), (''origins'', strs LATENCY_ORIGINS), (''rounds'', jint (int LATENCY_ROUNDS)),
         (''rate_per_producer'', jint 1000000)]) (\<lambda>ok.
     bindE (analysis ok ''latency matrix differs from the frozen protocol'') (\<lambda>_.
     bindE (get_or data ''clients'' (JObj [])) (\<lambda>clients. bindE (check_clients w clients) (\<lambda>_.
     bindE (verify_blocks data) (\<lambda>_. Inr data)))))))))))))))"

section \<open>One throughput arm\<close>

definition parse_round_line :: "string \<Rightarrow> (string \<times> string) list py" where
  "parse_round_line line = bindE (analysis (starts_with line ''RESULT '') ''not a RESULT line'') (\<lambda>_.
     foldE (\<lambda>field fs. case partition_at ''='' field of (key, found, v) \<Rightarrow>
       bindE (analysis (found \<and> map_of fs key = None) ''malformed RESULT field'') (\<lambda>_. Inr (dict_put key v fs)))
     (tl (split_words line)) [])"

definition expected_fields_v4 :: "int \<Rightarrow> (string \<times> string) list" where
  "expected_fields_v4 payload = [(''library'', ''salias-ipc''), (''scenario'', ''fifo''), (''producers'', ''1''),
     (''consumers'', ''2''), (''payload'', show_int payload), (''capacity'', ''1048576''), (''batch_size'', ''1''),
     (''poll_limit'', ''64''), (''published'', ''50000000''), (''delivered'', ''100000000''),
     (''latency_sample_rate'', ''0''), (''rate_per_producer'', ''0'')]"

text \<open>\<open>math.isclose(a, b, abs_tol=t)\<close> with the default relative tolerance.\<close>

definition isclose :: "pyfloat \<Rightarrow> pyfloat \<Rightarrow> pyfloat \<Rightarrow> bool" where
  "isclose a b t \<longleftrightarrow> feq a b \<or> (a \<notin> {PInf, NInf} \<and> b \<notin> {PInf, NInf} \<and>
     (let d = fabs (fsub b a); rel = rnd (1 / 10 ^ 9) in fle d (fabs (fmul rel b)) \<or> fle d (fabs (fmul rel a)) \<or> fle d t))"

definition one_result :: "world \<Rightarrow> string \<Rightarrow> (string \<times> string) list py" where
  "one_result w stdout_path = bindE (read_text w stdout_path) (\<lambda>t. let found = result_lines t in
     bindE (analysis (length found = 1) ''expected one RESULT line'') (\<lambda>_. parse_round_line (hd found)))"

definition verify_round_v4 :: "world \<Rightarrow> json \<Rightarrow> string \<Rightarrow> int \<Rightarrow> num py" where
  "verify_round_v4 w row stdout_path payload =
     bindE (one_result w stdout_path) (\<lambda>fs.
     bindE (analysis (\<forall>(k, v) \<in> set (expected_fields_v4 payload). map_of fs k = Some v) ''RESULT mismatch'') (\<lambda>_.
     bindE (published_rate fs) (\<lambda>rate.
     bindE (getitem row ''publish_mmsg_s'') (\<lambda>v. bindE (jfloat v) (\<lambda>recorded.
     bindE (analysis (isclose rate recorded (rnd (1 / 10 ^ 6))) ''RESULT/JSON throughput mismatch'') (\<lambda>_. Inr (F rate)))))))"

definition verify_arm_environment :: "world \<Rightarrow> string \<Rightarrow> string \<Rightarrow> json py" where
  "verify_arm_environment w directory arm =
     bindE (read_text w (slash directory ''environment.json'')) (\<lambda>t. bindE (json_loads w t) (\<lambda>environment.
     bindE (all_equal environment [(''environment_variables'', fence_environment arm)]) (\<lambda>ok.
     bindE (analysis ok ''environment does not match its declared shape'') (\<lambda>_.
     bindE (mapE (\<lambda>(k, n). bindE (get environment k) (\<lambda>v. analysis (jeq v (jint n)) ''environment value is incorrect''))
        [(''capacity_bytes'', 1048576), (''groups'', int GROUPS), (''rounds_per_group'', int ROUNDS),
         (''messages_per_round'', MESSAGES), (''rate_per_producer'', 0), (''latency_sample_rate'', 0)]) (\<lambda>_. Inr environment)))))"

definition check_listed :: "world \<Rightarrow> string \<Rightarrow> string \<Rightarrow> unit py" where
  "check_listed w directory line = (let target = slash directory (drop 66 line) in
     bindE (analysis (67 \<le> length line \<and> take 2 (drop 64 line) = ''  '') ''malformed SHA256SUMS'') (\<lambda>_.
     bindE (analysis (is_file w target) ''SHA256SUMS verification failed'') (\<lambda>_.
     bindE (file_sha w target) (\<lambda>h. analysis (h = take 64 line) ''SHA256SUMS verification failed''))))"

definition memory_names :: "string list" where
  "memory_names = [''high'', ''max'', ''oom'', ''oom_kill'']"

definition load_round_v4 :: "world \<Rightarrow> string \<Rightarrow> nat \<Rightarrow> int \<Rightarrow> json \<Rightarrow> num py" where
  "load_round_v4 w group_dir i payload row =
     bindE (get row ''group'') (\<lambda>g. bindE (get row ''arm'') (\<lambda>a.
     bindE (analysis (jeq g (jint (int i)) \<and> \<not> truthy a) ''group metadata is invalid'') (\<lambda>_.
     bindE (get row ''payload'') (\<lambda>p. bindE (analysis (p = JNull \<or> jeq p (jint payload)) ''group payload is invalid'') (\<lambda>_.
     bindE (get_or row ''cgroup_after'' (JObj [])) (\<lambda>c. bindE (get_or c ''memory_events'' (JStr [])) (\<lambda>m.
     bindE (event_counts m) (\<lambda>events. bindE (any_event memory_names events) (\<lambda>bad.
     bindE (analysis (\<not> bad) ''memory pressure invalidates the group'') (\<lambda>_.
     bindE (getitem row ''stdout'') (\<lambda>o'. bindE (as_str o') (\<lambda>name. verify_round_v4 w row (slash group_dir name) payload))))))))))))"

record v4_group =
  v4_index :: nat
  v4_median :: num
  v4_mean :: num
  v4_rates :: "num list"

record v4_arm =
  v4_sha :: json
  v4_groups :: "v4_group list"
  v4_arm_median :: num
  v4_arm_mean :: num
  v4_all_rates :: "num list"

definition load_group_v4 :: "world \<Rightarrow> string \<Rightarrow> int \<Rightarrow> nat \<Rightarrow> v4_group py" where
  "load_group_v4 w directory payload i = (let group_dir = slash directory (group_name i) in
     bindE (load_rows w (slash group_dir ''results.jsonl'')) (\<lambda>rows.
     bindE (analysis (length rows = ROUNDS) ''group is incomplete'') (\<lambda>_.
     bindE (rounds_in_order rows) (\<lambda>ordered. bindE (analysis ordered ''group round order is invalid'') (\<lambda>_.
     bindE (mapE (load_round_v4 w group_dir i payload) rows) (\<lambda>rates.
     bindE (median rates) (\<lambda>md. bindE (mean rates) (\<lambda>mn.
     Inr \<lparr>v4_index = i, v4_median = md, v4_mean = mn, v4_rates = rates\<rparr>))))))))"

definition load_throughput_arm :: "world \<Rightarrow> string \<Rightarrow> string \<Rightarrow> int \<Rightarrow> v4_arm py" where
  "load_throughput_arm w directory arm payload =
     bindE (verify_arm_environment w directory arm) (\<lambda>environment.
     bindE (get environment ''payload_bytes'') (\<lambda>p. bindE (analysis (jeq p (jint payload)) ''arm payload differs'') (\<lambda>_.
     bindE (analysis (is_file w (slash directory ''SHA256SUMS'')) ''missing SHA256SUMS'') (\<lambda>_.
     bindE (read_text w (slash directory ''SHA256SUMS'')) (\<lambda>t.
     bindE (mapE (check_listed w directory) (filter (\<lambda>l. strip l \<noteq> []) (splitlines t))) (\<lambda>_.
     bindE (mapE (load_group_v4 w directory payload) [0 ..< GROUPS]) (\<lambda>gs. let rates = concat (map v4_rates gs) in
     bindE (get environment ''client_sha256'') (\<lambda>sha. bindE (median rates) (\<lambda>md. bindE (mean rates) (\<lambda>mn.
     Inr \<lparr>v4_sha = sha, v4_groups = gs, v4_arm_median = md, v4_arm_mean = mn, v4_all_rates = rates\<rparr>))))))))))"

section \<open>Latency arms\<close>

text \<open>Pooled nowhere: the counts, the output identity and the reported fields of every record.\<close>

definition get_int :: "json \<Rightarrow> string \<Rightarrow> int \<Rightarrow> int py" where
  "get_int d k n = bindE (get_or d k (jint n)) to_int"

definition item_int :: "json \<Rightarrow> string \<Rightarrow> int py" where
  "item_int d k = bindE (getitem d k) to_int"

definition pyfloordiv :: "int \<Rightarrow> int \<Rightarrow> int py" where
  "pyfloordiv a b = (if b = 0 then Inl ZeroDivisionError else Inr (a div b))"

definition field_json :: "(string \<times> string) list \<Rightarrow> string \<Rightarrow> json" where
  "field_json fs k = (case map_of fs k of None \<Rightarrow> JNull | Some v \<Rightarrow> JStr v)"

definition check_latency_record :: "world \<Rightarrow> string \<Rightarrow> json \<Rightarrow> unit py" where
  "check_latency_record w path row =
     bindE (getitem row ''resources'') (\<lambda>res. bindE (getitem res ''memory.events'') (\<lambda>m.
     bindE (event_counts m) (\<lambda>events. bindE (any_event memory_names events) (\<lambda>bad.
     bindE (analysis (\<not> bad) ''memory pressure invalidates latency arm'') (\<lambda>_.
     bindE (getitem row ''result'') (\<lambda>result.
     bindE (item_int row ''rate'') (\<lambda>rate. bindE (item_int row ''duration_s'') (\<lambda>duration. let expected = rate * duration in
     bindE (item_int row ''producers'') (\<lambda>producers.
     bindE (pyfloordiv expected producers) (\<lambda>each. let samples = producers * ((each + 15) div 16) in
     bindE (everyE (\<lambda>(k, n). bindE (get_int result k (- 1)) (\<lambda>x. Inr (x = n)))
        [(''published'', expected), (''delivered'', expected), (''latency_samples'', samples)]) (\<lambda>ok.
     bindE (analysis ok ''latency counts are invalid'') (\<lambda>_.
     bindE (getitem row ''stdout'') (\<lambda>o'. bindE (as_str o') (\<lambda>name. let stdout = slash (path_parent path) name in
     bindE (analysis (is_file w stdout) ''latency stdout identity is invalid'') (\<lambda>_.
     bindE (file_sha w stdout) (\<lambda>h. bindE (get row ''stdout_sha256'') (\<lambda>want.
     bindE (analysis (jeq (JStr h) want) ''latency stdout identity is invalid'') (\<lambda>_.
     bindE (one_result w stdout) (\<lambda>fs.
     bindE (as_items result) (\<lambda>items. bindE (mapE (\<lambda>(k, v). analysis (jeq (field_json fs k) v) ''latency RESULT mismatch'') items) (\<lambda>_.
     Inr ())))))))))))))))))))))"

record origin_stats =
  med_ns :: "(string \<times> num) list"
  range_ns :: "(string \<times> num \<times> num) list"

definition metric_values :: "json list \<Rightarrow> string \<Rightarrow> num list py" where
  "metric_values rows metric = mapE (\<lambda>r. bindE (getitem r ''result'') (\<lambda>x.
     bindE (item_int x (''latency_'' @ metric @ ''_ns'')) (\<lambda>n. Inr (I n)))) rows"

definition origin_stats_of :: "json list \<Rightarrow> origin_stats py" where
  "origin_stats_of rows =
     bindE (mapE (\<lambda>m. bindE (metric_values rows m) (\<lambda>ns. bindE (median ns) (\<lambda>x. Inr (m, x)))) METRICS) (\<lambda>meds.
     bindE (mapE (\<lambda>m. bindE (metric_values rows m) (\<lambda>ns. bindE (num_min ns) (\<lambda>l. bindE (num_max ns) (\<lambda>h. Inr (m, l, h))))) METRICS) (\<lambda>rs.
     Inr \<lparr>med_ns = meds, range_ns = rs\<rparr>))"

definition with_value :: "string \<Rightarrow> string \<Rightarrow> json list \<Rightarrow> json list py" where
  "with_value k v rows = filterE (\<lambda>r. bindE (get r k) (\<lambda>x. Inr (jeq x (JStr v)))) rows"

definition load_origin :: "json list \<Rightarrow> string \<Rightarrow> (string \<times> origin_stats) list py" where
  "load_origin measured origin =
     bindE (filterE (\<lambda>r. bindE (getitem r ''origin'') (\<lambda>x. Inr (jeq x (JStr origin)))) measured) (\<lambda>found.
     bindE (sort_rows (\<lambda>r. getitem r ''round'') found) (\<lambda>source.
     if source = [] then Inr []
     else bindE (mapE (\<lambda>r. getitem r ''round'') source) (\<lambda>ks.
       bindE (analysis (jeq (JList ks) (ints [1 .. int LATENCY_ROUNDS])) ''latency arm is incomplete'') (\<lambda>_.
       bindE (origin_stats_of source) (\<lambda>st. Inr [(origin, st)])))))"

definition load_latency_arm :: "world \<Rightarrow> json list \<Rightarrow> string \<Rightarrow> string \<Rightarrow> (string \<times> origin_stats) list py" where
  "load_latency_arm w all_rows path arm =
     bindE (with_value ''arm'' arm all_rows) (\<lambda>rows.
     bindE (analysis (rows \<noteq> []) ''latency arm is empty'') (\<lambda>_.
     bindE (with_value ''phase'' ''measured'' rows) (\<lambda>measured.
     bindE (mapE (\<lambda>r. get r ''client_sha256'') rows) (\<lambda>hs. bindE (json_set hs) (\<lambda>hs.
     bindE (analysis (length hs = 1 \<and> JNull \<notin> set hs) ''latency arm mixes client identities'') (\<lambda>_.
     bindE (mapE (check_latency_record w path) rows) (\<lambda>_.
     bindE (mapE (load_origin measured) LATENCY_ORIGINS) (\<lambda>parts. Inr (concat parts)))))))))"

definition all_have :: "string \<Rightarrow> json \<Rightarrow> json list \<Rightarrow> bool py" where
  "all_have k v rows = everyE (\<lambda>r. bindE (get r k) (\<lambda>x. Inr (jeq x v))) rows"

definition fence_object :: "string \<Rightarrow> json" where
  "fence_object arm = JObj (if arm = ''S'' then [(''SALIAS_DISABLE_ASYMMETRIC_FENCE'', JStr ''1'')] else [])"

definition load_case_arm :: "world \<Rightarrow> string \<Rightarrow> string \<Rightarrow> json list \<Rightarrow> string \<Rightarrow> (string \<times> (string \<times> origin_stats) list) py" where
  "load_case_arm w path expected_origin rows arm =
     bindE (with_value ''arm'' arm rows) (\<lambda>arm_rows.
     bindE (load_latency_arm w arm_rows path arm) (\<lambda>values.
     bindE (analysis (set (map fst values) = {expected_origin}) ''latency case mixes origins'') (\<lambda>_.
     bindE (all_have ''arm_environment'' (fence_object arm) arm_rows) (\<lambda>ok.
     bindE (analysis ok ''latency arm has the wrong fence environment'') (\<lambda>_. Inr (arm, values))))))"

definition identities :: "json list \<Rightarrow> string \<Rightarrow> json list py" where
  "identities rows arm = bindE (with_value ''arm'' arm rows) (\<lambda>rs.
     bindE (mapE (\<lambda>r. get r ''client_sha256'') rs) json_set)"

definition load_latency_case :: "world \<Rightarrow> string \<Rightarrow> (string \<times> (string \<times> origin_stats) list) list py" where
  "load_latency_case w directory = (let name = base_name directory; path = slash directory ''results.jsonl'' in
     (case partition_at ''-'' name of (front, found, expected_origin) \<Rightarrow>
     bindE (require found IndexError) (\<lambda>_.
     bindE (str_int (fst (partition_at ''b-'' name))) (\<lambda>payload.
     bindE (analysis (is_file w path) ''missing latency case'') (\<lambda>_.
     bindE (load_rows w path) (\<lambda>rows.
     bindE (mapE (\<lambda>r. get r ''arm'') rows) (\<lambda>as. bindE (json_set as) (\<lambda>as.
     bindE (analysis (same_set as (map JStr ARMS)) ''latency case does not contain exactly B, S and A'') (\<lambda>_.
     bindE (all_have ''origin'' (JStr expected_origin) rows) (\<lambda>ok. bindE (analysis ok ''latency case mixes origins'') (\<lambda>_.
     bindE (all_have ''engine'' (JStr ''fifo'') rows) (\<lambda>ok. bindE (analysis ok ''latency case is not FIFO'') (\<lambda>_.
     bindE (all_have ''payload'' (jint payload) rows) (\<lambda>ok. bindE (analysis ok ''latency case mixes payload sizes'') (\<lambda>_.
     bindE (mapE (load_case_arm w path expected_origin rows) ARMS) (\<lambda>arms.
     bindE (identities rows ''B'') (\<lambda>b. bindE (identities rows ''S'') (\<lambda>s. bindE (identities rows ''A'') (\<lambda>a.
     bindE (analysis (same_set s a) ''latency S and A must use the same v4 executable'') (\<lambda>_.
     bindE (analysis (\<not> (\<exists>x \<in> set b. mem_json x s)) ''latency baseline and candidate identities overlap'') (\<lambda>_.
     Inr arms)))))))))))))))))))))"

section \<open>Comparisons\<close>

text \<open>The module repeats the permutation test and the bootstrap of the E1 comparison.\<close>

definition permutation_test_v4 :: "num list \<Rightarrow> num list \<Rightarrow> permutation py" where
  "permutation_test_v4 = permutation_test"

definition bootstrap_interval_v4 :: "(nat \<Rightarrow> nat) \<Rightarrow> nat \<Rightarrow> num list list \<Rightarrow> num list list \<Rightarrow> interval py" where
  "bootstrap_interval_v4 = bootstrap_interval"

record v4_comparison =
  cmp_candidate :: string
  cmp_baseline :: string
  cmp_candidate_median :: num
  cmp_baseline_median :: num
  cmp_ratio :: num
  cmp_percent :: num
  cmp_directions :: nat
  cmp_permutation :: permutation
  cmp_bootstrap :: interval

definition direction_count :: "v4_group list \<Rightarrow> v4_group list \<Rightarrow> nat" where
  "direction_count candidate baseline = length (filter (\<lambda>(c, b). nlt (v4_median b) (v4_median c)) (zip candidate baseline))"

definition lookup :: "('k \<times> 'v) list \<Rightarrow> 'k \<Rightarrow> 'v py" where
  "lookup d k = (case map_of d k of None \<Rightarrow> Inl KeyError | Some v \<Rightarrow> Inr v)"

definition compare_pair_v4 :: "(nat \<Rightarrow> nat) \<Rightarrow> (string \<times> v4_arm) list \<Rightarrow> string \<times> string \<times> string \<Rightarrow> (string \<times> v4_comparison) py" where
  "compare_pair_v4 pick arm_data lcb = (case lcb of (label, candidate_arm, baseline_arm) \<Rightarrow>
     bindE (lookup arm_data candidate_arm) (\<lambda>c. bindE (lookup arm_data baseline_arm) (\<lambda>b.
     bindE (ndiv (v4_arm_median c) (v4_arm_median b)) (\<lambda>ratio.
     bindE (permutation_test_v4 (map v4_median (v4_groups b)) (map v4_median (v4_groups c))) (\<lambda>perm.
     bindE (nsub ratio (I 1)) (\<lambda>d. bindE (nmul d (I 100)) (\<lambda>percent.
     bindE (bootstrap_interval_v4 pick BOOTSTRAP_SAMPLES (map v4_rates (v4_groups b)) (map v4_rates (v4_groups c))) (\<lambda>boot.
     Inr (label, \<lparr>cmp_candidate = candidate_arm, cmp_baseline = baseline_arm, cmp_candidate_median = v4_arm_median c,
       cmp_baseline_median = v4_arm_median b, cmp_ratio = ratio, cmp_percent = percent,
       cmp_directions = direction_count (v4_groups c) (v4_groups b), cmp_permutation = perm, cmp_bootstrap = boot\<rparr>)))))))))"

definition compare_throughput :: "(nat \<Rightarrow> nat) \<Rightarrow> (string \<times> v4_arm) list \<Rightarrow> (string \<times> v4_comparison) list py" where
  "compare_throughput pick arm_data = mapE (compare_pair_v4 pick arm_data) COMPARISONS"

definition throughput_decision :: "int \<Rightarrow> v4_comparison \<Rightarrow> string" where
  "throughput_decision payload c =
     (if payload \<noteq> 64 then ''DESCRIPTIVE''
      else if nle (flit (5 / 4)) (cmp_ratio c) \<and> nlt (p_value (cmp_permutation c)) (flit (1 / 100)) \<and> 5 \<le> cmp_directions c then ''GO''
      else if nlt (cmp_ratio c) (flit (11 / 10)) \<or> nle (flit (1 / 20)) (p_value (cmp_permutation c)) then ''NO-GO''
      else ''INCONCLUSIVE'')"

record metric_row =
  candidate_ns :: num
  baseline_ns :: num
  ns_ratio :: num
  candidate_range :: "num \<times> num"
  baseline_range :: "num \<times> num"

type_synonym latency_data = "(string \<times> (string \<times> origin_stats) list) list"

definition stats_at :: "latency_data \<Rightarrow> string \<Rightarrow> string \<Rightarrow> origin_stats py" where
  "stats_at data arm origin = bindE (lookup data arm) (\<lambda>d. lookup d origin)"

definition compare_metric :: "latency_data \<Rightarrow> string \<Rightarrow> string \<Rightarrow> string \<Rightarrow> string \<Rightarrow> metric_row py" where
  "compare_metric data c b origin metric =
     bindE (stats_at data c origin) (\<lambda>x. bindE (stats_at data b origin) (\<lambda>y.
     bindE (lookup (med_ns x) metric) (\<lambda>m. bindE (lookup (med_ns y) metric) (\<lambda>n.
     bindE (ndiv m n) (\<lambda>r.
     bindE (lookup (range_ns x) metric) (\<lambda>p. bindE (lookup (range_ns y) metric) (\<lambda>q.
     Inr \<lparr>candidate_ns = m, baseline_ns = n, ns_ratio = r, candidate_range = p, baseline_range = q\<rparr>)))))))"

definition compare_latency :: "latency_data \<Rightarrow> (string \<times> (string \<times> (string \<times> metric_row) list) list) list py" where
  "compare_latency data = mapE (\<lambda>(label, c, b).
     bindE (mapE (\<lambda>origin. bindE (mapE (\<lambda>metric. bindE (compare_metric data c b origin metric) (\<lambda>r. Inr (metric, r))) METRICS)
        (\<lambda>rs. Inr (origin, rs))) LATENCY_ORIGINS) (\<lambda>os. Inr (label, os))) COMPARISONS"

section \<open>The whole analysis\<close>

definition declared_sha :: "json \<Rightarrow> string \<Rightarrow> json py" where
  "declared_sha data arm = bindE (getitem data ''clients'') (\<lambda>c. bindE (getitem c arm) (\<lambda>x. getitem x ''sha256''))"

definition analyze_arm :: "world \<Rightarrow> string \<Rightarrow> json \<Rightarrow> int \<Rightarrow> string \<Rightarrow> (string \<times> v4_arm) py" where
  "analyze_arm w experiment data payload arm =
     bindE (load_throughput_arm w (slash (slash experiment (''throughput-'' @ show_int payload @ ''b'')) (arm_directory_of arm)) arm payload) (\<lambda>a.
     bindE (declared_sha data arm) (\<lambda>h.
     bindE (analysis (jeq (v4_sha a) h) ''throughput arm used a different executable'') (\<lambda>_. Inr (arm, a))))"

definition case_directory :: "string \<Rightarrow> int \<Rightarrow> string \<Rightarrow> string" where
  "case_directory experiment payload origin = slash (slash experiment ''latency'') (show_int payload @ ''b-'' @ origin)"

definition check_case_identity :: "world \<Rightarrow> string \<Rightarrow> json \<Rightarrow> int \<Rightarrow> string \<Rightarrow> string \<Rightarrow> unit py" where
  "check_case_identity w experiment data payload origin arm =
     bindE (load_rows w (slash (case_directory experiment payload origin) ''results.jsonl'')) (\<lambda>rows.
     bindE (with_value ''arm'' arm rows) (\<lambda>rows.
     bindE (someE (\<lambda>r. bindE (getitem r ''client_sha256'') (\<lambda>x. bindE (declared_sha data arm) (\<lambda>h. Inr (\<not> jeq x h)))) rows) (\<lambda>bad.
     analysis (\<not> bad) ''latency arm used a different executable'')))"

definition analyze_origin :: "world \<Rightarrow> string \<Rightarrow> json \<Rightarrow> int \<Rightarrow> string \<Rightarrow> (string \<times> string \<times> origin_stats) list py" where
  "analyze_origin w experiment data payload origin =
     bindE (load_latency_case w (case_directory experiment payload origin)) (\<lambda>cs.
     mapE (\<lambda>arm. bindE (check_case_identity w experiment data payload origin arm) (\<lambda>_.
       bindE (stats_at cs arm origin) (\<lambda>st. Inr (arm, origin, st)))) ARMS)"

definition latency_table :: "(string \<times> string \<times> origin_stats) list \<Rightarrow> latency_data" where
  "latency_table entries = map (\<lambda>arm. (arm, dict_of (map snd (filter (\<lambda>e. fst e = arm) entries)))) ARMS"

record payload_report =
  pay_bytes :: int
  pay_throughput :: "(string \<times> v4_comparison) list"
  pay_decision :: string
  pay_latency :: "(string \<times> (string \<times> (string \<times> metric_row) list) list) list"

definition analyze_payload :: "(nat \<Rightarrow> nat) \<Rightarrow> world \<Rightarrow> string \<Rightarrow> json \<Rightarrow> int \<Rightarrow> payload_report py" where
  "analyze_payload pick w experiment data payload =
     bindE (mapE (analyze_arm w experiment data payload) ARMS) (\<lambda>arms.
     bindE (mapE (analyze_origin w experiment data payload) LATENCY_ORIGINS) (\<lambda>ls.
     bindE (compare_throughput pick arms) (\<lambda>tc.
     bindE (lookup tc ''claim_api_S_vs_B'') (\<lambda>c.
     bindE (compare_latency (latency_table (concat ls))) (\<lambda>lc.
     Inr \<lparr>pay_bytes = payload, pay_throughput = tc, pay_decision = throughput_decision payload c, pay_latency = lc\<rparr>)))))"

definition analyze :: "(nat \<Rightarrow> nat) \<Rightarrow> world \<Rightarrow> string \<Rightarrow> payload_report list py" where
  "analyze pick w experiment = bindE (load_experiment w experiment) (\<lambda>data.
     mapE (analyze_payload pick w experiment data) PAYLOADS)"

text \<open>\<open>main\<close>: the declared executables are those of the build manifest.\<close>

definition check_manifest :: "json \<Rightarrow> json \<Rightarrow> unit py" where
  "check_manifest manifest experiment = bindE (mapE (\<lambda>arm.
     bindE (getitem manifest ''variants'') (\<lambda>v. bindE (getitem v (if arm = ''B'' then ''v3'' else ''v4'')) (\<lambda>x.
     bindE (getitem x ''client_sha256'') (\<lambda>expected. bindE (declared_sha experiment arm) (\<lambda>h.
     analysis (jeq h expected) ''executable differs from build manifest''))))) ARMS) (\<lambda>_. Inr ())"

section \<open>The ledger is complete and free of duplicates\<close>

lemma jeq_list_common:
  "\<forall>v \<in> set xs \<union> set xs' \<union> set ys. hashable v \<Longrightarrow> jeq_list xs ys \<Longrightarrow> jeq_list xs' ys \<Longrightarrow> jeq_list xs xs'"
proof (induction ys arbitrary: xs xs')
  case Nil then show ?case by (cases xs; cases xs') auto
next
  case (Cons y ys)
  obtain a as where a: "xs = a # as" using Cons.prems(2) by (cases xs) simp_all
  obtain b bs where b: "xs' = b # bs" using Cons.prems(3) by (cases xs') simp_all
  note e = a b
  have h: "hashable a" "hashable b" "hashable y" "\<forall>v \<in> set as \<union> set bs \<union> set ys. hashable v"
    using Cons.prems(1) unfolding e by simp_all
  have j: "jeq a y" "jeq b y" "jeq_list as ys" "jeq_list bs ys" using Cons.prems(2,3) unfolding e by simp_all
  have "jeq a b" by (rule jeq_common [OF h(1,2,3) j(1,2)])
  moreover have "jeq_list as bs" by (rule Cons.IH [OF h(4) j(3,4)])
  ultimately show ?case by (simp add: e)
qed

definition tuple_ok :: "json \<Rightarrow> bool" where
  "tuple_ok t \<longleftrightarrow> (\<exists>vs. t = JList vs \<and> (\<forall>v \<in> set vs. hashable v))"

lemma tuple_common: "tuple_ok x \<Longrightarrow> tuple_ok x' \<Longrightarrow> tuple_ok y \<Longrightarrow> jeq x y \<Longrightarrow> jeq x' y \<Longrightarrow> jeq x x'"
  unfolding tuple_ok_def
proof (elim exE conjE)
  fix vs vs' us
  assume "x = JList vs" "x' = JList vs'" "y = JList us" "\<forall>v \<in> set vs. hashable v" "\<forall>v \<in> set vs'. hashable v"
    "\<forall>v \<in> set us. hashable v" "jeq x y" "jeq x' y"
  then show "jeq x x'" using jeq_list_common [of vs vs' us] by auto
qed

lemma jeq_list_sym: "\<forall>v \<in> set xs \<union> set ys. hashable v \<Longrightarrow> jeq_list xs ys \<Longrightarrow> jeq_list ys xs"
proof (induction xs arbitrary: ys)
  case Nil then show ?case by (cases ys) auto
next
  case (Cons x xs)
  then obtain a as where e: "ys = a # as" by (cases ys) auto
  then have "jeq a x" using Cons.prems jeq_sym_hash [of x a] by simp
  moreover have "jeq_list as xs" using Cons.prems e by (intro Cons.IH) auto
  ultimately show ?case by (simp add: e)
qed

lemma tuple_sym: "tuple_ok x \<Longrightarrow> tuple_ok y \<Longrightarrow> jeq x y \<Longrightarrow> jeq y x"
  unfolding tuple_ok_def
proof (elim exE conjE)
  fix vs us assume "x = JList vs" "y = JList us" "\<forall>v \<in> set vs. hashable v" "\<forall>v \<in> set us. hashable v" "jeq x y"
  then show "jeq y x" using jeq_list_sym [of vs us] by auto
qed

text \<open>A list without equal elements that matches into another is no longer than it.\<close>

definition unequal :: "json list \<Rightarrow> bool" where
  "unequal xs \<longleftrightarrow> (\<forall>i < length xs. \<forall>j < length xs. i \<noteq> j \<longrightarrow> \<not> jeq (xs ! i) (xs ! j))"

lemma unequal_length:
  assumes u: "unequal xs" and ok: "\<forall>x \<in> set xs \<union> set ys. tuple_ok x" and m: "\<forall>x \<in> set xs. \<exists>y \<in> set ys. jeq x y"
  shows "length xs \<le> length ys"
proof -
  have "\<forall>i \<in> {..<length xs}. \<exists>j. j < length ys \<and> jeq (xs ! i) (ys ! j)"
    using m by (metis in_set_conv_nth lessThan_iff nth_mem)
  from bchoice [OF this] obtain f where f: "\<forall>i \<in> {..<length xs}. f i < length ys \<and> jeq (xs ! i) (ys ! f i)" by blast
  have "inj_on f {..<length xs}"
  proof (rule inj_onI)
    fix i j assume ij: "i \<in> {..<length xs}" "j \<in> {..<length xs}" "f i = f j"
    then have "jeq (xs ! i) (ys ! f i)" "jeq (xs ! j) (ys ! f j)" using f by blast+
    then have "jeq (xs ! i) (ys ! f i)" "jeq (xs ! j) (ys ! f i)" by (simp_all only: ij(3))
    moreover have "tuple_ok (xs ! i)" "tuple_ok (xs ! j)" "tuple_ok (ys ! f i)" using ok f ij by auto
    ultimately have "jeq (xs ! i) (xs ! j)" by (blast intro: tuple_common)
    then show "i = j" using u ij unfolding unequal_def by auto
  qed
  moreover have "f ` {..<length xs} \<subseteq> {..<length ys}" using f by auto
  ultimately show ?thesis using card_inj_on_le [of f "{..<length xs}" "{..<length ys}"] by simp
qed

lemma unequal_add:
  assumes "unequal xs" "tuple_ok v" "\<forall>x \<in> set xs. tuple_ok x"
  shows "unequal (add_json v xs)" "\<forall>x \<in> set (add_json v xs). tuple_ok x"
proof -
  show "\<forall>x \<in> set (add_json v xs). tuple_ok x" using assms by (auto simp: add_json_def)
  show "unequal (add_json v xs)"
  proof (cases "mem_json v xs")
    case False
    then have "\<not> jeq (xs ! i) v \<and> \<not> jeq v (xs ! i)" if "i < length xs" for i
      using that assms tuple_sym [of v "xs ! i"] unfolding mem_json_def by (metis nth_mem)
    then show ?thesis using False assms(1) by (auto simp: add_json_def unequal_def nth_append less_Suc_eq)
  qed (use assms in \<open>simp add: add_json_def\<close>)
qed

text \<open>The tuples of the throughput and of the latency blocks, as the loop collects them.\<close>

definition is_throughput :: "json \<Rightarrow> bool" where
  "is_throughput block \<longleftrightarrow> get block ''kind'' = Inr (JStr ''throughput'')"

definition block_key :: "string list \<Rightarrow> json \<Rightarrow> json py" where
  "block_key ks block = bindE (mapE (get block) ks) tuple_json"

definition latency_key :: "json \<Rightarrow> json py" where
  "latency_key block = bindE (mapE (get block) [''kind'', ''payload'', ''origin'']) (\<lambda>vs. tuple_json (vs @ [JNull]))"

lemma observe_block_Inr:
  assumes "observe_block b seen = Inr seen'"
  shows "(\<exists>rc. get b ''returncode'' = Inr rc \<and> jeq rc (jint 0)) \<and>
    (if is_throughput b then \<exists>t. block_key [''kind'', ''payload'', ''arm'', ''group''] b = Inr t \<and> tuple_ok t \<and> seen' = (add_json t (fst seen), snd seen)
     else get b ''kind'' = Inr (JStr ''latency'') \<and> (\<exists>t. latency_key b = Inr t \<and> tuple_ok t \<and> seen' = (fst seen, add_json t (snd seen))))"
proof -
  from assms obtain rc kind payload where k: "get b ''returncode'' = Inr rc" "jeq rc (jint 0)" "get b ''kind'' = Inr kind"
    "get b ''payload'' = Inr payload"
    and rest: "(if kind = JStr ''throughput'' then
       bindE (get b ''arm'') (\<lambda>a. bindE (get b ''group'') (\<lambda>g.
       bindE (tuple_json [kind, payload, a, g]) (\<lambda>t. Inr (add_json t (fst seen), snd seen))))
     else if kind = JStr ''latency'' then
       bindE (get b ''origin'') (\<lambda>q.
       bindE (tuple_json [kind, payload, q, JNull]) (\<lambda>t. Inr (fst seen, add_json t (snd seen))))
     else Inl (AnalysisError ''unknown experiment block kind'')) = Inr seen'"
    unfolding observe_block_def bindE_Inr analysis_Inr jeq_JStr_right by blast
  have ok: "tuple_json vs = Inr t \<Longrightarrow> tuple_ok t" for vs t by (auto simp: tuple_json_def tuple_ok_def)
  show ?thesis
  proof (cases "kind = JStr ''throughput''")
    case True
    then obtain a g t where t: "get b ''arm'' = Inr a" "get b ''group'' = Inr g" "tuple_json [kind, payload, a, g] = Inr t"
      "seen' = (add_json t (fst seen), snd seen)" using rest by (simp del: get_or.simps) blast
    then have "block_key [''kind'', ''payload'', ''arm'', ''group''] b = Inr t" by (simp add: block_key_def k)
    then show ?thesis using k True t ok [OF t(3)] by (simp add: is_throughput_def)
  next
    case False
    then have lat: "kind = JStr ''latency''" using rest by (cases "kind = JStr ''latency''") simp_all
    then obtain q t where t: "get b ''origin'' = Inr q" "tuple_json [kind, payload, q, JNull] = Inr t"
      "seen' = (fst seen, add_json t (snd seen))" using rest False by (simp del: get_or.simps) blast
    then have "latency_key b = Inr t" by (simp add: latency_key_def k)
    then show ?thesis using k lat t ok [OF t(2)] by (simp add: is_throughput_def)
  qed
qed

lemma observe_all:
  assumes "foldE observe_block bs (thr, lat) = Inr (thr', lat')"
  shows "\<exists>ts ls. mapE (block_key [''kind'', ''payload'', ''arm'', ''group'']) (filter is_throughput bs) = Inr ts
     \<and> mapE latency_key (filter (\<lambda>b. \<not> is_throughput b) bs) = Inr ls
     \<and> thr' = fold add_json ts thr \<and> lat' = fold add_json ls lat \<and> (\<forall>t \<in> set (ts @ ls). tuple_ok t)
     \<and> (\<forall>b \<in> set bs. (is_throughput b \<or> get b ''kind'' = Inr (JStr ''latency'')) \<and> (\<exists>rc. get b ''returncode'' = Inr rc \<and> jeq rc (jint 0)))"
  using assms
proof (induction bs arbitrary: thr lat)
  case (Cons b bs)
  from Cons.prems obtain m where m: "observe_block b (thr, lat) = Inr m" "foldE observe_block bs (fst m, snd m) = Inr (thr', lat')"
    by auto
  note o = observe_block_Inr [OF m(1)]
  from Cons.IH [OF m(2)] obtain ts ls where ih: "mapE (block_key [''kind'', ''payload'', ''arm'', ''group'']) (filter is_throughput bs) = Inr ts"
    "mapE latency_key (filter (\<lambda>b. \<not> is_throughput b) bs) = Inr ls" "thr' = fold add_json ts (fst m)" "lat' = fold add_json ls (snd m)"
    "\<forall>t \<in> set (ts @ ls). tuple_ok t"
    "\<forall>b \<in> set bs. (is_throughput b \<or> get b ''kind'' = Inr (JStr ''latency'')) \<and> (\<exists>rc. get b ''returncode'' = Inr rc \<and> jeq rc (jint 0))" by blast
  show ?case
  proof (cases "is_throughput b")
    case True
    then obtain t where "block_key [''kind'', ''payload'', ''arm'', ''group''] b = Inr t" "tuple_ok t" "m = (add_json t thr, lat)"
      using o by auto
    then show ?thesis using ih o True by (intro exI [of _ "t # ts"] exI [of _ ls]) auto
  next
    case False
    then obtain t where "latency_key b = Inr t" "tuple_ok t" "m = (thr, add_json t lat)" using o by auto
    then show ?thesis using ih o False by (intro exI [of _ ts] exI [of _ "t # ls"]) auto
  qed
qed simp

lemma fold_add_unequal:
  "unequal ys \<Longrightarrow> \<forall>t \<in> set xs. tuple_ok t \<Longrightarrow> \<forall>t \<in> set ys. tuple_ok t \<Longrightarrow>
     unequal (fold add_json xs ys) \<and> (\<forall>t \<in> set (fold add_json xs ys). tuple_ok t)"
proof (induction xs arbitrary: ys)
  case (Cons x xs)
  have x: "tuple_ok x" "\<forall>t \<in> set xs. tuple_ok t" using Cons.prems(2) by simp_all
  note add = unequal_add [OF Cons.prems(1) x(1) Cons.prems(3)]
  show ?case using Cons.IH [OF add(1) x(2) add(2)] by simp
qed simp

lemma fold_add_full: "length (fold add_json xs ys) = length ys + length xs \<Longrightarrow> fold add_json xs ys = ys @ xs"
proof (induction xs arbitrary: ys)
  case (Cons x xs)
  have "length (fold add_json xs (add_json x ys)) \<le> length (add_json x ys) + length xs" by (rule length_fold_add)
  moreover have "length (fold add_json xs (add_json x ys)) = Suc (length ys + length xs)" using Cons.prems by simp
  ultimately have "Suc (length ys) \<le> length (add_json x ys)" by linarith
  then have a: "add_json x ys = ys @ [x]" by (auto simp: add_json_def split: if_splits)
  show ?case using Cons.IH [of "add_json x ys"] Cons.prems by (simp add: a)
qed simp

fun all_differ :: "json list \<Rightarrow> bool" where
  "all_differ [] = True"
| "all_differ (x # xs) = ((\<forall>y \<in> set xs. \<not> jeq x y \<and> \<not> jeq y x) \<and> all_differ xs)"

lemma all_differ_unequal: "all_differ xs \<Longrightarrow> unequal xs"
proof (induction xs)
  case (Cons x xs)
  then have u: "unequal xs" and d: "\<forall>y \<in> set xs. \<not> jeq x y \<and> \<not> jeq y x" by simp_all
  show ?case unfolding unequal_def
  proof (intro allI impI)
    fix i j assume "i < length (x # xs)" "j < length (x # xs)" "i \<noteq> j"
    then show "\<not> jeq ((x # xs) ! i) ((x # xs) ! j)"
      using u d by (cases i; cases j) (simp_all add: unequal_def)
  qed
qed (simp add: unequal_def)

lemma expected_unequal: "unequal expected_throughput" "unequal expected_latency"
proof -
  have "all_differ expected_throughput" by code_simp
  then show "unequal expected_throughput" by (rule all_differ_unequal)
  have "all_differ expected_latency" by code_simp
  then show "unequal expected_latency" by (rule all_differ_unequal)
qed

lemma expected_ok: "\<forall>t \<in> set expected_throughput. tuple_ok t" "\<forall>t \<in> set expected_latency. tuple_ok t"
  by (auto simp: expected_throughput_def expected_latency_def tuple_ok_def)

lemma expected_lengths: "length expected_throughput = 36" "length expected_latency = 4"
  by code_simp+

lemma same_set_length:
  assumes "same_set xs ys" "unequal xs" "unequal ys" "\<forall>t \<in> set xs. tuple_ok t" "\<forall>t \<in> set ys. tuple_ok t"
  shows "length xs = length ys"
proof (rule antisym)
  have m: "\<forall>x \<in> set xs. \<exists>y \<in> set ys. jeq y x" "\<forall>y \<in> set ys. \<exists>x \<in> set xs. jeq x y"
    using assms(1) by (auto simp: same_set_def mem_json_def)
  have "\<forall>x \<in> set xs. \<exists>y \<in> set ys. jeq x y" "\<forall>y \<in> set ys. \<exists>x \<in> set xs. jeq y x"
    using m assms(4,5) by (meson tuple_sym)+
  then show "length xs \<le> length ys" "length ys \<le> length xs"
    using assms by (auto intro!: unequal_length)
qed

text \<open>C2. When the block ledger is accepted it holds exactly forty blocks, all of which returned 0: the
  keys of its 36 throughput blocks are pairwise different and are the six groups of the three
  arms at both payloads, and those of its 4 latency blocks are the two origins at both
  payloads; no block is missing and none is repeated.\<close>

theorem ledger_complete:
  assumes "verify_blocks data = Inr u"
  shows "\<exists>bs ts ls. get data ''blocks'' = Inr (JList bs) \<and> length bs = 40
     \<and> (\<forall>b \<in> set bs. (is_throughput b \<or> get b ''kind'' = Inr (JStr ''latency'')) \<and> (\<exists>rc. get b ''returncode'' = Inr rc \<and> jeq rc (jint 0)))
     \<and> mapE (block_key [''kind'', ''payload'', ''arm'', ''group'']) (filter is_throughput bs) = Inr ts
     \<and> mapE latency_key (filter (\<lambda>b. \<not> is_throughput b) bs) = Inr ls
     \<and> length ts = 36 \<and> same_set ts expected_throughput \<and> unequal ts
     \<and> length ls = 4 \<and> same_set ls expected_latency \<and> unequal ls"
proof -
  from assms obtain blocks where "get data ''blocks'' = Inr blocks"
    "(case blocks of JList bs \<Rightarrow> bindE (get data ''finished'') (\<lambda>fin.
       bindE (analysis (truthy fin) ''experiment is not finished or has no block ledger'') (\<lambda>_.
       bindE (foldE observe_block bs ([], [])) (\<lambda>(thr, lat).
       bindE (analysis (same_set thr expected_throughput \<and> int (length thr) = int (length bs) - int (length expected_latency))
          ''throughput block ledger is incomplete or duplicated'') (\<lambda>_.
       analysis (same_set lat expected_latency) ''latency block ledger is incomplete or duplicated''))))
   | _ \<Rightarrow> Inl (AnalysisError ''experiment is not finished or has no block ledger'')) = Inr u"
    unfolding verify_blocks_def bindE_Inr by blast
  then obtain bs thr lat where b: "get data ''blocks'' = Inr (JList bs)" "foldE observe_block bs ([], []) = Inr (thr, lat)"
    "same_set thr expected_throughput" "int (length thr) = int (length bs) - 4" "same_set lat expected_latency"
    by (cases blocks) (auto simp: expected_lengths simp del: get_or.simps)
  from observe_all [OF b(2)] obtain ts ls where o: "mapE (block_key [''kind'', ''payload'', ''arm'', ''group'']) (filter is_throughput bs) = Inr ts"
    "mapE latency_key (filter (\<lambda>b. \<not> is_throughput b) bs) = Inr ls" "thr = fold add_json ts []" "lat = fold add_json ls []"
    "\<forall>t \<in> set (ts @ ls). tuple_ok t"
    "\<forall>b \<in> set bs. (is_throughput b \<or> get b ''kind'' = Inr (JStr ''latency'')) \<and> (\<exists>rc. get b ''returncode'' = Inr rc \<and> jeq rc (jint 0))"
    by blast
  have u: "unequal thr \<and> (\<forall>t \<in> set thr. tuple_ok t)" "unequal lat \<and> (\<forall>t \<in> set lat. tuple_ok t)"
    unfolding o(3,4) using o(5) by (intro fold_add_unequal; simp add: unequal_def)+
  have n: "length thr = 36" "length lat = 4"
    using same_set_length [OF b(3)] same_set_length [OF b(5)] u expected_unequal expected_ok expected_lengths by auto
  have m: "length ts + length ls = length bs"
    using mapE_length [OF o(1)] mapE_length [OF o(2)] sum_length_filter_compl [of is_throughput bs] by simp
  have "length thr \<le> length ts" "length lat \<le> length ls" unfolding o(3,4) using length_fold_add [of _ "[]"] by simp_all
  then have len: "length ts = 36" "length ls = 4" "length bs = 40" using n m b(4) by linarith+
  have "thr = ts" "lat = ls" using fold_add_full [of ts "[]"] fold_add_full [of ls "[]"] o(3,4) n len by simp_all
  then show ?thesis using b(1,3,5) o(1,2,6) len u by blast
qed

definition demo_block :: "int \<times> string \<times> nat \<Rightarrow> json" where
  "demo_block pag = JObj [(''kind'', JStr ''throughput''), (''payload'', jint (fst pag)), (''arm'', JStr (fst (snd pag))),
     (''group'', jint (int (snd (snd pag)))), (''returncode'', jint 0)]"

definition demo_latency_block :: "int \<times> string \<Rightarrow> json" where
  "demo_latency_block pq = JObj [(''kind'', JStr ''latency''), (''payload'', jint (fst pq)), (''origin'', JStr (snd pq)), (''returncode'', jint 0)]"

definition demo_ledger :: json where
  "demo_ledger = JObj [(''finished'', JStr ''yes''), (''blocks'', JList (map demo_latency_block (cross PAYLOADS LATENCY_ORIGINS)
     @ map demo_block (cross PAYLOADS (cross ARMS [0 ..< GROUPS]))))]"

lemma demo_ledger_ok: "verify_blocks demo_ledger = Inr ()"
  by code_simp

lemma ledger_complete_witness:
  "\<exists>bs. get demo_ledger ''blocks'' = Inr (JList bs) \<and> length bs = 40"
  using ledger_complete [OF demo_ledger_ok] by blast

section \<open>A latency record is checked against its raw output\<close>

text \<open>C37. An accepted latency record published and delivered exactly rate times duration messages and
  sampled every sixteenth message of each producer, saw none of the four memory events, and its
  raw output has the recorded digest and one RESULT line that repeats every recorded field.\<close>

theorem latency_record_audited:
  assumes "check_latency_record w path row = Inr u"
  shows "\<exists>result rate duration producers events name fs items. getitem row ''result'' = Inr result
     \<and> item_int row ''rate'' = Inr rate \<and> item_int row ''duration_s'' = Inr duration \<and> item_int row ''producers'' = Inr producers
     \<and> get_int result ''published'' (- 1) = Inr (rate * duration) \<and> get_int result ''delivered'' (- 1) = Inr (rate * duration)
     \<and> get_int result ''latency_samples'' (- 1) = Inr (producers * ((rate * duration div producers + 15) div 16)) \<and> producers \<noteq> 0
     \<and> bindE (getitem row ''resources'') (\<lambda>r. bindE (getitem r ''memory.events'') event_counts) = Inr events
     \<and> (\<forall>k \<in> {''high'', ''max'', ''oom'', ''oom_kill''}. counter_of events k = Inr 0)
     \<and> getitem row ''stdout'' = Inr (JStr name)
     \<and> (\<exists>h want. file_sha w (slash (path_parent path) name) = Inr h \<and> get row ''stdout_sha256'' = Inr want \<and> jeq (JStr h) want)
     \<and> one_result w (slash (path_parent path) name) = Inr fs
     \<and> as_items result = Inr items \<and> (\<forall>(k, v) \<in> set items. jeq (field_json fs k) v)"
proof -
  from assms obtain res m events bad result rate duration producers each ok o' name h want fs items us where r:
    "getitem row ''resources'' = Inr res" "getitem res ''memory.events'' = Inr m" "event_counts m = Inr events"
    "any_event memory_names events = Inr bad" "\<not> bad" "getitem row ''result'' = Inr result"
    "item_int row ''rate'' = Inr rate" "item_int row ''duration_s'' = Inr duration" "item_int row ''producers'' = Inr producers"
    "pyfloordiv (rate * duration) producers = Inr each"
    "everyE (\<lambda>(k, n). bindE (get_int result k (- 1)) (\<lambda>x. Inr (x = n)))
        [(''published'', rate * duration), (''delivered'', rate * duration), (''latency_samples'', producers * ((each + 15) div 16))] = Inr ok" "ok"
    "getitem row ''stdout'' = Inr o'" "as_str o' = Inr name"
    "file_sha w (slash (path_parent path) name) = Inr h" "get row ''stdout_sha256'' = Inr want" "jeq (JStr h) want"
    "one_result w (slash (path_parent path) name) = Inr fs" "as_items result = Inr items"
    "mapE (\<lambda>(k, v). analysis (jeq (field_json fs k) v) ''latency RESULT mismatch'') items = Inr us"
    unfolding check_latency_record_def bindE_Inr analysis_Inr Let_def by (elim exE conjE) blast
  have p: "producers \<noteq> 0" "each = rate * duration div producers" using r(10) by (auto simp: pyfloordiv_def split: if_splits)
  have c: "get_int result ''published'' (- 1) = Inr (rate * duration)" "get_int result ''delivered'' (- 1) = Inr (rate * duration)"
    "get_int result ''latency_samples'' (- 1) = Inr (producers * ((each + 15) div 16))"
    using r(11) unfolding eqTrueI [OF r(12)] everyE_True by simp_all
  have e: "\<forall>k \<in> {''high'', ''max'', ''oom'', ''oom_kill''}. counter_of events k = Inr 0"
    using r(4,5) by (simp add: any_event_False memory_names_def)
  have "o' = JStr name" using r(14) by (cases o') auto
  moreover have "\<forall>(k, v) \<in> set items. jeq (field_json fs k) v"
    using mapE_set [OF r(20)] by fastforce
  moreover have "bindE (getitem row ''resources'') (\<lambda>r. bindE (getitem r ''memory.events'') event_counts) = Inr events"
    using r(1,2,3) by simp
  ultimately show ?thesis using r p c e by blast
qed

definition latency_world :: world where
  "latency_world = \<lparr>file_text = (\<lambda>p. if p = ''d/o'' then Some ''RESULT published=160 delivered=160 latency_samples=10 engine=fifo'' else None),
     sha256_hex = (\<lambda>_. ''ab''), json_loads = (\<lambda>_. Inr JNull), globbed = (\<lambda>_ _. []), resolved = (\<lambda>p. p)\<rparr>"

definition latency_row :: json where
  "latency_row = JObj [(''resources'', JObj [(''memory.events'', JStr (''max 0'' @ [nl] @ ''oom 0''))]), (''rate'', jint 40), (''duration_s'', jint 4),
     (''producers'', jint 1), (''result'', JObj [(''published'', JStr ''160''), (''delivered'', JStr ''160''), (''latency_samples'', JStr ''10'')]),
     (''stdout'', JStr ''o''), (''stdout_sha256'', JStr ''ab'')]"

lemma latency_row_ok: "check_latency_record latency_world ''d/results.jsonl'' latency_row = Inr ()"
  by code_simp

lemma latency_record_audited_witness: "item_int latency_row ''rate'' = Inr 40 \<and> (\<exists>fs. one_result latency_world ''d/o'' = Inr fs)"
proof -
  have "path_parent ''d/results.jsonl'' = ''d''" "getitem latency_row ''stdout'' = Inr (JStr ''o'')" "slash ''d'' ''o'' = ''d/o''" by code_simp+
  then have "\<exists>fs. one_result latency_world ''d/o'' = Inr fs" using latency_record_audited [OF latency_row_ok] by auto
  moreover have "item_int latency_row ''rate'' = Inr 40" by code_simp
  ultimately show ?thesis by blast
qed

section \<open>The three comparisons are always produced\<close>

definition complete_arm :: "v4_arm \<Rightarrow> bool" where
  "complete_arm a \<longleftrightarrow> length (v4_groups a) = 6 \<and> mild (v4_arm_median a) \<and> v4_arm_median a \<noteq> F (Fin 0)
     \<and> (\<forall>g \<in> set (v4_groups a). mild (v4_median g) \<and> v4_rates g \<noteq> [] \<and> (\<forall>x \<in> set (v4_rates g). mild x))"

lemma compare_pair_total:
  assumes pick: "\<And>k. pick k < 6" and c: "map_of arms cn = Some c" "complete_arm c" and b: "map_of arms bn = Some b" "complete_arm b"
  shows "\<exists>r. compare_pair_v4 pick arms (l, cn, bn) = Inr (l, r) \<and> cmp_candidate r = cn \<and> cmp_baseline r = bn
     \<and> partitions (cmp_permutation r) = 924 \<and> nle (flit (2 / 924)) (p_value (cmp_permutation r))
     \<and> nle (ci_low (cmp_bootstrap r)) (median_difference (cmp_bootstrap r)) \<and> nle (median_difference (cmp_bootstrap r)) (ci_high (cmp_bootstrap r))"
proof -
  obtain perm where p: "permutation_test (map v4_median (v4_groups b)) (map v4_median (v4_groups c)) = Inr perm"
    "partitions perm = 924" "nle (flit (2 / 924)) (p_value perm)"
    using permutation_ok [of "map v4_median (v4_groups b)" "map v4_median (v4_groups c)"] b(2) c(2)
    by (auto simp: complete_arm_def)
  have rates: "\<forall>g \<in> set (map v4_rates (v4_groups b) @ map v4_rates (v4_groups c)). g \<noteq> [] \<and> (\<forall>x \<in> set g. mild x)"
    using b(2) c(2) unfolding complete_arm_def by auto
  have six: "length (map v4_rates (v4_groups b)) = 6" "length (map v4_rates (v4_groups c)) = 6" using b(2) c(2) by (simp_all add: complete_arm_def)
  obtain boot where bt: "bootstrap_interval pick BOOTSTRAP_SAMPLES (map v4_rates (v4_groups b)) (map v4_rates (v4_groups c)) = Inr boot"
    "nle (ci_low boot) (median_difference boot)" "nle (median_difference boot) (ci_high boot)"
    using bootstrap_ok [of pick, OF pick six rates] by blast
  obtain x y where m: "v4_arm_median c = F (Fin x)" "v4_arm_median b = F (Fin y)" "y \<noteq> 0"
    using b(2) c(2) by (auto simp: complete_arm_def mild_def)
  obtain q where q: "ndiv (F (Fin x)) (F (Fin y)) = Inr (F q)" using m(3) by (simp add: ndiv_def)
  obtain d where d: "nsub (F q) (I 1) = Inr (F d)" by (simp add: nsub_def lift_num_def)
  obtain e where e: "nmul (F d) (I 100) = Inr e" by (simp add: nmul_def lift_num_def)
  show ?thesis using c(1) b(1) p bt m q d e
    by (simp add: compare_pair_v4_def lookup_def permutation_test_v4_def bootstrap_interval_v4_def)
qed

text \<open>C38. On three complete arms (six groups of finite rates of moderate size and a nonzero median)
  the comparison always returns the three registered comparisons in their order, each with the
  registered candidate and baseline, an exact test over 924 partitions whose p-value is at
  least 2/924, and a bootstrap interval around its median.\<close>

theorem comparisons_produced:
  assumes pick: "\<And>k. pick k < 6" and arms: "\<forall>n \<in> {''B'', ''S'', ''A''}. \<exists>a. map_of arms n = Some a \<and> complete_arm a"
  shows "\<exists>cs. compare_throughput pick arms = Inr cs
     \<and> map (\<lambda>(l, r). (l, cmp_candidate r, cmp_baseline r)) cs = COMPARISONS
     \<and> (\<forall>(l, r) \<in> set cs. partitions (cmp_permutation r) = 924 \<and> nle (flit (2 / 924)) (p_value (cmp_permutation r))
         \<and> nle (ci_low (cmp_bootstrap r)) (median_difference (cmp_bootstrap r))
         \<and> nle (median_difference (cmp_bootstrap r)) (ci_high (cmp_bootstrap r)))"
proof -
  obtain b s a where arm: "map_of arms ''B'' = Some b" "complete_arm b" "map_of arms ''S'' = Some s" "complete_arm s"
    "map_of arms ''A'' = Some a" "complete_arm a" using arms by auto
  obtain r1 where r1: "compare_pair_v4 pick arms (''claim_api_S_vs_B'', ''S'', ''B'') = Inr (''claim_api_S_vs_B'', r1)"
    "cmp_candidate r1 = ''S'' \<and> cmp_baseline r1 = ''B'' \<and> partitions (cmp_permutation r1) = 924 \<and> nle (flit (2 / 924)) (p_value (cmp_permutation r1))
     \<and> nle (ci_low (cmp_bootstrap r1)) (median_difference (cmp_bootstrap r1)) \<and> nle (median_difference (cmp_bootstrap r1)) (ci_high (cmp_bootstrap r1))"
    using compare_pair_total [of pick, OF pick arm(3,4,1,2)] by blast
  obtain r2 where r2: "compare_pair_v4 pick arms (''fence_A_vs_S'', ''A'', ''S'') = Inr (''fence_A_vs_S'', r2)"
    "cmp_candidate r2 = ''A'' \<and> cmp_baseline r2 = ''S'' \<and> partitions (cmp_permutation r2) = 924 \<and> nle (flit (2 / 924)) (p_value (cmp_permutation r2))
     \<and> nle (ci_low (cmp_bootstrap r2)) (median_difference (cmp_bootstrap r2)) \<and> nle (median_difference (cmp_bootstrap r2)) (ci_high (cmp_bootstrap r2))"
    using compare_pair_total [of pick, OF pick arm(5,6,3,4)] by blast
  obtain r3 where r3: "compare_pair_v4 pick arms (''combined_A_vs_B'', ''A'', ''B'') = Inr (''combined_A_vs_B'', r3)"
    "cmp_candidate r3 = ''A'' \<and> cmp_baseline r3 = ''B'' \<and> partitions (cmp_permutation r3) = 924 \<and> nle (flit (2 / 924)) (p_value (cmp_permutation r3))
     \<and> nle (ci_low (cmp_bootstrap r3)) (median_difference (cmp_bootstrap r3)) \<and> nle (median_difference (cmp_bootstrap r3)) (ci_high (cmp_bootstrap r3))"
    using compare_pair_total [of pick, OF pick arm(5,6,1,2)] by blast
  have "compare_throughput pick arms = Inr [(''claim_api_S_vs_B'', r1), (''fence_A_vs_S'', r2), (''combined_A_vs_B'', r3)]"
    using r1(1) r2(1) r3(1) by (simp add: compare_throughput_def COMPARISONS_def)
  then show ?thesis using r1(2) r2(2) r3(2) by (simp add: COMPARISONS_def)
qed

definition constant_arm :: v4_arm where
  "constant_arm = \<lparr>v4_sha = JNull, v4_groups = replicate 6 \<lparr>v4_index = 0, v4_median = F (Fin 2), v4_mean = F (Fin 2), v4_rates = [F (Fin 2)]\<rparr>,
     v4_arm_median = F (Fin 2), v4_arm_mean = F (Fin 2), v4_all_rates = []\<rparr>"

lemma comparisons_3: "length COMPARISONS = 3"
  by (simp add: COMPARISONS_def)

lemma mod_six: "k mod 6 < (6::nat)"
  by simp

lemma comparisons_produced_witness:
  "\<exists>cs. compare_throughput (\<lambda>k. k mod 6) [(''B'', constant_arm), (''S'', constant_arm), (''A'', constant_arm)] = Inr cs \<and> length cs = 3"
proof -
  have "mild (F (Fin 2))" using rnd_rat_of_int [of 2] by (simp add: mild_def)
  then have "complete_arm constant_arm" by (simp add: complete_arm_def constant_arm_def)
  then have "\<forall>n \<in> {''B'', ''S'', ''A''}. \<exists>a. map_of [(''B'', constant_arm), (''S'', constant_arm), (''A'', constant_arm)] n = Some a \<and> complete_arm a"
    by simp
  from comparisons_produced [of "\<lambda>k. k mod 6", OF mod_six this] obtain cs where cs:
    "compare_throughput (\<lambda>k. k mod 6) [(''B'', constant_arm), (''S'', constant_arm), (''A'', constant_arm)] = Inr cs"
    "map (\<lambda>(l, r). (l, cmp_candidate r, cmp_baseline r)) cs = COMPARISONS" by blast
  have "length cs = 3" using arg_cong [OF cs(2), of length] by (simp add: comparisons_3)
  then show ?thesis using cs(1) by blast
qed

end
