(* ===== verification/P31Followup.thy ===== *)
theory P31Followup
  imports PyJson
begin

text \<open>
  \<open>analyze_p31_followup.py\<close>: the audit of the preserved P3-1 evidence.  The manifest, the client,
  the frozen inputs and every raw log are verified against their digests and the registered
  order; each run log must be one start record, progress snapshots and one result record whose
  publisher and subscriber counters balance.  The document the tool returns is a \<open>json\<close> value
  built as the code builds it; its Markdown rendering and \<open>main\<close> are not modelled.
\<close>

section \<open>The frozen protocol\<close>

definition CONFIGURATIONS :: "string list" where
  "CONFIGURATIONS = concat (map (\<lambda>s. concat (map (\<lambda>p. map (\<lambda>t. ''2p'' @ s @ ''s-'' @ p @ ''b-'' @ t)
     [''steady'', ''burst'']) [''64'', ''256''])) [''1'', ''2''])"

definition ORDER :: "string list" where "ORDER = [''S'', ''A'', ''A'', ''S'']"

definition ARM_ENV :: "string \<Rightarrow> json" where
  "ARM_ENV arm = (if arm = ''S'' then JObj [(''SALIAS_DISABLE_ASYMMETRIC_FENCE'', JStr ''1'')] else JObj [])"

definition PROTOCOL :: json where
  "PROTOCOL = JObj [(''name'', JStr ''P3-1 G4 HFT non-inferiority''), (''groups'', jint 3), (''seconds_per_run'', jint 30),
     (''order'', JList (map JStr ORDER)), (''configurations'', JList (map JStr CONFIGURATIONS)),
     (''environment'', JObj [(''S'', ARM_ENV ''S''), (''A'', ARM_ENV ''A'')]),
     (''metrics'', JList [JStr ''worst_planned_p99_ns'', JStr ''worst_planned_p999_ns'']),
     (''maximum_candidate_percent_of_seq'', jint 105), (''every_group_and_configuration_required'', JBool True),
     (''integrity_and_original_input_completion_required'', JBool True),
     (''independent_50us_budget_is_not_the_relative_gate'', JBool True)]"

definition FORMAL_RUNS :: nat where "FORMAL_RUNS = 96"
definition EXPECTED_INPUTS :: nat where "EXPECTED_INPUTS = 50"
definition EXPECTED_WARMUPS :: nat where "EXPECTED_WARMUPS = 16"

definition RESOURCE_KEYS :: "string list" where
  "RESOURCE_KEYS = [''user_us'', ''system_us'', ''voluntary_context_switches'', ''involuntary_context_switches'',
     ''minor_faults'', ''major_faults'']"

definition HISTOGRAM_KEYS :: "string list" where
  "HISTOGRAM_KEYS = [''samples'', ''p50_ns'', ''p99_ns'', ''p999_ns'', ''max_sampled_ns'']"

section \<open>Checks\<close>

text \<open>\<open>AuditError\<close> is carried by the constructor \<open>AnalysisError\<close>.\<close>

definition audit :: "bool \<Rightarrow> string \<Rightarrow> unit py" where
  "audit b msg = require b (AnalysisError msg)"

lemma audit_Inr [simp]: "audit b msg = Inr u \<longleftrightarrow> b"
  by (simp add: audit_def)

fun is_int_json :: "json \<Rightarrow> bool" where
  "is_int_json (JNum (I _)) = True"
| "is_int_json _ = False"

fun is_number :: "json \<Rightarrow> bool" where
  "is_number (JNum _) = True"
| "is_number _ = False"

fun is_bool :: "json \<Rightarrow> bool" where
  "is_bool (JBool _) = True"
| "is_bool _ = False"

fun is_obj :: "json \<Rightarrow> bool" where
  "is_obj (JObj _) = True"
| "is_obj _ = False"

text \<open>The number of a value already known to be one.\<close>

fun num_of :: "json \<Rightarrow> num" where
  "num_of (JNum x) = x"
| "num_of _ = I 0"

fun int_of :: "json \<Rightarrow> int" where
  "int_of (JNum (I n)) = n"
| "int_of _ = 0"

definition nonnegative :: "json \<Rightarrow> bool" where
  "nonnegative v \<longleftrightarrow> is_number v \<and> nle (I 0) (num_of v)"

definition require_nonnegative_mapping :: "json \<Rightarrow> string list \<Rightarrow> unit py" where
  "require_nonnegative_mapping mapping keys =
     bindE (audit (is_obj mapping) ''must be an object'') (\<lambda>_.
     bindE (mapE (\<lambda>k. bindE (audit (has_key mapping k) ''is missing'') (\<lambda>_.
       bindE (getitem mapping k) (\<lambda>v. audit (nonnegative v) ''is invalid''))) keys) (\<lambda>_. Inr ()))"

fun split_on :: "char \<Rightarrow> string \<Rightarrow> string list" where
  "split_on c [] = [[]]"
| "split_on c (x # s) = (case split_on c s of [] \<Rightarrow> [[x]] | w # ws \<Rightarrow> if x = c then [] # w # ws else (x # w) # ws)"

definition configuration_identity :: "string \<Rightarrow> (int \<times> int \<times> string) py" where
  "configuration_identity name = (case split_on (CHR ''-'') name of
     [subscribers, payload, pattern] \<Rightarrow>
       bindE (audit (subscribers \<in> {''2p1s'', ''2p2s''}) ''invalid subscriber configuration'') (\<lambda>_.
       bindE (audit (payload \<in> {''64b'', ''256b''}) ''invalid payload configuration'') (\<lambda>_.
       bindE (audit (pattern \<in> {''steady'', ''burst''}) ''invalid traffic configuration'') (\<lambda>_.
       bindE (nthE subscribers 2) (\<lambda>c. bindE (str_int [c]) (\<lambda>n. bindE (str_int (butlast payload)) (\<lambda>p. Inr (n, p, pattern)))))))
   | _ \<Rightarrow> Inl (ValueError ''not enough values to unpack''))"

definition expected_command :: "json \<Rightarrow> string \<Rightarrow> int \<Rightarrow> json py" where
  "expected_command client name seconds = bindE (configuration_identity name) (\<lambda>(subscribers, payload, pattern).
     Inr (JList [JStr ''timeout'', JStr ''--signal=TERM'', JStr ''--kill-after=10s'', JStr (show_int (seconds + 40) @ ''s''), client,
       JStr ''--subscribers'', JStr (show_int subscribers), JStr ''--payload'', JStr (show_int payload), JStr ''--seconds'',
       JStr (show_int seconds), JStr ''--pattern'', JStr pattern, JStr ''--rate'', JStr ''1000000'', JStr ''--peak-rate'',
       JStr ''4000000'', JStr ''--burst-ms'', JStr ''100'', JStr ''--cpu-base'', JStr ''0'']))"

definition safe_artifact :: "world \<Rightarrow> string \<Rightarrow> json \<Rightarrow> string py" where
  "safe_artifact w directory relative =
     bindE (audit (is_str relative \<and> str_of relative \<noteq> []) ''path is missing'') (\<lambda>_.
     let candidate = resolved w (slash directory (str_of relative)) in
     bindE (audit (directory \<in> set (path_parents candidate)) ''escapes the evidence directory'') (\<lambda>_.
     bindE (audit (is_file w candidate) ''is missing'') (\<lambda>_. Inr candidate)))"

definition verify_artifact :: "world \<Rightarrow> string \<Rightarrow> json \<Rightarrow> string \<Rightarrow> string py" where
  "verify_artifact w directory row stem =
     bindE (get row stem) (\<lambda>relative. bindE (safe_artifact w directory relative) (\<lambda>path.
     bindE (file_sha w path) (\<lambda>h. bindE (get row (stem @ ''_sha256'')) (\<lambda>want.
     bindE (audit (jeq (JStr h) want) ''hash mismatch'') (\<lambda>_. Inr path)))))"

section \<open>The manifest\<close>

type_synonym identity = "int \<times> string \<times> int \<times> string"

definition expected_identities :: "identity list" where
  "expected_identities = concat (map (\<lambda>g. concat (map (\<lambda>n. map (\<lambda>(r, a). (g, n, r, a)) (zip [0, 1, 2, 3] ORDER)) CONFIGURATIONS)) [1, 2, 3])"

definition expected_warmups :: "(string \<times> int \<times> string) list" where
  "expected_warmups = concat (map (\<lambda>n. map (\<lambda>(r, a). (n, r, a)) [(0, ''S''), (1, ''A'')]) CONFIGURATIONS)"

definition keys_are :: "json \<Rightarrow> (string \<times> json) list \<Rightarrow> bool py" where
  "keys_are d kvs = bindE (mapE (\<lambda>(k, _). get d k) kvs) (\<lambda>vs. Inr (list_all2 (\<lambda>v kv. jeq v (snd kv)) vs kvs))"

definition check_run_record :: "world \<Rightarrow> string \<Rightarrow> json \<Rightarrow> json \<Rightarrow> string \<Rightarrow> string \<Rightarrow> string \<Rightarrow> int \<Rightarrow> (string \<times> string) py" where
  "check_run_record w directory manifest run relative arm name seconds =
     bindE (get run ''raw'') (\<lambda>raw. bindE (audit (jeq raw (JStr relative)) ''raw path mismatch'') (\<lambda>_.
     bindE (get run ''environment'') (\<lambda>e. bindE (audit (jeq e (ARM_ENV arm)) ''environment mismatch'') (\<lambda>_.
     bindE (get run ''client_sha256'') (\<lambda>h. bindE (getitem manifest ''client_sha256'') (\<lambda>want.
     bindE (audit (jeq h want) ''client hash mismatch'') (\<lambda>_.
     bindE (get run ''command'') (\<lambda>c. bindE (getitem manifest ''client'') (\<lambda>client.
     bindE (expected_command client name seconds) (\<lambda>command. bindE (audit (jeq c command) ''command mismatch'') (\<lambda>_.
     bindE (get run ''returncode'') (\<lambda>rc. bindE (audit (jeq rc (jint 0)) ''process failed'') (\<lambda>_.
     bindE (verify_artifact w directory run ''raw'') (\<lambda>p. bindE (verify_artifact w directory run ''stderr'') (\<lambda>q.
     Inr (p, q))))))))))))))))"

definition formal_path :: "identity \<Rightarrow> string" where
  "formal_path i = (case i of (g, n, r, a) \<Rightarrow> ''group-'' @ show_int g @ ''/round-'' @ show_int r @ ''/'' @ a @ ''/'' @ n @ ''.jsonl'')"

definition check_formal :: "world \<Rightarrow> string \<Rightarrow> json \<Rightarrow> json \<times> identity \<Rightarrow> (string \<times> string) py" where
  "check_formal w directory manifest ri = (case ri of (run, (g, n, r, a)) \<Rightarrow>
     bindE (keys_are run [(''group'', jint g), (''configuration'', JStr n), (''round'', jint r), (''arm'', JStr a)]) (\<lambda>same.
     bindE (audit same ''formal run order or identity mismatch'') (\<lambda>_.
     check_run_record w directory manifest run (formal_path (g, n, r, a)) a n 30)))"

definition check_warmup :: "world \<Rightarrow> string \<Rightarrow> json \<Rightarrow> json \<times> string \<times> int \<times> string \<Rightarrow> (string \<times> string) py" where
  "check_warmup w directory manifest ri = (case ri of (run, (n, r, a)) \<Rightarrow>
     bindE (keys_are run [(''configuration'', JStr n), (''round'', jint r), (''arm'', JStr a), (''group'', jint 0)]) (\<lambda>same.
     bindE (audit same ''warmup identity mismatch'') (\<lambda>_.
     check_run_record w directory manifest run (''warmup/'' @ a @ ''/'' @ n @ ''.jsonl'') a n 2)))"

definition check_input :: "world \<Rightarrow> string \<times> json \<Rightarrow> string list \<Rightarrow> string list py" where
  "check_input w kv seen = (case kv of (raw_path, want) \<Rightarrow> let path = resolved w raw_path in
     bindE (audit (path \<notin> set seen) ''duplicate frozen input'') (\<lambda>_.
     bindE (audit (is_file w path) ''frozen input is missing'') (\<lambda>_.
     bindE (file_sha w path) (\<lambda>h. bindE (audit (jeq (JStr h) want) ''frozen input changed'') (\<lambda>_. Inr (path # seen))))))"

fun list_items :: "json \<Rightarrow> json list option" where
  "list_items (JList xs) = Some xs"
| "list_items _ = None"

definition require_list :: "json \<Rightarrow> nat \<Rightarrow> string \<Rightarrow> json list py" where
  "require_list v n msg = (case list_items v of None \<Rightarrow> Inl (AnalysisError msg)
     | Some xs \<Rightarrow> bindE (audit (length xs = n) msg) (\<lambda>_. Inr xs))"

fun obj_items :: "json \<Rightarrow> (string \<times> json) list option" where
  "obj_items (JObj d) = Some d"
| "obj_items _ = None"

definition check_inputs :: "world \<Rightarrow> json \<Rightarrow> nat py" where
  "check_inputs w inputs = (case obj_items inputs of None \<Rightarrow> Inl (AnalysisError ''manifest.inputs must be an object'')
     | Some d \<Rightarrow> bindE (audit (length d = EXPECTED_INPUTS) ''wrong number of frozen inputs'') (\<lambda>_.
         bindE (foldE (check_input w) d []) (\<lambda>_. Inr (length d))))"

definition path_of :: "string \<Rightarrow> string" where
  "path_of s = (if s = [] then ''.'' else s)"

definition read_manifest :: "world \<Rightarrow> string \<Rightarrow> json py" where
  "read_manifest w path = bindE (audit (is_file w path) ''manifest is missing'') (\<lambda>_.
     bindE (read_text w path) (\<lambda>t. bindE (case json_loads w t of Inl _ \<Rightarrow> Inl (AnalysisError ''manifest is not valid JSON'') | Inr m \<Rightarrow> Inr m) (\<lambda>m.
     bindE (audit (is_obj m) ''manifest root must be an object'') (\<lambda>_. Inr m))))"

definition load_manifest :: "world \<Rightarrow> string \<Rightarrow> (json \<times> json) py" where
  "load_manifest w directory = (let path = slash directory ''experiment.json'' in
     bindE (read_manifest w path) (\<lambda>manifest.
     bindE (get manifest ''protocol'') (\<lambda>p. bindE (audit (jeq p PROTOCOL) ''protocol differs from the frozen specification'') (\<lambda>_.
     bindE (get_or manifest ''client'' (JStr [])) (\<lambda>c. bindE (as_str c) (\<lambda>c. let client = path_of c in
     bindE (audit (is_file w client) ''client is missing'') (\<lambda>_.
     bindE (file_sha w client) (\<lambda>h. bindE (get manifest ''client_sha256'') (\<lambda>want.
     bindE (audit (jeq (JStr h) want) ''client hash changed'') (\<lambda>_.
     bindE (get manifest ''inputs'') (\<lambda>i. bindE (check_inputs w i) (\<lambda>inputs.
     bindE (get manifest ''runs'') (\<lambda>rs. bindE (require_list rs FORMAL_RUNS ''wrong number of formal runs'') (\<lambda>runs.
     bindE (mapE (check_formal w directory manifest) (zip runs expected_identities)) (\<lambda>paths.
     bindE (audit (set (globbed w directory ''group-*/round-*/*/*.jsonl'') = set (map fst paths)) ''unexpected or missing formal JSONL files'') (\<lambda>_.
     bindE (audit (set (globbed w directory ''group-*/round-*/*/*.stderr.txt'') = set (map snd paths)) ''unexpected or missing formal stderr files'') (\<lambda>_.
     bindE (get manifest ''warmup'') (\<lambda>ws. bindE (require_list ws EXPECTED_WARMUPS ''wrong number of warmup runs'') (\<lambda>warmups.
     bindE (mapE (check_warmup w directory manifest) (zip warmups expected_warmups)) (\<lambda>_.
     bindE (file_sha w path) (\<lambda>mh. bindE (getitem manifest ''client_sha256'') (\<lambda>ch.
     Inr (manifest, JObj [(''manifest'', JStr (resolved w path)), (''manifest_sha256'', JStr mh), (''client'', JStr (resolved w client)),
       (''client_sha256'', ch), (''frozen_inputs'', jint (int inputs)), (''formal_runs'', jint (int (length runs))),
       (''formal_raw_sha256'', jint (int (card (set (map fst paths))))), (''formal_stderr_sha256'', jint (int (card (set (map snd paths))))),
       (''warmup_runs'', jint (int (length warmups))), (''status'', JStr ''verified'')])))))))))))))))))))))))"

section \<open>One run log\<close>

definition load_line :: "world \<Rightarrow> string \<Rightarrow> json py" where
  "load_line w line = bindE (audit (strip line \<noteq> []) ''blank JSONL line'') (\<lambda>_.
     bindE (case json_loads w line of Inl _ \<Rightarrow> Inl (AnalysisError ''invalid JSONL'') | Inr r \<Rightarrow> Inr r) (\<lambda>row.
     bindE (audit (is_obj row) ''non-object JSONL row'') (\<lambda>_. Inr row)))"

definition load_log :: "world \<Rightarrow> string \<Rightarrow> json list py" where
  "load_log w path = (case read_text w path of Inl _ \<Rightarrow> Inl (AnalysisError ''cannot read run log'')
     | Inr t \<Rightarrow> mapE (load_line w) (splitlines t))"

definition planned_messages :: "bool \<Rightarrow> int" where
  "planned_messages burst = 30 * (if burst then 1300000 else 1000000)"

definition validate_start :: "json \<Rightarrow> string \<Rightarrow> unit py" where
  "validate_start start name = bindE (configuration_identity name) (\<lambda>(subscribers, payload, pattern).
     bindE (mapE (\<lambda>(k, v). bindE (get start k) (\<lambda>x. audit (jeq x v) ''start differs from protocol''))
       [(''duration_s'', jint 30), (''subscribers'', jint subscribers), (''payload_bytes'', jint payload), (''pattern'', JStr pattern),
        (''steady_total_rate'', jint 1000000), (''peak_total_rate'', jint 4000000),
        (''burst_ms_per_second'', jint (if pattern = ''burst'' then 100 else 0)),
        (''planned_published'', jint (planned_messages (pattern = ''burst''))), (''capacity_per_publisher_bytes'', jint 4194304),
        (''publication_window_bytes'', jint 131072), (''batch'', jint 1), (''poll_limit'', jint 64), (''sample_hash_mask'', jint 63),
        (''cpus'', JList (map jint [0 .. subscribers + 1])), (''diagnostics'', JBool False), (''stall_subscriber_ms'', jint 0)]) (\<lambda>_.
     bindE (get start ''start_monotonic_ns'') (\<lambda>t.
     audit (is_int_json t \<and> 0 < int_of t) ''start.start_monotonic_ns is invalid'')))"

definition validate_histogram :: "json \<Rightarrow> unit py" where
  "validate_histogram v = bindE (audit (is_obj v) ''must be an object'') (\<lambda>_.
     bindE (mapE (\<lambda>k. bindE (audit (has_key v k) ''is invalid'') (\<lambda>_. bindE (getitem v k) (\<lambda>x. audit (nonnegative x) ''is invalid'')))
       HISTOGRAM_KEYS) (\<lambda>_. Inr ()))"

text \<open>\<open>math.isclose(a, b, rel_tol=r, abs_tol=t)\<close>\<close>

definition isclose_rel :: "pyfloat \<Rightarrow> pyfloat \<Rightarrow> pyfloat \<Rightarrow> pyfloat \<Rightarrow> bool" where
  "isclose_rel a b r t \<longleftrightarrow> feq a b \<or> (a \<notin> {PInf, NInf} \<and> b \<notin> {PInf, NInf} \<and>
     (let d = fabs (fsub b a) in fle d (fabs (fmul r b)) \<or> fle d (fabs (fmul r a)) \<or> fle d t))"

section \<open>The result record\<close>

text \<open>A list index taken from a document, with Python's negative indices.\<close>

fun list_index :: "json \<Rightarrow> 'a list \<Rightarrow> 'a py" where
  "list_index (JNum (I n)) xs = (if 0 \<le> n then nthE xs (nat n)
     else if - n \<le> int (length xs) then nthE xs (nat (int (length xs) + n)) else Inl IndexError)"
| "list_index (JBool b) xs = nthE xs (if b then 1 else 0)"
| "list_index _ xs = Inl TypeError"

definition int_field :: "json \<Rightarrow> string \<Rightarrow> int py" where
  "int_field d k = bindE (get d k) (\<lambda>v. bindE (audit (is_int_json v \<and> 0 \<le> int_of v) ''is invalid'') (\<lambda>_. Inr (int_of v)))"

definition num_item :: "json \<Rightarrow> string \<Rightarrow> num py" where
  "num_item d k = bindE (getitem d k) as_num"

definition bool_field :: "json \<Rightarrow> string \<Rightarrow> unit py" where
  "bool_field d k = bindE (get d k) (\<lambda>v. audit (is_bool v) ''is invalid'')"

definition check_histogram :: "json \<Rightarrow> string \<Rightarrow> unit py" where
  "check_histogram d k = bindE (get d k) validate_histogram"

definition check_resources :: "json \<Rightarrow> unit py" where
  "check_resources d = bindE (get d ''resources'') (\<lambda>v. require_nonnegative_mapping v RESOURCE_KEYS)"

text \<open>Both publishers balance against their half of the plan; the sums are carried along.\<close>

definition check_publisher :: "int \<Rightarrow> int \<Rightarrow> json \<Rightarrow> num \<times> num \<Rightarrow> (num \<times> num) py" where
  "check_publisher planned unsent publisher totals = (let per = planned div 2 in
     bindE (require_nonnegative_mapping publisher [''sent'', ''unsent'', ''backpressure_retries'', ''backpressured_messages'',
        ''backpressure_episode_ns'', ''max_backpressure_episode_ns'', ''unsent_backlog_highwater_observed'']) (\<lambda>_.
     bindE (num_item publisher ''sent'') (\<lambda>sent. bindE (audit (nle sent (I per)) ''sent exceeds plan'') (\<lambda>_.
     bindE (num_item publisher ''unsent'') (\<lambda>un. bindE (nsub (I per) sent) (\<lambda>rest. bindE (audit (neq un rest) ''unsent is inconsistent'') (\<lambda>_.
     bindE (num_item publisher ''max_backpressure_episode_ns'') (\<lambda>mx. bindE (num_item publisher ''backpressure_episode_ns'') (\<lambda>sm.
     bindE (audit (nle mx sm) ''backpressure maximum exceeds its sum'') (\<lambda>_.
     bindE (num_item publisher ''backpressured_messages'') (\<lambda>bp. bindE (nadd sent (I unsent)) (\<lambda>lim.
     bindE (audit (nle bp lim) ''backpressured_messages is invalid'') (\<lambda>_.
     bindE (check_histogram publisher ''first_attempt_to_commit'') (\<lambda>_. bindE (check_histogram publisher ''planned_to_first_attempt'') (\<lambda>_.
     bindE (check_resources publisher) (\<lambda>_.
     bindE (nadd (fst totals) sent) (\<lambda>s. bindE (nadd (snd totals) un) (\<lambda>u. Inr (s, u)))))))))))))))))))"

definition check_publishers :: "json list \<Rightarrow> int \<Rightarrow> int \<Rightarrow> int \<Rightarrow> unit py" where
  "check_publishers publishers planned published unsent =
     bindE (mapE (\<lambda>p. get p ''publisher'') publishers) (\<lambda>ids.
     bindE (audit (jeq (JList ids) (JList [jint 0, jint 1])) ''publisher role ids must be [0, 1]'') (\<lambda>_.
     bindE (foldE (check_publisher planned unsent) publishers (I 0, I 0)) (\<lambda>(s, u).
     bindE (audit (neq s (I published)) ''publisher sent sum differs from result.published'') (\<lambda>_.
     audit (neq u (I unsent)) ''publisher unsent sum differs from result.unsent_at_cutoff''))))"

definition max0 :: "num \<Rightarrow> num" where
  "max0 x = (if nlt (I 0) x then x else I 0)"

definition check_sequence :: "json list \<Rightarrow> json \<Rightarrow> unit py" where
  "check_sequence publishers item =
     bindE (mapE (int_field item) [''received'', ''unique'', ''missing_published'', ''duplicates'', ''out_of_order'', ''gap_events'',
        ''gap_positions_observed'', ''corrupt'', ''invalid'']) (\<lambda>_.
     bindE (get item ''channel_producer_id'') (\<lambda>c. bindE (audit (is_int_json c) ''channel_producer_id is invalid'') (\<lambda>_.
     bindE (getitem item ''publisher'') (\<lambda>i. bindE (list_index i publishers) (\<lambda>p. bindE (num_item p ''sent'') (\<lambda>sent.
     bindE (num_item item ''unique'') (\<lambda>u. bindE (audit (nle u sent) ''unique exceeds sent'') (\<lambda>_.
     bindE (num_item item ''missing_published'') (\<lambda>m. bindE (nsub sent u) (\<lambda>d.
     audit (neq m (max0 d)) ''missing_published is inconsistent''))))))))))"

definition check_subscriber :: "json list \<Rightarrow> int \<Rightarrow> json \<Rightarrow> int \<Rightarrow> int py" where
  "check_subscriber publishers planned subscriber running =
     bindE (int_field subscriber ''received'') (\<lambda>received.
     bindE (int_field subscriber ''unreceived_at_measurement_cutoff_observed'') (\<lambda>_.
     bindE (int_field subscriber ''unreceived_after_drain'') (\<lambda>unreceived.
     bindE (audit (received \<le> planned) ''received exceeds plan'') (\<lambda>_.
     bindE (audit (unreceived = planned - received) ''unreceived_after_drain is inconsistent'') (\<lambda>_.
     bindE (bool_field subscriber ''integrity_pass'') (\<lambda>_.
     bindE (check_histogram subscriber ''from_first_attempt'') (\<lambda>_. bindE (check_histogram subscriber ''from_planned_arrival'') (\<lambda>_.
     bindE (check_resources subscriber) (\<lambda>_.
     bindE (get subscriber ''sequence'') (\<lambda>sq. bindE (require_list sq 2 ''must contain two publisher sequences'') (\<lambda>sequence.
     bindE (mapE (\<lambda>x. get x ''publisher'') sequence) (\<lambda>ids.
     bindE (audit (jeq (JList ids) (JList [jint 0, jint 1])) ''publisher sequence ids must be [0, 1]'') (\<lambda>_.
     bindE (mapE (check_sequence publishers) sequence) (\<lambda>_.
     bindE (mapE (\<lambda>x. getitem x ''channel_producer_id'') sequence) (\<lambda>cs.
     bindE (audit (\<not> jeq (cs ! 0) (cs ! 1)) ''channel producer ids are not distinct'') (\<lambda>_.
     Inr (running + received)))))))))))))))))"

definition check_subscribers :: "json list \<Rightarrow> json \<Rightarrow> int \<Rightarrow> int \<Rightarrow> int py" where
  "check_subscribers publishers v planned subscriber_count =
     bindE (require_list v (nat subscriber_count) ''result subscriber count differs from the configuration'') (\<lambda>subscribers.
     bindE (mapE (\<lambda>x. get x ''subscriber'') subscribers) (\<lambda>ids.
     bindE (audit (jeq (JList ids) (JList (map jint [0 .. subscriber_count - 1]))) ''subscriber role ids differ from 0..N-1'') (\<lambda>_.
     foldE (check_subscriber publishers planned) subscribers 0)))"

definition ends_with :: "string \<Rightarrow> string \<Rightarrow> bool" where
  "ends_with s t = starts_with (rev s) (rev t)"

definition check_rate :: "json \<Rightarrow> int \<Rightarrow> unit py" where
  "check_rate result published = bindE (ndiv (I published) (I 30)) (\<lambda>expected.
     bindE (get result ''actual_published_msg_s'') (\<lambda>v. bindE (audit (is_number v) ''result.actual_published_msg_s is inconsistent'') (\<lambda>_.
     bindE (to_float (num_of v)) (\<lambda>a. bindE (to_float expected) (\<lambda>b.
     audit (isclose_rel a b (rnd (1 / 10 ^ 5)) (rnd (1 / 10 ^ 6))) ''result.actual_published_msg_s is inconsistent'')))))"

definition validate_result :: "json \<Rightarrow> string \<Rightarrow> int \<Rightarrow> unit py" where
  "validate_result result name subscriber_count =
     bindE (get result ''planned_published'') (\<lambda>pv. bindE (get result ''published'') (\<lambda>bv.
     bindE (get result ''delivered'') (\<lambda>dv. bindE (get result ''unsent_at_cutoff'') (\<lambda>uv.
     let planned = int_of pv; published = int_of bv; unsent = int_of uv in
     bindE (get result ''measurement_seconds'') (\<lambda>ms. bindE (audit (jeq ms (jint 30)) ''result.measurement_seconds mismatch'') (\<lambda>_.
     bindE (audit (is_int_json pv \<and> planned = planned_messages (ends_with name ''burst'')) ''result.planned_published mismatch'') (\<lambda>_.
     bindE (audit (is_int_json bv \<and> 0 \<le> published \<and> published \<le> planned) ''result.published is invalid'') (\<lambda>_.
     bindE (audit (is_int_json uv \<and> unsent = planned - published) ''result.unsent_at_cutoff is inconsistent'') (\<lambda>_.
     bindE (get result ''wall_seconds_including_drain_and_reap'') (\<lambda>wv.
     bindE (audit (is_number wv \<and> nle (I 30) (num_of wv)) ''result.wall_seconds_including_drain_and_reap is invalid'') (\<lambda>_.
     bindE (check_rate result published) (\<lambda>_.
     bindE (bool_field result ''integrity_pass'') (\<lambda>_. bindE (bool_field result ''worker_failure'') (\<lambda>_.
     bindE (get result ''publishers'') (\<lambda>ps. bindE (require_list ps 2 ''result must contain exactly two publishers'') (\<lambda>publishers.
     bindE (check_publishers publishers planned published unsent) (\<lambda>_.
     bindE (get result ''subscribers'') (\<lambda>ss. bindE (check_subscribers publishers ss planned subscriber_count) (\<lambda>received_total.
     bindE (audit (jeq dv (jint received_total)) ''result.delivered differs from subscriber received sum'') (\<lambda>_.
     bindE (get result ''offered_load_completed'') (\<lambda>cv.
     audit (jeq cv (JBool (unsent = 0 \<and> received_total = published * subscriber_count))) ''result.offered_load_completed is inconsistent'')))))))))))))))))))))"

section \<open>Progress snapshots\<close>

definition nonneg_ints :: "json list \<Rightarrow> bool" where
  "nonneg_ints vs \<longleftrightarrow> (\<forall>v \<in> set vs. is_int_json v \<and> 0 \<le> int_of v)"

definition check_progress :: "json \<Rightarrow> num \<times> int \<Rightarrow> (num \<times> int) py" where
  "check_progress row prev =
     bindE (get row ''elapsed_s'') (\<lambda>elapsed. bindE (get row ''due'') (\<lambda>due. bindE (get row ''sent'') (\<lambda>sent. bindE (get row ''received'') (\<lambda>received.
     bindE (audit (is_number elapsed \<and> nle (fst prev) (num_of elapsed)) ''elapsed_s is not monotonic'') (\<lambda>_.
     bindE (audit (is_int_json due \<and> snd prev \<le> int_of due) ''due is not monotonic'') (\<lambda>_.
     bindE (audit (case list_items sent of None \<Rightarrow> False | Some vs \<Rightarrow> length vs = 2 \<and> nonneg_ints vs) ''sent shape is invalid'') (\<lambda>_.
     bindE (audit (case list_items received of None \<Rightarrow> False | Some vs \<Rightarrow> vs \<noteq> [] \<and> nonneg_ints vs) ''received shape is invalid'') (\<lambda>_.
     Inr (num_of elapsed, int_of due)))))))))"

definition progress_observation :: "json list \<Rightarrow> json py" where
  "progress_observation progress =
     bindE (audit (progress \<noteq> []) ''run has no progress observations'') (\<lambda>_.
     bindE (foldE check_progress progress (F (Fin (- 1)), - 1)) (\<lambda>_. let latest = last progress in
     bindE (getitem latest ''sent'') (\<lambda>sent. bindE (as_list sent) (\<lambda>vs. let sent_total = sum_list (map int_of vs) in
     bindE (getitem latest ''elapsed_s'') (\<lambda>elapsed. bindE (getitem latest ''due'') (\<lambda>due. bindE (getitem latest ''received'') (\<lambda>received.
     Inr (JObj [(''count'', jint (int (length progress))),
       (''last'', JObj [(''elapsed_s'', elapsed), (''due'', due), (''sent'', sent), (''received'', received),
          (''due_minus_sent_total_lower_bound'', jint (max 0 (int_of due - sent_total)))]),
       (''is_measurement_cutoff'', JBool False),
       (''counter_semantics'', JStr ''independent periodic atomic snapshots; sent advances every 256 messages'')]))))))))"

section \<open>The analysis of one run\<close>

definition pick_keys :: "json \<Rightarrow> string list \<Rightarrow> (string \<times> json) list py" where
  "pick_keys d ks = mapE (\<lambda>k. bindE (getitem d k) (\<lambda>v. Inr (k, v))) ks"

definition sub_object :: "json \<Rightarrow> string \<Rightarrow> string list \<Rightarrow> json py" where
  "sub_object d k ks = bindE (getitem d k) (\<lambda>x. bindE (pick_keys x ks) (\<lambda>kvs. Inr (JObj kvs)))"

definition publisher_view :: "json \<Rightarrow> json py" where
  "publisher_view p = bindE (pick_keys p [''publisher'', ''sent'', ''unsent'', ''backpressure_retries'', ''backpressured_messages'',
       ''backpressure_episode_ns'', ''max_backpressure_episode_ns'', ''unsent_backlog_highwater_observed'']) (\<lambda>kvs.
     bindE (sub_object p ''planned_to_first_attempt'' HISTOGRAM_KEYS) (\<lambda>h. bindE (sub_object p ''resources'' RESOURCE_KEYS) (\<lambda>r.
     Inr (JObj (kvs @ [(''backlog_sampling_interval_messages'', jint 256), (''planned_to_first_attempt'', h), (''resources'', r)])))))"

definition subscriber_view :: "json \<Rightarrow> json py" where
  "subscriber_view x = bindE (pick_keys x [''subscriber'', ''received'', ''unreceived_at_measurement_cutoff_observed'',
       ''unreceived_after_drain'', ''integrity_pass'']) (\<lambda>kvs. bindE (sub_object x ''resources'' RESOURCE_KEYS) (\<lambda>r.
     Inr (JObj (kvs @ [(''resources'', r)]))))"

definition unreceived_view :: "string \<Rightarrow> json \<Rightarrow> json py" where
  "unreceived_view k x = bindE (getitem x ''subscriber'') (\<lambda>i. bindE (getitem x k) (\<lambda>v.
     Inr (JObj [(''subscriber'', i), (''unreceived'', v)])))"

definition indices_of_type :: "string \<Rightarrow> json list \<Rightarrow> nat list py" where
  "indices_of_type t rows = bindE (mapE (\<lambda>r. get r ''type'') rows) (\<lambda>ts.
     Inr (filter (\<lambda>i. jeq (ts ! i) (JStr t)) [0 ..< length ts]))"

definition cutoff_view :: "json \<Rightarrow> json list \<Rightarrow> json py" where
  "cutoff_view result subscribers = bindE (getitem result ''planned_published'') (\<lambda>pl. bindE (getitem result ''published'') (\<lambda>pb.
     bindE (getitem result ''unsent_at_cutoff'') (\<lambda>un.
     bindE (mapE (unreceived_view ''unreceived_at_measurement_cutoff_observed'') subscribers) (\<lambda>us.
     Inr (JObj [(''planned_published'', pl), (''published'', pb), (''unsent'', un), (''subscriber_unreceived_observed'', JList us),
       (''source'', JStr ''result counters; consumer cutoff is detected on the first poll after the 30 s boundary'')])))))"

definition drain_view :: "json \<Rightarrow> json list \<Rightarrow> json py" where
  "drain_view result subscribers = bindE (getitem result ''wall_seconds_including_drain_and_reap'') (\<lambda>wl. bindE (getitem result ''published'') (\<lambda>pb.
     bindE (getitem result ''delivered'') (\<lambda>dl.
     bindE (mapE (unreceived_view ''unreceived_after_drain'') subscribers) (\<lambda>us.
     Inr (JObj [(''wall_seconds_including_drain_and_reap'', wl), (''published'', pb), (''delivered'', dl),
       (''subscriber_unreceived_after_drain'', JList us), (''cutoff_to_drain_elapsed_available'', JBool False),
       (''reason'', JStr ''result records one combined wall duration, not cutoff and drain/reap timestamps'')])))))"

definition run_analysis :: "json \<Rightarrow> json list \<Rightarrow> json py" where
  "run_analysis run rows = bindE (getitem run ''configuration'') (\<lambda>nv. bindE (as_str nv) (\<lambda>name.
     bindE (configuration_identity name) (\<lambda>(subscriber_count, _, _).
     bindE (indices_of_type ''start'' rows) (\<lambda>starts. bindE (indices_of_type ''result'' rows) (\<lambda>results.
     bindE (audit (starts = [0]) ''run must have exactly one leading start record'') (\<lambda>_.
     bindE (audit (results = [length rows - 1]) ''run must have exactly one trailing result record'') (\<lambda>_.
     let progress = butlast (tl rows); start = hd rows; result = last rows in
     bindE (everyE (\<lambda>r. bindE (get r ''type'') (\<lambda>t. Inr (jeq t (JStr ''progress'')))) progress) (\<lambda>ok.
     bindE (audit ok ''run contains an unknown record type'') (\<lambda>_.
     bindE (validate_start start name) (\<lambda>_. bindE (validate_result result name subscriber_count) (\<lambda>_.
     bindE (progress_observation progress) (\<lambda>summary.
     bindE (getitem summary ''last'') (\<lambda>la. bindE (getitem la ''received'') (\<lambda>rv. bindE (as_list rv) (\<lambda>rl.
     bindE (audit (int (length rl) = subscriber_count) ''last progress subscriber shape differs from the configuration'') (\<lambda>_.
     bindE (getitem result ''planned_published'') (\<lambda>a. bindE (getitem start ''planned_published'') (\<lambda>b.
     bindE (audit (jeq a b) ''start and result planned_published differ'') (\<lambda>_.
     bindE (getitem result ''publishers'') (\<lambda>ps. bindE (as_list ps) (\<lambda>pl. bindE (mapE publisher_view pl) (\<lambda>publishers.
     bindE (getitem result ''subscribers'') (\<lambda>ss. bindE (as_list ss) (\<lambda>sl. bindE (mapE subscriber_view sl) (\<lambda>subscribers.
     bindE (pick_keys run [''group'']) (\<lambda>i1. bindE (pick_keys run [''round'', ''arm'', ''raw'', ''raw_sha256'']) (\<lambda>i2.
     bindE (getitem result ''offered_load_completed'') (\<lambda>complete. bindE (pick_keys result [''integrity_pass'', ''worker_failure'']) (\<lambda>i3.
     bindE (cutoff_view result sl) (\<lambda>cut. bindE (drain_view result sl) (\<lambda>drain.
     Inr (JObj (i1 @ [(''configuration'', JStr name)] @ i2 @ [(''identity_verified'', JBool True), (''complete'', complete)] @ i3 @
       [(''progress_observation'', summary), (''measurement_cutoff'', cut), (''drain_reap_end'', drain),
        (''publishers'', JList publishers), (''subscribers'', JList subscribers),
        (''role_structure'', JObj [(''publisher_count'', jint (int (length publishers))), (''subscriber_count'', jint (int (length subscribers))),
           (''configuration_subscribers'', jint subscriber_count), (''status'', JStr ''verified'')])])))))))))))))))))))))))))))))))))"

section \<open>Assessment and the whole document\<close>

definition incomplete_runs :: "json list \<Rightarrow> json list py" where
  "incomplete_runs runs = filterE (\<lambda>r. bindE (getitem r ''complete'') (\<lambda>c. Inr (\<not> truthy c))) runs"

definition has_backpressure :: "json \<Rightarrow> bool py" where
  "has_backpressure run = bindE (getitem run ''publishers'') (\<lambda>ps. bindE (as_list ps) (\<lambda>ps.
     someE (\<lambda>p. bindE (getitem p ''backpressure_retries'') (\<lambda>a. if truthy a then Inr True
       else bindE (getitem p ''backpressure_episode_ns'') (\<lambda>b. Inr (truthy b)))) ps))"

definition tiny_shortfall :: "json \<Rightarrow> bool py" where
  "tiny_shortfall run = bindE (getitem run ''measurement_cutoff'') (\<lambda>m. bindE (num_item m ''unsent'') (\<lambda>u. Inr (nle u (I 100))))"

definition candidate :: "nat \<Rightarrow> string \<Rightarrow> string \<Rightarrow> string \<Rightarrow> json" where
  "candidate rank name evidence boundary = JObj [(''rank'', jint (int rank)), (''candidate'', JStr name), (''evidence'', JStr evidence),
     (''proven'', JBool False), (''boundary'', JStr boundary)]"

definition ranked :: "(string \<times> string \<times> string) list \<Rightarrow> json list" where
  "ranked cs = map (\<lambda>(i, (n, e, b)). candidate (i + 1) n e b) (zip [0 ..< length cs] cs)"

definition show_len :: "'a list \<Rightarrow> string" where
  "show_len xs = show_int (int (length xs))"

definition candidate_assessment :: "json list \<Rightarrow> json py" where
  "candidate_assessment runs = bindE (incomplete_runs runs) (\<lambda>incomplete.
     bindE (filterE has_backpressure incomplete) (\<lambda>backpressured.
     bindE (filterE tiny_shortfall incomplete) (\<lambda>tiny.
     bindE (mapE (\<lambda>r. bindE (getitem r ''arm'') as_str) incomplete) (\<lambda>as. let arms = keys_of (\<lambda>a. a) as in
     Inr (JObj [(''ranking'', JList (ranked (
         (case arms of [a] \<Rightarrow> [(a @ ''-arm-specific publication progress'',
             ''all '' @ show_len incomplete @ '' incomplete formal runs are arm '' @ a,
             ''this is an observed association; the evidence does not establish a product-code cause'')] | _ \<Rightarrow> [])
         @ (if backpressured \<noteq> [] then [(''publisher backpressure and publication backlog'',
             show_len backpressured @ ''/'' @ show_len incomplete @ '' incomplete runs contain nonzero publisher retry/backpressure counters'',
             ''backpressure counters can be a symptom of downstream or scheduling delay; they do not identify its source'')] else [])
         @ (if tiny \<noteq> [] then [(''end-of-window arrival or cutoff boundary'',
             show_len tiny @ '' incomplete run(s) have at most 100 unsent messages'',
             ''the preserved logs have no synchronized trace at the final arrival and stop transition'')] else [])
         @ [(''host scheduling interference'',
             ''incomplete publisher roles record large planned-to-attempt tails and involuntary context switches'',
             ''there is no synchronized off-CPU trace or host-wide causal marker in the preserved input'')]))),
       (''explicitly_not_proven'', JList [JStr ''host scheduler as root cause'', JStr ''CPU cache or cache-line contention as root cause'',
         JStr ''a specific product-code defect as root cause''])])))))"

definition incomplete_view :: "json \<Rightarrow> json py" where
  "incomplete_view run = bindE (pick_keys run [''group'', ''configuration'', ''round'', ''arm'']) (\<lambda>kvs.
     bindE (getitem run ''measurement_cutoff'') (\<lambda>m. bindE (pick_keys m [''unsent'']) (\<lambda>u. Inr (JObj (kvs @ u)))))"

definition analyze_run :: "world \<Rightarrow> string \<Rightarrow> json \<Rightarrow> json py" where
  "analyze_run w directory run = bindE (getitem run ''raw'') (\<lambda>raw. bindE (as_str raw) (\<lambda>name.
     bindE (load_log w (slash directory name)) (\<lambda>rows. run_analysis run rows)))"

definition count_true :: "string \<Rightarrow> json list \<Rightarrow> json py" where
  "count_true k runs = bindE (mapE (\<lambda>r. bindE (getitem r k) as_num) runs) (\<lambda>ns.
     bindE (foldE (\<lambda>x s. nadd s x) ns (I 0)) (\<lambda>n. Inr (JNum n)))"

definition analyze :: "world \<Rightarrow> string \<Rightarrow> json py" where
  "analyze w path = (let directory = resolved w path in
     bindE (load_manifest w directory) (\<lambda>(manifest, identity).
     bindE (getitem manifest ''runs'') (\<lambda>rv. bindE (as_list rv) (\<lambda>rl. bindE (mapE (analyze_run w directory) rl) (\<lambda>runs.
     bindE (incomplete_runs runs) (\<lambda>inc. bindE (mapE incomplete_view inc) (\<lambda>incomplete.
     bindE (audit (length incomplete = 4) ''expected the four preserved incomplete S runs'') (\<lambda>_.
     bindE (everyE (\<lambda>r. bindE (getitem r ''arm'') (\<lambda>a. Inr (jeq a (JStr ''S'')))) incomplete) (\<lambda>ok.
     bindE (audit ok ''preserved incomplete-run arm identity changed'') (\<lambda>_.
     bindE (count_true ''complete'' runs) (\<lambda>n1. bindE (count_true ''integrity_pass'' runs) (\<lambda>n2. bindE (count_true ''worker_failure'' runs) (\<lambda>n3.
     bindE (candidate_assessment runs) (\<lambda>assessment.
     Inr (JObj [(''schema_version'', jint 1), (''evidence'', identity),
       (''p3_1_g4'', JObj [(''conclusion'', JStr ''FAIL''),
          (''status'', JStr ''preserved; this analysis does not re-adjudicate or replace the formal gate'')]),
       (''run_inventory'', JObj [(''formal_runs'', jint (int (length runs))), (''complete'', n1), (''incomplete'', JList incomplete),
          (''integrity_pass'', n2), (''worker_failures'', n3)]),
       (''observation_boundaries'', JObj [(''progress'', JStr ''periodic 1 s snapshot; not the measurement cutoff''),
          (''measurement_cutoff'', JStr ''result publisher totals and first observed subscriber cutoff counters''),
          (''drain_reap'', JStr ''later completion captured by delivered and unreceived_after_drain plus one combined wall duration'')]),
       (''runs'', JList runs), (''root_cause_assessment'', assessment)])))))))))))))))"

section \<open>What an accepted result guarantees\<close>

lemma require_list_Inr: "require_list v n msg = Inr xs \<longleftrightarrow> v = JList xs \<and> length xs = n"
  by (cases v) (auto simp: require_list_def)

lemma fold_publishers:
  assumes "foldE (check_publisher planned unsent) ps (a, b) = Inr (s, u)"
  shows "\<forall>p \<in> set ps. \<exists>sent un rest. num_item p ''sent'' = Inr sent \<and> num_item p ''unsent'' = Inr un
      \<and> nsub (I (planned div 2)) sent = Inr rest \<and> neq un rest \<and> nle sent (I (planned div 2))"
  using assms
proof (induction ps arbitrary: a b)
  case (Cons p ps)
  from Cons.prems obtain t where t: "check_publisher planned unsent p (a, b) = Inr t" "foldE (check_publisher planned unsent) ps t = Inr (s, u)"
    by auto
  obtain a' b' where ab: "t = (a', b')" by (cases t)
  from t(1) have "\<exists>sent un rest. num_item p ''sent'' = Inr sent \<and> num_item p ''unsent'' = Inr un
      \<and> nsub (I (planned div 2)) sent = Inr rest \<and> neq un rest \<and> nle sent (I (planned div 2))"
    unfolding check_publisher_def bindE_Inr audit_Inr Let_def by blast
  then show ?case using Cons.IH [of a' b'] t(2) ab by simp
qed simp

lemma fold_subscribers:
  assumes "foldE (check_subscriber publishers planned) xs n = Inr m"
  shows "\<exists>rs. length rs = length xs \<and> m = n + sum_list rs \<and> (\<forall>i < length xs. int_field (xs ! i) ''received'' = Inr (rs ! i)
      \<and> 0 \<le> rs ! i \<and> rs ! i \<le> planned \<and> int_field (xs ! i) ''unreceived_after_drain'' = Inr (planned - rs ! i))"
  using assms
proof (induction xs arbitrary: n)
  case (Cons x xs)
  from Cons.prems obtain k where k: "check_subscriber publishers planned x n = Inr k" "foldE (check_subscriber publishers planned) xs k = Inr m"
    by auto
  from k(1) obtain r where r: "int_field x ''received'' = Inr r" "r \<le> planned" "int_field x ''unreceived_after_drain'' = Inr (planned - r)" "k = n + r"
    unfolding check_subscriber_def bindE_Inr audit_Inr sum.inject by blast
  have "0 \<le> r" using r(1) by (auto simp: int_field_def)
  from Cons.IH [OF k(2)] obtain rs where rs: "length rs = length xs" "m = k + sum_list rs"
    "\<forall>i < length xs. int_field (xs ! i) ''received'' = Inr (rs ! i) \<and> 0 \<le> rs ! i \<and> rs ! i \<le> planned
       \<and> int_field (xs ! i) ''unreceived_after_drain'' = Inr (planned - rs ! i)" by blast
  show ?case using rs r \<open>0 \<le> r\<close> by (intro exI [of _ "r # rs"]) (auto simp: nth_Cons' less_Suc_eq_0_disj)
qed simp

text \<open>C4. In an accepted result record nothing is lost from the books: published and unsent make up the
  plan, each publisher's unsent count is its half of the plan less what it sent and never
  exceeds it, every subscriber's unreceived count is the plan less what it received, the
  delivered count is the sum over the subscribers, and the record calls itself complete exactly
  when nothing was left unsent and every subscriber got every message.\<close>

theorem result_balances:
  assumes "validate_result result name subscribers = Inr u"
  shows "\<exists>planned published unsent publishers xs rs.
       get result ''planned_published'' = Inr (jint planned) \<and> planned = planned_messages (ends_with name ''burst'')
     \<and> get result ''published'' = Inr (jint published) \<and> 0 \<le> published \<and> get result ''unsent_at_cutoff'' = Inr (jint unsent)
     \<and> 0 \<le> unsent \<and> published + unsent = planned
     \<and> get result ''publishers'' = Inr (JList publishers) \<and> length publishers = 2
     \<and> (\<forall>p \<in> set publishers. \<exists>sent un rest. num_item p ''sent'' = Inr sent \<and> num_item p ''unsent'' = Inr un
          \<and> nsub (I (planned div 2)) sent = Inr rest \<and> neq un rest \<and> nle sent (I (planned div 2)))
     \<and> get result ''subscribers'' = Inr (JList xs) \<and> length xs = nat subscribers \<and> length rs = length xs
     \<and> (\<forall>i < length xs. int_field (xs ! i) ''received'' = Inr (rs ! i) \<and> 0 \<le> rs ! i \<and> rs ! i \<le> planned
          \<and> int_field (xs ! i) ''unreceived_after_drain'' = Inr (planned - rs ! i))
     \<and> (\<exists>dv. get result ''delivered'' = Inr dv \<and> jeq dv (jint (sum_list rs)))
     \<and> (\<exists>cv. get result ''offered_load_completed'' = Inr cv \<and> jeq cv (JBool (unsent = 0 \<and> sum_list rs = published * subscribers)))"
proof -
  from assms obtain pv bv dv uv publishers ps ss m cv where r:
    "get result ''planned_published'' = Inr pv" "get result ''published'' = Inr bv" "get result ''delivered'' = Inr dv"
    "get result ''unsent_at_cutoff'' = Inr uv"
    "is_int_json pv \<and> int_of pv = planned_messages (ends_with name ''burst'')" "is_int_json bv \<and> 0 \<le> int_of bv \<and> int_of bv \<le> int_of pv"
    "is_int_json uv \<and> int_of uv = int_of pv - int_of bv"
    "get result ''publishers'' = Inr ps" "require_list ps 2 ''result must contain exactly two publishers'' = Inr publishers"
    "\<exists>v. check_publishers publishers (int_of pv) (int_of bv) (int_of uv) = Inr v"
    "get result ''subscribers'' = Inr ss" "check_subscribers publishers ss (int_of pv) subscribers = Inr m" "jeq dv (jint m)"
    "get result ''offered_load_completed'' = Inr cv" "jeq cv (JBool (int_of uv = 0 \<and> m = int_of bv * subscribers))"
    unfolding validate_result_def bindE_Inr audit_Inr Let_def by blast
  have ints: "pv = jint (int_of pv)" "bv = jint (int_of bv)" "uv = jint (int_of uv)"
    using r(5-7) by (auto elim: is_int_json.elims)
  from r(12) obtain xs where xs: "ss = JList xs" "length xs = nat subscribers" "foldE (check_subscriber publishers (int_of pv)) xs 0 = Inr m"
    unfolding check_subscribers_def bindE_Inr require_list_Inr by blast
  from fold_subscribers [OF xs(3)] obtain rs where rs: "length rs = length xs" "m = 0 + sum_list rs"
    "\<forall>i < length xs. int_field (xs ! i) ''received'' = Inr (rs ! i) \<and> 0 \<le> rs ! i \<and> rs ! i \<le> int_of pv
       \<and> int_field (xs ! i) ''unreceived_after_drain'' = Inr (int_of pv - rs ! i)" by blast
  from r(10) obtain v s w where "foldE (check_publisher (int_of pv) (int_of uv)) publishers (I 0, I 0) = Inr (s, w)"
    unfolding check_publishers_def bindE_Inr by (elim exE conjE) (metis prod.exhaust)
  note ps = fold_publishers [OF this]
  show ?thesis
    by (rule exI [of _ "int_of pv"], rule exI [of _ "int_of bv"], rule exI [of _ "int_of uv"], rule exI [of _ publishers],
        rule exI [of _ xs], rule exI [of _ rs], intro conjI)
      (use r(1-4) ints r(5-9,11,13-15) xs(1,2) rs ps in \<open>simp_all add: require_list_Inr\<close>)
qed

definition demo_numbers :: "string list \<Rightarrow> json" where
  "demo_numbers ks = JObj (map (\<lambda>k. (k, jint 7)) ks)"

definition demo_publisher :: "int \<Rightarrow> json" where
  "demo_publisher i = JObj [(''publisher'', jint i), (''sent'', jint 15000000), (''unsent'', jint 0), (''backpressure_retries'', jint 0),
     (''backpressured_messages'', jint 0), (''backpressure_episode_ns'', jint 0), (''max_backpressure_episode_ns'', jint 0),
     (''unsent_backlog_highwater_observed'', jint 0), (''first_attempt_to_commit'', demo_numbers HISTOGRAM_KEYS),
     (''planned_to_first_attempt'', demo_numbers HISTOGRAM_KEYS), (''resources'', demo_numbers RESOURCE_KEYS)]"

definition demo_sequence :: "int \<Rightarrow> json" where
  "demo_sequence i = JObj ([(''publisher'', jint i), (''channel_producer_id'', jint (i + 5)), (''unique'', jint 15000000), (''received'', jint 15000000)]
     @ map (\<lambda>k. (k, jint 0)) [''missing_published'', ''duplicates'', ''out_of_order'', ''gap_events'', ''gap_positions_observed'', ''corrupt'', ''invalid''])"

definition demo_result :: json where
  "demo_result = JObj [(''planned_published'', jint 30000000), (''published'', jint 30000000), (''delivered'', jint 30000000),
     (''unsent_at_cutoff'', jint 0), (''measurement_seconds'', jint 30), (''wall_seconds_including_drain_and_reap'', jint 31),
     (''actual_published_msg_s'', jint 1000000), (''integrity_pass'', JBool True), (''worker_failure'', JBool False),
     (''publishers'', JList [demo_publisher 0, demo_publisher 1]),
     (''subscribers'', JList [JObj [(''subscriber'', jint 0), (''received'', jint 30000000), (''unreceived_at_measurement_cutoff_observed'', jint 3),
        (''unreceived_after_drain'', jint 0), (''integrity_pass'', JBool True), (''from_first_attempt'', demo_numbers HISTOGRAM_KEYS),
        (''from_planned_arrival'', demo_numbers HISTOGRAM_KEYS), (''resources'', demo_numbers RESOURCE_KEYS),
        (''sequence'', JList [demo_sequence 0, demo_sequence 1])]]),
     (''offered_load_completed'', JBool True)]"

lemma demo_result_ok: "validate_result demo_result ''2p1s-64b-steady'' 1 = Inr ()"
  by code_simp

lemma result_balances_witness:
  "\<exists>published unsent. get demo_result ''published'' = Inr (jint published) \<and> published + unsent = planned_messages False"
proof -
  have "ends_with ''2p1s-64b-steady'' ''burst'' = False" by code_simp
  then show ?thesis using result_balances [OF demo_result_ok] by auto
qed

section \<open>Progress and artifacts\<close>

lemma progress_chain:
  assumes "foldE check_progress rows (e, d) = Inr q"
  shows "\<exists>es ds. mapE (\<lambda>r. get r ''elapsed_s'') rows = Inr (map JNum es) \<and> mapE (\<lambda>r. get r ''due'') rows = Inr (map jint ds)
      \<and> sorted_wrt nle es \<and> (\<forall>x \<in> set es. nle e x) \<and> sorted ds \<and> (\<forall>x \<in> set ds. d \<le> x)"
  using assms
proof (induction rows arbitrary: e d)
  case (Cons r rows)
  from Cons.prems obtain m where m: "check_progress r (e, d) = Inr m" "foldE check_progress rows m = Inr q" by auto
  then obtain ev dv where v: "get r ''elapsed_s'' = Inr ev" "get r ''due'' = Inr dv" "is_number ev \<and> nle e (num_of ev)"
    "is_int_json dv \<and> d \<le> int_of dv" "m = (num_of ev, int_of dv)"
    unfolding check_progress_def bindE_Inr audit_Inr sum.inject fst_conv snd_conv by metis
  have n: "ev = JNum (num_of ev)" "dv = jint (int_of dv)" using v(3,4) by (auto elim: is_number.elims is_int_json.elims)
  from Cons.IH [of "num_of ev" "int_of dv"] m(2) v(5) obtain es ds where
    "mapE (\<lambda>r. get r ''elapsed_s'') rows = Inr (map JNum es)" "mapE (\<lambda>r. get r ''due'') rows = Inr (map jint ds)"
    "sorted_wrt nle es" "\<forall>x \<in> set es. nle (num_of ev) x" "sorted ds" "\<forall>x \<in> set ds. int_of dv \<le> x" by blast
  then show ?case using v n
    by (intro exI [of _ "num_of ev # es"] exI [of _ "int_of dv # ds"]) (auto intro: nle_trans)
qed simp

text \<open>When the progress snapshots of a run are accepted there is at least one, their elapsed times and
  their due counts never decrease, and the reported lower bound of the backlog is not negative.\<close>

theorem progress_monotone:
  assumes "progress_observation rows = Inr doc"
  shows "rows \<noteq> [] \<and> (\<exists>es ds. mapE (\<lambda>r. get r ''elapsed_s'') rows = Inr (map JNum es) \<and> mapE (\<lambda>r. get r ''due'') rows = Inr (map jint ds)
      \<and> sorted_wrt nle es \<and> sorted ds \<and> (\<forall>x \<in> set ds. - 1 \<le> x))
    \<and> getitem doc ''count'' = Inr (jint (int (length rows)))
    \<and> (\<exists>la n. getitem doc ''last'' = Inr la \<and> getitem la ''due_minus_sent_total_lower_bound'' = Inr (jint n) \<and> 0 \<le> n)"
proof -
  from assms obtain q la n where p: "rows \<noteq> []" "foldE check_progress rows (F (Fin (- 1)), - 1) = Inr q"
    "getitem doc ''count'' = Inr (jint (int (length rows)))" "getitem doc ''last'' = Inr la"
    "getitem la ''due_minus_sent_total_lower_bound'' = Inr (jint n)" "0 \<le> n"
    by (auto simp: progress_observation_def Let_def simp del: get_or.simps)
  from progress_chain [OF p(2)] show ?thesis using p(1,3-6) by blast
qed

definition demo_progress :: "int \<Rightarrow> json" where
  "demo_progress n = JObj [(''elapsed_s'', jint n), (''due'', jint (n * 1000)), (''sent'', JList [jint (n * 500), jint (n * 480)]), (''received'', JList [jint n])]"

lemma demo_progress_ok: "\<not> isl (progress_observation [demo_progress 1, demo_progress 2])"
  by code_simp

lemma progress_monotone_witness:
  "\<exists>doc. progress_observation [demo_progress 1, demo_progress 2] = Inr doc \<and> getitem doc ''count'' = Inr (jint 2)"
proof -
  obtain doc where d: "progress_observation [demo_progress 1, demo_progress 2] = Inr doc"
    using demo_progress_ok by (cases "progress_observation [demo_progress 1, demo_progress 2]") simp_all
  from progress_monotone [OF d] d show ?thesis by auto
qed

text \<open>Every raw log and error log of an accepted formal or warm-up run lies inside the evidence
  directory after symbolic links are resolved, whatever path the manifest claims, and its
  content has the digest the manifest recorded for it; the run has the registered identity,
  environment, client and command and exited with 0.\<close>

theorem run_record_verified:
  assumes "check_run_record w directory manifest run relative arm name seconds = Inr (p, q)"
  shows "directory \<in> set (path_parents p) \<and> directory \<in> set (path_parents q)
    \<and> p = resolved w (slash directory relative)
    \<and> (\<exists>h v. file_sha w p = Inr h \<and> get run ''raw_sha256'' = Inr v \<and> jeq (JStr h) v)
    \<and> (\<exists>h v. file_sha w q = Inr h \<and> get run ''stderr_sha256'' = Inr v \<and> jeq (JStr h) v)
    \<and> (\<exists>v. get run ''environment'' = Inr v \<and> jeq v (ARM_ENV arm)) \<and> (\<exists>v. get run ''returncode'' = Inr v \<and> jeq v (jint 0))
    \<and> (\<exists>client v c. getitem manifest ''client'' = Inr client \<and> expected_command client name seconds = Inr c \<and> get run ''command'' = Inr v \<and> jeq v c)"
proof -
  from assms obtain raw e h want c client command rc where r: "get run ''raw'' = Inr raw" "jeq raw (JStr relative)"
    "get run ''environment'' = Inr e" "jeq e (ARM_ENV arm)"
    "get run ''command'' = Inr c" "getitem manifest ''client'' = Inr client" "expected_command client name seconds = Inr command" "jeq c command"
    "get run ''returncode'' = Inr rc" "jeq rc (jint 0)"
    "verify_artifact w directory run ''raw'' = Inr p" "verify_artifact w directory run ''stderr'' = Inr q"
    unfolding check_run_record_def bindE_Inr audit_Inr sum.inject prod.inject by blast
  have art: "\<exists>rel. get run k = Inr rel \<and> is_str rel \<and> x = resolved w (slash directory (str_of rel)) \<and> directory \<in> set (path_parents x)
      \<and> (\<exists>h v. file_sha w x = Inr h \<and> get run (k @ ''_sha256'') = Inr v \<and> jeq (JStr h) v)"
    if "verify_artifact w directory run k = Inr x" for k x
    using that unfolding verify_artifact_def safe_artifact_def bindE_Inr audit_Inr sum.inject Let_def by blast
  show ?thesis using art [OF r(11)] art [OF r(12)] r(1-10) by auto
qed

definition artifact_world :: world where
  "artifact_world = \<lparr>file_text = (\<lambda>_. Some ''x''), sha256_hex = (\<lambda>_. ''ab''), json_loads = (\<lambda>_. Inr JNull), globbed = (\<lambda>_ _. []), resolved = (\<lambda>p. p)\<rparr>"

definition demo_run :: json where
  "demo_run = JObj [(''raw'', JStr ''warmup/A/2p1s-64b-steady.jsonl''), (''raw_sha256'', JStr ''ab''), (''stderr'', JStr ''warmup/e''), (''stderr_sha256'', JStr ''ab''),
     (''environment'', JObj []), (''client_sha256'', JStr ''cc''), (''returncode'', jint 0),
     (''command'', (case expected_command (JStr ''c'') ''2p1s-64b-steady'' 2 of Inl _ \<Rightarrow> JNull | Inr v \<Rightarrow> v))]"

definition demo_manifest :: json where
  "demo_manifest = JObj [(''client'', JStr ''c''), (''client_sha256'', JStr ''cc'')]"

lemma demo_run_ok: "check_run_record artifact_world ''/e'' demo_manifest demo_run ''warmup/A/2p1s-64b-steady.jsonl'' ''A'' ''2p1s-64b-steady'' 2
    = Inr (''/e/warmup/A/2p1s-64b-steady.jsonl'', ''/e/warmup/e'')"
  by code_simp

lemma run_record_verified_witness: "''/e'' \<in> set (path_parents ''/e/warmup/A/2p1s-64b-steady.jsonl'')"
  using run_record_verified [OF demo_run_ok] by blast

end
