(* ===== verification/HighMode.thy ===== *)
theory HighMode
  imports GroupStats PyJson
begin

text \<open>
  \<open>compare_high_mode_rates.py\<close>: two high-frequency experiments are loaded and validated, their
  shares of high-throughput rounds are compared by a pooled z test, Fisher's exact test, the
  Newcombe interval and a permutation test on groups, and the relative-improvement gate is
  applied.  Floats are the doubles of \<open>PyFloat\<close>; the functions of the C mathematics library
  (\<open>erf\<close>, \<open>lgamma\<close>, \<open>exp\<close>), \<open>NormalDist().inv_cdf\<close> and the shuffles of
  \<open>random.Random(seed)\<close> are the fields of \<open>libm\<close>, and every theorem holds for all of them.
\<close>

section \<open>The library\<close>

record libm =
  erf :: "pyfloat \<Rightarrow> pyfloat"
  lgamma :: "int \<Rightarrow> pyfloat py"
  exp_float :: "pyfloat \<Rightarrow> pyfloat py"
  inv_cdf :: "pyfloat \<Rightarrow> pyfloat py"
  shuffle_order :: "nat \<Rightarrow> nat list"

fun psqrt :: "pyfloat \<Rightarrow> pyfloat py" where
  "psqrt (Fin r) = (if r < 0 then Inl (ValueError ''math domain error'') else Inr (fsqrt r))"
| "psqrt NInf = Inl (ValueError ''math domain error'')"
| "psqrt x = Inr x"

definition pdiv :: "pyfloat \<Rightarrow> pyfloat \<Rightarrow> pyfloat py" where
  "pdiv a b = (if b = Fin 0 then Inl ZeroDivisionError else Inr (fdiv a b))"

definition idiv :: "int \<Rightarrow> int \<Rightarrow> pyfloat py" where
  "idiv a b = bindE (ndiv (I a) (I b)) to_float"

definition int_float :: "int \<Rightarrow> pyfloat py" where
  "int_float n = to_float (I n)"

text \<open>\<open>x ** 2\<close>: the rounded square, an exception when a finite value overflows.\<close>

definition square :: "pyfloat \<Rightarrow> pyfloat py" where
  "square x = (let y = fmul x x in if is_finite x \<and> \<not> is_finite y then Inl OverflowError else Inr y)"

text \<open>\<open>max(a, b)\<close> and \<open>min(a, b)\<close>: the first unless the second is strictly better.\<close>

definition pmax :: "pyfloat \<Rightarrow> pyfloat \<Rightarrow> pyfloat" where "pmax a b = (if flt a b then b else a)"
definition pmin :: "pyfloat \<Rightarrow> pyfloat \<Rightarrow> pyfloat" where "pmin a b = (if flt b a then b else a)"

section \<open>Tests on two proportions\<close>

definition normal_cdf :: "libm \<Rightarrow> pyfloat \<Rightarrow> pyfloat py" where
  "normal_cdf m value = bindE (psqrt (Fin 2)) (\<lambda>s. bindE (pdiv value s) (\<lambda>q.
     Inr (fmul (Fin (1 / 2)) (fadd (Fin 1) (erf m q)))))"

definition z_95 :: pyfloat where
  "z_95 = rnd (1959963984540054 / 10 ^ 15)"

definition wilson_interval :: "int \<Rightarrow> int \<Rightarrow> (pyfloat \<times> pyfloat) py" where
  "wilson_interval successes n = (let z = z_95 in
     if n \<le> 0 then Inl (ValueError ''Wilson interval requires a positive sample count'') else
     bindE (idiv successes n) (\<lambda>p. bindE (int_float n) (\<lambda>nf.
     bindE (pdiv (fmul z z) nf) (\<lambda>zn. let denominator = fadd (Fin 1) zn in
     bindE (pdiv (fmul z z) (fmul (Fin 2) nf)) (\<lambda>half. bindE (pdiv (fadd p half) denominator) (\<lambda>centre.
     bindE (pdiv (fmul p (fsub (Fin 1) p)) nf) (\<lambda>v. bindE (pdiv (fmul z z) (fmul (fmul (Fin 4) nf) nf)) (\<lambda>c.
     bindE (psqrt (fadd v c)) (\<lambda>s. bindE (pdiv (fmul z s) denominator) (\<lambda>radius.
     Inr (pmax (Fin 0) (fsub centre radius), pmin (Fin 1) (fadd centre radius))))))))))))"

record hm_group =
  hm_index :: nat
  hm_rates :: "pyfloat list"
  hm_count :: nat
  hm_rate :: num
  hm_high_median :: "num option"
  hm_low_median :: "num option"

record hm_experiment =
  hm_directory :: string
  hm_environment_sha :: string
  hm_summary_sha :: string
  hm_expected_groups :: int
  hm_complete :: bool
  hm_client_sha :: json
  hm_client :: json
  hm_groups :: "hm_group list"
  hm_rounds :: nat
  hm_high_count :: nat
  hm_high_rate :: num
  hm_high_med :: "num option"
  hm_low_med :: "num option"
  hm_all_median :: num
  hm_threshold :: pyfloat
  hm_conditions :: "(string \<times> json) list"

definition rate_of :: "hm_experiment \<Rightarrow> pyfloat py" where
  "rate_of e = idiv (int (hm_high_count e)) (int (hm_rounds e))"

definition newcombe_difference_interval :: "hm_experiment \<Rightarrow> hm_experiment \<Rightarrow> (pyfloat \<times> pyfloat) py" where
  "newcombe_difference_interval candidate baseline =
     bindE (rate_of baseline) (\<lambda>p1. bindE (rate_of candidate) (\<lambda>p2.
     bindE (wilson_interval (int (hm_high_count baseline)) (int (hm_rounds baseline))) (\<lambda>(bl, bh).
     bindE (wilson_interval (int (hm_high_count candidate)) (int (hm_rounds candidate))) (\<lambda>(cl, ch).
     let difference = fsub p2 p1 in
     bindE (square (fsub p1 bl)) (\<lambda>a. bindE (square (fsub ch p2)) (\<lambda>b. bindE (psqrt (fadd a b)) (\<lambda>s.
     bindE (square (fsub bh p1)) (\<lambda>c. bindE (square (fsub p2 cl)) (\<lambda>d. bindE (psqrt (fadd c d)) (\<lambda>t.
     Inr (pmax (Fin (- 1)) (fsub difference s), pmin (Fin 1) (fadd difference t))))))))))))"

record proportion_test =
  baseline_rate :: pyfloat
  candidate_rate :: pyfloat
  absolute_increase :: pyfloat
  relative_increase :: "pyfloat option"
  risk_ratio :: "pyfloat option"
  pooled_rate :: pyfloat
  standard_error :: pyfloat
  z_score :: pyfloat
  p_one_sided :: pyfloat
  p_two_sided :: pyfloat

definition optional_div :: "pyfloat \<Rightarrow> pyfloat \<Rightarrow> pyfloat option py" where
  "optional_div a b = (if b = Fin 0 then Inr None else bindE (pdiv a b) (\<lambda>x. Inr (Some x)))"

definition z_values :: "libm \<Rightarrow> pyfloat \<Rightarrow> pyfloat \<Rightarrow> (pyfloat \<times> pyfloat \<times> pyfloat) py" where
  "z_values m observed se =
     (if feq se (Fin 0) then
        Inr (if feq observed (Fin 0) then Fin 0 else if flt observed (Fin 0) then NInf else PInf,
             if feq observed (Fin 0) then Fin 1 else Fin 0, if fle observed (Fin 0) then Fin 1 else Fin 0)
      else bindE (pdiv observed se) (\<lambda>z.
        bindE (normal_cdf m (fabs z)) (\<lambda>c2. bindE (normal_cdf m z) (\<lambda>c1.
        Inr (z, fmul (Fin 2) (fsub (Fin 1) c2), fsub (Fin 1) c1)))))"

definition two_proportion_test :: "libm \<Rightarrow> hm_experiment \<Rightarrow> hm_experiment \<Rightarrow> proportion_test py" where
  "two_proportion_test m baseline candidate =
     (let n1 = int (hm_rounds baseline); n2 = int (hm_rounds candidate);
          x1 = int (hm_high_count baseline); x2 = int (hm_high_count candidate) in
     bindE (idiv x1 n1) (\<lambda>p1. bindE (idiv x2 n2) (\<lambda>p2. let observed = fsub p2 p1 in
     bindE (idiv (x1 + x2) (n1 + n2)) (\<lambda>pooled.
     bindE (int_float n1) (\<lambda>f1. bindE (pdiv (Fin 1) f1) (\<lambda>r1. bindE (int_float n2) (\<lambda>f2. bindE (pdiv (Fin 1) f2) (\<lambda>r2.
     bindE (psqrt (fmul (fmul pooled (fsub (Fin 1) pooled)) (fadd r1 r2))) (\<lambda>se.
     bindE (z_values m observed se) (\<lambda>(z, two, one).
     bindE (optional_div observed p1) (\<lambda>rel. bindE (optional_div p2 p1) (\<lambda>risk.
     Inr \<lparr>baseline_rate = p1, candidate_rate = p2, absolute_increase = observed, relative_increase = rel, risk_ratio = risk,
       pooled_rate = pooled, standard_error = se, z_score = z, p_one_sided = one, p_two_sided = two\<rparr>))))))))))))"

definition log_choose :: "libm \<Rightarrow> int \<Rightarrow> int \<Rightarrow> pyfloat py" where
  "log_choose m n k = bindE (lgamma m (n + 1)) (\<lambda>a. bindE (lgamma m (k + 1)) (\<lambda>b. bindE (lgamma m (n - k + 1)) (\<lambda>c.
     Inr (fsub (fsub a b) c))))"

definition fisher_mass :: "libm \<Rightarrow> int \<Rightarrow> int \<Rightarrow> int \<Rightarrow> pyfloat \<Rightarrow> int \<Rightarrow> pyfloat py" where
  "fisher_mass m n1 n2 successes denominator value =
     bindE (log_choose m n2 value) (\<lambda>a. bindE (log_choose m n1 (successes - value)) (\<lambda>b.
     exp_float m (fsub (fadd a b) denominator)))"

definition fisher_step :: "int \<Rightarrow> int \<Rightarrow> int \<Rightarrow> int \<Rightarrow> int \<Rightarrow> int \<Rightarrow> pyfloat \<times> pyfloat \<Rightarrow> (pyfloat \<times> pyfloat) py" where
  "fisher_step n1 n2 successes observed maximum value cp = (case cp of (current, probability) \<Rightarrow>
     let probability' = (if observed \<le> value then fadd probability current else probability) in
     if value < maximum then
       bindE (idiv ((n2 - value) * (successes - value)) ((value + 1) * (n1 - successes + value + 1))) (\<lambda>q.
       Inr (fmul current q, probability'))
     else Inr (current, probability'))"

definition fisher_exact_greater :: "libm \<Rightarrow> hm_experiment \<Rightarrow> hm_experiment \<Rightarrow> pyfloat py" where
  "fisher_exact_greater m baseline candidate =
     (let n1 = int (hm_rounds baseline); n2 = int (hm_rounds candidate);
          x1 = int (hm_high_count baseline); x2 = int (hm_high_count candidate);
          successes = x1 + x2; minimum = max 0 (successes - n1); maximum = min n2 successes in
     bindE (log_choose m (n1 + n2) successes) (\<lambda>denominator.
     if maximum < minimum then Inr (Fin 1) else
     bindE (fisher_mass m n1 n2 successes denominator minimum) (\<lambda>current.
     bindE (foldE (fisher_step n1 n2 successes x2 maximum) [minimum .. maximum] (current, Fin 0)) (\<lambda>(_, probability).
     Inr (pmin (Fin 1) (pmax (Fin 0) probability))))))"

record cluster_test =
  cl_observed :: num
  cl_p :: num
  cl_trials :: nat

definition cluster_trial :: "libm \<Rightarrow> nat \<Rightarrow> num \<Rightarrow> nat \<Rightarrow> num list \<times> nat \<Rightarrow> (num list \<times> nat) py" where
  "cluster_trial m csize observed k pc = (case pc of (pooled, hits) \<Rightarrow>
     let pooled' = map ((!) pooled) (shuffle_order m k) in
     bindE (mean (take csize pooled')) (\<lambda>c. bindE (mean (drop csize pooled')) (\<lambda>b. bindE (nsub c b) (\<lambda>d.
     bindE (nsub observed (flit (1 / 10 ^ 15))) (\<lambda>bound.
     Inr (pooled', if nle bound d then hits + 1 else hits))))))"

definition cluster_permutation_test :: "libm \<Rightarrow> hm_group list \<Rightarrow> hm_group list \<Rightarrow> nat \<Rightarrow> cluster_test py" where
  "cluster_permutation_test m baseline_groups candidate_groups trials =
     (let b = map hm_rate baseline_groups; c = map hm_rate candidate_groups in
     bindE (mean c) (\<lambda>mc. bindE (mean b) (\<lambda>mb. bindE (nsub mc mb) (\<lambda>observed.
     bindE (foldE (cluster_trial m (length c) observed) [0 ..< trials] (b @ c, 0)) (\<lambda>(_, hits).
     bindE (ndiv (I (int hits + 1)) (I (int trials + 1))) (\<lambda>p.
     Inr \<lparr>cl_observed = observed, cl_p = p, cl_trials = trials\<rparr>))))))"

definition required_sample_size :: "libm \<Rightarrow> pyfloat \<Rightarrow> pyfloat \<Rightarrow> pyfloat \<Rightarrow> pyfloat \<Rightarrow> bool \<Rightarrow> int option py" where
  "required_sample_size m b c alpha wanted two_sided =
     (if \<not> (flt (Fin 0) b \<and> flt b (Fin 1)) \<or> \<not> (flt (Fin 0) c \<and> flt c (Fin 1)) then Inr None else
      let difference = fabs (fsub c b) in
      if feq difference (Fin 0) then Inr None else
      let pooled = fdiv (fadd b c) (Fin 2) in
      bindE (inv_cdf m (if two_sided then fsub (Fin 1) (fdiv alpha (Fin 2)) else fsub (Fin 1) alpha)) (\<lambda>za.
      bindE (inv_cdf m wanted) (\<lambda>zp.
      bindE (psqrt (fmul (fmul (Fin 2) pooled) (fsub (Fin 1) pooled))) (\<lambda>s.
      bindE (psqrt (fadd (fmul b (fsub (Fin 1) b)) (fmul c (fsub (Fin 1) c)))) (\<lambda>t.
      let numerator = fadd (fmul za s) (fmul zp t) in
      bindE (pdiv (fmul numerator numerator) (fmul difference difference)) (\<lambda>q.
      bindE (float_ceil q) (\<lambda>n. Inr (Some n))))))))"

section \<open>Loading an experiment\<close>

definition value_check :: "bool \<Rightarrow> string \<Rightarrow> unit py" where
  "value_check b msg = require b (ValueError msg)"

lemma value_check_Inr [simp]: "value_check b msg = Inr u \<longleftrightarrow> b"
  by (simp add: value_check_def)

definition optional_median :: "pyfloat list \<Rightarrow> num option py" where
  "optional_median xs = (if xs = [] then Inr None else bindE (median (map F xs)) (\<lambda>m. Inr (Some m)))"

definition optional_int :: "json \<Rightarrow> int option py" where
  "optional_int v = (if v = JNull then Inr None else bindE (to_int v) (\<lambda>n. Inr (Some n)))"

definition load_hm_group :: "json \<Rightarrow> pyfloat \<Rightarrow> nat \<times> json \<Rightarrow> hm_group py" where
  "load_hm_group expected_rounds threshold ig = (case ig of (i, g) \<Rightarrow>
     bindE (get_or g ''group'' (jint (int i))) (\<lambda>k. bindE (to_int k) (\<lambda>k.
     bindE (value_check (k = int i) ''Non-contiguous group indices'') (\<lambda>_.
     bindE (get_or g ''throughputs'' (JList [])) (\<lambda>t. bindE (as_list t) (\<lambda>ts. bindE (mapE jfloat ts) (\<lambda>rates.
     bindE (value_check (rates \<noteq> [] \<and> (\<forall>r \<in> set rates. is_finite r \<and> \<not> flt r (Fin 0))) ''Invalid throughput'') (\<lambda>_.
     bindE (optional_int expected_rounds) (\<lambda>n. bindE (value_check (n = None \<or> n = Some (int (length rates))) ''wrong number of rounds'') (\<lambda>_.
     let high = filter (fle threshold) rates; low = filter (\<lambda>r. flt r threshold) rates; high_count = length high in
     bindE (get g ''high_mode_count'') (\<lambda>s. bindE (optional_int s) (\<lambda>stored.
     bindE (value_check (stored = None \<or> stored = Some (int high_count)) ''Stored high-mode count disagrees'') (\<lambda>_.
     bindE (ndiv (I (int high_count)) (I (int (length rates)))) (\<lambda>rate.
     bindE (optional_median high) (\<lambda>hm. bindE (optional_median low) (\<lambda>lm.
     Inr \<lparr>hm_index = i, hm_rates = rates, hm_count = high_count, hm_rate = rate, hm_high_median = hm, hm_low_median = lm\<rparr>))))))))))))))))"

definition check_analysis :: "world \<Rightarrow> string \<Rightarrow> pyfloat \<Rightarrow> unit py" where
  "check_analysis w path threshold = (if \<not> is_file w path then Inr () else
     bindE (read_text w path) (\<lambda>t. bindE (json_loads w t) (\<lambda>a. bindE (get a ''threshold_mmsg_s'') (\<lambda>v.
     if v = JNull then Inr () else bindE (jfloat v) (\<lambda>x. value_check (feq x threshold) ''Analysis threshold disagrees with environment'')))))"

definition CONDITIONS :: "string list" where
  "CONDITIONS = [''messages_per_round'', ''payload_bytes'', ''capacity_bytes'']"

definition load_hm_experiment :: "world \<Rightarrow> string \<Rightarrow> pyfloat option \<Rightarrow> bool \<Rightarrow> hm_experiment py" where
  "load_hm_experiment w directory threshold_override allow_incomplete =
     (let environment_path = slash directory ''environment.json''; summary_path = slash directory ''summary.json'' in
     bindE (value_check (is_file w environment_path \<and> is_file w summary_path) ''Missing required evidence'') (\<lambda>_.
     bindE (read_text w environment_path) (\<lambda>t. bindE (json_loads w t) (\<lambda>environment.
     bindE (read_text w summary_path) (\<lambda>u. bindE (json_loads w u) (\<lambda>summary.
     bindE (value_check (truthy summary) ''No groups'') (\<lambda>_. bindE (as_list summary) (\<lambda>groups.
     bindE (get_or environment ''groups'' (jint (int (length groups)))) (\<lambda>e. bindE (to_int e) (\<lambda>expected_groups.
     bindE (value_check (expected_groups = int (length groups) \<or> allow_incomplete) ''Incomplete experiment'') (\<lambda>_.
     bindE (get environment ''rounds_per_group'') (\<lambda>expected_rounds.
     bindE (get_or environment ''high_mode_threshold_mmsg_s'' (JNum (F (Fin 15)))) (\<lambda>h.
     bindE (case threshold_override of None \<Rightarrow> jfloat h | Some x \<Rightarrow> Inr x) (\<lambda>threshold.
     bindE (value_check (flt (Fin 0) threshold \<and> fle threshold (Fin 1000)) ''Invalid high-mode threshold'') (\<lambda>_.
     bindE (mapE (load_hm_group expected_rounds threshold) (zip [0 ..< length groups] groups)) (\<lambda>gs.
     let rates = concat (map hm_rates gs); high = filter (fle threshold) rates; low = filter (\<lambda>r. flt r threshold) rates in
     bindE (check_analysis w (slash directory ''high-frequency-analysis.json'') threshold) (\<lambda>_.
     bindE (file_sha w environment_path) (\<lambda>eh. bindE (file_sha w summary_path) (\<lambda>sh.
     bindE (get environment ''client_sha256'') (\<lambda>cs. bindE (get environment ''client'') (\<lambda>cl.
     bindE (ndiv (I (int (length high))) (I (int (length rates)))) (\<lambda>rate.
     bindE (optional_median high) (\<lambda>hm. bindE (optional_median low) (\<lambda>lm. bindE (median (map F rates)) (\<lambda>am.
     bindE (mapE (\<lambda>k. bindE (get environment k) (\<lambda>v. Inr (k, v))) CONDITIONS) (\<lambda>conds.
     Inr \<lparr>hm_directory = resolved w directory, hm_environment_sha = eh, hm_summary_sha = sh, hm_expected_groups = expected_groups,
       hm_complete = (expected_groups = int (length groups)), hm_client_sha = cs, hm_client = cl, hm_groups = gs,
       hm_rounds = length rates, hm_high_count = length high, hm_high_rate = rate, hm_high_med = hm, hm_low_med = lm,
       hm_all_median = am, hm_threshold = threshold, hm_conditions = conds\<rparr>))))))))))))))))))))))))))"

section \<open>The gate\<close>

record hm_result =
  res_baseline :: hm_experiment
  res_candidate :: hm_experiment
  res_test :: proportion_test
  res_interval :: "pyfloat \<times> pyfloat"
  res_fisher :: pyfloat
  res_cluster :: cluster_test
  increase_pp :: pyfloat
  increase_threshold_met :: bool
  z_test_significant :: bool
  candidate_high_median_ok :: bool
  evidence_complete :: bool
  direction_positive :: bool
  missing_conditions :: "string list"
  target_rate :: pyfloat
  rounds_one_sided :: "int option"
  rounds_two_sided :: "int option"
  res_passed :: bool

definition condition_of :: "hm_experiment \<Rightarrow> string \<Rightarrow> json" where
  "condition_of e k = dict_get (hm_conditions e) k JNull"

definition mismatched_conditions :: "hm_experiment \<Rightarrow> hm_experiment \<Rightarrow> string list" where
  "mismatched_conditions b c = filter (\<lambda>k. condition_of b k = JNull \<or> condition_of c k = JNull \<or> \<not> jeq (condition_of b k) (condition_of c k)) CONDITIONS"

definition is_missing :: "hm_experiment \<Rightarrow> hm_experiment \<Rightarrow> string \<Rightarrow> bool" where
  "is_missing b c k \<longleftrightarrow> condition_of b k = JNull \<or> condition_of c k = JNull"

definition compare_hm :: "libm \<Rightarrow> hm_experiment \<Rightarrow> hm_experiment \<Rightarrow> pyfloat \<Rightarrow> pyfloat \<Rightarrow> pyfloat \<Rightarrow> bool \<Rightarrow> hm_result py" where
  "compare_hm m baseline candidate min_increase alpha min_high_median allow_missing =
     bindE (value_check (feq (hm_threshold baseline) (hm_threshold candidate)) ''High-mode thresholds differ'') (\<lambda>_.
     let mismatched = mismatched_conditions baseline candidate; missing = filter (is_missing baseline candidate) mismatched;
         actual = filter (\<lambda>k. \<not> is_missing baseline candidate k) mismatched in
     bindE (value_check (actual = [] \<and> (missing = [] \<or> allow_missing)) ''Experiment conditions differ'') (\<lambda>_.
     bindE (two_proportion_test m baseline candidate) (\<lambda>test. bindE (fisher_exact_greater m baseline candidate) (\<lambda>fisher.
     bindE (newcombe_difference_interval candidate baseline) (\<lambda>ci.
     bindE (cluster_permutation_test m (hm_groups baseline) (hm_groups candidate) 20000) (\<lambda>cluster.
     let pp = fmul (absolute_increase test) (Fin 100);
         met = fle min_increase (fadd pp (rnd (1 / 10 ^ 12)));
         significant = flt (p_two_sided test) alpha;
         median_ok = (case hm_high_med candidate of None \<Rightarrow> False | Some x \<Rightarrow> nle (F min_high_median) x);
         target = fadd (baseline_rate test) (fdiv min_increase (Fin 100));
         complete = hm_complete baseline \<and> hm_complete candidate \<and> missing = [] in
     bindE (required_sample_size m (baseline_rate test) target alpha (rnd (4 / 5)) False) (\<lambda>n1.
     bindE (required_sample_size m (baseline_rate test) target alpha (rnd (4 / 5)) True) (\<lambda>n2.
     Inr \<lparr>res_baseline = baseline, res_candidate = candidate, res_test = test, res_interval = ci, res_fisher = fisher, res_cluster = cluster,
       increase_pp = pp, increase_threshold_met = met, z_test_significant = significant, candidate_high_median_ok = median_ok,
       evidence_complete = complete, direction_positive = flt (Fin 0) (absolute_increase test), missing_conditions = sort missing,
       target_rate = target, rounds_one_sided = n1, rounds_two_sided = n2,
       res_passed = (met \<and> significant \<and> flt (Fin 0) (absolute_increase test) \<and> median_ok \<and> complete)\<rparr>))))))))"

section \<open>What the comparison shows\<close>

lemma idiv_Inr: "idiv a b = Inr p \<Longrightarrow> b \<noteq> 0 \<and> (\<exists>x. p = Fin x \<and> rnd (of_int a / of_int b) = Fin x)"
  by (cases "rnd (of_int a / of_int b)") (auto simp: idiv_def ndiv_def dest: sym split: if_splits)

text \<open>A rounded quotient that is larger is larger before rounding.\<close>

lemma rounded_difference:
  assumes "idiv a n = Inr p" "idiv b k = Inr q" "flt (Fin 0) (fsub q p)" "0 \<le> n" "0 \<le> k"
  shows "a * k < b * n"
proof (rule ccontr)
  assume "\<not> a * k < b * n"
  then have le: "b * n \<le> a * k" by simp
  have n: "0 < n" "0 < k" using assms idiv_Inr by force+
  have "rat_of_int (b * n) \<le> of_int (a * k)" using le by linarith
  then have "rat_of_int b / of_int k \<le> of_int a / of_int n" using n by (simp add: field_simps)
  then have fp: "fle q p" using rnd_mono idiv_Inr [OF assms(1)] idiv_Inr [OF assms(2)] by metis
  obtain x y where xy: "p = Fin x" "q = Fin y" using idiv_Inr [OF assms(1)] idiv_Inr [OF assms(2)] by blast
  then have "fle (rnd (y - x)) (rnd 0)" using fp by (intro rnd_mono) simp
  then show False using assms(3) xy flt_not_fle by (simp add: fsub_def)
qed

lemma two_proportion_values:
  assumes "two_proportion_test m b c = Inr t"
  shows "idiv (int (hm_high_count b)) (int (hm_rounds b)) = Inr (baseline_rate t)
    \<and> idiv (int (hm_high_count c)) (int (hm_rounds c)) = Inr (candidate_rate t)
    \<and> absolute_increase t = fsub (candidate_rate t) (baseline_rate t)"
  using assms unfolding two_proportion_test_def Let_def by (auto split: prod.splits)

lemma compare_hm_facts:
  assumes "compare_hm m b c mi al mh am = Inr r"
  shows "feq (hm_threshold b) (hm_threshold c) \<and> two_proportion_test m b c = Inr (res_test r)
    \<and> fisher_exact_greater m b c = Inr (res_fisher r) \<and> newcombe_difference_interval c b = Inr (res_interval r)
    \<and> cluster_permutation_test m (hm_groups b) (hm_groups c) 20000 = Inr (res_cluster r)"
  using assms unfolding compare_hm_def Let_def bindE_Inr value_check_Inr sum.inject
  by (elim exE conjE) (hypsubst, unfold hm_result.simps, blast)

lemma passed_iff:
  assumes "compare_hm m b c mi al mh am = Inr r"
  shows "res_passed r = (increase_threshold_met r \<and> flt (p_two_sided (res_test r)) al \<and> flt (Fin 0) (absolute_increase (res_test r))
    \<and> (case hm_high_med c of None \<Rightarrow> False | Some x \<Rightarrow> nle (F mh) x)
    \<and> hm_complete b \<and> hm_complete c \<and> filter (is_missing b c) (mismatched_conditions b c) = [])
    \<and> filter (\<lambda>k. \<not> is_missing b c k) (mismatched_conditions b c) = []"
  using assms unfolding compare_hm_def Let_def bindE_Inr value_check_Inr sum.inject
  by (elim exE conjE) (hypsubst, unfold hm_result.simps, rule conjI [OF refl], assumption)

lemma no_mismatch:
  assumes "filter (\<lambda>k. \<not> is_missing b c k) (mismatched_conditions b c) = []"
    "filter (is_missing b c) (mismatched_conditions b c) = []" "k \<in> set CONDITIONS"
  shows "condition_of b k \<noteq> JNull \<and> condition_of c k \<noteq> JNull \<and> jeq (condition_of b k) (condition_of c k)"
proof -
  have "k \<notin> set (mismatched_conditions b c)" for k
    using assms(1,2) by (cases "is_missing b c k") (force simp: filter_empty_conv)+
  then show ?thesis using assms(3) by (auto simp: mismatched_conditions_def)
qed

text \<open>C39. A passed comparison is of two complete experiments with equal thresholds and equal, recorded
  conditions, and the candidate's share of high rounds is larger as an exact fraction, not only
  after rounding; the z test is below alpha and the candidate's high median reaches its
  minimum.\<close>

theorem passed_is_improvement:
  assumes r: "compare_hm m b c mi al mh am = Inr r" and ok: "res_passed r"
  shows "hm_high_count b * hm_rounds c < hm_high_count c * hm_rounds b
    \<and> hm_complete b \<and> hm_complete c \<and> feq (hm_threshold b) (hm_threshold c)
    \<and> (\<forall>k \<in> set CONDITIONS. condition_of b k \<noteq> JNull \<and> jeq (condition_of b k) (condition_of c k))
    \<and> flt (p_two_sided (res_test r)) al \<and> (\<exists>x. hm_high_med c = Some x \<and> nle (F mh) x)"
proof -
  note f = compare_hm_facts [OF r]
  note g = passed_iff [OF r, THEN conjunct1, THEN iffD1, OF ok]
  have actual: "filter (\<lambda>k. \<not> is_missing b c k) (mismatched_conditions b c) = []" using passed_iff [OF r] by blast
  note t = two_proportion_values [of m b c "res_test r"]
  have "int (hm_high_count b) * int (hm_rounds c) < int (hm_high_count c) * int (hm_rounds b)"
    using t f g by (intro rounded_difference [of _ _ "baseline_rate (res_test r)" _ _ "candidate_rate (res_test r)"]) auto
  then have "hm_high_count b * hm_rounds c < hm_high_count c * hm_rounds b" by (metis of_nat_less_iff of_nat_mult)
  moreover have "\<exists>x. hm_high_med c = Some x \<and> nle (F mh) x" using g by (cases "hm_high_med c") simp_all
  ultimately show ?thesis using f g no_mismatch [OF actual] by blast
qed

lemma clamp: "\<exists>p. pmin (Fin 1) (pmax (Fin 0) x) = Fin p \<and> 0 \<le> p \<and> p \<le> 1"
  by (cases x) (auto simp: pmin_def pmax_def)

lemma fisher_unit:
  assumes "fisher_exact_greater m b c = Inr p" shows "\<exists>q. p = Fin q \<and> 0 \<le> q \<and> q \<le> 1"
  using assms clamp unfolding fisher_exact_greater_def Let_def by (auto split: if_splits)

lemma trial_hits: "cluster_trial m n x k (xs, h) = Inr (ys, h') \<Longrightarrow> h \<le> h' \<and> h' \<le> h + 1"
  unfolding cluster_trial_def Let_def by (auto split: if_splits)

lemma trials_hits: "foldE (cluster_trial m n x) ks (xs, h) = Inr (ys, h') \<Longrightarrow> h' \<le> h + length ks"
proof (induction ks arbitrary: xs h)
  case (Cons k ks)
  then obtain zs j where "cluster_trial m n x k (xs, h) = Inr (zs, j)" "foldE (cluster_trial m n x) ks (zs, j) = Inr (ys, h')" by auto
  then show ?case using Cons.IH trial_hits by fastforce
qed simp

lemma cluster_hits:
  assumes "cluster_permutation_test m b c trials = Inr t"
  shows "\<exists>hits \<le> trials. ndiv (I (int hits + 1)) (I (int trials + 1)) = Inr (cl_p t)"
  using assms trials_hits unfolding cluster_permutation_test_def Let_def by fastforce

lemma newcombe_unit:
  assumes "newcombe_difference_interval c b = Inr (l, h)" shows "fle (Fin (- 1)) l \<and> fle h (Fin 1)"
  using assms unfolding newcombe_difference_interval_def Let_def
  by (auto simp: pmax_def pmin_def fle_def feq_def split: prod.splits if_splits)

text \<open>Whatever the mathematics library and the shuffles return: when a comparison returns, the Fisher
  p-value is a finite number in [0, 1], the interval of the difference does not leave [-1, 1],
  and the permutation p-value is (h + 1) / 20001 for some h of at most 20,000 trials, so it is
  never 0.\<close>

theorem p_values_in_range:
  assumes "compare_hm m b c mi al mh am = Inr r"
  shows "(\<exists>q. res_fisher r = Fin q \<and> 0 \<le> q \<and> q \<le> 1)
    \<and> fle (Fin (- 1)) (fst (res_interval r)) \<and> fle (snd (res_interval r)) (Fin 1)
    \<and> (\<exists>h \<le> 20000. ndiv (I (int h + 1)) (I 20001) = Inr (cl_p (res_cluster r)))"
proof -
  note f = compare_hm_facts [OF assms]
  have "\<exists>h \<le> 20000. ndiv (I (int h + 1)) (I (int 20000 + 1)) = Inr (cl_p (res_cluster r))" using f cluster_hits by blast
  moreover have "int 20000 + 1 = 20001" by simp
  ultimately show ?thesis using f fisher_unit newcombe_unit [of c b "fst (res_interval r)" "snd (res_interval r)"] by auto
qed

section \<open>What a loaded experiment is\<close>

definition group_consistent :: "pyfloat \<Rightarrow> nat \<Rightarrow> hm_group \<Rightarrow> bool" where
  "group_consistent threshold i g \<longleftrightarrow> hm_index g = i \<and> hm_rates g \<noteq> []
     \<and> (\<forall>r \<in> set (hm_rates g). is_finite r \<and> \<not> flt r (Fin 0))
     \<and> hm_count g = length (filter (fle threshold) (hm_rates g))"

lemma loaded_group:
  assumes "load_hm_group n threshold (i, g) = Inr x" shows "group_consistent threshold i x"
  using assms unfolding load_hm_group_def Let_def prod.case bindE_Inr value_check_Inr sum.inject group_consistent_def
  by (elim exE conjE) (hypsubst, unfold hm_group.simps, blast)

lemma loaded_groups:
  assumes "mapE (load_hm_group n threshold) (zip [0 ..< length js] js) = Inr gs"
  shows "length gs = length js \<and> (\<forall>i < length gs. group_consistent threshold i (gs ! i))"
proof -
  have l: "length gs = length js" using mapE_length [OF assms] by simp
  moreover have "group_consistent threshold i (gs ! i)" if "i < length gs" for i
    using mapE_nth [OF assms, of i] that l by (intro loaded_group [of n threshold i "js ! i"]) simp
  ultimately show ?thesis by blast
qed

lemma loaded_experiment:
  assumes "load_hm_experiment w d ov inc = Inr e"
  shows "\<exists>js n. mapE (load_hm_group n (hm_threshold e)) (zip [0 ..< length js] js) = Inr (hm_groups e) \<and> js \<noteq> []
    \<and> flt (Fin 0) (hm_threshold e) \<and> fle (hm_threshold e) (Fin 1000)
    \<and> hm_complete e = (hm_expected_groups e = int (length js)) \<and> (hm_expected_groups e = int (length js) \<or> inc)
    \<and> hm_rounds e = length (concat (map hm_rates (hm_groups e)))
    \<and> hm_high_count e = length (filter (fle (hm_threshold e)) (concat (map hm_rates (hm_groups e))))"
proof -
  have t: "truthy v \<Longrightarrow> as_list v = Inr js \<Longrightarrow> js \<noteq> []" for v js by (cases v) auto
  show ?thesis
    using assms unfolding load_hm_experiment_def Let_def bindE_Inr value_check_Inr sum.inject
    by (elim exE conjE) (hypsubst, unfold hm_experiment.simps, intro exI conjI, (assumption | rule refl | rule t)+)
qed

lemma loaded_consistent:
  assumes "load_hm_experiment w d ov inc = Inr e"
  shows "hm_groups e \<noteq> [] \<and> (\<forall>i < length (hm_groups e). group_consistent (hm_threshold e) i (hm_groups e ! i))
    \<and> flt (Fin 0) (hm_threshold e) \<and> fle (hm_threshold e) (Fin 1000)
    \<and> hm_rounds e = sum_list (map (\<lambda>g. length (hm_rates g)) (hm_groups e))
    \<and> hm_high_count e = sum_list (map hm_count (hm_groups e)) \<and> hm_high_count e \<le> hm_rounds e \<and> 0 < hm_rounds e
    \<and> hm_complete e = (hm_expected_groups e = int (length (hm_groups e))) \<and> (hm_complete e \<or> inc)"
proof -
  let ?gs = "hm_groups e" and ?high = "fle (hm_threshold e)"
  obtain js n where j: "js \<noteq> []" "mapE (load_hm_group n (hm_threshold e)) (zip [0 ..< length js] js) = Inr ?gs"
    "flt (Fin 0) (hm_threshold e)" "fle (hm_threshold e) (Fin 1000)" "hm_complete e = (hm_expected_groups e = int (length js))"
    "hm_expected_groups e = int (length js) \<or> inc" "hm_rounds e = length (concat (map hm_rates ?gs))"
    "hm_high_count e = length (filter ?high (concat (map hm_rates ?gs)))"
    using loaded_experiment [OF assms] by blast
  note g = loaded_groups [OF j(2)]
  have c: "\<forall>x \<in> set ?gs. hm_rates x \<noteq> [] \<and> hm_count x = length (filter ?high (hm_rates x))"
    using g by (auto simp: in_set_conv_nth group_consistent_def)
  have "hm_high_count e = sum_list (map hm_count ?gs)"
    unfolding j(8) using c by (induction ?gs) (auto simp: filter_concat length_concat o_def intro!: arg_cong [of _ _ sum_list])
  moreover have "0 < hm_rounds e" using j(1,7) g c by (cases ?gs) auto
  moreover have "hm_rounds e = sum_list (map (\<lambda>x. length (hm_rates x)) ?gs)" unfolding j(7) by (simp add: length_concat o_def)
  moreover have "hm_high_count e \<le> hm_rounds e" unfolding j(7,8) by simp
  moreover have "?gs \<noteq> []" using j(1) g by auto
  ultimately show ?thesis using j g by metis
qed

lemma loaded_counts: "load_hm_experiment w d ov inc = Inr e \<Longrightarrow> hm_high_count e \<le> hm_rounds e \<and> 0 < hm_rounds e"
  using loaded_consistent by blast

text \<open>A loaded experiment is consistent: it has a group, the groups carry their positions as indices, each
  has a round, every throughput is a finite number that is not negative, the threshold lies
  in ]0, 1000], the rounds and the high rounds are the sums over the groups, every group's
  high count is that of its rounds at or above the threshold, and without
  \<open>allow_incomplete\<close> the planned number of groups is there.\<close>

theorem experiment_is_consistent:
  assumes "load_hm_experiment w d ov inc = Inr e"
  shows "hm_groups e \<noteq> [] \<and> (\<forall>i < length (hm_groups e). group_consistent (hm_threshold e) i (hm_groups e ! i))
    \<and> flt (Fin 0) (hm_threshold e) \<and> fle (hm_threshold e) (Fin 1000)
    \<and> hm_rounds e = sum_list (map (\<lambda>g. length (hm_rates g)) (hm_groups e))
    \<and> hm_high_count e = sum_list (map hm_count (hm_groups e)) \<and> hm_high_count e \<le> hm_rounds e \<and> 0 < hm_rounds e
    \<and> hm_complete e = (hm_expected_groups e = int (length (hm_groups e))) \<and> (hm_complete e \<or> inc)"
  by (rule loaded_consistent [OF assms])

section \<open>The interval always exists\<close>

text \<open>\<open>inside l k x\<close>: a finite double between \<open>l\<close> and \<open>2 ^ k\<close>.\<close>

definition inside :: "rat \<Rightarrow> nat \<Rightarrow> pyfloat \<Rightarrow> bool" where
  "inside l k x \<longleftrightarrow> (\<exists>r. x = Fin r \<and> l \<le> r \<and> r \<le> 2 ^ k)"

lemma inside_rnd:
  assumes "l \<le> q" "q \<le> 2 ^ k" "k \<le> 1000" "l = 0 \<or> l = 1" shows "inside l k (rnd q)"
proof -
  have a: "\<bar>q\<bar> \<le> 2 ^ k" using assms by auto
  have r: "rnd q = Fin (rnd_rat q)" "\<bar>rnd_rat q\<bar> \<le> 2 ^ k" using rnd_below [OF a] assms(3) by auto
  have "rnd l = Fin l" using assms(4) by auto
  then have "l \<le> rnd_rat q" using rnd_mono [OF assms(1)] r(1) by simp
  then show ?thesis using r by (auto simp: inside_def)
qed

lemma inside_weaken: "inside l k x \<Longrightarrow> l' \<le> l \<Longrightarrow> k \<le> k' \<Longrightarrow> inside l' k' x"
  unfolding inside_def by (metis order_trans power_increasing one_le_numeral)

lemma inside_mul:
  assumes "inside l j x" "inside l k y" "j + k \<le> 1000" "l = 0 \<or> l = 1" shows "inside l (j + k) (fmul x y)"
proof -
  obtain a b where ab: "x = Fin a" "y = Fin b" "l \<le> a" "a \<le> 2 ^ j" "l \<le> b" "b \<le> 2 ^ k" using assms by (auto simp: inside_def)
  have "a * b \<le> 2 ^ j * 2 ^ k" using ab assms(4) by (intro mult_mono) auto
  moreover have "l * l \<le> a * b" using ab assms(4) by (intro mult_mono) auto
  ultimately show ?thesis using ab assms(3,4) by (auto simp: power_add intro!: inside_rnd)
qed

lemma inside_add:
  assumes "inside l k x" "inside 0 k y" "k < 1000" "l = 0 \<or> l = 1" shows "inside l (k + 1) (fadd x y)"
proof -
  obtain a b where ab: "x = Fin a" "y = Fin b" "l \<le> a" "a \<le> 2 ^ k" "0 \<le> b" "b \<le> 2 ^ k" using assms by (auto simp: inside_def)
  then have "inside l (k + 1) (rnd (a + b))" using assms(3,4) by (intro inside_rnd) auto
  then show ?thesis using ab by simp
qed

lemma inside_pdiv:
  assumes "inside 0 k x" "inside 1 j y" "k \<le> 1000" shows "\<exists>q. pdiv x y = Inr q \<and> inside 0 k q"
proof -
  obtain a b where ab: "x = Fin a" "y = Fin b" "0 \<le> a" "a \<le> 2 ^ k" "1 \<le> b" using assms by (auto simp: inside_def)
  have "a / b \<le> a" using ab by (simp add: divide_le_eq mult_le_cancel_left1)
  then have "inside 0 k (rnd (a / b))" using ab assms(3) by (intro inside_rnd) auto
  then show ?thesis using ab by (auto simp: pdiv_def)
qed

text \<open>\<open>upper x\<close>: not negative, an infinity or NaN allowed; what a square root can be.\<close>

definition upper :: "pyfloat \<Rightarrow> bool" where
  "upper x \<longleftrightarrow> \<not> flt x (Fin 0)"

lemma upper_rnd: "0 \<le> q \<Longrightarrow> upper (rnd q)"
  using rnd_mono [of 0 q] flt_not_fle unfolding upper_def by fastforce

lemma upper_Fin: "upper (Fin a) \<longleftrightarrow> 0 \<le> a"
  by (auto simp: upper_def)

lemma isqrt_nonneg: "0 \<le> isqrt n"
  by (induction n rule: isqrt.induct) (subst isqrt.simps, auto simp: Let_def)

lemma upper_psqrt:
  assumes "inside 0 k x" shows "\<exists>y. psqrt x = Inr y \<and> upper y"
proof -
  have "upper (fsqrt q)" for q
    unfolding fsqrt_def Let_def by (auto simp: upper_Fin isqrt_nonneg intro!: upper_rnd mult_nonneg_nonneg add_nonneg_nonneg)
  then show ?thesis using assms by (auto simp: inside_def)
qed

lemma upper_mul: "inside 0 k x \<Longrightarrow> upper y \<Longrightarrow> upper (fmul x y)"
  by (cases y) (auto simp: inside_def upper_Fin inf_of_sign_def sgn_if intro!: upper_rnd split: if_splits, simp_all add: upper_def)

lemma upper_pdiv: "upper x \<Longrightarrow> inside 1 k y \<Longrightarrow> \<exists>q. pdiv x y = Inr q \<and> upper q"
  by (cases x) (auto simp: inside_def upper_Fin inf_of_sign_def pdiv_def upper_def [of PInf] upper_def [of NInf] upper_def [of NaN] intro!: upper_rnd)

text \<open>The radius only widens: the lower end stays in range, the upper end stays in [0, 1].\<close>

lemma below_centre:
  assumes "inside 0 k c" "k \<le> 1000" "upper r" shows "inside 0 k (pmax (Fin 0) (fsub c r))"
proof -
  obtain a where a: "c = Fin a" "0 \<le> a" "a \<le> 2 ^ k" using assms(1) by (auto simp: inside_def)
  have zero: "inside 0 k (Fin 0)" by (simp add: inside_def)
  show ?thesis
  proof (cases r)
    case (Fin b)
    have "0 \<le> b" using assms(3) Fin by (simp add: upper_def)
    then have "fle (rnd (a - b)) (rnd (2 ^ k))" using a by (intro rnd_mono) auto
    moreover have "\<exists>t. rnd (2 ^ k) = Fin t \<and> t \<le> 2 ^ k" using inside_rnd [of 0 "2 ^ k" k] assms(2) by (auto simp: inside_def)
    ultimately show ?thesis using Fin a zero
      by (cases "rnd (a - b)") (auto simp: fsub_def pmax_def inside_def fle_def feq_def)
  qed (use assms(3) a zero in \<open>auto simp: fsub_def pmax_def upper_def\<close>)
qed

lemma above_centre:
  assumes "inside 0 k c" "upper r" shows "inside 0 0 (pmin (Fin 1) (fadd c r))"
proof -
  have "upper (fadd c r)" using assms by (cases r) (auto simp: inside_def upper_Fin upper_def [of PInf] upper_def [of NInf] upper_def [of NaN] intro!: upper_rnd)
  then show ?thesis by (cases "fadd c r") (auto simp: upper_def pmin_def inside_def)
qed

lemma z_95_inside: "inside 0 1 z_95"
  unfolding z_95_def by (intro inside_rnd) simp_all

lemma inside_one: "inside 0 0 x \<Longrightarrow> inside 0 0 (fsub (Fin 1) x)"
  by (auto simp: fsub_def inside_def intro!: inside_rnd [unfolded inside_def, of 0 _ 0, simplified])

lemma inside_const: "inside 1 1 (Fin 2)" "inside 1 2 (Fin 4)" "inside 1 0 (Fin 1)"
  by (simp_all add: inside_def)

lemma count_values:
  assumes "x \<le> n" "0 < n" "n \<le> 2 ^ 40"
  shows "\<exists>p nf. idiv (int x) (int n) = Inr p \<and> inside 0 0 p \<and> int_float (int n) = Inr nf \<and> inside 1 40 nf"
proof -
  have n: "(of_nat n :: rat) \<le> 2 ^ 40" using assms(3) by (metis of_nat_le_iff of_nat_numeral of_nat_power)
  have "inside 0 0 (rnd (of_nat x / of_nat n))" using assms by (intro inside_rnd) (auto simp: divide_le_eq)
  moreover have "inside 1 40 (rnd (of_nat n))" using assms n by (intro inside_rnd) auto
  ultimately show ?thesis using assms(2) by (auto simp: idiv_def ndiv_def int_float_def inside_def)
qed

lemma wilson_returns:
  assumes "x \<le> n" "0 < n" "n \<le> 2 ^ 40"
  shows "\<exists>l h. wilson_interval (int x) (int n) = Inr (l, h) \<and> inside 0 3 l \<and> inside 0 0 h"
proof -
  obtain p nf where p: "idiv (int x) (int n) = Inr p" "inside 0 0 p" "int_float (int n) = Inr nf" "inside 1 40 nf"
    using count_values [OF assms] by blast
  have zz: "inside 0 2 (fmul z_95 z_95)" using inside_mul [OF z_95_inside z_95_inside] by (simp add: numeral_2_eq_2)
  obtain zn where zn: "pdiv (fmul z_95 z_95) nf = Inr zn" "inside 0 2 zn" using inside_pdiv [OF zz p(4)] by auto
  have den: "inside 1 3 (fadd (Fin 1) zn)" using inside_add [of 1 2 "Fin 1" zn] zn(2) by (simp add: inside_def)
  have two: "inside 1 41 (fmul (Fin 2) nf)" using inside_mul [OF inside_const(1) p(4)] by simp
  have four: "inside 1 82 (fmul (fmul (Fin 4) nf) nf)" using inside_mul [OF inside_mul [OF inside_const(2) p(4)] p(4)] by simp
  obtain half where half: "pdiv (fmul z_95 z_95) (fmul (Fin 2) nf) = Inr half" "inside 0 2 half" using inside_pdiv [OF zz two] by auto
  have num: "inside 0 3 (fadd p half)" using inside_add [of 0 2 p half] half(2) inside_weaken [OF p(2), of 0 2] by simp
  obtain centre where centre: "pdiv (fadd p half) (fadd (Fin 1) zn) = Inr centre" "inside 0 3 centre" using inside_pdiv [OF num den] by auto
  have pq: "inside 0 0 (fmul p (fsub (Fin 1) p))" using inside_mul [OF p(2) inside_one [OF p(2)]] by simp
  obtain v where v: "pdiv (fmul p (fsub (Fin 1) p)) nf = Inr v" "inside 0 0 v" using inside_pdiv [OF pq p(4)] by auto
  obtain c where c: "pdiv (fmul z_95 z_95) (fmul (fmul (Fin 4) nf) nf) = Inr c" "inside 0 2 c" using inside_pdiv [OF zz four] by auto
  have "inside 0 3 (fadd v c)" using inside_add [of 0 2 v c] c(2) inside_weaken [OF v(2), of 0 2] by simp
  then obtain s where s: "psqrt (fadd v c) = Inr s" "upper s" using upper_psqrt by blast
  obtain radius where r: "pdiv (fmul z_95 s) (fadd (Fin 1) zn) = Inr radius" "upper radius"
    using upper_pdiv [OF upper_mul [OF z_95_inside s(2)] den] by blast
  have "wilson_interval (int x) (int n) = Inr (pmax (Fin 0) (fsub centre radius), pmin (Fin 1) (fadd centre radius))"
    using assms(2) p zn half centre v c s r by (simp add: wilson_interval_def Let_def)
  then show ?thesis using below_centre [OF centre(2) _ r(2)] above_centre [OF centre(2) r(2)] by simp
qed

lemma square_returns:
  assumes "inside 0 3 x" "inside 0 3 y" shows "\<exists>s. square (fsub x y) = Inr s \<and> inside 0 8 s"
proof -
  obtain a b where ab: "x = Fin a" "y = Fin b" "0 \<le> a" "a \<le> 8" "0 \<le> b" "b \<le> 8" using assms by (auto simp: inside_def)
  have d: "\<bar>a - b\<bar> \<le> 2 ^ 3" using ab by (simp add: abs_le_iff)
  obtain r where r: "rnd (a - b) = Fin r" "\<bar>r\<bar> \<le> 8" using rnd_below [OF d] by auto
  have "r * r \<le> 8 * 8" using mult_mono [OF r(2) r(2)] by (simp flip: abs_mult)
  then have "inside 0 8 (rnd (r * r))" by (intro inside_rnd) auto
  then show ?thesis using ab r by (auto simp: square_def fsub_def Let_def inside_def)
qed

lemma newcombe_returns:
  assumes "hm_high_count b \<le> hm_rounds b" "0 < hm_rounds b" "hm_rounds b \<le> 2 ^ 40"
    "hm_high_count c \<le> hm_rounds c" "0 < hm_rounds c" "hm_rounds c \<le> 2 ^ 40"
  shows "\<exists>i. newcombe_difference_interval c b = Inr i"
proof -
  obtain p1 p2 where p: "rate_of b = Inr p1" "inside 0 0 p1" "rate_of c = Inr p2" "inside 0 0 p2"
    using count_values [OF assms(1-3)] count_values [OF assms(4-6)] by (auto simp: rate_of_def)
  obtain bl bh cl ch where w: "wilson_interval (int (hm_high_count b)) (int (hm_rounds b)) = Inr (bl, bh)" "inside 0 3 bl" "inside 0 0 bh"
    "wilson_interval (int (hm_high_count c)) (int (hm_rounds c)) = Inr (cl, ch)" "inside 0 3 cl" "inside 0 0 ch"
    using wilson_returns [OF assms(1-3)] wilson_returns [OF assms(4-6)] by blast
  note up = p(2,4) [THEN inside_weaken, of 0 3, simplified] w(3,6) [THEN inside_weaken, of 0 3, simplified]
  obtain s1 where s1: "square (fsub p1 bl) = Inr s1" "inside 0 8 s1" using square_returns [OF up(1) w(2)] by blast
  obtain s2 where s2: "square (fsub ch p2) = Inr s2" "inside 0 8 s2" using square_returns [OF up(4) up(2)] by blast
  obtain s3 where s3: "square (fsub bh p1) = Inr s3" "inside 0 8 s3" using square_returns [OF up(3) up(1)] by blast
  obtain s4 where s4: "square (fsub p2 cl) = Inr s4" "inside 0 8 s4" using square_returns [OF up(2) w(5)] by blast
  obtain s where s: "psqrt (fadd s1 s2) = Inr s" using upper_psqrt [OF inside_add [OF s1(2) s2(2)]] by auto
  obtain t where t: "psqrt (fadd s3 s4) = Inr t" using upper_psqrt [OF inside_add [OF s3(2) s4(2)]] by auto
  show ?thesis by (simp add: newcombe_difference_interval_def Let_def p w s1 s2 s3 s4 s t)
qed

text \<open>C40. Two experiments that load and have at most 2^40 rounds each always have an interval of their
  difference: no division by zero, no root of a negative number and no overflow, with every
  rounding taken into account, and the interval does not leave [-1, 1].\<close>

theorem interval_of_loaded:
  assumes "load_hm_experiment w d ov inc = Inr b" "load_hm_experiment w' d' ov' inc' = Inr c"
    "hm_rounds b \<le> 2 ^ 40" "hm_rounds c \<le> 2 ^ 40"
  shows "\<exists>l h. newcombe_difference_interval c b = Inr (l, h) \<and> fle (Fin (- 1)) l \<and> fle h (Fin 1)"
proof -
  have "hm_high_count b \<le> hm_rounds b \<and> 0 < hm_rounds b" "hm_high_count c \<le> hm_rounds c \<and> 0 < hm_rounds c"
    using loaded_counts [OF assms(1)] loaded_counts [OF assms(2)] by blast+
  then obtain i where i: "newcombe_difference_interval c b = Inr i" using newcombe_returns assms(3,4) by blast
  then show ?thesis using newcombe_unit [of c b "fst i" "snd i"] by (cases i) auto
qed

section \<open>An example\<close>

definition demo_libm :: libm where
  "demo_libm = \<lparr>erf = (\<lambda>_. Fin 1), lgamma = (\<lambda>_. Inr (Fin 0)), exp_float = (\<lambda>_. Inr (Fin 0)),
     inv_cdf = (\<lambda>_. Inr (Fin 1)), shuffle_order = (\<lambda>_. [0, 1])\<rparr>"

definition demo_group :: "rat list \<Rightarrow> json" where
  "demo_group rs = JObj [(''group'', jint 0), (''throughputs'', JList (map (\<lambda>r. JNum (F (Fin r))) rs))]"

definition demo_world :: "rat list \<Rightarrow> world" where
  "demo_world rs = \<lparr>file_text = (\<lambda>p. if p = ''e/environment.json'' then Some ''1'' else if p = ''e/summary.json'' then Some ''2'' else None),
     sha256_hex = id,
     json_loads = (\<lambda>t. Inr (if t = ''1'' then JObj [(''messages_per_round'', jint 1), (''payload_bytes'', jint 64), (''capacity_bytes'', jint 2)]
       else JList [demo_group rs])),
     globbed = (\<lambda>_ _. []), resolved = id\<rparr>"

definition demo_experiment :: "rat list \<Rightarrow> nat \<Rightarrow> num \<Rightarrow> num option \<Rightarrow> num \<Rightarrow> hm_experiment" where
  "demo_experiment rs k rate high middle = \<lparr>hm_directory = ''e'', hm_environment_sha = ''1'', hm_summary_sha = ''2'', hm_expected_groups = 1,
     hm_complete = True, hm_client_sha = JNull, hm_client = JNull,
     hm_groups = [\<lparr>hm_index = 0, hm_rates = map Fin rs, hm_count = k, hm_rate = rate, hm_high_median = high, hm_low_median = Some (F (Fin 10))\<rparr>],
     hm_rounds = 4, hm_high_count = k, hm_high_rate = rate, hm_high_med = high, hm_low_med = Some (F (Fin 10)),
     hm_all_median = middle, hm_threshold = Fin 15,
     hm_conditions = [(''messages_per_round'', jint 1), (''payload_bytes'', jint 64), (''capacity_bytes'', jint 2)]\<rparr>"

abbreviation demo_b :: hm_experiment where "demo_b \<equiv> demo_experiment [10, 10, 10, 10] 0 (F (Fin 0)) None (F (Fin 10))"
abbreviation demo_c :: hm_experiment where "demo_c \<equiv> demo_experiment [10, 20, 20, 20] 3 (F (Fin (3 / 4))) (Some (F (Fin 20))) (F (Fin 20))"

lemma demo_loaded: "load_hm_experiment (demo_world [10, 10, 10, 10]) ''e'' None False = Inr demo_b"
  "load_hm_experiment (demo_world [10, 20, 20, 20]) ''e'' None False = Inr demo_c"
  by code_simp+

lemma demo_tests: "case two_proportion_test demo_libm demo_b demo_c of Inl _ \<Rightarrow> False | Inr t \<Rightarrow>
    p_two_sided t = Fin 0 \<and> absolute_increase t = Fin (3 / 4) \<and> baseline_rate t = Fin 0"
  by code_simp

lemma demo_fisher: "case fisher_exact_greater demo_libm demo_b demo_c of Inl _ \<Rightarrow> False | Inr p \<Rightarrow> True"
  by code_simp

lemma demo_size: "required_sample_size demo_libm (Fin 0) x a p two = Inr None"
  by (simp add: required_sample_size_def)

text \<open>Shuffles that exchange nothing: no trial reaches the observed difference.\<close>

lemma demo_nums: "mean [F (Fin 0)] = Inr (F (Fin 0))" "mean [F (Fin (3 / 4))] = Inr (F (Fin (3 / 4)))"
  "nsub (F (Fin 0)) (F (Fin (3 / 4))) = Inr (F (Fin (- 3 / 4)))" "nsub (F (Fin (3 / 4))) (F (Fin 0)) = Inr (F (Fin (3 / 4)))"
  "\<not> nle (F (fsub (Fin (3 / 4)) (rnd (1 / 10 ^ 15)))) (F (Fin (- 3 / 4)))"
  by code_simp+

lemma demo_trial: "cluster_trial demo_libm 1 (F (Fin (3 / 4))) k ([F (Fin 0), F (Fin (3 / 4))], h) = Inr ([F (Fin 0), F (Fin (3 / 4))], h)"
  using demo_nums by (simp add: cluster_trial_def demo_libm_def Let_def nsub_def lift_num_def)

lemma demo_trials:
  "foldE (cluster_trial demo_libm 1 (F (Fin (3 / 4)))) ks ([F (Fin 0), F (Fin (3 / 4))], h) = Inr ([F (Fin 0), F (Fin (3 / 4))], h)"
  by (induction ks) (simp_all add: demo_trial del: One_nat_def)

lemma demo_cluster: "\<exists>t. cluster_permutation_test demo_libm (hm_groups demo_b) (hm_groups demo_c) 20000 = Inr t"
proof -
  have "(1::int) + int 20000 = 20001" by simp
  then have "\<exists>p. ndiv (I (int 0 + 1)) (I (int 20000 + 1)) = Inr p" using inside_rnd [of 0 "1 / 20001" 0] by (auto simp: ndiv_def inside_def)
  moreover have "map hm_rate (hm_groups demo_b) = [F (Fin 0)]" "map hm_rate (hm_groups demo_c) = [F (Fin (3 / 4))]"
    by (simp_all add: demo_experiment_def)
  ultimately show ?thesis
    using demo_trials [of "[0 ..< 20000]" 0] by (auto simp: cluster_permutation_test_def Let_def demo_nums simp del: upt_rec_numeral of_nat_numeral)
qed

lemma demo_gate: "mismatched_conditions demo_b demo_c = []" "feq (hm_threshold demo_b) (hm_threshold demo_c)"
  "nle (F (Fin 15)) (F (Fin 20))" "fle (Fin 10) (fadd (fmul (Fin (3 / 4)) (Fin 100)) (rnd (1 / 10 ^ 12)))"
  "flt (Fin 0) (rnd (1 / 20))"
  by code_simp+

lemma demo_compare: "\<exists>r. compare_hm demo_libm demo_b demo_c (Fin 10) (rnd (1 / 20)) (Fin 15) False = Inr r \<and> res_passed r"
proof -
  obtain t where t: "two_proportion_test demo_libm demo_b demo_c = Inr t" "p_two_sided t = Fin 0" "absolute_increase t = Fin (3 / 4)"
    "baseline_rate t = Fin 0"
    using demo_tests by (cases "two_proportion_test demo_libm demo_b demo_c") auto
  obtain f where f: "fisher_exact_greater demo_libm demo_b demo_c = Inr f"
    using demo_fisher by (cases "fisher_exact_greater demo_libm demo_b demo_c") auto
  obtain k where k: "cluster_permutation_test demo_libm (hm_groups demo_b) (hm_groups demo_c) 20000 = Inr k" using demo_cluster by blast
  obtain i where i: "newcombe_difference_interval demo_c demo_b = Inr i"
    using newcombe_returns [of demo_b demo_c] by (auto simp: demo_experiment_def)
  have e: "hm_high_med demo_c = Some (F (Fin 20))" "hm_complete demo_b" "hm_complete demo_c" by (simp_all add: demo_experiment_def)
  show ?thesis unfolding compare_hm_def demo_gate(1) Let_def
    by (simp only: demo_gate t f k i demo_size e bindE.simps value_check_def require_True filter.simps simp_thms option.case hm_result.simps sum.inject) simp
qed

lemma passed_is_improvement_witness:
  "hm_high_count demo_b * hm_rounds demo_c < hm_high_count demo_c * hm_rounds demo_b \<and> hm_complete demo_c"
proof -
  obtain r where r: "compare_hm demo_libm demo_b demo_c (Fin 10) (rnd (1 / 20)) (Fin 15) False = Inr r" "res_passed r"
    using demo_compare by blast
  from passed_is_improvement [OF r] show ?thesis by blast
qed

lemma p_values_in_range_witness:
  "\<exists>r q. compare_hm demo_libm demo_b demo_c (Fin 10) (rnd (1 / 20)) (Fin 15) False = Inr r \<and> res_fisher r = Fin q \<and> 0 \<le> q"
proof -
  obtain r where r: "compare_hm demo_libm demo_b demo_c (Fin 10) (rnd (1 / 20)) (Fin 15) False = Inr r" using demo_compare by blast
  from p_values_in_range [OF r] r show ?thesis by blast
qed

lemma experiment_is_consistent_witness: "hm_high_count demo_c = sum_list (map hm_count (hm_groups demo_c)) \<and> 0 < hm_rounds demo_c"
  using experiment_is_consistent [OF demo_loaded(2)] by blast

lemma interval_of_loaded_witness: "\<exists>l h. newcombe_difference_interval demo_c demo_b = Inr (l, h) \<and> fle h (Fin 1)"
proof -
  have "hm_rounds demo_b \<le> 2 ^ 40" "hm_rounds demo_c \<le> 2 ^ 40" by (simp_all add: demo_experiment_def)
  from interval_of_loaded [OF demo_loaded this] show ?thesis by blast
qed

end
