(* ===== verification/P31Throughput.thy ===== *)
theory P31Throughput
  imports ThroughputAB PyJson
begin

text \<open>
  \<open>compare_p31_throughput.py\<close>: the pre-registered P3-1 throughput experiment with three arms, B (the
  frozen v3 client), S and A (one candidate binary with and without the fence switch).  The
  manifest is checked against the registered block rotation and the client files, every arm is loaded
  by \<open>load_arm\<close> and matched with the manifest, and the gates G1, G2 and G3 are applied.
\<close>

section \<open>The registered protocol\<close>

definition BASELINE_SHA256 :: string where
  "BASELINE_SHA256 = ''3f8fc6957ce56483d7051dd6625f44fd8f755d57a66d04e1e5efa48e65b9c7da''"

definition ARM_DIRECTORIES :: "(string \<times> string) list" where
  "ARM_DIRECTORIES = [(''B'', ''baseline''), (''S'', ''candidate-seq''), (''A'', ''candidate-asym'')]"

definition ARM_SETENV :: "string \<Rightarrow> json" where
  "ARM_SETENV arm = JList (if arm = ''S'' then [JStr ''SALIAS_DISABLE_ASYMMETRIC_FENCE=1''] else [])"

text \<open>Six groups of three blocks; the arms of every second group run in reverse.\<close>

definition arms_in_group :: "nat \<Rightarrow> string list" where
  "arms_in_group g = (if even g then [''B'', ''S'', ''A''] else [''A'', ''S'', ''B''])"

definition registered_sequence :: json where
  "registered_sequence = JList (map (\<lambda>g. JList (map (\<lambda>a. JStr (a @ show_int (int g))) (arms_in_group g))) [0 ..< GROUPS])"

definition expected_blocks :: "(string \<times> nat) list" where
  "expected_blocks = concat (map (\<lambda>g. map (\<lambda>a. (a, g)) (arms_in_group g)) [0 ..< GROUPS])"

section \<open>The manifest\<close>

definition int_of_key :: "json \<Rightarrow> string \<Rightarrow> int py" where
  "int_of_key d k = bindE (get_or d k (jint (- 1))) to_int"

definition check_block :: "nat \<Rightarrow> json \<times> string \<times> nat \<Rightarrow> unit py" where
  "check_block index be = (case be of (block, arm, group_number) \<Rightarrow>
     bindE (get block ''block'') (\<lambda>k. bindE (get block ''arm'') (\<lambda>a. bindE (get block ''group'') (\<lambda>g.
     bindE (analysis (jeq k (jint (int index)) \<and> jeq a (JStr arm) \<and> jeq g (jint (int group_number)))
        ''block is not the registered arm/group'') (\<lambda>_.
     bindE (get block ''returncode'') (\<lambda>rc. analysis (jeq rc (jint 0)) ''block did not exit cleanly''))))))"

definition check_arm :: "world \<Rightarrow> json \<Rightarrow> string \<times> string \<Rightarrow> unit py" where
  "check_arm w arms ad = (case ad of (arm, directory_name) \<Rightarrow>
     bindE (getitem arms arm) (\<lambda>entry.
     bindE (get_or entry ''output'' (JStr [])) (\<lambda>v. bindE (as_str v) (\<lambda>output.
     bindE (analysis (base_name output = directory_name) ''unexpected output directory'') (\<lambda>_.
     bindE (get entry ''setenv'') (\<lambda>e. bindE (analysis (jeq e (ARM_SETENV arm)) ''unexpected setenv'') (\<lambda>_.
     bindE (get_or entry ''client'' (JStr [])) (\<lambda>v. bindE (as_str v) (\<lambda>client.
     bindE (analysis (is_file w client) ''client file is missing'') (\<lambda>_.
     bindE (file_sha w client) (\<lambda>actual. bindE (get entry ''sha256'') (\<lambda>h.
     analysis (jeq h (JStr actual)) ''client hash differs from experiment manifest''))))))))))))"

definition arm_sha256 :: "json \<Rightarrow> string \<Rightarrow> json py" where
  "arm_sha256 arms arm = bindE (getitem arms arm) (\<lambda>e. getitem e ''sha256'')"

definition arm_client :: "world \<Rightarrow> json \<Rightarrow> string \<Rightarrow> string py" where
  "arm_client w arms arm = bindE (getitem arms arm) (\<lambda>e. bindE (getitem e ''client'') (\<lambda>c. bindE (as_str c) (\<lambda>p. Inr (resolved w p))))"

definition check_arms :: "world \<Rightarrow> json \<Rightarrow> string \<Rightarrow> unit py" where
  "check_arms w arms baseline_sha256 =
     bindE (as_list arms) (\<lambda>names. bindE (json_set names) (\<lambda>names.
     bindE (analysis (same_set names (map (JStr \<circ> fst) ARM_DIRECTORIES)) ''manifest arms are not B/S/A'') (\<lambda>_.
     bindE (mapE (check_arm w arms) ARM_DIRECTORIES) (\<lambda>_.
     bindE (arm_sha256 arms ''B'') (\<lambda>b. bindE (analysis (jeq b (JStr baseline_sha256)) ''arm B is not the frozen v3.0.0 client'') (\<lambda>_.
     bindE (arm_sha256 arms ''S'') (\<lambda>s. bindE (arm_sha256 arms ''A'') (\<lambda>a.
     if \<not> jeq s a then Inl (AnalysisError ''C-seq and C-asym must be the same binary'') else
     bindE (arm_client w arms ''S'') (\<lambda>p. bindE (arm_client w arms ''A'') (\<lambda>q.
     analysis (p = q) ''C-seq and C-asym must be the same binary''))))))))))"

definition or_empty :: "json \<Rightarrow> json" where
  "or_empty v = (if truthy v then v else JObj [])"

definition load_p31_manifest :: "world \<Rightarrow> string \<Rightarrow> string \<Rightarrow> json py" where
  "load_p31_manifest w directory baseline_sha256 = (let path = slash directory ''experiment.json'' in
     bindE (analysis (is_file w path) ''missing experiment.json'') (\<lambda>_.
     bindE (read_text w path) (\<lambda>t. bindE (json_loads w t) (\<lambda>manifest.
     bindE (get manifest ''groups'') (\<lambda>g. bindE (get manifest ''rounds_per_group'') (\<lambda>r.
     bindE (analysis (jeq g (jint (int GROUPS)) \<and> jeq r (jint (int ROUNDS))) ''experiment is not 6 groups x 20 rounds'') (\<lambda>_.
     bindE (int_of_key manifest ''payload_bytes'') (\<lambda>n. bindE (analysis (n \<in> {64, 192}) ''experiment payload is not 64 B or 192 B'') (\<lambda>_.
     bindE (int_of_key manifest ''capacity_bytes'') (\<lambda>n. bindE (analysis (n = 1048576) ''experiment capacity is not 1 MiB'') (\<lambda>_.
     bindE (int_of_key manifest ''messages_per_round'') (\<lambda>n. bindE (analysis (n = 50000000) ''experiment messages are not 50,000,000'') (\<lambda>_.
     bindE (get manifest ''sequence'') (\<lambda>sq. bindE (analysis (jeq sq registered_sequence) ''block sequence is not the registered rotation'') (\<lambda>_.
     bindE (get_or manifest ''blocks'' (JList [])) (\<lambda>v. bindE (as_list v) (\<lambda>blocks.
     bindE (analysis (length blocks = GROUPS * 3) ''wrong number of blocks'') (\<lambda>_.
     bindE (mapE (\<lambda>(i, be). check_block i be) (zip [0 ..< length blocks] (zip blocks expected_blocks))) (\<lambda>_.
     bindE (get manifest ''arms'') (\<lambda>arms. bindE (check_arms w (or_empty arms) baseline_sha256) (\<lambda>_.
     Inr manifest)))))))))))))))))))))"

section \<open>The arms\<close>

definition load_experiment_arm :: "world \<Rightarrow> string \<Rightarrow> string \<times> string \<Rightarrow> int \<Rightarrow> json \<Rightarrow> arm py" where
  "load_experiment_arm w directory ad payload manifest = (case ad of (arm, directory_name) \<Rightarrow>
     let arm_directory = slash directory directory_name in
     bindE (read_environment w arm_directory) (\<lambda>environment.
     bindE (get environment ''environment_variables'') (\<lambda>recorded.
     bindE (analysis (jeq recorded (ARM_SETENV arm)) ''unexpected environment_variables'') (\<lambda>_.
     bindE (getitem manifest ''arms'') (\<lambda>arms. bindE (arm_client w arms arm) (\<lambda>client.
     bindE (get environment ''client_sha256'') (\<lambda>e. bindE (arm_sha256 arms arm) (\<lambda>h.
     if \<not> jeq e h then Inl (AnalysisError ''environment client identity differs from experiment manifest'') else
     bindE (get_or environment ''client'' (JStr [])) (\<lambda>c. bindE (as_str c) (\<lambda>c.
     bindE (analysis (resolved w c = client) ''environment client identity differs from experiment manifest'') (\<lambda>_.
     bindE (load_arm w arm_directory (Some payload)) (\<lambda>loaded.
     bindE (analysis (jeq (arm_sha loaded) h) ''loader identity differs from experiment manifest'') (\<lambda>_.
     Inr loaded)))))))))))))"

definition high_mode_count :: "num list \<Rightarrow> nat" where
  "high_mode_count rates = length (filter (nle (flit 15)) rates)"

section \<open>The gates\<close>

record g1_gate =
  g1_ratio :: num
  g1_permutation :: permutation
  g1_directions :: nat
  g1_eligible :: bool
  g1_decision :: string
  g1_passed :: "bool option"

definition gate_g1 :: "arm \<Rightarrow> arm \<Rightarrow> bool \<Rightarrow> g1_gate py" where
  "gate_g1 sq asy eligible = (let s = map grp_median (arm_groups sq); a = map grp_median (arm_groups asy) in
     bindE (ndiv (arm_median asy) (arm_median sq)) (\<lambda>ratio.
     bindE (permutation_test s a) (\<lambda>perm.
     let directions = directions_of s a;
         passed = (if eligible then Some (nle (flit (5 / 4)) ratio \<and> nlt (p_value perm) (flit (1 / 100)) \<and> 5 \<le> directions) else None) in
     Inr \<lparr>g1_ratio = ratio, g1_permutation = perm, g1_directions = directions, g1_eligible = eligible,
       g1_decision = (if eligible then (if passed = Some True then ''PASS'' else ''FAIL'') else ''DESCRIPTIVE''), g1_passed = passed\<rparr>)))"

record g3_gate =
  g3_ratio :: num
  high_rate_seq :: num
  high_rate_asym :: num
  drop_pp :: num
  g3_passed :: bool

definition gate_g3 :: "arm \<Rightarrow> arm \<Rightarrow> g3_gate py" where
  "gate_g3 sq asy = bindE (ndiv (arm_median asy) (arm_median sq)) (\<lambda>ratio.
     bindE (ndiv (I (int (high_mode_count (arm_rates sq)))) (I (int (length (arm_rates sq))))) (\<lambda>sh.
     bindE (ndiv (I (int (high_mode_count (arm_rates asy)))) (I (int (length (arm_rates asy))))) (\<lambda>ah.
     bindE (nsub sh ah) (\<lambda>d. bindE (nmul d (I 100)) (\<lambda>pp.
     Inr \<lparr>g3_ratio = ratio, high_rate_seq = sh, high_rate_asym = ah, drop_pp = pp,
       g3_passed = (nle (flit (97 / 100)) ratio \<and> nle d (flit (1 / 10)))\<rparr>)))))"

record g2_gate =
  g2_ratio :: num
  g2_passed :: bool

definition gate_g2 :: "arm \<Rightarrow> arm \<Rightarrow> g2_gate py" where
  "gate_g2 asy baseline = bindE (ndiv (arm_median asy) (arm_median baseline)) (\<lambda>ratio.
     Inr \<lparr>g2_ratio = ratio, g2_passed = nle (flit (6 / 5)) ratio\<rparr>)"

record arm_summary =
  sum_directory :: string
  sum_sha :: json
  sum_verified :: nat
  sum_median :: num
  sum_mean :: num
  sum_cv :: num
  sum_high15 :: nat
  sum_group_medians :: "num list"

definition summarize_arm :: "arm \<Rightarrow> arm_summary" where
  "summarize_arm a = \<lparr>sum_directory = arm_directory a, sum_sha = arm_sha a, sum_verified = arm_verified a, sum_median = arm_median a,
     sum_mean = arm_mean a, sum_cv = arm_cv a, sum_high15 = high_mode_count (arm_rates a),
     sum_group_medians = map grp_median (arm_groups a)\<rparr>"

record p31_report =
  p31_payload :: int
  p31_arms :: "(string \<times> arm_summary) list"
  p31_g1 :: g1_gate
  p31_bootstrap :: interval
  p31_g2 :: "g2_gate option"
  p31_g3 :: "g3_gate option"

definition apply_gates :: "(nat \<Rightarrow> nat) \<Rightarrow> int \<Rightarrow> arm \<Rightarrow> arm \<Rightarrow> arm \<Rightarrow> p31_report py" where
  "apply_gates pick payload b s a =
     bindE (gate_g1 s a (payload = 64)) (\<lambda>g1.
     bindE (bootstrap_interval pick BOOTSTRAP_SAMPLES (map grp_rates (arm_groups s)) (map grp_rates (arm_groups a))) (\<lambda>boot.
     bindE (if payload = 64 then bindE (gate_g2 a b) (\<lambda>g. Inr (Some g)) else Inr None) (\<lambda>g2.
     bindE (if payload = 192 then bindE (gate_g3 s a) (\<lambda>g. Inr (Some g)) else Inr None) (\<lambda>g3.
     Inr \<lparr>p31_payload = payload, p31_arms = [(''B'', summarize_arm b), (''S'', summarize_arm s), (''A'', summarize_arm a)],
       p31_g1 = g1, p31_bootstrap = boot, p31_g2 = g2, p31_g3 = g3\<rparr>))))"

definition compare_p31 :: "(nat \<Rightarrow> nat) \<Rightarrow> world \<Rightarrow> string \<Rightarrow> int option \<Rightarrow> string \<Rightarrow> p31_report py" where
  "compare_p31 pick w path wanted baseline_sha256 = (let directory = resolved w path in
     bindE (load_p31_manifest w directory baseline_sha256) (\<lambda>manifest.
     bindE (getitem manifest ''payload_bytes'') (\<lambda>p. bindE (to_int p) (\<lambda>payload.
     bindE (analysis (wanted = None \<or> wanted = Some payload) ''unexpected payload'') (\<lambda>_.
     bindE (load_experiment_arm w directory (''B'', ''baseline'') payload manifest) (\<lambda>b.
     bindE (load_experiment_arm w directory (''S'', ''candidate-seq'') payload manifest) (\<lambda>s.
     bindE (load_experiment_arm w directory (''A'', ''candidate-asym'') payload manifest) (\<lambda>a.
     bindE (analysis (jeq (arm_sha s) (arm_sha a)) ''C-seq and C-asym hashes differ'') (\<lambda>_.
     apply_gates pick payload b s a)))))))))"

section \<open>What an accepted experiment implies\<close>

lemma rotation: "\<forall>g \<in> {0, 1, 2, 3, 4, 5}. \<forall>k \<in> {0, 1, 2}. expected_blocks ! (3 * g + k) = (arms_in_group g ! k, g)" "length expected_blocks = 18"
  by code_simp+

lemma check_block_Inr:
  assumes "check_block i (block, arm, g) = Inr u"
  shows "\<exists>a r. get block ''arm'' = Inr (JStr arm) \<and> get block ''group'' = Inr a \<and> jeq a (jint (int g))
    \<and> get block ''returncode'' = Inr r \<and> jeq r (jint 0)"
  using assms unfolding check_block_def prod.case bindE_Inr analysis_Inr jeq_JStr_right by blast

lemma manifest_Inr:
  assumes "load_p31_manifest w directory sha = Inr m"
  shows "\<exists>n v bs us arms u. int_of_key m ''payload_bytes'' = Inr n \<and> n \<in> {64, 192} \<and> get_or m ''blocks'' (JList []) = Inr v \<and> as_list v = Inr bs
    \<and> length bs = 18 \<and> mapE (\<lambda>(i, be). check_block i be) (zip [0 ..< length bs] (zip bs expected_blocks)) = Inr us
    \<and> get m ''arms'' = Inr arms \<and> check_arms w (or_empty arms) sha = Inr u"
proof -
  have e: "GROUPS * 3 = 18" by (simp add: GROUPS_def)
  from assms show ?thesis unfolding load_p31_manifest_def Let_def e bindE_Inr analysis_Inr sum.inject by blast
qed


lemma loaded_arm_Inr:
  assumes "load_experiment_arm w directory (arm, name) payload m = Inr a"
  shows "load_arm w (slash directory name) (Some payload) = Inr a
    \<and> (\<exists>arms h e. getitem m ''arms'' = Inr arms \<and> arm_sha256 arms arm = Inr h \<and> jeq (arm_sha a) h
        \<and> read_environment w (slash directory name) = Inr e \<and> get e ''environment_variables'' = Inr (ARM_SETENV arm))"
proof -
  have s: "jeq x (ARM_SETENV arm) \<longleftrightarrow> x = ARM_SETENV arm" for x
    using jeq_list_strs [of _ "[''SALIAS_DISABLE_ASYMMETRIC_FENCE=1'']"] jeq_list_strs [of _ "[]"]
    by (cases x) (auto simp: ARM_SETENV_def)
  from assms show ?thesis unfolding load_experiment_arm_def prod.case Let_def bindE_Inr analysis_Inr s by (auto split: if_splits)
qed

lemma manifest_payload:
  assumes "load_p31_manifest w directory sha = Inr m" "getitem m ''payload_bytes'' = Inr v" "to_int v = Inr n"
  shows "n \<in> {64, 192}"
  using manifest_Inr [OF assms(1)] getitem_get [OF assms(2)] assms(3) by (auto simp: int_of_key_def)

lemma g1_passed_Some:
  assumes "gate_g1 s a eligible = Inr g" "g1_passed g = Some True"
  shows "eligible \<and> nle (flit (5 / 4)) (g1_ratio g) \<and> nlt (p_value (g1_permutation g)) (flit (1 / 100)) \<and> 5 \<le> g1_directions g"
  using assms unfolding gate_g1_def Let_def by (auto split: if_splits)

lemma g3_passed_D:
  assumes "gate_g3 s a = Inr g" "g3_passed g"
  shows "nle (flit (97 / 100)) (g3_ratio g) \<and> (\<exists>d. nsub (high_rate_seq g) (high_rate_asym g) = Inr d \<and> nle d (flit (1 / 10)))"
  using assms unfolding gate_g3_def Let_def by auto

lemma apply_gates_Inr:
  assumes "apply_gates pick payload b s a = Inr r"
  shows "p31_payload r = payload \<and> gate_g1 s a (payload = 64) = Inr (p31_g1 r)
    \<and> (p31_g2 r \<noteq> None \<longleftrightarrow> payload = 64) \<and> (p31_g3 r \<noteq> None \<longleftrightarrow> payload = 192)
    \<and> (\<forall>g. p31_g3 r = Some g \<longrightarrow> gate_g3 s a = Inr g)"
  using assms unfolding apply_gates_def bindE_Inr by (auto split: if_splits)

lemma compare_p31_Inr:
  assumes "compare_p31 pick w path wanted sha = Inr r"
  shows "\<exists>m v n b s a. load_p31_manifest w (resolved w path) sha = Inr m \<and> getitem m ''payload_bytes'' = Inr v \<and> to_int v = Inr n
    \<and> load_experiment_arm w (resolved w path) (''B'', ''baseline'') n m = Inr b
    \<and> load_experiment_arm w (resolved w path) (''S'', ''candidate-seq'') n m = Inr s
    \<and> load_experiment_arm w (resolved w path) (''A'', ''candidate-asym'') n m = Inr a
    \<and> jeq (arm_sha s) (arm_sha a) \<and> apply_gates pick n b s a = Inr r \<and> p31_payload r = n"
  using assms apply_gates_Inr unfolding compare_p31_def Let_def bindE_Inr analysis_Inr by blast


section \<open>A concrete experiment\<close>

lemma demo_manifest: "load_p31_manifest demo_world ''e'' ''b'' = Inr (three_arm_json ''xm'')"
  by code_simp



lemma demo_identity:
  "bindE (getitem (three_arm_json ''xm'') ''arms'') (\<lambda>arms. Inr (arm_client demo_world arms ''B'', arm_sha256 arms ''B'')) = Inr (Inr ''e/v3'', Inr (JStr ''b''))"
  "bindE (getitem (three_arm_json ''xm'') ''arms'') (\<lambda>arms. Inr (arm_client demo_world arms ''S'', arm_sha256 arms ''S'')) = Inr (Inr ''e/v4'', Inr (JStr ''c''))"
  "bindE (getitem (three_arm_json ''xm'') ''arms'') (\<lambda>arms. Inr (arm_client demo_world arms ''A'', arm_sha256 arms ''A'')) = Inr (Inr ''e/v4'', Inr (JStr ''c''))"
  by code_simp+

lemma demo_read:
  "read_environment demo_world ''e/baseline'' = Inr (three_arm_json ''xB'')"
  "read_environment demo_world ''e/candidate-seq'' = Inr (three_arm_json ''xS'')"
  "read_environment demo_world ''e/candidate-asym'' = Inr (three_arm_json ''xA'')"
  by code_simp+

lemma demo_fields:
  "get (three_arm_json ''xB'') ''environment_variables'' = Inr (ARM_SETENV ''B'')" "get (three_arm_json ''xS'') ''environment_variables'' = Inr (ARM_SETENV ''S'')"
  "get (three_arm_json ''xA'') ''environment_variables'' = Inr (ARM_SETENV ''A'')"
  "get (three_arm_json ''xB'') ''client_sha256'' = Inr (JStr ''b'')" "get (three_arm_json ''xS'') ''client_sha256'' = Inr (JStr ''c'')"
  "get (three_arm_json ''xA'') ''client_sha256'' = Inr (JStr ''c'')"
  "get_or (three_arm_json ''xB'') ''client'' (JStr []) = Inr (JStr ''e/v3'')" "get_or (three_arm_json ''xS'') ''client'' (JStr []) = Inr (JStr ''e/v4'')"
  "get_or (three_arm_json ''xA'') ''client'' (JStr []) = Inr (JStr ''e/v4'')"
  "jeq (ARM_SETENV ''B'') (ARM_SETENV ''B'')" "jeq (ARM_SETENV ''S'') (ARM_SETENV ''S'')" "jeq (ARM_SETENV ''A'') (ARM_SETENV ''A'')"
  by code_simp+

lemma load_arm_resolved: "resolved w p = d \<Longrightarrow> resolved w d = d \<Longrightarrow> load_arm w p n = load_arm w d n"
  by (simp add: load_arm_def)

lemma demo_three_arms:
  assumes "load_arm demo_world ''b'' (Some 64) = Inr b" "arm_sha b = JStr ''b''" "load_arm demo_world ''c'' (Some 64) = Inr c" "arm_sha c = JStr ''c''"
  shows "load_experiment_arm demo_world ''e'' (''B'', ''baseline'') 64 (three_arm_json ''xm'') = Inr b"
    "load_experiment_arm demo_world ''e'' (''S'', ''candidate-seq'') 64 (three_arm_json ''xm'') = Inr c"
    "load_experiment_arm demo_world ''e'' (''A'', ''candidate-asym'') 64 (three_arm_json ''xm'') = Inr c"
proof -
  have sl: "slash ''e'' ''baseline'' = ''e/baseline''" "slash ''e'' ''candidate-seq'' = ''e/candidate-seq''"
    "slash ''e'' ''candidate-asym'' = ''e/candidate-asym''" by code_simp+
  have res: "resolved demo_world ''e/baseline'' = ''b''" "resolved demo_world ''b'' = ''b''" "resolved demo_world ''e/candidate-seq'' = ''c''"
    "resolved demo_world ''c'' = ''c''" "resolved demo_world ''e/candidate-asym'' = ''c''" by (simp_all add: demo_world_def)
  have r: "load_arm demo_world ''e/baseline'' (Some 64) = Inr b" "load_arm demo_world ''e/candidate-seq'' (Some 64) = Inr c"
    "load_arm demo_world ''e/candidate-asym'' (Some 64) = Inr c"
    unfolding load_arm_resolved [of demo_world "''e/baseline''" "''b''", OF res(1,2)] load_arm_resolved [of demo_world "''e/candidate-seq''" "''c''", OF res(3,4)]
      load_arm_resolved [of demo_world "''e/candidate-asym''" "''c''", OF res(5,4)] by (rule assms)+
  have id: "resolved demo_world ''e/v3'' = ''e/v3''" "resolved demo_world ''e/v4'' = ''e/v4''" by (simp_all add: demo_world_def)
  obtain arms where a: "getitem (three_arm_json ''xm'') ''arms'' = Inr arms" using demo_identity(1) by auto
  have i: "arm_client demo_world arms ''B'' = Inr ''e/v3''" "arm_sha256 arms ''B'' = Inr (JStr ''b'')"
    "arm_client demo_world arms ''S'' = Inr ''e/v4''" "arm_sha256 arms ''S'' = Inr (JStr ''c'')"
    "arm_client demo_world arms ''A'' = Inr ''e/v4''" "arm_sha256 arms ''A'' = Inr (JStr ''c'')"
    using demo_identity unfolding a bindE.simps by simp_all
  note parts = load_experiment_arm_def prod.case Let_def sl demo_read a bindE.simps demo_fields analysis_def id
  show "load_experiment_arm demo_world ''e'' (''B'', ''baseline'') 64 (three_arm_json ''xm'') = Inr b"
    unfolding parts i by (simp add: r assms(2) demo_fields id)
  show "load_experiment_arm demo_world ''e'' (''S'', ''candidate-seq'') 64 (three_arm_json ''xm'') = Inr c"
    "load_experiment_arm demo_world ''e'' (''A'', ''candidate-asym'') 64 (three_arm_json ''xm'') = Inr c"
    unfolding parts i by (simp_all add: r assms(4) demo_fields id)
qed


end
