(* ===== verification/LatencyAB.thy ===== *)
theory LatencyAB
  imports PyJson
begin

text \<open>
  \<open>compare_latency_ab.py\<close>: the rows of alternating latency runs are accepted only with the engine, the
  client hash of their arm and no memory event, and are summarised per origin, payload and arm by
  medians over runs, never pooled over arms.
\<close>

section \<open>Loading rows\<close>

definition latency_ab :: "bool \<Rightarrow> string \<Rightarrow> unit py" where
  "latency_ab b msg = require b (RuntimeError msg)"

lemma latency_ab_Inr [simp]: "latency_ab b msg = Inr u \<longleftrightarrow> b"
  by (simp add: latency_ab_def)

text \<open>\<open>row.get("arm") not in expected\<close>: a lookup among string keys; an unhashable value raises.\<close>

definition arm_of_row :: "(string \<times> string) list \<Rightarrow> json \<Rightarrow> string py" where
  "arm_of_row expected row = bindE (get row ''arm'') (\<lambda>a. bindE (require (hashable a) TypeError) (\<lambda>_.
     bindE (latency_ab (is_str a \<and> map_of expected (str_of a) \<noteq> None) ''unknown arm'') (\<lambda>_. Inr (str_of a))))"

definition memory_events :: "string list" where
  "memory_events = [''high'', ''max'', ''oom'', ''oom_kill'']"

definition load_latency_row :: "world \<Rightarrow> (string \<times> string) list \<Rightarrow> string \<Rightarrow> json py" where
  "load_latency_row w expected line = bindE (json_loads w line) (\<lambda>row.
     bindE (get row ''engine'') (\<lambda>e. bindE (latency_ab (jeq e (JStr ''fifo'')) ''engine is not fifo'') (\<lambda>_.
     bindE (arm_of_row expected row) (\<lambda>arm.
     bindE (get row ''client_sha256'') (\<lambda>h.
     bindE (latency_ab (jeq h (JStr (the (map_of expected arm)))) ''client hash does not match arm'') (\<lambda>_.
     bindE (getitem row ''resources'') (\<lambda>r. bindE (getitem r ''memory.events'') (\<lambda>m. bindE (event_counts m) (\<lambda>events.
     bindE (any_event memory_events events) (\<lambda>bad.
     bindE (latency_ab (\<not> bad) ''memory pressure event'') (\<lambda>_. Inr row)))))))))))"

definition load_latency :: "world \<Rightarrow> (string \<times> string) list \<Rightarrow> string \<Rightarrow> (string \<times> json list) py" where
  "load_latency w expected path = bindE (file_sha w path) (\<lambda>digest. bindE (read_text w path) (\<lambda>t.
     bindE (mapE (load_latency_row w expected) (filter (\<lambda>l. strip l \<noteq> []) (splitlines t))) (\<lambda>rows. Inr (digest, rows))))"

section \<open>The summary\<close>

record latency_group =
  lg_origin :: json
  lg_payload :: json
  lg_arm :: string
  lg_sha :: string
  lg_count :: nat
  lg_published :: int
  lg_throughput :: num
  lg_quantiles :: "(string \<times> num) list"
  lg_ranges :: "(string \<times> num \<times> num) list"

definition METRICS :: "string list" where
  "METRICS = [''p50'', ''p99'', ''p999'']"

definition in_arm :: "json \<Rightarrow> json \<Rightarrow> string \<Rightarrow> json \<Rightarrow> bool py" where
  "in_arm origin payload arm row = everyE (\<lambda>(k, v). item_is k v row)
     [(''origin'', origin), (''payload'', payload), (''arm'', JStr arm), (''phase'', JStr ''measured'')]"

definition metric_ints :: "string \<Rightarrow> json list \<Rightarrow> num list py" where
  "metric_ints metric rows = mapE (\<lambda>r. bindE (result_int (''latency_'' @ metric @ ''_ns'') r) (\<lambda>n. Inr (I n))) rows"

definition metric_medians :: "json list \<Rightarrow> (string \<times> num) list py" where
  "metric_medians rows = mapE (\<lambda>m. bindE (metric_ints m rows) (\<lambda>ns. bindE (median ns) (\<lambda>x. Inr (m, x)))) METRICS"

definition metric_ranges :: "json list \<Rightarrow> (string \<times> num \<times> num) list py" where
  "metric_ranges rows = mapE (\<lambda>m. bindE (metric_ints m rows) (\<lambda>ns. bindE (num_min ns) (\<lambda>l. bindE (num_max ns) (\<lambda>h.
     Inr (m, l, h))))) METRICS"

definition rate_mmsg :: "json \<Rightarrow> num py" where
  "rate_mmsg row = bindE (getitem row ''result'') (\<lambda>r. bindE (getitem r ''publish_msg_per_sec'') (\<lambda>v.
     bindE (jfloat v) (\<lambda>x. Inr (F (fdiv x (Fin 1000000))))))"

definition latency_group_of :: "json list \<Rightarrow> nat \<Rightarrow> json \<Rightarrow> json \<Rightarrow> string \<times> string \<Rightarrow> latency_group py" where
  "latency_group_of rows rounds origin payload armsha = (case armsha of (arm, sha) \<Rightarrow>
     bindE (filterE (in_arm origin payload arm) rows) (\<lambda>found.
     bindE (sort_rows (\<lambda>r. getitem r ''round'') found) (\<lambda>arm_rows.
     bindE (mapE (\<lambda>r. getitem r ''round'') arm_rows) (\<lambda>observed.
     bindE (latency_ab (jeq (JList observed) (JList (map (\<lambda>i. jint (int i)) [1 ..< rounds + 1]))) ''missing measured rounds'') (\<lambda>_.
     bindE (metric_medians arm_rows) (\<lambda>quantiles.
     bindE (mapE (result_int ''published'') arm_rows) (\<lambda>published.
     bindE (mapE rate_mmsg arm_rows) (\<lambda>rates. bindE (median rates) (\<lambda>thr.
     bindE (metric_ranges arm_rows) (\<lambda>ranges.
     Inr \<lparr>lg_origin = origin, lg_payload = payload, lg_arm = arm, lg_sha = sha, lg_count = length arm_rows,
       lg_published = sum_list published, lg_throughput = thr, lg_quantiles = quantiles, lg_ranges = ranges\<rparr>))))))))))"

definition payloads_of :: "json list \<Rightarrow> json \<Rightarrow> json list py" where
  "payloads_of rows origin = bindE (filterE (item_is ''origin'' origin) rows) (\<lambda>rs.
     bindE (mapE (\<lambda>r. getitem r ''payload'') rs) sorted_set)"

definition payload_groups :: "json list \<Rightarrow> string \<Rightarrow> string \<Rightarrow> nat \<Rightarrow> json \<Rightarrow> json \<Rightarrow> latency_group list py" where
  "payload_groups rows baseline_sha candidate_sha rounds origin payload =
     mapE (latency_group_of rows rounds origin payload) [(''B'', baseline_sha), (''C'', candidate_sha)]"

definition origin_groups :: "json list \<Rightarrow> string \<Rightarrow> string \<Rightarrow> nat \<Rightarrow> json \<Rightarrow> latency_group list py" where
  "origin_groups rows baseline_sha candidate_sha rounds origin = bindE (payloads_of rows origin) (\<lambda>payloads.
     bindE (mapE (payload_groups rows baseline_sha candidate_sha rounds origin) payloads) (\<lambda>gs. Inr (concat gs)))"

definition summarize_latency :: "json list \<Rightarrow> string \<Rightarrow> string \<Rightarrow> nat \<Rightarrow> latency_group list py" where
  "summarize_latency rows baseline_sha candidate_sha rounds =
     bindE (mapE (\<lambda>r. getitem r ''origin'') rows) (\<lambda>os. bindE (sorted_set os) (\<lambda>origins.
     bindE (mapE (origin_groups rows baseline_sha candidate_sha rounds) origins) (\<lambda>gs. Inr (concat gs))))"

section \<open>Arms are never mixed\<close>

text \<open>The rows behind a group: all of one origin, payload and arm, measured, one for each round in order.\<close>

definition group_rows :: "json list \<Rightarrow> nat \<Rightarrow> latency_group \<Rightarrow> json list \<Rightarrow> bool" where
  "group_rows rows rounds g rs \<longleftrightarrow> set rs \<subseteq> set rows \<and> length rs = rounds \<and> lg_count g = rounds
     \<and> (\<forall>r \<in> set rs. in_arm (lg_origin g) (lg_payload g) (lg_arm g) r = Inr True)
     \<and> (\<forall>i < rounds. \<exists>v. getitem (rs ! i) ''round'' = Inr v \<and> jeq v (jint (int i + 1)))
     \<and> metric_medians rs = Inr (lg_quantiles g)"

lemma sorted_rounds:
  assumes "mapE (\<lambda>r. getitem r ''round'') rs = Inr vs" "jeq (JList vs) (JList (map (\<lambda>i. jint (int i)) [1 ..< n + 1]))"
  shows "length rs = n \<and> (\<forall>i < n. \<exists>v. getitem (rs ! i) ''round'' = Inr v \<and> jeq v (jint (int i + 1)))"
proof -
  have "jeq_list vs (map (\<lambda>i. jint (int i)) [1 ..< n + 1])" using assms(2) by simp
  note j = jeq_list_nth [OF this]
  have l: "length vs = n" "length rs = n" using j mapE_length [OF assms(1)] by auto
  have "getitem (rs ! i) ''round'' = Inr (vs ! i) \<and> jeq (vs ! i) (jint (int i + 1))" if "i < n" for i
  proof -
    have "map (\<lambda>i. jint (int i)) [1 ..< n + 1] ! i = jint (int (1 + i))" using that by (subst nth_map, simp, subst nth_upt, simp_all)
    moreover have "i < length (map (\<lambda>i. jint (int i)) [1 ..< n + 1])" using that by simp
    ultimately have "jeq (vs ! i) (jint (int (1 + i)))" using j by metis
    then show ?thesis using mapE_nth [OF assms(1), of i] that l by (simp add: add.commute)
  qed
  then show ?thesis using l by blast
qed

lemma group_of_rows:
  assumes "latency_group_of rows n origin payload (arm, sha) = Inr g"
  shows "lg_origin g = origin \<and> lg_payload g = payload \<and> lg_arm g = arm \<and> lg_sha g = sha \<and> (\<exists>rs. group_rows rows n g rs)"
proof -
  obtain found rs vs qs pub rates thr ranges where g: "filterE (in_arm origin payload arm) rows = Inr found"
    "sort_rows (\<lambda>r. getitem r ''round'') found = Inr rs" "mapE (\<lambda>r. getitem r ''round'') rs = Inr vs"
    "jeq (JList vs) (JList (map (\<lambda>i. jint (int i)) [1 ..< n + 1]))"
    "metric_medians rs = Inr qs"
    "g = \<lparr>lg_origin = origin, lg_payload = payload, lg_arm = arm, lg_sha = sha, lg_count = length rs,
       lg_published = sum_list pub, lg_throughput = thr, lg_quantiles = qs, lg_ranges = ranges\<rparr>"
    using assms unfolding latency_group_of_def prod.case bindE_Inr latency_ab_Inr sum.inject by blast
  have "set rs = set found" using mset_sort_rows [OF g(2)] by (metis set_mset_mset)
  then show ?thesis using filterE_set [OF g(1)] sorted_rounds [OF g(3,4)] g(5) unfolding g(6) group_rows_def by auto
qed

lemma loaded_row:
  assumes "load_latency_row w expected line = Inr row"
  shows "\<exists>arm sha. get row ''arm'' = Inr (JStr arm) \<and> map_of expected arm = Some sha \<and> get row ''client_sha256'' = Inr (JStr sha)"
proof -
  obtain arm h where r: "arm_of_row expected row = Inr arm" "get row ''client_sha256'' = Inr h" "jeq h (JStr (the (map_of expected arm)))"
    using assms unfolding load_latency_row_def bindE_Inr latency_ab_Inr sum.inject by blast
  obtain a where a: "get row ''arm'' = Inr a" "is_str a" "map_of expected (str_of a) \<noteq> None" "arm = str_of a"
    using r(1) unfolding arm_of_row_def bindE_Inr latency_ab_Inr sum.inject by blast
  then have "a = JStr arm" by (cases a) simp_all
  then show ?thesis using a r by auto
qed

interpretation latency_row: loader "load_latency_row w expected"
  "\<lambda>row. \<exists>arm sha. get row ''arm'' = Inr (JStr arm) \<and> map_of expected arm = Some sha \<and> get row ''client_sha256'' = Inr (JStr sha)"
  for w expected
  by unfold_locales (rule loaded_row)

lemma loaded_rows:
  assumes "mapE (load_latency w expected) paths = Inr loads" "row \<in> set (concat (map snd loads))"
  shows "\<exists>arm sha. get row ''arm'' = Inr (JStr arm) \<and> map_of expected arm = Some sha \<and> get row ''client_sha256'' = Inr (JStr sha)"
proof -
  obtain l where l: "l \<in> set loads" "row \<in> set (snd l)" using assms(2) by auto
  obtain p where "load_latency w expected p = Inr l" using mapE_set_D [OF assms(1) l(1)] by blast
  then obtain ls where "mapE (load_latency_row w expected) ls = Inr (snd l)" unfolding load_latency_def bindE_Inr by auto
  then show ?thesis using latency_row.all_sound l(2) by blast
qed

lemma in_arm_arm: "in_arm q p arm r = Inr True \<Longrightarrow> getitem r ''arm'' = Inr (JStr arm)"
  by (auto simp: in_arm_def item_is_def split: if_splits)

text \<open>The groups come in pairs, one for each arm.\<close>

definition arm_pair :: "json list \<Rightarrow> nat \<Rightarrow> string \<Rightarrow> string \<Rightarrow> latency_group \<times> latency_group \<Rightarrow> bool" where
  "arm_pair rows n b c xy = (case xy of (x, y) \<Rightarrow> lg_arm x = ''B'' \<and> lg_arm y = ''C'' \<and> lg_sha x = b \<and> lg_sha y = c
     \<and> lg_origin x = lg_origin y \<and> lg_payload x = lg_payload y \<and> (\<exists>rs. group_rows rows n x rs) \<and> (\<exists>rs. group_rows rows n y rs))"

definition all_paired :: "json list \<Rightarrow> nat \<Rightarrow> string \<Rightarrow> string \<Rightarrow> latency_group list \<Rightarrow> bool" where
  "all_paired rows n b c gs \<longleftrightarrow> (\<exists>ps. gs = concat (map (\<lambda>(x, y). [x, y]) ps) \<and> (\<forall>p \<in> set ps. arm_pair rows n b c p))"

lemma all_paired_concat: "\<forall>g \<in> set gs. all_paired rows n b c g \<Longrightarrow> all_paired rows n b c (concat gs)"
proof (induction gs)
  case Nil then show ?case by (auto simp: all_paired_def intro: exI [of _ "[]"])
next
  case (Cons g gs)
  then obtain ps qs where "g = concat (map (\<lambda>(x, y). [x, y]) ps)" "concat gs = concat (map (\<lambda>(x, y). [x, y]) qs)"
    "\<forall>p \<in> set ps \<union> set qs. arm_pair rows n b c p" unfolding all_paired_def by fastforce
  then show ?case unfolding all_paired_def by (intro exI [of _ "ps @ qs"]) auto
qed

lemma payload_paired:
  assumes "payload_groups rows b c n origin payload = Inr gs" shows "all_paired rows n b c gs"
proof -
  obtain x y where x: "latency_group_of rows n origin payload (''B'', b) = Inr x" "latency_group_of rows n origin payload (''C'', c) = Inr y" "gs = [x, y]"
    using assms by (auto simp: payload_groups_def)
  then have "arm_pair rows n b c (x, y)" using group_of_rows [OF x(1)] group_of_rows [OF x(2)] by (auto simp: arm_pair_def)
  then show ?thesis unfolding all_paired_def using x(3) by (intro exI [of _ "[(x, y)]"]) simp
qed

lemma origin_paired: "origin_groups rows b c n origin = Inr gs \<Longrightarrow> all_paired rows n b c gs"
  unfolding origin_groups_def bindE_Inr using mapE_set_D payload_paired by (fastforce intro: all_paired_concat)

lemma summary_paired: "summarize_latency rows b c n = Inr gs \<Longrightarrow> all_paired rows n b c gs"
  unfolding summarize_latency_def bindE_Inr using mapE_set_D origin_paired by (fastforce intro: all_paired_concat)

text \<open>The summary of alternating runs never mixes the clients: its groups come in pairs of one origin and payload, first
  B then C, and behind each group there are exactly the required measured rounds, in order, of that arm, every one of
  them recorded with the hash of that arm's client, and the group's medians are theirs.\<close>

theorem arms_never_mixed:
  assumes "mapE (load_latency w [(''B'', b), (''C'', c)]) paths = Inr loads" "summarize_latency (concat (map snd loads)) b c n = Inr gs"
  shows "\<exists>ps. gs = concat (map (\<lambda>(x, y). [x, y]) ps) \<and> (\<forall>p \<in> set ps. arm_pair (concat (map snd loads)) n b c p)
    \<and> (\<forall>(x, y) \<in> set ps. \<forall>rs. (group_rows (concat (map snd loads)) n x rs \<longrightarrow> (\<forall>r \<in> set rs. get r ''client_sha256'' = Inr (JStr b)))
        \<and> (group_rows (concat (map snd loads)) n y rs \<longrightarrow> (\<forall>r \<in> set rs. get r ''client_sha256'' = Inr (JStr c))))"
proof -
  let ?rows = "concat (map snd loads)"
  obtain ps where ps: "gs = concat (map (\<lambda>(x, y). [x, y]) ps)" "\<forall>p \<in> set ps. arm_pair ?rows n b c p"
    using summary_paired [OF assms(2)] unfolding all_paired_def by blast
  have client: "get r ''client_sha256'' = Inr (JStr (if lg_arm g = ''B'' then b else c))"
    if "group_rows ?rows n g rs" "r \<in> set rs" "lg_arm g = ''B'' \<or> lg_arm g = ''C''" for g rs r
  proof -
    have r: "r \<in> set ?rows" "getitem r ''arm'' = Inr (JStr (lg_arm g))" using that(1,2) in_arm_arm unfolding group_rows_def by blast+
    show ?thesis using loaded_rows [OF assms(1) r(1)] getitem_get [OF r(2), of JNull] that(3) by auto
  qed
  have "(group_rows ?rows n x rs \<longrightarrow> (\<forall>r \<in> set rs. get r ''client_sha256'' = Inr (JStr b)))
      \<and> (group_rows ?rows n y rs \<longrightarrow> (\<forall>r \<in> set rs. get r ''client_sha256'' = Inr (JStr c)))" if "(x, y) \<in> set ps" for x y rs
  proof -
    have "lg_arm x = ''B''" "lg_arm y = ''C''" using ps(2) that by (auto simp: arm_pair_def)
    then show ?thesis using client [of x rs] client [of y rs] by auto
  qed
  then show ?thesis using ps by (intro exI [of _ ps]) blast
qed

section \<open>A concrete run\<close>

definition demo_row :: "string \<Rightarrow> json" where
  "demo_row arm = JObj [(''engine'', JStr ''fifo''), (''arm'', JStr arm), (''client_sha256'', JStr (''h'' @ arm)),
     (''resources'', JObj [(''memory.events'', JStr ''high 0'')]), (''origin'', JStr ''attempt''), (''payload'', jint 64),
     (''phase'', JStr ''measured''), (''round'', jint 1),
     (''result'', JObj [(''latency_p50_ns'', JStr ''100''), (''latency_p99_ns'', JStr ''200''), (''latency_p999_ns'', JStr ''300''),
        (''published'', JStr ''1000''), (''publish_msg_per_sec'', JStr ''1000000'')])]"

definition demo_latency_world :: world where
  "demo_latency_world = \<lparr>file_text = (\<lambda>p. Some (''B'' @ [nl] @ ''C'')), sha256_hex = id, json_loads = (\<lambda>t. Inr (demo_row t)),
     globbed = (\<lambda>_ _. []), resolved = id\<rparr>"

lemma demo_latency: "mapE (load_latency demo_latency_world [(''B'', ''hB''), (''C'', ''hC'')]) [''r''] = Inr [(''B'' @ [nl] @ ''C'', [demo_row ''B'', demo_row ''C''])]"
  by code_simp

lemma demo_groups: "case summarize_latency [demo_row ''B'', demo_row ''C''] ''hB'' ''hC'' 1 of Inl _ \<Rightarrow> False | Inr gs \<Rightarrow> length gs = 2"
  by code_simp

lemma arms_never_mixed_witness:
  "\<exists>gs ps. summarize_latency [demo_row ''B'', demo_row ''C''] ''hB'' ''hC'' 1 = Inr gs \<and> length gs = 2 \<and> gs = concat (map (\<lambda>(x, y). [x, y]) ps)"
proof -
  obtain gs where g: "summarize_latency [demo_row ''B'', demo_row ''C''] ''hB'' ''hC'' 1 = Inr gs" "length gs = 2"
    using demo_groups by (cases "summarize_latency [demo_row ''B'', demo_row ''C''] ''hB'' ''hC'' 1") auto
  show ?thesis using arms_never_mixed [OF demo_latency, of 1 gs] g by auto
qed

end
