(* ===== verification/FrameLayout.thy ===== *)
theory FrameLayout
  imports PyJson LatencyRunner
begin

text \<open>
  \<open>analyze_frame_layout.py\<close>: the constants of the ring are taken out of the C++ sources, with checks
  that the code the analysis relies on has not changed; \<open>analyze_layout\<close> derives stride, header
  offsets modulo a cache line and ring wraps; \<open>summarize_baseline\<close> applies it to five audited rounds
  of two payloads.  The C++ files are the texts of the world; the regular expressions are matched as written.
\<close>

unbundle bit_operations_syntax

section \<open>Pattern matching\<close>

text \<open>The pieces of the patterns: literal text, \<open>\s*\<close> and \<open>[^;]*?\<close>; the rests after every possible match.\<close>

datatype piece = Lit string | Spaces | NoSemi

fun star_rests :: "(char \<Rightarrow> bool) \<Rightarrow> string \<Rightarrow> string list" where
  "star_rests p [] = [[]]"
| "star_rests p (c # s) = (c # s) # (if p c then star_rests p s else [])"

fun piece_rests :: "piece \<Rightarrow> string \<Rightarrow> string list" where
  "piece_rests (Lit l) s = (if starts_with s l then [drop (length l) s] else [])"
| "piece_rests Spaces s = star_rests is_space s"
| "piece_rests NoSemi s = star_rests (\<lambda>c. c \<noteq> CHR '';'') s"

fun rests :: "piece list \<Rightarrow> string \<Rightarrow> string list" where
  "rests [] s = [s]"
| "rests (p # ps) s = concat (map (rests ps) (piece_rests p s))"

fun searches :: "piece list \<Rightarrow> string \<Rightarrow> bool" where
  "searches ps [] = (rests ps [] \<noteq> [])"
| "searches ps (c # s) = (rests ps (c # s) \<noteq> [] \<or> searches ps s)"

text \<open>\<open>name\s*=\s*(\d+)\s*;\<close> at the start of the text: the digits.\<close>

definition const_here :: "string \<Rightarrow> string \<Rightarrow> string option" where
  "const_here name s = (if \<not> starts_with s name then None else
     case dropWhile is_space (drop (length name) s) of [] \<Rightarrow> None | c # r \<Rightarrow>
       if c \<noteq> CHR ''='' then None else
       (let d = dropWhile is_space r; ds = takeWhile is_digit d; e = dropWhile is_space (dropWhile is_digit d) in
        if ds \<noteq> [] \<and> starts_with e '';'' then Some ds else None))"

text \<open>\<open>re.search\<close> with a word boundary before the name; \<open>inside\<close>: the character before is a word character.\<close>

fun find_const :: "string \<Rightarrow> bool \<Rightarrow> string \<Rightarrow> string option" where
  "find_const name inside [] = None"
| "find_const name inside (c # s) = (case (if inside then None else const_here name (c # s)) of
     Some ds \<Rightarrow> Some ds | None \<Rightarrow> find_const name (is_word c) s)"

section \<open>The constants of the ring\<close>

record ring_constants =
  kHeaderSize :: int
  kFrameAlign :: int
  source_sha256 :: "(string \<times> string) list"

definition value_fail :: "bool \<Rightarrow> string \<Rightarrow> unit py" where
  "value_fail bad msg = require (\<not> bad) (ValueError msg)"

lemma value_fail_Inr [simp]: "value_fail bad msg = Inr u \<longleftrightarrow> \<not> bad"
  by (simp add: value_fail_def)

definition constant_of :: "string \<Rightarrow> string \<Rightarrow> int py" where
  "constant_of name header = (case find_const name False header of
     None \<Rightarrow> Inl (ValueError (''Cannot extract '' @ name)) | Some ds \<Rightarrow> str_int ds)"

definition source_files :: "string list" where
  "source_files = [''src/core/frame/header.hpp'', ''src/core/frame/codec.hpp'', ''src/core/channel/shared_hybrid_mpsc.hpp'',
     ''src/core/ring/magic_ring.hpp'', ''src/core/ring/magic_ring.cpp'', ''src/core/platform/mapping.cpp'']"

definition frame_len_line :: string where
  "frame_len_line = ''return kHeaderSize + (has_expiry ? sizeof(std::uint64_t) : 0) + align_up(payload_len);''"

definition map_tail :: "piece list" where
  "map_tail = [NoSemi, Lit ''MAP_SHARED'', Spaces, Lit ''|'', Spaces, Lit ''MAP_FIXED'', NoSemi, Lit ''fd,'', Spaces, Lit ''0)'']"

definition double_mapped :: "string \<Rightarrow> bool" where
  "double_mapped t \<longleftrightarrow> contains ''const std::size_t mapped_len = size * 2;'' t
     \<and> searches ([Lit ''::mmap(base,'', Spaces, Lit ''size,''] @ map_tail) t
     \<and> searches ([Lit ''::mmap(base'', Spaces, Lit ''+'', Spaces, Lit ''size,'', Spaces, Lit ''size,''] @ map_tail) t"

definition source_constants :: "world \<Rightarrow> string \<Rightarrow> ring_constants py" where
  "source_constants w repo = (let at_root = slash repo in
     bindE (read_text w (at_root ''src/core/frame/header.hpp'')) (\<lambda>header.
     bindE (constant_of ''kHeaderSize'' header) (\<lambda>hs. bindE (constant_of ''kFrameAlign'' header) (\<lambda>al.
     bindE (read_text w (at_root ''src/core/frame/codec.hpp'')) (\<lambda>codec.
     bindE (value_fail (\<not> contains frame_len_line codec) ''frame_len changed; update the layout analysis before using it'') (\<lambda>_.
     bindE (read_text w (at_root ''src/core/channel/shared_hybrid_mpsc.hpp'')) (\<lambda>channel.
     bindE (value_fail (\<not> contains ''producer_pos_ = tail + need;'' channel) ''Claim position stepping changed; recheck wrap semantics'') (\<lambda>_.
     bindE (read_text w (at_root ''src/core/ring/magic_ring.cpp'')) (\<lambda>ring.
     bindE (value_fail (\<not> contains ''return {base_ + (pos & mask()), len};'' ring) ''Ring slicing changed; recheck contiguous boundary access'') (\<lambda>_.
     bindE (read_text w (at_root ''src/core/platform/mapping.cpp'')) (\<lambda>mapping.
     bindE (value_fail (\<not> double_mapped mapping) ''Double mapping changed; recheck padding assumptions'') (\<lambda>_.
     bindE (mapE (\<lambda>p. bindE (file_sha w (at_root p)) (\<lambda>h. Inr (p, h))) source_files) (\<lambda>shas.
     Inr \<lparr>kHeaderSize = hs, kFrameAlign = al, source_sha256 = shas\<rparr>)))))))))))))"

section \<open>The layout of a frame\<close>

record layout =
  ly_payload :: int
  ly_messages :: int
  ly_header :: int
  ly_alignment :: int
  ly_stride :: int
  ly_capacity :: int
  ly_frames :: int
  ly_aligned :: bool
  ly_offsets :: "int list"
  ly_straddle :: bool
  ly_wraps :: num
  ly_completed :: int
  ly_padding :: int
  ly_density :: num
  ly_complete :: int
  ly_mod64 :: int
  ly_total :: int
  ly_durations :: "num list"
  ly_intervals :: "num list"

definition arguments_message :: string where
  "arguments_message = ''Require nonnegative payload/messages and positive power-of-two alignment/capacity''"

definition int_args :: "json list \<Rightarrow> int list py" where
  "int_args vs = mapE (\<lambda>v. case int_arg v of None \<Rightarrow> Inl (ValueError arguments_message) | Some n \<Rightarrow> Inr n) vs"

text \<open>\<open>n > 0\<close> and \<open>not n & (n - 1)\<close>\<close>

definition power_of_two :: "int \<Rightarrow> bool" where
  "power_of_two n \<longleftrightarrow> 0 < n \<and> n AND (n - 1) = 0"

definition bad_duration :: "num \<Rightarrow> bool py" where
  "bad_duration s = bindE (finite_num s) (\<lambda>f. Inr (\<not> f \<or> nle s (I 0)))"

definition frame_stride :: "int \<Rightarrow> int \<Rightarrow> int \<Rightarrow> int" where
  "frame_stride header alignment payload = header + (payload + alignment - 1) div alignment * alignment"

definition header_offsets :: "int \<Rightarrow> int list" where
  "header_offsets stride = keys_of (\<lambda>i. int i * stride mod 64) [0..<nat (64 div gcd stride 64)]"

definition layout_of :: "int \<Rightarrow> int \<Rightarrow> num list \<Rightarrow> int \<Rightarrow> int \<Rightarrow> int \<Rightarrow> layout py" where
  "layout_of payload messages durations header alignment capacity =
     (let stride = frame_stride header alignment payload; offsets = header_offsets stride in
     bindE (value_fail (capacity < stride) ''Frame exceeds ring capacity'') (\<lambda>_.
     bindE (ndiv (I (messages * stride)) (I capacity)) (\<lambda>wraps. bindE (ndiv (I 64) (I stride)) (\<lambda>density.
     bindE (mapE (\<lambda>s. bindE (nmul s (F (Fin 1000000000))) (\<lambda>ns. ndiv ns (I messages))) durations) (\<lambda>intervals.
     Inr \<lparr>ly_payload = payload, ly_messages = messages, ly_header = header, ly_alignment = alignment, ly_stride = stride,
       ly_capacity = capacity, ly_frames = capacity div stride, ly_aligned = (stride mod 64 = 0), ly_offsets = offsets,
       ly_straddle = (\<exists>o' \<in> set offsets. 64 < o' + header), ly_wraps = wraps,
       ly_completed = messages * stride div capacity, ly_padding = 0, ly_density = density, ly_complete = 64 div stride,
       ly_mod64 = stride mod 64, ly_total = messages * stride, ly_durations = durations, ly_intervals = intervals\<rparr>)))))"

definition analyze_layout :: "json \<Rightarrow> json \<Rightarrow> num list \<Rightarrow> json \<Rightarrow> json \<Rightarrow> json \<Rightarrow> layout py" where
  "analyze_layout payload messages durations header alignment capacity =
     bindE (int_args [payload, messages, header, alignment, capacity]) (\<lambda>args.
     case args of [p, m, h, a, c] \<Rightarrow>
       bindE (value_fail (p < 0 \<or> m < 0 \<or> h \<le> 0 \<or> \<not> power_of_two a \<or> \<not> power_of_two c) arguments_message) (\<lambda>_.
       bindE (if durations = [] then Inr True else someE bad_duration durations) (\<lambda>bad.
       bindE (value_fail bad ''Require finite positive baseline durations'') (\<lambda>_.
       layout_of p m durations h a c)))
     | _ \<Rightarrow> Inl TypeError)"

section \<open>The baseline\<close>

record measured_round =
  mr_round :: json
  mr_duration :: pyfloat
  mr_stdout :: string
  mr_sha :: string

record baseline_report =
  br_baseline :: string
  br_commit :: json
  br_sha :: string
  br_results_sha :: string
  br_constants :: ring_constants
  br_layouts :: "(layout \<times> measured_round list) list"
  br_ratio :: num
  br_more_than_twice :: bool
  br_nonaligned :: bool

definition int_field :: "json \<Rightarrow> string \<times> int \<Rightarrow> bool py" where
  "int_field row kn = bindE (getitem row (fst kn)) (\<lambda>v. bindE (to_int v) (\<lambda>x. Inr (x = snd kn)))"

definition in_cell :: "int \<Rightarrow> json \<Rightarrow> bool py" where
  "in_cell payload r = everyE (\<lambda>(k, v). item_is k v r)
     [(''engine'', JStr ''salias''), (''kind'', JStr ''throughput''), (''payload'', jint payload), (''phase'', JStr ''measured'')]"

definition one_value :: "string \<Rightarrow> json list \<Rightarrow> bool py" where
  "one_value k cell = bindE (mapE (\<lambda>r. bindE (getitem r ''result'') (\<lambda>q. getitem q k)) cell) (\<lambda>vs.
     bindE (json_set vs) (\<lambda>s. Inr (length s = 1)))"

definition rounds_are :: "int list \<Rightarrow> json list \<Rightarrow> bool py" where
  "rounds_are ns cell = bindE (mapE (\<lambda>r. getitem r ''round'') cell) (\<lambda>vs. bindE (json_set vs) (\<lambda>s.
     Inr (same_set s (map jint ns))))"

definition consistent_cell :: "json list \<Rightarrow> bool py" where
  "consistent_cell cell = everyE id [Inr (length cell = 5), rounds_are [1, 2, 3, 4, 5] cell,
     one_value ''published'' cell, one_value ''capacity'' cell]"

definition result_fields :: "(string \<times> string) list \<Rightarrow> json" where
  "result_fields d = JObj (map (\<lambda>(k, v). (k, JStr v)) d)"

definition retained_result :: "string \<Rightarrow> json \<Rightarrow> bool py" where
  "retained_result stdout_text record = (case filter (\<lambda>l. starts_with l ''RESULT '') (splitlines stdout_text) of
     [line] \<Rightarrow> bindE (fields_of line) (\<lambda>d. bindE (getitem record ''result'') (\<lambda>r. Inr (jeq (result_fields d) r)))
   | _ \<Rightarrow> Inr False)"

definition delivery_ok :: "int \<Rightarrow> json \<Rightarrow> bool py" where
  "delivery_ok payload result = bindE (bindE (getitem result ''published'') to_int) (\<lambda>published.
     everyE id [Inr (0 < published), int_field result (''delivered'', 2 * published), int_field result (''producers'', 1),
       int_field result (''consumers'', 2), int_field result (''payload'', payload), item_is ''scenario'' (JStr ''fifo'') result,
       int_field result (''batch_size'', 1), int_field result (''latency_samples'', 0),
       int_field result (''latency_sample_rate'', 0), int_field result (''rate_per_producer'', 0)])"

definition measured_of :: "world \<Rightarrow> string \<Rightarrow> int \<Rightarrow> json \<Rightarrow> measured_round py" where
  "measured_of w dir payload record =
     bindE (getitem record ''stdout'') (\<lambda>v. bindE (as_str v) (\<lambda>p. let stdout = slash dir (base_name p) in
     bindE (file_sha w stdout) (\<lambda>digest. bindE (getitem record ''stdout_sha256'') (\<lambda>h.
     bindE (value_fail (\<not> jeq h (JStr digest)) ''stdout checksum mismatch'') (\<lambda>_.
     bindE (read_text w stdout) (\<lambda>t. bindE (retained_result t record) (\<lambda>same.
     bindE (value_fail (\<not> same) ''RESULT metadata mismatch'') (\<lambda>_.
     bindE (getitem record ''result'') (\<lambda>result. bindE (delivery_ok payload result) (\<lambda>ok.
     bindE (value_fail (\<not> ok) ''Delivery/topology/throughput mismatch'') (\<lambda>_.
     bindE (getitem result ''seconds'') (\<lambda>sv. bindE (jfloat sv) (\<lambda>duration.
     bindE (value_fail (\<not> is_finite duration \<or> fle duration (Fin 0)) ''Invalid measured duration'') (\<lambda>_.
     bindE (getitem record ''round'') (\<lambda>r.
     Inr \<lparr>mr_round = r, mr_duration = duration, mr_stdout = base_name p, mr_sha = digest\<rparr>)))))))))))))))"

definition first_int :: "string \<Rightarrow> json list \<Rightarrow> int py" where
  "first_int k cell = bindE (nthE cell 0) (result_int k)"

definition cell_layout :: "world \<Rightarrow> string \<Rightarrow> ring_constants \<Rightarrow> json list \<Rightarrow> int \<Rightarrow> (layout \<times> measured_round list) py" where
  "cell_layout w dir constants rows payload =
     bindE (filterE (in_cell payload) rows) (\<lambda>cell. bindE (consistent_cell cell) (\<lambda>ok.
     bindE (value_fail (\<not> ok) ''Require five consistent measured Salias rounds'') (\<lambda>_.
     bindE (sort_rows (\<lambda>row. getitem row ''round'') cell) (\<lambda>records.
     bindE (mapE (measured_of w dir payload) records) (\<lambda>measured.
     bindE (first_int ''published'' cell) (\<lambda>messages.
     let durations = map (F \<circ> mr_duration) measured in
     bindE (num_min durations) (\<lambda>lo. bindE (num_max durations) (\<lambda>hi. bindE (first_int ''capacity'' cell) (\<lambda>capacity.
     bindE (analyze_layout (jint payload) (jint messages) [lo, hi] (jint (kHeaderSize constants)) (jint (kFrameAlign constants))
       (jint capacity)) (\<lambda>layout. Inr (layout, measured)))))))))))"

definition compare_layouts :: "layout \<Rightarrow> layout \<Rightarrow> (num \<times> bool) py" where
  "compare_layouts small large = bindE (ndiv (ly_wraps small) (ly_wraps large)) (\<lambda>ratio.
     bindE (nmul (I 2) (ly_wraps large)) (\<lambda>twice. Inr (ratio, nlt twice (ly_wraps small))))"

definition summarize_baseline :: "world \<Rightarrow> string \<Rightarrow> string \<Rightarrow> baseline_report py" where
  "summarize_baseline w repo baseline =
     bindE (read_text w baseline) (\<lambda>bt. bindE (json_loads w bt) (\<lambda>summary.
     let results = slash (path_parent baseline) ''results.jsonl'' in
     bindE (read_text w results) (\<lambda>rt. bindE (mapE (json_loads w) (splitlines rt)) (\<lambda>rows.
     bindE (source_constants w repo) (\<lambda>constants.
     bindE (cell_layout w (path_parent baseline) constants rows 64) (\<lambda>small.
     bindE (cell_layout w (path_parent baseline) constants rows 256) (\<lambda>large.
     bindE (value_fail (ly_messages (fst small) \<noteq> ly_messages (fst large)) ''Require equal message counts for the payload wrap comparison'') (\<lambda>_.
     bindE (value_fail (ly_capacity (fst small) \<noteq> ly_capacity (fst large)) ''Require equal ring capacities for the payload wrap comparison'') (\<lambda>_.
     bindE (getitem summary ''environment'') (\<lambda>env. bindE (getitem env ''commit'') (\<lambda>commit.
     bindE (compare_layouts (fst small) (fst large)) (\<lambda>cmp.
     Inr \<lparr>br_baseline = resolved w baseline, br_commit = commit, br_sha = sha256_hex w bt, br_results_sha = sha256_hex w rt,
       br_constants = constants, br_layouts = [small, large], br_ratio = fst cmp, br_more_than_twice = snd cmp,
       br_nonaligned = (\<not> ly_aligned (fst small) \<and> \<not> ly_aligned (fst large))\<rparr>))))))))))))"

section \<open>What a layout says\<close>

text \<open>A positive integer with \<open>n & (n - 1) = 0\<close> is a power of two, and every power of two passes.\<close>

lemma power_of_two_double: "power_of_two (2 * n) \<longleftrightarrow> power_of_two n"
proof -
  have "(2 * n - 1) div 2 = n - 1" by presburger
  then have "2 * n AND (2 * n - 1) = 2 * (n AND (n - 1))"
    by (subst and_int_rec) simp
  then show ?thesis by (auto simp: power_of_two_def)
qed

lemma power_of_two_odd: "power_of_two (2 * n + 1) \<longleftrightarrow> n = 0"
  by (auto simp: power_of_two_def and_int_rec [of "2 * n + 1" "2 * n"])

lemma power_of_two_iff: "power_of_two n \<longleftrightarrow> (\<exists>k. n = 2 ^ k)"
proof
  show "power_of_two n \<Longrightarrow> \<exists>k. n = 2 ^ k"
  proof (induction "nat n" arbitrary: n rule: less_induct)
    case less
    have pos: "0 < n" using less.prems by (simp add: power_of_two_def)
    show ?case
    proof (cases "even n")
      case True
      then obtain m where m: "n = 2 * m" by auto
      then obtain k where "m = 2 ^ k" using less.hyps [of m] less.prems pos by (auto simp: power_of_two_double)
      then show ?thesis using m by (intro exI [of _ "Suc k"]) simp
    next
      case False
      then obtain m where "n = 2 * m + 1" by (auto elim: oddE)
      then show ?thesis using less.prems by (intro exI [of _ 0]) (simp add: power_of_two_odd)
    qed
  qed
next
  assume "\<exists>k. n = 2 ^ k"
  then obtain k where "n = 2 ^ k" ..
  then show "power_of_two n"
  proof (induction k arbitrary: n)
    case (Suc k) then show ?case by (simp add: power_of_two_double)
  qed (simp add: power_of_two_def)
qed

text \<open>The offsets computed from one period are the offsets of every frame.\<close>

lemma offsets_period:
  fixes stride :: int
  shows "(int n * stride) mod 64 = (int (n mod nat (64 div gcd stride 64)) * stride) mod 64"
proof -
  define g where "g = gcd stride 64"
  have g: "0 < g" "g dvd stride" "g dvd 64" by (auto simp: g_def)
  define p where "p = nat (64 div g)"
  have p: "int p = 64 div g" using g(1) by (simp add: p_def pos_imp_zdiv_nonneg_iff)
  obtain k where k: "stride = g * k" using g(2) by (elim dvdE)
  have "64 div g * g = 64" using g(3) by simp
  then have per: "int p * stride = 64 * k" unfolding p k by (metis mult.assoc)
  have "n = n mod p + p * (n div p)" by simp
  then have "int n = int (n mod p) + int p * int (n div p)" by (metis of_nat_add of_nat_mult)
  then have "int n * stride = int (n mod p) * stride + int p * stride * int (n div p)" by (metis distrib_right mult.assoc mult.commute)
  then have "int n * stride = int (n mod p) * stride + 64 * (k * int (n div p))" by (simp add: per)
  then show ?thesis unfolding p_def g_def by (metis mod_mult_self2)
qed

lemma header_offsets_set: "set (header_offsets stride) = range (\<lambda>n. int n * stride mod 64)"
proof -
  have "0 < nat (64 div gcd stride 64)" by (simp add: pos_imp_zdiv_pos_iff zdvd_imp_le)
  then have "int n * stride mod 64 \<in> set (header_offsets stride)" for n
    unfolding header_offsets_def set_keys_of using offsets_period [of n stride] by (intro image_eqI [of _ _ "n mod nat (64 div gcd stride 64)"]) auto
  then show ?thesis by (auto simp: header_offsets_def)
qed

lemma straddles: "x div 64 \<noteq> (x + h - 1) div 64 \<longleftrightarrow> 64 < x mod 64 + h" if "0 < h" for x h :: int
proof -
  have "x + h - 1 = (x mod 64 + h - 1) + 64 * (x div 64)" by simp
  then have "(x + h - 1) div 64 = x div 64 + (x mod 64 + h - 1) div 64" by (metis div_mult_self2 zero_neq_numeral add.commute)
  moreover have "(x mod 64 + h - 1) div 64 \<noteq> 0 \<longleftrightarrow> 64 < x mod 64 + h" using that pos_mod_sign [of 64 x] by (auto simp: zdiv_eq_0_iff)
  ultimately show ?thesis by simp
qed

lemma int_args_Inr: "int_args vs = Inr ns \<longleftrightarrow> vs = map jint ns"
proof
  show "int_args vs = Inr ns \<Longrightarrow> vs = map jint ns"
    by (induction vs arbitrary: ns) (auto simp: int_args_def split: option.splits)
  show "vs = map jint ns \<Longrightarrow> int_args vs = Inr ns"
    unfolding int_args_def by (simp add: mapE_Inr list_all2_conv_all_nth)
qed

lemma analyze_layout_Inr:
  assumes "analyze_layout payload messages durations header alignment capacity = Inr ly"
  obtains p m h a c where "payload = jint p" "messages = jint m" "header = jint h" "alignment = jint a" "capacity = jint c"
    "0 \<le> p" "0 \<le> m" "0 < h" "power_of_two a" "power_of_two c" "durations \<noteq> []" "\<forall>s \<in> set durations. bad_duration s = Inr False"
    "layout_of p m durations h a c = Inr ly"
proof -
  obtain args where a: "int_args [payload, messages, header, alignment, capacity] = Inr args"
    using assms by (auto simp: analyze_layout_def)
  then have "[payload, messages, header, alignment, capacity] = map jint args" by (simp add: int_args_Inr)
  then obtain p m h al c where args: "args = [p, m, h, al, c]" and js: "payload = jint p" "messages = jint m" "header = jint h"
    "alignment = jint al" "capacity = jint c" by (auto simp: map_eq_Cons_conv Cons_eq_map_conv)
  show ?thesis using that [OF js] assms a args by (auto simp: analyze_layout_def someE_False split: if_splits)
qed

lemma layout_of_Inr:
  assumes "layout_of p m durations h a c = Inr ly"
  shows "ly_payload ly = p" "ly_messages ly = m" "ly_header ly = h" "ly_alignment ly = a" "ly_capacity ly = c"
    "ly_stride ly = frame_stride h a p" "ly_stride ly \<le> c" "ly_frames ly = c div ly_stride ly"
    "ly_offsets ly = header_offsets (ly_stride ly)" "ly_straddle ly = (\<exists>o' \<in> set (ly_offsets ly). 64 < o' + h)"
    "ly_completed ly = m * ly_stride ly div c" "ly_durations ly = durations" "ndiv (I (m * ly_stride ly)) (I c) = Inr (ly_wraps ly)"
    "mapE (\<lambda>s. bindE (nmul s (F (Fin 1000000000))) (\<lambda>ns. ndiv ns (I m))) durations = Inr (ly_intervals ly)"
  using assms by (auto simp: layout_of_def Let_def)

lemma interval_messages:
  assumes "mapE (\<lambda>s. bindE (nmul s x) (\<lambda>ns. ndiv ns (I m))) ds = Inr ys" "ds \<noteq> []" shows "m \<noteq> 0"
  using assms by (cases ds) (auto simp: ndiv_def)

lemma frame_stride_bounds:
  assumes "0 < a" "0 \<le> p"
  shows "h + p \<le> frame_stride h a p" "frame_stride h a p < h + p + a" "a dvd frame_stride h a p - h"
proof -
  have "(p + a - 1) div a * a = (p + a - 1) - (p + a - 1) mod a" by (simp add: minus_mod_eq_div_mult)
  moreover have "0 \<le> (p + a - 1) mod a" "(p + a - 1) mod a < a" using assms by simp_all
  ultimately show "h + p \<le> frame_stride h a p" "frame_stride h a p < h + p + a" by (auto simp: frame_stride_def)
  show "a dvd frame_stride h a p - h" by (simp add: frame_stride_def)
qed

section \<open>Properties of a layout\<close>

text \<open>C10. A computed layout is well typed and within its bounds: every argument was an integer and no boolean, at least one message
  was sent, alignment and capacity are powers of two, the stride is the header and the payload rounded up to the alignment,
  and the ring holds at least one frame and as many whole frames as fit.\<close>

theorem layout_well_formed:
  assumes "analyze_layout payload messages durations header alignment capacity = Inr ly"
  shows "payload = jint (ly_payload ly) \<and> messages = jint (ly_messages ly) \<and> header = jint (ly_header ly)
      \<and> alignment = jint (ly_alignment ly) \<and> capacity = jint (ly_capacity ly)
    \<and> 0 \<le> ly_payload ly \<and> 0 < ly_messages ly \<and> 0 < ly_header ly \<and> (\<exists>k. ly_alignment ly = 2 ^ k) \<and> (\<exists>k. ly_capacity ly = 2 ^ k)
    \<and> ly_header ly + ly_payload ly \<le> ly_stride ly \<and> ly_stride ly < ly_header ly + ly_payload ly + ly_alignment ly
    \<and> ly_alignment ly dvd ly_stride ly - ly_header ly
    \<and> 1 \<le> ly_frames ly \<and> ly_frames ly * ly_stride ly \<le> ly_capacity ly \<and> ly_capacity ly < (ly_frames ly + 1) * ly_stride ly"
  using assms
proof (cases rule: analyze_layout_Inr)
  case (1 p m h a c)
  note l = layout_of_Inr [OF 1(13)]
  have a: "0 < a" using 1(9) by (simp add: power_of_two_def)
  note s = frame_stride_bounds [OF a 1(6), of h]
  have pos: "0 < ly_stride ly" using s(1) 1(6,8) l(6) by linarith
  have "m \<noteq> 0" using interval_messages [OF l(14)] 1(11) by blast
  moreover have "1 \<le> c div ly_stride ly" using l(7) pos_imp_zdiv_pos_iff [OF pos, of c] by simp
  moreover have "c div ly_stride ly * ly_stride ly = c - c mod ly_stride ly" by (simp add: minus_mod_eq_div_mult)
  then have "c div ly_stride ly * ly_stride ly \<le> c" "c < (c div ly_stride ly + 1) * ly_stride ly"
    using pos_mod_bound [OF pos, of c] pos_mod_sign [OF pos, of c] unfolding distrib_right by linarith+
  ultimately show ?thesis using 1 l s by (auto simp: power_of_two_iff)
qed

text \<open>C26. The reported header offsets are exactly the offsets, modulo a cache line, at which the header of some frame of the
  stream starts, in increasing order, and straddling is reported exactly when the header of some frame lies in two
  cache lines; one period stands for all frames.\<close>

theorem offsets_are_all_frames:
  assumes "analyze_layout payload messages durations header alignment capacity = Inr ly"
  shows "set (ly_offsets ly) = range (\<lambda>n. int n * ly_stride ly mod 64) \<and> sorted_wrt (<) (ly_offsets ly)
    \<and> (ly_straddle ly \<longleftrightarrow> (\<exists>n. int n * ly_stride ly div 64 \<noteq> (int n * ly_stride ly + ly_header ly - 1) div 64))"
  using assms
proof (cases rule: analyze_layout_Inr)
  case (1 p m h a c)
  note l = layout_of_Inr [OF 1(13)]
  show ?thesis using 1(8) unfolding l(9,10,3) header_offsets_set
    by (auto simp: header_offsets_def keys_of_increasing straddles)
qed

section \<open>Properties of the baseline\<close>

lemma cell_layout_Inr:
  assumes "cell_layout w dir constants rows payload = Inr (ly, ms)"
  shows "\<exists>cell messages capacity durations records ok. filterE (in_cell payload) rows = Inr cell \<and> consistent_cell cell = Inr ok \<and> ok
    \<and> sort_rows (\<lambda>row. getitem row ''round'') cell = Inr records \<and> mapE (measured_of w dir payload) records = Inr ms
    \<and> analyze_layout (jint payload) (jint messages) durations (jint (kHeaderSize constants)) (jint (kFrameAlign constants)) (jint capacity) = Inr ly"
  using assms unfolding cell_layout_def Let_def bindE_Inr value_fail_Inr not_not sum.inject prod.inject by blast

lemma wraps_form:
  assumes "ndiv (I a) (I c) = Inr x" "0 < c"
  shows "\<exists>r. x = F (Fin r) \<and> rnd (of_int a / of_int c) = Fin r"
  using assms by (auto simp: ndiv_def split: pyfloat.splits)

lemma never_twice:
  assumes "ndiv (I a) (I c) = Inr x" "ndiv (I b) (I c) = Inr y" "0 < c" "0 \<le> a" "a \<le> b" "nmul (I 2) y = Inr z"
  shows "\<not> nlt z x"
proof -
  obtain r where r: "x = F (Fin r)" "rnd (of_int a / of_int c) = Fin r" using wraps_form [OF assms(1,3)] by blast
  obtain t where t: "y = F (Fin t)" "rnd (of_int b / of_int c) = Fin t" using wraps_form [OF assms(2,3)] by blast
  have "(of_int a :: rat) / of_int c \<le> of_int b / of_int c" using assms(3,5) by (simp add: divide_right_mono)
  then have rt: "r \<le> t" using rnd_mono [of "of_int a / of_int c" "of_int b / of_int c"] r t by simp
  have "(0::rat) \<le> of_int b / of_int c" using assms(3-5) by simp
  then have "0 \<le> t" using rnd_mono [of 0 "of_int b / of_int c"] t by simp
  then have "fle (rnd r) (rnd (2 * t))" using rt by (intro rnd_mono) simp
  moreover have "double_ok (Fin r)" using double_ok_rnd [of "of_int a / of_int c"] r(2) by simp
  then have "rnd r = Fin r" by (simp add: rnd_representable)
  moreover have "z = F (rnd (2 * t))" using assms(6) t(1) by (simp add: nmul_def lift_num_def)
  ultimately show ?thesis using r(1) flt_not_fle by (auto simp: nlt_def)
qed

text \<open>What a measured round of the report stands for: one retained log with the recorded digest, one result line equal to the
  recorded fields, every message delivered to both subscribers, and the duration of that result.\<close>

definition audited_round :: "world \<Rightarrow> string \<Rightarrow> int \<Rightarrow> measured_round \<Rightarrow> bool" where
  "audited_round w dir payload m \<longleftrightarrow> (\<exists>t line d result p. file_text w (slash dir (mr_stdout m)) = Some t \<and> mr_sha m = sha256_hex w t
     \<and> filter (\<lambda>l. starts_with l ''RESULT '') (splitlines t) = [line] \<and> fields_of line = Inr d \<and> jeq (result_fields d) result
     \<and> bindE (getitem result ''published'') to_int = Inr p \<and> 0 < p
     \<and> (\<forall>f \<in> {(''delivered'', 2 * p), (''producers'', 1), (''consumers'', 2), (''payload'', payload), (''latency_samples'', 0)}.
          int_field result f = Inr True)
     \<and> bindE (getitem result ''seconds'') jfloat = Inr (mr_duration m) \<and> is_finite (mr_duration m) \<and> flt (Fin 0) (mr_duration m))"

lemma delivery_ok_True:
  assumes "delivery_ok payload result = Inr True"
  shows "\<exists>p. bindE (getitem result ''published'') to_int = Inr p \<and> 0 < p
     \<and> (\<forall>f \<in> {(''delivered'', 2 * p), (''producers'', 1), (''consumers'', 2), (''payload'', payload), (''latency_samples'', 0)}.
          int_field result f = Inr True)"
proof -
  obtain p where p: "bindE (getitem result ''published'') to_int = Inr p"
    and e: "everyE id [Inr (0 < p), int_field result (''delivered'', 2 * p), int_field result (''producers'', 1),
       int_field result (''consumers'', 2), int_field result (''payload'', payload), item_is ''scenario'' (JStr ''fifo'') result,
       int_field result (''batch_size'', 1), int_field result (''latency_samples'', 0),
       int_field result (''latency_sample_rate'', 0), int_field result (''rate_per_producer'', 0)] = Inr True"
    using assms unfolding delivery_ok_def bindE_Inr by blast
  from e have "0 < p" "int_field result (''delivered'', 2 * p) = Inr True" "int_field result (''producers'', 1) = Inr True"
    "int_field result (''consumers'', 2) = Inr True" "int_field result (''payload'', payload) = Inr True"
    "int_field result (''latency_samples'', 0) = Inr True"
    unfolding everyE_True by (simp_all add: id_def)
  then show ?thesis using p by (intro exI [of _ p]) simp
qed

lemma measured_of_Inr:
  assumes "measured_of w dir payload record = Inr m"
  shows "audited_round w dir payload m \<and> getitem record ''round'' = Inr (mr_round m)"
proof -
  obtain p digest t same result ok sv duration r where m: "file_sha w (slash dir (base_name p)) = Inr digest"
    "read_text w (slash dir (base_name p)) = Inr t" "retained_result t record = Inr same" "same"
    "getitem record ''result'' = Inr result" "delivery_ok payload result = Inr ok" "ok"
    "getitem result ''seconds'' = Inr sv" "jfloat sv = Inr duration" "is_finite duration" "\<not> fle duration (Fin 0)"
    "getitem record ''round'' = Inr r" "\<lparr>mr_round = r, mr_duration = duration, mr_stdout = base_name p, mr_sha = digest\<rparr> = m"
    using assms unfolding measured_of_def Let_def bindE_Inr value_fail_Inr not_not de_Morgan_disj sum.inject by blast
  obtain line d where l: "filter (\<lambda>l. starts_with l ''RESULT '') (splitlines t) = [line]" "fields_of line = Inr d" "jeq (result_fields d) result"
    using m(3-5) unfolding retained_result_def by (auto split: list.splits)
  have pos: "flt (Fin 0) duration" using m(10,11) flt_total [of "Fin 0" duration] by (cases duration) auto
  obtain q where q: "bindE (getitem result ''published'') to_int = Inr q" "0 < q"
    "\<forall>f \<in> {(''delivered'', 2 * q), (''producers'', 1), (''consumers'', 2), (''payload'', payload), (''latency_samples'', 0)}.
       int_field result f = Inr True"
    using delivery_ok_True [of payload result] m(6,7) by auto
  have "bindE (getitem result ''seconds'') jfloat = Inr duration" using m(8,9) by simp
  moreover have "file_text w (slash dir (base_name p)) = Some t" "digest = sha256_hex w t"
    using m(1,2) by (auto simp: file_sha_Inr read_text_Inr)
  ultimately have "audited_round w dir payload \<lparr>mr_round = r, mr_duration = duration, mr_stdout = base_name p, mr_sha = digest\<rparr>"
    unfolding audited_round_def measured_round.simps using l q pos m(10) by blast
  then show ?thesis using m(12,13) by auto
qed

interpretation measured_rounds: loader "measured_of w dir payload" "audited_round w dir payload" for w dir payload
  by unfold_locales (rule measured_of_Inr [THEN conjunct1])

lemma rounds_are_True:
  assumes "rounds_are ns cell = Inr True" "n \<in> set ns"
  shows "\<exists>r \<in> set cell. \<exists>v. getitem r ''round'' = Inr v \<and> jeq v (jint n)"
proof -
  obtain vs s where v: "mapE (\<lambda>r. getitem r ''round'') cell = Inr vs" "json_set vs = Inr s" "same_set s (map jint ns)"
    using assms(1) unfolding rounds_are_def bindE_Inr sum.inject by blast
  obtain x where x: "x \<in> set s" "jeq x (jint n)" using v(3) assms(2) by (auto simp: same_set_def mem_json_def)
  have "set s \<subseteq> set vs" using v(2) set_fold_add [of vs "[]"] by (auto simp: json_set_def)
  then show ?thesis using mapE_set_D [OF v(1), of x] x by auto
qed

lemma cell_rounds:
  assumes "cell_layout w dir constants rows payload = Inr (ly, ms)"
  shows "length ms = 5 \<and> (\<forall>m \<in> set ms. audited_round w dir payload m) \<and> (\<forall>n \<in> {1..5}. \<exists>m \<in> set ms. jeq (mr_round m) (jint n))
    \<and> ly_payload ly = payload \<and> ly_header ly = kHeaderSize constants \<and> ly_alignment ly = kFrameAlign constants"
proof -
  obtain cell messages capacity durations records where c: "consistent_cell cell = Inr True"
    "sort_rows (\<lambda>row. getitem row ''round'') cell = Inr records" "mapE (measured_of w dir payload) records = Inr ms"
    "analyze_layout (jint payload) (jint messages) durations (jint (kHeaderSize constants)) (jint (kFrameAlign constants)) (jint capacity) = Inr ly"
    using cell_layout_Inr [OF assms] by auto
  have m: "mset records = mset cell" by (rule mset_sort_rows [OF c(2)])
  have cc: "length cell = 5" "rounds_are [1, 2, 3, 4, 5] cell = Inr True" using c(1) unfolding consistent_cell_def everyE_True by auto
  have "length ms = 5" using cc(1) m mapE_length [OF c(3)] by (metis size_mset)
  moreover have "\<exists>m \<in> set ms. jeq (mr_round m) (jint n)" if "n \<in> {1..5}" for n
  proof -
    have "n \<in> set [1, 2, 3, 4, 5]" using that by auto
    then obtain r v where r: "r \<in> set records" "getitem r ''round'' = Inr v" "jeq v (jint n)"
      using rounds_are_True [OF cc(2)] m by (metis set_mset_mset)
    obtain x where "x \<in> set ms" "measured_of w dir payload r = Inr x" using mapE_set [OF c(3) r(1)] by blast
    then show ?thesis using measured_of_Inr [of w dir payload r x] r by auto
  qed
  moreover have "ly_payload ly = payload \<and> ly_header ly = kHeaderSize constants \<and> ly_alignment ly = kFrameAlign constants"
    using c(4) by (elim analyze_layout_Inr) (auto dest: layout_of_Inr)
  ultimately show ?thesis using measured_rounds.all_sound [OF c(3)] by blast
qed

lemma frame_stride_mono: "0 < a \<Longrightarrow> p \<le> q \<Longrightarrow> frame_stride h a p \<le> frame_stride h a q"
  by (simp add: frame_stride_def zdiv_mono1 mult_right_mono)

text \<open>C34. An accepted baseline rests on ten audited rounds, rounds one to five of each payload, with the same message count and
  capacity; and because the smaller payload has the smaller stride, the report can never say that the 64-byte
  stream wraps more than twice as often as the 256-byte stream, whatever the data and the rounding.\<close>

theorem baseline_audited:
  assumes "summarize_baseline w repo baseline = Inr b"
  shows "\<exists>small large. br_layouts b = [small, large] \<and> \<not> br_more_than_twice b
    \<and> ly_messages (fst small) = ly_messages (fst large) \<and> ly_capacity (fst small) = ly_capacity (fst large)
    \<and> ly_stride (fst small) \<le> ly_stride (fst large)
    \<and> (\<forall>(payload, cell) \<in> {(64, small), (256, large)}. ly_payload (fst cell) = payload \<and> length (snd cell) = 5
        \<and> (\<forall>m \<in> set (snd cell). audited_round w (path_parent baseline) payload m)
        \<and> (\<forall>n \<in> {1..5}. \<exists>m \<in> set (snd cell). jeq (mr_round m) (jint n)))"
proof -
  let ?dir = "path_parent baseline"
  obtain cst rows small large cmp where c: "cell_layout w ?dir cst rows 64 = Inr small" "cell_layout w ?dir cst rows 256 = Inr large"
    "ly_messages (fst small) = ly_messages (fst large)" "ly_capacity (fst small) = ly_capacity (fst large)"
    "compare_layouts (fst small) (fst large) = Inr cmp" "br_layouts b = [small, large]" "br_more_than_twice b = snd cmp"
    using assms unfolding summarize_baseline_def Let_def bindE_Inr value_fail_Inr not_not sum.inject
    by (elim exE conjE) (hypsubst, unfold baseline_report.simps, blast)
  obtain ls ms ll ml where sl: "small = (ls, ms)" "large = (ll, ml)" by (cases small, cases large)
  obtain m1 k1 d1 where a1: "analyze_layout (jint 64) (jint m1) d1 (jint (kHeaderSize cst)) (jint (kFrameAlign cst)) (jint k1) = Inr ls"
    using cell_layout_Inr [of w ?dir cst rows 64 ls ms] c(1) sl(1) by blast
  obtain m2 k2 d2 where a2: "analyze_layout (jint 256) (jint m2) d2 (jint (kHeaderSize cst)) (jint (kFrameAlign cst)) (jint k2) = Inr ll"
    using cell_layout_Inr [of w ?dir cst rows 256 ll ml] c(2) sl(2) by blast
  let ?h = "kHeaderSize cst" and ?a = "kFrameAlign cst"
  have s1: "ly_stride ls = frame_stride ?h ?a 64" "ndiv (I (ly_messages ls * ly_stride ls)) (I (ly_capacity ls)) = Inr (ly_wraps ls)"
    "0 < ?a" "0 < ?h" "0 < ly_capacity ls" "0 \<le> ly_messages ls"
    using a1 by (elim analyze_layout_Inr, auto dest: layout_of_Inr simp: power_of_two_def)+
  have s2: "ly_stride ll = frame_stride ?h ?a 256" "ndiv (I (ly_messages ll * ly_stride ll)) (I (ly_capacity ll)) = Inr (ly_wraps ll)"
    using a2 by (elim analyze_layout_Inr, auto dest: layout_of_Inr)+
  have le: "ly_stride ls \<le> ly_stride ll" unfolding s1(1) s2(1) using s1(3) by (rule frame_stride_mono) simp
  have pos: "0 \<le> ly_stride ls" using frame_stride_bounds(1) [OF s1(3), of 64 ?h] s1(1,4) by simp
  obtain z where z: "nmul (I 2) (ly_wraps ll) = Inr z" "snd cmp = nlt z (ly_wraps ls)"
    using c(5) sl by (auto simp: compare_layouts_def)
  have "\<not> nlt z (ly_wraps ls)"
  proof (rule never_twice [OF s1(2) _ s1(5) _ _ z(1)])
    show "ndiv (I (ly_messages ll * ly_stride ll)) (I (ly_capacity ls)) = Inr (ly_wraps ll)" using s2(2) c(4) sl by simp
    show "0 \<le> ly_messages ls * ly_stride ls" using s1(6) pos by simp
    show "ly_messages ls * ly_stride ls \<le> ly_messages ll * ly_stride ll" using le s1(6) c(3) sl by (simp add: mult_left_mono)
  qed
  then show ?thesis using c le z(2) cell_rounds [of w ?dir cst rows 64 ls ms] cell_rounds [of w ?dir cst rows 256 ll ml]
    unfolding sl by (intro exI [of _ "(ls, ms)"] exI [of _ "(ll, ml)"]) simp
qed

section \<open>A concrete baseline\<close>

lemma layout_well_formed_witness: "\<exists>ly. analyze_layout (jint 64) (jint 1000) [I 1] (jint 8) (jint 8) (jint 1024) = Inr ly
    \<and> ly_stride ly = 72 \<and> 1 \<le> ly_frames ly \<and> 0 < ly_messages ly"
proof -
  have "case analyze_layout (jint 64) (jint 1000) [I 1] (jint 8) (jint 8) (jint 1024) of Inl _ \<Rightarrow> False | Inr ly \<Rightarrow> ly_stride ly = 72"
    by code_simp
  then obtain ly where ly: "analyze_layout (jint 64) (jint 1000) [I 1] (jint 8) (jint 8) (jint 1024) = Inr ly" "ly_stride ly = 72"
    by (auto split: sum.splits)
  show ?thesis using layout_well_formed [OF ly(1)] ly by blast
qed

lemma offsets_are_all_frames_witness:
  "\<exists>ly. analyze_layout (jint 64) (jint 1000) [I 1] (jint 16) (jint 4) (jint 1024) = Inr ly \<and> ly_offsets ly = [0, 16, 32, 48]
    \<and> \<not> (\<exists>n. int n * 80 div 64 \<noteq> (int n * 80 + 15) div 64)"
proof -
  have "case analyze_layout (jint 64) (jint 1000) [I 1] (jint 16) (jint 4) (jint 1024) of Inl _ \<Rightarrow> False
      | Inr ly \<Rightarrow> ly_offsets ly = [0, 16, 32, 48] \<and> \<not> ly_straddle ly \<and> ly_stride ly = 80 \<and> ly_header ly = 16"
    by code_simp
  then obtain ly where ly: "analyze_layout (jint 64) (jint 1000) [I 1] (jint 16) (jint 4) (jint 1024) = Inr ly" "ly_offsets ly = [0, 16, 32, 48]"
    "\<not> ly_straddle ly" "ly_stride ly = 80" "ly_header ly = 16"
    by (auto split: sum.splits)
  show ?thesis using offsets_are_all_frames [OF ly(1)] ly by auto
qed

text \<open>The arguments accept zero messages, the average interval does not.\<close>

lemma zero_messages_raise: "analyze_layout (jint 64) (jint 0) [I 1] (jint 8) (jint 8) (jint 1024) = Inl ZeroDivisionError"
  by code_simp

definition demo_fields :: "string \<Rightarrow> (string \<times> string) list" where
  "demo_fields payload = [(''published'', ''1024''), (''delivered'', ''2048''), (''producers'', ''1''), (''consumers'', ''2''),
     (''payload'', payload), (''scenario'', ''fifo''), (''batch_size'', ''1''), (''latency_samples'', ''0''),
     (''latency_sample_rate'', ''0''), (''rate_per_producer'', ''0''), (''seconds'', ''1''), (''capacity'', ''1024'')]"

definition demo_log :: "string \<Rightarrow> string" where
  "demo_log payload = ''RESULT published=1024 delivered=2048 producers=1 consumers=2 payload='' @ payload
     @ '' scenario=fifo batch_size=1 latency_samples=0 latency_sample_rate=0 rate_per_producer=0 seconds=1 capacity=1024''"

definition demo_measured :: "int \<Rightarrow> string \<Rightarrow> int \<Rightarrow> json" where
  "demo_measured payload name n = JObj [(''engine'', JStr ''salias''), (''kind'', JStr ''throughput''), (''phase'', JStr ''measured''),
     (''payload'', jint payload), (''round'', jint n), (''stdout'', JStr (''x/'' @ name)), (''stdout_sha256'', JStr (demo_log name)),
     (''result'', result_fields (demo_fields name))]"

definition demo_sources :: "(string \<times> string) list" where
  "demo_sources =
     [(''r/src/core/frame/header.hpp'', ''size_t kHeaderSize = 8; size_t kFrameAlign=8 ;''),
      (''r/src/core/frame/codec.hpp'', frame_len_line),
      (''r/src/core/channel/shared_hybrid_mpsc.hpp'', ''producer_pos_ = tail + need;''),
      (''r/src/core/ring/magic_ring.hpp'', []),
      (''r/src/core/ring/magic_ring.cpp'', ''return {base_ + (pos & mask()), len};''),
      (''r/src/core/platform/mapping.cpp'', ''const std::size_t mapped_len = size * 2; ::mmap(base, size, RW, MAP_SHARED | MAP_FIXED, fd, 0); ::mmap(base + size, size, RW, MAP_SHARED | MAP_FIXED, fd, 0);''),
      (''b/summary.json'', ''summary''),
      (''b/results.jsonl'', concat (map (\<lambda>l. l @ [nl]) [''64 1'', ''64 2'', ''64 3'', ''64 4'', ''64 5'', ''256 1'', ''256 2'', ''256 3'', ''256 4'', ''256 5''])),
      (''b/64'', demo_log ''64''), (''b/256'', demo_log ''256'')]"

definition demo_layout_world :: world where
  "demo_layout_world = \<lparr>file_text = map_of demo_sources, sha256_hex = (\<lambda>t. t),
     json_loads = (\<lambda>t. case split_words t of [p, n] \<Rightarrow> bindE (str_int p) (\<lambda>payload. bindE (str_int n) (\<lambda>r. Inr (demo_measured payload p r)))
       | _ \<Rightarrow> Inr (JObj [(''environment'', JObj [(''commit'', JStr ''c'')])])),
     globbed = (\<lambda>_ _. []), resolved = (\<lambda>p. p)\<rparr>"

definition demo_cell :: "int \<Rightarrow> string \<Rightarrow> json list" where
  "demo_cell payload name = map (demo_measured payload name) [1, 2, 3, 4, 5]"

lemma demo_constants: "case source_constants demo_layout_world ''r'' of Inl _ \<Rightarrow> False | Inr c \<Rightarrow> kHeaderSize c = 8 \<and> kFrameAlign c = 8"
  by code_simp

lemma layout_rows:
  "mapE (json_loads demo_layout_world) (splitlines (the (file_text demo_layout_world ''b/results.jsonl''))) = Inr (demo_cell 64 ''64'' @ demo_cell 256 ''256'')"
  by code_simp

lemma demo_logs:
  "filter (\<lambda>l. starts_with l ''RESULT '') (splitlines (demo_log ''64'')) = [demo_log ''64'']" "fields_of (demo_log ''64'') = Inr (demo_fields ''64'')"
  "filter (\<lambda>l. starts_with l ''RESULT '') (splitlines (demo_log ''256'')) = [demo_log ''256'']" "fields_of (demo_log ''256'') = Inr (demo_fields ''256'')"
  by code_simp+

lemma demo_delivery: "delivery_ok 64 (result_fields (demo_fields ''64'')) = Inr True" "delivery_ok 256 (result_fields (demo_fields ''256'')) = Inr True"
  by code_simp+

lemma demo_same: "jeq (result_fields (demo_fields ''64'')) (result_fields (demo_fields ''64'')) = True"
  "jeq (result_fields (demo_fields ''256'')) (result_fields (demo_fields ''256'')) = True"
  by code_simp+

lemma demo_seconds: "bindE (getitem (result_fields (demo_fields ''64'')) ''seconds'') jfloat = Inr (Fin 1)"
  "bindE (getitem (result_fields (demo_fields ''256'')) ''seconds'') jfloat = Inr (Fin 1)"
  by code_simp+

lemma demo_files: "file_text demo_layout_world ''b/64'' = Some (demo_log ''64'')" "file_text demo_layout_world ''b/256'' = Some (demo_log ''256'')"
  "sha256_hex demo_layout_world t = t"
  by (simp_all add: demo_layout_world_def demo_sources_def)

lemma demo_measured_of:
  "measured_of demo_layout_world ''b'' 64 (demo_measured 64 ''64'' n) = Inr \<lparr>mr_round = jint n, mr_duration = Fin 1, mr_stdout = ''64'', mr_sha = demo_log ''64''\<rparr>"
  "measured_of demo_layout_world ''b'' 256 (demo_measured 256 ''256'' n) = Inr \<lparr>mr_round = jint n, mr_duration = Fin 1, mr_stdout = ''256'', mr_sha = demo_log ''256''\<rparr>"
  using demo_seconds
  by (auto simp: measured_of_def demo_measured_def base_name_def slash_def file_sha_def read_text_def demo_files demo_logs demo_delivery demo_same
      retained_result_def value_fail_def bindE_Inr fle_def feq_def simp del: jeq.simps)

definition demo_rounds :: "string \<Rightarrow> measured_round list" where
  "demo_rounds name = map (\<lambda>n. \<lparr>mr_round = jint n, mr_duration = Fin 1, mr_stdout = name, mr_sha = demo_log name\<rparr>) [1, 2, 3, 4, 5]"

lemma demo_measured_cell: "mapE (measured_of demo_layout_world ''b'' 64) (demo_cell 64 ''64'') = Inr (demo_rounds ''64'')"
  "mapE (measured_of demo_layout_world ''b'' 256) (demo_cell 256 ''256'') = Inr (demo_rounds ''256'')"
  by (simp_all add: demo_cell_def demo_rounds_def demo_measured_of)

lemma demo_selected: "filterE (in_cell 64) (demo_cell 64 ''64'' @ demo_cell 256 ''256'') = Inr (demo_cell 64 ''64'')"
  "filterE (in_cell 256) (demo_cell 64 ''64'' @ demo_cell 256 ''256'') = Inr (demo_cell 256 ''256'')"
  by (simp_all add: demo_cell_def in_cell_def item_is_def demo_measured_def)

lemma demo_consistent: "consistent_cell (demo_cell 64 ''64'') = Inr True" "consistent_cell (demo_cell 256 ''256'') = Inr True"
  by code_simp+

lemma demo_sorted: "sort_rows (\<lambda>row. getitem row ''round'') (demo_cell 64 ''64'') = Inr (demo_cell 64 ''64'')"
  "sort_rows (\<lambda>row. getitem row ''round'') (demo_cell 256 ''256'') = Inr (demo_cell 256 ''256'')"
  by code_simp+

lemma demo_firsts: "first_int ''published'' (demo_cell 64 ''64'') = Inr 1024" "first_int ''capacity'' (demo_cell 64 ''64'') = Inr 1024"
  "first_int ''published'' (demo_cell 256 ''256'') = Inr 1024" "first_int ''capacity'' (demo_cell 256 ''256'') = Inr 1024"
  by code_simp+

lemma demo_extremes: "num_min (map (F \<circ> mr_duration) (demo_rounds name)) = Inr (F (Fin 1))" "num_max (map (F \<circ> mr_duration) (demo_rounds name)) = Inr (F (Fin 1))"
  by (simp_all add: demo_rounds_def num_min_def num_max_def)

lemma demo_layouts:
  "case analyze_layout (jint 64) (jint 1024) [F (Fin 1), F (Fin 1)] (jint 8) (jint 8) (jint 1024) of Inl _ \<Rightarrow> False
     | Inr s \<Rightarrow> ly_messages s = 1024 \<and> ly_capacity s = 1024 \<and> \<not> ly_aligned s \<and> ly_wraps s = F (Fin 72)"
  "case analyze_layout (jint 256) (jint 1024) [F (Fin 1), F (Fin 1)] (jint 8) (jint 8) (jint 1024) of Inl _ \<Rightarrow> False
     | Inr l \<Rightarrow> ly_messages l = 1024 \<and> ly_capacity l = 1024 \<and> \<not> ly_aligned l \<and> ly_wraps l = F (Fin 264)"
  by code_simp+

lemma demo_ratio: "case ndiv (F (Fin 72)) (F (Fin 264)) of Inl _ \<Rightarrow> False | Inr _ \<Rightarrow> True" "case nmul (I 2) (F (Fin 264)) of Inl _ \<Rightarrow> False | Inr _ \<Rightarrow> True"
  by code_simp+

lemma demo_baseline: "\<exists>b. summarize_baseline demo_layout_world ''r'' ''b/summary.json'' = Inr b \<and> br_nonaligned b"
proof -
  obtain c where c: "source_constants demo_layout_world ''r'' = Inr c" "kHeaderSize c = 8" "kFrameAlign c = 8"
    using demo_constants by (auto split: sum.splits)
  obtain s where s: "analyze_layout (jint 64) (jint 1024) [F (Fin 1), F (Fin 1)] (jint 8) (jint 8) (jint 1024) = Inr s" "ly_messages s = 1024"
    "ly_capacity s = 1024" "\<not> ly_aligned s" "ly_wraps s = F (Fin 72)" using demo_layouts(1) by (auto split: sum.splits)
  obtain l where l: "analyze_layout (jint 256) (jint 1024) [F (Fin 1), F (Fin 1)] (jint 8) (jint 8) (jint 1024) = Inr l" "ly_messages l = 1024"
    "ly_capacity l = 1024" "\<not> ly_aligned l" "ly_wraps l = F (Fin 264)" using demo_layouts(2) by (auto split: sum.splits)
  have "cell_layout demo_layout_world ''b'' c (demo_cell 64 ''64'' @ demo_cell 256 ''256'') 64 = Inr (s, demo_rounds ''64'')"
    by (simp add: cell_layout_def demo_selected demo_consistent demo_sorted demo_measured_cell demo_firsts demo_extremes c s value_fail_def)
  moreover have "cell_layout demo_layout_world ''b'' c (demo_cell 64 ''64'' @ demo_cell 256 ''256'') 256 = Inr (l, demo_rounds ''256'')"
    by (simp add: cell_layout_def demo_selected demo_consistent demo_sorted demo_measured_cell demo_firsts demo_extremes c l value_fail_def)
  moreover have "\<exists>cmp. compare_layouts s l = Inr cmp" using demo_ratio s(5) l(5) by (auto simp: compare_layouts_def split: sum.splits)
  moreover have "read_text demo_layout_world ''b/summary.json'' = Inr ''summary''" by code_simp
  moreover have "json_loads demo_layout_world ''summary'' = Inr (JObj [(''environment'', JObj [(''commit'', JStr ''c'')])])" by code_simp
  moreover have "path_parent ''b/summary.json'' = ''b''" "slash ''b'' ''results.jsonl'' = ''b/results.jsonl''" by code_simp+
  moreover obtain rt where "file_text demo_layout_world ''b/results.jsonl'' = Some rt"
    by (simp add: demo_layout_world_def demo_sources_def)
  ultimately show ?thesis using c layout_rows s l
    by (auto simp: summarize_baseline_def read_text_def value_fail_def)
qed

lemma baseline_audited_witness:
  "\<exists>b. summarize_baseline demo_layout_world ''r'' ''b/summary.json'' = Inr b \<and> br_nonaligned b \<and> \<not> br_more_than_twice b"
proof -
  obtain b where b: "summarize_baseline demo_layout_world ''r'' ''b/summary.json'' = Inr b" "br_nonaligned b" using demo_baseline by blast
  show ?thesis using baseline_audited [OF b(1)] b by blast
qed

end
