(* ===== verification/P32Audit.thy ===== *)
theory P32Audit
  imports P31Followup LatencyRunner
begin

text \<open>
  \<open>analyze_p32_multithread.py\<close>: the audit of the P3-2 matrix, a single-threaded publisher process (ST)
  against the same binary with a sleeping helper thread (MT).  Every measured round is re-read from
  its retained logs and control-group evidence, and the 144 rounds must be six ABBA groups of every
  configuration before anything is summarised.  The Markdown rendering and \<open>main\<close> are not modelled.
\<close>

section \<open>The frozen matrix\<close>

record p32_configuration =
  pc_kind :: string
  pc_producers :: int
  pc_consumers :: int
  pc_payload :: int
  pc_messages :: int

definition P32_PROTOCOL :: string where
  "P32_PROTOCOL = ''p3-p32-publisher-thread-probe-v1''"

definition V3_SOURCE_SHA256 :: string where
  "V3_SOURCE_SHA256 = ''6a23a77598c6e980f7b6625eb2471cc42a26917469dc77fc51ab9d5b767bab1e''"

definition ARMS :: "string list" where "ARMS = [''ST'', ''MT'']"

definition ARM_ORDER :: "string list" where "ARM_ORDER = [''ST'', ''MT'', ''MT'', ''ST'']"

definition P32_GROUPS :: nat where "P32_GROUPS = 6"

definition throughput_configuration :: "int \<Rightarrow> p32_configuration" where
  "throughput_configuration payload =
     \<lparr>pc_kind = ''throughput'', pc_producers = 1, pc_consumers = 2, pc_payload = payload, pc_messages = 50000000\<rparr>"

definition latency_configuration :: "int \<Rightarrow> p32_configuration" where
  "latency_configuration payload =
     \<lparr>pc_kind = ''latency'', pc_producers = 1, pc_consumers = 1, pc_payload = payload, pc_messages = 2000000\<rparr>"

definition P32_CONFIGURATIONS :: "(string \<times> p32_configuration) list" where
  "P32_CONFIGURATIONS =
     [(''throughput-64b'', throughput_configuration 64), (''throughput-256b'', throughput_configuration 256),
      (''latency-64b-attempt'', latency_configuration 64), (''latency-64b-planned'', latency_configuration 64),
      (''latency-256b-attempt'', latency_configuration 256), (''latency-256b-planned'', latency_configuration 256)]"

definition LATENCY_KEYS :: "string list" where
  "LATENCY_KEYS = [''latency_p50_ns'', ''latency_p99_ns'', ''latency_p999_ns'', ''latency_max_ns'']"

section \<open>Artifacts\<close>

definition safe_file :: "world \<Rightarrow> string \<Rightarrow> json \<Rightarrow> string py" where
  "safe_file w directory relative =
     bindE (audit (is_str relative \<and> str_of relative \<noteq> []) ''artifact path is missing'') (\<lambda>_.
     let path = resolved w (slash directory (str_of relative)) in
     bindE (audit (directory \<in> set (path_parents path)) ''artifact escapes evidence directory'') (\<lambda>_.
     bindE (audit (is_file w path) ''artifact is missing'') (\<lambda>_. Inr path)))"

definition check_artifact :: "world \<Rightarrow> string \<Rightarrow> json \<Rightarrow> string \<Rightarrow> string \<Rightarrow> string py" where
  "check_artifact w directory record key hash_key =
     bindE (get record key) (\<lambda>relative. bindE (safe_file w directory relative) (\<lambda>path.
     bindE (get record hash_key) (\<lambda>expected. bindE (file_sha w path) (\<lambda>h.
     bindE (audit (jeq (JStr h) expected) ''hash mismatch'') (\<lambda>_. Inr path)))))"

definition control_lines :: "string list \<Rightarrow> string \<Rightarrow> field_map list py" where
  "control_lines lines prefix = mapE (\<lambda>line. case fields_of line of
       Inl _ \<Rightarrow> Inl (AnalysisError ''malformed line'') | Inr d \<Rightarrow> Inr d) (filter (\<lambda>l. starts_with l prefix) lines)"

section \<open>Control-group evidence\<close>

definition file_marker :: string where "file_marker = ''[CGROUP_FILE ''"

definition is_marker :: "string \<Rightarrow> bool" where
  "is_marker line \<longleftrightarrow> starts_with line file_marker \<and> ends_with line '']''"

definition block_after :: "string \<Rightarrow> string \<Rightarrow> string py" where
  "block_after evidence line = (case find_sub (line @ [nl]) evidence of
     None \<Rightarrow> Inl (AnalysisError ''duplicate or missing cgroup marker'')
   | Some i \<Rightarrow> let start = i + length (line @ [nl]) in
     (case (find_from (nl # file_marker) evidence start, find_from (nl # ''CGROUP_EVIDENCE_END'') evidence start) of
        (None, None) \<Rightarrow> Inl (AnalysisError ''unterminated cgroup block'')
      | (Some a, None) \<Rightarrow> Inr (strip (take (a - start) (drop start evidence)))
      | (None, Some b) \<Rightarrow> Inr (strip (take (b - start) (drop start evidence)))
      | (Some a, Some b) \<Rightarrow> Inr (strip (take (min a b - start) (drop start evidence)))))"

definition cgroup_values :: "string \<Rightarrow> (string \<times> string) list py" where
  "cgroup_values evidence = bindE (mapE (\<lambda>line. bindE (block_after evidence line) (\<lambda>v.
       Inr (butlast (drop (length file_marker) line), v))) (filter is_marker (splitlines evidence))) (\<lambda>kvs. Inr (dict_of kvs))"

definition cgroup_files :: "string list" where
  "cgroup_files = [''cpu.stat'', ''memory.events'', ''memory.peak'', ''memory.high'', ''memory.max'', ''memory.swap.max'', ''memory.swap.current'']"

definition cgroup_limits :: "(string \<times> string) list" where
  "cgroup_limits = [(''memory.high'', show_int (640 * 1024 * 1024)), (''memory.max'', show_int (704 * 1024 * 1024)),
     (''memory.swap.max'', ''0''), (''memory.swap.current'', ''0'')]"

text \<open>\<open>line.split(maxsplit=1)\<close> as a pair.\<close>

definition split_once :: "string \<Rightarrow> (string \<times> string) py" where
  "split_once line = (let t = dropWhile is_space line; k = takeWhile (\<lambda>c. \<not> is_space c) t;
       v = dropWhile is_space (dropWhile (\<lambda>c. \<not> is_space c) t)
     in if k = [] \<or> v = [] then Inl (ValueError ''dictionary update sequence element'') else Inr (k, v))"

definition pressure_events :: "string list" where
  "pressure_events = [''high'', ''max'', ''oom'', ''oom_kill'', ''oom_group_kill'']"

definition str_at :: "(string \<times> string) list \<Rightarrow> string \<Rightarrow> string" where
  "str_at d k = dict_get d k []"

definition validate_cgroup :: "string \<Rightarrow> (string \<times> string) list py" where
  "validate_cgroup evidence =
     bindE (audit (starts_with evidence ''CGROUP_EVIDENCE_BEGIN '') ''cgroup evidence header missing'') (\<lambda>_.
     bindE (audit (ends_with (rev (dropWhile is_space (rev evidence))) ''CGROUP_EVIDENCE_END'') ''cgroup evidence footer missing'') (\<lambda>_.
     bindE (cgroup_values evidence) (\<lambda>values.
     bindE (audit (\<forall>k \<in> set cgroup_files. map_of values k \<notin> {None, Some [], Some ''<unavailable>''}) ''cgroup evidence unavailable'') (\<lambda>_.
     bindE (audit (\<forall>(k, v) \<in> set cgroup_limits. map_of values k = Some v) ''control group limits differ'') (\<lambda>_.
     bindE (mapE split_once (splitlines (str_at values ''memory.events''))) (\<lambda>kvs. let events = dict_of kvs in
     bindE (mapE (\<lambda>e. bindE (counter_of events e) (\<lambda>n. audit (n = 0) ''cgroup memory event is nonzero'')) pressure_events) (\<lambda>_.
     Inr values)))))))"

section \<open>One probe\<close>

record probe_metrics =
  pm_seconds :: pyfloat
  pm_publish :: pyfloat
  pm_delivery :: pyfloat
  pm_published :: int
  pm_delivered :: int
  pm_samples :: int
  pm_latency :: "int list"

definition one_line :: "field_map list \<Rightarrow> string \<Rightarrow> field_map py" where
  "one_line ds msg = (case ds of [d] \<Rightarrow> Inr d | _ \<Rightarrow> Inl (AnalysisError msg))"

definition expected_threads :: "string \<Rightarrow> string" where
  "expected_threads arm = (if arm = ''ST'' then ''1'' else ''2'')"

definition check_identity :: "string \<Rightarrow> field_map \<Rightarrow> field_map \<Rightarrow> unit py" where
  "check_identity arm probe state =
     bindE (audit (\<forall>(k, v) \<in> {(''identity'', P32_PROTOCOL), (''source_sha256'', V3_SOURCE_SHA256), (''barrier'', ''A''),
         (''publisher_mode'', lower arm)}. map_of probe k = Some v) ''probe line differs from the record'') (\<lambda>_.
     bindE (audit (\<forall>(k, v) \<in> {(''role'', ''publisher''), (''mode'', lower arm), (''expected_threads'', expected_threads arm),
         (''actual_threads'', expected_threads arm), (''before_publish'', ''1'')}. map_of state k = Some v) ''thread state differs from the arm'') (\<lambda>_.
     audit (map_of state ''libc_single_threaded_available'' = Some ''1'' \<longrightarrow>
       map_of state ''libc_single_threaded'' = Some (if arm = ''ST'' then ''1'' else ''0'')) ''libc single-threaded state differs from fixed arm''))"

definition float_item :: "field_map \<Rightarrow> string \<Rightarrow> pyfloat py" where
  "float_item d k = bindE (item d k) str_float"

definition read_metrics :: "field_map \<Rightarrow> probe_metrics py" where
  "read_metrics result =
     bindE (float_item result ''seconds'') (\<lambda>s. bindE (float_item result ''publish_msg_per_sec'') (\<lambda>p.
     bindE (float_item result ''delivery_msg_per_sec'') (\<lambda>d. bindE (int_item result ''published'') (\<lambda>pub.
     bindE (int_item result ''delivered'') (\<lambda>del. bindE (int_item result ''latency_samples'') (\<lambda>n.
     bindE (mapE (int_item result) LATENCY_KEYS) (\<lambda>lat.
     Inr \<lparr>pm_seconds = s, pm_publish = p, pm_delivery = d, pm_published = pub, pm_delivered = del, pm_samples = n, pm_latency = lat\<rparr>)))))))"

definition check_metrics :: "probe_metrics \<Rightarrow> unit py" where
  "check_metrics m =
     bindE (audit (flt (Fin 0) (pm_seconds m) \<and> flt (Fin 0) (pm_publish m)) ''non-positive throughput measurement'') (\<lambda>_.
     bindE (audit (flt (Fin 0) (pm_delivery m)) ''non-positive delivery rate'') (\<lambda>_.
     bindE (everyE (\<lambda>v. if 0 \<le> v then finite_num (I v) else Inr False) (pm_latency m)) (\<lambda>ok.
     bindE (audit ok ''invalid latency metric'') (\<lambda>_.
     audit (sorted (pm_latency m)) ''latency quantiles are not monotonic''))))"

definition parse_probe :: "string \<Rightarrow> string \<Rightarrow> (probe_metrics \<times> field_map) py" where
  "parse_probe stdout arm = (let lines = splitlines stdout in
     bindE (control_lines lines ''PROBE '') (\<lambda>probes. bindE (control_lines lines ''THREAD_STATE '') (\<lambda>states.
     bindE (control_lines lines ''RESULT '') (\<lambda>results.
     bindE (one_line probes ''expected one PROBE line'') (\<lambda>probe. bindE (one_line states ''expected one THREAD_STATE line'') (\<lambda>state.
     bindE (one_line results ''expected one RESULT line'') (\<lambda>result.
     bindE (check_identity arm probe state) (\<lambda>_.
     bindE (read_metrics result) (\<lambda>m. bindE (check_metrics m) (\<lambda>_. Inr (m, state)))))))))))"

section \<open>Summaries\<close>

record p32_summary =
  ps_n :: nat
  ps_median :: num
  ps_mean :: num
  ps_stddev :: num
  ps_cv :: num
  ps_min :: num
  ps_max :: num

definition percent_of :: "num \<Rightarrow> num \<Rightarrow> num py" where
  "percent_of part whole = (if exact whole = Fin 0 then Inr (F (Fin 0)) else bindE (nmul (I 100) part) (\<lambda>x. ndiv x whole))"

definition summarize_p32 :: "num list \<Rightarrow> p32_summary py" where
  "summarize_p32 values =
     bindE (audit (values \<noteq> []) ''cannot summarize an empty sample'') (\<lambda>_.
     bindE (mean values) (\<lambda>m. bindE (if 1 < length values then stdev values else Inr (F (Fin 0))) (\<lambda>sd.
     bindE (median values) (\<lambda>md. bindE (percent_of sd m) (\<lambda>cv. bindE (num_min values) (\<lambda>lo. bindE (num_max values) (\<lambda>hi.
     Inr \<lparr>ps_n = length values, ps_median = md, ps_mean = m, ps_stddev = sd, ps_cv = cv, ps_min = lo, ps_max = hi\<rparr>)))))))"

section \<open>The manifest\<close>

definition get_in :: "json \<Rightarrow> string \<Rightarrow> string \<Rightarrow> json py" where
  "get_in d k k' = bindE (get_or d k (JObj [])) (\<lambda>x. get x k')"

text \<open>The configurations of the manifest by id, the last of an id winning; the ids must be the frozen names.\<close>

definition configurations_by_id :: "json \<Rightarrow> (string \<times> json) list py" where
  "configurations_by_id v = (case list_items v of None \<Rightarrow> Inl (AnalysisError ''manifest configurations are missing'')
     | Some items \<Rightarrow> let objs = filter is_obj items in
       bindE (mapE (\<lambda>d. bindE (get d ''id'') (\<lambda>i. bindE (require (hashable i) TypeError) (\<lambda>_. Inr i))) objs) (\<lambda>ids.
       bindE (audit ((\<forall>i \<in> set ids. is_str i) \<and> set (map str_of ids) = fst ` set P32_CONFIGURATIONS) ''manifest configuration set mismatch'') (\<lambda>_.
       Inr (dict_of (zip (map str_of ids) objs)))))"

definition configuration_fields :: "p32_configuration \<Rightarrow> (string \<times> json) list" where
  "configuration_fields c = [(''kind'', JStr (pc_kind c)), (''producers'', jint (pc_producers c)), (''consumers'', jint (pc_consumers c)),
     (''payload'', jint (pc_payload c)), (''messages'', jint (pc_messages c))]"

definition check_configuration :: "(string \<times> json) list \<Rightarrow> string \<times> p32_configuration \<Rightarrow> unit py" where
  "check_configuration by_id nc = bindE (keys_are (dict_get by_id (fst nc) JNull) (configuration_fields (snd nc))) (\<lambda>same.
     audit same ''manifest configuration drift'')"

definition in_strs :: "json \<Rightarrow> string list \<Rightarrow> bool py" where
  "in_strs v names = bindE (require (hashable v) TypeError) (\<lambda>_. Inr (\<exists>s \<in> set names. v = JStr s))"

definition in_range :: "json \<Rightarrow> nat \<Rightarrow> bool" where
  "in_range v n \<longleftrightarrow> (\<exists>i < n. jeq v (jint (int i)))"

definition check_planned :: "json \<Rightarrow> unit py" where
  "check_planned round_plan =
     bindE (get round_plan ''configuration'') (\<lambda>c. bindE (in_strs c (map fst P32_CONFIGURATIONS)) (\<lambda>known.
     bindE (audit known ''unknown planned configuration'') (\<lambda>_.
     bindE (get round_plan ''group'') (\<lambda>g. bindE (audit (in_range g P32_GROUPS) ''planned group is invalid'') (\<lambda>_.
     bindE (get round_plan ''arm'') (\<lambda>a. bindE (audit (\<exists>s \<in> set ARMS. a = JStr s) ''planned arm is invalid'') (\<lambda>_.
     bindE (get round_plan ''position'') (\<lambda>p. audit (in_range p (length ARM_ORDER)) ''planned position is invalid''))))))))"

definition load_planned :: "json \<Rightarrow> json list py" where
  "load_planned manifest =
     bindE (get manifest ''planned_measured_order'') (\<lambda>v. bindE (require_list v 144 ''planned measured order must contain 144 rounds'') (\<lambda>planned.
     bindE (mapE (\<lambda>x. get x ''ordinal'') planned) (\<lambda>os.
     bindE (audit (jeq (JList os) (JList (map jint [0 .. 143]))) ''planned ordinals are not contiguous'') (\<lambda>_.
     bindE (mapE check_planned planned) (\<lambda>_. Inr planned)))))"

text \<open>The manifest, the digest of the client and the registered order.\<close>

definition load_p32_manifest :: "world \<Rightarrow> string \<Rightarrow> (json \<times> string \<times> json list) py" where
  "load_p32_manifest w directory =
     (let path = slash directory ''experiment.json''; environment_path = slash directory ''environment.json'' in
     bindE (audit (is_file w path) ''manifest is missing'') (\<lambda>_.
     bindE (read_text w path) (\<lambda>t. bindE (json_loads w t) (\<lambda>manifest.
     bindE (mapE (\<lambda>(k, v). bindE (get manifest k) (\<lambda>x. audit (jeq x (JStr v)) ''manifest mismatch''))
        [(''protocol'', P32_PROTOCOL), (''mode'', ''formal''), (''status'', ''complete'')]) (\<lambda>_.
     bindE (get_in manifest ''progress'' ''measured_rounds'') (\<lambda>n. bindE (audit (jeq n (jint 144)) ''manifest measured-round count is not 144'') (\<lambda>_.
     bindE (get manifest ''configurations'') (\<lambda>cs. bindE (configurations_by_id cs) (\<lambda>by_id.
     bindE (mapE (check_configuration by_id) P32_CONFIGURATIONS) (\<lambda>_.
     bindE (get_or manifest ''client'' (JStr [])) (\<lambda>c. bindE (as_str c) (\<lambda>c. let client = path_of c in
     bindE (audit (is_file w client) ''probe client is missing'') (\<lambda>_.
     bindE (audit (is_file w environment_path) ''environment.json is missing'') (\<lambda>_.
     bindE (read_text w environment_path) (\<lambda>et. bindE (json_loads w et) (\<lambda>environment.
     bindE (file_sha w client) (\<lambda>h. bindE (get environment ''client_sha256'') (\<lambda>want.
     bindE (audit (jeq (JStr h) want) ''probe client hash changed'') (\<lambda>_.
     bindE (get manifest ''source_sha256'') (\<lambda>s. bindE (audit (jeq s (JStr V3_SOURCE_SHA256)) ''manifest source digest mismatch'') (\<lambda>_.
     bindE (load_planned manifest) (\<lambda>planned. Inr (manifest, h, planned)))))))))))))))))))))))"

section \<open>The measured rounds\<close>

record p32_row =
  row_record :: json
  row_metrics :: probe_metrics
  row_cgroup :: "(string \<times> string) list"
  row_stdout :: string

definition record_environment :: "string \<Rightarrow> json" where
  "record_environment arm = JObj [(''SALIAS_P32_PUBLISHER_MODE'', JStr (lower arm)),
     (''SALIAS_DISABLE_ASYMMETRIC_FENCE'', JStr ''0''), (''SALIAS_RESOURCE_CAPPED'', JStr ''1'')]"

text \<open>The identity of record \<open>index\<close> against its plan; 14 rounds come before the measured ones.\<close>

definition check_position :: "nat \<Rightarrow> json \<Rightarrow> json \<Rightarrow> unit py" where
  "check_position index record expected =
     bindE (get record ''ordinal'') (\<lambda>o'. bindE (audit (jeq o' (jint (int (14 + index)))) ''record ordinal mismatch'') (\<lambda>_.
     bindE (get expected ''ordinal'') (\<lambda>e. bindE (as_num e) (\<lambda>en. bindE (nadd (I 14) en) (\<lambda>wanted.
     bindE (audit (jeq o' (JNum wanted)) ''record identity mismatch'') (\<lambda>_.
     bindE (mapE (\<lambda>k. bindE (get record k) (\<lambda>a. bindE (get expected k) (\<lambda>b. audit (jeq a b) ''record identity mismatch'')))
       [''configuration'', ''group'', ''position'', ''arm'']) (\<lambda>_. Inr ())))))))"

definition check_clean :: "world \<Rightarrow> string \<Rightarrow> json \<Rightarrow> unit py" where
  "check_clean w directory record =
     bindE (get record ''record'') (\<lambda>r. bindE (safe_file w directory r) (\<lambda>path. bindE (read_text w path) (\<lambda>t. bindE (json_loads w t) (\<lambda>saved.
     bindE (get saved ''status'') (\<lambda>s. bindE (get saved ''failure_reasons'') (\<lambda>f.
     audit (jeq s (JStr ''ok'') \<and> jeq f (JList [])) ''round record is not clean''))))))"

definition planned_counts :: "p32_configuration \<Rightarrow> probe_metrics \<Rightarrow> bool" where
  "planned_counts c m \<longleftrightarrow> pm_published m = pc_producers c * pc_messages c
     \<and> pm_delivered m = pc_producers c * pc_messages c * pc_consumers c
     \<and> pm_samples m = (if pc_kind c = ''latency'' then pc_messages c div 16 else 0)"

definition check_run :: "json \<Rightarrow> string \<Rightarrow> string py" where
  "check_run record client_hash =
     bindE (get record ''status'') (\<lambda>s. bindE (get record ''returncode'') (\<lambda>rc.
     bindE (audit (jeq s (JStr ''ok'') \<and> jeq rc (jint 0)) ''measured round failed'') (\<lambda>_.
     bindE (get record ''client_sha256'') (\<lambda>h. bindE (audit (jeq h (JStr client_hash)) ''record client hash mismatch'') (\<lambda>_.
     bindE (get record ''input_sha256'') (\<lambda>i. bindE (audit (jeq i (JStr V3_SOURCE_SHA256)) ''record input digest mismatch'') (\<lambda>_.
     bindE (get record ''environment'') (\<lambda>e. bindE (getitem record ''arm'') (\<lambda>a. bindE (as_str a) (\<lambda>arm.
     bindE (audit (jeq e (record_environment arm)) ''record environment differs from the explicit arm'') (\<lambda>_. Inr arm)))))))))))"

definition audit_round :: "world \<Rightarrow> string \<Rightarrow> string \<Rightarrow> nat \<times> json \<times> json \<Rightarrow> p32_row py" where
  "audit_round w directory client_hash ire = (case ire of (index, record, expected) \<Rightarrow>
     bindE (check_position index record expected) (\<lambda>_. bindE (check_run record client_hash) (\<lambda>arm.
     bindE (check_artifact w directory record ''stdout'' ''stdout_sha256'') (\<lambda>stdout.
     bindE (check_artifact w directory record ''stderr'' ''stderr_sha256'') (\<lambda>_.
     bindE (check_artifact w directory record ''cgroup_evidence'' ''cgroup_sha256'') (\<lambda>evidence.
     bindE (read_text w stdout) (\<lambda>st. bindE (getitem record ''configuration'') (\<lambda>cv. bindE (as_str cv) (\<lambda>name.
     bindE (parse_probe st arm) (\<lambda>(m, state).
     bindE (read_text w evidence) (\<lambda>et. bindE (validate_cgroup et) (\<lambda>cgroup.
     bindE (check_clean w directory record) (\<lambda>_.
     bindE (case map_of P32_CONFIGURATIONS name of None \<Rightarrow> Inl KeyError | Some c \<Rightarrow> Inr c) (\<lambda>c.
     bindE (audit (planned_counts c m) ''counts differ from plan'') (\<lambda>_.
     Inr \<lparr>row_record = record, row_metrics = m, row_cgroup = cgroup, row_stdout = stdout\<rparr>)))))))))))))))"

definition failed_preparation :: "json \<Rightarrow> bool py" where
  "failed_preparation record = bindE (get record ''phase'') (\<lambda>p.
     if p \<in> {JStr ''smoke'', JStr ''warmup''} then bindE (get record ''status'') (\<lambda>s. Inr (\<not> jeq s (JStr ''ok''))) else Inr False)"

definition phase_is :: "string \<Rightarrow> json \<Rightarrow> bool py" where
  "phase_is phase record = bindE (get record ''phase'') (\<lambda>p. Inr (p = JStr phase))"

definition position_of :: "string \<Rightarrow> json list \<Rightarrow> nat py" where
  "position_of phase records = bindE (mapE (phase_is phase) records) (\<lambda>bs. Inr (length (takeWhile Not bs)))"

definition load_rows :: "world \<Rightarrow> string \<Rightarrow> json \<Rightarrow> string \<Rightarrow> json list \<Rightarrow> p32_row list py" where
  "load_rows w directory manifest client_hash planned =
     bindE (get_or manifest ''records'' (JList [])) (\<lambda>v. bindE (as_list v) (\<lambda>records.
     bindE (filterE (phase_is ''measured'') records) (\<lambda>measured.
     bindE (audit (length measured = 144) ''expected 144 measured records'') (\<lambda>_.
     bindE (someE failed_preparation records) (\<lambda>bad. bindE (audit (\<not> bad) ''a smoke or warm-up round failed'') (\<lambda>_.
     bindE (position_of ''measured'' records) (\<lambda>offset.
     bindE (audit (offset = 14) ''formal run must have two smoke and twelve warm-up rounds'') (\<lambda>_.
     mapE (audit_round w directory client_hash) (zip [0 ..< 144] (zip measured planned))))))))))"

section \<open>The analysis\<close>

definition of_configuration :: "string \<Rightarrow> p32_row \<Rightarrow> bool py" where
  "of_configuration name row = item_is ''configuration'' (JStr name) (row_record row)"

definition of_group :: "string \<Rightarrow> nat \<Rightarrow> p32_row \<Rightarrow> bool py" where
  "of_group name g row = everyE id [of_configuration name row, item_is ''group'' (jint (int g)) (row_record row)]"

definition of_arm :: "string \<Rightarrow> string \<Rightarrow> p32_row \<Rightarrow> bool py" where
  "of_arm name arm row = everyE id [of_configuration name row, item_is ''arm'' (JStr arm) (row_record row)]"

definition of_group_arm :: "string \<Rightarrow> nat \<Rightarrow> string \<Rightarrow> p32_row \<Rightarrow> bool py" where
  "of_group_arm name g arm row = everyE id [of_group name g row, item_is ''arm'' (JStr arm) (row_record row)]"

definition cells :: "(string \<times> nat) list" where
  "cells = concat (map (\<lambda>(name, _). map (Pair name) [0 ..< P32_GROUPS]) P32_CONFIGURATIONS)"

definition check_abba :: "p32_row list \<Rightarrow> string \<times> nat \<Rightarrow> unit py" where
  "check_abba rows ng = bindE (filterE (of_group (fst ng) (snd ng)) rows) (\<lambda>rs.
     bindE (mapE (\<lambda>r. getitem (row_record r) ''arm'') rs) (\<lambda>arms.
     audit (jeq (JList arms) (JList (map JStr ARM_ORDER))) ''ABBA order mismatch''))"

definition rate_of :: "p32_row \<Rightarrow> num" where
  "rate_of row = F (fdiv (pm_publish (row_metrics row)) (Fin 1000000))"

record group_sample =
  gs_group :: nat
  gs_values :: "(string \<times> num list) list"
  gs_medians :: "(string \<times> num) list"
  gs_ratio :: num

record p32_throughput =
  pt_arms :: "(string \<times> p32_summary \<times> num list) list"
  pt_groups :: "group_sample list"
  pt_ratios :: "num list"
  pt_median :: num
  pt_min :: num
  pt_max :: num
  pt_faster :: nat
  pt_median_ratio :: num
  pt_mean_ratio :: num

definition sample_of :: "p32_row list \<Rightarrow> string \<Rightarrow> nat \<Rightarrow> string \<Rightarrow> (num list \<times> num) py" where
  "sample_of rows name g arm = bindE (filterE (of_group_arm name g arm) rows) (\<lambda>rs. let values = map rate_of rs in
     bindE (median values) (\<lambda>m. Inr (values, m)))"

definition group_sample_of :: "p32_row list \<Rightarrow> string \<Rightarrow> nat \<Rightarrow> group_sample py" where
  "group_sample_of rows name g =
     bindE (sample_of rows name g ''ST'') (\<lambda>st. bindE (sample_of rows name g ''MT'') (\<lambda>mt.
     bindE (ndiv (snd st) (snd mt)) (\<lambda>ratio.
     Inr \<lparr>gs_group = g, gs_values = [(''ST'', fst st), (''MT'', fst mt)], gs_medians = [(''ST'', snd st), (''MT'', snd mt)], gs_ratio = ratio\<rparr>)))"

definition arm_sample :: "p32_row list \<Rightarrow> string \<Rightarrow> string \<Rightarrow> (string \<times> p32_summary \<times> num list) py" where
  "arm_sample rows name arm = bindE (filterE (of_arm name arm) rows) (\<lambda>rs. let values = map rate_of rs in
     bindE (summarize_p32 values) (\<lambda>s. Inr (arm, s, values)))"

definition throughput_of :: "p32_row list \<Rightarrow> string \<Rightarrow> p32_throughput py" where
  "throughput_of rows name =
     bindE (arm_sample rows name ''ST'') (\<lambda>st. bindE (arm_sample rows name ''MT'') (\<lambda>mt.
     bindE (mapE (group_sample_of rows name) [0 ..< P32_GROUPS]) (\<lambda>groups. let ratios = map gs_ratio groups in
     bindE (median ratios) (\<lambda>md. bindE (num_min ratios) (\<lambda>lo. bindE (num_max ratios) (\<lambda>hi.
     bindE (ndiv (ps_median (fst (snd st))) (ps_median (fst (snd mt)))) (\<lambda>mr.
     bindE (ndiv (ps_mean (fst (snd st))) (ps_mean (fst (snd mt)))) (\<lambda>ar.
     Inr \<lparr>pt_arms = [st, mt], pt_groups = groups, pt_ratios = ratios, pt_median = md, pt_min = lo, pt_max = hi,
       pt_faster = length (filter (nlt (I 1)) ratios), pt_median_ratio = mr, pt_mean_ratio = ar\<rparr>))))))))"

definition latency_of :: "p32_row list \<Rightarrow> string \<Rightarrow> string \<Rightarrow> (string \<times> p32_summary) list py" where
  "latency_of rows name arm = bindE (filterE (of_arm name arm) rows) (\<lambda>rs.
     mapE (\<lambda>(i, key). bindE (mapE (\<lambda>r. nthE (pm_latency (row_metrics r)) i) rs) (\<lambda>vs.
       bindE (summarize_p32 (map I vs)) (\<lambda>s. Inr (key, s)))) (zip [0 ..< 4] LATENCY_KEYS))"

record p32_report =
  pr_manifest_sha :: string
  pr_client_sha :: string
  pr_rounds :: nat
  pr_smoke :: nat
  pr_warmup :: nat
  pr_throughput :: "(string \<times> p32_throughput) list"
  pr_latency :: "(string \<times> (string \<times> (string \<times> p32_summary) list) list) list"

definition phase_count :: "string \<Rightarrow> json \<Rightarrow> nat py" where
  "phase_count phase manifest = bindE (getitem manifest ''records'') (\<lambda>v. bindE (as_list v) (\<lambda>rs.
     bindE (filterE (phase_is phase) rs) (\<lambda>xs. Inr (length xs))))"

definition latency_names :: "string list" where
  "latency_names = map fst (filter (\<lambda>(_, c). pc_kind c = ''latency'') P32_CONFIGURATIONS)"

definition analyze_p32 :: "world \<Rightarrow> string \<Rightarrow> p32_report py" where
  "analyze_p32 w path = (let directory = resolved w path in
     bindE (load_p32_manifest w directory) (\<lambda>(manifest, client_hash, planned).
     bindE (load_rows w directory manifest client_hash planned) (\<lambda>rows.
     bindE (mapE (check_abba rows) cells) (\<lambda>_.
     bindE (mapE (\<lambda>name. bindE (throughput_of rows name) (\<lambda>t. Inr (name, t))) [''throughput-64b'', ''throughput-256b'']) (\<lambda>throughput.
     bindE (mapE (\<lambda>name. bindE (mapE (\<lambda>arm. bindE (latency_of rows name arm) (\<lambda>l. Inr (arm, l))) ARMS) (\<lambda>ls. Inr (name, ls))) latency_names) (\<lambda>latency.
     bindE (file_sha w (slash directory ''experiment.json'')) (\<lambda>mh.
     bindE (phase_count ''smoke'' manifest) (\<lambda>smoke. bindE (phase_count ''warmup'' manifest) (\<lambda>warm.
     Inr \<lparr>pr_manifest_sha = mh, pr_client_sha = client_hash, pr_rounds = length rows, pr_smoke = smoke, pr_warmup = warm,
       pr_throughput = throughput, pr_latency = latency\<rparr>)))))))))"

section \<open>What an accepted round says\<close>

text \<open>An accepted probe log: the thread count of the arm, and consistent measurements.\<close>

lemma parse_probe_Inr:
  assumes "parse_probe stdout arm = Inr (m, state)"
  shows "map_of state ''mode'' = Some (lower arm) \<and> map_of state ''actual_threads'' = Some (expected_threads arm)
    \<and> map_of state ''before_publish'' = Some ''1'' \<and> flt (Fin 0) (pm_publish m) \<and> flt (Fin 0) (pm_delivery m)
    \<and> sorted (pm_latency m) \<and> (\<forall>v \<in> set (pm_latency m). 0 \<le> v)
    \<and> (\<exists>line. filter (\<lambda>l. starts_with l ''THREAD_STATE '') (splitlines stdout) = [line] \<and> fields_of line = Inr state)"
proof -
  obtain states u v probe where p: "control_lines (splitlines stdout) ''THREAD_STATE '' = Inr states"
    "one_line states ''expected one THREAD_STATE line'' = Inr state" "check_identity arm probe state = Inr u" "check_metrics m = Inr v"
    using assms unfolding parse_probe_def Let_def bindE_Inr sum.inject prod.inject by blast
  have s: "states = [state]" using p(2) by (auto simp: one_line_def split: list.splits)
  have "mapE (\<lambda>line. case fields_of line of Inl _ \<Rightarrow> Inl (AnalysisError ''malformed line'') | Inr d \<Rightarrow> Inr d)
      (filter (\<lambda>l. starts_with l ''THREAD_STATE '') (splitlines stdout)) = Inr [state]"
    using p(1) s by (simp add: control_lines_def)
  then obtain line where "filter (\<lambda>l. starts_with l ''THREAD_STATE '') (splitlines stdout) = [line]" "fields_of line = Inr state"
    by (cases "filter (\<lambda>l. starts_with l ''THREAD_STATE '') (splitlines stdout)") (auto split: sum.splits simp: mapE_Inr)
  moreover have "map_of state ''mode'' = Some (lower arm)" "map_of state ''actual_threads'' = Some (expected_threads arm)"
    "map_of state ''before_publish'' = Some ''1''"
    using p(3) by (auto simp: check_identity_def)
  moreover have "flt (Fin 0) (pm_publish m)" "flt (Fin 0) (pm_delivery m)" "sorted (pm_latency m)"
    using p(4) by (auto simp: check_metrics_def)
  moreover have "\<forall>v \<in> set (pm_latency m). 0 \<le> v"
    using p(4) by (auto simp: check_metrics_def everyE_True split: if_splits)
  ultimately show ?thesis by blast
qed

lemma validate_cgroup_Inr:
  assumes "validate_cgroup evidence = Inr values"
  shows "cgroup_values evidence = Inr values \<and> map_of values ''memory.max'' = Some (show_int (704 * 1024 * 1024))
    \<and> map_of values ''memory.swap.current'' = Some ''0''
    \<and> (\<exists>kvs. mapE split_once (splitlines (str_at values ''memory.events'')) = Inr kvs \<and> (\<forall>e \<in> set pressure_events. counter_of (dict_of kvs) e = Inr 0))"
proof -
  obtain kvs us where v: "cgroup_values evidence = Inr values" "\<forall>(k, v) \<in> set cgroup_limits. map_of values k = Some v"
    "mapE split_once (splitlines (str_at values ''memory.events'')) = Inr kvs"
    "mapE (\<lambda>e. bindE (counter_of (dict_of kvs) e) (\<lambda>n. audit (n = 0) ''cgroup memory event is nonzero'')) pressure_events = Inr us"
    using assms unfolding validate_cgroup_def Let_def bindE_Inr audit_Inr sum.inject by blast
  have "counter_of (dict_of kvs) e = Inr 0" if "e \<in> set pressure_events" for e
    using mapE_set [OF v(4) that] by auto
  moreover have "map_of values ''memory.max'' = Some (show_int (704 * 1024 * 1024))" "map_of values ''memory.swap.current'' = Some ''0''"
    using v(2) by (auto simp: cgroup_limits_def)
  ultimately show ?thesis using v(1,3) by blast
qed

text \<open>What an accepted measured round stands for: a retained log inside the evidence with the recorded digest, taken with exactly the
  threads of its arm, the planned counts, and control-group evidence without a memory event.\<close>

definition audited_probe :: "string \<Rightarrow> string \<Rightarrow> probe_metrics \<Rightarrow> bool" where
  "audited_probe stdout arm m \<longleftrightarrow> (\<exists>line state. filter (\<lambda>l. starts_with l ''THREAD_STATE '') (splitlines stdout) = [line]
     \<and> fields_of line = Inr state \<and> map_of state ''actual_threads'' = Some (expected_threads arm)
     \<and> flt (Fin 0) (pm_publish m) \<and> sorted (pm_latency m))"

definition quiet_cgroup :: "(string \<times> string) list \<Rightarrow> bool" where
  "quiet_cgroup values \<longleftrightarrow> map_of values ''memory.max'' = Some (show_int (704 * 1024 * 1024)) \<and> map_of values ''memory.swap.current'' = Some ''0''
     \<and> (\<exists>kvs. mapE split_once (splitlines (str_at values ''memory.events'')) = Inr kvs \<and> (\<forall>e \<in> set pressure_events. counter_of (dict_of kvs) e = Inr 0))"

definition audited_row :: "world \<Rightarrow> string \<Rightarrow> p32_row \<Rightarrow> bool" where
  "audited_row w directory row \<longleftrightarrow> (\<exists>name arm c t. getitem (row_record row) ''configuration'' = Inr (JStr name) \<and> map_of P32_CONFIGURATIONS name = Some c
     \<and> getitem (row_record row) ''arm'' = Inr (JStr arm) \<and> directory \<in> set (path_parents (row_stdout row))
     \<and> file_text w (row_stdout row) = Some t \<and> get (row_record row) ''stdout_sha256'' = Inr (JStr (sha256_hex w t))
     \<and> audited_probe t arm (row_metrics row) \<and> planned_counts c (row_metrics row) \<and> quiet_cgroup (row_cgroup row))"

lemma as_str_Inr [simp]: "as_str v = Inr s \<longleftrightarrow> v = JStr s"
  by (cases v) auto

lemma check_run_Inr: "check_run record h = Inr arm \<Longrightarrow> getitem record ''arm'' = Inr (JStr arm)"
  unfolding check_run_def bindE_Inr audit_Inr sum.inject as_str_Inr by blast

lemma check_artifact_Inr:
  assumes "check_artifact w directory record k hk = Inr path"
  shows "directory \<in> set (path_parents path) \<and> (\<exists>t. file_text w path = Some t \<and> get record hk = Inr (JStr (sha256_hex w t)))"
proof -
  obtain relative expected h where a: "safe_file w directory relative = Inr path" "get record hk = Inr expected" "file_sha w path = Inr h" "jeq (JStr h) expected"
    using assms unfolding check_artifact_def bindE_Inr audit_Inr sum.inject by blast
  have "directory \<in> set (path_parents path)" using a(1) by (auto simp: safe_file_def Let_def)
  then show ?thesis using a(2-4) by (auto simp: file_sha_Inr)
qed

lemma audit_round_Inr:
  assumes "audit_round w directory h (i, record, expected) = Inr row"
  shows "audited_row w directory row"
proof -
  obtain arm path st name m state et vs c where r: "check_run record h = Inr arm"
    "check_artifact w directory record ''stdout'' ''stdout_sha256'' = Inr path" "read_text w path = Inr st"
    "getitem record ''configuration'' = Inr (JStr name)" "parse_probe st arm = Inr (m, state)" "validate_cgroup et = Inr vs"
    "(case map_of P32_CONFIGURATIONS name of None \<Rightarrow> Inl KeyError | Some c \<Rightarrow> Inr c) = Inr c" "planned_counts c m"
    "\<lparr>row_record = record, row_metrics = m, row_cgroup = vs, row_stdout = path\<rparr> = row"
    using assms unfolding audit_round_def prod.case bindE_Inr audit_Inr sum.inject as_str_Inr split_paired_Ex by blast
  obtain t where t: "directory \<in> set (path_parents path)" "file_text w path = Some t" "get record ''stdout_sha256'' = Inr (JStr (sha256_hex w t))"
    using check_artifact_Inr [OF r(2)] by blast
  have "st = t" using r(3) t(2) by (simp add: read_text_Inr)
  moreover have "map_of P32_CONFIGURATIONS name = Some c" using r(7) by (auto split: option.splits)
  moreover have "audited_probe st arm m" using parse_probe_Inr [OF r(5)] unfolding audited_probe_def by blast
  moreover have "quiet_cgroup vs" using validate_cgroup_Inr [OF r(6)] unfolding quiet_cgroup_def by blast
  ultimately have "audited_row w directory \<lparr>row_record = record, row_metrics = m, row_cgroup = vs, row_stdout = path\<rparr>"
    unfolding audited_row_def p32_row.simps using check_run_Inr [OF r(1)] r(4,8) t by blast
  then show ?thesis using r(9) by simp
qed

interpretation p32_rounds: loader "audit_round w directory h" "audited_row w directory" for w directory h
  by unfold_locales (metis audit_round_Inr prod_cases3)

lemma load_rows_Inr:
  assumes "load_rows w directory manifest h planned = Inr rows" "length planned = 144"
  shows "length rows = 144 \<and> (\<forall>row \<in> set rows. audited_row w directory row)"
proof -
  obtain measured where m: "length measured = 144" "mapE (audit_round w directory h) (zip [0 ..< 144] (zip measured planned)) = Inr rows"
    using assms(1) unfolding load_rows_def bindE_Inr audit_Inr by blast
  then show ?thesis using mapE_length [OF m(2)] assms(2) p32_rounds.all_sound [OF m(2)] by simp
qed

lemma load_planned_length: "load_planned manifest = Inr planned \<Longrightarrow> length planned = 144"
  unfolding load_planned_def require_list_def bindE_Inr by (auto split: option.splits)

lemma check_abba_Inr:
  assumes "check_abba rows (name, g) = Inr u"
  shows "\<exists>rs. filterE (of_group name g) rows = Inr rs \<and> mapE (\<lambda>r. getitem (row_record r) ''arm'') rs = Inr (map JStr ARM_ORDER)"
  using assms by (auto simp: check_abba_def)

lemma cells_set: "set cells = (fst ` set P32_CONFIGURATIONS) \<times> {..<P32_GROUPS}"
  by (auto simp: cells_def P32_CONFIGURATIONS_def)

section \<open>Property\<close>

text \<open>C8. A P3-2 report is computed from exactly 144 audited rounds.  Every round has a retained log inside the evidence with the recorded
  digest, one thread-state line with the thread count of its arm, the planned published, delivered and sampled counts and
  no memory event; for each of the six configurations each of the six groups is ST, MT, MT, ST in this order; and
  the throughput figures, one ratio per group, are computed from these rounds.\<close>

theorem matrix_audited:
  assumes "analyze_p32 w path = Inr report"
  shows "\<exists>rows. length rows = 144 \<and> pr_rounds report = 144 \<and> (\<forall>row \<in> set rows. audited_row w (resolved w path) row)
    \<and> (\<forall>name \<in> fst ` set P32_CONFIGURATIONS. \<forall>g < P32_GROUPS. \<exists>rs. filterE (of_group name g) rows = Inr rs
        \<and> mapE (\<lambda>r. getitem (row_record r) ''arm'') rs = Inr (map JStr [''ST'', ''MT'', ''MT'', ''ST'']))
    \<and> map fst (pr_throughput report) = [''throughput-64b'', ''throughput-256b'']
    \<and> (\<forall>(name, t) \<in> set (pr_throughput report). throughput_of rows name = Inr t \<and> length (pt_ratios t) = P32_GROUPS)"
proof -
  obtain manifest h planned rows us throughput where a: "load_p32_manifest w (resolved w path) = Inr (manifest, h, planned)"
    "load_rows w (resolved w path) manifest h planned = Inr rows" "mapE (check_abba rows) cells = Inr us"
    "mapE (\<lambda>name. bindE (throughput_of rows name) (\<lambda>t. Inr (name, t))) [''throughput-64b'', ''throughput-256b''] = Inr throughput"
    "pr_rounds report = length rows" "pr_throughput report = throughput"
    using assms unfolding analyze_p32_def Let_def bindE_Inr sum.inject split_paired_Ex prod.case
    by (elim exE conjE) (hypsubst, unfold p32_report.simps, blast)
  have "load_planned manifest = Inr planned"
    using a(1) unfolding load_p32_manifest_def Let_def bindE_Inr sum.inject prod.inject by blast
  then have rows: "length rows = 144" "\<forall>row \<in> set rows. audited_row w (resolved w path) row"
    using load_rows_Inr [OF a(2)] load_planned_length by blast+
  have "\<exists>rs. filterE (of_group name g) rows = Inr rs \<and> mapE (\<lambda>r. getitem (row_record r) ''arm'') rs = Inr (map JStr ARM_ORDER)"
    if "name \<in> fst ` set P32_CONFIGURATIONS" "g < P32_GROUPS" for name g
  proof -
    have "(name, g) \<in> set cells" using that cells_set by auto
    then show ?thesis using mapE_set [OF a(3)] check_abba_Inr by blast
  qed
  moreover have "length (pt_ratios t) = P32_GROUPS" if "throughput_of rows name = Inr t" for name t
    using that unfolding throughput_of_def Let_def bindE_Inr sum.inject by (auto dest: mapE_length)
  moreover obtain x y where "throughput_of rows ''throughput-64b'' = Inr x" "throughput_of rows ''throughput-256b'' = Inr y"
    "pr_throughput report = [(''throughput-64b'', x), (''throughput-256b'', y)]" using a(4,6) by auto
  ultimately show ?thesis using rows a(5) by (intro exI [of _ rows]) (simp add: ARM_ORDER_def)
qed

section \<open>A concrete matrix\<close>

text \<open>All rounds of a kind and arm share one log; the digest of a text is the text.\<close>

definition demo_kind :: "p32_configuration \<Rightarrow> string" where
  "demo_kind c = (if pc_kind c = ''latency'' then ''lat'' else ''thr'')"

definition demo_out :: "string \<Rightarrow> string \<Rightarrow> string" where
  "demo_out kind arm = concat (map (\<lambda>l. l @ [nl])
     [''PROBE identity=p3-p32-publisher-thread-probe-v1 source_sha256='' @ V3_SOURCE_SHA256 @ '' barrier=A publisher_mode='' @ lower arm,
      ''THREAD_STATE role=publisher mode='' @ lower arm @ '' expected_threads='' @ expected_threads arm
        @ '' actual_threads='' @ expected_threads arm @ '' before_publish=1'',
      ''RESULT seconds=1 publish_msg_per_sec=1000000 delivery_msg_per_sec=1 '' @ (if kind = ''lat''
          then ''published=2000000 delivered=2000000 latency_samples=125000'' else ''published=50000000 delivered=100000000 latency_samples=0'')
        @ '' latency_p50_ns=1 latency_p99_ns=2 latency_p999_ns=3 latency_max_ns=4''])"

definition demo_metrics :: "string \<Rightarrow> probe_metrics" where
  "demo_metrics kind = \<lparr>pm_seconds = Fin 1, pm_publish = Fin 1000000, pm_delivery = Fin 1,
     pm_published = (if kind = ''lat'' then 2000000 else 50000000), pm_delivered = (if kind = ''lat'' then 2000000 else 100000000),
     pm_samples = (if kind = ''lat'' then 125000 else 0), pm_latency = [1, 2, 3, 4]\<rparr>"

lemma p32_parse:
  "\<exists>state. parse_probe (demo_out ''lat'' ''ST'') ''ST'' = Inr (demo_metrics ''lat'', state)"
  "\<exists>state. parse_probe (demo_out ''lat'' ''MT'') ''MT'' = Inr (demo_metrics ''lat'', state)"
  "\<exists>state. parse_probe (demo_out ''thr'' ''ST'') ''ST'' = Inr (demo_metrics ''thr'', state)"
  "\<exists>state. parse_probe (demo_out ''thr'' ''MT'') ''MT'' = Inr (demo_metrics ''thr'', state)"
proof -
  have *: "\<exists>state. r = Inr (m, state)" if "case r of Inl _ \<Rightarrow> False | Inr x \<Rightarrow> fst x = m"
    for r :: "(probe_metrics \<times> field_map) py" and m
    using that by (cases r) (auto intro: prod.collapse [symmetric])
  have "case parse_probe (demo_out ''lat'' ''ST'') ''ST'' of Inl _ \<Rightarrow> False | Inr x \<Rightarrow> fst x = demo_metrics ''lat''" by code_simp
  then show "\<exists>state. parse_probe (demo_out ''lat'' ''ST'') ''ST'' = Inr (demo_metrics ''lat'', state)" by (rule *)
  have "case parse_probe (demo_out ''lat'' ''MT'') ''MT'' of Inl _ \<Rightarrow> False | Inr x \<Rightarrow> fst x = demo_metrics ''lat''" by code_simp
  then show "\<exists>state. parse_probe (demo_out ''lat'' ''MT'') ''MT'' = Inr (demo_metrics ''lat'', state)" by (rule *)
  have "case parse_probe (demo_out ''thr'' ''ST'') ''ST'' of Inl _ \<Rightarrow> False | Inr x \<Rightarrow> fst x = demo_metrics ''thr''" by code_simp
  then show "\<exists>state. parse_probe (demo_out ''thr'' ''ST'') ''ST'' = Inr (demo_metrics ''thr'', state)" by (rule *)
  have "case parse_probe (demo_out ''thr'' ''MT'') ''MT'' of Inl _ \<Rightarrow> False | Inr x \<Rightarrow> fst x = demo_metrics ''thr''" by code_simp
  then show "\<exists>state. parse_probe (demo_out ''thr'' ''MT'') ''MT'' = Inr (demo_metrics ''thr'', state)" by (rule *)
qed

definition demo_evidence :: string where
  "demo_evidence = concat (map (\<lambda>l. l @ [nl]) [''CGROUP_EVIDENCE_BEGIN version=1'', ''[CGROUP_FILE cpu.stat]'', ''usage 1'',
     ''[CGROUP_FILE memory.events]'', ''high 0'', ''max 0'', ''[CGROUP_FILE memory.peak]'', ''1'', ''[CGROUP_FILE memory.high]'', ''671088640'',
     ''[CGROUP_FILE memory.max]'', ''738197504'', ''[CGROUP_FILE memory.swap.max]'', ''0'', ''[CGROUP_FILE memory.swap.current]'', ''0'',
     ''CGROUP_EVIDENCE_END''])"

definition demo_cgroup :: "(string \<times> string) list" where
  "demo_cgroup = [(''cpu.stat'', ''usage 1''), (''memory.events'', ''high 0'' @ [nl] @ ''max 0''), (''memory.peak'', ''1''),
     (''memory.high'', ''671088640''), (''memory.max'', ''738197504''), (''memory.swap.max'', ''0''), (''memory.swap.current'', ''0'')]"

lemma demo_validated: "validate_cgroup demo_evidence = Inr demo_cgroup"
  by code_simp

definition demo_plan :: "string \<Rightarrow> nat \<Rightarrow> nat \<Rightarrow> nat \<Rightarrow> json" where
  "demo_plan name n g p = JObj [(''ordinal'', jint (int n)), (''configuration'', JStr name), (''group'', jint (int g)),
     (''position'', jint (int p)), (''arm'', JStr (ARM_ORDER ! p))]"

definition demo_record :: "string \<Rightarrow> string \<Rightarrow> nat \<Rightarrow> nat \<Rightarrow> nat \<Rightarrow> json" where
  "demo_record name kind n g p = JObj [(''phase'', JStr ''measured''), (''ordinal'', jint (14 + int n)), (''configuration'', JStr name),
     (''group'', jint (int g)), (''position'', jint (int p)), (''arm'', JStr (ARM_ORDER ! p)), (''status'', JStr ''ok''), (''returncode'', jint 0),
     (''client_sha256'', JStr ''client''), (''input_sha256'', JStr V3_SOURCE_SHA256), (''environment'', record_environment (ARM_ORDER ! p)),
     (''stdout'', JStr (kind @ ARM_ORDER ! p)), (''stdout_sha256'', JStr (demo_out kind (ARM_ORDER ! p))),
     (''stderr'', JStr ''err''), (''stderr_sha256'', JStr []), (''cgroup_evidence'', JStr ''cg''), (''cgroup_sha256'', JStr demo_evidence),
     (''record'', JStr ''rec'')]"

definition demo_specs :: "(nat \<times> nat \<times> nat) list" where
  "demo_specs = concat (map (\<lambda>i. concat (map (\<lambda>g. map (\<lambda>p. (i, g, p)) [0 ..< 4]) [0 ..< 6])) [0 ..< 6])"

definition demo_ordinal :: "nat \<times> nat \<times> nat \<Rightarrow> nat" where
  "demo_ordinal s = (case s of (i, g, p) \<Rightarrow> 24 * i + 4 * g + p)"

definition demo_name :: "nat \<Rightarrow> string" where
  "demo_name i = fst (P32_CONFIGURATIONS ! i)"

definition demo_kind_of :: "nat \<Rightarrow> string" where
  "demo_kind_of i = (if i < 2 then ''thr'' else ''lat'')"

definition plan_of :: "nat \<times> nat \<times> nat \<Rightarrow> json" where
  "plan_of s = (case s of (i, g, p) \<Rightarrow> demo_plan (demo_name i) (demo_ordinal s) g p)"

definition record_of :: "nat \<times> nat \<times> nat \<Rightarrow> json" where
  "record_of s = (case s of (i, g, p) \<Rightarrow> demo_record (demo_name i) (demo_kind_of i) (demo_ordinal s) g p)"

definition row_of :: "nat \<times> nat \<times> nat \<Rightarrow> p32_row" where
  "row_of s = (case s of (i, g, p) \<Rightarrow> \<lparr>row_record = record_of s, row_metrics = demo_metrics (demo_kind_of i), row_cgroup = demo_cgroup,
     row_stdout = ''d/'' @ demo_kind_of i @ ARM_ORDER ! p\<rparr>)"

definition demo_preparation :: "json list" where
  "demo_preparation = replicate 2 (JObj [(''phase'', JStr ''smoke''), (''status'', JStr ''ok'')])
     @ replicate 12 (JObj [(''phase'', JStr ''warmup''), (''status'', JStr ''ok'')])"

definition demo_p32_manifest :: json where
  "demo_p32_manifest = JObj [(''protocol'', JStr P32_PROTOCOL), (''mode'', JStr ''formal''), (''status'', JStr ''complete''),
     (''progress'', JObj [(''measured_rounds'', jint 144)]),
     (''configurations'', JList (map (\<lambda>(n, c). JObj ((''id'', JStr n) # configuration_fields c)) P32_CONFIGURATIONS)),
     (''client'', JStr ''c''), (''source_sha256'', JStr V3_SOURCE_SHA256), (''planned_measured_order'', JList (map plan_of demo_specs)),
     (''records'', JList (demo_preparation @ map record_of demo_specs))]"

definition demo_p32_world :: world where
  "demo_p32_world = \<lparr>file_text = map_of ([(''d/experiment.json'', ''manifest''), (''d/environment.json'', ''env''), (''c'', ''client''),
       (''d/err'', []), (''d/cg'', demo_evidence), (''d/rec'', ''saved'')]
       @ concat (map (\<lambda>k. map (\<lambda>a. (''d/'' @ k @ a, demo_out k a)) [''ST'', ''MT'']) [''thr'', ''lat''])),
     sha256_hex = (\<lambda>t. t),
     json_loads = (\<lambda>t. if t = ''manifest'' then Inr demo_p32_manifest else if t = ''env'' then Inr (JObj [(''client_sha256'', JStr ''client'')])
       else if t = ''saved'' then Inr (JObj [(''status'', JStr ''ok''), (''failure_reasons'', JList [])]) else Inl (ValueError ''JSON'')),
     globbed = (\<lambda>_ _. []), resolved = (\<lambda>p. p)\<rparr>"

lemma demo_p32_files:
  "file_text demo_p32_world ''d/experiment.json'' = Some ''manifest''" "file_text demo_p32_world ''d/environment.json'' = Some ''env''"
  "file_text demo_p32_world ''c'' = Some ''client''" "file_text demo_p32_world ''d/err'' = Some []"
  "file_text demo_p32_world ''d/cg'' = Some demo_evidence" "file_text demo_p32_world ''d/rec'' = Some ''saved''"
  "file_text demo_p32_world ''d/thrST'' = Some (demo_out ''thr'' ''ST'')" "file_text demo_p32_world ''d/thrMT'' = Some (demo_out ''thr'' ''MT'')"
  "file_text demo_p32_world ''d/latST'' = Some (demo_out ''lat'' ''ST'')" "file_text demo_p32_world ''d/latMT'' = Some (demo_out ''lat'' ''MT'')"
  "sha256_hex demo_p32_world t = t" "resolved demo_p32_world q = q"
  "json_loads demo_p32_world ''manifest'' = Inr demo_p32_manifest" "json_loads demo_p32_world ''env'' = Inr (JObj [(''client_sha256'', JStr ''client'')])"
  "json_loads demo_p32_world ''saved'' = Inr (JObj [(''status'', JStr ''ok''), (''failure_reasons'', JList [])])"
  by (simp_all add: demo_p32_world_def)

lemma demo_paths:
  assumes "x \<noteq> []" "CHR ''/'' \<notin> set x"
  shows "''d'' \<in> set (path_parents (slash ''d'' x))" "slash ''d'' x = ''d/'' @ x"
  using slash_parts(3) [of "''d''" x] assms by (auto simp: slash_def) (cases x; auto)

lemma demo_case:
  assumes "(i, g, p) \<in> set demo_specs"
  shows "i < 6" "g < 6" "p < 4"
  using assms by (auto simp: demo_specs_def)

lemma demo_arm_cases: "p < 4 \<Longrightarrow> ARM_ORDER ! p = ''ST'' \<or> ARM_ORDER ! p = ''MT''"
  by (auto simp: ARM_ORDER_def less_Suc_eq numeral_eq_Suc)

lemma demo_safe:
  assumes "x \<noteq> []" "CHR ''/'' \<notin> set x" "file_text demo_p32_world (''d/'' @ x) = Some t"
  shows "safe_file demo_p32_world ''d'' (JStr x) = Inr (''d/'' @ x)"
  using demo_paths [OF assms(1,2)] assms by (simp add: safe_file_def demo_p32_files is_file_def audit_def)

lemma demo_position: "check_position n (demo_record name k n g p) (demo_plan name n g p) = Inr ()"
  by (simp add: check_position_def demo_record_def demo_plan_def dict_get_def nadd_def lift_num_def audit_def)

lemma p32_run: "check_run (demo_record name k n g p) ''client'' = Inr (ARM_ORDER ! p)"
  by (simp add: check_run_def demo_record_def dict_get_def record_environment_def audit_def)

lemma demo_outs:
  assumes "k = ''thr'' \<or> k = ''lat''" "arm = ''ST'' \<or> arm = ''MT''"
  shows "file_text demo_p32_world (''d/'' @ k @ arm) = Some (demo_out k arm)" "k @ arm \<noteq> []" "CHR ''/'' \<notin> set (k @ arm)"
    "\<exists>state. parse_probe (demo_out k arm) arm = Inr (demo_metrics k, state)"
  using assms p32_parse by (auto simp: demo_p32_files)

lemma demo_gets:
  "get (demo_record name k n g p) ''stdout'' = Inr (JStr (k @ ARM_ORDER ! p))" "get (demo_record name k n g p) ''stdout_sha256'' = Inr (JStr (demo_out k (ARM_ORDER ! p)))"
  "get (demo_record name k n g p) ''stderr'' = Inr (JStr ''err'')" "get (demo_record name k n g p) ''stderr_sha256'' = Inr (JStr [])"
  "get (demo_record name k n g p) ''cgroup_evidence'' = Inr (JStr ''cg'')" "get (demo_record name k n g p) ''cgroup_sha256'' = Inr (JStr demo_evidence)"
  "get (demo_record name k n g p) ''record'' = Inr (JStr ''rec'')"
  by (simp_all add: demo_record_def dict_get_def)

lemma demo_artifact:
  assumes "get record key = Inr (JStr x)" "get record hash_key = Inr (JStr t)"
    "x \<noteq> []" "CHR ''/'' \<notin> set x" "file_text demo_p32_world (''d/'' @ x) = Some t"
  shows "check_artifact demo_p32_world ''d'' record key hash_key = Inr (''d/'' @ x)"
  using assms demo_safe [OF assms(3-5)] by (simp add: check_artifact_def file_sha_def read_text_def demo_p32_files(11) audit_def del: bindE_Inr)

lemma demo_artifacts:
  assumes "k = ''thr'' \<or> k = ''lat''" "p < 4"
  shows "check_artifact demo_p32_world ''d'' (demo_record name k n g p) ''stdout'' ''stdout_sha256'' = Inr (''d/'' @ k @ ARM_ORDER ! p)"
    "check_artifact demo_p32_world ''d'' (demo_record name k n g p) ''stderr'' ''stderr_sha256'' = Inr (''d/'' @ ''err'')"
    "check_artifact demo_p32_world ''d'' (demo_record name k n g p) ''cgroup_evidence'' ''cgroup_sha256'' = Inr (''d/'' @ ''cg'')"
proof -
  note o = demo_outs(1-3) [OF assms(1) demo_arm_cases [OF assms(2)]]
  show "check_artifact demo_p32_world ''d'' (demo_record name k n g p) ''stdout'' ''stdout_sha256'' = Inr (''d/'' @ k @ ARM_ORDER ! p)"
    by (rule demo_artifact [OF demo_gets(1,2) o(2,3,1)])
  show "check_artifact demo_p32_world ''d'' (demo_record name k n g p) ''stderr'' ''stderr_sha256'' = Inr (''d/'' @ ''err'')"
    by (rule demo_artifact [OF demo_gets(3,4)], simp, simp, simp add: demo_p32_files(4))
  show "check_artifact demo_p32_world ''d'' (demo_record name k n g p) ''cgroup_evidence'' ''cgroup_sha256'' = Inr (''d/'' @ ''cg'')"
    by (rule demo_artifact [OF demo_gets(5,6)], simp, simp, simp add: demo_p32_files(5))
qed

lemma demo_clean: "check_clean demo_p32_world ''d'' (demo_record name k n g p) = Inr ()"
proof -
  have "safe_file demo_p32_world ''d'' (JStr ''rec'') = Inr (''d/'' @ ''rec'')" by (rule demo_safe) (simp_all add: demo_p32_files)
  moreover have "read_text demo_p32_world (''d/'' @ ''rec'') = Inr ''saved''" by (simp add: read_text_def demo_p32_files)
  ultimately show ?thesis unfolding check_clean_def demo_gets(7) by (simp add: demo_p32_files dict_get_def audit_def)
qed

lemma demo_counts:
  assumes "i < 6"
  shows "map_of P32_CONFIGURATIONS (demo_name i) = Some (snd (P32_CONFIGURATIONS ! i))
    \<and> planned_counts (snd (P32_CONFIGURATIONS ! i)) (demo_metrics (demo_kind_of i))"
proof -
  have "i = 0 \<or> i = 1 \<or> i = 2 \<or> i = 3 \<or> i = 4 \<or> i = 5" using assms by linarith
  then show ?thesis
    by (elim disjE; simp add: demo_name_def P32_CONFIGURATIONS_def planned_counts_def demo_metrics_def demo_kind_of_def
        throughput_configuration_def latency_configuration_def)
qed

lemma p32_round:
  assumes "s \<in> set demo_specs"
  shows "audit_round demo_p32_world ''d'' ''client'' (demo_ordinal s, record_of s, plan_of s) = Inr (row_of s)"
proof -
  obtain i g p where s: "s = (i, g, p)" by (cases s)
  have b: "i < 6" "p < 4" using demo_case assms s by auto
  define k where "k = demo_kind_of i"
  have k: "k = ''thr'' \<or> k = ''lat''" by (simp add: k_def demo_kind_of_def)
  obtain state where "parse_probe (demo_out k (ARM_ORDER ! p)) (ARM_ORDER ! p) = Inr (demo_metrics k, state)"
    using demo_outs(4) [OF k demo_arm_cases [OF b(2)]] by blast
  moreover have "getitem (demo_record name k n g p) ''configuration'' = Inr (JStr name)" for name n by (simp add: demo_record_def)
  ultimately show ?thesis
    using demo_counts [OF b(1)] demo_outs(1) [OF k demo_arm_cases [OF b(2)]]
    by (simp add: s audit_round_def record_of_def plan_of_def row_of_def demo_position p32_run demo_artifacts [OF k b(2)] demo_clean demo_validated
        read_text_def demo_p32_files audit_def del: bindE_Inr flip: k_def)
qed

lemma demo_ordinals: "map demo_ordinal demo_specs = [0 ..< 144]"
  by code_simp

lemma zip_maps: "zip (map f xs) (zip (map g xs) (map h xs)) = map (\<lambda>x. (f x, g x, h x)) xs"
  by (induction xs) simp_all

lemma demo_rounds_loaded:
  "mapE (audit_round demo_p32_world ''d'' ''client'') (zip [0 ..< 144] (zip (map record_of demo_specs) (map plan_of demo_specs))) = Inr (map row_of demo_specs)"
proof -
  have "mapE (audit_round demo_p32_world ''d'' ''client'' \<circ> (\<lambda>s. (demo_ordinal s, record_of s, plan_of s))) xs = Inr (map row_of xs)"
    if "set xs \<subseteq> set demo_specs" for xs
    using that p32_round by (intro mapE_total) auto
  moreover have "mapE (f \<circ> g) xs = mapE f (map g xs)" for f :: "nat \<times> json \<times> json \<Rightarrow> p32_row py" and g and xs :: "(nat \<times> nat \<times> nat) list"
    by (induction xs) simp_all
  ultimately show ?thesis unfolding demo_ordinals [symmetric] zip_maps by simp
qed

lemma demo_length: "length demo_specs = 144"
  by code_simp

lemma p32_phase: "phase_is ph (record_of s) = Inr (ph = ''measured'')"
  by (cases s) (auto simp: phase_is_def record_of_def demo_record_def dict_get_def)

lemma demo_preparation_phases: "filterE (phase_is ''measured'') demo_preparation = Inr []" "someE failed_preparation demo_preparation = Inr False"
  "mapE (phase_is ''measured'') demo_preparation = Inr (replicate 14 False)"
  "filterE (phase_is ''smoke'') demo_preparation = Inr (replicate 2 (JObj [(''phase'', JStr ''smoke''), (''status'', JStr ''ok'')]))"
  "filterE (phase_is ''warmup'') demo_preparation = Inr (replicate 12 (JObj [(''phase'', JStr ''warmup''), (''status'', JStr ''ok'')]))"
  by code_simp+

lemma filterE_append: "filterE p xs = Inr us \<Longrightarrow> filterE p ys = Inr vs \<Longrightarrow> filterE p (xs @ ys) = Inr (us @ vs)"
  by (induction xs arbitrary: us) auto

lemma someE_append: "someE p xs = Inr False \<Longrightarrow> someE p (xs @ ys) = someE p ys"
  by (induction xs) (auto split: if_splits)

lemma demo_phase_filter: "filterE (phase_is ph) (map record_of xs) = Inr (if ph = ''measured'' then map record_of xs else [])"
  by (induction xs) (auto simp: p32_phase)

lemma demo_not_failed: "someE failed_preparation (map record_of xs) = Inr False"
proof -
  have "failed_preparation (record_of s) = Inr False" for s by (cases s) (auto simp: failed_preparation_def record_of_def demo_record_def dict_get_def)
  then show ?thesis by (auto simp: someE_False)
qed

lemma demo_position_of: "position_of ''measured'' (demo_preparation @ map record_of demo_specs) = Inr 14"
proof -
  have "mapE (phase_is ''measured'') (map record_of demo_specs) = Inr (map (\<lambda>_. True) (map record_of demo_specs))"
    using p32_phase by (intro mapE_total) auto
  moreover obtain s ss where s: "demo_specs = s # ss" using demo_length by (cases demo_specs) auto
  have "map (\<lambda>_. True) (map record_of demo_specs) = True # map (\<lambda>_. True) (map record_of ss)" by (simp add: s)
  moreover have "takeWhile Not (replicate n False @ True # bs) = replicate n False" for n bs
    by (induction n) auto
  ultimately have "position_of ''measured'' (demo_preparation @ map record_of demo_specs) = Inr (length (replicate 14 False))"
    unfolding position_of_def mapE_append demo_preparation_phases(3) by (simp del: bindE_Inr map_map)
  then show ?thesis unfolding length_replicate .
qed

lemma demo_load_rows: "load_rows demo_p32_world ''d'' demo_p32_manifest ''client'' (map plan_of demo_specs) = Inr (map row_of demo_specs)"
proof -
  have "get_or demo_p32_manifest ''records'' (JList []) = Inr (JList (demo_preparation @ map record_of demo_specs))"
    by (simp add: demo_p32_manifest_def dict_get_def)
  moreover have "filterE (phase_is ''measured'') (demo_preparation @ map record_of demo_specs) = Inr (map record_of demo_specs)"
    using filterE_append [OF demo_preparation_phases(1) demo_phase_filter [of "''measured''" demo_specs]] by simp
  moreover have "someE failed_preparation (demo_preparation @ map record_of demo_specs) = Inr False"
    using demo_not_failed someE_append [OF demo_preparation_phases(2)] by metis
  ultimately show ?thesis unfolding load_rows_def using demo_position_of demo_rounds_loaded demo_length
    by (simp add: audit_def del: bindE_Inr)
qed

text \<open>The manifest.\<close>

lemma demo_planned: "load_planned demo_p32_manifest = Inr (map plan_of demo_specs)"
proof -
  have "get demo_p32_manifest ''planned_measured_order'' = Inr (JList (map plan_of demo_specs))" by (simp add: demo_p32_manifest_def dict_get_def)
  moreover have "mapE (\<lambda>x. get x ''ordinal'') (map plan_of demo_specs) = Inr (map jint [0 .. 143])"
    by code_simp
  moreover have "jeq (JList (map jint [0 .. 143])) (JList (map jint [0 .. 143]))" by code_simp
  moreover have "check_planned (plan_of s) = Inr ()" if "s \<in> set demo_specs" for s
  proof -
    obtain i g p where s: "s = (i, g, p)" by (cases s)
    have b: "i < 6" "g < 6" "p < 4" using demo_case that s by auto
    have "demo_name i \<in> fst ` set P32_CONFIGURATIONS" using b(1) 
      unfolding demo_name_def by (intro imageI nth_mem) (simp add: P32_CONFIGURATIONS_def)
    then show ?thesis using b demo_arm_cases [OF b(3)]
      by (auto simp: s check_planned_def plan_of_def demo_plan_def dict_get_def in_strs_def in_range_def audit_def P32_GROUPS_def ARMS_def ARM_ORDER_def)
  qed
  then have "mapE check_planned (map plan_of demo_specs) = Inr (map (\<lambda>_. ()) (map plan_of demo_specs))" by (intro mapE_total) auto
  ultimately show ?thesis by (simp add: load_planned_def require_list_def demo_length audit_def del: bindE_Inr)
qed

lemma demo_manifest_loaded: "load_p32_manifest demo_p32_world ''d'' = Inr (demo_p32_manifest, ''client'', map plan_of demo_specs)"
proof -
  have j: "slash ''d'' ''experiment.json'' = ''d/experiment.json''" "slash ''d'' ''environment.json'' = ''d/environment.json''"
    by (simp_all add: slash_def)
  let ?cs = "JList (map (\<lambda>(n, c). JObj ((''id'', JStr n) # configuration_fields c)) P32_CONFIGURATIONS)"
  have g: "get demo_p32_manifest ''protocol'' = Inr (JStr P32_PROTOCOL)" "get demo_p32_manifest ''mode'' = Inr (JStr ''formal'')"
    "get demo_p32_manifest ''status'' = Inr (JStr ''complete'')" "get_in demo_p32_manifest ''progress'' ''measured_rounds'' = Inr (jint 144)"
    "get demo_p32_manifest ''configurations'' = Inr ?cs" "get_or demo_p32_manifest ''client'' (JStr []) = Inr (JStr ''c'')"
    "get demo_p32_manifest ''source_sha256'' = Inr (JStr V3_SOURCE_SHA256)"
    by (simp_all add: demo_p32_manifest_def dict_get_def get_in_def)
  have "case configurations_by_id ?cs of Inl _ \<Rightarrow> False | Inr by_id \<Rightarrow> mapE (check_configuration by_id) P32_CONFIGURATIONS = Inr (replicate 6 ())"
    by code_simp
  then obtain by_id where "configurations_by_id ?cs = Inr by_id" "mapE (check_configuration by_id) P32_CONFIGURATIONS = Inr (replicate 6 ())"
    by (auto split: sum.splits)
  moreover have "get (JObj [(''client_sha256'', JStr ''client'')]) ''client_sha256'' = Inr (JStr ''client'')" by (simp add: dict_get_def)
  ultimately show ?thesis unfolding load_p32_manifest_def Let_def j
    using g demo_planned
    by (simp add: is_file_def read_text_def file_sha_def demo_p32_files path_of_def audit_def del: bindE_Inr)
qed

section \<open>The demo cells\<close>

lemma demo_same_name: "i < 6 \<Longrightarrow> j < 6 \<Longrightarrow> demo_name i = demo_name j \<longleftrightarrow> i = j"
proof -
  assume b: "i < 6" "j < 6"
  have "distinct (map fst P32_CONFIGURATIONS)" "length (map fst P32_CONFIGURATIONS) = 6" by (simp_all add: P32_CONFIGURATIONS_def)
  then show ?thesis using b nth_eq_iff_index_eq [of "map fst P32_CONFIGURATIONS" i j] by (simp add: demo_name_def)
qed

lemma demo_items: "item_is ''configuration'' (JStr n) (row_record (row_of (i, g, p))) = Inr (demo_name i = n)"
  "item_is ''group'' (jint (int h)) (row_record (row_of (i, g, p))) = Inr (g = h)"
  "item_is ''arm'' (JStr a) (row_record (row_of (i, g, p))) = Inr (ARM_ORDER ! p = a)"
  by (auto simp: item_is_def row_of_def record_of_def demo_record_def)

lemma demo_filter:
  assumes "\<And>i g p. i < 6 \<Longrightarrow> sel (row_of (i, g, p)) = Inr (q (i, g, p))"
  shows "filterE sel (map row_of demo_specs) = Inr (map row_of (filter q demo_specs))"
proof -
  have "filterE sel (map row_of xs) = Inr (map row_of (filter q xs))" if "set xs \<subseteq> set demo_specs" for xs
    using that
  proof (induction xs)
    case (Cons s xs)
    obtain i g p where s: "s = (i, g, p)" by (cases s)
    have "sel (row_of s) = Inr (q s)" using assms demo_case(1) Cons.prems by (auto simp: s)
    then show ?case using Cons by simp
  qed simp
  then show ?thesis by simp
qed

lemma demo_of_group: "j < 6 \<Longrightarrow> filterE (of_group (demo_name j) h) (map row_of demo_specs) = Inr (map row_of (filter (\<lambda>(i, g, p). i = j \<and> g = h) demo_specs))"
  by (rule demo_filter) (auto simp: of_group_def of_configuration_def demo_items demo_same_name)

lemma demo_of_group_arm: "j < 6 \<Longrightarrow> filterE (of_group_arm (demo_name j) h a) (map row_of demo_specs)
    = Inr (map row_of (filter (\<lambda>(i, g, p). i = j \<and> g = h \<and> ARM_ORDER ! p = a) demo_specs))"
  by (rule demo_filter) (auto simp: of_group_arm_def of_group_def of_configuration_def demo_items demo_same_name)

lemma demo_of_arm: "j < 6 \<Longrightarrow> filterE (of_arm (demo_name j) a) (map row_of demo_specs)
    = Inr (map row_of (filter (\<lambda>(i, g, p). i = j \<and> ARM_ORDER ! p = a) demo_specs))"
  by (rule demo_filter) (auto simp: of_arm_def of_configuration_def demo_items demo_same_name)

lemma demo_cells: "\<forall>j \<in> set [0 ..< 6]. \<forall>h \<in> set [0 ..< 6]. filter (\<lambda>(i, g, p). i = j \<and> g = h) demo_specs = map (\<lambda>p. (j, h, p)) [0 ..< 4]"
  by code_simp

lemma demo_pairs: "\<forall>j \<in> set [0 ..< 6]. \<forall>h \<in> set [0 ..< 6]. \<forall>a \<in> set ARMS.
    length (filter (\<lambda>(i, g, p). i = j \<and> g = h \<and> ARM_ORDER ! p = a) demo_specs) = 2"
  by code_simp

lemma demo_dozens: "\<forall>j \<in> set [0 ..< 6]. \<forall>a \<in> set ARMS. length (filter (\<lambda>(i, g, p). i = j \<and> ARM_ORDER ! p = a) demo_specs) = 12"
  by code_simp

lemma demo_rate: "map rate_of (map row_of ss) = replicate (length ss) (F (Fin 1))"
proof -
  have "rate_of (row_of s) = F (Fin 1)" for s by (cases s) (simp add: rate_of_def row_of_def demo_metrics_def)
  then show ?thesis by (induction ss) auto
qed

lemma demo_latency_values: "i < 4 \<Longrightarrow> mapE (\<lambda>r. nthE (pm_latency (row_metrics r)) i) (map row_of ss) = Inr (replicate (length ss) (int i + 1))"
proof -
  assume i: "i < 4"
  have "nthE (pm_latency (row_metrics (row_of s))) i = Inr (int i + 1)" for s
    using i by (cases s) (auto simp: row_of_def demo_metrics_def less_Suc_eq numeral_eq_Suc)
  then show ?thesis by (induction ss) auto
qed

lemma p32_summary: "case summarize_p32 (replicate 12 (F (Fin 1))) of Inl _ \<Rightarrow> False | Inr s \<Rightarrow> ps_median s = F (Fin 1) \<and> ps_mean s = F (Fin 1)"
  by code_simp

lemma demo_latency_summary: "\<forall>i \<in> set [0 ..< 4]. case summarize_p32 (map I (replicate 12 (int i + 1))) of Inl _ \<Rightarrow> False | Inr _ \<Rightarrow> True"
  by code_simp

lemma demo_small: "median (replicate 2 (F (Fin 1))) = Inr (F (Fin 1))" "ndiv (F (Fin 1)) (F (Fin 1)) = Inr (F (Fin 1))"
  "median (replicate 6 (F (Fin 1))) = Inr (F (Fin 1))" "num_min (replicate 6 (F (Fin 1))) = Inr (F (Fin 1))" "num_max (replicate 6 (F (Fin 1))) = Inr (F (Fin 1))"
  by code_simp+

lemma demo_abba: "j < 6 \<Longrightarrow> h < 6 \<Longrightarrow> check_abba (map row_of demo_specs) (demo_name j, h) = Inr ()"
proof -
  assume b: "j < 6" "h < 6"
  have "filter (\<lambda>(i, g, p). i = j \<and> g = h) demo_specs = map (\<lambda>p. (j, h, p)) [0 ..< 4]" using demo_cells b by simp
  then have "filterE (of_group (demo_name j) h) (map row_of demo_specs) = Inr (map row_of (map (\<lambda>p. (j, h, p)) [0 ..< 4]))"
    using demo_of_group [OF b(1)] by metis
  moreover have "mapE (\<lambda>r. getitem (row_record r) ''arm'') (map row_of (map (\<lambda>p. (j, h, p)) ps)) = Inr (map (\<lambda>p. JStr (ARM_ORDER ! p)) ps)" for ps
    by (induction ps) (simp_all add: row_of_def record_of_def demo_record_def)
  moreover have "map (\<lambda>p. JStr (ARM_ORDER ! p)) [0 ..< 4] = map JStr ARM_ORDER" by code_simp
  ultimately show ?thesis by (simp add: check_abba_def audit_def del: bindE_Inr map_map)
qed

lemma demo_abba_all: "mapE (check_abba (map row_of demo_specs)) cells = Inr (map (\<lambda>_. ()) cells)"
proof (rule mapE_total)
  fix ng assume "ng \<in> set cells"
  then obtain nc h where n: "nc \<in> set P32_CONFIGURATIONS" "h < 6" "ng = (fst nc, h)" using cells_set by (auto simp: P32_GROUPS_def)
  have "length P32_CONFIGURATIONS = 6" by (simp add: P32_CONFIGURATIONS_def)
  then obtain j where "j < 6" "nc = P32_CONFIGURATIONS ! j" using n(1) by (metis in_set_conv_nth)
  then have "j < 6" "h < 6" "ng = (demo_name j, h)" using n by (simp_all add: demo_name_def)
  then show "check_abba (map row_of demo_specs) ng = Inr ()" using demo_abba by simp
qed

lemma demo_throughput: "j < 6 \<Longrightarrow> \<exists>t. throughput_of (map row_of demo_specs) (demo_name j) = Inr t"
proof -
  assume j: "j < 6"
  obtain s where s: "summarize_p32 (replicate 12 (F (Fin 1))) = Inr s" "ps_median s = F (Fin 1)" "ps_mean s = F (Fin 1)"
    using p32_summary by (auto split: sum.splits)
  have arm: "arm_sample (map row_of demo_specs) (demo_name j) a = Inr (a, s, replicate 12 (F (Fin 1)))" if "a \<in> set ARMS" for a
    using demo_of_arm [OF j, of a] demo_dozens j that s(1) by (simp add: arm_sample_def demo_rate del: map_map)
  have sample: "sample_of (map row_of demo_specs) (demo_name j) h a = Inr (replicate 2 (F (Fin 1)), F (Fin 1))" if "h < 6" "a \<in> set ARMS" for h a
    using demo_of_group_arm [OF j, of h a] demo_pairs j that demo_small(1) by (simp add: sample_of_def demo_rate del: map_map replicate.simps)
  have st: "''ST'' \<in> set ARMS" "''MT'' \<in> set ARMS" by (simp_all add: ARMS_def)
  define gs where "gs = (\<lambda>h. \<lparr>gs_group = h, gs_values = [(''ST'', replicate 2 (F (Fin 1))), (''MT'', replicate 2 (F (Fin 1)))],
    gs_medians = [(''ST'', F (Fin 1)), (''MT'', F (Fin 1))], gs_ratio = F (Fin 1)\<rparr>)"
  have "group_sample_of (map row_of demo_specs) (demo_name j) h = Inr (gs h)" if "h < 6" for h
    using sample [OF that] st demo_small(2) by (simp add: group_sample_of_def gs_def)
  then have groups: "mapE (group_sample_of (map row_of demo_specs) (demo_name j)) [0 ..< 6] = Inr (map gs [0 ..< 6])" by (intro mapE_total) auto
  have "map gs_ratio (map gs [0 ..< 6]) = replicate 6 (F (Fin 1))" by (simp add: gs_def numeral_eq_Suc)
  then show ?thesis unfolding throughput_of_def Let_def P32_GROUPS_def
    using arm [OF st(1)] arm [OF st(2)] groups demo_small s(2,3) by (simp del: map_map bindE_Inr)
qed

lemma demo_latency_of: "j < 6 \<Longrightarrow> a \<in> set ARMS \<Longrightarrow> \<exists>l. latency_of (map row_of demo_specs) (demo_name j) a = Inr l"
proof -
  assume b: "j < 6" "a \<in> set ARMS"
  let ?ss = "filter (\<lambda>(i, g, p). i = j \<and> ARM_ORDER ! p = a) demo_specs"
  have l: "length ?ss = 12" using demo_dozens b by simp
  have "\<exists>y. (\<lambda>(i, key). bindE (mapE (\<lambda>r. nthE (pm_latency (row_metrics r)) i) (map row_of ?ss)) (\<lambda>vs.
       bindE (summarize_p32 (map I vs)) (\<lambda>s. Inr (key, s)))) ik = Inr y" if "ik \<in> set (zip [0 ..< 4] LATENCY_KEYS)" for ik
  proof -
    obtain i key where key: "ik = (i, key)" by (cases ik)
    then have ik: "ik = (i, key)" "i < 4" using that by (auto dest: set_zip_leftD)
    have "\<exists>s. summarize_p32 (map I (replicate 12 (int i + 1))) = Inr s" 
      using bspec [OF demo_latency_summary, of i] ik(2) by (cases "summarize_p32 (map I (replicate 12 (int i + 1)))") simp_all
    then show ?thesis using demo_latency_values [OF ik(2), of ?ss] l by (auto simp: ik(1) simp del: map_map map_replicate)
  qed
  moreover have "\<exists>ys. mapE f xs = Inr ys" if "\<forall>x \<in> set xs. \<exists>y. f x = Inr y" for f :: "nat \<times> string \<Rightarrow> (string \<times> p32_summary) py" and xs
    using that by (induction xs) auto
  ultimately show ?thesis unfolding latency_of_def using demo_of_arm [OF b(1), of a] by (simp del: bindE_Inr map_map)
qed

lemma demo_analysis: "\<exists>report. analyze_p32 demo_p32_world ''d'' = Inr report"
proof -
  let ?rows = "map row_of demo_specs"
  have names: "''throughput-64b'' = demo_name 0" "''throughput-256b'' = demo_name 1" "latency_names = map demo_name [2, 3, 4, 5]"
    by (simp_all add: demo_name_def P32_CONFIGURATIONS_def latency_names_def throughput_configuration_def latency_configuration_def)
  have total: "\<exists>ys. mapE f xs = Inr ys" if "\<forall>x \<in> set xs. \<exists>y. f x = Inr y" for f :: "string \<Rightarrow> 'a py" and xs
    using that by (induction xs) auto
  obtain ts where ts: "mapE (\<lambda>name. bindE (throughput_of ?rows name) (\<lambda>t. Inr (name, t))) [demo_name 0, demo_name 1] = Inr ts"
    using total [of "[demo_name 0, demo_name 1]" "\<lambda>name. bindE (throughput_of ?rows name) (\<lambda>t. Inr (name, t))"] demo_throughput by auto
  have "\<exists>ls. mapE (\<lambda>name. bindE (mapE (\<lambda>arm. bindE (latency_of ?rows name arm) (\<lambda>l. Inr (arm, l))) ARMS) (\<lambda>ls. Inr (name, ls))) latency_names = Inr ls"
  proof (rule total, rule ballI)
    fix name assume "name \<in> set latency_names"
    then have "name \<in> demo_name ` {2, 3, 4, 5}" unfolding names by auto
    then obtain j where "j \<in> {2, 3, 4, 5}" and jn: "name = demo_name j" by blast
    then have j: "j < 6" "name = demo_name j" by auto
    have "\<exists>ls. mapE (\<lambda>arm. bindE (latency_of ?rows name arm) (\<lambda>l. Inr (arm, l))) ARMS = Inr ls"
      using demo_latency_of [OF j(1)] j(2) by (intro total) auto
    then show "\<exists>y. bindE (mapE (\<lambda>arm. bindE (latency_of ?rows name arm) (\<lambda>l. Inr (arm, l))) ARMS) (\<lambda>ls. Inr (name, ls)) = Inr y" by auto
  qed
  then obtain ls where ls: "mapE (\<lambda>name. bindE (mapE (\<lambda>arm. bindE (latency_of ?rows name arm) (\<lambda>l. Inr (arm, l))) ARMS) (\<lambda>ls. Inr (name, ls))) latency_names = Inr ls"
    by blast
  have "getitem demo_p32_manifest ''records'' = Inr (JList (demo_preparation @ map record_of demo_specs))" by (simp add: demo_p32_manifest_def)
  moreover obtain xs where "filterE (phase_is ''smoke'') (demo_preparation @ map record_of demo_specs) = Inr xs"
    by (rule that) (rule filterE_append [OF demo_preparation_phases(4) demo_phase_filter])
  moreover obtain ys where "filterE (phase_is ''warmup'') (demo_preparation @ map record_of demo_specs) = Inr ys"
    by (rule that) (rule filterE_append [OF demo_preparation_phases(5) demo_phase_filter])
  ultimately have nm: "phase_count ''smoke'' demo_p32_manifest = Inr (length xs)" "phase_count ''warmup'' demo_p32_manifest = Inr (length ys)"
    by (simp_all only: phase_count_def bindE.simps as_list.simps)
  have sha: "file_sha demo_p32_world (slash ''d'' ''experiment.json'') = Inr ''manifest''"
    by (simp add: slash_def file_sha_def read_text_def demo_p32_files)
  note steps = demo_manifest_loaded demo_load_rows demo_abba_all ts ls sha nm
  show ?thesis unfolding analyze_p32_def Let_def demo_p32_files(12) names(1,2)
    by (simp only: steps bindE.simps prod.case) (rule exI, rule refl)
qed

lemma matrix_audited_witness:
  "\<exists>report. analyze_p32 demo_p32_world ''d'' = Inr report \<and> pr_rounds report = 144 \<and> map fst (pr_throughput report) = [''throughput-64b'', ''throughput-256b'']"
proof -
  obtain report where r: "analyze_p32 demo_p32_world ''d'' = Inr report" using demo_analysis by blast
  show ?thesis using matrix_audited [OF r] r by (elim exE conjE) (intro exI conjI, assumption+)
qed

end
