(* ===== verification/Sweeps.thy ===== *)
theory Sweeps
  imports FrameLayout
begin

text \<open>
  \<open>analyze_topology_sweep.py\<close> and \<open>analyze_payload_sweep.py\<close>: a sweep is accepted only when its
  records are exactly the matrix of its environment, one warm-up and the measured rounds of every
  cell, each backed by a retained log with the listed digest; the medians of the cells and
  their relative changes decide a conclusion.  A group of the topology sweep is kept under the pair of
  topology and payload that the code formats as its key.  The printed tables are not modelled.
\<close>

section \<open>Statistics of a cell\<close>

record sweep_stats =
  sw_rounds :: nat
  sw_median :: num
  sw_mean :: num
  sw_q1 :: num
  sw_q3 :: num
  sw_iqr :: num
  sw_min :: num
  sw_max :: num
  sw_stddev :: "num option"
  sw_cv :: "num option"

definition maybe :: "bool \<Rightarrow> 'a py \<Rightarrow> 'a option py" where
  "maybe b m = (if b then bindE m (\<lambda>x. Inr (Some x)) else Inr None)"

definition cell_quartiles :: "num list \<Rightarrow> num list py" where
  "cell_quartiles values = (if 1 < length values then quartiles values else Inr (replicate 3 (hd values)))"

definition variation :: "num option \<Rightarrow> num \<Rightarrow> num option py" where
  "variation sd m = (case sd of None \<Rightarrow> Inr None | Some s \<Rightarrow> maybe (exact m \<noteq> Fin 0) (ndiv s m))"

definition sweep_stats_of :: "num list \<Rightarrow> sweep_stats py" where
  "sweep_stats_of values =
     bindE (if values = [] then Inr True else someE (\<lambda>v. bindE (finite_num v) (\<lambda>f. Inr (\<not> f))) values) (\<lambda>bad.
     bindE (value_fail bad ''Require finite throughput observations'') (\<lambda>_.
     bindE (mean values) (\<lambda>m. bindE (maybe (1 < length values) (stdev values)) (\<lambda>sd.
     bindE (cell_quartiles values) (\<lambda>qs. bindE (median values) (\<lambda>md. bindE (nsub (qs ! 2) (qs ! 0)) (\<lambda>iqr.
     bindE (num_min values) (\<lambda>lo. bindE (num_max values) (\<lambda>hi. bindE (variation sd m) (\<lambda>cv.
     Inr \<lparr>sw_rounds = length values, sw_median = md, sw_mean = m, sw_q1 = qs ! 0, sw_q3 = qs ! 2, sw_iqr = iqr, sw_min = lo, sw_max = hi,
       sw_stddev = sd, sw_cv = cv\<rparr>))))))))))"

section \<open>Checksum lists and records\<close>

definition sums_line :: "string \<Rightarrow> (string \<times> string) py" where
  "sums_line line = (case partition_at ''  '' line of (checksum, separator, name) \<Rightarrow>
     bindE (value_fail (\<not> separator \<or> length checksum \<noteq> 64) ''Invalid checksum line'') (\<lambda>_. Inr (name, checksum)))"

definition load_sums :: "world \<Rightarrow> string \<Rightarrow> (string \<times> string) list py" where
  "load_sums w output = bindE (read_text w (slash output ''SHA256SUMS'')) (\<lambda>t.
     bindE (mapE sums_line (splitlines t)) (\<lambda>kvs. Inr (dict_of kvs)))"

text \<open>The topology sweep turns a missing list and a malformed one into its own error.\<close>

definition readable_sums :: "world \<Rightarrow> string \<Rightarrow> (string \<times> string) list py" where
  "readable_sums w output = (case load_sums w output of
     Inl FileNotFoundError \<Rightarrow> Inl (ValueError (''Unreadable SHA256SUMS: '' @ output))
   | Inl (ValueError _) \<Rightarrow> Inl (ValueError (''Unreadable SHA256SUMS: '' @ output))
   | r \<Rightarrow> r)"

definition load_record :: "world \<Rightarrow> string \<Rightarrow> (string \<times> string) list \<Rightarrow> bool \<Rightarrow> string \<Rightarrow> json py" where
  "load_record w output listed nonempty line =
     bindE (json_loads w line) (\<lambda>record. bindE (getitem record ''stdout'') (\<lambda>v. bindE (as_str v) (\<lambda>p.
     let name = base_name p in
     bindE (file_sha w (slash output name)) (\<lambda>h.
     bindE (value_fail (map_of listed name \<noteq> Some h) ''stdout checksum mismatch'') (\<lambda>_.
     bindE (get record ''stdout_sha256'') (\<lambda>recorded. bindE (value_fail (\<not> jeq recorded (JStr h)) ''stdout checksum mismatch'') (\<lambda>_.
     bindE (read_text w (slash output name)) (\<lambda>t.
     bindE (value_fail (nonempty \<and> splitlines t = []) ''Empty stdout'') (\<lambda>_. Inr record)))))))))"

definition load_records :: "world \<Rightarrow> string \<Rightarrow> (string \<times> string) list \<Rightarrow> bool \<Rightarrow> json list py" where
  "load_records w output listed nonempty = bindE (read_text w (slash output ''results.jsonl'')) (\<lambda>t.
     bindE (mapE (load_record w output listed nonempty) (splitlines t)) (\<lambda>records.
     bindE (value_fail (records = []) ''No results'') (\<lambda>_. Inr records)))"

definition topology_records :: "world \<Rightarrow> string \<Rightarrow> json list py" where
  "topology_records w output = bindE (readable_sums w output) (\<lambda>listed. load_records w output listed True)"

definition payload_records :: "world \<Rightarrow> string \<Rightarrow> json list py" where
  "payload_records w output = bindE (load_sums w output) (\<lambda>listed. load_records w output listed False)"

section \<open>The matrix\<close>

definition int_key :: "json \<Rightarrow> string \<Rightarrow> int py" where
  "int_key d k = bindE (getitem d k) to_int"

definition int_list :: "json \<Rightarrow> string \<Rightarrow> int list py" where
  "int_list d k = bindE (getitem d k) (\<lambda>v. bindE (as_list v) (mapE to_int))"

definition list_key :: "json \<Rightarrow> string \<Rightarrow> json list py" where
  "list_key d k = bindE (getitem d k) as_list"

text \<open>Cells of a matrix: equal topologies compare with \<open>==\<close>; \<open>set(a) != set(b) or len(set(a)) != len(a)\<close>.\<close>

fun cell_eq :: "(json \<times> int) \<times> int \<Rightarrow> (json \<times> int) \<times> int \<Rightarrow> bool" where
  "cell_eq ((t, p), r) ((t', p'), r') = (jeq t t' \<and> p = p' \<and> r = r')"

fun distinct_by :: "('a \<Rightarrow> 'a \<Rightarrow> bool) \<Rightarrow> 'a list \<Rightarrow> bool" where
  "distinct_by eq [] = True"
| "distinct_by eq (x # xs) = (\<not> (\<exists>y \<in> set xs. eq x y) \<and> distinct_by eq xs)"

definition same_cells :: "('a \<Rightarrow> 'a \<Rightarrow> bool) \<Rightarrow> 'a list \<Rightarrow> 'a list \<Rightarrow> bool" where
  "same_cells eq xs ys \<longleftrightarrow> (\<forall>x \<in> set xs. \<exists>y \<in> set ys. eq x y) \<and> (\<forall>y \<in> set ys. \<exists>x \<in> set xs. eq x y) \<and> distinct_by eq xs"

definition topology_key :: "json \<Rightarrow> ((json \<times> int) \<times> int) py" where
  "topology_key record = bindE (getitem record ''topology'') (\<lambda>t. bindE (int_key record ''payload'') (\<lambda>p. bindE (int_key record ''round'') (\<lambda>r.
     bindE (require (hashable t) TypeError) (\<lambda>_. Inr ((t, p), r)))))"

definition payload_key :: "json \<Rightarrow> (int \<times> int) py" where
  "payload_key record = bindE (int_key record ''payload'') (\<lambda>p. bindE (int_key record ''round'') (\<lambda>r. Inr (p, r)))"

definition topology_cells :: "json list \<Rightarrow> int list \<Rightarrow> int \<Rightarrow> ((json \<times> int) \<times> int) list" where
  "topology_cells topologies payloads rounds =
     concat (map (\<lambda>t. concat (map (\<lambda>p. map (\<lambda>r. ((t, p), r)) [0 .. rounds]) payloads)) topologies)"

definition payload_cells :: "int list \<Rightarrow> int \<Rightarrow> (int \<times> int) list" where
  "payload_cells payloads rounds = concat (map (\<lambda>p. map (\<lambda>r. (p, r)) [0 .. rounds]) payloads)"

definition mismatch :: "json \<Rightarrow> string \<times> json \<Rightarrow> bool py" where
  "mismatch result kv = (if fst kv = ''scenario'' then bindE (getitem result (fst kv)) (\<lambda>v. Inr (\<not> jeq v (snd kv)))
     else bindE (int_key result (fst kv)) (\<lambda>a. bindE (to_int (snd kv)) (\<lambda>b. Inr (a \<noteq> b))))"

text \<open>Refusing a record formats its number into the message.\<close>

definition refuse_record :: "bool \<Rightarrow> string \<Rightarrow> json \<Rightarrow> unit py" where
  "refuse_record bad msg record = (if bad then bindE (getitem record ''number'') (\<lambda>_. Inl (ValueError msg)) else Inr ())"

text \<open>Whether a record is measured: a warm-up has round 0 and is dropped, anything else must be a measured round.\<close>

definition measured_phase :: "json \<Rightarrow> bool py" where
  "measured_phase record = bindE (getitem record ''phase'') (\<lambda>ph.
     bindE (if ph = JStr ''warmup'' then item_is ''round'' (jint 0) record else Inr False) (\<lambda>warmup.
     if warmup then Inr False
     else bindE (if ph \<noteq> JStr ''measured'' then Inr True else item_is ''round'' (jint 0) record) (\<lambda>bad.
       bindE (refuse_record bad ''Invalid phase/round'' record) (\<lambda>_. Inr True))))"

definition check_topology_record :: "int \<Rightarrow> json \<Rightarrow> bool py" where
  "check_topology_record messages record =
     bindE (getitem record ''result'') (\<lambda>result. bindE (getitem record ''consumers'') (\<lambda>consumers.
     bindE (times_json messages consumers) (\<lambda>delivered. bindE (getitem record ''payload'') (\<lambda>payload.
     bindE (someE (mismatch result) [(''published'', jint messages), (''delivered'', delivered), (''producers'', jint 1),
       (''consumers'', consumers), (''payload'', payload), (''latency_samples'', jint 0), (''latency_sample_rate'', jint 0),
       (''rate_per_producer'', jint 0), (''scenario'', JStr ''fifo'')]) (\<lambda>bad.
     bindE (refuse_record bad ''Result metadata mismatch'' record) (\<lambda>_. measured_phase record))))))"

definition check_payload_record :: "int \<Rightarrow> json \<Rightarrow> bool py" where
  "check_payload_record messages record =
     bindE (getitem record ''result'') (\<lambda>result. bindE (getitem record ''payload'') (\<lambda>payload.
     bindE (someE (mismatch result) [(''published'', jint messages), (''delivered'', jint (2 * messages)), (''producers'', jint 1),
       (''consumers'', jint 2), (''payload'', payload), (''latency_samples'', jint 0), (''latency_sample_rate'', jint 0),
       (''rate_per_producer'', jint 0)]) (\<lambda>bad.
     bindE (item_is ''scenario'' (JStr ''fifo'') result) (\<lambda>fifo.
     bindE (refuse_record (\<not> fifo \<or> bad) ''Result metadata mismatch'' record) (\<lambda>_. measured_phase record)))))"

definition validate_topology_matrix :: "json list \<Rightarrow> json \<Rightarrow> json list py" where
  "validate_topology_matrix records environment =
     bindE (int_key environment ''rounds'') (\<lambda>rounds. bindE (int_list environment ''payloads'') (\<lambda>payloads.
     bindE (list_key environment ''tested_topologies'') (\<lambda>topologies. bindE (int_key environment ''messages'') (\<lambda>messages.
     bindE (require (payloads \<noteq> [] \<and> 0 \<le> rounds \<longrightarrow> (\<forall>t \<in> set topologies. hashable t)) TypeError) (\<lambda>_.
     bindE (mapE topology_key records) (\<lambda>actual.
     bindE (value_fail (\<not> same_cells cell_eq actual (topology_cells topologies payloads rounds))
       ''Expected matrix from environment.json; missing or duplicate rounds'') (\<lambda>_.
     bindE (filterE (check_topology_record messages) records) (\<lambda>measured.
     bindE (value_fail (int (length measured) \<noteq> int (length records) - int (length topologies * length payloads)) ''Unexpected warmup count'') (\<lambda>_.
     Inr measured)))))))))"

definition validate_payload_matrix :: "json list \<Rightarrow> json \<Rightarrow> json list py" where
  "validate_payload_matrix records environment =
     bindE (int_list environment ''payloads'') (\<lambda>payloads. bindE (int_key environment ''rounds'') (\<lambda>rounds.
     bindE (int_key environment ''messages'') (\<lambda>messages.
     bindE (mapE payload_key records) (\<lambda>actual.
     bindE (value_fail (\<not> same_cells (=) actual (payload_cells payloads rounds))
       ''Expected payload matrix from environment.json; missing or duplicate rounds'') (\<lambda>_.
     bindE (filterE (check_payload_record messages) records) (\<lambda>measured.
     bindE (value_fail (int (length measured) \<noteq> int (length payloads) * rounds) ''Unexpected warmup count'') (\<lambda>_.
     Inr measured)))))))"

section \<open>The topology summary\<close>

record topology_transition =
  tt_from :: json
  tt_to :: json
  tt_payload :: int
  tt_change :: num
  tt_percent :: num
  tt_exceeds :: bool

type_synonym topology_groups = "((json \<times> int) \<times> sweep_stats) list"

definition sweep_rate :: "json \<Rightarrow> num py" where
  "sweep_rate record = bindE (getitem record ''result'') (\<lambda>r. bindE (getitem r ''publish_msg_per_sec'') (\<lambda>v.
     bindE (jfloat v) (\<lambda>x. Inr (F (fdiv x (Fin 1000000))))))"

definition in_topology_cell :: "json \<Rightarrow> int \<Rightarrow> json \<Rightarrow> bool py" where
  "in_topology_cell topology payload record = bindE (item_is ''topology'' topology record) (\<lambda>same.
     if same then bindE (int_key record ''payload'') (\<lambda>p. Inr (p = payload)) else Inr False)"

definition topology_cell_stats :: "json list \<Rightarrow> json \<Rightarrow> int \<Rightarrow> sweep_stats py" where
  "topology_cell_stats measured topology payload =
     bindE (filterE (in_topology_cell topology payload) measured) (\<lambda>cell. bindE (mapE sweep_rate cell) sweep_stats_of)"

definition pairs_of :: "'a list \<Rightarrow> 'b list \<Rightarrow> ('a \<times> 'b) list" where
  "pairs_of xs ys = concat (map (\<lambda>x. map (Pair x) ys) xs)"

definition topology_groups_of :: "json list \<Rightarrow> json list \<Rightarrow> int list \<Rightarrow> topology_groups py" where
  "topology_groups_of measured topologies payloads = foldE (\<lambda>(t, p) groups.
     bindE (topology_cell_stats measured t p) (\<lambda>s. Inr (dict_put (t, p) s groups))) (pairs_of topologies payloads) []"

definition relative_change :: "num \<Rightarrow> num \<Rightarrow> num py" where
  "relative_change new old = bindE (value_fail (exact old = Fin 0) ''Cannot calculate a relative change from zero throughput'') (\<lambda>_.
     bindE (nsub new old) (\<lambda>d. ndiv d old))"

definition group_stats :: "('k \<times> sweep_stats) list \<Rightarrow> 'k \<Rightarrow> sweep_stats py" where
  "group_stats groups k = (case map_of groups k of None \<Rightarrow> Inl KeyError | Some s \<Rightarrow> Inr s)"

definition topology_transition_of :: "topology_groups \<Rightarrow> int \<times> json \<times> json \<Rightarrow> topology_transition py" where
  "topology_transition_of groups ptt = (case ptt of (payload, previous, current) \<Rightarrow>
     bindE (group_stats groups (previous, payload)) (\<lambda>old. bindE (group_stats groups (current, payload)) (\<lambda>new.
     bindE (relative_change (sw_median new) (sw_median old)) (\<lambda>change. bindE (nmul change (I 100)) (\<lambda>percent.
     Inr \<lparr>tt_from = previous, tt_to = current, tt_payload = payload, tt_change = change, tt_percent = percent,
       tt_exceeds = nlt change (F (fneg (rnd (3 / 10))))\<rparr>)))))"

text \<open>\<open>zip(xs, xs[1:])\<close>; a dictionary of topologies cannot be sliced.\<close>

definition neighbours :: "'a list \<Rightarrow> ('a \<times> 'a) list" where
  "neighbours xs = zip xs (tl xs)"

definition sliceable :: "json \<Rightarrow> bool" where
  "sliceable v = (case v of JObj _ \<Rightarrow> False | _ \<Rightarrow> True)"

definition one_to_two :: "topology_transition list \<Rightarrow> topology_transition option" where
  "one_to_two transitions = map_of (rev (map (\<lambda>t. (tt_payload t, t))
     (filter (\<lambda>t. jeq (tt_from t) (JStr ''1P1S'') \<and> jeq (tt_to t) (JStr ''1P2S'')) transitions))) 64"

definition topology_conclusion :: "num \<Rightarrow> num \<Rightarrow> string" where
  "topology_conclusion rate64 degradation64 =
     (if nle rate64 (F (Fin 8)) then ''publisher-side bottleneck (1P1S itself is slow)''
      else if nlt rate64 (F (Fin 10)) then ''unclear: 64 B degradation crossed 30%, but 1P1S is below 10 Mmsg/s''
      else if nlt (F (rnd (3 / 10))) degradation64 then ''subscriber-scanner bottleneck candidate''
      else ''unclear'')"

record topology_report =
  ts_results_sha :: string
  ts_environment_sha :: string
  ts_measured :: nat
  ts_warmup :: nat
  ts_groups :: topology_groups
  ts_transitions :: "topology_transition list"
  ts_rate64 :: num
  ts_two64 :: num
  ts_percent64 :: num
  ts_exceeds64 :: bool
  ts_conclusion :: string

definition nneg :: "num \<Rightarrow> num" where
  "nneg x = (case x of I n \<Rightarrow> I (- n) | F y \<Rightarrow> F (fneg y))"

definition summarize_topology :: "world \<Rightarrow> string \<Rightarrow> topology_report py" where
  "summarize_topology w output =
     bindE (read_text w (slash output ''environment.json'')) (\<lambda>et. bindE (json_loads w et) (\<lambda>environment.
     bindE (topology_records w output) (\<lambda>records. bindE (validate_topology_matrix records environment) (\<lambda>measured.
     bindE (list_key environment ''tested_topologies'') (\<lambda>topologies. bindE (int_list environment ''payloads'') (\<lambda>payloads.
     bindE (topology_groups_of measured topologies payloads) (\<lambda>groups.
     bindE (getitem environment ''tested_topologies'') (\<lambda>tested. bindE (require (payloads = [] \<or> sliceable tested) TypeError) (\<lambda>_.
     bindE (mapE (topology_transition_of groups) (pairs_of payloads (neighbours topologies))) (\<lambda>transitions.
     bindE (case one_to_two transitions of None \<Rightarrow> Inl (ValueError ''A 1P1S to 1P2S transition at 64 B is required'') | Some t \<Rightarrow> Inr t) (\<lambda>p64.
     bindE (group_stats groups (JStr ''1P1S'', 64)) (\<lambda>one. bindE (group_stats groups (JStr ''1P2S'', 64)) (\<lambda>two.
     bindE (file_sha w (slash output ''results.jsonl'')) (\<lambda>rh. bindE (file_sha w (slash output ''environment.json'')) (\<lambda>eh.
     Inr \<lparr>ts_results_sha = rh, ts_environment_sha = eh, ts_measured = length measured, ts_warmup = length records - length measured,
       ts_groups = groups, ts_transitions = transitions, ts_rate64 = sw_median one, ts_two64 = sw_median two, ts_percent64 = tt_percent p64,
       ts_exceeds64 = tt_exceeds p64, ts_conclusion = topology_conclusion (sw_median one) (nneg (tt_change p64))\<rparr>)))))))))))))))"

section \<open>The payload summary\<close>

record payload_group =
  pg_stats :: sweep_stats
  pg_stride :: int
  pg_mod64 :: int
  pg_aligned :: bool

record payload_transition =
  py_from :: int
  py_to :: int
  py_change :: "num option"
  py_percent :: "num option"
  py_breakpoint :: bool

type_synonym payload_groups = "(int \<times> payload_group) list"

definition in_payload_cell :: "int \<Rightarrow> json \<Rightarrow> bool py" where
  "in_payload_cell payload record = bindE (int_key record ''payload'') (\<lambda>p. Inr (p = payload))"

definition payload_group_of :: "json list \<Rightarrow> json \<Rightarrow> ring_constants \<Rightarrow> int \<Rightarrow> payload_group py" where
  "payload_group_of measured environment ring payload =
     bindE (filterE (in_payload_cell payload) measured) (\<lambda>cell. bindE (mapE sweep_rate cell) (\<lambda>rates.
     bindE (int_key environment ''messages'') (\<lambda>messages. bindE (int_key environment ''capacity_bytes'') (\<lambda>capacity.
     bindE (analyze_layout (jint payload) (jint messages) [I 1, I 1] (jint (kHeaderSize ring)) (jint (kFrameAlign ring)) (jint capacity)) (\<lambda>layout.
     bindE (sweep_stats_of rates) (\<lambda>s.
     Inr \<lparr>pg_stats = s, pg_stride = ly_stride layout, pg_mod64 = ly_mod64 layout, pg_aligned = ly_aligned layout\<rparr>))))))"

definition payload_median :: "payload_groups \<Rightarrow> int \<Rightarrow> num py" where
  "payload_median groups payload = (case map_of groups payload of None \<Rightarrow> Inl KeyError | Some g \<Rightarrow> Inr (sw_median (pg_stats g)))"

definition payload_transition_of :: "payload_groups \<Rightarrow> int \<times> int \<Rightarrow> payload_transition py" where
  "payload_transition_of groups pc = (case pc of (previous, current) \<Rightarrow>
     bindE (payload_median groups previous) (\<lambda>old. bindE (payload_median groups current) (\<lambda>new.
     if exact old = Fin 0 then Inr \<lparr>py_from = previous, py_to = current, py_change = None, py_percent = None, py_breakpoint = False\<rparr>
     else bindE (nsub new old) (\<lambda>d. bindE (ndiv d old) (\<lambda>change. bindE (nmul change (I 100)) (\<lambda>percent.
       Inr \<lparr>py_from = previous, py_to = current, py_change = Some change, py_percent = Some percent,
         py_breakpoint = nlt (F (Fin (1 / 2))) (nabs change)\<rparr>))))))"

definition difference_56_64 :: "payload_groups \<Rightarrow> num option py" where
  "difference_56_64 groups = (case (map_of groups 56, map_of groups 64) of
       (Some a, Some b) \<Rightarrow> bindE (nsub (sw_median (pg_stats a)) (sw_median (pg_stats b))) (\<lambda>d.
         bindE (ndiv d (sw_median (pg_stats b))) (\<lambda>x. Inr (Some x)))
     | _ \<Rightarrow> Inr None)"

definition h2_supported :: "num option \<Rightarrow> bool" where
  "h2_supported d = (case d of None \<Rightarrow> False | Some x \<Rightarrow> nlt (F (rnd (1 / 5))) x)"

definition payload_conclusion :: "num option \<Rightarrow> payload_transition list \<Rightarrow> string" where
  "payload_conclusion d breakpoints =
     (if h2_supported d then ''H2 supported: 56 B is more than 20% faster than 64 B''
      else if breakpoints \<noteq> [] then ''payload breakpoint detected'' else ''no clear payload breakpoint; alignment signal absent'')"

record payload_report =
  ys_results_sha :: string
  ys_environment_sha :: string
  ys_measured :: nat
  ys_warmup :: nat
  ys_groups :: payload_groups
  ys_transitions :: "payload_transition list"
  ys_breakpoints :: "payload_transition list"
  ys_difference :: "num option"
  ys_h2 :: bool
  ys_conclusion :: string

definition summarize_payload :: "world \<Rightarrow> string \<Rightarrow> string \<Rightarrow> payload_report py" where
  "summarize_payload w repo output =
     bindE (read_text w (slash output ''environment.json'')) (\<lambda>et. bindE (json_loads w et) (\<lambda>environment.
     bindE (payload_records w output) (\<lambda>records. bindE (validate_payload_matrix records environment) (\<lambda>measured.
     bindE (source_constants w repo) (\<lambda>ring. bindE (int_list environment ''payloads'') (\<lambda>payloads.
     bindE (foldE (\<lambda>p groups. bindE (payload_group_of measured environment ring p) (\<lambda>g. Inr (dict_put p g groups))) payloads []) (\<lambda>groups.
     bindE (mapE (payload_transition_of groups) (neighbours payloads)) (\<lambda>transitions.
     bindE (difference_56_64 groups) (\<lambda>d.
     bindE (case d of None \<Rightarrow> Inr None | Some x \<Rightarrow> bindE (nmul x (I 100)) (\<lambda>y. Inr (Some y))) (\<lambda>percent.
     bindE (file_sha w (slash output ''results.jsonl'')) (\<lambda>rh. bindE (file_sha w (slash output ''environment.json'')) (\<lambda>eh.
     let breakpoints = filter py_breakpoint transitions in
     Inr \<lparr>ys_results_sha = rh, ys_environment_sha = eh, ys_measured = length measured, ys_warmup = length records - length measured,
       ys_groups = groups, ys_transitions = transitions, ys_breakpoints = breakpoints, ys_difference = percent,
       ys_h2 = h2_supported d, ys_conclusion = payload_conclusion d breakpoints\<rparr>))))))))))))"

section \<open>Refreshing the checksums\<close>

text \<open>The listed entries without the list itself, then every regular file of the directory with its digest.\<close>

definition kept_entry :: "string \<Rightarrow> (string \<times> string) list py" where
  "kept_entry line = (case partition_at ''  '' line of (checksum, separator, name) \<Rightarrow>
     bindE (value_fail (\<not> separator) ''Invalid checksum line'') (\<lambda>_.
     Inr (if name = ''SHA256SUMS'' then [] else [(name, checksum)])))"

definition refresh_checksums :: "world \<Rightarrow> string \<Rightarrow> string list \<Rightarrow> string py" where
  "refresh_checksums w output names =
     bindE (read_text w (slash output ''SHA256SUMS'')) (\<lambda>t. bindE (mapE kept_entry (splitlines t)) (\<lambda>kept.
     bindE (mapE (\<lambda>n. bindE (file_sha w (slash output n)) (\<lambda>h. Inr (n, h)))
       (filter (\<lambda>n. n \<noteq> ''SHA256SUMS'') (sort (filter (\<lambda>n. is_file w (slash output n)) names)))) (\<lambda>fresh.
     let entries = dict_of (concat kept @ fresh) in
     Inr (concat (map (\<lambda>(n, h). h @ ''  '' @ n @ [nl]) entries)))))"

section \<open>The measured rounds of a matrix\<close>

text \<open>
  The interface of a sweep: the key of a record is its cell and its round, and only a record of round 0 is
  dropped.  When the records are all cells with rounds 0 to \<open>n\<close>, each once, and at least as many
  records are dropped as there are cells, then the kept records are all cells with rounds 1 to \<open>n\<close>.
\<close>

locale sweep_matrix =
  fixes key :: "json \<Rightarrow> ('c \<times> int) py" and keep :: "json \<Rightarrow> bool py"
  assumes dropped: "key r = Inr k \<Longrightarrow> keep r = Inr False \<Longrightarrow> snd k = 0"
begin

lemma split_records:
  "mapE key rs = Inr ks \<Longrightarrow> filterE keep rs = Inr ms \<Longrightarrow>
     \<exists>us us' ks'. mapE key ms = Inr ks' \<and> mapE key us = Inr us' \<and> mset ks = mset ks' + mset us' \<and> length us + length ms = length rs
       \<and> (\<forall>k \<in> set us'. snd k = 0)"
proof (induction rs arbitrary: ks ms)
  case Nil then show ?case by (auto intro!: exI [of _ "[]"])
next
  case (Cons r rs)
  obtain k ks0 where k: "key r = Inr k" "mapE key rs = Inr ks0" "ks = k # ks0" using Cons.prems(1) by auto
  obtain b ms0 where b: "keep r = Inr b" "filterE keep rs = Inr ms0" "ms = (if b then r # ms0 else ms0)" using Cons.prems(2) by auto
  obtain us us' ks' where i: "mapE key ms0 = Inr ks'" "mapE key us = Inr us'" "mset ks0 = mset ks' + mset us'"
    "length us + length ms0 = length rs" "\<forall>k \<in> set us'. snd k = 0" using Cons.IH [OF k(2) b(2)] by blast
  show ?case
  proof (cases b)
    case True
    then show ?thesis using k b i by (intro exI [of _ us] exI [of _ us'] exI [of _ "k # ks'"]) simp
  next
    case False
    then have "snd k = 0" using dropped k(1) b(1) by simp
    then show ?thesis using False k b i by (intro exI [of _ "r # us"] exI [of _ "k # us'"] exI [of _ ks']) simp
  qed
qed

lemma measured_keys:
  assumes "mapE key rs = Inr ks" "filterE keep rs = Inr ms" "distinct ks" "set ks = C \<times> {0..n}" "finite C" "card C + length ms \<le> length rs"
  shows "\<exists>ks'. mapE key ms = Inr ks' \<and> distinct ks' \<and> set ks' = C \<times> {1..n}"
proof -
  obtain us us' ks' where u: "mapE key ms = Inr ks'" "mapE key us = Inr us'" "mset ks = mset ks' + mset us'"
    "length us + length ms = length rs" "\<forall>k \<in> set us'. snd k = 0" using split_records [OF assms(1,2)] by blast
  have "distinct (ks' @ us')" using assms(3) u(3) by (metis mset_append mset_eq_imp_distinct_iff)
  then have d: "distinct ks'" "distinct us'" "set ks' \<inter> set us' = {}" by auto
  have un: "set ks' \<union> set us' = C \<times> {0..n}" using u(3) assms(4) by (metis set_mset_mset set_mset_union)
  have sub: "set us' \<subseteq> C \<times> {0}" using u(5) un by fastforce
  have "card C \<le> card (set us')" using assms(6) u(4) mapE_length [OF u(2)] distinct_card [OF d(2)] by simp
  moreover have "card (C \<times> {0 :: int}) = card C" by (simp add: card_cartesian_product)
  ultimately have "set us' = C \<times> {0}" using sub assms(5) by (intro card_seteq) auto
  then have "set ks' = C \<times> {0..n} - C \<times> {0}" using un d(3) by blast
  also have "\<dots> = C \<times> {1..n}" by auto
  finally show ?thesis using u(1) d(1) by blast
qed

end

lemma measured_phase_False:
  assumes "measured_phase record = Inr False" "getitem record ''round'' = Inr v" "to_int v = Inr n" shows "n = 0"
proof -
  have "item_is ''round'' (jint 0) record = Inr True" using assms(1) by (auto simp: measured_phase_def refuse_record_def split: if_splits)
  then obtain x where x: "as_num v = Inr x" "neq x (I 0)" using assms(2) by (auto simp: item_is_def jeq_jint_right)
  then have "exact x = Fin 0" by (simp add: neq_def feq_def)
  then have "num_int x = Inr 0" by (cases x) auto
  then show ?thesis using x(1) assms(3) by (cases v) (auto split: if_splits simp: neq_def)
qed

lemma measured_phase_True:
  "measured_phase record = Inr True \<Longrightarrow> getitem record ''phase'' = Inr (JStr ''measured'')"
  by (auto simp: measured_phase_def refuse_record_def split: if_splits)

interpretation topology_sweep: sweep_matrix topology_key "check_topology_record messages" for messages
proof unfold_locales
  fix r k assume k: "topology_key r = Inr k" and c: "check_topology_record messages r = Inr False"
  have "measured_phase r = Inr False" using c by (auto simp: check_topology_record_def)
  moreover obtain v where "getitem r ''round'' = Inr v" "to_int v = Inr (snd k)" using k by (auto simp: topology_key_def int_key_def)
  ultimately show "snd k = 0" using measured_phase_False by blast
qed

interpretation payload_sweep: sweep_matrix payload_key "check_payload_record messages" for messages
proof unfold_locales
  fix r k assume k: "payload_key r = Inr k" and c: "check_payload_record messages r = Inr False"
  have "measured_phase r = Inr False" using c by (auto simp: check_payload_record_def)
  moreover obtain v where "getitem r ''round'' = Inr v" "to_int v = Inr (snd k)" using k by (auto simp: payload_key_def int_key_def)
  ultimately show "snd k = 0" using measured_phase_False by blast
qed

lemma distinct_by_eq:
  assumes "distinct_by eq xs" "\<And>x. x \<in> set xs \<Longrightarrow> eq x x" shows "distinct xs"
  using assms by (induction xs) auto

lemma topology_cells_set: "set (topology_cells topologies payloads n) = (set topologies \<times> set payloads) \<times> {0..n}"
  by (auto simp: topology_cells_def)

lemma payload_cells_set: "set (payload_cells payloads n) = set payloads \<times> {0..n}"
  by (auto simp: payload_cells_def)

lemma cell_eq_str: "is_str (fst (fst y)) \<Longrightarrow> cell_eq x y \<longleftrightarrow> x = y"
  by (cases x rule: prod.exhaust; cases y rule: prod.exhaust; cases "fst x"; cases "fst y"; cases "fst (fst y)") auto

lemma same_cells_str:
  assumes "same_cells cell_eq ks cs" "\<forall>c \<in> set cs. is_str (fst (fst c))" shows "distinct ks \<and> set ks = set cs"
proof -
  have a: "\<forall>x \<in> set ks. \<exists>y \<in> set cs. cell_eq x y" "\<forall>y \<in> set cs. \<exists>x \<in> set ks. cell_eq x y" "distinct_by cell_eq ks"
    using assms(1) unfolding same_cells_def by blast+
  have c: "cell_eq x y \<longleftrightarrow> x = y" if "y \<in> set cs" for x y using cell_eq_str assms(2) that by metis
  have sub: "k \<in> set cs" if "k \<in> set ks" for k using a(1) c that by metis
  have "cell_eq k k" if "k \<in> set ks" for k using c [OF sub [OF that]] by simp
  then have "distinct ks" by (rule distinct_by_eq [OF a(3)])
  moreover have "k \<in> set ks" if "k \<in> set cs" for k using a(2) c [OF that] that by metis
  ultimately show ?thesis using sub by blast
qed

lemma validate_topology_Inr:
  assumes "validate_topology_matrix records environment = Inr measured" "list_key environment ''tested_topologies'' = Inr topologies"
    "\<forall>t \<in> set topologies. is_str t" "int_list environment ''payloads'' = Inr payloads" "int_key environment ''rounds'' = Inr rounds"
    "int_key environment ''messages'' = Inr messages"
  shows "\<exists>ks. mapE topology_key measured = Inr ks \<and> distinct ks \<and> set ks = (set topologies \<times> set payloads) \<times> {1..rounds}
    \<and> (\<forall>r \<in> set measured. check_topology_record messages r = Inr True)"
proof -
  obtain ks where v: "mapE topology_key records = Inr ks" "same_cells cell_eq ks (topology_cells topologies payloads rounds)"
    "filterE (check_topology_record messages) records = Inr measured"
    "int (length measured) = int (length records) - int (length topologies * length payloads)"
    using assms(1) unfolding validate_topology_matrix_def bindE_Inr value_fail_Inr not_not assms(2,4-6) sum.inject by blast
  have k: "distinct ks" "set ks = (set topologies \<times> set payloads) \<times> {0..rounds}"
    using same_cells_str [OF v(2)] assms(3) unfolding topology_cells_set by auto
  have "card (set topologies \<times> set payloads) \<le> length topologies * length payloads"
    by (simp add: card_cartesian_product card_length mult_le_mono)
  then have "card (set topologies \<times> set payloads) + length measured \<le> length records" using v(4) by linarith
  from topology_sweep.measured_keys [OF v(1,3) k _ this] obtain ks' where
    "mapE topology_key measured = Inr ks'" "distinct ks'" "set ks' = (set topologies \<times> set payloads) \<times> {1..rounds}" by auto
  moreover have "\<forall>r \<in> set measured. check_topology_record messages r = Inr True" using filterE_set [OF v(3)] by blast
  ultimately show ?thesis by blast
qed

lemma in_topology_cell_key:
  "topology_key r = Inr k \<Longrightarrow> is_str t \<Longrightarrow> in_topology_cell t p r = Inr (fst k = (t, p))"
proof -
  assume k: "topology_key r = Inr k" and t: "is_str t"
  obtain u q n where u: "getitem r ''topology'' = Inr u" "int_key r ''payload'' = Inr q" "k = ((u, q), n)"
    using k unfolding topology_key_def bindE_Inr sum.inject by blast
  obtain x where "t = JStr x" using t by (cases t) simp_all
  then show ?thesis using u by (simp add: in_topology_cell_def item_is_def)
qed

lemma topology_cell_length:
  assumes "mapE topology_key ms = Inr ks" "is_str t" "filterE (in_topology_cell t p) ms = Inr cell"
  shows "length cell = length (filter (\<lambda>k. fst k = (t, p)) ks)"
  using assms(1,3)
proof (induction ms arbitrary: ks cell)
  case (Cons r ms)
  obtain k ks0 where k: "topology_key r = Inr k" "mapE topology_key ms = Inr ks0" "ks = k # ks0" using Cons.prems(1) by auto
  obtain b c0 where c: "in_topology_cell t p r = Inr b" "filterE (in_topology_cell t p) ms = Inr c0" "cell = (if b then r # c0 else c0)"
    using Cons.prems(2) by auto
  have "b = (fst k = (t, p))" using in_topology_cell_key [OF k(1) assms(2)] c(1) by simp
  then show ?case using Cons.IH [OF k(2) c(2)] k(3) c(3) by simp
qed simp

lemma cell_count:
  assumes "distinct ks" "set ks = C \<times> {1..n}" "c \<in> C" shows "length (filter (\<lambda>k. fst k = c) ks) = nat n"
proof -
  have "set (filter (\<lambda>k. fst k = c) ks) = {c} \<times> {1..n}" using assms(2,3) by auto
  then have "card (set (filter (\<lambda>k. fst k = c) ks)) = nat n" by (simp add: card_cartesian_product)
  then show ?thesis using distinct_card [OF distinct_filter [OF assms(1), of "\<lambda>k. fst k = c"]] by simp
qed

lemma sweep_stats_rounds: "sweep_stats_of vs = Inr s \<Longrightarrow> sw_rounds s = length vs"
  by (auto simp: sweep_stats_of_def)

lemma groups_loop:
  assumes "foldE (\<lambda>(t, p) groups. bindE (f t p) (\<lambda>s. Inr (dict_put (t, p) s groups))) tps g0 = Inr groups" "(t, p) \<in> set tps \<or> (\<exists>s. map_of g0 (t, p) = Some s \<and> f t p = Inr s)"
  shows "\<exists>s. map_of groups (t, p) = Some s \<and> f t p = Inr s"
  using assms
proof (induction tps arbitrary: g0)
  case (Cons tp tps)
  obtain t1 p1 where tp: "tp = (t1, p1)" by (cases tp)
  obtain s1 where s1: "f t1 p1 = Inr s1" "foldE (\<lambda>(t, p) groups. bindE (f t p) (\<lambda>s. Inr (dict_put (t, p) s groups))) tps (dict_put (t1, p1) s1 g0) = Inr groups"
    using Cons.prems(1) tp by auto
  have "(t, p) \<in> set tps \<or> (\<exists>s. map_of (dict_put (t1, p1) s1 g0) (t, p) = Some s \<and> f t p = Inr s)"
    using Cons.prems(2) s1(1) by (auto simp: tp map_of_dict_put)
  then show ?case using Cons.IH [OF s1(2)] by blast
qed auto

lemma checked_topology_record:
  assumes "check_topology_record messages r = Inr True"
  shows "getitem r ''phase'' = Inr (JStr ''measured'') \<and> (\<exists>result. getitem r ''result'' = Inr result
    \<and> int_key result ''published'' = Inr messages \<and> int_key result ''latency_samples'' = Inr 0
    \<and> (\<forall>c. getitem r ''consumers'' = Inr (jint c) \<longrightarrow> int_key result ''delivered'' = Inr (messages * c)))"
proof -
  obtain result consumers delivered payload bad u where c: "getitem r ''result'' = Inr result" "getitem r ''consumers'' = Inr consumers"
    "times_json messages consumers = Inr delivered"
    "someE (mismatch result) [(''published'', jint messages), (''delivered'', delivered), (''producers'', jint 1),
       (''consumers'', consumers), (''payload'', payload), (''latency_samples'', jint 0), (''latency_sample_rate'', jint 0),
       (''rate_per_producer'', jint 0), (''scenario'', JStr ''fifo'')] = Inr bad"
    "refuse_record bad ''Result metadata mismatch'' r = Inr u" "measured_phase r = Inr True"
    using assms unfolding check_topology_record_def bindE_Inr by blast
  have "bad = False" using c(5) by (auto simp: refuse_record_def split: if_splits)
  note c = c [unfolded this]
  have m: "mismatch result (''published'', jint messages) = Inr False" "mismatch result (''delivered'', delivered) = Inr False"
    "mismatch result (''latency_samples'', jint 0) = Inr False"
    using c(4) unfolding someE_False by simp_all
  have "int_key result ''delivered'' = Inr (messages * n)" if "consumers = jint n" for n
  proof -
    have "delivered = jint (messages * n)" using c(3) that by (simp add: nmul_def lift_num_def)
    then show ?thesis using m(2) by (auto simp: mismatch_def)
  qed
  then show ?thesis using c(1,2) m(1,3) measured_phase_True [OF c(6)] by (auto simp: mismatch_def)
qed

text \<open>C14. A topology sweep is summarised only when its records are the matrix of its environment: every group of a topology and payload
  rests on exactly the required number of measured rounds, numbered 1 to \<open>rounds\<close> without repetition, warm-ups
  excluded, and every one of them published the planned messages and delivered them to all its consumers.\<close>

theorem sweep_groups_complete:
  assumes "summarize_topology w output = Inr report" "read_text w (slash output ''environment.json'') = Inr et" "json_loads w et = Inr environment"
    "list_key environment ''tested_topologies'' = Inr topologies" "\<forall>t \<in> set topologies. is_str t" "int_list environment ''payloads'' = Inr payloads"
    "int_key environment ''rounds'' = Inr rounds" "int_key environment ''messages'' = Inr messages"
  shows "\<exists>measured ks. mapE topology_key measured = Inr ks \<and> distinct ks \<and> set ks = (set topologies \<times> set payloads) \<times> {1..rounds}
    \<and> ts_measured report = length measured
    \<and> (\<forall>t \<in> set topologies. \<forall>p \<in> set payloads. \<exists>s. map_of (ts_groups report) (t, p) = Some s
        \<and> topology_cell_stats measured t p = Inr s \<and> sw_rounds s = nat rounds)
    \<and> (\<forall>r \<in> set measured. getitem r ''phase'' = Inr (JStr ''measured'') \<and> (\<exists>result. getitem r ''result'' = Inr result
        \<and> int_key result ''published'' = Inr messages \<and> int_key result ''latency_samples'' = Inr 0
        \<and> (\<forall>c. getitem r ''consumers'' = Inr (jint c) \<longrightarrow> int_key result ''delivered'' = Inr (messages * c))))"
proof -
  obtain records measured where s: "validate_topology_matrix records environment = Inr measured"
    "topology_groups_of measured topologies payloads = Inr (ts_groups report)" "ts_measured report = length measured"
    using assms(1) unfolding summarize_topology_def assms(2-4,6) bindE.simps unfolding bindE_Inr sum.inject
    by (elim exE conjE) (hypsubst, unfold topology_report.simps, blast)
  obtain ks where k: "mapE topology_key measured = Inr ks" "distinct ks" "set ks = (set topologies \<times> set payloads) \<times> {1..rounds}"
    "\<forall>r \<in> set measured. check_topology_record messages r = Inr True"
    using validate_topology_Inr [OF s(1) assms(4-8)] by blast
  have "\<exists>s. map_of (ts_groups report) (t, p) = Some s \<and> topology_cell_stats measured t p = Inr s \<and> sw_rounds s = nat rounds"
    if t: "t \<in> set topologies" "p \<in> set payloads" for t p
  proof -
    have "(t, p) \<in> set (pairs_of topologies payloads)" using t by (auto simp: pairs_of_def)
    then obtain x where x: "map_of (ts_groups report) (t, p) = Some x" "topology_cell_stats measured t p = Inr x"
      using groups_loop [of "topology_cell_stats measured" _ "[]" "ts_groups report" t p] s(2) unfolding topology_groups_of_def by blast
    obtain cell vs where c: "filterE (in_topology_cell t p) measured = Inr cell" "mapE sweep_rate cell = Inr vs" "sweep_stats_of vs = Inr x"
      using x(2) by (auto simp: topology_cell_stats_def)
    have "length cell = nat rounds" using topology_cell_length [OF k(1) _ c(1)] cell_count [OF k(2,3)] t assms(5) by auto
    then show ?thesis using x sweep_stats_rounds [OF c(3)] mapE_length [OF c(2)] by simp
  qed
  moreover have "getitem r ''phase'' = Inr (JStr ''measured'') \<and> (\<exists>result. getitem r ''result'' = Inr result
        \<and> int_key result ''published'' = Inr messages \<and> int_key result ''latency_samples'' = Inr 0
        \<and> (\<forall>c. getitem r ''consumers'' = Inr (jint c) \<longrightarrow> int_key result ''delivered'' = Inr (messages * c)))" if r: "r \<in> set measured" for r
    using k(4) r by (intro checked_topology_record) blast
  ultimately show ?thesis using k(1-3) s(3) by blast
qed

section \<open>A concrete sweep\<close>

definition demo_hash :: string where
  "demo_hash = replicate 64 (CHR ''a'')"

definition sweep_record :: "string \<Rightarrow> int \<Rightarrow> int \<Rightarrow> json" where
  "sweep_record topology n consumers = JObj [(''topology'', JStr topology), (''payload'', jint 64), (''round'', jint n), (''consumers'', jint consumers),
     (''phase'', JStr (if n = 0 then ''warmup'' else ''measured'')), (''stdout'', JStr ''log''), (''stdout_sha256'', JStr demo_hash),
     (''number'', jint 1), (''result'', JObj [(''published'', JStr ''10''), (''delivered'', jint (10 * consumers)), (''producers'', JStr ''1''),
        (''consumers'', jint consumers), (''payload'', JStr ''64''), (''latency_samples'', JStr ''0''), (''latency_sample_rate'', JStr ''0''),
        (''rate_per_producer'', JStr ''0''), (''scenario'', JStr ''fifo''), (''publish_msg_per_sec'', jint 9000000)])]"

definition sweep_environment :: json where
  "sweep_environment = JObj [(''rounds'', jint 1), (''payloads'', JList [jint 64]), (''messages'', jint 10),
     (''tested_topologies'', JList [JStr ''1P1S'', JStr ''1P2S''])]"

definition sweep_world :: world where
  "sweep_world = \<lparr>file_text = map_of [(''o/environment.json'', ''e''), (''o/SHA256SUMS'', demo_hash @ ''  log'' @ [nl]),
       (''o/results.jsonl'', ''a'' @ [nl] @ ''b'' @ [nl] @ ''c'' @ [nl] @ ''d''), (''o/log'', ''x'')],
     sha256_hex = (\<lambda>t. demo_hash),
     json_loads = (\<lambda>t. if t = ''e'' then Inr sweep_environment else if t = ''a'' then Inr (sweep_record ''1P1S'' 0 1)
       else if t = ''b'' then Inr (sweep_record ''1P2S'' 0 2) else if t = ''c'' then Inr (sweep_record ''1P1S'' 1 1) else Inr (sweep_record ''1P2S'' 1 2)),
     globbed = (\<lambda>_ _. []), resolved = (\<lambda>p. p)\<rparr>"

text \<open>Equal rates of nine million messages: the conclusion speaks of a crossed degradation that did not happen.\<close>

lemma conclusion_overstates:
  "case summarize_topology sweep_world ''o'' of Inl _ \<Rightarrow> False
     | Inr r \<Rightarrow> \<not> ts_exceeds64 r \<and> ts_percent64 r = F (Fin 0) \<and> ts_conclusion r = ''unclear: 64 B degradation crossed 30%, but 1P1S is below 10 Mmsg/s''"
  by code_simp

lemma sweep_groups_complete_witness:
  "\<exists>report. summarize_topology sweep_world ''o'' = Inr report
     \<and> (\<exists>s. map_of (ts_groups report) (JStr ''1P2S'', 64) = Some s \<and> sw_rounds s = 1)"
proof -
  obtain report where r: "summarize_topology sweep_world ''o'' = Inr report" using conclusion_overstates by (auto split: sum.splits)
  have e: "read_text sweep_world (slash ''o'' ''environment.json'') = Inr ''e''" "json_loads sweep_world ''e'' = Inr sweep_environment"
    "list_key sweep_environment ''tested_topologies'' = Inr [JStr ''1P1S'', JStr ''1P2S'']" "int_list sweep_environment ''payloads'' = Inr [64]"
    "int_key sweep_environment ''rounds'' = Inr 1" "int_key sweep_environment ''messages'' = Inr 10"
    by (simp_all add: sweep_world_def sweep_environment_def read_text_def slash_def list_key_def int_list_def int_key_def)
  have "\<forall>t \<in> set [JStr ''1P1S'', JStr ''1P2S'']. is_str t" by simp
  from sweep_groups_complete [OF r e(1-3) this e(4-6)] show ?thesis using r by auto
qed

section \<open>Refreshed checksums can be loaded\<close>

text \<open>Checksum lists read back what was written: a digest without white space, two spaces, a name.\<close>

lemma partition_spaces:
  assumes "\<forall>c \<in> set h. \<not> is_space c" shows "partition_at ''  '' (h @ ''  '' @ n) = (h, True, n)"
  using assms by (induction h) (auto simp: is_space_def Let_def)

lemma splitlines_no_eol: "l \<in> set (lines_acc w s) \<Longrightarrow> \<forall>c \<in> set w. \<not> is_eol c \<Longrightarrow> \<forall>c \<in> set l. \<not> is_eol c"
  by (induction w s rule: lines_acc.induct) (auto split: if_splits)

lemma partition_again:
  "partition_at sep s = (a, True, b) \<Longrightarrow> sep \<noteq> [] \<Longrightarrow> s = a @ sep @ b"
  using partition_at_found by blast

lemma dict_put_set: "set (dict_put k v d) \<subseteq> insert (k, v) (set d)"
  by (induction k v d rule: dict_put.induct) auto

lemma dict_of_set: "set (dict_of kvs) \<subseteq> set kvs"
proof -
  have "set (fold (\<lambda>(k, v). dict_put k v) kvs d) \<subseteq> set kvs \<union> set d" for d
  proof (induction kvs arbitrary: d)
    case (Cons kv kvs)
    show ?case using Cons [of "dict_put (fst kv) (snd kv) d"] dict_put_set [of "fst kv" "snd kv" d] by (auto simp: case_prod_beta)
  qed simp
  from this [of "[]"] show ?thesis by (simp add: dict_of_def)
qed

lemma distinct_map_of_rev: "distinct (map fst d) \<Longrightarrow> map_of (rev d) = map_of d"
  by (subst map_of_inject_set) (auto simp flip: rev_map)

lemma dict_of_again: "map_of (dict_of (dict_of kvs)) = map_of (dict_of kvs)"
proof -
  have d: "distinct (map fst (fold (\<lambda>(k, v). dict_put k v) kvs d))" if "distinct (map fst d)" for kvs :: "('a \<times> 'b) list" and d
    using that by (induction kvs arbitrary: d) (auto simp: distinct_dict_put)
  have "distinct (map fst (dict_of kvs))" unfolding dict_of_def by (rule d) simp
  then show ?thesis by (simp add: map_of_dict_of distinct_map_of_rev)
qed

definition entry_line :: "string \<times> string \<Rightarrow> string" where
  "entry_line kv = snd kv @ ''  '' @ fst kv"

lemma kept_lines:
  assumes "sums_line line = Inr (n, h)" shows "length h = 64 \<and> line = entry_line (n, h) \<and> partition_at ''  '' line = (h, True, n)"
proof -
  obtain a f b where p: "partition_at ''  '' line = (a, f, b)" by (cases "partition_at ''  '' line")
  then show ?thesis using assms partition_again [of "''  ''" line a b] by (auto simp: sums_line_def entry_line_def)
qed

lemma kept_of_sums: "sums_line line = Inr (n, h) \<Longrightarrow> kept_entry line = Inr (if n = ''SHA256SUMS'' then [] else [(n, h)])"
  using kept_lines [of line n h] by (auto simp: kept_entry_def)

lemma refreshed_kept:
  "mapE sums_line ls = Inr kvs \<Longrightarrow> mapE kept_entry ls = Inr kept \<Longrightarrow> concat kept = filter (\<lambda>kv. fst kv \<noteq> ''SHA256SUMS'') kvs"
proof (induction ls arbitrary: kvs kept)
  case (Cons l ls)
  obtain n h kvs1 where k: "sums_line l = Inr (n, h)" "mapE sums_line ls = Inr kvs1" "kvs = (n, h) # kvs1" using Cons.prems(1) by auto
  then show ?case using Cons.IH [OF k(2)] Cons.prems(2) kept_of_sums [OF k(1)] by auto
qed simp

lemma refreshed_fresh:
  "mapE (\<lambda>n. bindE (file_sha w (f n)) (\<lambda>h. Inr (n, h))) ns = Inr fresh \<Longrightarrow> fresh = map (\<lambda>n. (n, sha256_hex w (the (file_text w (f n))))) ns"
  by (induction ns arbitrary: fresh) (auto simp: file_sha_Inr)

lemma map_of_rev_graph: "map_of (rev (map (\<lambda>n. (n, g n)) ns)) n = (if n \<in> set ns then Some (g n) else None)"
  by (induction ns) (auto simp: map_add_def)

lemma map_of_rev_filter: "k \<noteq> x \<Longrightarrow> map_of (rev (filter (\<lambda>kv. fst kv \<noteq> x) kvs)) k = map_of (rev kvs) k"
  by (induction kvs) (auto simp: map_add_def split: option.splits)

text \<open>C29. Refreshing the checksums of a sweep directory repairs the list: if the old list is well formed and digests are 64 characters
  without white space, the new list loads, gives every regular file of the directory except itself its current digest,
  and keeps the old entry of every other listed name.\<close>

theorem refresh_then_load:
  assumes "refresh_checksums w output names = Inr text'" "load_sums w output = Inr old"
    "\<forall>t. length (sha256_hex w t) = 64 \<and> (\<forall>c \<in> set (sha256_hex w t). \<not> is_space c)" "\<forall>n \<in> set names. \<forall>c \<in> set n. \<not> is_eol c"
  shows "\<exists>kvs. mapE sums_line (splitlines text') = Inr kvs
    \<and> (\<forall>n t. n \<in> set names \<and> n \<noteq> ''SHA256SUMS'' \<and> file_text w (slash output n) = Some t \<longrightarrow> map_of (dict_of kvs) n = Some (sha256_hex w t))
    \<and> (\<forall>n. n \<notin> set names \<and> n \<noteq> ''SHA256SUMS'' \<longrightarrow> map_of (dict_of kvs) n = map_of old n)"
proof -
  obtain t kept fresh where r: "read_text w (slash output ''SHA256SUMS'') = Inr t" "mapE kept_entry (splitlines t) = Inr kept"
    "mapE (\<lambda>n. bindE (file_sha w (slash output n)) (\<lambda>h. Inr (n, h)))
       (filter (\<lambda>n. n \<noteq> ''SHA256SUMS'') (sort (filter (\<lambda>n. is_file w (slash output n)) names))) = Inr fresh"
    "text' = concat (map (\<lambda>(n, h). h @ ''  '' @ n @ [nl]) (dict_of (concat kept @ fresh)))"
    using assms(1) unfolding refresh_checksums_def Let_def bindE_Inr sum.inject by blast
  obtain kvs0 where o: "mapE sums_line (splitlines t) = Inr kvs0" "old = dict_of kvs0"
    using assms(2) r(1) unfolding load_sums_def by auto
  let ?names = "filter (\<lambda>n. n \<noteq> ''SHA256SUMS'') (sort (filter (\<lambda>n. is_file w (slash output n)) names))"
  let ?entries = "dict_of (concat kept @ fresh)"
  have kept: "concat kept = filter (\<lambda>kv. fst kv \<noteq> ''SHA256SUMS'') kvs0" using refreshed_kept [OF o(1) r(2)] .
  have fresh: "fresh = map (\<lambda>n. (n, sha256_hex w (the (file_text w (slash output n))))) ?names" using refreshed_fresh [OF r(3)] .
  have good: "sums_line (entry_line kv) = Inr kv \<and> (\<forall>c \<in> set (entry_line kv). \<not> is_eol c)" if "kv \<in> set ?entries" for kv
  proof -
    have "kv \<in> set (concat kept @ fresh)" using that dict_of_set [of "concat kept @ fresh"] by blast
    then consider "kv \<in> set kvs0" | "kv \<in> set fresh" unfolding kept set_append set_filter by blast
    then show ?thesis
    proof cases
      case 1
      then obtain line where l: "line \<in> set (splitlines t)" "sums_line line = Inr kv" using mapE_set_D [OF o(1)] by blast
      have "line = entry_line kv" using kept_lines [of line "fst kv" "snd kv"] l(2) by simp
      then show ?thesis using l splitlines_no_eol [OF l(1)] by simp
    next
      case 2
      then obtain n where n: "n \<in> set names" "kv = (n, sha256_hex w (the (file_text w (slash output n))))" unfolding fresh by auto
      have "\<forall>c \<in> set (snd kv). \<not> is_space c" "length (snd kv) = 64" using assms(3) n(2) by auto
      moreover have "is_eol c \<Longrightarrow> is_space c" for c by (auto simp: is_eol_def is_space_def)
      moreover have "\<not> is_eol (CHR '' '')" by (simp add: is_eol_def)
      ultimately show ?thesis using partition_spaces [of "snd kv" "fst kv"] assms(4) n
        by (auto simp: sums_line_def entry_line_def value_fail_def)
    qed
  qed
  have "text' = concat (map (\<lambda>l. l @ [nl]) (map entry_line ?entries))" unfolding r(4)
    by (rule arg_cong [of _ _ concat]) (auto simp: entry_line_def)
  then have "splitlines text' = map entry_line ?entries" using splitlines_concat [of "map entry_line ?entries"] good by auto
  moreover have "mapE sums_line (map entry_line ?entries) = Inr ?entries" using good by (auto simp: mapE_Inr list_all2_conv_all_nth)
  ultimately have load: "mapE sums_line (splitlines text') = Inr ?entries" by simp
  have look: "map_of (dict_of ?entries) n = (case map_of (rev fresh) n of Some h \<Rightarrow> Some h | None \<Rightarrow> map_of (rev (concat kept)) n)" for n
    using dict_of_again [of "concat kept @ fresh"] map_of_dict_of [of "concat kept @ fresh"] by (simp add: map_add_def)
  have fr: "map_of (rev fresh) n = (if n \<in> set ?names then Some (sha256_hex w (the (file_text w (slash output n)))) else None)" for n
    unfolding fresh by (rule map_of_rev_graph)
  have "map_of (dict_of ?entries) n = Some (sha256_hex w u)" if "n \<in> set names" "n \<noteq> ''SHA256SUMS''" "file_text w (slash output n) = Some u" for n u
    using that unfolding look fr by (simp add: is_file_def)
  moreover have "map_of (dict_of ?entries) n = map_of old n" if "n \<notin> set names" "n \<noteq> ''SHA256SUMS''" for n
  proof -
    have "map_of (dict_of ?entries) n = map_of (rev (concat kept)) n" using that unfolding look fr by simp
    also have "\<dots> = map_of old n" unfolding kept o(2) map_of_dict_of using that(2) by (rule map_of_rev_filter)
    finally show ?thesis .
  qed
  ultimately show ?thesis using load by blast
qed

lemma refresh_then_load_witness:
  "\<exists>text' kvs. refresh_checksums sweep_world ''o'' [''log'', ''results.jsonl''] = Inr text' \<and> mapE sums_line (splitlines text') = Inr kvs
     \<and> map_of (dict_of kvs) ''results.jsonl'' = Some demo_hash"
proof -
  have "case refresh_checksums sweep_world ''o'' [''log'', ''results.jsonl''] of Inl _ \<Rightarrow> False | Inr _ \<Rightarrow> True" by code_simp
  then obtain t where t: "refresh_checksums sweep_world ''o'' [''log'', ''results.jsonl''] = Inr t" by (auto split: sum.splits)
  have "case load_sums sweep_world ''o'' of Inl _ \<Rightarrow> False | Inr _ \<Rightarrow> True" by code_simp
  then obtain old where o: "load_sums sweep_world ''o'' = Inr old" by (auto split: sum.splits)
  have h: "\<forall>t. length (sha256_hex sweep_world t) = 64 \<and> (\<forall>c \<in> set (sha256_hex sweep_world t). \<not> is_space c)"
    by (simp add: sweep_world_def demo_hash_def is_space_def)
  have n: "\<forall>n \<in> set [''log'', ''results.jsonl'']. \<forall>c \<in> set n. \<not> is_eol c" by (simp add: is_eol_def)
  have "file_text sweep_world (slash ''o'' ''results.jsonl'') = Some (''a'' @ [nl] @ ''b'' @ [nl] @ ''c'' @ [nl] @ ''d'')" by (simp add: sweep_world_def slash_def)
  moreover have "sha256_hex sweep_world u = demo_hash" for u by (simp add: sweep_world_def)
  ultimately show ?thesis using refresh_then_load [OF t o h n] t by auto
qed

text \<open>The payload matrix, in the same way: payloads are listed once.\<close>

lemma validate_payload_Inr:
  assumes "validate_payload_matrix records environment = Inr measured" "int_list environment ''payloads'' = Inr payloads" "distinct payloads"
    "int_key environment ''rounds'' = Inr rounds" "0 \<le> rounds"
  shows "\<exists>ks. mapE payload_key measured = Inr ks \<and> distinct ks \<and> set ks = set payloads \<times> {1..rounds}"
proof -
  obtain ks messages where v: "mapE payload_key records = Inr ks" "same_cells (=) ks (payload_cells payloads rounds)"
    "filterE (check_payload_record messages) records = Inr measured" "int (length measured) = int (length payloads) * rounds"
    using assms(1) unfolding validate_payload_matrix_def bindE_Inr value_fail_Inr not_not assms(2,4) sum.inject by blast
  have k: "distinct ks" "set ks = set payloads \<times> {0..rounds}"
    using v(2) distinct_by_eq [of "(=)" ks] unfolding same_cells_def payload_cells_set [symmetric] by blast+
  have "length records = card (set payloads \<times> {0..rounds})" using mapE_length [OF v(1)] distinct_card [OF k(1)] k(2) by simp
  also have "\<dots> = length payloads * nat (rounds + 1)" using assms(3) by (simp add: card_cartesian_product distinct_card)
  finally have "int (length records) = int (length payloads) * (rounds + 1)" using assms(5) by simp
  then have "card (set payloads) + length measured \<le> length records" using v(4) distinct_card [OF assms(3)] by (simp add: algebra_simps)
  from payload_sweep.measured_keys [OF v(1,3) k _ this] show ?thesis by simp
qed

end
