(* ===== verification/E2Claim.thy ===== *)
theory E2Claim
  imports PyJson
begin

text \<open>
  \<open>analyze_e2_claim.py\<close>: the rounds of the E2 claim-isolation experiment are re-read from their raw output by regular
  expressions, rounds with an issue are dropped and listed, and the throughput of four publisher
  arms is compared over groups.  The Markdown report and printing are not modelled.
\<close>

section \<open>Regular expressions\<close>

text \<open>\<open>re.search(lit + "([class]+)", text)\<close>: the first non-empty run after the literal.\<close>

definition run_after :: "string \<Rightarrow> (char \<Rightarrow> bool) \<Rightarrow> string \<Rightarrow> string option" where
  "run_after lit ok s = (if starts_with s lit then (case takeWhile ok (drop (length lit) s) of [] \<Rightarrow> None | c # r \<Rightarrow> Some (c # r)) else None)"

fun capture :: "string \<Rightarrow> (char \<Rightarrow> bool) \<Rightarrow> string \<Rightarrow> string option" where
  "capture lit ok [] = None"
| "capture lit ok (c # s) = (case run_after lit ok (c # s) of Some r \<Rightarrow> Some r | None \<Rightarrow> capture lit ok s)"

definition digits_after :: "string \<Rightarrow> string \<Rightarrow> (string \<times> string) option" where
  "digits_after lit s = map_option (\<lambda>ds. (ds, drop (length lit + length ds) s)) (run_after lit is_digit s)"

definition spaces_then :: "string \<Rightarrow> string option" where
  "spaces_then s = (case s of [] \<Rightarrow> None | c # _ \<Rightarrow> if is_space c then Some (dropWhile is_space s) else None)"

definition signed_after :: "string \<Rightarrow> string \<Rightarrow> string option" where
  "signed_after lit s = (case run_after lit is_digit s of Some ds \<Rightarrow> Some ds
     | None \<Rightarrow> map_option (\<lambda>ds. CHR ''-'' # ds) (run_after (lit @ ''-'') is_digit s))"

definition state_here :: "string \<Rightarrow> (string \<times> string \<times> string) option" where
  "state_here s = (case digits_after ''actual_threads='' s of None \<Rightarrow> None | Some (threads, r1) \<Rightarrow>
     (case spaces_then r1 of None \<Rightarrow> None | Some r2 \<Rightarrow>
     (case digits_after ''libc_single_threaded_available='' r2 of None \<Rightarrow> None | Some (avail, r3) \<Rightarrow>
     (case spaces_then r3 of None \<Rightarrow> None | Some r4 \<Rightarrow>
     (case signed_after ''libc_single_threaded='' r4 of None \<Rightarrow> None | Some single \<Rightarrow> Some (threads, avail, single))))))"

text \<open>\<open>.*?\<close> does not cross a line end.\<close>

fun state_scan :: "string \<Rightarrow> (string \<times> string \<times> string) option" where
  "state_scan [] = None"
| "state_scan (c # s) = (case state_here (c # s) of Some x \<Rightarrow> Some x | None \<Rightarrow> if c = nl then None else state_scan s)"

fun thread_state :: "string \<Rightarrow> (string \<times> string \<times> string) option" where
  "thread_state [] = None"
| "thread_state (c # s) = (case (if starts_with (c # s) ''THREAD_STATE'' then state_scan (drop 12 (c # s)) else None) of
     Some x \<Rightarrow> Some x | None \<Rightarrow> thread_state s)"

section \<open>One output\<close>

record e2_parsed =
  ep_identity :: "string option"
  ep_mode :: "string option"
  ep_variant :: "string option"
  ep_threads :: "int option"
  ep_libc :: "bool option"
  ep_single :: "int option"
  ep_rate :: "pyfloat option"
  ep_samples :: int
  ep_percentiles :: "(string \<times> pyfloat) list"
  ep_published :: "int option"
  ep_delivered :: "int option"

fun optionE :: "('a \<Rightarrow> 'b py) \<Rightarrow> 'a option \<Rightarrow> 'b option py" where
  "optionE f None = Inr None"
| "optionE f (Some x) = bindE (f x) (\<lambda>y. Inr (Some y))"

definition nonspace :: "char \<Rightarrow> bool" where "nonspace c \<longleftrightarrow> \<not> is_space c"

definition decimal_char :: "char \<Rightarrow> bool" where "decimal_char c \<longleftrightarrow> is_digit c \<or> c = CHR ''.''"

definition float_char :: "char \<Rightarrow> bool" where "float_char c \<longleftrightarrow> decimal_char c \<or> c = CHR ''e'' \<or> c = CHR ''+''"

definition percentile_map :: "(string \<times> string) list" where
  "percentile_map = [(''p50'', ''latency_p50_ns=''), (''p99'', ''latency_p99_ns=''), (''p99.9'', ''latency_p999_ns=''), (''max'', ''latency_max_ns='')]"

definition percentile_of :: "string \<Rightarrow> string \<times> string \<Rightarrow> (string \<times> pyfloat) list py" where
  "percentile_of t lp = (case capture (snd lp) decimal_char t of None \<Rightarrow> Inr []
     | Some ds \<Rightarrow> bindE (str_float ds) (\<lambda>v. Inr (if flt (Fin 0) v then [(fst lp, v)] else [])))"

definition count_of :: "string \<Rightarrow> string \<Rightarrow> int option py" where
  "count_of lit t = optionE str_int (capture lit is_digit t)"

definition parse_stdout :: "string \<Rightarrow> e2_parsed py" where
  "parse_stdout t =
     bindE (optionE (\<lambda>(threads, avail, single). bindE (str_int threads) (\<lambda>n. bindE (str_int avail) (\<lambda>a. bindE (str_int single) (\<lambda>s.
        Inr (n, a = 1, s))))) (thread_state t)) (\<lambda>state.
     bindE (optionE str_float (capture ''publish_msg_per_sec='' float_char t)) (\<lambda>rate.
     bindE (count_of ''latency_samples='' t) (\<lambda>samples.
     bindE (mapE (percentile_of t) percentile_map) (\<lambda>ps.
     bindE (count_of ''published='' t) (\<lambda>published. bindE (count_of ''delivered='' t) (\<lambda>delivered.
     Inr \<lparr>ep_identity = capture ''PROBE identity='' nonspace t, ep_mode = capture ''publisher_mode='' nonspace t,
       ep_variant = capture ''claim_variant='' nonspace t, ep_threads = map_option fst state, ep_libc = map_option (fst \<circ> snd) state,
       ep_single = map_option (snd \<circ> snd) state, ep_rate = map_option (\<lambda>x. fdiv x (Fin 1000000)) rate,
       ep_samples = (case samples of None \<Rightarrow> 0 | Some n \<Rightarrow> n), ep_percentiles = concat ps,
       ep_published = published, ep_delivered = delivered\<rparr>))))))"

section \<open>Validation of a round\<close>

datatype e2_issue =
    MissingFiles | BadStatus | BadIdentity | BadMode | BadVariant | BadThreads | BadLibc | BadPublished | BadDelivered | BadSamples
  | MissingCommand

definition PROBE_IDENTITY :: string where
  "PROBE_IDENTITY = ''p3-e2-claim-isolation-probe-v1''"

definition E2_ARMS :: "string list" where
  "E2_ARMS = [''ST'', ''MT-O'', ''MT-X'', ''MT-B'']"

definition EXPECTED_GROUPS :: nat where "EXPECTED_GROUPS = 6"

definition expected_mode :: "json \<Rightarrow> string py" where
  "expected_mode arm = bindE (require (hashable arm) TypeError) (\<lambda>_.
     case map_of [(''ST'', ''st''), (''MT-O'', ''mt-o''), (''MT-X'', ''mt-x''), (''MT-B'', ''mt-b'')] (if is_str arm then str_of arm else []) of
       None \<Rightarrow> Inl KeyError | Some m \<Rightarrow> Inr m)"

definition expected_variant :: "string \<Rightarrow> string" where
  "expected_variant arm = (if arm = ''MT-B'' then ''borrowed'' else ''owning'')"

definition expected_state :: "string \<Rightarrow> int \<times> int" where
  "expected_state arm = (if arm = ''ST'' then (1, 1) else if arm = ''MT-X'' then (1, 0) else (2, 0))"

definition state_issues :: "string \<Rightarrow> e2_parsed \<Rightarrow> e2_issue list" where
  "state_issues arm p = (case expected_state arm of (threads, single) \<Rightarrow>
     (if ep_threads p \<noteq> Some threads then [BadThreads] else [])
     @ (if ep_libc p = Some True \<and> ep_single p \<noteq> Some single then [BadLibc] else []))"

definition differs :: "int option \<Rightarrow> json \<Rightarrow> bool" where
  "differs n v \<longleftrightarrow> \<not> jeq v (case n of None \<Rightarrow> JNull | Some k \<Rightarrow> jint k)"

definition sample_issues :: "json \<Rightarrow> e2_parsed \<Rightarrow> e2_issue list py" where
  "sample_issues spec p = bindE (getitem spec ''latency_sample_rate'') (\<lambda>rv. bindE (as_num rv) (\<lambda>rate.
     if \<not> nlt (I 0) rate then Inr []
     else bindE (getitem spec ''messages'') (\<lambda>mv. bindE (as_num mv) (\<lambda>messages. bindE (nfloordiv messages rate) (\<lambda>n.
       Inr (if jeq (JNum n) (jint (ep_samples p)) then [] else [BadSamples]))))))"

definition round_issues :: "json \<Rightarrow> e2_parsed \<Rightarrow> e2_issue list py" where
  "round_issues spec p =
     bindE (getitem spec ''arm'') (\<lambda>av. bindE (expected_mode av) (\<lambda>mode. let arm = str_of av in
     bindE (getitem spec ''messages'') (\<lambda>messages. bindE (getitem spec ''consumers'') (\<lambda>consumers.
     bindE (mul_json messages consumers) (\<lambda>delivered. bindE (sample_issues spec p) (\<lambda>samples.
     Inr ((if ep_identity p \<noteq> Some PROBE_IDENTITY then [BadIdentity] else [])
       @ (if ep_mode p \<noteq> Some mode then [BadMode] else [])
       @ (if ep_variant p \<noteq> Some (expected_variant arm) then [BadVariant] else [])
       @ state_issues arm p
       @ (if differs (ep_published p) messages then [BadPublished] else [])
       @ (if differs (ep_delivered p) delivered then [BadDelivered] else []) @ samples)))))))"

definition validate_round :: "world \<Rightarrow> string \<Rightarrow> json \<Rightarrow> (e2_parsed option \<times> e2_issue list) py" where
  "validate_round w round_dir spec = (let stdout = slash round_dir ''stdout.txt''; outcome = slash round_dir ''outcome.json'' in
     if \<not> is_file w stdout \<or> \<not> is_file w outcome then Inr (None, [MissingFiles])
     else bindE (read_text w outcome) (\<lambda>ot. bindE (json_loads w ot) (\<lambda>o'. bindE (getitem o' ''status'') (\<lambda>status.
       if \<not> jeq status (JStr ''ok'') then Inr (None, [BadStatus])
       else bindE (read_text w stdout) (\<lambda>t. bindE (parse_stdout t) (\<lambda>p. bindE (round_issues spec p) (\<lambda>issues. Inr (Some p, issues))))))))"

section \<open>Throughput\<close>

type_synonym e2_round = "json \<times> e2_parsed"

record e2_arm =
  ea_count :: nat
  ea_median :: num
  ea_mean :: num
  ea_stdev :: num
  ea_cv :: num
  ea_min :: num
  ea_max :: num
  ea_values :: "num list"

record e2_group =
  eg_medians :: "(string \<times> num) list"
  eg_st_o :: "num option"
  eg_st_x :: "num option"
  eg_st_b :: "num option"
  eg_recovered :: "num option"

record e2_throughput =
  et_arms :: "(string \<times> e2_arm) list"
  et_groups :: "(nat \<times> e2_group) list"

definition spec_is :: "string \<Rightarrow> json \<Rightarrow> e2_round \<Rightarrow> bool py" where
  "spec_is k v r = item_is k v (fst r)"

definition rate_of_round :: "e2_round \<Rightarrow> num py" where
  "rate_of_round r = (case ep_rate (snd r) of None \<Rightarrow> Inl TypeError | Some x \<Rightarrow> Inr (F x))"

definition deviation :: "num list \<Rightarrow> num \<Rightarrow> (num \<times> num) py" where
  "deviation values m = (if length values \<le> 1 then Inr (I 0, I 0)
     else bindE (stdev values) (\<lambda>sd. bindE (ndiv sd m) (\<lambda>q. bindE (nmul q (I 100)) (\<lambda>cv. Inr (sd, cv)))))"

definition arm_stats_of :: "num list \<Rightarrow> e2_arm py" where
  "arm_stats_of values = bindE (median values) (\<lambda>md. bindE (mean values) (\<lambda>m. bindE (deviation values m) (\<lambda>(sd, cv).
     bindE (num_min values) (\<lambda>lo. bindE (num_max values) (\<lambda>hi.
     Inr \<lparr>ea_count = length values, ea_median = md, ea_mean = m, ea_stdev = sd, ea_cv = cv, ea_min = lo, ea_max = hi, ea_values = values\<rparr>)))))"

text \<open>An arm without rounds is left out.\<close>

definition arm_entry :: "e2_round list \<Rightarrow> string \<Rightarrow> (string \<times> e2_arm) list py" where
  "arm_entry rounds arm = bindE (filterE (spec_is ''arm'' (JStr arm)) rounds) (\<lambda>rs.
     if rs = [] then Inr [] else bindE (mapE rate_of_round rs) (\<lambda>values. bindE (arm_stats_of values) (\<lambda>s. Inr [(arm, s)])))"

definition group_median :: "e2_round list \<Rightarrow> nat \<Rightarrow> string \<Rightarrow> (string \<times> num) list py" where
  "group_median rounds g arm = bindE (filterE (spec_is ''group'' (jint (int g))) rounds) (\<lambda>gs.
     bindE (filterE (spec_is ''arm'' (JStr arm)) gs) (\<lambda>rs.
     if rs = [] then Inr [] else bindE (mapE rate_of_round rs) (\<lambda>values. bindE (median values) (\<lambda>m. Inr [(arm, m)]))))"

definition ratio_over :: "num \<Rightarrow> num \<Rightarrow> num option py" where
  "ratio_over x y = (if nlt (I 0) y then bindE (ndiv x y) (\<lambda>q. Inr (Some q)) else Inr None)"

definition recovered_fraction :: "num \<Rightarrow> num \<Rightarrow> num \<Rightarrow> num option py" where
  "recovered_fraction st mt_o mt_b = bindE (nsub st mt_o) (\<lambda>gap.
     if nlt (I 0) gap then bindE (nsub mt_b mt_o) (\<lambda>d. bindE (ndiv d gap) (\<lambda>q. Inr (Some q))) else Inr None)"

text \<open>A group missing an arm has no entry.\<close>

definition group_data :: "nat \<Rightarrow> (string \<times> num) list \<Rightarrow> (nat \<times> e2_group) list py" where
  "group_data g medians = (case medians of
       [(_, st), (_, mt_o), (_, mt_x), (_, mt_b)] \<Rightarrow>
         bindE (ratio_over st mt_o) (\<lambda>a. bindE (ratio_over st mt_x) (\<lambda>b. bindE (ratio_over st mt_b) (\<lambda>c.
         bindE (recovered_fraction st mt_o mt_b) (\<lambda>r.
         Inr [(g, \<lparr>eg_medians = medians, eg_st_o = a, eg_st_x = b, eg_st_b = c, eg_recovered = r\<rparr>)]))))
     | _ \<Rightarrow> Inr [])"

definition group_entry :: "e2_round list \<Rightarrow> nat \<Rightarrow> (nat \<times> e2_group) list py" where
  "group_entry rounds g = bindE (mapE (group_median rounds g) E2_ARMS) (\<lambda>ms. group_data g (concat ms))"

definition configuration_throughput :: "e2_round list \<Rightarrow> json \<Rightarrow> (json \<times> e2_throughput) py" where
  "configuration_throughput rounds cid = bindE (filterE (spec_is ''configuration_id'' cid) rounds) (\<lambda>rs.
     bindE (mapE (arm_entry rs) E2_ARMS) (\<lambda>arms. bindE (mapE (group_entry rs) [0 ..< EXPECTED_GROUPS]) (\<lambda>groups.
     Inr (cid, \<lparr>et_arms = concat arms, et_groups = concat groups\<rparr>))))"

definition of_kind :: "string \<Rightarrow> e2_round list \<Rightarrow> (e2_round list \<times> json list) py" where
  "of_kind kind rounds = bindE (filterE (spec_is ''kind'' (JStr kind)) rounds) (\<lambda>rs.
     bindE (mapE (\<lambda>r. getitem (fst r) ''configuration_id'') rs) (\<lambda>ids. bindE (sorted_set ids) (\<lambda>cids. Inr (rs, cids))))"

definition analyze_throughput :: "e2_round list \<Rightarrow> (json \<times> e2_throughput) list py" where
  "analyze_throughput rounds = bindE (of_kind ''throughput'' rounds) (\<lambda>(rs, cids). mapE (configuration_throughput rs) cids)"

section \<open>Latency\<close>

record e2_latency =
  el_count :: nat
  el_medians :: "(string \<times> num) list"
  el_ranges :: "(string \<times> num \<times> num) list"
  el_rounds :: "(json \<times> json \<times> (string \<times> pyfloat) list) list"

definition latency_round_data :: "e2_round \<Rightarrow> (json \<times> json \<times> (string \<times> pyfloat) list) list py" where
  "latency_round_data r = (if ep_percentiles (snd r) = [] then Inr []
     else bindE (getitem (fst r) ''ordinal'') (\<lambda>o'. bindE (getitem (fst r) ''group'') (\<lambda>g. Inr [(o', g, ep_percentiles (snd r))])))"

definition label_summary :: "(json \<times> json \<times> (string \<times> pyfloat) list) list \<Rightarrow> string \<Rightarrow> (string \<times> num \<times> num \<times> num) list py" where
  "label_summary rounds label = (let values = concat (map (\<lambda>(_, _, ps). case map_of ps label of None \<Rightarrow> [] | Some v \<Rightarrow> [F v]) rounds) in
     if values = [] then Inr []
     else bindE (median values) (\<lambda>m. bindE (num_min values) (\<lambda>lo. bindE (num_max values) (\<lambda>hi. Inr [(label, m, lo, hi)]))))"

definition latency_arm :: "e2_round list \<Rightarrow> string \<Rightarrow> (string \<times> e2_latency) list py" where
  "latency_arm rounds arm = bindE (filterE (spec_is ''arm'' (JStr arm)) rounds) (\<lambda>rs.
     bindE (mapE latency_round_data rs) (\<lambda>ds. let data = concat ds in
     if data = [] then Inr []
     else bindE (mapE (label_summary data) [''p50'', ''p99'', ''p99.9'', ''max'']) (\<lambda>ss.
       Inr [(arm, \<lparr>el_count = length data, el_medians = map (\<lambda>(l, m, _). (l, m)) (concat ss),
         el_ranges = map (\<lambda>(l, _, lo, hi). (l, lo, hi)) (concat ss), el_rounds = data\<rparr>)])))"

definition configuration_latency :: "e2_round list \<Rightarrow> json \<Rightarrow> (json \<times> (string \<times> e2_latency) list) py" where
  "configuration_latency rounds cid = bindE (filterE (spec_is ''configuration_id'' cid) rounds) (\<lambda>rs.
     bindE (mapE (latency_arm rs) E2_ARMS) (\<lambda>arms. Inr (cid, concat arms)))"

definition analyze_latency :: "e2_round list \<Rightarrow> (json \<times> (string \<times> e2_latency) list) list py" where
  "analyze_latency rounds = bindE (of_kind ''latency'' rounds) (\<lambda>(rs, cids). mapE (configuration_latency rs) cids)"

section \<open>The summary and the analysis\<close>

record e2_summary =
  es_st :: num
  es_o :: num
  es_x :: "num option"
  es_b :: num
  es_st_o :: "num option"
  es_b_o :: "num option"
  es_recovered_median :: "num option"
  es_recovered_mean :: "num option"
  es_recovered :: "num list"
  es_better :: nat
  es_groups :: nat
  es_consistent :: bool

definition when_some :: "'a list \<Rightarrow> ('a list \<Rightarrow> num py) \<Rightarrow> num option py" where
  "when_some xs f = (if xs = [] then Inr None else bindE (f xs) (\<lambda>x. Inr (Some x)))"

definition group_better :: "e2_group \<Rightarrow> bool py" where
  "group_better g = (case (map_of (eg_medians g) ''MT-B'', map_of (eg_medians g) ''MT-O'') of
     (Some b, Some x) \<Rightarrow> Inr (nlt x b) | _ \<Rightarrow> Inl KeyError)"

definition summary_entry :: "json \<times> e2_throughput \<Rightarrow> (json \<times> e2_summary) list py" where
  "summary_entry ct = (case ct of (cid, t) \<Rightarrow>
     (case (map_of (et_arms t) ''ST'', map_of (et_arms t) ''MT-O'', map_of (et_arms t) ''MT-B'') of
       (Some st, Some mo, Some mb) \<Rightarrow>
         (let fractions = concat (map (\<lambda>(_, g). case eg_recovered g of None \<Rightarrow> [] | Some r \<Rightarrow> [r]) (et_groups t)) in
         bindE (filterE (\<lambda>(_, g). group_better g) (et_groups t)) (\<lambda>better.
         bindE (ratio_over (ea_median st) (ea_median mo)) (\<lambda>a. bindE (ratio_over (ea_median mb) (ea_median mo)) (\<lambda>b.
         bindE (when_some fractions median) (\<lambda>md. bindE (when_some fractions mean) (\<lambda>mn.
         Inr [(cid, \<lparr>es_st = ea_median st, es_o = ea_median mo, es_x = map_option ea_median (map_of (et_arms t) ''MT-X''), es_b = ea_median mb,
           es_st_o = a, es_b_o = b, es_recovered_median = md, es_recovered_mean = mn, es_recovered = fractions,
           es_better = length better, es_groups = length (et_groups t), es_consistent = (5 \<le> length better)\<rparr>)]))))))
     | _ \<Rightarrow> Inr []))"

record e2_report =
  er_throughput :: "(json \<times> e2_throughput) list"
  er_latency :: "(json \<times> (string \<times> e2_latency) list) list"
  er_summary :: "(json \<times> e2_summary) list"
  er_issues :: "(json \<times> e2_issue list) list"
  er_validated :: nat
  er_expected :: json

text \<open>\<open>f"round_{ordinal:04d}"\<close>: integers only.\<close>

fun round_name :: "json \<Rightarrow> string py" where
  "round_name (JNum (I n)) = Inr (''round_'' @ (if n < 0 then CHR ''-'' # pad_zeros 3 (show_pos (- n)) else pad_zeros 4 (show_pos n)))"
| "round_name (JBool b) = Inr (''round_000'' @ (if b then ''1'' else ''0''))"
| "round_name (JNum (F _)) = Inl (ValueError ''Unknown format code'')"
| "round_name (JStr _) = Inl (ValueError ''Unknown format code'')"
| "round_name _ = Inl TypeError"

definition formal_round :: "world \<Rightarrow> string \<Rightarrow> json \<Rightarrow> (e2_round list \<times> (json \<times> e2_issue list) list) py" where
  "formal_round w dir outcome = bindE (getitem outcome ''ordinal'') (\<lambda>o'. bindE (round_name o') (\<lambda>name.
     let round_dir = slash dir name; command = slash round_dir ''command.json'' in
     if \<not> is_file w command then Inr ([], [(o', [MissingCommand])])
     else bindE (read_text w command) (\<lambda>ct. bindE (json_loads w ct) (\<lambda>c. bindE (getitem c ''round_spec'') (\<lambda>spec.
       bindE (validate_round w round_dir spec) (\<lambda>(parsed, issues).
       if issues \<noteq> [] then bindE (getitem spec ''arm'') (\<lambda>_. Inr ([], [(o', issues)]))
       else (case parsed of None \<Rightarrow> Inr ([], []) | Some p \<Rightarrow> Inr ([(spec, p)], []))))))))"

definition existing :: "world \<Rightarrow> string \<Rightarrow> json py" where
  "existing w path = (if \<not> is_file w path then Inl (SystemExit (''missing '' @ path)) else bindE (read_text w path) (json_loads w))"

definition analyze_e2 :: "world \<Rightarrow> string \<Rightarrow> e2_report py" where
  "analyze_e2 w directory = (let dir = resolved w directory in
     bindE (existing w (slash dir ''experiment.json'')) (\<lambda>_. bindE (existing w (slash dir ''results.json'')) (\<lambda>results.
     bindE (getitem results ''formal'') (\<lambda>fv. bindE (as_list fv) (\<lambda>formal.
     bindE (mapE (formal_round w dir) formal) (\<lambda>rs. let rounds = concat (map fst rs) in
     bindE (analyze_throughput rounds) (\<lambda>throughput. bindE (analyze_latency rounds) (\<lambda>latency.
     bindE (mapE summary_entry throughput) (\<lambda>summary. bindE (getitem results ''expected_formal'') (\<lambda>expected.
     Inr \<lparr>er_throughput = throughput, er_latency = latency, er_summary = concat summary, er_issues = concat (map snd rs),
       er_validated = length rounds, er_expected = expected\<rparr>))))))))))"



section \<open>Validated rounds\<close>

text \<open>What a validated round has shown, from its raw output.\<close>

definition e2_sound :: "world \<Rightarrow> e2_round \<Rightarrow> bool" where
  "e2_sound w r \<longleftrightarrow> (\<exists>path t arm. file_text w path = Some t \<and> parse_stdout t = Inr (snd r)
     \<and> getitem (fst r) ''arm'' = Inr (JStr arm) \<and> arm \<in> set E2_ARMS
     \<and> ep_identity (snd r) = Some PROBE_IDENTITY \<and> Inr (the (ep_mode (snd r))) = expected_mode (JStr arm) \<and> ep_mode (snd r) \<noteq> None
     \<and> ep_variant (snd r) = Some (expected_variant arm)
     \<and> ep_threads (snd r) = Some (fst (expected_state arm))
     \<and> (ep_libc (snd r) = Some True \<longrightarrow> ep_single (snd r) = Some (snd (expected_state arm))))"

lemma expected_mode_Inr:
  "expected_mode av = Inr m \<Longrightarrow> \<exists>arm. av = JStr arm \<and> arm \<in> set E2_ARMS"
  by (cases av) (auto simp: expected_mode_def require_def E2_ARMS_def split: if_splits)

lemma round_issues_none:
  assumes "round_issues spec p = Inr []" "file_text w path = Some t" "parse_stdout t = Inr p"
  shows "e2_sound w (spec, p)"
proof -
  obtain av mode m c d s where i: "getitem spec ''arm'' = Inr av" "expected_mode av = Inr mode" and
    e: "[] = (if ep_identity p \<noteq> Some PROBE_IDENTITY then [BadIdentity] else [])
       @ (if ep_mode p \<noteq> Some mode then [BadMode] else [])
       @ (if ep_variant p \<noteq> Some (expected_variant (str_of av)) then [BadVariant] else [])
       @ state_issues (str_of av) p
       @ (if differs (ep_published p) m then [BadPublished] else [])
       @ (if differs (ep_delivered p) d then [BadDelivered] else []) @ s"
    using assms(1) unfolding round_issues_def Let_def bindE_Inr sum.inject by metis
  obtain arm where arm: "av = JStr arm" "arm \<in> set E2_ARMS" using expected_mode_Inr [OF i(2)] by auto
  show ?thesis unfolding e2_sound_def fst_conv snd_conv
    by (intro exI [of _ path] exI [of _ t] exI [of _ arm])
      (use e i arm assms(2,3) in \<open>auto simp: state_issues_def split: if_splits prod.splits\<close>)
qed

lemma validate_round_Inr:
  assumes "validate_round w d spec = Inr (q, [])"
  shows "\<exists>p. q = Some p \<and> e2_sound w (spec, p)"
proof -
  obtain t p i where "file_text w (slash d ''stdout.txt'') = Some t" "parse_stdout t = Inr p" "round_issues spec p = Inr i" "(q, []) = (Some p, i)"
    using assms unfolding validate_round_def Let_def by (auto simp: read_text_Inr bindE_Inr split: if_splits)
  then show ?thesis using round_issues_none by auto
qed

lemma formal_round_Inr:
  assumes "formal_round w dir o' = Inr (rs, is)"
  shows "(\<forall>r \<in> set rs. e2_sound w r) \<and> length rs + length is = 1"
proof -
  consider (none) "rs = []" "length is = 1"
    | (some) p spec d where "rs = [(spec, p)]" "is = []" "validate_round w d spec = Inr (Some p, [])"
    | (odd) spec d where "validate_round w d spec = Inr (None, [])"
    using assms unfolding formal_round_def Let_def
    by (auto simp: bindE_Inr split: if_splits option.splits prod.splits)
  then show ?thesis
  proof cases
    case (some p spec d)
    then show ?thesis using validate_round_Inr [of w d spec "Some p"] by auto
  next
    case (odd spec d)
    then show ?thesis using validate_round_Inr [of w d spec None] by auto
  qed auto
qed

interpretation e2_rounds: loader "formal_round w dir" "\<lambda>x. (\<forall>r \<in> set (fst x). e2_sound w r) \<and> length (fst x) + length (snd x) = 1" for w dir
  by unfold_locales (use formal_round_Inr in \<open>metis prod.collapse\<close>)

section \<open>Group medians\<close>

text \<open>The validated throughput rounds of one arm in one group of a configuration.\<close>

definition cell :: "e2_round list \<Rightarrow> json \<Rightarrow> nat \<Rightarrow> string \<Rightarrow> e2_round list" where
  "cell rounds cid g arm = filter (\<lambda>r. spec_is ''kind'' (JStr ''throughput'') r = Inr True \<and> spec_is ''configuration_id'' cid r = Inr True
     \<and> spec_is ''group'' (jint (int g)) r = Inr True \<and> spec_is ''arm'' (JStr arm) r = Inr True) rounds"

definition cell_median :: "e2_round list \<Rightarrow> json \<Rightarrow> nat \<Rightarrow> string \<Rightarrow> num py" where
  "cell_median rounds cid g arm = bindE (mapE rate_of_round (cell rounds cid g arm)) median"

definition borrowed_wins :: "e2_round list \<Rightarrow> json \<Rightarrow> nat \<Rightarrow> bool" where
  "borrowed_wins rounds cid g \<longleftrightarrow> (\<exists>b x. cell_median rounds cid g ''MT-B'' = Inr b \<and> cell_median rounds cid g ''MT-O'' = Inr x \<and> nlt x b)"

lemma group_median_Inr:
  assumes "group_median rs g arm = Inr e"
    and "rs = filter (\<lambda>r. spec_is ''configuration_id'' cid r = Inr True) (filter (\<lambda>r. spec_is ''kind'' (JStr ''throughput'') r = Inr True) rounds)"
  shows "e = [] \<or> (\<exists>m. e = [(arm, m)] \<and> cell_median rounds cid g arm = Inr m)"
proof -
  obtain gs xs where f: "filterE (spec_is ''group'' (jint (int g))) rs = Inr gs" "filterE (spec_is ''arm'' (JStr arm)) gs = Inr xs"
    and e: "(if xs = [] then Inr [] else bindE (mapE rate_of_round xs) (\<lambda>values. bindE (median values) (\<lambda>m. Inr [(arm, m)]))) = Inr e"
    using assms(1) unfolding group_median_def bindE_Inr by blast
  have "xs = cell rounds cid g arm"
    unfolding cell_def using filterE_Inr [OF f(1)] filterE_Inr [OF f(2)] assms(2) by (auto simp: conj_ac intro!: filter_cong)
  then show ?thesis using e by (auto simp: cell_median_def bindE_Inr split: if_splits)
qed

lemma group_entry_Inr:
  assumes "group_entry rs g = Inr es"
    and "rs = filter (\<lambda>r. spec_is ''configuration_id'' cid r = Inr True) (filter (\<lambda>r. spec_is ''kind'' (JStr ''throughput'') r = Inr True) rounds)"
  shows "es = [] \<or> (\<exists>G. es = [(g, G)] \<and> (group_better G = Inr True \<longrightarrow> borrowed_wins rounds cid g))"
proof -
  obtain a b c d where m: "group_median rs g ''ST'' = Inr a" "group_median rs g ''MT-O'' = Inr b" "group_median rs g ''MT-X'' = Inr c"
      "group_median rs g ''MT-B'' = Inr d"
    and e: "group_data g (a @ b @ c @ d) = Inr es"
    using assms(1) by (auto simp: group_entry_def E2_ARMS_def bindE_Inr)
  note s = m [THEN group_median_Inr, OF assms(2)]
  show ?thesis
  proof (cases "es = []")
    case False
    then have "a \<noteq> []" "b \<noteq> []" "c \<noteq> []" "d \<noteq> []" using e s by (auto simp: group_data_def)
    then obtain p q r t where v: "a = [(''ST'', p)]" "b = [(''MT-O'', q)]" "c = [(''MT-X'', r)]" "d = [(''MT-B'', t)]"
      "cell_median rounds cid g ''MT-O'' = Inr q" "cell_median rounds cid g ''MT-B'' = Inr t" using s by auto
    then show ?thesis using e by (auto simp: bindE_Inr group_data_def group_better_def borrowed_wins_def)
  qed simp
qed

lemma keyed_entries:
  assumes "mapE f xs = Inr ys" "distinct xs" "\<And>x es. f x = Inr es \<Longrightarrow> es = [] \<or> (\<exists>y. es = [(x, y)] \<and> P x y)"
  shows "distinct (map fst (concat ys)) \<and> (\<forall>(x, y) \<in> set (concat ys). x \<in> set xs \<and> P x y)"
  using assms(1,2)
proof (induction xs arbitrary: ys)
  case (Cons x xs)
  then obtain e zs where z: "f x = Inr e" "mapE f xs = Inr zs" "ys = e # zs" by (auto simp: bindE_Inr)
  show ?case using Cons.IH [OF z(2)] Cons.prems(2) assms(3) [OF z(1)] z(3) by fastforce
qed simp

lemma throughput_groups:
  assumes "analyze_throughput rounds = Inr ts" "(cid, t) \<in> set ts"
  shows "distinct (map fst (et_groups t))"
    and "(g, G) \<in> set (et_groups t) \<Longrightarrow> group_better G = Inr True \<Longrightarrow> g < EXPECTED_GROUPS \<and> borrowed_wins rounds cid g"
proof -
  obtain rs cids where r: "of_kind ''throughput'' rounds = Inr (rs, cids)" "mapE (configuration_throughput rs) cids = Inr ts"
    using assms(1) unfolding analyze_throughput_def by (auto simp: bindE_Inr)
  have rs: "rs = filter (\<lambda>r. spec_is ''kind'' (JStr ''throughput'') r = Inr True) rounds"
    using r(1) filterE_Inr unfolding of_kind_def by (fastforce simp: bindE_Inr)
  obtain k where "configuration_throughput rs k = Inr (cid, t)" using mapE_set_D [OF r(2) assms(2)] by auto
  then obtain crs groups where c: "filterE (spec_is ''configuration_id'' cid) rs = Inr crs"
      "mapE (group_entry crs) [0 ..< EXPECTED_GROUPS] = Inr groups" "et_groups t = concat groups"
    unfolding configuration_throughput_def bindE_Inr by auto
  note k = keyed_entries [OF c(2) distinct_upt, of "\<lambda>g G. group_better G = Inr True \<longrightarrow> borrowed_wins rounds cid g",
    OF group_entry_Inr [OF _ filterE_Inr [OF c(1), unfolded rs]]]
  show "distinct (map fst (et_groups t))" using k c(3) by simp
  show "(g, G) \<in> set (et_groups t) \<Longrightarrow> group_better G = Inr True \<Longrightarrow> g < EXPECTED_GROUPS \<and> borrowed_wins rounds cid g"
    using k c(3) by fastforce
qed

lemma summary_entry_Inr:
  assumes "summary_entry (cid, t) = Inr ss" "(k, s) \<in> set ss"
  shows "k = cid \<and> (\<exists>better. filterE (\<lambda>(_, g). group_better g) (et_groups t) = Inr better
    \<and> es_better s = length better \<and> (es_consistent s \<longleftrightarrow> 5 \<le> length better))"
  using assms unfolding summary_entry_def Let_def
  by (auto simp: bindE_Inr split: option.splits)

lemma length_concat_one:
  "\<forall>x \<in> set xs. length (fst x) + length (snd x) = 1 \<Longrightarrow> length (concat (map fst xs)) + length (concat (map snd xs)) = length xs"
  by (induction xs) auto

text \<open>C19.
  The direction verdict of the E2 claim-isolation analysis rests on validated rounds.  Every formal
  outcome is either validated or listed with its issues; every validated round was re-read from a raw
  output naming the registered probe, the mode and claim variant of its arm and the thread state the
  arm must have; and a configuration reported with a consistent direction has at least five of its six
  groups in which the median rate of the borrowed arm exceeds that of the owning arm, each median taken
  over validated throughput rounds of that configuration, group and arm only.
\<close>

theorem consistent_direction:
  assumes "analyze_e2 w directory = Inr rep"
  shows "\<exists>rounds. er_validated rep = length rounds \<and> (\<forall>r \<in> set rounds. e2_sound w r)
    \<and> (\<exists>results fv formal. json_loads w (the (file_text w (slash (resolved w directory) ''results.json''))) = Inr results
        \<and> getitem results ''formal'' = Inr fv \<and> as_list fv = Inr formal \<and> er_validated rep + length (er_issues rep) = length formal)
    \<and> (\<forall>(cid, s) \<in> set (er_summary rep). es_consistent s \<longrightarrow> 5 \<le> card {g. g < EXPECTED_GROUPS \<and> borrowed_wins rounds cid g})"
proof -
  obtain results fv formal rs ts summary where
    r: "existing w (slash (resolved w directory) ''results.json'') = Inr results" "getitem results ''formal'' = Inr fv"
      "as_list fv = Inr formal" "mapE (formal_round w (resolved w directory)) formal = Inr rs"
      "analyze_throughput (concat (map fst rs)) = Inr ts" "mapE summary_entry ts = Inr summary"
    and rep: "er_validated rep = length (concat (map fst rs))" "er_issues rep = concat (map snd rs)" "er_summary rep = concat summary"
    using assms unfolding analyze_e2_def Let_def bindE_Inr sum.inject by auto
  let ?rounds = "concat (map fst rs)"
  note sound = e2_rounds.all_sound [OF r(4)]
  have len: "length rs = length formal" using mapE_length [OF r(4)] by simp
  have count: "er_validated rep + length (er_issues rep) = length formal"
    using length_concat_one [of rs] sound len by (simp add: rep)
  have loads: "json_loads w (the (file_text w (slash (resolved w directory) ''results.json''))) = Inr results"
    using r(1) by (auto simp: existing_def bindE_Inr read_text_Inr split: if_splits)
  have "5 \<le> card {g. g < EXPECTED_GROUPS \<and> borrowed_wins ?rounds cid g}" if cs: "(cid, s) \<in> set (er_summary rep)" "es_consistent s" for cid s
  proof -
    obtain t ss where t: "(cid, t) \<in> set ts" "summary_entry (cid, t) = Inr ss" "(cid, s) \<in> set ss"
      using cs(1) mapE_set_D [OF r(6)] summary_entry_Inr by (fastforce simp: rep)
    obtain better where b: "filterE (\<lambda>(_, g). group_better g) (et_groups t) = Inr better" "5 \<le> length better"
      using summary_entry_Inr [OF t(2,3)] cs(2) by blast
    note better = filterE_Inr [OF b(1)]
    have "distinct (map fst better)" unfolding better by (rule distinct_map_filter) (rule throughput_groups(1) [OF r(5) t(1)])
    then have "card (fst ` set better) = length better" by (metis distinct_card length_map set_map)
    moreover have "fst ` set better \<subseteq> {g. g < EXPECTED_GROUPS \<and> borrowed_wins ?rounds cid g}"
      using throughput_groups(2) [OF r(5) t(1)] unfolding better by auto
    ultimately show ?thesis using b(2) card_mono [of "{g. g < EXPECTED_GROUPS \<and> borrowed_wins ?rounds cid g}" "fst ` set better"] by simp
  qed
  then show ?thesis using sound count loads r(2,3) rep(1)
    by (intro exI [of _ ?rounds]) auto
qed

text \<open>A world with one round per arm in each of six groups.\<close>

definition demo_rate :: "string \<Rightarrow> int" where
  "demo_rate arm = (if arm = ''ST'' then 8 else if arm = ''MT-B'' then 4 else 2)"

definition demo_e2_stdout :: "string \<Rightarrow> string" where
  "demo_e2_stdout arm = ''PROBE identity='' @ PROBE_IDENTITY @ '' publisher_mode='' @ (case expected_mode (JStr arm) of Inr m \<Rightarrow> m | Inl _ \<Rightarrow> [])
     @ '' claim_variant='' @ expected_variant arm @ [nl]
     @ ''THREAD_STATE actual_threads='' @ show_int (fst (expected_state arm)) @ '' libc_single_threaded_available=1 libc_single_threaded=''
     @ show_int (snd (expected_state arm)) @ [nl]
     @ ''RESULT published=8 delivered=16 publish_msg_per_sec='' @ show_int (demo_rate arm) @ ''000000 latency_samples=0'' @ [nl]"

definition demo_e2_parsed :: "string \<Rightarrow> e2_parsed" where
  "demo_e2_parsed arm = \<lparr>ep_identity = Some PROBE_IDENTITY, ep_mode = Some (case expected_mode (JStr arm) of Inr m \<Rightarrow> m | Inl _ \<Rightarrow> []),
     ep_variant = Some (expected_variant arm), ep_threads = Some (fst (expected_state arm)), ep_libc = Some True,
     ep_single = Some (snd (expected_state arm)), ep_rate = Some (Fin (of_int (demo_rate arm))), ep_samples = 0, ep_percentiles = [],
     ep_published = Some 8, ep_delivered = Some 16\<rparr>"

definition demo_e2_arm :: "nat \<Rightarrow> string" where
  "demo_e2_arm n = E2_ARMS ! (n mod 4)"

definition demo_e2_spec :: "nat \<Rightarrow> json" where
  "demo_e2_spec n = JObj [(''ordinal'', jint (int n)), (''kind'', JStr ''throughput''), (''configuration_id'', JStr ''c1''),
     (''group'', jint (int (n div 4))), (''arm'', JStr (demo_e2_arm n)), (''messages'', jint 8), (''consumers'', jint 2), (''latency_sample_rate'', jint 0)]"

definition demo_e2_round :: "nat \<Rightarrow> e2_round" where
  "demo_e2_round n = (demo_e2_spec n, demo_e2_parsed (demo_e2_arm n))"

lemma demo_e2_parse: "arm \<in> set E2_ARMS \<Longrightarrow> parse_stdout (demo_e2_stdout arm) = Inr (demo_e2_parsed arm)"
proof -
  have "list_all (\<lambda>arm. parse_stdout (demo_e2_stdout arm) = Inr (demo_e2_parsed arm)) E2_ARMS" by code_simp
  then show "arm \<in> set E2_ARMS \<Longrightarrow> ?thesis" by (simp add: list_all_iff)
qed

lemma demo_e2_issues:
  assumes "arm \<in> set E2_ARMS" "getitem spec ''arm'' = Inr (JStr arm)" "getitem spec ''messages'' = Inr (jint 8)"
    "getitem spec ''consumers'' = Inr (jint 2)" "getitem spec ''latency_sample_rate'' = Inr (jint 0)"
  shows "round_issues spec (demo_e2_parsed arm) = Inr []"
  using assms by (auto simp: round_issues_def sample_issues_def state_issues_def demo_e2_parsed_def E2_ARMS_def expected_mode_def require_def
    expected_variant_def expected_state_def differs_def mul_json_def nmul_def lift_num_def nlt_def)

lemma demo_e2_summary:
  "case analyze_throughput (map demo_e2_round [0 ..< 24]) of Inl _ \<Rightarrow> False
   | Inr ts \<Rightarrow> (case mapE summary_entry ts of Inl _ \<Rightarrow> False | Inr ss \<Rightarrow> map (\<lambda>(c, s). es_consistent s) (concat ss) = [True])"
  by code_simp


text \<open>The path of a round's file is \<open>d/round_NNNN/name\<close>; the world reads the number back.\<close>

definition demo_e2_name :: "nat \<Rightarrow> string" where
  "demo_e2_name n = (case round_name (jint (int n)) of Inr name \<Rightarrow> name | Inl _ \<Rightarrow> [])"

definition demo_e2_number :: "string \<Rightarrow> nat" where
  "demo_e2_number s = (case str_int s of Inr k \<Rightarrow> nat k | Inl _ \<Rightarrow> 0)"

lemma demo_e2_names:
  assumes "n < 24"
  shows "round_name (jint (int n)) = Inr (demo_e2_name n)" "length (demo_e2_name n) = 10" "demo_e2_number (drop 6 (demo_e2_name n)) = n"
    "starts_with (demo_e2_name n) ''/'' = False"
proof -
  have "list_all (\<lambda>n. round_name (jint (int n)) = Inr (demo_e2_name n) \<and> length (demo_e2_name n) = 10
    \<and> demo_e2_number (drop 6 (demo_e2_name n)) = n \<and> starts_with (demo_e2_name n) ''/'' = False) [0 ..< 24]" by code_simp
  then show "round_name (jint (int n)) = Inr (demo_e2_name n)" "length (demo_e2_name n) = 10" "demo_e2_number (drop 6 (demo_e2_name n)) = n"
    "starts_with (demo_e2_name n) ''/'' = False" using assms by (auto simp: list_all_iff)
qed

definition demo_e2_results :: json where
  "demo_e2_results = JObj [(''formal'', JList (map (\<lambda>n. JObj [(''ordinal'', jint (int n))]) [0 ..< 24])), (''expected_formal'', jint 24)]"

definition demo_e2_world :: world where
  "demo_e2_world = \<lparr>file_text = (\<lambda>p. let name = take 10 (drop 2 p); file = drop 13 p in
       if p = ''d/experiment.json'' then Some ''ok'' else if p = ''d/results.json'' then Some ''results''
       else if file = ''stdout.txt'' then Some (demo_e2_stdout (demo_e2_arm (demo_e2_number (drop 6 name))))
       else if file = ''outcome.json'' then Some ''ok'' else if file = ''command.json'' then Some (drop 6 name) else None),
     sha256_hex = (\<lambda>t. t),
     json_loads = (\<lambda>t. if t = ''ok'' then Inr (JObj [(''status'', JStr ''ok'')]) else if t = ''results'' then Inr demo_e2_results
       else Inr (JObj [(''round_spec'', demo_e2_spec (demo_e2_number t))])),
     globbed = (\<lambda>_ _. []), resolved = (\<lambda>q. q)\<rparr>"

lemma demo_e2_path:
  assumes "n < 24" "f \<in> {''stdout.txt'', ''outcome.json'', ''command.json''}"
  shows "take 10 (drop 2 (slash (slash ''d'' (demo_e2_name n)) f)) = demo_e2_name n"
    "drop 13 (slash (slash ''d'' (demo_e2_name n)) f) = f"
    "length (slash (slash ''d'' (demo_e2_name n)) f) = 13 + length f"
  using demo_e2_names(2,4) [OF assms(1)] assms(2) by (auto simp: slash_def)

lemma demo_e2_files:
  assumes "n < 24"
  shows "file_text demo_e2_world (slash (slash ''d'' (demo_e2_name n)) ''stdout.txt'') = Some (demo_e2_stdout (demo_e2_arm n))"
    "file_text demo_e2_world (slash (slash ''d'' (demo_e2_name n)) ''outcome.json'') = Some ''ok''"
    "file_text demo_e2_world (slash (slash ''d'' (demo_e2_name n)) ''command.json'') = Some (drop 6 (demo_e2_name n))"
proof -
  have no: "slash (slash ''d'' (demo_e2_name n)) f \<noteq> ''d/experiment.json''" "slash (slash ''d'' (demo_e2_name n)) f \<noteq> ''d/results.json''"
    if "f \<in> {''stdout.txt'', ''outcome.json'', ''command.json''}" for f
    using arg_cong [of _ _ length] demo_e2_path(3) [OF assms that] that by (force, force)
  note [simp] = demo_e2_path [OF assms] no demo_e2_names(3) [OF assms]
  show "file_text demo_e2_world (slash (slash ''d'' (demo_e2_name n)) ''stdout.txt'') = Some (demo_e2_stdout (demo_e2_arm n))"
    "file_text demo_e2_world (slash (slash ''d'' (demo_e2_name n)) ''outcome.json'') = Some ''ok''"
    "file_text demo_e2_world (slash (slash ''d'' (demo_e2_name n)) ''command.json'') = Some (drop 6 (demo_e2_name n))"
    by (simp_all add: demo_e2_world_def Let_def)
qed

lemma demo_e2_formal:
  assumes "n < 24"
  shows "formal_round demo_e2_world ''d'' (JObj [(''ordinal'', jint (int n))]) = Inr ([demo_e2_round n], [])"
proof -
  have arm: "demo_e2_arm n \<in> set E2_ARMS" using nth_mem [of "n mod 4" E2_ARMS] by (simp add: demo_e2_arm_def E2_ARMS_def)
  have loads: "json_loads demo_e2_world (drop 6 (demo_e2_name n)) = Inr (JObj [(''round_spec'', demo_e2_spec n)])"
  proof -
    have "length (drop 6 (demo_e2_name n)) = 4" using demo_e2_names(2) [OF assms] by simp
    then have "drop 6 (demo_e2_name n) \<noteq> ''ok''" "drop 6 (demo_e2_name n) \<noteq> ''results''" by (auto simp del: length_drop)
    then show ?thesis by (simp add: demo_e2_world_def demo_e2_names(3) [OF assms])
  qed
  have issues: "round_issues (demo_e2_spec n) (demo_e2_parsed (demo_e2_arm n)) = Inr []"
    by (rule demo_e2_issues [OF arm]) (simp_all add: demo_e2_spec_def)
  have "validate_round demo_e2_world (slash ''d'' (demo_e2_name n)) (demo_e2_spec n) = Inr (Some (demo_e2_parsed (demo_e2_arm n)), [])"
    by (simp add: validate_round_def is_file_def read_text_def demo_e2_files [OF assms] demo_e2_parse [OF arm] issues)
      (simp add: demo_e2_world_def)
  then show ?thesis
    by (simp add: formal_round_def demo_e2_names(1) [OF assms] is_file_def read_text_def demo_e2_files [OF assms] loads demo_e2_round_def Let_def
      del: round_name.simps)
qed

lemma demo_e2_rounds:
  "mapE (formal_round demo_e2_world ''d'') (map (\<lambda>n. JObj [(''ordinal'', jint (int n))]) [0 ..< 24]) = Inr (map (\<lambda>n. ([demo_e2_round n], [])) [0 ..< 24])"
  unfolding mapE_Inr list_all2_map1 list_all2_map2 by (rule list.rel_refl_strong) (simp add: demo_e2_formal del: upt_rec_numeral)

lemma demo_e2_latency: "analyze_latency (map demo_e2_round [0 ..< 24]) = Inr []"
  by code_simp

lemma consistent_direction_witness:
  "\<exists>rep cid s. analyze_e2 demo_e2_world ''d'' = Inr rep \<and> (cid, s) \<in> set (er_summary rep) \<and> es_consistent s
    \<and> (\<exists>rounds. length rounds = 24 \<and> (\<forall>r \<in> set rounds. e2_sound demo_e2_world r)
      \<and> 5 \<le> card {g. g < EXPECTED_GROUPS \<and> borrowed_wins rounds cid g})"
proof -
  obtain ts ss where t: "analyze_throughput (map demo_e2_round [0 ..< 24]) = Inr ts" "mapE summary_entry ts = Inr ss"
      "map (\<lambda>(c, s). es_consistent s) (concat ss) = [True]"
    using demo_e2_summary by (auto split: sum.splits)
  obtain cid s where s: "concat ss = [(cid, s)]" "es_consistent s" using t(3) by (auto simp: map_eq_Cons_conv)
  have flat: "concat (map fst (map (\<lambda>n. ([demo_e2_round n], [] :: (json \<times> e2_issue list) list)) [0 ..< 24])) = map demo_e2_round [0 ..< 24]"
    unfolding map_map comp_def fst_conv by (rule concat_map_singleton)
  have ex: "existing demo_e2_world ''d/experiment.json'' = Inr (JObj [(''status'', JStr ''ok'')])"
      "existing demo_e2_world ''d/results.json'' = Inr demo_e2_results"
    by (simp_all add: existing_def is_file_def read_text_def demo_e2_world_def)
  have paths: "resolved demo_e2_world ''d'' = ''d''" "slash ''d'' ''experiment.json'' = ''d/experiment.json''" "slash ''d'' ''results.json'' = ''d/results.json''"
    by (simp_all add: demo_e2_world_def slash_def)
  have items: "getitem demo_e2_results ''formal'' = Inr (JList (map (\<lambda>n. JObj [(''ordinal'', jint (int n))]) [0 ..< 24]))"
      "getitem demo_e2_results ''expected_formal'' = Inr (jint 24)"
    unfolding demo_e2_results_def by (simp_all add: del: upt_rec_numeral)
  obtain rep where rep: "analyze_e2 demo_e2_world ''d'' = Inr rep" "er_summary rep = [(cid, s)]" "er_validated rep = 24"
    unfolding analyze_e2_def Let_def paths ex items bindE.simps as_list.simps demo_e2_rounds flat t(1,2) demo_e2_latency s(1)
    by (simp del: upt_rec_numeral)
  show ?thesis
    using consistent_direction [OF rep(1)] rep s(2) by force
qed

end
