(* ===== verification/P31Latency.thy ===== *)
theory P31Latency
  imports LatencyAB FrameLayout P31Throughput
begin

text \<open>
  \<open>compare_p31_latency.py\<close>: the latency gate G4 of the P3-1 experiment.  The three arms are identified by the
  files of their clients, every row is compared with the hashed raw output it was parsed from, and the
  gate compares the medians of independent run quantiles, one group per origin, payload and arm.  The
  table that \<open>main\<close> prints is not modelled.
\<close>

section \<open>The arms\<close>

definition latency_error :: "bool \<Rightarrow> string \<Rightarrow> unit py" where
  "latency_error b msg = require b (RuntimeError msg)"

lemma latency_error_Inr [simp]: "latency_error b msg = Inr u \<longleftrightarrow> b"
  by (simp add: latency_error_def)

definition P31L_ARMS :: "string list" where
  "P31L_ARMS = [''B'', ''S'', ''A'']"

definition ARM_ENVIRONMENT :: "string \<Rightarrow> json" where
  "ARM_ENVIRONMENT arm = (if arm = ''S'' then JObj [(''SALIAS_DISABLE_ASYMMETRIC_FENCE'', JStr ''1'')] else JObj [])"

type_synonym arm_entries = "(string \<times> json) list"

text \<open>\<open>{entry["arm"]: entry for entry in entries}\<close>\<close>

definition keyed_entry :: "json \<Rightarrow> (json \<times> json) py" where
  "keyed_entry entry = bindE (getitem entry ''arm'') (\<lambda>k. bindE (require (hashable k) TypeError) (\<lambda>_. Inr (k, entry)))"

text \<open>The message of a refused set of arms sorts the keys.\<close>

definition exactly_arms :: "(json \<times> json) list \<Rightarrow> arm_entries py" where
  "exactly_arms kes = (if length kes \<noteq> 3 \<or> \<not> same_set (map fst kes) (map JStr P31L_ARMS)
     then bindE (sorted_set (map fst kes)) (\<lambda>_. Inl (RuntimeError ''arms are not B/S/A''))
     else Inr (map (\<lambda>(k, e). (str_of k, e)) kes))"

definition entry_path :: "json \<Rightarrow> string py" where
  "entry_path entry = bindE (getitem entry ''client'') as_str"

definition check_client :: "world \<Rightarrow> string \<times> json \<Rightarrow> unit py" where
  "check_client w ae = bindE (entry_path (snd ae)) (\<lambda>p. bindE (file_sha w p) (\<lambda>actual. bindE (getitem (snd ae) ''client_sha256'') (\<lambda>h.
     latency_error (jeq h (JStr actual)) ''client file does not match its hash'')))"

definition arm_entry_of :: "arm_entries \<Rightarrow> string \<Rightarrow> json py" where
  "arm_entry_of arms arm = (case map_of arms arm of None \<Rightarrow> Inl KeyError | Some e \<Rightarrow> Inr e)"

definition entry_sha :: "arm_entries \<Rightarrow> string \<Rightarrow> json py" where
  "entry_sha arms arm = bindE (arm_entry_of arms arm) (\<lambda>e. getitem e ''client_sha256'')"

definition entry_client :: "world \<Rightarrow> arm_entries \<Rightarrow> string \<Rightarrow> string py" where
  "entry_client w arms arm = bindE (arm_entry_of arms arm) (\<lambda>e. bindE (entry_path e) (\<lambda>p. Inr (resolved w p)))"

definition check_environment :: "arm_entries \<Rightarrow> string \<Rightarrow> unit py" where
  "check_environment arms arm = bindE (arm_entry_of arms arm) (\<lambda>e. bindE (getitem e ''environment'') (\<lambda>v.
     latency_error (jeq v (ARM_ENVIRONMENT arm)) ''arm environment differs''))"

definition load_arms :: "world \<Rightarrow> string \<Rightarrow> string \<Rightarrow> arm_entries py" where
  "load_arms w directory baseline_sha256 = (let path = slash directory ''arms.json'' in
     bindE (latency_error (is_file w path) ''missing arms.json'') (\<lambda>_.
     bindE (read_text w path) (\<lambda>t. bindE (json_loads w t) (\<lambda>v. bindE (as_list v) (\<lambda>entries.
     bindE (mapE keyed_entry entries) (\<lambda>kes. bindE (exactly_arms kes) (\<lambda>arms.
     bindE (mapE (check_client w) arms) (\<lambda>_.
     bindE (entry_sha arms ''B'') (\<lambda>b. bindE (latency_error (jeq b (JStr baseline_sha256)) ''arm B is not the frozen v3.0.0 client'') (\<lambda>_.
     bindE (entry_sha arms ''S'') (\<lambda>s. bindE (entry_sha arms ''A'') (\<lambda>a.
     bindE (latency_error (jeq s a) ''C-seq and C-asym must be the same binary'') (\<lambda>_.
     bindE (entry_client w arms ''S'') (\<lambda>p. bindE (entry_client w arms ''A'') (\<lambda>q.
     bindE (latency_error (p = q) ''C-seq and C-asym must be the same binary'') (\<lambda>_.
     bindE (mapE (check_environment arms) P31L_ARMS) (\<lambda>_. Inr arms)))))))))))))))))"

section \<open>The rows\<close>

text \<open>\<open>Path(name).name\<close>: a single dot has no name.\<close>

definition plain_name :: "json \<Rightarrow> string py" where
  "plain_name v = bindE (latency_error (truthy v) ''missing or invalid filename'') (\<lambda>_. bindE (as_str v) (\<lambda>n.
     bindE (latency_error (base_name n = n \<and> n \<noteq> ''.'') ''missing or invalid filename'') (\<lambda>_. Inr n)))"

definition raw_file :: "world \<Rightarrow> string \<Rightarrow> json \<Rightarrow> string \<Rightarrow> unit py" where
  "raw_file w directory row kind = bindE (get_or row kind (JStr [])) (\<lambda>v. bindE (plain_name v) (\<lambda>n. let path = slash directory n in
     bindE (latency_error (is_file w path) ''missing or hash mismatch'') (\<lambda>_. bindE (file_sha w path) (\<lambda>digest.
     bindE (get row (kind @ ''_sha256'')) (\<lambda>h. latency_error (jeq h (JStr digest)) ''missing or hash mismatch'')))))"

definition parsed_lines :: "string \<Rightarrow> string list \<Rightarrow> json py" where
  "parsed_lines tag ls = bindE (mapE fields_of (filter (\<lambda>l. starts_with l tag) ls)) (\<lambda>ds. Inr (JList (map result_fields ds)))"

definition verify_raw_row :: "world \<Rightarrow> string \<Rightarrow> json \<Rightarrow> unit py" where
  "verify_raw_row w directory row =
     bindE (mapE (raw_file w directory row) [''stdout'', ''stderr'']) (\<lambda>_.
     bindE (getitem row ''stdout'') (\<lambda>v. bindE (as_str v) (\<lambda>name. bindE (read_text w (slash directory name)) (\<lambda>t.
     bindE (parsed_lines ''RESULT '' (splitlines t)) (\<lambda>results. bindE (parsed_lines ''LATENCY '' (splitlines t)) (\<lambda>consumers.
     bindE (getitem row ''result'') (\<lambda>result. bindE (get row ''consumers'') (\<lambda>recorded.
     latency_error (jeq results (JList [result]) \<and> jeq consumers recorded) ''raw RESULT/LATENCY differs from JSON row''))))))))"

text \<open>\<open>str(row["payload"])\<close> of a payload equal to 64 or 256.\<close>

fun payload_text :: "json \<Rightarrow> string" where
  "payload_text (JNum (I n)) = show_int n"
| "payload_text (JNum (F x)) = show_fixed 1 x"
| "payload_text _ = []"

definition expected_settings :: "string \<Rightarrow> json \<Rightarrow> (string \<times> json) list" where
  "expected_settings payload origin = [(''library'', JStr ''salias-ipc''), (''scenario'', JStr ''fifo''), (''producers'', JStr ''1''),
     (''consumers'', JStr ''1''), (''payload'', JStr payload), (''capacity'', JStr ''1048576''), (''batch_size'', JStr ''1''),
     (''poll_limit'', JStr ''64''), (''published'', JStr ''2000000''), (''delivered'', JStr ''2000000''),
     (''latency_samples'', JStr ''125000''), (''latency_sample_rate'', JStr ''16''), (''rate_per_producer'', JStr ''1000000''),
     (''latency_origin'', origin)]"

definition has_value :: "json \<Rightarrow> string \<times> json \<Rightarrow> bool py" where
  "has_value d kv = bindE (get d (fst kv)) (\<lambda>v. Inr (jeq v (snd kv)))"

definition has_any :: "json \<Rightarrow> string \<Rightarrow> json list \<Rightarrow> bool py" where
  "has_any row k vs = bindE (get row k) (\<lambda>v. Inr (mem_json v vs))"

definition registered_row :: "json \<Rightarrow> bool py" where
  "registered_row row = everyE id [has_any row ''origin'' [JStr ''attempt'', JStr ''planned''], has_any row ''payload'' [jint 64, jint 256],
     has_value row (''rate'', jint 1000000), has_value row (''producers'', jint 1), has_value row (''duration_s'', jint 2)]"

definition phase_round :: "json \<Rightarrow> bool py" where
  "phase_round row = bindE (get row ''phase'') (\<lambda>p. bindE (get row ''round'') (\<lambda>r.
     Inr (jeq p (JStr ''warmup'') \<and> jeq r (jint 0) \<or> jeq p (JStr ''measured'') \<and> (\<exists>n \<in> {1 .. 10}. jeq r (jint n)))))"

definition one_subscriber :: "json \<Rightarrow> json \<Rightarrow> bool py" where
  "one_subscriber row result = bindE (getitem row ''consumers'') (\<lambda>v. bindE (as_list v) (\<lambda>cs. case cs of
     [c] \<Rightarrow> everyE id (has_value c (''samples'', JStr ''125000'') # map (\<lambda>m. bindE (get c (m @ ''_ns'')) (\<lambda>x.
        bindE (get result (''latency_'' @ m @ ''_ns'')) (\<lambda>y. Inr (jeq x y)))) METRICS)
   | _ \<Rightarrow> Inr False))"

definition row_arm :: "arm_entries \<Rightarrow> json \<Rightarrow> (string \<times> json) py" where
  "row_arm arms row = bindE (get row ''arm'') (\<lambda>a. bindE (require (hashable a) TypeError) (\<lambda>_.
     bindE (latency_error (is_str a \<and> map_of arms (str_of a) \<noteq> None) ''unknown arm'') (\<lambda>_. Inr (str_of a, the (map_of arms (str_of a))))))"

definition checked :: "bool py \<Rightarrow> string \<Rightarrow> unit py" where
  "checked b msg = bindE b (\<lambda>ok. latency_error ok msg)"

lemma checked_Inr [simp]: "checked b msg = Inr u \<longleftrightarrow> b = Inr True"
  by (cases b) (auto simp: checked_def)

definition load_p31_row :: "world \<Rightarrow> string \<Rightarrow> arm_entries \<Rightarrow> string \<Rightarrow> json py" where
  "load_p31_row w directory arms line = bindE (json_loads w line) (\<lambda>row.
     bindE (checked (has_value row (''engine'', JStr ''fifo'')) ''engine is not fifo'') (\<lambda>_.
     bindE (row_arm arms row) (\<lambda>(arm, entry).
     bindE (get row ''client_sha256'') (\<lambda>h. bindE (getitem entry ''client_sha256'') (\<lambda>sha.
     bindE (latency_error (jeq h sha) ''client hash does not match arm'') (\<lambda>_.
     bindE (checked (has_value row (''arm_environment'', ARM_ENVIRONMENT arm)) ''arm environment mismatch'') (\<lambda>_.
     bindE (checked (registered_row row) ''not the registered latency matrix'') (\<lambda>_.
     bindE (checked (phase_round row) ''invalid phase or round'') (\<lambda>_.
     bindE (verify_raw_row w directory row) (\<lambda>_. bindE (getitem row ''result'') (\<lambda>result.
     bindE (getitem row ''payload'') (\<lambda>payload. bindE (getitem row ''origin'') (\<lambda>origin.
     bindE (checked (everyE (has_value result) (expected_settings (payload_text payload) origin)) ''result settings or completion mismatch'') (\<lambda>_.
     bindE (checked (one_subscriber row result) ''subscriber counts or quantiles mismatch'') (\<lambda>_.
     bindE (getitem row ''resources'') (\<lambda>r. bindE (getitem r ''memory.events'') (\<lambda>m. bindE (event_counts m) (\<lambda>events.
     bindE (any_event memory_events events) (\<lambda>bad. bindE (latency_error (\<not> bad) ''memory pressure event'') (\<lambda>_. Inr row))))))))))))))))))))"

definition load_p31_rows :: "world \<Rightarrow> string \<Rightarrow> arm_entries \<Rightarrow> json list py" where
  "load_p31_rows w directory arms = (let path = slash directory ''results.jsonl'' in
     bindE (latency_error (is_file w path) ''missing results.jsonl'') (\<lambda>_. bindE (read_text w path) (\<lambda>t.
     bindE (mapE (load_p31_row w directory arms) (filter (\<lambda>l. strip l \<noteq> []) (splitlines t))) (\<lambda>rows.
     bindE (latency_error (rows \<noteq> []) ''empty latency results'') (\<lambda>_. Inr rows)))))"

section \<open>The summary\<close>

record p31_latency_group =
  pl_origin :: json
  pl_payload :: json
  pl_arm :: string
  pl_count :: nat
  pl_published :: int
  pl_delivered :: int
  pl_completion :: num
  pl_quantiles :: "(string \<times> num) list"
  pl_ranges :: "(string \<times> num \<times> num) list"
  pl_throughput :: num

definition measured_rounds :: "json list" where
  "measured_rounds = map (\<lambda>i. jint (int i)) [1 ..< 10 + 1]"

text \<open>\<open>int(row["result"]["delivered"]) / (row["rate"] * row["duration_s"])\<close>\<close>

definition completion_of :: "json \<Rightarrow> num py" where
  "completion_of row = bindE (result_int ''delivered'' row) (\<lambda>d. bindE (getitem row ''rate'') (\<lambda>r. bindE (getitem row ''duration_s'') (\<lambda>s.
     bindE (mul_json r s) (\<lambda>planned. bindE (as_num planned) (\<lambda>n. ndiv (I d) n)))))"

definition one_count :: "int list \<Rightarrow> int py" where
  "one_count ns = (case remdups ns of [n] \<Rightarrow> Inr n | _ \<Rightarrow> Inl (RuntimeError ''inconsistent published counts''))"

definition p31_group_of :: "json list \<Rightarrow> json \<Rightarrow> json \<Rightarrow> string \<Rightarrow> p31_latency_group py" where
  "p31_group_of rows origin payload arm =
     bindE (filterE (in_arm origin payload arm) rows) (\<lambda>found.
     bindE (sort_rows (\<lambda>r. getitem r ''round'') found) (\<lambda>arm_rows.
     bindE (mapE (\<lambda>r. getitem r ''round'') arm_rows) (\<lambda>observed.
     bindE (latency_error (jeq (JList observed) (JList measured_rounds)) ''does not contain measured rounds 1..10'') (\<lambda>_.
     bindE (mapE (result_int ''published'') arm_rows) (\<lambda>ns. bindE (one_count ns) (\<lambda>published.
     bindE (mapE (result_int ''delivered'') arm_rows) (\<lambda>delivered.
     bindE (mapE completion_of arm_rows) (\<lambda>cs. bindE (num_min cs) (\<lambda>completion.
     bindE (metric_medians arm_rows) (\<lambda>quantiles. bindE (metric_ranges arm_rows) (\<lambda>ranges.
     bindE (mapE rate_mmsg arm_rows) (\<lambda>rates. bindE (median rates) (\<lambda>thr.
     Inr \<lparr>pl_origin = origin, pl_payload = payload, pl_arm = arm, pl_count = length arm_rows, pl_published = published,
       pl_delivered = sum_list delivered, pl_completion = completion, pl_quantiles = quantiles, pl_ranges = ranges,
       pl_throughput = thr\<rparr>)))))))))))))"

definition origin_payloads :: "json list \<Rightarrow> json \<Rightarrow> json list py" where
  "origin_payloads rows origin = bindE (filterE (item_is ''origin'' origin) rows) (\<lambda>rs.
     bindE (mapE (\<lambda>r. getitem r ''payload'') rs) json_set)"

text \<open>\<open>any(payloads of the origin != {64, 256})\<close>\<close>

definition payloads_differ :: "json list \<Rightarrow> json \<Rightarrow> bool py" where
  "payloads_differ rows origin = bindE (origin_payloads rows origin) (\<lambda>ps. Inr (\<not> same_set ps [jint 64, jint 256]))"

definition p31_origin_groups :: "json list \<Rightarrow> json \<Rightarrow> p31_latency_group list py" where
  "p31_origin_groups rows origin = bindE (payloads_of rows origin) (\<lambda>payloads.
     bindE (mapE (\<lambda>p. mapE (p31_group_of rows origin p) P31L_ARMS) payloads) (\<lambda>gs. Inr (concat gs)))"

definition summarize_p31 :: "json list \<Rightarrow> p31_latency_group list py" where
  "summarize_p31 rows =
     bindE (latency_error (rows \<noteq> []) ''no latency rows'') (\<lambda>_.
     bindE (mapE (\<lambda>r. getitem r ''origin'') rows) (\<lambda>os. bindE (json_set os) (\<lambda>origins.
     bindE (someE (payloads_differ rows) origins) (\<lambda>bad.
     bindE (latency_error (\<not> bad) ''every origin requires both payloads 64 and 256 B'') (\<lambda>_.
     bindE (sorted_set os) (\<lambda>sorted_origins.
     bindE (mapE (p31_origin_groups rows) sorted_origins) (\<lambda>gs. Inr (concat gs))))))))"

section \<open>The gate\<close>

record g4_gate =
  g4_payload :: json
  g4_p50 :: "(string \<times> num) list"
  g4_p99 :: "(string \<times> num) list"
  g4_p999 :: "(string \<times> num) list"
  g4_delta :: num
  g4_p50_passed :: bool
  g4_published :: "(string \<times> int) list"
  g4_completion_passed :: bool
  g4_baseline :: "(string \<times> num) list"
  g4_short_passed :: bool
  g4_passed :: "bool option"

definition G4_P50_ALLOWANCE_NS :: int where
  "G4_P50_ALLOWANCE_NS = 10"

definition planned_group :: "p31_latency_group \<Rightarrow> bool" where
  "planned_group g \<longleftrightarrow> pl_origin g = JStr ''planned''"

text \<open>The dictionary \<open>by_arm\<close>: a later group of an arm replaces an earlier one.\<close>

definition by_arm :: "p31_latency_group list \<Rightarrow> json \<Rightarrow> string \<Rightarrow> p31_latency_group py" where
  "by_arm groups payload arm = (case rev (filter (\<lambda>g. planned_group g \<and> jeq (pl_payload g) payload \<and> pl_arm g = arm) groups) of
     [] \<Rightarrow> Inl KeyError | g # _ \<Rightarrow> Inr g)"

definition quantile_of :: "string \<Rightarrow> p31_latency_group \<Rightarrow> num py" where
  "quantile_of m g = (case map_of (pl_quantiles g) m of None \<Rightarrow> Inl KeyError | Some x \<Rightarrow> Inr x)"

definition quantile_row :: "p31_latency_group list \<Rightarrow> json \<Rightarrow> string \<Rightarrow> (string \<times> num) list py" where
  "quantile_row groups payload m = mapE (\<lambda>arm. bindE (by_arm groups payload arm) (\<lambda>g. bindE (quantile_of m g) (\<lambda>x. Inr (arm, x)))) P31L_ARMS"

definition g4_of :: "p31_latency_group list \<Rightarrow> json \<Rightarrow> g4_gate py" where
  "g4_of groups payload =
     bindE (by_arm groups payload ''S'') (\<lambda>s. bindE (by_arm groups payload ''A'') (\<lambda>a. bindE (by_arm groups payload ''B'') (\<lambda>b.
     bindE (quantile_of ''p50'' a) (\<lambda>pa. bindE (quantile_of ''p50'' s) (\<lambda>ps. bindE (nsub pa ps) (\<lambda>delta.
     let counts = map (\<lambda>g. (pl_arm g, pl_published g)) [b, s, a];
       completion_ok = (length (remdups (map snd counts)) = 1 \<and> (\<forall>g \<in> set [b, s, a]. neq (pl_completion g) (I 1)));
       p50_ok = nle delta (I G4_P50_ALLOWANCE_NS) in
     bindE (quantile_row groups payload ''p50'') (\<lambda>p50. bindE (quantile_row groups payload ''p99'') (\<lambda>p99.
     bindE (quantile_row groups payload ''p999'') (\<lambda>p999.
     Inr \<lparr>g4_payload = payload, g4_p50 = p50, g4_p99 = p99, g4_p999 = p999, g4_delta = delta, g4_p50_passed = p50_ok,
       g4_published = counts, g4_completion_passed = completion_ok, g4_baseline = pl_quantiles b,
       g4_short_passed = (p50_ok \<and> completion_ok),
       g4_passed = (if nlt (I G4_P50_ALLOWANCE_NS) delta \<or> \<not> completion_ok then Some False else None)\<rparr>)))))))))"

definition assess_g4 :: "p31_latency_group list \<Rightarrow> g4_gate list py" where
  "assess_g4 groups = bindE (sorted_set (map pl_payload (filter planned_group groups))) (\<lambda>payloads. mapE (g4_of groups) payloads)"

section \<open>The comparison\<close>

record p31_latency_report =
  plr_directory :: string
  plr_arms :: "(string \<times> json \<times> json) list"
  plr_groups :: "p31_latency_group list"
  plr_g4 :: "g4_gate list"
  plr_short :: bool
  plr_all :: "bool option"

definition never_passed :: "bool option list \<Rightarrow> bool option" where
  "never_passed vs = (if Some False \<in> set vs then Some False else None)"

definition arm_view :: "string \<times> json \<Rightarrow> (string \<times> json \<times> json) py" where
  "arm_view ae = bindE (getitem (snd ae) ''client_sha256'') (\<lambda>h. bindE (getitem (snd ae) ''environment'') (\<lambda>e. Inr (fst ae, h, e)))"

definition compare_p31_latency :: "world \<Rightarrow> string \<Rightarrow> string \<Rightarrow> p31_latency_report py" where
  "compare_p31_latency w input baseline_sha256 = (let directory = resolved w input in
     bindE (load_arms w directory baseline_sha256) (\<lambda>arms. bindE (load_p31_rows w directory arms) (\<lambda>rows.
     bindE (summarize_p31 rows) (\<lambda>groups. bindE (assess_g4 groups) (\<lambda>gates. bindE (mapE arm_view arms) (\<lambda>views.
     Inr \<lparr>plr_directory = directory, plr_arms = views, plr_groups = groups, plr_g4 = gates,
       plr_short = (gates \<noteq> [] \<and> (\<forall>g \<in> set gates. g4_short_passed g)), plr_all = never_passed (map g4_passed gates)\<rparr>))))))"

record p31_latency_payload =
  plp_inputs :: "string list"
  plp_arms :: "(string \<times> json \<times> json) list"
  plp_groups :: "p31_latency_group list"
  plp_g4 :: "g4_gate list"
  plp_short :: bool
  plp_all :: "bool option"

text \<open>Two dictionaries of arms are equal when every arm has equal hashes and environments in both.\<close>

definition same_view :: "(string \<times> json \<times> json) list \<Rightarrow> (string \<times> json \<times> json) list \<Rightarrow> bool" where
  "same_view xs ys \<longleftrightarrow> (\<forall>arm \<in> set P31L_ARMS. case (map_of xs arm, map_of ys arm) of
     (Some (h, e), Some (h', e')) \<Rightarrow> jeq h h' \<and> jeq e e' | (None, None) \<Rightarrow> True | _ \<Rightarrow> False)"

definition group_key :: "p31_latency_group \<Rightarrow> json" where
  "group_key g = JList [pl_origin g, pl_payload g, JStr (pl_arm g)]"

definition required_keys :: "json list" where
  "required_keys = concat (map (\<lambda>q. concat (map (\<lambda>n. map (\<lambda>arm. JList [JStr q, jint n, JStr arm]) P31L_ARMS) [64, 256])) [''attempt'', ''planned''])"

text \<open>The keys are tuples of a string, a number and a string, so they are hashable and compare by their parts.\<close>

fun distinct_json :: "json list \<Rightarrow> bool" where
  "distinct_json [] = True"
| "distinct_json (k # ks) = (\<not> mem_json k ks \<and> distinct_json ks)"

definition keys_complete :: "json list \<Rightarrow> bool" where
  "keys_complete ks \<longleftrightarrow> distinct_json ks \<and> same_set ks required_keys"

definition p31_latency_main :: "world \<Rightarrow> string list \<Rightarrow> p31_latency_payload py" where
  "p31_latency_main w inputs =
     bindE (mapE (\<lambda>p. compare_p31_latency w p BASELINE_SHA256) inputs) (\<lambda>results. bindE (nthE results 0) (\<lambda>first.
     bindE (require (\<forall>r \<in> set results. same_view (plr_arms r) (plr_arms first)) (SystemExit ''latency inputs use different client identities'')) (\<lambda>_.
     let groups = concat (map plr_groups results) in
     bindE (require (keys_complete (map group_key groups)) (SystemExit ''require exactly both origins, both payloads and all three arms'')) (\<lambda>_.
     Inr \<lparr>plp_inputs = map plr_directory results, plp_arms = plr_arms first, plp_groups = groups, plp_g4 = concat (map plr_g4 results),
       plp_short = (\<forall>r \<in> set results. plr_short r), plp_all = never_passed (map plr_all results)\<rparr>))))"

section \<open>What a group rests on\<close>

text \<open>A verified row: the client of its arm, and a hashed raw output whose single RESULT line is the recorded result.\<close>

definition p31_row_sound :: "world \<Rightarrow> string \<Rightarrow> arm_entries \<Rightarrow> json \<Rightarrow> bool" where
  "p31_row_sound w dir arms row \<longleftrightarrow> (\<exists>arm entry h sha. get row ''arm'' = Inr (JStr arm) \<and> map_of arms arm = Some entry
      \<and> getitem entry ''client_sha256'' = Inr sha \<and> get row ''client_sha256'' = Inr h \<and> jeq h sha
      \<and> has_value row (''arm_environment'', ARM_ENVIRONMENT arm) = Inr True)
    \<and> (\<exists>name t line d result payload origin. getitem row ''stdout'' = Inr (JStr name) \<and> file_text w (slash dir name) = Some t
      \<and> get row ''stdout_sha256'' = Inr (JStr (sha256_hex w t)) \<and> filter (\<lambda>l. starts_with l ''RESULT '') (splitlines t) = [line]
      \<and> fields_of line = Inr d \<and> getitem row ''result'' = Inr result \<and> jeq (result_fields d) result
      \<and> (\<forall>kv \<in> set (expected_settings payload origin). has_value result kv = Inr True) \<and> getitem row ''origin'' = Inr origin)"

lemma plain_name_Inr: "plain_name v = Inr n \<Longrightarrow> v = JStr n"
  by (cases v) (auto simp: plain_name_def bindE_Inr)

lemma get_nonempty: "get_or row k (JStr []) = Inr (JStr n) \<Longrightarrow> n \<noteq> [] \<Longrightarrow> getitem row k = Inr (JStr n)"
  by (cases row) (auto simp: dict_get_def split: option.splits)

lemma raw_stdout:
  assumes "raw_file w dir row kind = Inr u"
  shows "\<exists>n t. getitem row kind = Inr (JStr n) \<and> file_text w (slash dir n) = Some t \<and> get row (kind @ ''_sha256'') = Inr (JStr (sha256_hex w t))"
proof -
  obtain v n digest h where r: "get_or row kind (JStr []) = Inr v" "plain_name v = Inr n" "file_sha w (slash dir n) = Inr digest"
      "get row (kind @ ''_sha256'') = Inr h" "jeq h (JStr digest)"
    using assms unfolding raw_file_def Let_def bindE_Inr latency_error_Inr by blast
  have "v = JStr n" "n \<noteq> []" using plain_name_Inr [OF r(2)] r(2) by (auto simp: plain_name_def bindE_Inr)
  then show ?thesis using r get_nonempty [of row kind n] by (auto simp: file_sha_Inr)
qed

lemma single_result:
  assumes "parsed_lines tag ls = Inr v" "jeq v (JList [result])"
  shows "\<exists>line d. filter (\<lambda>l. starts_with l tag) ls = [line] \<and> fields_of line = Inr d \<and> jeq (result_fields d) result"
proof -
  obtain ds where d: "mapE fields_of (filter (\<lambda>l. starts_with l tag) ls) = Inr ds" "v = JList (map result_fields ds)"
    using assms(1) unfolding parsed_lines_def bindE_Inr by auto
  then obtain d0 where "ds = [d0]" "jeq (result_fields d0) result" using assms(2) by (cases ds; cases "tl ds") auto
  then show ?thesis using d(1) by (cases "filter (\<lambda>l. starts_with l tag) ls"; cases "tl (filter (\<lambda>l. starts_with l tag) ls)") (auto simp: bindE_Inr)
qed

lemma verify_raw_row_sound:
  assumes "verify_raw_row w dir row = Inr u"
  shows "\<exists>name t line d result. getitem row ''stdout'' = Inr (JStr name) \<and> file_text w (slash dir name) = Some t
      \<and> get row ''stdout_sha256'' = Inr (JStr (sha256_hex w t)) \<and> filter (\<lambda>l. starts_with l ''RESULT '') (splitlines t) = [line]
      \<and> fields_of line = Inr d \<and> getitem row ''result'' = Inr result \<and> jeq (result_fields d) result"
proof -
  obtain us v name t results result where r: "mapE (raw_file w dir row) [''stdout'', ''stderr''] = Inr us" "getitem row ''stdout'' = Inr v"
      "as_str v = Inr name" "read_text w (slash dir name) = Inr t" "parsed_lines ''RESULT '' (splitlines t) = Inr results"
      "getitem row ''result'' = Inr result" "jeq results (JList [result])"
    using assms unfolding verify_raw_row_def bindE_Inr latency_error_Inr by blast
  obtain u where "raw_file w dir row ''stdout'' = Inr u" using r(1) by (auto simp: bindE_Inr)
  then show ?thesis using raw_stdout [of w dir row "''stdout''" u] single_result [OF r(5,7)] r by (auto simp: read_text_Inr)
qed

lemma load_p31_row_sound:
  assumes "load_p31_row w dir arms line = Inr row" shows "p31_row_sound w dir arms row"
proof -
  obtain arm entry h sha u result payload origin where r: "row_arm arms row = Inr (arm, entry)" "get row ''client_sha256'' = Inr h"
      "getitem entry ''client_sha256'' = Inr sha" "jeq h sha" "has_value row (''arm_environment'', ARM_ENVIRONMENT arm) = Inr True"
      "verify_raw_row w dir row = Inr u" "getitem row ''result'' = Inr result" "getitem row ''payload'' = Inr payload"
      "getitem row ''origin'' = Inr origin" "everyE (has_value result) (expected_settings (payload_text payload) origin) = Inr True"
    using assms unfolding load_p31_row_def bindE_Inr latency_error_Inr checked_Inr sum.inject split_paired_Ex prod.case by blast
  have "get row ''arm'' = Inr (JStr arm)" "map_of arms arm = Some entry"
    using r(1) unfolding row_arm_def bindE_Inr latency_error_Inr sum.inject by (auto elim: is_str.elims)
  moreover have "\<forall>kv \<in> set (expected_settings (payload_text payload) origin). has_value result kv = Inr True"
    using r(10) by (simp add: everyE_True)
  ultimately show ?thesis unfolding p31_row_sound_def using r verify_raw_row_sound [OF r(6)] by (intro conjI) (blast, force)
qed

interpretation p31_row: loader "load_p31_row w dir arms" "p31_row_sound w dir arms" for w dir arms
  by unfold_locales (rule load_p31_row_sound)

text \<open>The ten rows behind a group, and what the group says of them.\<close>

definition p31_group_rows :: "json list \<Rightarrow> p31_latency_group \<Rightarrow> json list \<Rightarrow> bool" where
  "p31_group_rows rows g rs \<longleftrightarrow> set rs \<subseteq> set rows \<and> length rs = 10
     \<and> (\<forall>r \<in> set rs. in_arm (pl_origin g) (pl_payload g) (pl_arm g) r = Inr True)
     \<and> (\<forall>i < 10. \<exists>v. getitem (rs ! i) ''round'' = Inr v \<and> jeq v (jint (int i + 1)))
     \<and> metric_medians rs = Inr (pl_quantiles g)
     \<and> (\<exists>cs. mapE completion_of rs = Inr cs \<and> num_min cs = Inr (pl_completion g))"

lemma p31_group_Inr:
  assumes "p31_group_of rows q p arm = Inr g"
  shows "pl_origin g = q \<and> pl_payload g = p \<and> pl_arm g = arm \<and> (\<exists>rs. p31_group_rows rows g rs)"
proof -
  obtain found rs vs ns pub del cs comp qs ranges thr where g: "filterE (in_arm q p arm) rows = Inr found"
    "sort_rows (\<lambda>r. getitem r ''round'') found = Inr rs" "mapE (\<lambda>r. getitem r ''round'') rs = Inr vs"
    "jeq (JList vs) (JList measured_rounds)" "mapE completion_of rs = Inr cs" "num_min cs = Inr comp" "metric_medians rs = Inr qs"
    "g = \<lparr>pl_origin = q, pl_payload = p, pl_arm = arm, pl_count = length rs, pl_published = pub, pl_delivered = del,
       pl_completion = comp, pl_quantiles = qs, pl_ranges = ranges, pl_throughput = thr\<rparr>"
    using assms unfolding p31_group_of_def bindE_Inr latency_error_Inr sum.inject by blast
  have "set rs = set found" using mset_sort_rows [OF g(2)] by (metis set_mset_mset)
  then have "\<forall>r \<in> set rs. r \<in> set rows \<and> in_arm q p arm r = Inr True" using filterE_set [OF g(1)] by simp
  then show ?thesis using sorted_rounds [OF g(3) g(4) [unfolded measured_rounds_def]] g(5-7)
    unfolding g(8) p31_group_rows_def p31_latency_group.simps by blast
qed

text \<open>Every origin of a summary has all three arms at both payloads.\<close>

lemma origin_groups_Inr:
  assumes "p31_origin_groups rows q = Inr gs" "g \<in> set gs"
  shows "pl_origin g = q \<and> (\<exists>rs. p31_group_rows rows g rs)"
proof -
  obtain ps gss where gs: "mapE (\<lambda>p. mapE (p31_group_of rows q p) P31L_ARMS) ps = Inr gss" "gs = concat gss"
    using assms(1) unfolding p31_origin_groups_def bindE_Inr by auto
  obtain gl where gl: "gl \<in> set gss" "g \<in> set gl" using assms(2) gs(2) by auto
  obtain p where p: "mapE (p31_group_of rows q p) P31L_ARMS = Inr gl" using mapE_set_D [OF gs(1) gl(1)] by blast
  obtain arm where "p31_group_of rows q p arm = Inr g" using mapE_set_D [OF p gl(2)] by blast
  note r = p31_group_Inr [OF this]
  show ?thesis by (intro conjI) (rule r [THEN conjunct1], rule r [THEN conjunct2, THEN conjunct2, THEN conjunct2])
qed

lemma origin_groups_complete:
  assumes "p31_origin_groups rows q = Inr gs" "payloads_differ rows q = Inr False" "n \<in> {64, 256}" "arm \<in> set P31L_ARMS"
  shows "\<exists>g \<in> set gs. pl_origin g = q \<and> jeq (pl_payload g) (jint n) \<and> pl_arm g = arm"
proof -
  obtain ps gss where gs: "payloads_of rows q = Inr ps" "mapE (\<lambda>p. mapE (p31_group_of rows q p) P31L_ARMS) ps = Inr gss" "gs = concat gss"
    using assms(1) unfolding p31_origin_groups_def bindE_Inr by auto
  obtain rs vs where v: "filterE (item_is ''origin'' q) rows = Inr rs" "mapE (\<lambda>r. getitem r ''payload'') rs = Inr vs" "sorted_set vs = Inr ps"
    using gs(1) unfolding payloads_of_def bindE_Inr by blast
  obtain zs where z: "json_set vs = Inr zs" "set zs = set ps" using sorted_set_members [OF v(3)] by blast
  have "same_set zs [jint 64, jint 256]"
    using assms(2) unfolding payloads_differ_def origin_payloads_def v(1) bindE.simps v(2) z(1) by simp
  then have "mem_json (jint n) zs" using assms(3) unfolding same_set_def by auto
  then obtain p where p: "p \<in> set ps" "jeq p (jint n)" using z(2) unfolding mem_json_def by auto
  obtain gl where gl: "gl \<in> set gss" "mapE (p31_group_of rows q p) P31L_ARMS = Inr gl" using mapE_set [OF gs(2) p(1)] by blast
  obtain g where "g \<in> set gl" "p31_group_of rows q p arm = Inr g" using mapE_set [OF gl(2) assms(4)] by blast
  then show ?thesis using p31_group_Inr [of rows q p arm g] p(2) gl(1) gs(3) by auto
qed

lemma summary_Inr:
  assumes "summarize_p31 rows = Inr gs"
  shows "g \<in> set gs \<Longrightarrow> \<exists>rs. p31_group_rows rows g rs"
    and "g \<in> set gs \<Longrightarrow> n \<in> {64, 256} \<Longrightarrow> arm \<in> set P31L_ARMS \<Longrightarrow>
      \<exists>h \<in> set gs. pl_origin h = pl_origin g \<and> jeq (pl_payload h) (jint n) \<and> pl_arm h = arm"
proof -
  obtain os origins bad sorted_origins gss where b: "\<not> bad" and s: "json_set os = Inr origins" "someE (payloads_differ rows) origins = Inr bad"
      "sorted_set os = Inr sorted_origins" "mapE (p31_origin_groups rows) sorted_origins = Inr gss" "gs = concat gss"
    using assms unfolding summarize_p31_def bindE_Inr latency_error_Inr sum.inject by blast
  note s = s [unfolded eq_False [THEN iffD2, OF b]]
  have members: "set origins = set sorted_origins" using sorted_set_members [OF s(3)] s(1) by auto
  have group: "\<exists>q gl. gl \<in> set gss \<and> q \<in> set origins \<and> p31_origin_groups rows q = Inr gl \<and> g \<in> set gl" if "g \<in> set gs" for g
    using that s(5) mapE_set_D [OF s(4)] members by fastforce
  show "\<exists>rs. p31_group_rows rows g rs" if "g \<in> set gs"
    using group [OF that] origin_groups_Inr by blast
  assume g: "g \<in> set gs" and n: "n \<in> {64, 256}" and arm: "arm \<in> set P31L_ARMS"
  obtain q gl where q: "gl \<in> set gss" "q \<in> set origins" "p31_origin_groups rows q = Inr gl" "g \<in> set gl" using group [OF g] by blast
  have "payloads_differ rows q = Inr False" using s(2) q(2) by (simp add: someE_False)
  then obtain h where "h \<in> set gl" "pl_origin h = q" "jeq (pl_payload h) (jint n)" "pl_arm h = arm"
    using origin_groups_complete [OF q(3) _ n arm] by blast
  moreover have "pl_origin g = q" using origin_groups_Inr [OF q(3,4)] by blast
  ultimately show "\<exists>h \<in> set gs. pl_origin h = pl_origin g \<and> jeq (pl_payload h) (jint n) \<and> pl_arm h = arm"
    using q(1) s(5) by auto
qed

section \<open>What a short pass rests on\<close>

definition planned_arm :: "int \<Rightarrow> string \<Rightarrow> p31_latency_group \<Rightarrow> bool" where
  "planned_arm n arm g \<longleftrightarrow> pl_origin g = JStr ''planned'' \<and> jeq (pl_payload g) (jint n) \<and> pl_arm g = arm"

definition short_pass :: "int \<Rightarrow> p31_latency_group list \<Rightarrow> bool" where
  "short_pass n groups \<longleftrightarrow> (\<exists>b \<in> set groups. \<exists>s \<in> set groups. \<exists>a \<in> set groups. planned_arm n ''B'' b \<and> planned_arm n ''S'' s \<and> planned_arm n ''A'' a
     \<and> (\<forall>g \<in> {b, s, a}. neq (pl_completion g) (I 1))
     \<and> (\<exists>pa ps d. quantile_of ''p50'' a = Inr pa \<and> quantile_of ''p50'' s = Inr ps \<and> nsub pa ps = Inr d \<and> nle d (I 10)))"

lemma by_arm_Inr:
  assumes "by_arm groups p arm = Inr g" "jeq p (jint n)" "\<forall>h \<in> set groups. hashable (pl_payload h)"
  shows "g \<in> set groups \<and> planned_arm n arm g"
proof -
  have "g \<in> set (filter (\<lambda>g. planned_group g \<and> jeq (pl_payload g) p \<and> pl_arm g = arm) groups)"
    using assms(1) unfolding by_arm_def by (metis (no_types, lifting) Inl_Inr_False Inr_inject list.case(1,2) list.set_intros(1) neq_Nil_conv set_rev)
  then show ?thesis
    using jeq_trans_hash [of "pl_payload g" p "jint n"] assms(2,3) jeq_jint_hashable [OF assms(2)]
    by (auto simp: planned_arm_def planned_group_def)
qed

lemma g4_short_sound:
  assumes "g4_of groups p = Inr g" "g4_short_passed g" "jeq p (jint n)" "\<forall>h \<in> set groups. hashable (pl_payload h)"
  shows "short_pass n groups"
proof -
  obtain s a b pa ps delta p50 p99 p999 where r: "by_arm groups p ''S'' = Inr s" "by_arm groups p ''A'' = Inr a" "by_arm groups p ''B'' = Inr b"
      "quantile_of ''p50'' a = Inr pa" "quantile_of ''p50'' s = Inr ps" "nsub pa ps = Inr delta"
    and g: "g = \<lparr>g4_payload = p, g4_p50 = p50, g4_p99 = p99, g4_p999 = p999, g4_delta = delta, g4_p50_passed = nle delta (I G4_P50_ALLOWANCE_NS),
       g4_published = map (\<lambda>g. (pl_arm g, pl_published g)) [b, s, a],
       g4_completion_passed = (length (remdups (map snd (map (\<lambda>g. (pl_arm g, pl_published g)) [b, s, a]))) = 1 \<and> (\<forall>g \<in> set [b, s, a]. neq (pl_completion g) (I 1))),
       g4_baseline = pl_quantiles b,
       g4_short_passed = (nle delta (I G4_P50_ALLOWANCE_NS) \<and> (length (remdups (map snd (map (\<lambda>g. (pl_arm g, pl_published g)) [b, s, a]))) = 1 \<and> (\<forall>g \<in> set [b, s, a]. neq (pl_completion g) (I 1)))),
       g4_passed = (if nlt (I G4_P50_ALLOWANCE_NS) delta \<or> \<not> (length (remdups (map snd (map (\<lambda>g. (pl_arm g, pl_published g)) [b, s, a]))) = 1 \<and> (\<forall>g \<in> set [b, s, a]. neq (pl_completion g) (I 1))) then Some False else None)\<rparr>"
    using assms(1) unfolding g4_of_def Let_def bindE_Inr sum.inject by blast
  note arms = r(1-3) [THEN by_arm_Inr, OF assms(3,4)]
  show ?thesis unfolding short_pass_def
    using arms r(4-6) assms(2) unfolding g g4_gate.simps G4_P50_ALLOWANCE_NS_def
    by (intro bexI [of _ b] bexI [of _ s] bexI [of _ a]) auto
qed

lemma compare_Inr:
  assumes "compare_p31_latency w input sha = Inr r"
  obtains arms rows where "load_arms w (resolved w input) sha = Inr arms" "load_p31_rows w (resolved w input) arms = Inr rows"
    "summarize_p31 rows = Inr (plr_groups r)" "assess_g4 (plr_groups r) = Inr (plr_g4 r)"
    "plr_short r = (plr_g4 r \<noteq> [] \<and> (\<forall>g \<in> set (plr_g4 r). g4_short_passed g))"
  using assms unfolding compare_p31_latency_def Let_def bindE_Inr sum.inject
  by (elim exE conjE) (hypsubst, unfold p31_latency_report.simps, blast)

lemma loaded_rows_sound:
  assumes "load_p31_rows w dir arms = Inr rows" "row \<in> set rows" shows "p31_row_sound w dir arms row"
proof -
  obtain ls where "mapE (load_p31_row w dir arms) ls = Inr rows"
    using assms(1) unfolding load_p31_rows_def Let_def bindE_Inr sum.inject by blast
  then show ?thesis using assms(2) by (rule p31_row.all_sound)
qed

text \<open>A short pass covers every payload at which the directory has a planned group.\<close>

lemma short_gates:
  assumes "compare_p31_latency w input sha = Inr r" "plr_short r" "g \<in> set (plr_groups r)" "planned_arm n arm g"
    "\<forall>h \<in> set (plr_groups r). hashable (pl_payload h)"
  shows "short_pass n (plr_groups r)"
proof -
  obtain arms rows where "summarize_p31 rows = Inr (plr_groups r)" and g4: "assess_g4 (plr_groups r) = Inr (plr_g4 r)"
    and short: "plr_short r = (plr_g4 r \<noteq> [] \<and> (\<forall>g \<in> set (plr_g4 r). g4_short_passed g))"
    using assms(1) by (rule compare_Inr)
  obtain payloads where p: "sorted_set (map pl_payload (filter planned_group (plr_groups r))) = Inr payloads"
      "mapE (g4_of (plr_groups r)) payloads = Inr (plr_g4 r)" using g4 unfolding assess_g4_def bindE_Inr by blast
  obtain zs where z: "json_set (map pl_payload (filter planned_group (plr_groups r))) = Inr zs" "set zs = set payloads"
    using sorted_set_members [OF p(1)] by blast
  have g: "pl_payload g \<in> set (map pl_payload (filter planned_group (plr_groups r)))" "jeq (pl_payload g) (jint n)"
    using assms(3,4) by (auto simp: planned_arm_def planned_group_def)
  have sub: "set zs \<subseteq> pl_payload ` set (plr_groups r)"
    using z(1) set_fold_add [of "map pl_payload (filter planned_group (plr_groups r))" "[]"] by (auto simp: json_set_def bindE_Inr)
  obtain q where q: "q \<in> set payloads" "q = pl_payload g \<or> jeq q (pl_payload g)"
    using json_set_covers [OF z(1) g(1)] z(2) unfolding mem_json_def by auto
  have "hashable q" using q(1) z(2) sub assms(5) by auto
  then have "jeq q (jint n)" using q(2) g(2) jeq_trans_hash [of q "pl_payload g" "jint n"] jeq_jint_hashable [OF g(2)] by auto
  moreover obtain gate where gate: "gate \<in> set (plr_g4 r)" "g4_of (plr_groups r) q = Inr gate" using mapE_set [OF p(2) q(1)] by blast
  ultimately show ?thesis using g4_short_sound [OF gate(2) _ _ assms(5)] short assms(2) gate(1) by blast
qed

lemma distinct_json_append:
  "distinct_json (xs @ ys) \<Longrightarrow> x \<in> set xs \<Longrightarrow> y \<in> set ys \<Longrightarrow> \<not> jeq y x"
  by (induction xs) (auto simp: mem_json_def)

lemma distinct_concat:
  assumes "distinct_json (concat (map f rs))" "i < j" "j < length rs" "x \<in> set (f (rs ! i))" "y \<in> set (f (rs ! j))"
  shows "\<not> jeq y x"
proof -
  have split: "concat (map f rs) = concat (map f (take j rs)) @ concat (map f (drop j rs))"
    by (metis append_take_drop_id concat_append map_append)
  have "x \<in> set (concat (map f (take j rs)))" using assms(2-4) by (fastforce simp: in_set_conv_nth)
  moreover have "y \<in> set (concat (map f (drop j rs)))"
    using assms(3,5) by (auto simp: Cons_nth_drop_Suc [symmetric])
  ultimately show ?thesis using distinct_json_append assms(1) unfolding split by blast
qed

lemma key_payload:
  assumes "mem_json (group_key g) required_keys"
  shows "pl_origin g \<in> {JStr ''attempt'', JStr ''planned''} \<and> (jeq (jint 64) (pl_payload g) \<or> jeq (jint 256) (pl_payload g))"
  using assms by (auto simp: mem_json_def required_keys_def group_key_def P31L_ARMS_def)

lemma key_present:
  assumes "mem_json (JList [JStr q, jint n, JStr arm]) (map group_key groups)"
  shows "\<exists>g \<in> set groups. pl_origin g = JStr q \<and> jeq (pl_payload g) (jint n) \<and> pl_arm g = arm"
  using assms by (auto simp: mem_json_def group_key_def)

lemma jint_hashable: "jeq (jint n) v \<Longrightarrow> hashable v"
  by (cases v) auto

lemma main_Inr:
  assumes "p31_latency_main w inputs = Inr rep"
  obtains results where "mapE (\<lambda>p. compare_p31_latency w p BASELINE_SHA256) inputs = Inr results" "results \<noteq> []"
    "keys_complete (map group_key (concat (map plr_groups results)))" "plp_groups rep = concat (map plr_groups results)"
    "plp_short rep = (\<forall>r \<in> set results. plr_short r)" "plp_all rep = never_passed (map plr_all results)"
  using assms unfolding p31_latency_main_def Let_def bindE_Inr require_Inr nthE_Inr sum.inject
  by (elim exE conjE) (hypsubst, unfold p31_latency_payload.simps, blast)

text \<open>Two inputs cannot both hold planned groups, and an input without planned groups does not pass.\<close>

lemma short_single:
  assumes "p31_latency_main w inputs = Inr rep" "plp_short rep"
  shows "length inputs = 1"
proof (rule ccontr)
  assume ne: "length inputs \<noteq> 1"
  obtain results where r: "mapE (\<lambda>p. compare_p31_latency w p BASELINE_SHA256) inputs = Inr results" "results \<noteq> []"
    "keys_complete (map group_key (concat (map plr_groups results)))" "plp_short rep = (\<forall>r \<in> set results. plr_short r)"
    using assms(1) by (rule main_Inr)
  have "length results \<noteq> 0" using r(2) by simp
  then have two: "0 < (1 :: nat)" "1 < length results" using ne mapE_length [OF r(1)] by linarith+
  have planned: "\<exists>g \<in> set (plr_groups (results ! i)). planned_arm 64 ''S'' g" if i: "i < length results" for i
  proof -
    obtain input where c: "compare_p31_latency w input BASELINE_SHA256 = Inr (results ! i)"
      using mapE_set_D [OF r(1), of "results ! i"] i by auto
    obtain arms rows where s: "summarize_p31 rows = Inr (plr_groups (results ! i))" and
      g4: "assess_g4 (plr_groups (results ! i)) = Inr (plr_g4 (results ! i))" "plr_short (results ! i) =
        (plr_g4 (results ! i) \<noteq> [] \<and> (\<forall>g \<in> set (plr_g4 (results ! i)). g4_short_passed g))" using c by (rule compare_Inr)
    have "plr_g4 (results ! i) \<noteq> []" using g4(2) r(4) assms(2) i by simp
    then have "filter planned_group (plr_groups (results ! i)) \<noteq> []" using g4(1) by (auto simp: assess_g4_def sorted_set_def json_set_def sort_rows_def bindE_Inr)
    then obtain g where "g \<in> set (plr_groups (results ! i))" "planned_group g" by (auto simp: filter_empty_conv)
    then show ?thesis using summary_Inr(2) [OF s, of g 64 "''S''"] by (auto simp: planned_arm_def planned_group_def P31L_ARMS_def)
  qed
  obtain g h where g: "g \<in> set (plr_groups (results ! 0))" "planned_arm 64 ''S'' g" and h: "h \<in> set (plr_groups (results ! 1))" "planned_arm 64 ''S'' h"
    using planned [OF less_trans [OF two]] planned [OF two(2)] by blast
  have "jeq (pl_payload h) (pl_payload g)"
    using jeq_common [of "pl_payload h" "pl_payload g" "jint 64"] g(2) h(2) jeq_jint_hashable by (auto simp: planned_arm_def)
  then have "jeq (group_key h) (group_key g)" using g(2) h(2) by (simp add: group_key_def planned_arm_def)
  moreover have "distinct_json (concat (map (\<lambda>r. map group_key (plr_groups r)) results))"
    using r(3) by (simp add: keys_complete_def map_concat comp_def)
  ultimately show False using distinct_concat [OF _ two, of "\<lambda>r. map group_key (plr_groups r)" "group_key g" "group_key h"] g(1) h(1) by auto
qed

text \<open>C16.
  The latency gate G4 of P3-1.  A report covers every origin, payload and arm; every group of it rests on exactly the ten
  measured rounds of its arm, in order, each recorded with the client and environment of the arm and equal to the single
  RESULT line of a raw output whose digest is the recorded one; the report never declares G4 passed; and a short pass means
  that there was one input and that, at both payloads, the planned runs of all three arms were complete and the planned p50
  median of A exceeds that of S by at most 10 ns.
\<close>

theorem g4_audited:
  assumes "p31_latency_main w inputs = Inr rep"
  shows "(\<forall>q \<in> {''attempt'', ''planned''}. \<forall>n \<in> {64, 256}. \<forall>arm \<in> {''B'', ''S'', ''A''}.
        \<exists>g \<in> set (plp_groups rep). pl_origin g = JStr q \<and> jeq (pl_payload g) (jint n) \<and> pl_arm g = arm)
    \<and> (\<forall>g \<in> set (plp_groups rep). \<exists>dir arms rows rs. load_arms w dir BASELINE_SHA256 = Inr arms \<and> p31_group_rows rows g rs
        \<and> (\<forall>r \<in> set rs. p31_row_sound w dir arms r))
    \<and> plp_all rep \<noteq> Some True
    \<and> (plp_short rep \<longrightarrow> length inputs = 1 \<and> short_pass 64 (plp_groups rep) \<and> short_pass 256 (plp_groups rep))"
proof -
  obtain results where r: "mapE (\<lambda>p. compare_p31_latency w p BASELINE_SHA256) inputs = Inr results" "results \<noteq> []"
    "keys_complete (map group_key (concat (map plr_groups results)))" "plp_groups rep = concat (map plr_groups results)"
    "plp_short rep = (\<forall>r \<in> set results. plr_short r)" "plp_all rep = never_passed (map plr_all results)"
    using assms by (rule main_Inr)
  have keys: "mem_json (JList [JStr q, jint n, JStr arm]) (map group_key (plp_groups rep))"
    if "q \<in> {''attempt'', ''planned''}" "n \<in> {64, 256}" "arm \<in> {''B'', ''S'', ''A''}" for q n arm
    using r(3) that unfolding r(4) keys_complete_def same_set_def required_keys_def P31L_ARMS_def by auto
  have hash: "hashable (pl_payload g)" if "g \<in> set (plp_groups rep)" for g
    using r(3) that key_payload [of g] jint_hashable unfolding r(4) keys_complete_def same_set_def by auto
  have groups: "\<exists>dir arms rows rs. load_arms w dir BASELINE_SHA256 = Inr arms \<and> p31_group_rows rows g rs \<and> (\<forall>r \<in> set rs. p31_row_sound w dir arms r)"
    if g: "g \<in> set (plp_groups rep)" for g
  proof -
    obtain s where s: "s \<in> set results" "g \<in> set (plr_groups s)" using g unfolding r(4) by auto
    obtain input where "compare_p31_latency w input BASELINE_SHA256 = Inr s" using mapE_set_D [OF r(1) s(1)] by blast
    then obtain arms rows where l: "load_arms w (resolved w input) BASELINE_SHA256 = Inr arms" "load_p31_rows w (resolved w input) arms = Inr rows"
      "summarize_p31 rows = Inr (plr_groups s)" by (rule compare_Inr)
    obtain rs where rs: "p31_group_rows rows g rs" using summary_Inr(1) [OF l(3) s(2)] by blast
    then have "\<forall>r \<in> set rs. p31_row_sound w (resolved w input) arms r" using loaded_rows_sound [OF l(2)] unfolding p31_group_rows_def by blast
    then show ?thesis using l(1) rs by blast
  qed
  have pass: "short_pass n (plp_groups rep)" if short: "plp_short rep" and n: "n \<in> {64, 256}" for n
  proof -
    obtain s where s: "results = [s]" using short_single [OF assms short] mapE_length [OF r(1)] by (cases results; cases "tl results") auto
    have gs: "plp_groups rep = plr_groups s" using r(4) s by simp
    obtain input where c: "compare_p31_latency w input BASELINE_SHA256 = Inr s" using mapE_set_D [OF r(1)] s by auto
    obtain g where "g \<in> set (plr_groups s)" "planned_arm n ''S'' g"
      using key_present [OF keys [of "''planned''" n "''S''"]] n gs by (auto simp: planned_arm_def)
    then show ?thesis using short_gates [OF c, of g n "''S''"] hash short r(5) s gs by auto
  qed
  have "plp_all rep \<noteq> Some True" using r(6) by (simp add: never_passed_def)
  moreover have "\<forall>q \<in> {''attempt'', ''planned''}. \<forall>n \<in> {64, 256}. \<forall>arm \<in> {''B'', ''S'', ''A''}.
        \<exists>g \<in> set (plp_groups rep). pl_origin g = JStr q \<and> jeq (pl_payload g) (jint n) \<and> pl_arm g = arm"
    by (intro ballI) (rule key_present [OF keys])
  moreover have "plp_short rep \<longrightarrow> length inputs = 1 \<and> short_pass 64 (plp_groups rep) \<and> short_pass 256 (plp_groups rep)"
    using pass short_single [OF assms] by simp
  ultimately show ?thesis using groups by (intro conjI) simp_all
qed


section \<open>A concrete experiment\<close>

type_synonym demo_spec = "bool \<times> bool \<times> string \<times> nat"

definition demo_q :: "bool \<Rightarrow> string" where "demo_q q = (if q then ''planned'' else ''attempt'')"

definition demo_n :: "bool \<Rightarrow> int" where "demo_n n = (if n then 256 else 64)"

definition demo_p31_fields :: "bool \<Rightarrow> bool \<Rightarrow> (string \<times> string) list" where
  "demo_p31_fields q n = [(''library'', ''salias-ipc''), (''scenario'', ''fifo''), (''producers'', ''1''), (''consumers'', ''1''),
     (''payload'', show_int (demo_n n)), (''capacity'', ''1048576''), (''batch_size'', ''1''), (''poll_limit'', ''64''),
     (''published'', ''2000000''), (''delivered'', ''2000000''), (''latency_samples'', ''125000''), (''latency_sample_rate'', ''16''),
     (''rate_per_producer'', ''1000000''), (''latency_origin'', demo_q q), (''publish_msg_per_sec'', ''1000000''),
     (''latency_p50_ns'', ''100''), (''latency_p99_ns'', ''200''), (''latency_p999_ns'', ''300'')]"

definition demo_p31_consumer :: "(string \<times> string) list" where
  "demo_p31_consumer = [(''samples'', ''125000''), (''p50_ns'', ''100''), (''p99_ns'', ''200''), (''p999_ns'', ''300'')]"

definition demo_p31_raw :: "bool \<Rightarrow> bool \<Rightarrow> string" where
  "demo_p31_raw q n = ''RESULT'' @ concat (map (\<lambda>(k, v). '' '' @ k @ ''='' @ v) (demo_p31_fields q n)) @ [nl]
     @ ''LATENCY'' @ concat (map (\<lambda>(k, v). '' '' @ k @ ''='' @ v) demo_p31_consumer) @ [nl]"

lemma demo_p31_parsed:
  "parsed_lines ''RESULT '' (splitlines (demo_p31_raw q n)) = Inr (JList [result_fields (demo_p31_fields q n)])"
  "parsed_lines ''LATENCY '' (splitlines (demo_p31_raw q n)) = Inr (JList [result_fields demo_p31_consumer])"
proof -
  have "list_all (\<lambda>(q, n). case mapE fields_of (filter (\<lambda>l. starts_with l ''RESULT '') (splitlines (demo_p31_raw q n))) of
      Inl _ \<Rightarrow> False | Inr ds \<Rightarrow> ds = [demo_p31_fields q n]) [(False, False), (False, True), (True, False), (True, True)]" by code_simp
  moreover have "list_all (\<lambda>(q, n). case mapE fields_of (filter (\<lambda>l. starts_with l ''LATENCY '') (splitlines (demo_p31_raw q n))) of
      Inl _ \<Rightarrow> False | Inr ds \<Rightarrow> ds = [demo_p31_consumer]) [(False, False), (False, True), (True, False), (True, True)]" by code_simp
  ultimately show "parsed_lines ''RESULT '' (splitlines (demo_p31_raw q n)) = Inr (JList [result_fields (demo_p31_fields q n)])"
    "parsed_lines ''LATENCY '' (splitlines (demo_p31_raw q n)) = Inr (JList [result_fields demo_p31_consumer])"
    by (cases q; cases n; auto simp: parsed_lines_def split: sum.splits)+
qed

lemma demo_p31_settings:
  "everyE (has_value (result_fields (demo_p31_fields q n))) (expected_settings (show_int (demo_n n)) (JStr (demo_q q))) = Inr True"
  "everyE id (has_value (result_fields demo_p31_consumer) (''samples'', JStr ''125000'') # map (\<lambda>m. bindE (get (result_fields demo_p31_consumer) (m @ ''_ns'')) (\<lambda>x.
        bindE (get (result_fields (demo_p31_fields q n)) (''latency_'' @ m @ ''_ns'')) (\<lambda>y. Inr (jeq x y)))) METRICS) = Inr True"
  by (simp_all add: expected_settings_def has_value_def result_fields_def demo_p31_fields_def demo_p31_consumer_def dict_get_def METRICS_def)

lemma demo_p31_results:
  "bindE (getitem (result_fields (demo_p31_fields q n)) ''published'') to_int = Inr 2000000"
  "bindE (getitem (result_fields (demo_p31_fields q n)) ''delivered'') to_int = Inr 2000000"
  "bindE (getitem (result_fields (demo_p31_fields q n)) ''latency_p50_ns'') to_int = Inr 100"
  "bindE (getitem (result_fields (demo_p31_fields q n)) ''latency_p99_ns'') to_int = Inr 200"
  "bindE (getitem (result_fields (demo_p31_fields q n)) ''latency_p999_ns'') to_int = Inr 300"
  "bindE (getitem (result_fields (demo_p31_fields q n)) ''publish_msg_per_sec'') jfloat = Inr (Fin 1000000)"
proof -
  have i: "str_int ''2000000'' = Inr 2000000" "str_int ''100'' = Inr 100" "str_int ''200'' = Inr 200" "str_int ''300'' = Inr 300"
    "str_float ''1000000'' = Inr (Fin 1000000)" by code_simp+
  show "bindE (getitem (result_fields (demo_p31_fields q n)) ''published'') to_int = Inr 2000000"
    "bindE (getitem (result_fields (demo_p31_fields q n)) ''delivered'') to_int = Inr 2000000"
    "bindE (getitem (result_fields (demo_p31_fields q n)) ''latency_p50_ns'') to_int = Inr 100"
    "bindE (getitem (result_fields (demo_p31_fields q n)) ''latency_p99_ns'') to_int = Inr 200"
    "bindE (getitem (result_fields (demo_p31_fields q n)) ''latency_p999_ns'') to_int = Inr 300"
    "bindE (getitem (result_fields (demo_p31_fields q n)) ''publish_msg_per_sec'') jfloat = Inr (Fin 1000000)"
    by (simp_all add: result_fields_def demo_p31_fields_def i)
qed

definition demo_p31_row :: "demo_spec \<Rightarrow> json" where
  "demo_p31_row s = (case s of (q, n, arm, k) \<Rightarrow> JObj [(''engine'', JStr ''fifo''), (''arm'', JStr arm),
     (''client_sha256'', JStr (if arm = ''B'' then BASELINE_SHA256 else ''new'')), (''arm_environment'', ARM_ENVIRONMENT arm),
     (''origin'', JStr (demo_q q)), (''payload'', jint (demo_n n)), (''rate'', jint 1000000), (''producers'', jint 1), (''duration_s'', jint 2),
     (''phase'', JStr ''measured''), (''round'', jint (int k)), (''stdout'', JStr [if q then CHR ''p'' else CHR ''a'', if n then CHR ''2'' else CHR ''6'']),
     (''stdout_sha256'', JStr (demo_p31_raw q n)), (''stderr'', JStr ''e''), (''stderr_sha256'', JStr []),
     (''result'', result_fields (demo_p31_fields q n)), (''consumers'', JList [result_fields demo_p31_consumer]),
     (''resources'', JObj [(''memory.events'', JStr ''high 0'')])])"

text \<open>A line names its row by four characters; directory x holds both origins, a and p one each.\<close>

definition demo_p31_line :: "demo_spec \<Rightarrow> string" where
  "demo_p31_line s = (case s of (q, n, arm, k) \<Rightarrow> [if q then CHR ''p'' else CHR ''a'', if n then CHR ''2'' else CHR ''6'', hd arm, char_of (64 + k)])"

definition demo_p31_spec :: "string \<Rightarrow> demo_spec" where
  "demo_p31_spec t = (t ! 0 = CHR ''p'', t ! 1 = CHR ''2'', [t ! 2], of_char (t ! 3) - 64)"

definition demo_p31_specs :: "bool list \<Rightarrow> demo_spec list" where
  "demo_p31_specs qs = concat (map (\<lambda>q. concat (map (\<lambda>n. concat (map (\<lambda>arm. map (\<lambda>k. (q, n, arm, k)) [1 ..< 11]) P31L_ARMS)) [False, True])) qs)"

definition demo_p31_arms :: arm_entries where
  "demo_p31_arms = map (\<lambda>arm. (arm, JObj [(''arm'', JStr arm), (''client'', JStr (if arm = ''B'' then ''cB'' else ''cN'')),
     (''client_sha256'', JStr (if arm = ''B'' then BASELINE_SHA256 else ''new'')), (''environment'', ARM_ENVIRONMENT arm)])) P31L_ARMS"

definition demo_p31_log :: "bool list \<Rightarrow> string" where
  "demo_p31_log qs = concat (map (\<lambda>s. demo_p31_line s @ [nl]) (demo_p31_specs qs))"

definition demo_p31_world :: world where
  "demo_p31_world = \<lparr>file_text = (\<lambda>p. if p = ''cB'' then Some BASELINE_SHA256 else if p = ''cN'' then Some ''new''
       else if drop 1 p = ''/arms.json'' then Some ''arms'' else if drop 1 p = ''/e'' then Some []
       else if p = ''x/results.jsonl'' then Some (demo_p31_log [False, True]) else if p = ''a/results.jsonl'' then Some (demo_p31_log [False])
       else if p = ''p/results.jsonl'' then Some (demo_p31_log [True])
       else if length p = 4 then Some (demo_p31_raw (p ! 2 = CHR ''p'') (p ! 3 = CHR ''2'')) else None),
     sha256_hex = (\<lambda>t. t),
     json_loads = (\<lambda>t. if t = ''arms'' then Inr (JList (map snd demo_p31_arms)) else Inr (demo_p31_row (demo_p31_spec t))),
     globbed = (\<lambda>_ _. []), resolved = (\<lambda>q. q)\<rparr>"

lemma demo_p31_members:
  "s \<in> set (demo_p31_specs qs) \<Longrightarrow> \<exists>q n arm k. s = (q, n, arm, k) \<and> q \<in> set qs \<and> arm \<in> set P31L_ARMS \<and> k \<in> {1 ..< 11}"
  by (cases s) (auto simp: demo_p31_specs_def)

lemma demo_p31_char:
  fixes k :: nat
  assumes "k \<in> {1 ..< 11}"
  shows "\<not> is_eol (char_of (64 + k))" "\<not> is_space (char_of (64 + k))" "of_char (char_of (64 + k) :: char) - 64 = k"
proof -
  have "list_all (\<lambda>k. \<not> is_eol (char_of (64 + k)) \<and> \<not> is_space (char_of (64 + k)) \<and> of_char (char_of (64 + k) :: char) - 64 = k) [1 ..< 11]"
    by code_simp
  then show "\<not> is_eol (char_of (64 + k))" "\<not> is_space (char_of (64 + k))" "of_char (char_of (64 + k) :: char) - 64 = k"
    using assms unfolding list_all_iff by auto
qed

lemma demo_p31_line_of:
  assumes "s \<in> set (demo_p31_specs qs)"
  shows "\<forall>c \<in> set (demo_p31_line s). \<not> is_eol c" "strip (demo_p31_line s) \<noteq> []" "demo_p31_spec (demo_p31_line s) = s"
    "demo_p31_line s \<noteq> ''arms''"
proof -
  obtain q n arm k where s: "s = (q, n, arm, k)" "arm \<in> set P31L_ARMS" "k \<in> {1 ..< 11}" using assms demo_p31_members by blast
  note c = demo_p31_char [OF s(3)]
  show "\<forall>c \<in> set (demo_p31_line s). \<not> is_eol c" "strip (demo_p31_line s) \<noteq> []" "demo_p31_spec (demo_p31_line s) = s"
    "demo_p31_line s \<noteq> ''arms''"
    using s(2) c by (auto simp: s(1) demo_p31_line_def demo_p31_spec_def P31L_ARMS_def is_eol_def is_space_def strip_def)
qed

lemma demo_p31_lines:
  "filter (\<lambda>l. strip l \<noteq> []) (splitlines (demo_p31_log qs)) = map demo_p31_line (demo_p31_specs qs)"
proof -
  have "splitlines (demo_p31_log qs) = map demo_p31_line (demo_p31_specs qs)"
    using splitlines_concat [of "map demo_p31_line (demo_p31_specs qs)"] demo_p31_line_of(1) [of _ qs] by (simp add: demo_p31_log_def comp_def)
  then show ?thesis using demo_p31_line_of(2) [of _ qs] by (simp add: filter_id_conv)
qed

lemma demo_p31_files:
  "d \<in> {''x'', ''a'', ''p''} \<Longrightarrow> file_text demo_p31_world (slash d ''arms.json'') = Some ''arms''"
  "d \<in> {''x'', ''a'', ''p''} \<Longrightarrow> file_text demo_p31_world (slash d ''e'') = Some []"
  "d \<in> {''x'', ''a'', ''p''} \<Longrightarrow> file_text demo_p31_world (slash d [if q then CHR ''p'' else CHR ''a'', if n then CHR ''2'' else CHR ''6'']) = Some (demo_p31_raw q n)"
  "file_text demo_p31_world (slash ''x'' ''results.jsonl'') = Some (demo_p31_log [False, True])"
  "file_text demo_p31_world (slash ''a'' ''results.jsonl'') = Some (demo_p31_log [False])"
  "file_text demo_p31_world (slash ''p'' ''results.jsonl'') = Some (demo_p31_log [True])"
  "file_text demo_p31_world ''cB'' = Some BASELINE_SHA256" "file_text demo_p31_world ''cN'' = Some ''new''"
  "sha256_hex demo_p31_world t = t" "resolved demo_p31_world t = t" "json_loads demo_p31_world ''arms'' = Inr (JList (map snd demo_p31_arms))"
  by (auto simp: demo_p31_world_def slash_def)

lemma demo_p31_loads: "s \<in> set (demo_p31_specs qs) \<Longrightarrow> json_loads demo_p31_world (demo_p31_line s) = Inr (demo_p31_row s)"
  using demo_p31_line_of [of s qs] by (simp add: demo_p31_world_def)

lemma demo_p31_load_arms:
  assumes "d \<in> {''x'', ''a'', ''p''}"
  shows "load_arms demo_p31_world d BASELINE_SHA256 = Inr demo_p31_arms"
proof -
  have "\<And>arm. jeq (ARM_ENVIRONMENT arm) (ARM_ENVIRONMENT arm)" by (simp add: ARM_ENVIRONMENT_def)
  then show ?thesis
    by (simp add: load_arms_def is_file_def read_text_def file_sha_def demo_p31_files(1-3) [OF assms] demo_p31_files(7-) demo_p31_arms_def P31L_ARMS_def
      keyed_entry_def exactly_arms_def same_set_def mem_json_def check_client_def entry_path_def entry_sha_def entry_client_def arm_entry_of_def
      check_environment_def require_def latency_error_def ARM_ENVIRONMENT_def)
qed

lemma demo_p31_items:
  "get_or (demo_p31_row (q, n, arm, k)) ''stdout'' (JStr []) = Inr (JStr [if q then CHR ''p'' else CHR ''a'', if n then CHR ''2'' else CHR ''6''])"
  "getitem (demo_p31_row (q, n, arm, k)) ''stdout'' = Inr (JStr [if q then CHR ''p'' else CHR ''a'', if n then CHR ''2'' else CHR ''6''])"
  "get (demo_p31_row (q, n, arm, k)) ''stdout_sha256'' = Inr (JStr (demo_p31_raw q n))"
  "get_or (demo_p31_row (q, n, arm, k)) ''stderr'' (JStr []) = Inr (JStr ''e'')" "get (demo_p31_row (q, n, arm, k)) ''stderr_sha256'' = Inr (JStr [])"
  "getitem (demo_p31_row (q, n, arm, k)) ''result'' = Inr (result_fields (demo_p31_fields q n))"
  "getitem (demo_p31_row (q, n, arm, k)) ''consumers'' = Inr (JList [result_fields demo_p31_consumer])"
  "get (demo_p31_row (q, n, arm, k)) ''consumers'' = Inr (JList [result_fields demo_p31_consumer])"
  "getitem (demo_p31_row (q, n, arm, k)) ''origin'' = Inr (JStr (demo_q q))" "getitem (demo_p31_row (q, n, arm, k)) ''payload'' = Inr (jint (demo_n n))"
  "getitem (demo_p31_row (q, n, arm, k)) ''arm'' = Inr (JStr arm)" "get (demo_p31_row (q, n, arm, k)) ''arm'' = Inr (JStr arm)"
  "getitem (demo_p31_row (q, n, arm, k)) ''phase'' = Inr (JStr ''measured'')" "getitem (demo_p31_row (q, n, arm, k)) ''round'' = Inr (jint (int k))"
  "getitem (demo_p31_row (q, n, arm, k)) ''rate'' = Inr (jint 1000000)" "getitem (demo_p31_row (q, n, arm, k)) ''duration_s'' = Inr (jint 2)"
  "get (demo_p31_row (q, n, arm, k)) ''client_sha256'' = Inr (JStr (if arm = ''B'' then BASELINE_SHA256 else ''new''))"
  "getitem (demo_p31_row (q, n, arm, k)) ''resources'' = Inr (JObj [(''memory.events'', JStr ''high 0'')])"
  by (simp_all add: demo_p31_row_def dict_get_def)

lemma demo_p31_registered:
  assumes "k \<in> {1 ..< 11}"
  shows "has_value (demo_p31_row (q, n, arm, k)) (''engine'', JStr ''fifo'') = Inr True"
    "has_value (demo_p31_row (q, n, arm, k)) (''arm_environment'', ARM_ENVIRONMENT arm) = Inr True"
    "registered_row (demo_p31_row (q, n, arm, k)) = Inr True" "phase_round (demo_p31_row (q, n, arm, k)) = Inr True"
proof -
  have "\<exists>m \<in> {1 .. 10}. jeq (jint (int k)) (jint m)" using assms by (intro bexI [of _ "int k"]) (auto simp: neq_def feq_def)
  then show "has_value (demo_p31_row (q, n, arm, k)) (''engine'', JStr ''fifo'') = Inr True"
    "has_value (demo_p31_row (q, n, arm, k)) (''arm_environment'', ARM_ENVIRONMENT arm) = Inr True"
    "registered_row (demo_p31_row (q, n, arm, k)) = Inr True" "phase_round (demo_p31_row (q, n, arm, k)) = Inr True"
    by (simp_all add: demo_p31_row_def dict_get_def has_value_def registered_row_def has_any_def mem_json_def phase_round_def
      demo_q_def demo_n_def neq_def feq_def ARM_ENVIRONMENT_def)
qed

lemma demo_p31_same: "jeq (result_fields (demo_p31_fields q n)) (result_fields (demo_p31_fields q n))"
    "jeq (result_fields demo_p31_consumer) (result_fields demo_p31_consumer)"
proof -
  have "list_all (\<lambda>(q, n). jeq (result_fields (demo_p31_fields q n)) (result_fields (demo_p31_fields q n)))
      [(False, False), (False, True), (True, False), (True, True)]" by code_simp
  then show "jeq (result_fields (demo_p31_fields q n)) (result_fields (demo_p31_fields q n))" by (cases q; cases n) auto
  show "jeq (result_fields demo_p31_consumer) (result_fields demo_p31_consumer)" by code_simp
qed

lemma demo_p31_verified:
  assumes "d \<in> {''x'', ''a'', ''p''}"
  shows "verify_raw_row demo_p31_world d (demo_p31_row (q, n, arm, k)) = Inr ()"
proof -
  let ?name = "[if q then CHR ''p'' else CHR ''a'', if n then CHR ''2'' else CHR ''6'']"
  have names: "plain_name (JStr ?name) = Inr ?name" "plain_name (JStr ''e'') = Inr ''e''"
    by (simp_all add: plain_name_def base_name_def latency_error_def require_def)
  have "raw_file demo_p31_world d (demo_p31_row (q, n, arm, k)) ''stdout'' = Inr ()"
      "raw_file demo_p31_world d (demo_p31_row (q, n, arm, k)) ''stderr'' = Inr ()"
    using demo_p31_items(3,5) [of q n arm k]
    by (simp_all add: raw_file_def demo_p31_items(1,4) names Let_def is_file_def file_sha_def read_text_def demo_p31_files(1-3) [OF assms]
      demo_p31_files(9) latency_error_def require_def del: get_or.simps)
  then show ?thesis
    by (simp add: verify_raw_row_def demo_p31_items read_text_def demo_p31_files(3) [OF assms] demo_p31_parsed demo_p31_same latency_error_def require_def
      del: get_or.simps)
qed

lemma demo_p31_loaded:
  assumes "d \<in> {''x'', ''a'', ''p''}" "s \<in> set (demo_p31_specs qs)"
  shows "load_p31_row demo_p31_world d demo_p31_arms (demo_p31_line s) = Inr (demo_p31_row s)"
proof -
  obtain q n arm k where s: "s = (q, n, arm, k)" "arm \<in> set P31L_ARMS" "k \<in> {1 ..< 11}" using assms(2) demo_p31_members by blast
  have events: "event_counts (JStr ''high 0'') = Inr [(''high'', ''0'')]" "any_event memory_events [(''high'', ''0'')] = Inr False" by code_simp+
  have memory: "getitem (JObj [(''memory.events'', JStr ''high 0'')]) ''memory.events'' = Inr (JStr ''high 0'')" by simp
  obtain entry where entry: "map_of demo_p31_arms arm = Some entry" "getitem entry ''client_sha256'' = Inr (JStr (if arm = ''B'' then BASELINE_SHA256 else ''new''))"
    using s(2) by (auto simp: demo_p31_arms_def P31L_ARMS_def)
  have arm: "row_arm demo_p31_arms (demo_p31_row s) = Inr (arm, entry)"
    by (simp add: row_arm_def s(1) demo_p31_items entry require_def latency_error_def del: get_or.simps)
  have sub: "one_subscriber (demo_p31_row s) (result_fields (demo_p31_fields q n)) = Inr True"
    by (simp only: one_subscriber_def s(1) demo_p31_items bindE.simps as_list.simps list.case demo_p31_settings(2))
  note checks = demo_p31_registered [OF s(3), of q n arm, folded s(1)]
  show ?thesis
    by (simp only: load_p31_row_def demo_p31_loads [OF assms(2)] bindE.simps checked_def checks latency_error_def require_def simp_thms if_True arm prod.case entry(2)
      demo_p31_items [of q n arm k, folded s(1)] jeq_JStr_right demo_p31_verified [OF assms(1), of q n arm k, folded s(1)] payload_text.simps
      demo_p31_settings(1) sub memory events refl)
qed

lemma demo_p31_rows:
  "load_p31_rows demo_p31_world ''x'' demo_p31_arms = Inr (map demo_p31_row (demo_p31_specs [False, True]))"
  "load_p31_rows demo_p31_world ''a'' demo_p31_arms = Inr (map demo_p31_row (demo_p31_specs [False]))"
  "load_p31_rows demo_p31_world ''p'' demo_p31_arms = Inr (map demo_p31_row (demo_p31_specs [True]))"
proof -
  have m: "mapE (load_p31_row demo_p31_world d demo_p31_arms) (map demo_p31_line (demo_p31_specs qs)) = Inr (map demo_p31_row (demo_p31_specs qs))"
    if "d \<in> {''x'', ''a'', ''p''}" for d qs
    unfolding mapE_Inr list_all2_map1 list_all2_map2 by (rule list.rel_refl_strong) (rule demo_p31_loaded [OF that])
  have ne: "demo_p31_specs [False, True] \<noteq> []" "demo_p31_specs [False] \<noteq> []" "demo_p31_specs [True] \<noteq> []"
    by (simp_all add: demo_p31_specs_def P31L_ARMS_def upt_rec)
  show "load_p31_rows demo_p31_world ''x'' demo_p31_arms = Inr (map demo_p31_row (demo_p31_specs [False, True]))"
    "load_p31_rows demo_p31_world ''a'' demo_p31_arms = Inr (map demo_p31_row (demo_p31_specs [False]))"
    "load_p31_rows demo_p31_world ''p'' demo_p31_arms = Inr (map demo_p31_row (demo_p31_specs [True]))"
    using ne m by (simp_all add: load_p31_rows_def Let_def is_file_def read_text_def demo_p31_files(4-6) demo_p31_lines latency_error_def require_def)
qed

text \<open>The cell of an origin, payload and arm, and the group it gives.\<close>

definition demo_p31_cell :: "bool \<Rightarrow> bool \<Rightarrow> string \<Rightarrow> demo_spec list" where
  "demo_p31_cell q n arm = map (\<lambda>k. (q, n, arm, k)) [1 ..< 11]"

definition demo_p31_group :: "bool \<Rightarrow> bool \<Rightarrow> string \<Rightarrow> p31_latency_group" where
  "demo_p31_group q n arm = \<lparr>pl_origin = JStr (demo_q q), pl_payload = jint (demo_n n), pl_arm = arm, pl_count = 10, pl_published = 2000000,
     pl_delivered = 20000000, pl_completion = F (Fin 1), pl_quantiles = [(''p50'', F (Fin 100)), (''p99'', F (Fin 200)), (''p999'', F (Fin 300))],
     pl_ranges = [(''p50'', I 100, I 100), (''p99'', I 200, I 200), (''p999'', I 300, I 300)], pl_throughput = F (Fin 1)\<rparr>"

lemma demo_p31_in_arm:
  "in_arm (JStr (demo_q q)) (jint (demo_n n)) arm (demo_p31_row (q', n', arm', k)) = Inr (q' = q \<and> n' = n \<and> arm' = arm)"
  by (simp add: in_arm_def item_is_def demo_p31_items demo_q_def demo_n_def neq_def feq_def del: get_or.simps getitem.simps)

lemma demo_p31_filter:
  assumes "qs \<in> {[False, True], [False], [True]}" "q \<in> set qs" "arm \<in> set P31L_ARMS"
  shows "filterE (in_arm (JStr (demo_q q)) (jint (demo_n n)) arm) (map demo_p31_row (demo_p31_specs qs)) = Inr (map demo_p31_row (demo_p31_cell q n arm))"
proof -
  have f: "filterE p (map f xs) = Inr (map f (filter c xs))" if "\<And>x. p (f x) = Inr (c x)" for p c and f :: "demo_spec \<Rightarrow> json" and xs
    using that by (induction xs) auto
  have "filter (\<lambda>(q', n', arm', k). q' = q \<and> n' = n \<and> arm' = arm) (demo_p31_specs qs) = demo_p31_cell q n arm"
    using assms unfolding demo_p31_specs_def demo_p31_cell_def P31L_ARMS_def
    by (cases q; cases n; auto simp: filter_map comp_def)
  then show ?thesis by (subst f [where c = "\<lambda>(q', n', arm', k). q' = q \<and> n' = n \<and> arm' = arm"]) (auto simp: demo_p31_in_arm)
qed

lemma demo_p31_values:
  "mapE (\<lambda>r. getitem r ''round'') (map demo_p31_row (demo_p31_cell q n arm)) = Inr measured_rounds"
  "mapE (result_int ''published'') (map demo_p31_row (demo_p31_cell q n arm)) = Inr (replicate 10 2000000)"
  "mapE (result_int ''delivered'') (map demo_p31_row (demo_p31_cell q n arm)) = Inr (replicate 10 2000000)"
  "mapE completion_of (map demo_p31_row (demo_p31_cell q n arm)) = Inr (replicate 10 (F (Fin 1)))"
  "mapE rate_mmsg (map demo_p31_row (demo_p31_cell q n arm)) = Inr (replicate 10 (F (Fin 1)))"
  "metric_ints ''p50'' (map demo_p31_row (demo_p31_cell q n arm)) = Inr (replicate 10 (I 100))"
  "metric_ints ''p99'' (map demo_p31_row (demo_p31_cell q n arm)) = Inr (replicate 10 (I 200))"
  "metric_ints ''p999'' (map demo_p31_row (demo_p31_cell q n arm)) = Inr (replicate 10 (I 300))"
proof -
  have const: "mapE f (map demo_p31_row (demo_p31_cell q n arm)) = Inr (replicate 10 c)"
    if "\<And>k. f (demo_p31_row (q, n, arm, k)) = Inr c" for f :: "json \<Rightarrow> 'a py" and c
    using that by (simp add: demo_p31_cell_def upt_rec eval_nat_numeral)
  have int: "result_int key (demo_p31_row (q, n, arm, k)) = bindE (getitem (result_fields (demo_p31_fields q n)) key) to_int" for key k
    by (simp only: result_int_def demo_p31_items bindE.simps)
  have div: "ndiv (I 2000000) (I 2000000) = Inr (F (Fin 1))" "fdiv (Fin 1000000) (Fin 1000000) = Fin 1" by code_simp+
  have planned: "mul_json (jint 1000000) (jint 2) = Inr (jint 2000000)" by code_simp
  show "mapE (\<lambda>r. getitem r ''round'') (map demo_p31_row (demo_p31_cell q n arm)) = Inr measured_rounds"
    unfolding measured_rounds_def demo_p31_cell_def by (simp add: mapE_Inr list_all2_map1 list_all2_map2 list_all2_same demo_p31_items(14) del: getitem.simps)
  show "mapE (result_int ''published'') (map demo_p31_row (demo_p31_cell q n arm)) = Inr (replicate 10 2000000)"
    "mapE (result_int ''delivered'') (map demo_p31_row (demo_p31_cell q n arm)) = Inr (replicate 10 2000000)"
    by (rule const, simp only: int demo_p31_results)+
  show "mapE completion_of (map demo_p31_row (demo_p31_cell q n arm)) = Inr (replicate 10 (F (Fin 1)))"
    by (rule const) (simp only: completion_of_def int demo_p31_results demo_p31_items bindE.simps planned as_num.simps div)
  show "mapE rate_mmsg (map demo_p31_row (demo_p31_cell q n arm)) = Inr (replicate 10 (F (Fin 1)))"
  proof (rule const)
    fix k
    show "rate_mmsg (demo_p31_row (q, n, arm, k)) = Inr (F (Fin 1))"
      using demo_p31_results(6) [of q n] div(2) unfolding rate_mmsg_def demo_p31_items bindE.simps bindE_Inr by auto
  qed
  show "metric_ints ''p50'' (map demo_p31_row (demo_p31_cell q n arm)) = Inr (replicate 10 (I 100))"
    "metric_ints ''p99'' (map demo_p31_row (demo_p31_cell q n arm)) = Inr (replicate 10 (I 200))"
    "metric_ints ''p999'' (map demo_p31_row (demo_p31_cell q n arm)) = Inr (replicate 10 (I 300))"
    unfolding metric_ints_def by (rule const, simp add: int demo_p31_results del: getitem.simps)+
qed

lemma demo_p31_sorted:
  "sort_rows (\<lambda>r. getitem r ''round'') (map demo_p31_row (demo_p31_cell q n arm)) = Inr (map demo_p31_row (demo_p31_cell q n arm))"
  (is "sort_rows ?key ?rows = _")
proof -
  have len: "length ?rows = 10" by (simp add: demo_p31_cell_def)
  have strs: "\<not> (\<forall>k \<in> set measured_rounds. is_str k)" by code_simp
  have nums: "mapE as_num measured_rounds = Inr (map (\<lambda>i. I (int i)) [1 ..< 11])" by code_simp
  have "sort_by_num (zip (map (\<lambda>i. I (int i)) [1 ..< 11]) (map f [1 ..< 11])) = map f [1 ..< 11]" for f :: "nat \<Rightarrow> json"
    by (simp add: sort_by_num_def upt_rec eval_nat_numeral nlt_def)
  then show ?thesis
    unfolding sort_rows_def demo_p31_values(1) bindE.simps if_not_P [OF strs] nums len by (simp add: demo_p31_cell_def comp_def)
qed

lemma demo_p31_group_of:
  assumes "qs \<in> {[False, True], [False], [True]}" "q \<in> set qs" "arm \<in> set P31L_ARMS"
  shows "p31_group_of (map demo_p31_row (demo_p31_specs qs)) (JStr (demo_q q)) (jint (demo_n n)) arm = Inr (demo_p31_group q n arm)"
proof -
  have same: "jeq (JList measured_rounds) (JList measured_rounds)" by code_simp
  have stats: "one_count (replicate 10 2000000) = Inr 2000000" "num_min (replicate 10 (F (Fin 1))) = Inr (F (Fin 1))" "median (replicate 10 (F (Fin 1))) = Inr (F (Fin 1))"
    "median (replicate 10 (I 100)) = Inr (F (Fin 100))" "median (replicate 10 (I 200)) = Inr (F (Fin 200))" "median (replicate 10 (I 300)) = Inr (F (Fin 300))"
    "num_min (replicate 10 (I 100)) = Inr (I 100)" "num_min (replicate 10 (I 200)) = Inr (I 200)" "num_min (replicate 10 (I 300)) = Inr (I 300)"
    "num_max (replicate 10 (I 100)) = Inr (I 100)" "num_max (replicate 10 (I 200)) = Inr (I 200)" "num_max (replicate 10 (I 300)) = Inr (I 300)" by code_simp+
  have metrics: "metric_medians (map demo_p31_row (demo_p31_cell q n arm)) = Inr (pl_quantiles (demo_p31_group q n arm))"
    "metric_ranges (map demo_p31_row (demo_p31_cell q n arm)) = Inr (pl_ranges (demo_p31_group q n arm))"
    by (simp_all add: metric_medians_def metric_ranges_def METRICS_def demo_p31_values(6-8) stats demo_p31_group_def)
  have len: "length (map demo_p31_row (demo_p31_cell q n arm)) = 10" by (simp add: demo_p31_cell_def)
  show ?thesis
    unfolding p31_group_of_def demo_p31_filter [OF assms] bindE.simps demo_p31_sorted demo_p31_values(1-5) metrics stats latency_error_def require_def len
    using same by (simp add: demo_p31_group_def sum_list_replicate)
qed

definition demo_p31_origins :: "demo_spec list \<Rightarrow> json list" where
  "demo_p31_origins ss = map (\<lambda>s. JStr (demo_q (fst s))) ss"

definition demo_p31_payloads :: "demo_spec list \<Rightarrow> json list" where
  "demo_p31_payloads ss = map (\<lambda>s. jint (demo_n (fst (snd s)))) ss"

lemma demo_p31_sets:
  "json_set (demo_p31_origins (demo_p31_specs [False, True])) = Inr [JStr ''attempt'', JStr ''planned'']"
  "json_set (demo_p31_origins (demo_p31_specs [False])) = Inr [JStr ''attempt'']"
  "json_set (demo_p31_origins (demo_p31_specs [True])) = Inr [JStr ''planned'']"
  "json_set (demo_p31_payloads (demo_p31_specs [False])) = Inr [jint 64, jint 256]"
  "json_set (demo_p31_payloads (demo_p31_specs [True])) = Inr [jint 64, jint 256]"
  "sort_rows Inr [JStr ''attempt'', JStr ''planned''] = Inr [JStr ''attempt'', JStr ''planned'']"
  "sort_rows Inr [jint 64, jint 256] = Inr [jint 64, jint 256]" "same_set [jint 64, jint 256] [jint 64, jint 256]"
  by code_simp+

lemma demo_p31_fields_of_rows:
  "mapE (\<lambda>r. getitem r ''origin'') (map demo_p31_row ss) = Inr (demo_p31_origins ss)"
  "mapE (\<lambda>r. getitem r ''payload'') (map demo_p31_row ss) = Inr (demo_p31_payloads ss)"
  unfolding demo_p31_origins_def demo_p31_payloads_def mapE_Inr list_all2_map1 list_all2_map2
  by (rule list.rel_refl_strong, clarsimp simp only: split_paired_all demo_p31_items fst_conv snd_conv)+

lemma demo_p31_origin_filter:
  assumes "qs \<in> {[False, True], [False], [True]}" "q \<in> set qs"
  shows "filterE (item_is ''origin'' (JStr (demo_q q))) (map demo_p31_row (demo_p31_specs qs)) = Inr (map demo_p31_row (demo_p31_specs [q]))"
proof -
  have f: "filterE p (map f xs) = Inr (map f (filter c xs))" if "\<And>x. p (f x) = Inr (c x)" for p c and f :: "demo_spec \<Rightarrow> json" and xs
    using that by (induction xs) auto
  have "filter (\<lambda>(q', n', arm', k). q' = q) (demo_p31_specs qs) = demo_p31_specs [q]"
    using assms unfolding demo_p31_specs_def by (cases q; auto simp: filter_map comp_def filter_concat)
  then show ?thesis
    by (subst f [where c = "\<lambda>(q', n', arm', k). q' = q"]) (auto simp: item_is_def demo_p31_items demo_q_def simp del: getitem.simps)
qed

definition demo_p31_groups :: "bool list \<Rightarrow> p31_latency_group list" where
  "demo_p31_groups qs = concat (map (\<lambda>q. concat (map (\<lambda>n. map (demo_p31_group q n) P31L_ARMS) [False, True])) qs)"

lemma demo_p31_summary:
  assumes "qs \<in> {[False, True], [False], [True]}"
  shows "summarize_p31 (map demo_p31_row (demo_p31_specs qs)) = Inr (demo_p31_groups qs)"
proof -
  have payloads: "json_set (demo_p31_payloads (demo_p31_specs [q])) = Inr [jint 64, jint 256]" for q
    using demo_p31_sets(4,5) by (cases q) simp_all
  have numbers: "sort_rows Inr [jint 64, jint 256] = Inr (map (\<lambda>n. jint (demo_n n)) [False, True])"
    unfolding demo_p31_sets(7) by (simp add: demo_n_def)
  have differ: "payloads_differ (map demo_p31_row (demo_p31_specs qs)) (JStr (demo_q q)) = Inr False" if "q \<in> set qs" for q
    unfolding payloads_differ_def origin_payloads_def demo_p31_origin_filter [OF assms that] bindE.simps demo_p31_fields_of_rows payloads
    using demo_p31_sets(8) by simp
  have groups: "p31_origin_groups (map demo_p31_row (demo_p31_specs qs)) (JStr (demo_q q)) = Inr (demo_p31_groups [q])" if "q \<in> set qs" for q
  proof -
    have arms: "mapE (p31_group_of (map demo_p31_row (demo_p31_specs qs)) (JStr (demo_q q)) (jint (demo_n n))) P31L_ARMS = Inr (map (demo_p31_group q n) P31L_ARMS)" for n
      by (rule mapE_total) (rule demo_p31_group_of [OF assms that])
    show ?thesis
      unfolding p31_origin_groups_def payloads_of_def demo_p31_origin_filter [OF assms that] bindE.simps demo_p31_fields_of_rows sorted_set_def payloads
        numbers bindE.simps by (simp add: arms demo_p31_groups_def)
  qed
  have single: "sort_rows Inr [x] = Inr [x]" for x :: json by (simp add: sort_rows_def)
  have origins: "json_set (demo_p31_origins (demo_p31_specs qs)) = Inr (map (JStr \<circ> demo_q) qs)" "sorted_set (demo_p31_origins (demo_p31_specs qs)) = Inr (map (JStr \<circ> demo_q) qs)"
    using assms demo_p31_sets(1-3,6) single by (auto simp: sorted_set_def demo_q_def)
  have some: "someE (payloads_differ (map demo_p31_row (demo_p31_specs qs))) (map (JStr \<circ> demo_q) qs) = Inr False" using differ by (auto simp: someE_False)
  have all: "mapE (p31_origin_groups (map demo_p31_row (demo_p31_specs qs))) (map (JStr \<circ> demo_q) qs) = Inr (map (\<lambda>q. demo_p31_groups [q]) qs)"
    unfolding mapE_Inr list_all2_map1 list_all2_map2 by (rule list.rel_refl_strong) (simp add: groups)
  have ne: "map demo_p31_row (demo_p31_specs qs) \<noteq> []" using assms by (auto simp: demo_p31_specs_def P31L_ARMS_def upt_rec)
  show ?thesis
    unfolding summarize_p31_def latency_error_def require_def if_P [OF ne] bindE.simps demo_p31_fields_of_rows origins some all
    by (simp add: demo_p31_groups_def)
qed

lemma demo_p31_gates:
  "case assess_g4 (demo_p31_groups [False, True]) of Inl _ \<Rightarrow> False | Inr gs \<Rightarrow> gs \<noteq> [] \<and> list_all g4_short_passed gs"
  "assess_g4 (demo_p31_groups [False]) = Inr []"
  "case assess_g4 (demo_p31_groups [True]) of Inl _ \<Rightarrow> False | Inr gs \<Rightarrow> map g4_short_passed gs = [True, True]"
  "keys_complete (map group_key (demo_p31_groups [False, True]))"
  by code_simp+

lemma demo_p31_views: "case mapE arm_view demo_p31_arms of Inl _ \<Rightarrow> False | Inr vs \<Rightarrow> same_view vs vs"
  by code_simp

lemma demo_p31_compare:
  "\<exists>r. compare_p31_latency demo_p31_world ''x'' BASELINE_SHA256 = Inr r \<and> plr_groups r = demo_p31_groups [False, True] \<and> plr_short r
    \<and> same_view (plr_arms r) (plr_arms r)"
  "\<exists>a p. compare_p31_latency demo_p31_world ''a'' BASELINE_SHA256 = Inr a \<and> compare_p31_latency demo_p31_world ''p'' BASELINE_SHA256 = Inr p
    \<and> plr_groups a = demo_p31_groups [False] \<and> plr_groups p = demo_p31_groups [True] \<and> plr_arms a = plr_arms p \<and> same_view (plr_arms p) (plr_arms p)
    \<and> plr_g4 a = [] \<and> map g4_short_passed (plr_g4 p) = [True, True]"
proof -
  obtain views where v: "mapE arm_view demo_p31_arms = Inr views" "same_view views views" using demo_p31_views by (auto split: sum.splits)
  obtain gx where gx: "assess_g4 (demo_p31_groups [False, True]) = Inr gx" "gx \<noteq> []" "list_all g4_short_passed gx" using demo_p31_gates(1) by (auto split: sum.splits)
  obtain gp where gp: "assess_g4 (demo_p31_groups [True]) = Inr gp" "map g4_short_passed gp = [True, True]" using demo_p31_gates(3) by (auto split: sum.splits)
  note steps = compare_p31_latency_def Let_def demo_p31_files(10) demo_p31_load_arms demo_p31_rows demo_p31_summary v(1)
  show "\<exists>r. compare_p31_latency demo_p31_world ''x'' BASELINE_SHA256 = Inr r \<and> plr_groups r = demo_p31_groups [False, True] \<and> plr_short r
    \<and> same_view (plr_arms r) (plr_arms r)"
    using gx(2,3) v(2) by (simp add: steps gx(1) list_all_iff)
  show "\<exists>a p. compare_p31_latency demo_p31_world ''a'' BASELINE_SHA256 = Inr a \<and> compare_p31_latency demo_p31_world ''p'' BASELINE_SHA256 = Inr p
    \<and> plr_groups a = demo_p31_groups [False] \<and> plr_groups p = demo_p31_groups [True] \<and> plr_arms a = plr_arms p \<and> same_view (plr_arms p) (plr_arms p)
    \<and> plr_g4 a = [] \<and> map g4_short_passed (plr_g4 p) = [True, True]"
    using gp(2) v(2) by (simp add: steps gp(1) demo_p31_gates(2))
qed

text \<open>Both origins in one directory pass; the same runs in two directories do not.\<close>

lemma g4_audited_witness:
  "\<exists>rep. p31_latency_main demo_p31_world [''x''] = Inr rep \<and> plp_short rep \<and> short_pass 64 (plp_groups rep) \<and> short_pass 256 (plp_groups rep)
    \<and> plp_all rep \<noteq> Some True"
proof -
  obtain r where r: "compare_p31_latency demo_p31_world ''x'' BASELINE_SHA256 = Inr r" "plr_groups r = demo_p31_groups [False, True]" "plr_short r"
    "same_view (plr_arms r) (plr_arms r)" using demo_p31_compare(1) by blast
  then obtain rep where rep: "p31_latency_main demo_p31_world [''x''] = Inr rep" "plp_short rep"
    using demo_p31_gates(4) by (simp add: p31_latency_main_def nthE_def require_def Let_def)
  then show ?thesis using g4_audited [OF rep(1)] by blast
qed



end
