(* ===== verification/P32Runner.thy ===== *)
theory P32Runner
  imports P32Audit
begin

text \<open>
  \<open>doc/plans/runners/p3-p32-multithread.py\<close>: the runner of the P3-2 thread matrix, whose evidence \<open>P32Audit\<close>
  reads.  The frozen matrix and its schedule, the command and the checks of one round, and a run as a
  function of what the environment does in each round (\<open>observation\<close>); the files it writes are a
  dictionary of texts and documents.  Argument parsing and the launch of processes are not modelled; the
  text of a caught exception is left out of a failure reason.
\<close>

section \<open>The frozen matrix\<close>

record runner_configuration =
  rc_id :: string
  rc_kind :: string
  rc_producers :: int
  rc_consumers :: int
  rc_payload :: int
  rc_messages :: int
  rc_rate :: int
  rc_sample_rate :: int
  rc_origin :: string
  rc_capacity :: int
  rc_batch :: int
  rc_poll :: int
  rc_runtime :: int

definition CAPACITY :: int where
  "CAPACITY = 2 ^ 20"

definition throughput_cell :: "string \<Rightarrow> int \<Rightarrow> runner_configuration" where
  "throughput_cell name payload = \<lparr>rc_id = name, rc_kind = ''throughput'', rc_producers = 1, rc_consumers = 2, rc_payload = payload,
     rc_messages = 50000000, rc_rate = 0, rc_sample_rate = 0, rc_origin = ''claim'', rc_capacity = CAPACITY, rc_batch = 1, rc_poll = 64,
     rc_runtime = 240\<rparr>"

definition latency_cell :: "string \<Rightarrow> int \<Rightarrow> string \<Rightarrow> runner_configuration" where
  "latency_cell name payload origin = \<lparr>rc_id = name, rc_kind = ''latency'', rc_producers = 1, rc_consumers = 1, rc_payload = payload,
     rc_messages = 2000000, rc_rate = 1000000, rc_sample_rate = 16, rc_origin = origin, rc_capacity = CAPACITY, rc_batch = 1, rc_poll = 64,
     rc_runtime = 120\<rparr>"

definition RUNNER_CONFIGURATIONS :: "runner_configuration list" where
  "RUNNER_CONFIGURATIONS = [throughput_cell ''throughput-64b'' 64, throughput_cell ''throughput-256b'' 256,
     latency_cell ''latency-64b-attempt'' 64 ''attempt'', latency_cell ''latency-64b-planned'' 64 ''planned'',
     latency_cell ''latency-256b-attempt'' 256 ''attempt'', latency_cell ''latency-256b-planned'' 256 ''planned'']"

definition smoke_configuration :: runner_configuration where
  "smoke_configuration = \<lparr>rc_id = ''smoke-64b'', rc_kind = ''smoke'', rc_producers = 1, rc_consumers = 1, rc_payload = 64,
     rc_messages = 10000, rc_rate = 0, rc_sample_rate = 0, rc_origin = ''claim'', rc_capacity = CAPACITY, rc_batch = 1, rc_poll = 64,
     rc_runtime = 30\<rparr>"

definition V3_SOURCE_SPEC :: string where
  "V3_SOURCE_SPEC = ''v3.0.0:tools/aeron_compare/salias_ipc_compare.cpp''"

text \<open>One round of a schedule; smoke and warm-up rounds have no group and no position.\<close>

record schedule_item =
  si_ordinal :: nat
  si_configuration :: runner_configuration
  si_group :: "nat option"
  si_position :: "nat option"
  si_arm :: string

definition explicit_environment :: "string \<Rightarrow> (string \<times> string) list py" where
  "explicit_environment arm = (if arm \<notin> set ARMS then Inl (ValueError ''unknown arm'') else
     Inr [(''SALIAS_P32_PUBLISHER_MODE'', lower arm), (''SALIAS_DISABLE_ASYMMETRIC_FENCE'', ''0''), (''SALIAS_RESOURCE_CAPPED'', ''1'')])"

definition formal_cells :: "(runner_configuration \<times> nat \<times> nat \<times> string) list" where
  "formal_cells = concat (map (\<lambda>c. concat (map (\<lambda>g. map (\<lambda>(p, arm). (c, g, p, arm)) (enumerate 0 ARM_ORDER)) [0 ..< P32_GROUPS])) RUNNER_CONFIGURATIONS)"

definition formal_schedule :: "schedule_item list" where
  "formal_schedule = map (\<lambda>(i, c, g, p, arm). \<lparr>si_ordinal = i, si_configuration = c, si_group = Some g, si_position = Some p, si_arm = arm\<rparr>)
     (enumerate 0 formal_cells)"

definition warmup_cells :: "(runner_configuration \<times> string) list" where
  "warmup_cells = concat (map (\<lambda>c. map (\<lambda>arm. (c, arm)) ARMS) RUNNER_CONFIGURATIONS)"

definition prepared :: "nat \<Rightarrow> (runner_configuration \<times> string) list \<Rightarrow> schedule_item list" where
  "prepared start cs = map (\<lambda>(i, c, arm). \<lparr>si_ordinal = i, si_configuration = c, si_group = None, si_position = None, si_arm = arm\<rparr>)
     (enumerate start cs)"

definition smoke_items :: "schedule_item list" where
  "smoke_items = prepared 0 (map (\<lambda>arm. (smoke_configuration, arm)) ARMS)"

definition warmup_items :: "schedule_item list" where
  "warmup_items = prepared (length smoke_items) warmup_cells"

definition measured_items :: "schedule_item list" where
  "measured_items = map (\<lambda>itm. itm\<lparr>si_ordinal := length smoke_items + length warmup_items + si_ordinal itm\<rparr>) formal_schedule"

text \<open>\<open>validate_matrix\<close>, over the constants it checks.\<close>

definition validate_configuration :: "runner_configuration \<Rightarrow> unit py" where
  "validate_configuration c =
     bindE (require (rc_capacity c = 2 ^ 20) (ValueError ''P3-2 requires a 1 MiB ring'')) (\<lambda>_.
     bindE (require (rc_batch c = 1 \<and> rc_poll c = 64) (ValueError ''P3-2 requires batch=1 and poll-limit=64'')) (\<lambda>_.
     bindE (require (rc_producers c = 1) (ValueError ''P3-2 requires one publisher'')) (\<lambda>_.
     if rc_kind c = ''throughput'' then
       require (rc_consumers c = 2 \<and> rc_messages c = 50000000 \<and> rc_rate c = 0) (ValueError ''throughput configuration drifted from P3-2'')
     else if rc_kind c = ''latency'' then
       require (rc_consumers c = 1 \<and> rc_messages c = 2000000 \<and> rc_rate c = 1000000 \<and> rc_sample_rate c = 16
         \<and> rc_origin c \<in> {''attempt'', ''planned''}) (ValueError ''latency configuration drifted from P3-2'')
     else Inl (ValueError ''unknown configuration kind''))))"

definition validate_matrix :: "runner_configuration list \<Rightarrow> nat \<Rightarrow> string list \<Rightarrow> schedule_item list \<Rightarrow> unit py" where
  "validate_matrix configurations groups order schedule =
     bindE (require (length configurations = 6) (ValueError ''P3-2 requires exactly six configurations'')) (\<lambda>_.
     bindE (require (groups = 6 \<and> order = [''ST'', ''MT'', ''MT'', ''ST'']) (ValueError ''P3-2 requires six groups with per-group ABBA order'')) (\<lambda>_.
     bindE (mapE validate_configuration configurations) (\<lambda>_.
     require (length schedule = 6 * groups * length order) (ValueError ''formal P3-2 schedule is incomplete''))))"

section \<open>The command of a round\<close>

definition client_command :: "runner_configuration \<Rightarrow> string \<Rightarrow> string \<Rightarrow> string list" where
  "client_command c client name = [''taskset'', ''-c'', ''0'', client, ''--scenario'', ''fifo'', ''--producers'', show_int (rc_producers c),
     ''--consumers'', show_int (rc_consumers c), ''--messages'', show_int (rc_messages c), ''--payload'', show_int (rc_payload c),
     ''--page'', ''normal'', ''--capacity'', show_int (rc_capacity c), ''--batch-size'', show_int (rc_batch c),
     ''--poll-limit'', show_int (rc_poll c), ''--cpu-base'', ''1'', ''--cpu-stride'', ''1'', ''--name'', name,
     ''--rate'', show_int (rc_rate c), ''--latency-sample-rate'', show_int (rc_sample_rate c), ''--latency-origin'', rc_origin c]"

definition systemd_round_command :: "string \<Rightarrow> runner_configuration \<Rightarrow> string \<Rightarrow> string \<Rightarrow> string \<Rightarrow> string \<Rightarrow> string list py" where
  "systemd_round_command wd c arm client name unit_name = bindE (explicit_environment arm) (\<lambda>environment.
     Inr ([''systemd-run'', ''--user'', ''--wait'', ''--pipe'', ''--collect'', ''--unit='' @ unit_name, ''--property=WorkingDirectory='' @ wd,
       ''--property=AllowedCPUs=0-3'', ''--property=Nice=5'', ''--property=MemoryHigh=640M'', ''--property=MemoryMax=704M'',
       ''--property=MemorySwapMax=0'', ''--property=RuntimeMaxSec='' @ show_int (rc_runtime c)]
       @ map (\<lambda>(k, v). ''--setenv='' @ k @ ''='' @ v) environment @ client_command c client name))"

section \<open>Control-group evidence\<close>

definition cgroup_file_value :: "string \<Rightarrow> string \<Rightarrow> string option" where
  "cgroup_file_value evidence name = (let marker = file_marker @ name @ '']'' @ [nl] in
     case find_sub marker evidence of None \<Rightarrow> None
     | Some i \<Rightarrow> let start = i + length marker in
       Some (strip (take ((case (find_from (nl # file_marker) evidence start, find_from (nl # ''CGROUP_EVIDENCE_END'') evidence start) of
           (None, None) \<Rightarrow> length evidence | (Some a, None) \<Rightarrow> a | (None, Some b) \<Rightarrow> b | (Some a, Some b) \<Rightarrow> min a b) - start) (drop start evidence))))"

text \<open>The CPU ids of one item of a list such as 0-3,8.\<close>

definition cpu_item :: "string \<Rightarrow> int list py" where
  "cpu_item part = (if part = [] then Inl (ValueError ''empty CPU-list item'')
     else (case partition_at ''-'' part of
       (a, True, b) \<Rightarrow> bindE (str_int a) (\<lambda>first. bindE (str_int b) (\<lambda>final.
         if final < first then Inl (ValueError ''descending CPU-list range'') else Inr [first .. final]))
     | _ \<Rightarrow> bindE (str_int part) (\<lambda>n. Inr [n])))"

definition parse_cpu_list :: "string \<Rightarrow> int list py" where
  "parse_cpu_list value = bindE (mapE cpu_item (split_on (CHR '','') value)) (\<lambda>parts. Inr (remdups (concat parts)))"

definition evidence_files :: "string list" where
  "evidence_files = [''cpu.stat'', ''cpu.pressure'', ''memory.events'', ''memory.peak'', ''memory.high'', ''memory.max'',
     ''memory.swap.max'', ''memory.swap.current'', ''memory.pressure'']"

definition malformed_cgroup :: string where "malformed_cgroup = ''malformed cgroup evidence''"

text \<open>The reasons of the event counters, and whether no counter raised.\<close>

fun event_reasons :: "(string \<times> string) list \<Rightarrow> string list \<Rightarrow> string list \<times> bool" where
  "event_reasons events [] = ([], True)"
| "event_reasons events (e # es) = (case counter_of events e of
     Inl _ \<Rightarrow> ([malformed_cgroup], False)
   | Inr n \<Rightarrow> (case event_reasons events es of (rs, ok) \<Rightarrow> ((if 0 < n then [''cgroup memory event '' @ e @ '' is nonzero''] else []) @ rs, ok)))"

definition cpus_reasons :: "(string \<times> string) list \<Rightarrow> string list" where
  "cpus_reasons values' = (case map_of values' ''cpuset.cpus.effective'' of None \<Rightarrow> []
     | Some v \<Rightarrow> (case parse_cpu_list v of Inl _ \<Rightarrow> [malformed_cgroup]
       | Inr cpus \<Rightarrow> if cpus = [] \<or> \<not> set cpus \<subseteq> {0, 1, 2, 3} then [''cgroup effective CPUs are outside 0-3''] else []))"

definition limit_reasons :: "(string \<times> string) list \<Rightarrow> string list" where
  "limit_reasons values' =
     (if map_of values' ''memory.high'' \<noteq> Some (show_int (640 * 1024 * 1024)) then [''cgroup MemoryHigh is not 640 MiB''] else [])
   @ (if map_of values' ''memory.max'' \<noteq> Some (show_int (704 * 1024 * 1024)) then [''cgroup MemoryMax is not 704 MiB''] else [])
   @ (if map_of values' ''memory.swap.max'' \<noteq> Some ''0'' then [''cgroup swap is not zero''] else [])
   @ (if map_of values' ''memory.swap.current'' \<noteq> Some ''0'' then [''cgroup swap usage is nonzero''] else [])"

definition available :: "string \<Rightarrow> string \<Rightarrow> string option" where
  "available evidence name = (case cgroup_file_value evidence name of Some v \<Rightarrow> if v = ''<unavailable>'' then None else Some v | None \<Rightarrow> None)"

definition evidence_values :: "string \<Rightarrow> (string \<times> string) list" where
  "evidence_values evidence = concat (map (\<lambda>n. case available evidence n of None \<Rightarrow> [] | Some v \<Rightarrow> [(n, v)]) evidence_files)"

definition validate_cgroup_evidence :: "string \<Rightarrow> string list" where
  "validate_cgroup_evidence evidence = (let values' = evidence_values evidence in
     concat (map (\<lambda>n. if available evidence n = None then [''cgroup evidence unavailable for '' @ n] else []) evidence_files)
     @ limit_reasons values'
     @ (case mapE split_once (splitlines (str_at values' ''memory.events'')) of
          Inl _ \<Rightarrow> [malformed_cgroup]
        | Inr kvs \<Rightarrow> (case event_reasons (dict_of kvs) pressure_events of
            (rs, ok) \<Rightarrow> rs @ (if ok then cpus_reasons values' else []))))"

text \<open>\<open>s.splitlines(keepends=True)\<close>\<close>

fun lines_keep :: "string \<Rightarrow> string \<Rightarrow> string list" where
  "lines_keep w [] = (if w = [] then [] else [rev w])"
| "lines_keep w (c # s) = (if c = CHR 0x0D \<and> s \<noteq> [] \<and> hd s = nl then rev (nl # c # w) # lines_keep [] (tl s)
     else if is_eol c then rev (c # w) # lines_keep [] s else lines_keep (c # w) s)"

definition indices :: "('a \<Rightarrow> bool) \<Rightarrow> 'a list \<Rightarrow> nat list" where
  "indices p xs = map fst (filter (\<lambda>(i, x). p x) (enumerate 0 xs))"

definition extract_cgroup_evidence :: "string \<Rightarrow> string option \<times> string list" where
  "extract_cgroup_evidence stdout = (let lines' = lines_keep [] stdout in
     (case (indices (\<lambda>l. starts_with l ''CGROUP_EVIDENCE_BEGIN '') lines', indices (\<lambda>l. strip l = ''CGROUP_EVIDENCE_END'') lines') of
       ([first], [final]) \<Rightarrow> if final \<le> first then (None, [''expected exactly one complete CGROUP_EVIDENCE block''])
         else let evidence = concat (drop first (take (final + 1) lines'));
           missing = filter (\<lambda>n. \<not> contains (file_marker @ n @ '']'') evidence) evidence_files in
         (Some evidence, if missing = [] then validate_cgroup_evidence evidence else map (\<lambda>n. ''cgroup evidence missing '' @ n) missing)
     | _ \<Rightarrow> (None, [''expected exactly one complete CGROUP_EVIDENCE block''])))"

section \<open>One probe\<close>

definition runner_lines :: "string list \<Rightarrow> string \<Rightarrow> field_map list \<times> string list" where
  "runner_lines ls prefix = (let found = filter (\<lambda>l. starts_with l prefix) ls in
     (concat (map (\<lambda>l. case fields_of l of Inl _ \<Rightarrow> [] | Inr d \<Rightarrow> [d]) found),
      concat (map (\<lambda>l. case fields_of l of Inl _ \<Rightarrow> [''malformed '' @ strip prefix @ '' line: '' @ l] | Inr _ \<Rightarrow> []) found)))"

definition differs_from :: "field_map \<Rightarrow> string \<times> string \<times> string \<Rightarrow> string list" where
  "differs_from d kvr = (case kvr of (k, v, reason) \<Rightarrow> if map_of d k = Some v then [] else [reason])"

definition probe_reasons :: "string \<Rightarrow> field_map list \<Rightarrow> string list" where
  "probe_reasons arm probes = (case probes of
     [d] \<Rightarrow> concat (map (differs_from d) [(''identity'', P32_PROTOCOL, ''probe identity mismatch''),
        (''source_sha256'', V3_SOURCE_SHA256, ''probe source digest mismatch''), (''barrier'', ''A'', ''probe did not report barrier A''),
        (''publisher_mode'', lower arm, ''probe publisher mode does not match arm'')])
   | _ \<Rightarrow> [''expected one PROBE line, found '' @ show_int (int (length probes))])"

definition thread_reasons :: "string \<Rightarrow> field_map list \<Rightarrow> string list" where
  "thread_reasons arm states = (case states of
     [d] \<Rightarrow> concat (map (differs_from d) [(''role'', ''publisher'', ''thread state was not emitted by publisher''),
        (''mode'', lower arm, ''thread-state mode does not match arm''),
        (''expected_threads'', expected_threads arm, ''thread-state expected count does not match fixed mode''),
        (''actual_threads'', expected_threads arm, ''publisher actual thread count does not match fixed mode''),
        (''before_publish'', ''1'', ''thread state was not emitted before publish'')])
      @ (if map_of d ''libc_single_threaded_available'' = Some ''1''
         then differs_from d (''libc_single_threaded'', if arm = ''ST'' then ''1'' else ''0'', ''libc single-threaded state does not match fixed mode'') else [])
   | _ \<Rightarrow> [''expected one THREAD_STATE line, found '' @ show_int (int (length states))])"

text \<open>The metrics of the single RESULT line; a missing or malformed field leaves them empty.\<close>

definition result_reasons :: "runner_configuration \<Rightarrow> field_map list \<Rightarrow> probe_metrics option \<times> string list" where
  "result_reasons c results = (case results of
     [d] \<Rightarrow> (case read_metrics d of
         Inl _ \<Rightarrow> (None, [''malformed RESULT fields''])
       | Inr m \<Rightarrow> (Some m, (if pm_published m \<noteq> rc_producers c * rc_messages c then [''published counter mismatch''] else [])
           @ (if pm_delivered m \<noteq> rc_producers c * rc_messages c * rc_consumers c then [''delivered counter mismatch''] else [])))
   | _ \<Rightarrow> (None, [''expected one RESULT line, found '' @ show_int (int (length results))]))"

definition parse_probe_output :: "string \<Rightarrow> runner_configuration \<Rightarrow> string \<Rightarrow> probe_metrics option \<times> string list" where
  "parse_probe_output stdout c arm = (let ls = splitlines stdout in
     (case (runner_lines ls ''PROBE '', runner_lines ls ''THREAD_STATE '', runner_lines ls ''RESULT '') of
       ((probes, a), (states, b), (results, d)) \<Rightarrow> (case result_reasons c results of (metrics, e) \<Rightarrow>
         (metrics, a @ b @ d @ probe_reasons arm probes @ thread_reasons arm states @ e))))"

section \<open>One round\<close>

text \<open>What the environment does when a round is launched: the client ends with a code, the runner's timeout
  expires, or systemd-run cannot be started; the two output files hold what was written by then.\<close>

datatype launch = Completed int | TimedOut | LaunchFailed

record observation =
  ob_launch :: launch
  ob_stdout :: string
  ob_stderr :: string
  ob_started :: string
  ob_finished :: string
  ob_wall :: num

text \<open>What does not change during a run: paths, the process id, the digest function, the text of the client, the host.\<close>

record runner_context =
  cx_root :: string
  cx_output :: string
  cx_client :: string
  cx_pid :: int
  cx_sha :: "string \<Rightarrow> string"
  cx_client_text :: string
  cx_host :: "(string \<times> json) list"
  cx_started :: string
  cx_finished :: string

datatype content = Text string | Doc json

type_synonym file_store = "(string \<times> content) list"

definition returncode_of :: "launch \<Rightarrow> int" where
  "returncode_of l = (case l of Completed n \<Rightarrow> n | TimedOut \<Rightarrow> 124 | LaunchFailed \<Rightarrow> 127)"

definition launch_reasons :: "launch \<Rightarrow> string list" where
  "launch_reasons l = (case l of Completed _ \<Rightarrow> [] | TimedOut \<Rightarrow> [''runner timeout; systemd RuntimeMax was retained'']
     | LaunchFailed \<Rightarrow> [''could not launch systemd-run''])"

definition round_label :: "string \<Rightarrow> schedule_item \<Rightarrow> string" where
  "round_label phase itm = pad_zeros 3 (show_int (int (si_ordinal itm))) @ ''-'' @ phase @ ''-'' @ rc_id (si_configuration itm) @ ''-'' @ lower (si_arm itm)"

definition failure_reasons :: "schedule_item \<Rightarrow> observation \<Rightarrow> string list" where
  "failure_reasons itm ob = launch_reasons (ob_launch ob) @ snd (extract_cgroup_evidence (ob_stdout ob))
     @ snd (parse_probe_output (ob_stdout ob) (si_configuration itm) (si_arm itm))
     @ (if returncode_of (ob_launch ob) \<noteq> 0 then [''non-zero return code: '' @ show_int (returncode_of (ob_launch ob))] else [])"

definition opt_json :: "('a \<Rightarrow> json) \<Rightarrow> 'a option \<Rightarrow> json" where
  "opt_json f x = (case x of None \<Rightarrow> JNull | Some y \<Rightarrow> f y)"

definition metrics_json :: "probe_metrics option \<Rightarrow> json" where
  "metrics_json m = (case m of None \<Rightarrow> JObj [] | Some x \<Rightarrow> JObj ([(''published'', jint (pm_published x)), (''delivered'', jint (pm_delivered x)),
     (''seconds'', JNum (F (pm_seconds x))), (''publish_msg_per_sec'', JNum (F (pm_publish x))), (''delivery_msg_per_sec'', JNum (F (pm_delivery x))),
     (''latency_samples'', jint (pm_samples x))] @ zip LATENCY_KEYS (map jint (pm_latency x))))"

definition round_dir :: "string \<Rightarrow> schedule_item \<Rightarrow> string" where
  "round_dir phase itm = ''rounds/'' @ round_label phase itm"

definition round_unit :: "runner_context \<Rightarrow> string \<Rightarrow> schedule_item \<Rightarrow> string" where
  "round_unit cx prefix itm = prefix @ show_int (cx_pid cx) @ ''-'' @ pad_zeros 3 (show_int (int (si_ordinal itm)))"

definition round_record :: "runner_context \<Rightarrow> string \<Rightarrow> schedule_item \<Rightarrow> observation \<Rightarrow> string list \<Rightarrow> (string \<times> string) list \<Rightarrow> (string \<times> json) list" where
  "round_record cx phase itm ob command environment =
     (let c = si_configuration itm; dir = round_dir phase itm; cgroup = fst (extract_cgroup_evidence (ob_stdout ob));
        reasons = failure_reasons itm ob in
     [(''status'', JStr (if reasons = [] then ''ok'' else ''failed'')), (''phase'', JStr phase), (''ordinal'', jint (int (si_ordinal itm))),
      (''configuration'', JStr (rc_id c)), (''kind'', JStr (rc_kind c)), (''group'', opt_json (\<lambda>n. jint (int n)) (si_group itm)),
      (''position'', opt_json (\<lambda>n. jint (int n)) (si_position itm)), (''arm'', JStr (si_arm itm)), (''mode'', JStr (lower (si_arm itm))),
      (''command'', JList (map JStr command)), (''environment'', JObj (map (\<lambda>(k, v). (k, JStr v)) environment)), (''client'', JStr (cx_client cx)),
      (''client_sha256'', JStr (cx_sha cx (cx_client_text cx))), (''input_source'', JStr V3_SOURCE_SPEC), (''input_sha256'', JStr V3_SOURCE_SHA256),
      (''returncode'', jint (returncode_of (ob_launch ob))), (''started_at'', JStr (ob_started ob)), (''finished_at'', JStr (ob_finished ob)),
      (''wall_seconds'', JNum (ob_wall ob)), (''stdout'', JStr (slash dir ''stdout.txt'')), (''stdout_sha256'', JStr (cx_sha cx (ob_stdout ob))),
      (''stderr'', JStr (slash dir ''stderr.txt'')), (''stderr_sha256'', JStr (cx_sha cx (ob_stderr ob))),
      (''cgroup_evidence'', opt_json (\<lambda>_. JStr (slash dir ''cgroup.txt'')) cgroup), (''cgroup_sha256'', opt_json (\<lambda>t. JStr (cx_sha cx t)) cgroup),
      (''metrics'', metrics_json (fst (parse_probe_output (ob_stdout ob) c (si_arm itm)))), (''failure_reasons'', JList (map JStr reasons))])"

definition put_file :: "string \<Rightarrow> content \<Rightarrow> file_store \<Rightarrow> file_store" where
  "put_file path c fs = dict_put path c fs"

text \<open>The directory of a round must be new; \<open>made\<close> are the directories of earlier rounds.\<close>

definition execute_round :: "runner_context \<Rightarrow> string \<Rightarrow> schedule_item \<Rightarrow> observation \<Rightarrow> string list \<Rightarrow> file_store \<Rightarrow> (json \<times> string list \<times> file_store) py" where
  "execute_round cx phase itm ob made fs = (let dir = slash (cx_output cx) (round_dir phase itm) in
     bindE (require (dir \<notin> set made) (ValueError ''File exists'')) (\<lambda>_.
     bindE (systemd_round_command (cx_root cx) (si_configuration itm) (si_arm itm) (cx_client cx) (round_unit cx ''p3p32-'' itm)
       (round_unit cx ''p3-p32-'' itm)) (\<lambda>command.
     bindE (explicit_environment (si_arm itm)) (\<lambda>environment.
     let fields = round_record cx phase itm ob command environment;
       written = put_file (slash dir ''stderr.txt'') (Text (ob_stderr ob)) (put_file (slash dir ''stdout.txt'') (Text (ob_stdout ob)) fs);
       evidence = (case fst (extract_cgroup_evidence (ob_stdout ob)) of None \<Rightarrow> written | Some t \<Rightarrow> put_file (slash dir ''cgroup.txt'') (Text t) written) in
     Inr (JObj (fields @ [(''record'', JStr (slash (round_dir phase itm) ''round.json''))]), made @ [dir],
       put_file (slash dir ''round.json'') (Doc (JObj fields)) evidence)))))"

section \<open>The manifest\<close>

definition configuration_json :: "runner_configuration \<Rightarrow> json" where
  "configuration_json c = JObj [(''id'', JStr (rc_id c)), (''kind'', JStr (rc_kind c)), (''producers'', jint (rc_producers c)),
     (''consumers'', jint (rc_consumers c)), (''payload'', jint (rc_payload c)), (''messages'', jint (rc_messages c)), (''rate'', jint (rc_rate c)),
     (''latency_sample_rate'', jint (rc_sample_rate c)), (''latency_origin'', JStr (rc_origin c)), (''capacity'', jint (rc_capacity c)),
     (''batch_size'', jint (rc_batch c)), (''poll_limit'', jint (rc_poll c)), (''runtime_seconds'', jint (rc_runtime c))]"

definition matrix_description :: "(string \<times> json) list" where
  "matrix_description = [(''protocol'', JStr P32_PROTOCOL), (''source'', JStr V3_SOURCE_SPEC), (''source_sha256'', JStr V3_SOURCE_SHA256),
     (''configurations'', JList (map configuration_json RUNNER_CONFIGURATIONS)), (''groups_per_configuration'', jint (int P32_GROUPS)),
     (''arm_order_per_group'', JList (map JStr ARM_ORDER)),
     (''measured_rounds_per_configuration'', jint (int (P32_GROUPS * length ARM_ORDER))), (''warmups_per_configuration_per_arm'', jint 1),
     (''barrier_mode'', JStr ''A''),
     (''cgroup'', JObj [(''manager'', JStr ''systemd-run --user --wait --pipe --collect''), (''allowed_cpus'', JStr ''0-3''), (''coordinator_cpu'', jint 0),
        (''nice'', jint 5), (''memory_high'', JStr ''640M''), (''memory_max'', JStr ''704M''), (''memory_swap_max'', jint 0)]),
     (''retry_policy'', JStr ''none; any failure is retained and terminates the run'')]"

definition planned_json :: "schedule_item \<Rightarrow> json" where
  "planned_json itm = JObj [(''ordinal'', jint (int (si_ordinal itm))), (''configuration'', JStr (rc_id (si_configuration itm))),
     (''group'', opt_json (\<lambda>n. jint (int n)) (si_group itm)), (''position'', opt_json (\<lambda>n. jint (int n)) (si_position itm)), (''arm'', JStr (si_arm itm))]"

record run_state =
  rs_files :: file_store
  rs_made :: "string list"
  rs_records :: "json list"
  rs_measured :: nat
  rs_status :: string
  rs_ended :: bool

definition manifest_json :: "runner_context \<Rightarrow> string \<Rightarrow> run_state \<Rightarrow> json" where
  "manifest_json cx mode s = JObj (matrix_description @
     [(''status'', JStr (rs_status s)), (''mode'', JStr mode), (''started_at'', JStr (cx_started cx)), (''client'', JStr (cx_client cx)),
      (''output'', JStr (cx_output cx)), (''progress'', JObj [(''measured_rounds'', jint (int (rs_measured s)))]),
      (''planned_measured_order'', JList (map planned_json formal_schedule)),
      (''planned_warmups'', JList (map (\<lambda>(c, arm). JObj [(''configuration'', JStr (rc_id c)), (''arm'', JStr arm)]) warmup_cells)),
      (''records'', JList (rs_records s))] @ (if rs_ended s then [(''finished_at'', JStr (cx_finished cx))] else []))"

definition environment_json :: "runner_context \<Rightarrow> json" where
  "environment_json cx = JObj ([(''created_at'', JStr (cx_started cx)), (''client'', JStr (cx_client cx)),
     (''client_sha256'', JStr (cx_sha cx (cx_client_text cx))), (''source'', JStr V3_SOURCE_SPEC), (''source_sha256'', JStr V3_SOURCE_SHA256)] @ cx_host cx)"

definition save_manifest :: "runner_context \<Rightarrow> string \<Rightarrow> run_state \<Rightarrow> run_state" where
  "save_manifest cx mode s = s\<lparr>rs_files := put_file (slash (cx_output cx) ''experiment.json'') (Doc (manifest_json cx mode s)) (rs_files s)\<rparr>"

definition make_manifest :: "runner_context \<Rightarrow> string \<Rightarrow> run_state" where
  "make_manifest cx mode = (let s = save_manifest cx mode
       \<lparr>rs_files = [], rs_made = [], rs_records = [], rs_measured = 0, rs_status = ''running'', rs_ended = False\<rparr> in
     s\<lparr>rs_files := put_file (slash (cx_output cx) ''environment.json'') (Doc (environment_json cx)) (rs_files s)\<rparr>)"

section \<open>The run\<close>

text \<open>The first failed round ends the run; the manifest then says so and \<open>failure.json\<close> holds the round.\<close>

definition failure_json :: "json \<Rightarrow> string \<Rightarrow> run_state \<Rightarrow> json" where
  "failure_json record phase s = JObj [(''status'', JStr ''failed''), (''retry_policy'', JStr ''none''), (''failed_round'', record),
     (''failed_phase'', JStr phase), (''completed_measured_rounds'', jint (int (rs_measured s))),
     (''planned_measured_rounds'', jint (int (6 * P32_GROUPS * length ARM_ORDER)))]"

definition record_failure :: "runner_context \<Rightarrow> string \<Rightarrow> string \<Rightarrow> json \<Rightarrow> run_state \<Rightarrow> run_state" where
  "record_failure cx mode phase record s = save_manifest cx mode (s\<lparr>
     rs_files := put_file (slash (cx_output cx) ''failure.json'') (Doc (failure_json record phase s)) (rs_files s),
     rs_status := ''failed'', rs_ended := True\<rparr>)"

definition record_round :: "runner_context \<Rightarrow> string \<Rightarrow> string \<Rightarrow> json \<times> string list \<times> file_store \<Rightarrow> run_state \<Rightarrow> run_state" where
  "record_round cx mode phase rmf s = (case rmf of (record, made, fs) \<Rightarrow> save_manifest cx mode (s\<lparr>rs_files := fs, rs_made := made,
     rs_records := rs_records s @ [record], rs_measured := rs_measured s + (if phase = ''measured'' then 1 else 0)\<rparr>))"

definition round_failed :: "json \<Rightarrow> bool" where
  "round_failed record \<longleftrightarrow> getitem record ''status'' \<noteq> Inr (JStr ''ok'')"

text \<open>The state survives an exception, so a run returns both.\<close>

fun run_records :: "runner_context \<Rightarrow> string \<Rightarrow> string \<Rightarrow> (nat \<Rightarrow> observation) \<Rightarrow> schedule_item list \<Rightarrow> run_state \<Rightarrow> run_state \<times> pyexn option" where
  "run_records cx mode phase obs [] s = (s, None)"
| "run_records cx mode phase obs (itm # items) s =
     (case execute_round cx phase itm (obs (si_ordinal itm)) (rs_made s) (rs_files s) of
        Inl e \<Rightarrow> (s, Some e)
      | Inr rmf \<Rightarrow> let t = record_round cx mode phase rmf s in
          if round_failed (fst rmf) then (record_failure cx mode phase (fst rmf) t, Some (RuntimeError ''round failed''))
          else run_records cx mode phase obs items t)"

definition finish_run :: "runner_context \<Rightarrow> string \<Rightarrow> run_state \<Rightarrow> run_state" where
  "finish_run cx mode s = save_manifest cx mode (s\<lparr>rs_status := ''complete'', rs_ended := True\<rparr>)"

definition then_run :: "run_state \<times> pyexn option \<Rightarrow> (run_state \<Rightarrow> run_state \<times> pyexn option) \<Rightarrow> run_state \<times> pyexn option" where
  "then_run r f = (case r of (s, None) \<Rightarrow> f s | (s, Some e) \<Rightarrow> (s, Some e))"

definition run_smoke :: "runner_context \<Rightarrow> (nat \<Rightarrow> observation) \<Rightarrow> run_state \<times> pyexn option" where
  "run_smoke cx obs = then_run (run_records cx ''smoke'' ''smoke'' obs smoke_items (make_manifest cx ''smoke''))
     (\<lambda>s. (finish_run cx ''smoke'' s, None))"

definition run_formal :: "runner_context \<Rightarrow> (nat \<Rightarrow> observation) \<Rightarrow> run_state \<times> pyexn option" where
  "run_formal cx obs = then_run (run_records cx ''formal'' ''smoke'' obs smoke_items (make_manifest cx ''formal'')) (\<lambda>s.
     then_run (run_records cx ''formal'' ''warmup'' obs warmup_items s) (\<lambda>s.
     then_run (run_records cx ''formal'' ''measured'' obs measured_items s) (\<lambda>s. (finish_run cx ''formal'' s, None))))"

text \<open>\<open>verify_v3_source\<close>, on the exit code, error text and output of git.\<close>

definition verify_v3_source :: "(string \<Rightarrow> string) \<Rightarrow> int \<Rightarrow> string \<Rightarrow> string \<Rightarrow> unit py" where
  "verify_v3_source sha code err out = bindE (require (code = 0) (RuntimeError (strip err))) (\<lambda>_.
     require (sha out = V3_SOURCE_SHA256) (RuntimeError ''v3 source SHA-256 changed''))"

section \<open>The run as one sequence of rounds\<close>

definition formal_rounds :: "(string \<times> schedule_item) list" where
  "formal_rounds = map (Pair ''smoke'') smoke_items @ map (Pair ''warmup'') warmup_items @ map (Pair ''measured'') measured_items"

definition observed :: "(nat \<Rightarrow> observation) \<Rightarrow> string \<times> schedule_item \<Rightarrow> observation" where
  "observed obs r = obs (si_ordinal (snd r))"

definition round_ok :: "(nat \<Rightarrow> observation) \<Rightarrow> string \<times> schedule_item \<Rightarrow> bool" where
  "round_ok obs r \<longleftrightarrow> failure_reasons (snd r) (observed obs r) = []"

definition environment_of :: "string \<Rightarrow> (string \<times> string) list" where
  "environment_of arm = [(''SALIAS_P32_PUBLISHER_MODE'', lower arm), (''SALIAS_DISABLE_ASYMMETRIC_FENCE'', ''0''), (''SALIAS_RESOURCE_CAPPED'', ''1'')]"

definition command_of :: "runner_context \<Rightarrow> string \<times> schedule_item \<Rightarrow> string list" where
  "command_of cx r = (case systemd_round_command (cx_root cx) (si_configuration (snd r)) (si_arm (snd r)) (cx_client cx)
     (round_unit cx ''p3p32-'' (snd r)) (round_unit cx ''p3-p32-'' (snd r)) of Inr c \<Rightarrow> c | Inl _ \<Rightarrow> [])"

definition saved_fields :: "runner_context \<Rightarrow> (nat \<Rightarrow> observation) \<Rightarrow> string \<times> schedule_item \<Rightarrow> (string \<times> json) list" where
  "saved_fields cx obs r = round_record cx (fst r) (snd r) (observed obs r) (command_of cx r) (environment_of (si_arm (snd r)))"

definition round_json :: "runner_context \<Rightarrow> (nat \<Rightarrow> observation) \<Rightarrow> string \<times> schedule_item \<Rightarrow> json" where
  "round_json cx obs r = JObj (saved_fields cx obs r @ [(''record'', JStr (slash (round_dir (fst r) (snd r)) ''round.json''))])"

definition round_path :: "runner_context \<Rightarrow> string \<times> schedule_item \<Rightarrow> string" where
  "round_path cx r = slash (cx_output cx) (round_dir (fst r) (snd r))"

definition round_texts :: "(nat \<Rightarrow> observation) \<Rightarrow> string \<times> schedule_item \<Rightarrow> (string \<times> string) list" where
  "round_texts obs r = [(''stdout.txt'', ob_stdout (observed obs r)), (''stderr.txt'', ob_stderr (observed obs r))]
     @ (case fst (extract_cgroup_evidence (ob_stdout (observed obs r))) of None \<Rightarrow> [] | Some t \<Rightarrow> [(''cgroup.txt'', t)])"

definition round_files :: "runner_context \<Rightarrow> (nat \<Rightarrow> observation) \<Rightarrow> string \<times> schedule_item \<Rightarrow> file_store \<Rightarrow> file_store" where
  "round_files cx obs r fs = put_file (slash (round_path cx r) ''round.json'') (Doc (JObj (saved_fields cx obs r)))
     (fold (\<lambda>(n, t). put_file (slash (round_path cx r) n) (Text t)) (round_texts obs r) fs)"

lemma execute_round_Inr:
  assumes "si_arm (snd r) \<in> set ARMS" "round_path cx r \<notin> set made"
  shows "execute_round cx (fst r) (snd r) (observed obs r) made fs = Inr (round_json cx obs r, made @ [round_path cx r], round_files cx obs r fs)"
proof -
  have e: "explicit_environment (si_arm (snd r)) = Inr (environment_of (si_arm (snd r)))" using assms(1) by (simp add: explicit_environment_def environment_of_def)
  then obtain c where c: "systemd_round_command (cx_root cx) (si_configuration (snd r)) (si_arm (snd r)) (cx_client cx)
     (round_unit cx ''p3p32-'' (snd r)) (round_unit cx ''p3-p32-'' (snd r)) = Inr c" by (simp add: systemd_round_command_def)
  then have "command_of cx r = c" by (simp add: command_of_def)
  then show ?thesis
    using assms(2) e c
    by (simp add: execute_round_def Let_def require_def round_json_def saved_fields_def round_files_def round_texts_def round_path_def put_file_def
      split: option.splits)
qed

lemma round_failed_iff: "round_failed (round_json cx obs r) \<longleftrightarrow> \<not> round_ok obs r"
  by (simp add: round_failed_def round_json_def saved_fields_def round_record_def round_ok_def observed_def Let_def)

text \<open>The run with its three loops joined; a round cannot raise.\<close>

fun play :: "runner_context \<Rightarrow> string \<Rightarrow> (nat \<Rightarrow> observation) \<Rightarrow> (string \<times> schedule_item) list \<Rightarrow> run_state \<Rightarrow> run_state \<times> pyexn option" where
  "play cx mode obs [] s = (s, None)"
| "play cx mode obs (r # rs) s =
     (let t = record_round cx mode (fst r) (round_json cx obs r, rs_made s @ [round_path cx r], round_files cx obs r (rs_files s)) s in
      if round_ok obs r then play cx mode obs rs t
      else (record_failure cx mode (fst r) (round_json cx obs r) t, Some (RuntimeError ''round failed'')))"

lemma record_round_fields [simp]:
  "rs_made (record_round cx mode phase (j, made, fs) s) = made"
  "rs_records (record_round cx mode phase (j, made, fs) s) = rs_records s @ [j]"
  "rs_measured (record_round cx mode phase (j, made, fs) s) = rs_measured s + (if phase = ''measured'' then 1 else 0)"
  "rs_status (record_round cx mode phase (j, made, fs) s) = rs_status s"
  "rs_ended (record_round cx mode phase (j, made, fs) s) = rs_ended s"
  by (simp_all add: record_round_def save_manifest_def)

lemma run_records_play:
  assumes "\<forall>i \<in> set items. si_arm i \<in> set ARMS" "distinct (rs_made s @ map (\<lambda>i. round_path cx (phase, i)) items)"
  shows "run_records cx mode phase obs items s = play cx mode obs (map (Pair phase) items) s"
  using assms
proof (induction items arbitrary: s)
  case (Cons i items)
  have "execute_round cx phase i (obs (si_ordinal i)) (rs_made s) (rs_files s)
      = Inr (round_json cx obs (phase, i), rs_made s @ [round_path cx (phase, i)], round_files cx obs (phase, i) (rs_files s))"
    using execute_round_Inr [of "(phase, i)" cx "rs_made s" obs "rs_files s"] Cons.prems by (simp add: observed_def)
  then show ?case using Cons by (simp add: round_failed_iff Let_def)
qed simp

lemma play_append: "play cx mode obs (xs @ ys) s = then_run (play cx mode obs xs s) (play cx mode obs ys)"
  by (induction xs arbitrary: s) (simp_all add: then_run_def Let_def)

lemma play_made: "play cx mode obs rs s = (t, None) \<Longrightarrow> rs_made t = rs_made s @ map (round_path cx) rs"
  by (induction rs arbitrary: s) (auto simp: Let_def split: if_splits)

text \<open>The fixed schedule: every ordinal once, in order, and read back from the label of its directory.\<close>

lemma schedule_lengths: "length formal_cells = 144" "length smoke_items = 2" "length warmup_items = 12" "length measured_items = 144"
  "length formal_schedule = 144"
  by (simp_all add: formal_cells_def warmup_items_def warmup_cells_def smoke_items_def prepared_def measured_items_def formal_schedule_def
    RUNNER_CONFIGURATIONS_def ARMS_def ARM_ORDER_def P32_GROUPS_def length_concat comp_def sum_list_triv)

lemma enumerate_ordinals: "map (\<lambda>x. f (fst x)) (enumerate k xs) = map f [k ..< k + length xs]"
  by (simp add: comp_def flip: map_map [of f fst, unfolded comp_def])

lemma schedule_ordinals: "map (si_ordinal \<circ> snd) formal_rounds = [0 ..< 158]"
proof -
  have s: "map si_ordinal smoke_items = [0 ..< 2]" "map si_ordinal warmup_items = [2 ..< 14]"
    using enumerate_ordinals [of "\<lambda>x. x" 0 "map (\<lambda>arm. (smoke_configuration, arm)) ARMS"] enumerate_ordinals [of "\<lambda>x. x" 2 warmup_cells]
      schedule_lengths(2,3)
    by (simp_all add: smoke_items_def warmup_items_def prepared_def comp_def case_prod_beta ARMS_def upt_rec)
  have "map si_ordinal formal_schedule = [0 ..< 144]"
    using enumerate_ordinals [of "\<lambda>x. x" 0 formal_cells] schedule_lengths(1)
    by (simp add: formal_schedule_def comp_def case_prod_beta)
  then have "map si_ordinal measured_items = map (\<lambda>n. 14 + n) [0 ..< 144]"
    using schedule_lengths(2,3) by (simp add: measured_items_def comp_def flip: map_map [of "\<lambda>n. 14 + n" si_ordinal, unfolded comp_def])
  also have "\<dots> = [14 ..< 158]" using map_add_upt [of 14 144] by (simp add: add.commute)
  finally have m: "map si_ordinal measured_items = [14 ..< 158]" .
  have "[0 ..< 158] = [0 ..< 2] @ [2 ..< 14] @ [14 ..< (158 :: nat)]"
    using upt_add_eq_append [of 0 2 156] upt_add_eq_append [of 2 14 144] by simp
  then show ?thesis using s m by (simp add: formal_rounds_def comp_def)
qed

lemma enumerate_member: "(i, x) \<in> set (enumerate k xs) \<Longrightarrow> x \<in> set xs"
  by (metis enumerate_eq_zip set_zip_rightD)

lemma schedule_member:
  assumes "r \<in> set formal_rounds"
  shows "si_arm (snd r) \<in> {''ST'', ''MT''}" "fst r \<in> {''smoke'', ''warmup'', ''measured''}"
    "si_configuration (snd r) \<in> set (smoke_configuration # RUNNER_CONFIGURATIONS)" "si_ordinal (snd r) < 158"
proof -
  have "si_ordinal (snd r) \<in> set (map (si_ordinal \<circ> snd) formal_rounds)" using assms by auto
  then show "si_ordinal (snd r) < 158" unfolding schedule_ordinals by simp
  have cells: "arm \<in> {''ST'', ''MT''} \<and> c \<in> set RUNNER_CONFIGURATIONS" if "(c, g, p, arm) \<in> set formal_cells" for c g p arm
    using that by (auto simp: formal_cells_def ARM_ORDER_def)
  have warm: "arm \<in> {''ST'', ''MT''} \<and> c \<in> set RUNNER_CONFIGURATIONS" if "(c, arm) \<in> set warmup_cells" for c arm
    using that by (auto simp: warmup_cells_def ARMS_def)
  have smoke: "si_arm i \<in> {''ST'', ''MT''} \<and> si_configuration i = smoke_configuration" if "i \<in> set smoke_items" for i
    using that by (auto simp: smoke_items_def prepared_def ARMS_def)
  have warmup: "si_arm i \<in> {''ST'', ''MT''} \<and> si_configuration i \<in> set RUNNER_CONFIGURATIONS" if "i \<in> set warmup_items" for i
    using that by (auto simp: warmup_items_def prepared_def dest!: enumerate_member dest: warm)
  have measured: "si_arm i \<in> {''ST'', ''MT''} \<and> si_configuration i \<in> set RUNNER_CONFIGURATIONS" if "i \<in> set measured_items" for i
    using that by (auto simp: measured_items_def formal_schedule_def dest!: enumerate_member dest: cells)
  show "si_arm (snd r) \<in> {''ST'', ''MT''}" "fst r \<in> {''smoke'', ''warmup'', ''measured''}"
    "si_configuration (snd r) \<in> set (smoke_configuration # RUNNER_CONFIGURATIONS)"
    using assms by (auto simp: formal_rounds_def dest: smoke warmup measured)
qed

lemma label_number:
  assumes "n < 158"
  shows "str_int (pad_zeros 3 (show_int (int n))) = Inr (int n)" "length (pad_zeros 3 (show_int (int n))) = 3"
    "CHR ''/'' \<notin> set (pad_zeros 3 (show_int (int n)))"
proof -
  have "list_all (\<lambda>n. str_int (pad_zeros 3 (show_int (int n))) = Inr (int n) \<and> length (pad_zeros 3 (show_int (int n))) = 3
    \<and> CHR ''/'' \<notin> set (pad_zeros 3 (show_int (int n)))) [0 ..< 158]" by code_simp
  then show "str_int (pad_zeros 3 (show_int (int n))) = Inr (int n)" "length (pad_zeros 3 (show_int (int n))) = 3"
    "CHR ''/'' \<notin> set (pad_zeros 3 (show_int (int n)))" using assms by (auto simp: list_all_iff)
qed

lemma label_facts:
  assumes "r \<in> set formal_rounds"
  shows "str_int (take 3 (round_label (fst r) (snd r))) = Inr (int (si_ordinal (snd r)))" "CHR ''/'' \<notin> set (round_label (fst r) (snd r))"
    "round_label (fst r) (snd r) \<noteq> []"
proof -
  note m = schedule_member [OF assms]
  note n = label_number [OF m(4)]
  have names: "CHR ''/'' \<notin> set (rc_id (si_configuration (snd r)))"
    using m(3) by (auto simp: RUNNER_CONFIGURATIONS_def smoke_configuration_def throughput_cell_def latency_cell_def)
  have arms: "CHR ''/'' \<notin> set (lower (si_arm (snd r)))"
  proof -
    have "CHR ''/'' \<notin> set (lower ''ST'')" "CHR ''/'' \<notin> set (lower ''MT'')" by code_simp+
    then show ?thesis using m(1) by auto
  qed
  show "str_int (take 3 (round_label (fst r) (snd r))) = Inr (int (si_ordinal (snd r)))" using n(1,2) by (simp add: round_label_def)
  show "round_label (fst r) (snd r) \<noteq> []" using n(2) by (auto simp: round_label_def)
  show "CHR ''/'' \<notin> set (round_label (fst r) (snd r))" using n(3) names arms m(2) by (auto simp: round_label_def)
qed

lemma slash_append: "x \<noteq> [] \<Longrightarrow> hd x \<noteq> CHR ''/'' \<Longrightarrow> slash d x = d @ ''/'' @ x"
  by (cases x) (auto simp: slash_def)

lemma round_path_eq: "round_path cx r = cx_output cx @ ''/rounds/'' @ round_label (fst r) (snd r)"
  by (simp add: round_path_def round_dir_def slash_append)

lemma distinct_rounds: "distinct formal_rounds"
  using schedule_ordinals by (metis distinct_map distinct_upt)

lemma round_path_inj:
  assumes "r \<in> set formal_rounds" "q \<in> set formal_rounds" "round_path cx r = round_path cx q"
  shows "r = q"
proof -
  have "si_ordinal (snd r) = si_ordinal (snd q)" using assms(3) label_facts(1) [OF assms(1)] label_facts(1) [OF assms(2)] by (simp add: round_path_eq)
  moreover have "inj_on (si_ordinal \<circ> snd) (set formal_rounds)" using schedule_ordinals by (metis distinct_map distinct_upt)
  ultimately show ?thesis using assms(1,2) by (auto elim!: inj_onD)
qed

lemma distinct_round_paths: "distinct (map (round_path cx) formal_rounds)"
  using distinct_rounds round_path_inj by (auto simp: distinct_map inj_on_def)

end
