(* ===== verification/P32Evidence.thy ===== *)
theory P32Evidence
  imports P32Runner
begin

text \<open>
  What a run of the P3-2 runner leaves behind, and what the auditor of \<open>P32Audit\<close> makes of it: a run is
  a prefix of the frozen schedule up to its first failed round, and the evidence of a complete run can be
  refused only for its measurements.
\<close>

section \<open>A run is a prefix of the schedule\<close>

lemma run_formal_play:
  "run_formal cx obs = then_run (play cx ''formal'' obs formal_rounds (make_manifest cx ''formal'')) (\<lambda>s. (finish_run cx ''formal'' s, None))"
proof -
  have arm: "si_arm i \<in> set ARMS" if "(ph, i) \<in> set formal_rounds" for ph i
    using schedule_member(1) [OF that] by (simp add: ARMS_def)
  have arms: "\<forall>i \<in> set smoke_items. si_arm i \<in> set ARMS" "\<forall>i \<in> set warmup_items. si_arm i \<in> set ARMS" "\<forall>i \<in> set measured_items. si_arm i \<in> set ARMS"
    by (intro ballI, rule arm, simp add: formal_rounds_def image_iff, blast)+
  have paths: "map (round_path cx) formal_rounds = map (\<lambda>i. round_path cx (''smoke'', i)) smoke_items @ map (\<lambda>i. round_path cx (''warmup'', i)) warmup_items
      @ map (\<lambda>i. round_path cx (''measured'', i)) measured_items" by (simp add: formal_rounds_def comp_def)
  note distinct = distinct_round_paths [of cx, unfolded paths]
  have start: "rs_made (make_manifest cx ''formal'') = []" by (simp add: make_manifest_def save_manifest_def Let_def)
  have smoke: "run_records cx ''formal'' ''smoke'' obs smoke_items (make_manifest cx ''formal'')
      = play cx ''formal'' obs (map (Pair ''smoke'') smoke_items) (make_manifest cx ''formal'')"
    using arms(1) distinct by (intro run_records_play) (simp_all add: start)
  have warmup: "run_records cx ''formal'' ''warmup'' obs warmup_items s = play cx ''formal'' obs (map (Pair ''warmup'') warmup_items) s"
    if "rs_made s = map (\<lambda>i. round_path cx (''smoke'', i)) smoke_items" for s
    using arms(2) distinct that by (intro run_records_play) (simp_all add: Int_Un_distrib)
  have measured: "run_records cx ''formal'' ''measured'' obs measured_items s = play cx ''formal'' obs (map (Pair ''measured'') measured_items) s"
    if "rs_made s = map (\<lambda>i. round_path cx (''smoke'', i)) smoke_items @ map (\<lambda>i. round_path cx (''warmup'', i)) warmup_items" for s
    using arms(3) distinct that by (intro run_records_play) (simp_all add: Int_Un_distrib Int_Un_distrib2)
  obtain s1 e1 where 1: "play cx ''formal'' obs (map (Pair ''smoke'') smoke_items) (make_manifest cx ''formal'') = (s1, e1)" by fastforce
  obtain s2 e2 where 2: "play cx ''formal'' obs (map (Pair ''warmup'') warmup_items) s1 = (s2, e2)" by fastforce
  show ?thesis
  proof (cases e1)
    case (Some x)
    then show ?thesis by (simp add: run_formal_def smoke formal_rounds_def play_append 1 then_run_def)
  next
    case None
    then have m1: "rs_made s1 = map (\<lambda>i. round_path cx (''smoke'', i)) smoke_items" using play_made [OF 1 [unfolded None]] by (simp add: start comp_def)
    show ?thesis
    proof (cases e2)
      case (Some x)
      then show ?thesis using None by (simp add: run_formal_def smoke formal_rounds_def play_append 1 2 warmup [OF m1] then_run_def)
    next
      case n2: None
      then have "rs_made s2 = map (\<lambda>i. round_path cx (''smoke'', i)) smoke_items @ map (\<lambda>i. round_path cx (''warmup'', i)) warmup_items"
        using play_made [OF 2 [unfolded n2]] m1 by (simp add: comp_def)
      then show ?thesis using None n2 by (simp add: run_formal_def smoke formal_rounds_def play_append 1 2 warmup [OF m1] measured then_run_def)
    qed
  qed
qed

definition rounds_done :: "(nat \<Rightarrow> observation) \<Rightarrow> (string \<times> schedule_item) list \<Rightarrow> (string \<times> schedule_item) list" where
  "rounds_done obs rounds = take (Suc (length (takeWhile (round_ok obs) rounds))) rounds"

definition measured_count :: "(string \<times> schedule_item) list \<Rightarrow> nat" where
  "measured_count rounds = length (filter (\<lambda>r. fst r = ''measured'') rounds)"

lemma rounds_done_Cons: "rounds_done obs (r # rs) = (if round_ok obs r then r # rounds_done obs rs else [r])"
  by (simp add: rounds_done_def)

lemma rounds_done_all: "\<forall>r \<in> set rs. round_ok obs r \<Longrightarrow> rounds_done obs rs = rs"
  by (induction rs) (auto simp: rounds_done_Cons, simp add: rounds_done_def)

lemma failing_last: "\<exists>r \<in> set rs. \<not> round_ok obs r \<Longrightarrow> rounds_done obs rs \<noteq> [] \<and> \<not> round_ok obs (last (rounds_done obs rs))"
proof (induction rs)
  case (Cons r rs)
  then show ?case by (cases "round_ok obs r") (auto simp: rounds_done_Cons)
qed simp

text \<open>The fields of the state after a run.\<close>

lemma play_fields:
  "play cx mode obs rounds s = (t, e) \<Longrightarrow>
    rs_records t = rs_records s @ map (round_json cx obs) (rounds_done obs rounds)
    \<and> rs_measured t = rs_measured s + measured_count (rounds_done obs rounds)
    \<and> (e = None \<longleftrightarrow> (\<forall>r \<in> set rounds. round_ok obs r))
    \<and> (if e = None then rs_status t = rs_status s \<and> rs_ended t = rs_ended s else rs_status t = ''failed'' \<and> rs_ended t)"
proof (induction rounds arbitrary: s)
  case Nil
  then show ?case by (auto simp: rounds_done_def measured_count_def)
next
  case (Cons r rs)
  let ?t = "record_round cx mode (fst r) (round_json cx obs r, rs_made s @ [round_path cx r], round_files cx obs r (rs_files s)) s"
  show ?case
  proof (cases "round_ok obs r")
    case True
    then have "play cx mode obs rs ?t = (t, e)" using Cons.prems by (simp add: Let_def)
    from Cons.IH [OF this] True show ?thesis by (simp add: rounds_done_Cons measured_count_def)
  next
    case False
    then have "t = record_failure cx mode (fst r) (round_json cx obs r) ?t" "e = Some (RuntimeError ''round failed'')"
      using Cons.prems by (auto simp: Let_def)
    then show ?thesis using False by (simp add: rounds_done_Cons measured_count_def record_failure_def save_manifest_def)
  qed
qed

section \<open>The files of a run\<close>

definition saved :: "runner_context \<Rightarrow> string \<Rightarrow> run_state \<Rightarrow> string \<Rightarrow> content option" where
  "saved cx mode s name = map_of (rs_files s) (slash (cx_output cx) name)"

lemma output_file:
  "slash d ''experiment.json'' = d @ ''/experiment.json''" "slash d ''environment.json'' = d @ ''/environment.json''"
  "slash d ''failure.json'' = d @ ''/failure.json''" "slash d ''round.json'' = d @ ''/round.json''" "slash d ''stdout.txt'' = d @ ''/stdout.txt''"
  "slash d ''stderr.txt'' = d @ ''/stderr.txt''" "slash d ''cgroup.txt'' = d @ ''/cgroup.txt''"
  by (simp_all add: slash_append)

lemma map_of_put [simp]: "map_of (put_file p c fs) = (map_of fs)(p \<mapsto> c)"
  by (simp add: put_file_def map_of_dict_put)

text \<open>The paths a round writes, and what it writes there.\<close>

definition round_texts_at :: "runner_context \<Rightarrow> (nat \<Rightarrow> observation) \<Rightarrow> string \<times> schedule_item \<Rightarrow> (string \<times> content) list" where
  "round_texts_at cx obs r = map (\<lambda>(n, t). (slash (round_path cx r) n, Text t)) (round_texts obs r)
     @ [(slash (round_path cx r) ''round.json'', Doc (JObj (saved_fields cx obs r)))]"

lemma round_texts_cases:
  "round_texts obs r = [(''stdout.txt'', ob_stdout (observed obs r)), (''stderr.txt'', ob_stderr (observed obs r))] \<or>
   (\<exists>t. round_texts obs r = [(''stdout.txt'', ob_stdout (observed obs r)), (''stderr.txt'', ob_stderr (observed obs r)), (''cgroup.txt'', t)])"
  by (auto simp: round_texts_def split: option.splits)

lemma round_files_lookup:
  "map_of (round_files cx obs r fs) p = (case map_of (round_texts_at cx obs r) p of None \<Rightarrow> map_of fs p | Some c \<Rightarrow> Some c)"
  using round_texts_cases [of obs r] by (auto simp: round_files_def round_texts_at_def output_file)

lemma round_file_paths: "p \<in> fst ` set (round_texts_at cx obs r) \<Longrightarrow> \<exists>n. p = round_path cx r @ CHR ''/'' # n \<and> CHR ''/'' \<notin> set n"
  using round_texts_cases [of obs r] by (auto simp: round_texts_at_def output_file)

lemma path_split:
  assumes "a @ CHR ''/'' # x = b @ CHR ''/'' # y" "CHR ''/'' \<notin> set x" "CHR ''/'' \<notin> set y"
  shows "a = b \<and> x = y"
  using assms by (auto simp: append_eq_append_conv2 Cons_eq_append_conv append_eq_Cons_conv)

text \<open>Rounds write to different places, and none writes a file of the output directory itself.\<close>

lemma round_files_disjoint:
  assumes "r \<in> set formal_rounds" "q \<in> set formal_rounds" "p \<in> fst ` set (round_texts_at cx obs r)" "p \<in> fst ` set (round_texts_at cx obs q)"
  shows "r = q"
proof -
  obtain n m where "p = round_path cx r @ CHR ''/'' # n" "CHR ''/'' \<notin> set n" "p = round_path cx q @ CHR ''/'' # m" "CHR ''/'' \<notin> set m"
    using round_file_paths [OF assms(3)] round_file_paths [OF assms(4)] by blast
  then have "round_path cx r = round_path cx q" using path_split [of "round_path cx r" n "round_path cx q" m] by simp
  then show ?thesis using round_path_inj assms(1,2) by blast
qed

lemma round_files_inner:
  assumes "p \<in> fst ` set (round_texts_at cx obs r)" "CHR ''/'' \<notin> set n"
  shows "p \<noteq> cx_output cx @ CHR ''/'' # n"
proof
  assume eq: "p = cx_output cx @ CHR ''/'' # n"
  obtain m where m: "p = round_path cx r @ CHR ''/'' # m" "CHR ''/'' \<notin> set m" using round_file_paths [OF assms(1)] by blast
  have "round_path cx r = cx_output cx" using path_split [of "round_path cx r" m "cx_output cx" n] eq m assms(2) by simp
  then show False by (simp add: round_path_eq)
qed

lemma save_manifest_lookup:
  "map_of (rs_files (save_manifest cx mode s)) p =
     (if p = cx_output cx @ ''/experiment.json'' then Some (Doc (manifest_json cx mode (save_manifest cx mode s))) else map_of (rs_files s) p)"
  by (simp add: save_manifest_def output_file manifest_json_def)

definition consistent :: "runner_context \<Rightarrow> string \<Rightarrow> run_state \<Rightarrow> bool" where
  "consistent cx mode s \<longleftrightarrow> map_of (rs_files s) (cx_output cx @ ''/experiment.json'') = Some (Doc (manifest_json cx mode s))"

lemma consistent_save: "consistent cx mode (save_manifest cx mode s)"
  by (simp add: consistent_def save_manifest_lookup)

lemma record_round_lookup:
  "p \<noteq> cx_output cx @ ''/experiment.json'' \<Longrightarrow> map_of (rs_files (record_round cx mode ph (j, made, fs) s)) p = map_of fs p"
  by (simp add: record_round_def save_manifest_lookup)

lemma record_failure_lookup:
  "p \<noteq> cx_output cx @ ''/experiment.json'' \<Longrightarrow> map_of (rs_files (record_failure cx mode ph j s)) p =
     (if p = cx_output cx @ ''/failure.json'' then Some (Doc (failure_json j ph s)) else map_of (rs_files s) p)"
  by (simp add: record_failure_def save_manifest_lookup output_file)

lemma play_consistent: "play cx mode obs rounds s = (t, e) \<Longrightarrow> consistent cx mode s \<Longrightarrow> consistent cx mode t"
proof (induction rounds arbitrary: s)
  case (Cons r rs)
  let ?t = "record_round cx mode (fst r) (round_json cx obs r, rs_made s @ [round_path cx r], round_files cx obs r (rs_files s)) s"
  have "consistent cx mode ?t" by (simp add: record_round_def consistent_save)
  then show ?case using Cons.IH [of ?t] Cons.prems(1) by (auto simp: Let_def record_failure_def consistent_save split: if_splits)
qed simp

lemma no_slash: "CHR ''/'' \<notin> set ''experiment.json''" "CHR ''/'' \<notin> set ''failure.json''" "CHR ''/'' \<notin> set ''environment.json''"
  by simp_all

text \<open>A file that no round of the run writes is untouched, and one that a round writes stays as written.\<close>

lemma play_untouched:
  assumes "play cx mode obs rounds s = (t, e)" "p \<noteq> cx_output cx @ ''/experiment.json''" "p \<noteq> cx_output cx @ ''/failure.json''"
    "\<forall>r \<in> set rounds. p \<notin> fst ` set (round_texts_at cx obs r)"
  shows "map_of (rs_files t) p = map_of (rs_files s) p"
  using assms(1,4)
proof (induction rounds arbitrary: s)
  case (Cons r rs)
  let ?t = "record_round cx mode (fst r) (round_json cx obs r, rs_made s @ [round_path cx r], round_files cx obs r (rs_files s)) s"
  have "map_of (round_texts_at cx obs r) p = None" using Cons.prems(2) by (simp add: map_of_eq_None_iff)
  then have "map_of (rs_files ?t) p = map_of (rs_files s) p" using assms(2) by (simp add: record_round_lookup round_files_lookup)
  then show ?case using Cons.IH [of ?t] Cons.prems assms(2,3) by (auto simp: Let_def record_failure_lookup split: if_splits)
qed simp

lemma play_written:
  assumes "play cx mode obs rounds s = (t, e)" "set rounds \<subseteq> set formal_rounds" "distinct rounds"
    "r \<in> set (rounds_done obs rounds)" "map_of (round_texts_at cx obs r) p = Some c"
  shows "map_of (rs_files t) p = Some c"
  using assms(1-4)
proof (induction rounds arbitrary: s)
  case Nil then show ?case by (simp add: rounds_done_def)
next
  case (Cons q rs)
  let ?t = "record_round cx mode (fst q) (round_json cx obs q, rs_made s @ [round_path cx q], round_files cx obs q (rs_files s)) s"
  have p: "p \<in> fst ` set (round_texts_at cx obs r)" using assms(5) by (metis map_of_eq_None_iff option.distinct(1))
  have inner: "p \<noteq> cx_output cx @ ''/experiment.json''" "p \<noteq> cx_output cx @ ''/failure.json''"
    using round_files_inner [OF p no_slash(1)] round_files_inner [OF p no_slash(2)] by simp_all
  have r: "r \<in> set formal_rounds" using Cons.prems(2,4) unfolding rounds_done_def by (meson in_set_takeD subsetD)
  show ?case
  proof (cases "r = q")
    case True
    then have here: "map_of (rs_files ?t) p = Some c" using assms(5) inner by (simp add: record_round_lookup round_files_lookup)
    have "\<forall>x \<in> set rs. p \<notin> fst ` set (round_texts_at cx obs x)"
      using round_files_disjoint [OF r _ p] Cons.prems(2,3) True by auto
    then show ?thesis using play_untouched [of cx mode obs rs ?t t e p] here inner Cons.prems(1)
      by (auto simp: Let_def record_failure_lookup split: if_splits)
  next
    case False
    then have "round_ok obs q" "r \<in> set (rounds_done obs rs)" using Cons.prems(4) by (auto simp: rounds_done_Cons split: if_splits)
    then show ?thesis using Cons.IH [of ?t] Cons.prems by (simp add: Let_def)
  qed
qed

lemma play_failure:
  assumes "play cx mode obs rounds s = (t, e)" "set rounds \<subseteq> set formal_rounds"
  shows "map_of (rs_files t) (cx_output cx @ ''/failure.json'') = (if e = None then map_of (rs_files s) (cx_output cx @ ''/failure.json'')
    else Some (Doc (failure_json (round_json cx obs (last (rounds_done obs rounds))) (fst (last (rounds_done obs rounds))) t)))"
  using assms
proof (induction rounds arbitrary: s)
  case (Cons r rs)
  let ?t = "record_round cx mode (fst r) (round_json cx obs r, rs_made s @ [round_path cx r], round_files cx obs r (rs_files s)) s"
  have "cx_output cx @ ''/failure.json'' \<notin> fst ` set (round_texts_at cx obs r)"
    using round_files_inner [of _ cx obs r "''failure.json''"] no_slash(2) by fastforce
  then have "map_of (round_texts_at cx obs r) (cx_output cx @ ''/failure.json'') = None" by (simp add: map_of_eq_None_iff)
  then have here: "map_of (rs_files ?t) (cx_output cx @ ''/failure.json'') = map_of (rs_files s) (cx_output cx @ ''/failure.json'')"
    by (simp add: record_round_lookup round_files_lookup)
  show ?case
  proof (cases "round_ok obs r")
    case True
    then have p: "play cx mode obs rs ?t = (t, e)" using Cons.prems(1) by (simp add: Let_def)
    have "e \<noteq> None \<Longrightarrow> rounds_done obs rs \<noteq> []" using play_fields [OF p] failing_last [of rs obs] by auto
    then show ?thesis using Cons.IH [OF p] Cons.prems(2) True here by (auto simp: rounds_done_Cons)
  next
    case False
    then have "t = record_failure cx mode (fst r) (round_json cx obs r) ?t" "e = Some (RuntimeError ''round failed'')"
      using Cons.prems(1) by (auto simp: Let_def)
    then show ?thesis using False
      by (simp add: rounds_done_Cons record_failure_lookup) (simp add: failure_json_def record_failure_def save_manifest_def)
  qed
qed simp

text \<open>What a run has done, and what its files say of it.\<close>

definition run_outcome :: "runner_context \<Rightarrow> (nat \<Rightarrow> observation) \<Rightarrow> run_state \<Rightarrow> pyexn option \<Rightarrow> bool" where
  "run_outcome cx obs s e \<longleftrightarrow> (let done' = rounds_done obs formal_rounds in
     rs_records s = map (round_json cx obs) done' \<and> rs_measured s = measured_count done'
     \<and> map_of (rs_files s) (cx_output cx @ ''/experiment.json'') = Some (Doc (manifest_json cx ''formal'' s))
     \<and> (e = None \<longleftrightarrow> (\<forall>r \<in> set formal_rounds. round_ok obs r))
     \<and> (if e = None then rs_status s = ''complete'' \<and> done' = formal_rounds \<and> map_of (rs_files s) (cx_output cx @ ''/failure.json'') = None
        else rs_status s = ''failed'' \<and> \<not> round_ok obs (last done') \<and> (\<forall>r \<in> set (butlast done'). round_ok obs r)
          \<and> map_of (rs_files s) (cx_output cx @ ''/failure.json'') = Some (Doc (failure_json (round_json cx obs (last done')) (fst (last done')) s))))"

lemma butlast_done: "r \<in> set (butlast (rounds_done obs rs)) \<Longrightarrow> round_ok obs r"
  by (induction rs) (auto simp: rounds_done_Cons split: if_splits, simp add: rounds_done_def)

lemma start_files:
  "consistent cx mode (make_manifest cx mode)" "map_of (rs_files (make_manifest cx mode)) (cx_output cx @ ''/failure.json'') = None"
  "map_of (rs_files (make_manifest cx mode)) (cx_output cx @ ''/environment.json'') = Some (Doc (environment_json cx))"
  "rs_records (make_manifest cx mode) = []" "rs_measured (make_manifest cx mode) = 0"
  by (simp_all add: make_manifest_def consistent_def save_manifest_def Let_def output_file manifest_json_def)

lemma finish_fields:
  "rs_records (finish_run cx mode s) = rs_records s" "rs_measured (finish_run cx mode s) = rs_measured s" "rs_status (finish_run cx mode s) = ''complete''"
  "consistent cx mode (finish_run cx mode s)" "rs_ended (finish_run cx mode s)"
  "p \<noteq> cx_output cx @ ''/experiment.json'' \<Longrightarrow> map_of (rs_files (finish_run cx mode s)) p = map_of (rs_files s) p"
  by (simp_all add: finish_run_def consistent_save save_manifest_lookup) (simp_all add: save_manifest_def)

lemma run_outcome_holds:
  assumes "run_formal cx obs = (s, e)"
  shows "run_outcome cx obs s e"
proof -
  obtain t e' where t: "play cx ''formal'' obs formal_rounds (make_manifest cx ''formal'') = (t, e')" by fastforce
  note fields = play_fields [OF t, unfolded start_files append_Nil add_0]
  have "consistent cx ''formal'' t" using play_consistent [OF t] start_files(1) by blast
  note written = this play_failure [OF t subset_refl, unfolded start_files(2)]
  show ?thesis
  proof (cases e')
    case None
    then have s: "s = finish_run cx ''formal'' t" "e = None" using assms by (auto simp: run_formal_play t then_run_def)
    have ok: "\<forall>r \<in> set formal_rounds. round_ok obs r" using fields None by simp
    then show ?thesis
      using fields written None finish_fields(4) [of cx "''formal''" t] rounds_done_all [OF ok] schedule_ordinals
      by (simp add: run_outcome_def s finish_fields consistent_def Let_def)
  next
    case (Some x)
    then have s: "s = t" "e = Some x" using assms by (auto simp: run_formal_play t then_run_def)
    have fail: "\<exists>r \<in> set formal_rounds. \<not> round_ok obs r" using fields Some by auto
    then show ?thesis
      using fields written Some failing_last [OF fail] butlast_done [of _ obs formal_rounds] schedule_ordinals
      by (auto simp: run_outcome_def s consistent_def Let_def)
  qed
qed

text \<open>C18.
  A run of the frozen P3-2 matrix, for everything the environment may do in its rounds.  The 158 rounds have the ordinals 0 to 157;
  the records are those of the schedule in order up to and including the first failed round, none is repeated or skipped; the run
  returns exactly when no round fails, and then its status is complete and no failure is recorded; otherwise its status is failed, the
  last record is the only failed one and the failure file holds it.  The manifest on disk is always the one of the final state.
\<close>

theorem run_stops_at_first_failure:
  "map (si_ordinal \<circ> snd) formal_rounds = [0 ..< 158] \<and> (case run_formal cx obs of (s, e) \<Rightarrow> run_outcome cx obs s e)"
  using schedule_ordinals run_outcome_holds by (simp split: prod.split)

text \<open>The progress of a failed run counts the failed round among the completed ones.\<close>

lemma failed_round_is_counted:
  assumes "run_formal cx obs = (s, Some x)" "fst (last (rounds_done obs formal_rounds)) = ''measured''"
  shows "rs_measured s = Suc (measured_count (butlast (rounds_done obs formal_rounds)))"
proof -
  have o: "run_outcome cx obs s (Some x)" using run_outcome_holds [OF assms(1)] .
  then have "\<exists>r \<in> set formal_rounds. \<not> round_ok obs r" by (auto simp: run_outcome_def Let_def)
  then have "rounds_done obs formal_rounds \<noteq> []" using failing_last by blast
  then obtain xs x where d: "rounds_done obs formal_rounds = xs @ [x]" by (cases "rounds_done obs formal_rounds" rule: rev_cases) auto
  have "measured_count (rounds_done obs formal_rounds) = Suc (measured_count (butlast (rounds_done obs formal_rounds)))"
    using assms(2) by (simp add: d measured_count_def)
  then show ?thesis using o by (simp add: run_outcome_def Let_def)
qed

section \<open>A clean round, read again by the auditor\<close>

lemma clean_lines:
  assumes "snd (runner_lines ls prefix) = []"
  shows "control_lines ls prefix = Inr (fst (runner_lines ls prefix))"
proof -
  let ?found = "filter (\<lambda>l. starts_with l prefix) ls"
  have "\<forall>l \<in> set ?found. \<exists>d. fields_of l = Inr d"
  proof
    fix l assume "l \<in> set ?found"
    then show "\<exists>d. fields_of l = Inr d" using assms by (cases "fields_of l") (force simp: runner_lines_def Let_def)+
  qed
  moreover have "mapE (\<lambda>line. case fields_of line of Inl _ \<Rightarrow> Inl (AnalysisError ''malformed line'') | Inr d \<Rightarrow> Inr d) xs
      = Inr (concat (map (\<lambda>l. case fields_of l of Inl _ \<Rightarrow> [] | Inr d \<Rightarrow> [d]) xs))" if "\<forall>l \<in> set xs. \<exists>d. fields_of l = Inr d" for xs
    using that by (induction xs) auto
  ultimately show ?thesis unfolding control_lines_def runner_lines_def Let_def fst_conv by blast
qed

lemma clean_probe:
  assumes "snd (parse_probe_output st c arm) = []"
  shows "\<exists>m state. fst (parse_probe_output st c arm) = Some m \<and> parse_probe st arm = bindE (check_metrics m) (\<lambda>_. Inr (m, state))
    \<and> pm_published m = rc_producers c * rc_messages c \<and> pm_delivered m = rc_producers c * rc_messages c * rc_consumers c"
proof -
  let ?l = "\<lambda>prefix. runner_lines (splitlines st) prefix"
  have e: "snd (?l ''PROBE '') = []" "snd (?l ''THREAD_STATE '') = []" "snd (?l ''RESULT '') = []"
    "probe_reasons arm (fst (?l ''PROBE '')) = []" "thread_reasons arm (fst (?l ''THREAD_STATE '')) = []" "snd (result_reasons c (fst (?l ''RESULT ''))) = []"
    and fst: "fst (parse_probe_output st c arm) = fst (result_reasons c (fst (?l ''RESULT '')))"
    using assms by (auto simp: parse_probe_output_def Let_def split: prod.splits)
  obtain probe where p: "fst (?l ''PROBE '') = [probe]" using e(4) by (auto simp: probe_reasons_def split: list.splits)
  obtain state where t: "fst (?l ''THREAD_STATE '') = [state]" using e(5) by (auto simp: thread_reasons_def split: list.splits)
  obtain result where r: "fst (?l ''RESULT '') = [result]" using e(6) by (auto simp: result_reasons_def split: list.splits)
  obtain m where m: "read_metrics result = Inr m" "pm_published m = rc_producers c * rc_messages c" "pm_delivered m = rc_producers c * rc_messages c * rc_consumers c"
    using e(6) unfolding r result_reasons_def by (auto split: sum.splits if_splits)
  have identity: "check_identity arm probe state = Inr ()"
    using e(4,5) unfolding p t by (auto simp: check_identity_def probe_reasons_def thread_reasons_def differs_from_def split: if_splits)
  have "parse_probe st arm = bindE (check_metrics m) (\<lambda>_. Inr (m, state))"
    by (simp add: parse_probe_def Let_def clean_lines [OF e(1)] clean_lines [OF e(2)] clean_lines [OF e(3)] p t r one_line_def identity m(1))
  then show ?thesis using m fst by (auto simp: r result_reasons_def)
qed

lemma clean_evidence: "snd (extract_cgroup_evidence st) = [] \<Longrightarrow> \<exists>t. fst (extract_cgroup_evidence st) = Some t"
  by (auto simp: extract_cgroup_evidence_def Let_def split: list.splits if_splits)

text \<open>A world that holds the files of a run: \<open>json.loads\<close> reads back what \<open>json.dumps\<close> has written.\<close>

definition holds_files :: "world \<Rightarrow> file_store \<Rightarrow> bool" where
  "holds_files w fs \<longleftrightarrow> (\<forall>p t. map_of fs p = Some (Text t) \<longrightarrow> file_text w p = Some t)
     \<and> (\<forall>p j. map_of fs p = Some (Doc j) \<longrightarrow> (\<exists>t. file_text w p = Some t \<and> json_loads w t = Inr j))"

definition evidence_world :: "world \<Rightarrow> runner_context \<Rightarrow> run_state \<Rightarrow> bool" where
  "evidence_world w cx s \<longleftrightarrow> holds_files w (rs_files s) \<and> (\<forall>t. sha256_hex w t = cx_sha cx t) \<and> cx_output cx \<noteq> []
     \<and> (\<forall>x. resolved w (cx_output cx @ CHR ''/'' # x) = cx_output cx @ CHR ''/'' # x)
     \<and> file_text w (path_of (cx_client cx)) = Some (cx_client_text cx)"

lemma parents_of_round_file:
  assumes "out \<noteq> []" "CHR ''/'' \<notin> set l" "l \<noteq> []" "CHR ''/'' \<notin> set n" "n \<noteq> []"
  shows "out \<in> set (path_parents (out @ ''/rounds/'' @ l @ CHR ''/'' # n))"
proof -
  have "hd l \<noteq> CHR ''/''" "hd n \<noteq> CHR ''/''" using assms by (metis list.set_sel(1))+
  then have s: "out @ ''/rounds/'' @ l @ CHR ''/'' # n = slash (slash (slash out ''rounds'') l) n"
    using assms by (simp add: slash_append)
  have ne: "slash out ''rounds'' \<noteq> []" "slash (slash out ''rounds'') l \<noteq> []" using assms \<open>hd l \<noteq> CHR ''/''\<close> by (simp_all add: slash_append)
  show ?thesis unfolding s
    using slash_parts(3) [OF ne(2) assms(5,4)] slash_parts(3) [OF ne(1) assms(3,2)] slash_parts(3) [OF assms(1), of "''rounds''"] by simp
qed

section \<open>The manifest of a complete run\<close>

lemma jint_same [simp]: "jeq (jint n) (jint n)" "neq (I n) (I n)"
  by (simp_all add: neq_def feq_def)

lemma planned_items:
  "get (planned_json i) ''ordinal'' = Inr (jint (int (si_ordinal i)))" "get (planned_json i) ''configuration'' = Inr (JStr (rc_id (si_configuration i)))"
  "get (planned_json i) ''group'' = Inr (opt_json (\<lambda>n. jint (int n)) (si_group i))"
  "get (planned_json i) ''position'' = Inr (opt_json (\<lambda>n. jint (int n)) (si_position i))" "get (planned_json i) ''arm'' = Inr (JStr (si_arm i))"
  by (simp_all add: planned_json_def dict_get_def)

lemma schedule_cell:
  assumes "i \<in> set formal_schedule"
  shows "\<exists>g p. si_group i = Some g \<and> g < 6 \<and> si_position i = Some p \<and> p < 4 \<and> si_arm i \<in> set ARMS \<and> si_configuration i \<in> set RUNNER_CONFIGURATIONS"
proof -
  have "g < 6 \<and> p < 4 \<and> arm \<in> set ARMS \<and> c \<in> set RUNNER_CONFIGURATIONS" if "(c, g, p, arm) \<in> set formal_cells" for c g p arm
    using that by (auto simp: formal_cells_def ARM_ORDER_def ARMS_def P32_GROUPS_def)
  then show ?thesis using assms by (auto simp: formal_schedule_def dest!: enumerate_member)
qed

lemma planned_accepted: "mapE check_planned (map planned_json formal_schedule) = Inr (replicate 144 ())"
proof -
  have "check_planned (planned_json i) = Inr ()" if i: "i \<in> set formal_schedule" for i
  proof -
    obtain g p where c: "si_group i = Some g" "g < 6" "si_position i = Some p" "p < 4" "si_arm i \<in> set ARMS" "si_configuration i \<in> set RUNNER_CONFIGURATIONS"
      using schedule_cell [OF i] by blast
    have "\<exists>s \<in> set (map fst P32_CONFIGURATIONS). rc_id (si_configuration i) = s"
      using c(6) by (auto simp: RUNNER_CONFIGURATIONS_def P32_CONFIGURATIONS_def throughput_cell_def latency_cell_def)
    then have known: "in_strs (JStr (rc_id (si_configuration i))) (map fst P32_CONFIGURATIONS) = Inr True" by (simp add: in_strs_def require_def)
    have range: "in_range (jint (int g)) P32_GROUPS" "in_range (jint (int p)) (length ARM_ORDER)"
      using c(2,4) by (auto simp: in_range_def P32_GROUPS_def ARM_ORDER_def neq_def feq_def)
    show ?thesis using range c(5) by (simp add: check_planned_def planned_items known c(1,3) opt_json_def)
  qed
  then have "mapE check_planned (map planned_json formal_schedule) = Inr (map (\<lambda>_. ()) (map planned_json formal_schedule))" by (intro mapE_total) auto
  then show ?thesis by (simp add: schedule_lengths(5) map_replicate_const)
qed

lemma formal_ordinals: "map si_ordinal formal_schedule = [0 ..< 144]"
  using enumerate_ordinals [of "\<lambda>x. x" 0 formal_cells] schedule_lengths(1) by (simp add: formal_schedule_def comp_def case_prod_beta)

lemma manifest_items:
  "get (manifest_json cx mode s) ''protocol'' = Inr (JStr P32_PROTOCOL)" "get (manifest_json cx mode s) ''mode'' = Inr (JStr mode)"
  "get (manifest_json cx mode s) ''status'' = Inr (JStr (rs_status s))"
  "get_in (manifest_json cx mode s) ''progress'' ''measured_rounds'' = Inr (jint (int (rs_measured s)))"
  "get (manifest_json cx mode s) ''configurations'' = Inr (JList (map configuration_json RUNNER_CONFIGURATIONS))"
  "get_or (manifest_json cx mode s) ''client'' (JStr []) = Inr (JStr (cx_client cx))"
  "get (manifest_json cx mode s) ''source_sha256'' = Inr (JStr V3_SOURCE_SHA256)"
  "get (manifest_json cx mode s) ''planned_measured_order'' = Inr (JList (map planned_json formal_schedule))"
  "get_or (manifest_json cx mode s) ''records'' (JList []) = Inr (JList (rs_records s))"
  by (simp_all add: manifest_json_def matrix_description_def dict_get_def get_in_def)

lemma load_planned_manifest: "load_planned (manifest_json cx mode s) = Inr (map planned_json formal_schedule)"
proof -
  have "mapE (\<lambda>x. get x ''ordinal'') (map planned_json formal_schedule) = Inr (map (jint \<circ> int) (map si_ordinal formal_schedule))"
    unfolding mapE_Inr list_all2_map1 list_all2_map2 by (rule list.rel_refl_strong) (simp add: planned_items del: get_or.simps)
  moreover have "jeq (JList (map (jint \<circ> int) [0 ..< 144])) (JList (map jint [0 .. 143]))" by code_simp
  ultimately show ?thesis
    by (simp add: load_planned_def manifest_items require_list_def schedule_lengths formal_ordinals planned_accepted del: get_or.simps map_map list.map_comp)
qed

lemma configurations_accepted:
  "\<exists>by_id vs. configurations_by_id (JList (map configuration_json RUNNER_CONFIGURATIONS)) = Inr by_id \<and> mapE (check_configuration by_id) P32_CONFIGURATIONS = Inr vs"
proof -
  have "case configurations_by_id (JList (map configuration_json RUNNER_CONFIGURATIONS)) of Inl _ \<Rightarrow> False
    | Inr by_id \<Rightarrow> (case mapE (check_configuration by_id) P32_CONFIGURATIONS of Inl _ \<Rightarrow> False | Inr _ \<Rightarrow> True)" by code_simp
  then show ?thesis by (auto split: sum.splits)
qed

text \<open>The files of a complete run, in a world that holds them.\<close>

lemma complete_files:
  assumes "run_formal cx obs = (s, None)"
  shows "map_of (rs_files s) (cx_output cx @ ''/experiment.json'') = Some (Doc (manifest_json cx ''formal'' s))"
    "map_of (rs_files s) (cx_output cx @ ''/environment.json'') = Some (Doc (environment_json cx))"
    "r \<in> set formal_rounds \<Longrightarrow> map_of (round_texts_at cx obs r) p = Some c \<Longrightarrow> map_of (rs_files s) p = Some c"
    "rs_status s = ''complete''" "rs_measured s = 144" "rs_records s = map (round_json cx obs) formal_rounds" "\<forall>r \<in> set formal_rounds. round_ok obs r"
proof -
  have o: "run_outcome cx obs s None" using run_outcome_holds [OF assms] .
  then show ok: "\<forall>r \<in> set formal_rounds. round_ok obs r" by (simp add: run_outcome_def Let_def)
  note done' = rounds_done_all [OF ok]
  have "measured_count formal_rounds = 144" by (simp add: measured_count_def formal_rounds_def filter_map comp_def schedule_lengths)
  then show "map_of (rs_files s) (cx_output cx @ ''/experiment.json'') = Some (Doc (manifest_json cx ''formal'' s))"
    "rs_status s = ''complete''" "rs_measured s = 144" "rs_records s = map (round_json cx obs) formal_rounds"
    using o by (simp_all add: run_outcome_def Let_def done')
  obtain t where t: "play cx ''formal'' obs formal_rounds (make_manifest cx ''formal'') = (t, None)" "s = finish_run cx ''formal'' t"
    using assms unfolding run_formal_play then_run_def by (auto split: prod.splits option.splits)
  have "\<forall>r \<in> set formal_rounds. cx_output cx @ ''/environment.json'' \<notin> fst ` set (round_texts_at cx obs r)"
    using round_files_inner [of _ cx obs _ "''environment.json''"] no_slash(3) by fastforce
  then have "map_of (rs_files t) (cx_output cx @ ''/environment.json'') = Some (Doc (environment_json cx))"
    using play_untouched [OF t(1), of "cx_output cx @ ''/environment.json''"] start_files(3) by simp
  then show "map_of (rs_files s) (cx_output cx @ ''/environment.json'') = Some (Doc (environment_json cx))" by (simp add: t(2) finish_fields)
  assume r: "r \<in> set formal_rounds" "map_of (round_texts_at cx obs r) p = Some c"
  have "map_of (rs_files t) p = Some c" using play_written [OF t(1) subset_refl distinct_rounds _ r(2)] r(1) done' by simp
  moreover have "p \<in> fst ` set (round_texts_at cx obs r)" using r(2) by (metis map_of_eq_None_iff option.distinct(1))
  ultimately show "map_of (rs_files s) p = Some c"
    using round_files_inner [of p cx obs r "''experiment.json''"] no_slash(1) by (simp add: t(2) finish_fields)
qed

lemma manifest_accepted:
  assumes "run_formal cx obs = (s, None)" "evidence_world w cx s"
  shows "load_p32_manifest w (cx_output cx) = Inr (manifest_json cx ''formal'' s, cx_sha cx (cx_client_text cx), map planned_json formal_schedule)"
proof -
  note c = complete_files [OF assms(1)]
  obtain mt where mt: "file_text w (cx_output cx @ ''/experiment.json'') = Some mt" "json_loads w mt = Inr (manifest_json cx ''formal'' s)"
    using assms(2) c(1) unfolding evidence_world_def holds_files_def by blast
  obtain et where et: "file_text w (cx_output cx @ ''/environment.json'') = Some et" "json_loads w et = Inr (environment_json cx)"
    using assms(2) c(2) unfolding evidence_world_def holds_files_def by blast
  have client: "file_text w (path_of (cx_client cx)) = Some (cx_client_text cx)" "sha256_hex w (cx_client_text cx) = cx_sha cx (cx_client_text cx)"
    using assms(2) by (simp_all add: evidence_world_def)
  have env: "get (environment_json cx) ''client_sha256'' = Inr (JStr (cx_sha cx (cx_client_text cx)))" by (simp add: environment_json_def dict_get_def)
  obtain by_id vs where ids: "configurations_by_id (JList (map configuration_json RUNNER_CONFIGURATIONS)) = Inr by_id" "mapE (check_configuration by_id) P32_CONFIGURATIONS = Inr vs"
    using configurations_accepted by blast
  have ok: "audit True msg = Inr ()" for msg by (simp add: audit_def require_def)
  show ?thesis
    unfolding load_p32_manifest_def Let_def output_file is_file_def read_text_def file_sha_def
    by (simp add: mt et manifest_items c(4,5) ids client env load_planned_manifest ok del: get_or.simps)
qed

section \<open>The rounds of a complete run\<close>

lemma record_items:
  "get (round_json cx obs r) ''ordinal'' = Inr (jint (int (si_ordinal (snd r))))"
  "get (round_json cx obs r) ''configuration'' = Inr (JStr (rc_id (si_configuration (snd r))))"
  "getitem (round_json cx obs r) ''configuration'' = Inr (JStr (rc_id (si_configuration (snd r))))"
  "get (round_json cx obs r) ''group'' = Inr (opt_json (\<lambda>n. jint (int n)) (si_group (snd r)))"
  "get (round_json cx obs r) ''position'' = Inr (opt_json (\<lambda>n. jint (int n)) (si_position (snd r)))"
  "get (round_json cx obs r) ''arm'' = Inr (JStr (si_arm (snd r)))" "getitem (round_json cx obs r) ''arm'' = Inr (JStr (si_arm (snd r)))"
  "get (round_json cx obs r) ''phase'' = Inr (JStr (fst r))"
  "get (round_json cx obs r) ''status'' = Inr (JStr (if round_ok obs r then ''ok'' else ''failed''))"
  "get (round_json cx obs r) ''returncode'' = Inr (jint (returncode_of (ob_launch (observed obs r))))"
  "get (round_json cx obs r) ''client_sha256'' = Inr (JStr (cx_sha cx (cx_client_text cx)))"
  "get (round_json cx obs r) ''input_sha256'' = Inr (JStr V3_SOURCE_SHA256)"
  "get (round_json cx obs r) ''environment'' = Inr (record_environment (si_arm (snd r)))"
  "get (round_json cx obs r) ''stdout'' = Inr (JStr (slash (round_dir (fst r) (snd r)) ''stdout.txt''))"
  "get (round_json cx obs r) ''stdout_sha256'' = Inr (JStr (cx_sha cx (ob_stdout (observed obs r))))"
  "get (round_json cx obs r) ''stderr'' = Inr (JStr (slash (round_dir (fst r) (snd r)) ''stderr.txt''))"
  "get (round_json cx obs r) ''stderr_sha256'' = Inr (JStr (cx_sha cx (ob_stderr (observed obs r))))"
  "get (round_json cx obs r) ''cgroup_evidence'' = Inr (opt_json (\<lambda>_. JStr (slash (round_dir (fst r) (snd r)) ''cgroup.txt'')) (fst (extract_cgroup_evidence (ob_stdout (observed obs r)))))"
  "get (round_json cx obs r) ''cgroup_sha256'' = Inr (opt_json (\<lambda>t. JStr (cx_sha cx t)) (fst (extract_cgroup_evidence (ob_stdout (observed obs r)))))"
  "get (round_json cx obs r) ''record'' = Inr (JStr (slash (round_dir (fst r) (snd r)) ''round.json''))"
  "get (JObj (saved_fields cx obs r)) ''status'' = Inr (JStr (if round_ok obs r then ''ok'' else ''failed''))"
  "get (JObj (saved_fields cx obs r)) ''failure_reasons'' = Inr (JList (map JStr (failure_reasons (snd r) (observed obs r))))"
  by (simp_all add: round_json_def saved_fields_def round_record_def Let_def dict_get_def round_ok_def observed_def environment_of_def record_environment_def)

text \<open>Every file a clean round names is found below the output directory with the recorded digest.\<close>

lemma round_relative: "n \<noteq> [] \<Longrightarrow> hd n \<noteq> CHR ''/'' \<Longrightarrow>
  slash out (slash (round_dir ph i) n) = out @ ''/rounds/'' @ round_label ph i @ CHR ''/'' # n"
  by (simp add: slash_append round_dir_def)

lemma safe_round_file:
  assumes "evidence_world w cx s" "r \<in> set formal_rounds" "file_text w (cx_output cx @ ''/rounds/'' @ round_label (fst r) (snd r) @ CHR ''/'' # n) = Some t"
    "n \<noteq> []" "CHR ''/'' \<notin> set n"
  shows "safe_file w (cx_output cx) (JStr (slash (round_dir (fst r) (snd r)) n)) = Inr (cx_output cx @ ''/rounds/'' @ round_label (fst r) (snd r) @ CHR ''/'' # n)"
proof -
  have hd: "hd n \<noteq> CHR ''/''" using assms(4,5) by (metis list.set_sel(1))
  have res: "resolved w (cx_output cx @ ''/rounds/'' @ round_label (fst r) (snd r) @ CHR ''/'' # n) = cx_output cx @ ''/rounds/'' @ round_label (fst r) (snd r) @ CHR ''/'' # n"
    using assms(1) by (simp add: evidence_world_def)
  have par: "cx_output cx \<in> set (path_parents (cx_output cx @ ''/rounds/'' @ round_label (fst r) (snd r) @ CHR ''/'' # n))"
    using parents_of_round_file [of "cx_output cx" "round_label (fst r) (snd r)" n] label_facts(2,3) [OF assms(2)] assms(1,4,5) by (simp add: evidence_world_def)
  have ne: "slash (round_dir (fst r) (snd r)) n \<noteq> []" using assms(4) hd by (simp add: slash_append)
  show ?thesis
    using par ne unfolding safe_file_def is_str.simps str_of.simps Let_def round_relative [OF assms(4) hd] res is_file_def assms(3)
    by (simp add: audit_def require_def)
qed

definition round_file :: "runner_context \<Rightarrow> string \<times> schedule_item \<Rightarrow> string \<Rightarrow> string" where
  "round_file cx r n = cx_output cx @ ''/rounds/'' @ round_label (fst r) (snd r) @ CHR ''/'' # n"

lemma round_texts_at_lookup:
  "map_of (round_texts_at cx obs r) (round_file cx r ''stdout.txt'') = Some (Text (ob_stdout (observed obs r)))"
  "map_of (round_texts_at cx obs r) (round_file cx r ''stderr.txt'') = Some (Text (ob_stderr (observed obs r)))"
  "map_of (round_texts_at cx obs r) (round_file cx r ''round.json'') = Some (Doc (JObj (saved_fields cx obs r)))"
  "fst (extract_cgroup_evidence (ob_stdout (observed obs r))) = Some t \<Longrightarrow> map_of (round_texts_at cx obs r) (round_file cx r ''cgroup.txt'') = Some (Text t)"
  by (auto simp: round_texts_at_def round_texts_def output_file round_path_eq round_file_def split: option.splits)

text \<open>What is left to the auditor once identity, artifacts and counts are settled.\<close>

definition measurement_verdict :: "runner_context \<Rightarrow> (nat \<Rightarrow> observation) \<Rightarrow> string \<times> schedule_item \<Rightarrow> probe_metrics \<Rightarrow> string \<Rightarrow> p32_row py" where
  "measurement_verdict cx obs r m evidence =
     bindE (check_metrics m) (\<lambda>_. bindE (validate_cgroup evidence) (\<lambda>cgroup.
     bindE (audit (pm_samples m = (if rc_kind (si_configuration (snd r)) = ''latency'' then rc_messages (si_configuration (snd r)) div 16 else 0))
       ''counts differ from plan'') (\<lambda>_.
     Inr \<lparr>row_record = round_json cx obs r, row_metrics = m, row_cgroup = cgroup, row_stdout = round_file cx r ''stdout.txt''\<rparr>)))"

lemma artifact_accepted:
  assumes "run_formal cx obs = (s, None)" "evidence_world w cx s" "r \<in> set formal_rounds"
    "map_of (round_texts_at cx obs r) (round_file cx r n) = Some (Text t)" "n \<noteq> []" "CHR ''/'' \<notin> set n"
    "get (round_json cx obs r) key = Inr (JStr (slash (round_dir (fst r) (snd r)) n))" "get (round_json cx obs r) hash_key = Inr (JStr (cx_sha cx t))"
  shows "check_artifact w (cx_output cx) (round_json cx obs r) key hash_key = Inr (round_file cx r n)" "file_text w (round_file cx r n) = Some t"
proof -
  have "map_of (rs_files s) (round_file cx r n) = Some (Text t)" using complete_files(3) [OF assms(1,3,4)] .
  then show t: "file_text w (round_file cx r n) = Some t" using assms(2) unfolding evidence_world_def holds_files_def by blast
  have safe: "safe_file w (cx_output cx) (JStr (slash (round_dir (fst r) (snd r)) n)) = Inr (round_file cx r n)"
    using safe_round_file [OF assms(2,3) _ assms(5,6)] t unfolding round_file_def by blast
  have sha: "file_sha w (round_file cx r n) = Inr (cx_sha cx t)" using t assms(2) by (simp add: file_sha_def read_text_def evidence_world_def)
  show "check_artifact w (cx_output cx) (round_json cx obs r) key hash_key = Inr (round_file cx r n)"
    unfolding check_artifact_def assms(7,8) bindE.simps safe sha by (simp add: audit_def require_def)
qed

lemma position_accepted:
  assumes "i < 144"
  shows "check_position i (round_json cx obs (''measured'', measured_items ! i)) (planned_json (formal_schedule ! i)) = Inr ()"
proof -
  have len: "i < length formal_schedule" using assms schedule_lengths by simp
  have ord: "si_ordinal (formal_schedule ! i) = i" using formal_ordinals len assms by (metis add_0 nth_map nth_upt)
  have item: "measured_items ! i = (formal_schedule ! i)\<lparr>si_ordinal := 14 + i\<rparr>"
    using len ord schedule_lengths(2,3) by (simp add: measured_items_def)
  obtain g p where c: "si_group (formal_schedule ! i) = Some g" "si_position (formal_schedule ! i) = Some p" using schedule_cell [of "formal_schedule ! i"] len by auto
  have ok: "audit True msg = Inr ()" for msg by (simp add: audit_def require_def)
  show ?thesis
    by (simp add: check_position_def record_items planned_items item c opt_json_def ord nadd_def lift_num_def ok del: get_or.simps)
qed

lemma run_accepted:
  assumes "round_ok obs r"
  shows "check_run (round_json cx obs r) (cx_sha cx (cx_client_text cx)) = Inr (si_arm (snd r))"
proof -
  have "returncode_of (ob_launch (observed obs r)) = 0" using assms by (simp add: round_ok_def failure_reasons_def split: if_splits)
  moreover have ok: "audit True msg = Inr ()" for msg by (simp add: audit_def require_def)
  moreover have "jeq (record_environment arm) (record_environment arm)" for arm by (simp add: record_environment_def)
  ultimately show ?thesis using assms by (simp add: check_run_def record_items del: get_or.simps getitem.simps)
qed

lemma clean_accepted:
  assumes "run_formal cx obs = (s, None)" "evidence_world w cx s" "r \<in> set formal_rounds" "round_ok obs r"
  shows "check_clean w (cx_output cx) (round_json cx obs r) = Inr ()"
proof -
  have "map_of (rs_files s) (round_file cx r ''round.json'') = Some (Doc (JObj (saved_fields cx obs r)))"
    using complete_files(3) [OF assms(1,3) round_texts_at_lookup(3)] .
  then obtain t where t: "file_text w (round_file cx r ''round.json'') = Some t" "json_loads w t = Inr (JObj (saved_fields cx obs r))"
    using assms(2) unfolding evidence_world_def holds_files_def by blast
  have safe: "safe_file w (cx_output cx) (JStr (slash (round_dir (fst r) (snd r)) ''round.json'')) = Inr (round_file cx r ''round.json'')"
    using safe_round_file [OF assms(2,3), of "''round.json''" t] t(1) unfolding round_file_def by simp
  have none: "failure_reasons (snd r) (observed obs r) = []" using assms(4) by (simp add: round_ok_def)
  show ?thesis
    using assms(4) none by (simp add: check_clean_def record_items safe read_text_def t audit_def require_def del: get_or.simps)
qed

lemma configuration_of_plan:
  assumes "c \<in> set RUNNER_CONFIGURATIONS"
  shows "\<exists>pc. map_of P32_CONFIGURATIONS (rc_id c) = Some pc \<and> pc_producers pc = rc_producers c \<and> pc_consumers pc = rc_consumers c
    \<and> pc_messages pc = rc_messages c \<and> pc_kind pc = rc_kind c"
  using assms by (auto simp: RUNNER_CONFIGURATIONS_def P32_CONFIGURATIONS_def throughput_cell_def latency_cell_def throughput_configuration_def
    latency_configuration_def)

lemma audit_is_measurement:
  assumes "run_formal cx obs = (s, None)" "evidence_world w cx s" "i < 144"
  defines "r \<equiv> (''measured'', measured_items ! i)"
  shows "\<exists>m evidence. fst (parse_probe_output (ob_stdout (observed obs r)) (si_configuration (snd r)) (si_arm (snd r))) = Some m
    \<and> fst (extract_cgroup_evidence (ob_stdout (observed obs r))) = Some evidence
    \<and> audit_round w (cx_output cx) (cx_sha cx (cx_client_text cx)) (i, round_json cx obs r, planned_json (formal_schedule ! i))
        = measurement_verdict cx obs r m evidence"
proof -
  have r: "r \<in> set formal_rounds" using assms(3) schedule_lengths(4) by (simp add: r_def formal_rounds_def)
  have cell: "si_configuration (snd r) \<in> set RUNNER_CONFIGURATIONS"
    using schedule_cell [of "formal_schedule ! i"] assms(3) schedule_lengths by (auto simp: r_def measured_items_def)
  have ok: "round_ok obs r" using complete_files(7) [OF assms(1)] r by blast
  then have reasons: "snd (extract_cgroup_evidence (ob_stdout (observed obs r))) = []"
    "snd (parse_probe_output (ob_stdout (observed obs r)) (si_configuration (snd r)) (si_arm (snd r))) = []"
    by (simp_all add: round_ok_def failure_reasons_def)
  obtain ev where ev: "fst (extract_cgroup_evidence (ob_stdout (observed obs r))) = Some ev" using clean_evidence [OF reasons(1)] by blast
  obtain m state where m: "fst (parse_probe_output (ob_stdout (observed obs r)) (si_configuration (snd r)) (si_arm (snd r))) = Some m"
    "parse_probe (ob_stdout (observed obs r)) (si_arm (snd r)) = bindE (check_metrics m) (\<lambda>_. Inr (m, state))"
    "pm_published m = rc_producers (si_configuration (snd r)) * rc_messages (si_configuration (snd r))"
    "pm_delivered m = rc_producers (si_configuration (snd r)) * rc_messages (si_configuration (snd r)) * rc_consumers (si_configuration (snd r))"
    using clean_probe [OF reasons(2)] by blast
  note art = artifact_accepted [OF assms(1,2) r]
  have out: "check_artifact w (cx_output cx) (round_json cx obs r) ''stdout'' ''stdout_sha256'' = Inr (round_file cx r ''stdout.txt'')"
    "read_text w (round_file cx r ''stdout.txt'') = Inr (ob_stdout (observed obs r))"
    using art [OF round_texts_at_lookup(1) _ _ record_items(14,15)] by (simp_all add: read_text_def)
  have err: "check_artifact w (cx_output cx) (round_json cx obs r) ''stderr'' ''stderr_sha256'' = Inr (round_file cx r ''stderr.txt'')"
    using art(1) [OF round_texts_at_lookup(2) _ _ record_items(16,17)] by simp
  have evk: "get (round_json cx obs r) ''cgroup_evidence'' = Inr (JStr (slash (round_dir (fst r) (snd r)) ''cgroup.txt''))"
    "get (round_json cx obs r) ''cgroup_sha256'' = Inr (JStr (cx_sha cx ev))" using record_items(18,19) [of cx obs r] ev by (simp_all add: opt_json_def)
  have cg: "check_artifact w (cx_output cx) (round_json cx obs r) ''cgroup_evidence'' ''cgroup_sha256'' = Inr (round_file cx r ''cgroup.txt'')"
    "read_text w (round_file cx r ''cgroup.txt'') = Inr ev"
    using art [OF round_texts_at_lookup(4) [OF ev] _ _ evk] by (simp_all add: read_text_def)
  obtain pc where pc: "map_of P32_CONFIGURATIONS (rc_id (si_configuration (snd r))) = Some pc" "pc_producers pc = rc_producers (si_configuration (snd r))"
    "pc_consumers pc = rc_consumers (si_configuration (snd r))" "pc_messages pc = rc_messages (si_configuration (snd r))" "pc_kind pc = rc_kind (si_configuration (snd r))"
    using configuration_of_plan [OF cell] by blast
  have counts: "planned_counts pc m \<longleftrightarrow> pm_samples m = (if rc_kind (si_configuration (snd r)) = ''latency'' then rc_messages (si_configuration (snd r)) div 16 else 0)"
    using m(3,4) by (simp add: planned_counts_def pc)
  have "audit_round w (cx_output cx) (cx_sha cx (cx_client_text cx)) (i, round_json cx obs r, planned_json (formal_schedule ! i))
      = measurement_verdict cx obs r m ev"
    unfolding audit_round_def prod.case position_accepted [OF assms(3), folded r_def] run_accepted [OF ok] bindE.simps out err cg
      record_items(3) as_str.simps m(2) clean_accepted [OF assms(1,2) r ok] pc(1) option.case measurement_verdict_def
    by (cases "check_metrics m"; cases "validate_cgroup ev") (simp_all add: counts)
  then show ?thesis using m(1) ev by blast
qed

section \<open>The evidence of a complete run\<close>

definition round_verdict :: "runner_context \<Rightarrow> (nat \<Rightarrow> observation) \<Rightarrow> schedule_item \<Rightarrow> p32_row py" where
  "round_verdict cx obs i = (let st = ob_stdout (observed obs (''measured'', i)) in
     case fst (parse_probe_output st (si_configuration i) (si_arm i)) of
       None \<Rightarrow> Inl (AnalysisError ''no metrics'')
     | Some m \<Rightarrow> (case fst (extract_cgroup_evidence st) of
         None \<Rightarrow> Inl (AnalysisError ''no evidence'')
       | Some evidence \<Rightarrow> measurement_verdict cx obs (''measured'', i) m evidence))"

lemma mapE_reindex: "(\<And>i. i \<in> set is \<Longrightarrow> f (g i) = f' (g' i)) \<Longrightarrow> mapE f (map g is) = mapE f' (map g' is)"
  by (induction "is") auto

lemma zip_three:
  assumes "length xs = n" "length ys = n"
  shows "zip [0 ..< n] (zip xs ys) = map (\<lambda>i. (i, xs ! i, ys ! i)) [0 ..< n]"
  using assms by (intro nth_equalityI) auto

lemma rounds_audited:
  assumes "run_formal cx obs = (s, None)" "evidence_world w cx s"
  shows "mapE (audit_round w (cx_output cx) (cx_sha cx (cx_client_text cx)))
      (zip [0 ..< 144] (zip (map (\<lambda>i. round_json cx obs (''measured'', i)) measured_items) (map planned_json formal_schedule)))
    = mapE (round_verdict cx obs) measured_items" (is "mapE ?audit ?triples = _")
proof -
  have items: "map (\<lambda>i. measured_items ! i) [0 ..< 144] = measured_items" by (metis map_nth schedule_lengths(4))
  have verdict: "?audit (i, round_json cx obs (''measured'', measured_items ! i), planned_json (formal_schedule ! i))
      = round_verdict cx obs (measured_items ! i)" if "i \<in> set [0 ..< 144]" for i
    using audit_is_measurement [OF assms, of i] that by (auto simp: round_verdict_def Let_def)
  have triples: "?triples = map (\<lambda>i. (i, round_json cx obs (''measured'', measured_items ! i), planned_json (formal_schedule ! i))) [0 ..< 144]"
    by (subst zip_three) (simp_all add: schedule_lengths)
  have "mapE ?audit ?triples = mapE ?audit (map (\<lambda>i. (i, round_json cx obs (''measured'', measured_items ! i), planned_json (formal_schedule ! i))) [0 ..< 144])"
    by (rule arg_cong [OF triples])
  also have "\<dots> = mapE (round_verdict cx obs) (map (\<lambda>i. measured_items ! i) [0 ..< 144])" by (rule mapE_reindex) (rule verdict)
  also have "\<dots> = mapE (round_verdict cx obs) measured_items" by (rule arg_cong [OF items])
  finally show ?thesis .
qed

lemma phases_of_run:
  fixes cx :: runner_context
  assumes "\<forall>r \<in> set formal_rounds. round_ok obs r"
  defines "records \<equiv> map (round_json cx obs) formal_rounds"
  shows "filterE (phase_is ''measured'') records = Inr (map (\<lambda>i. round_json cx obs (''measured'', i)) measured_items)"
    "someE failed_preparation records = Inr False" "position_of ''measured'' records = Inr 14"
proof -
  have phase: "phase_is ''measured'' (round_json cx obs r) = Inr (fst r = ''measured'')" for r by (simp add: phase_is_def record_items)
  have good: "failed_preparation (round_json cx obs r) = Inr False" if "r \<in> set formal_rounds" for r
    using assms(1) that by (simp add: failed_preparation_def record_items)
  have split: "filterE (phase_is ''measured'') (map (round_json cx obs) rs) = Inr (map (round_json cx obs) (filter (\<lambda>r. fst r = ''measured'') rs))" for rs
    by (induction rs) (simp_all add: phase)
  show "filterE (phase_is ''measured'') records = Inr (map (\<lambda>i. round_json cx obs (''measured'', i)) measured_items)"
    unfolding records_def split by (simp add: formal_rounds_def filter_map comp_def)
  show "someE failed_preparation records = Inr False" using good by (auto simp: records_def someE_False)
  have phases: "mapE (phase_is ''measured'') (map (round_json cx obs) rs) = Inr (map (\<lambda>r. fst r = ''measured'') rs)" for rs
    by (induction rs) (simp_all add: phase)
  obtain m ms where ms: "measured_items = m # ms" using schedule_lengths(4) by (cases measured_items) auto
  have "takeWhile Not (map (\<lambda>r. fst r = ''measured'') formal_rounds) = replicate 14 False"
    by (simp add: formal_rounds_def comp_def takeWhile_append ms map_replicate_const schedule_lengths flip: replicate_add)
  then show "position_of ''measured'' records = Inr 14" unfolding position_of_def records_def phases by simp
qed

lemma complete_rows:
  assumes "run_formal cx obs = (s, None)" "evidence_world w cx s"
  shows "load_rows w (cx_output cx) (manifest_json cx ''formal'' s) (cx_sha cx (cx_client_text cx)) (map planned_json formal_schedule)
    = mapE (round_verdict cx obs) measured_items"
proof -
  note c = complete_files [OF assms(1)]
  note p = phases_of_run [OF c(7), of cx]
  have records: "get_or (manifest_json cx ''formal'' s) ''records'' (JList []) = Inr (JList (map (round_json cx obs) formal_rounds))"
    by (simp add: manifest_json_def matrix_description_def dict_get_def c(6))
  have ok: "audit True msg = Inr ()" for msg by (simp add: audit_def require_def)
  show ?thesis
    unfolding load_rows_def records bindE.simps as_list.simps p rounds_audited [OF assms]
    by (simp only: length_map schedule_lengths ok bindE.simps simp_thms not_False_eq_True)
qed

text \<open>The effective CPUs are not among the files the runner collects, so its check of them never looks at any.\<close>

lemma cpus_never_checked: "cpus_reasons (evidence_values evidence) = []"
proof -
  have "fst ` set (evidence_values evidence) \<subseteq> set evidence_files" by (auto simp: evidence_values_def split: option.splits)
  moreover have "''cpuset.cpus.effective'' \<notin> set evidence_files" by (simp add: evidence_files_def)
  ultimately have "map_of (evidence_values evidence) ''cpuset.cpus.effective'' = None" by (auto simp: map_of_eq_None_iff)
  then show ?thesis by (simp add: cpus_reasons_def)
qed

section \<open>A concrete run\<close>

text \<open>Every round of a kind and arm prints the same log; the digest of a text is the text.\<close>

definition evidence_lines :: "string list" where
  "evidence_lines = [''CGROUP_EVIDENCE_BEGIN version=1'', ''[CGROUP_FILE cpu.stat]'', ''1'',
     ''[CGROUP_FILE cpu.pressure]'', ''0'', ''[CGROUP_FILE memory.events]'', ''high 0'', ''max 0'', ''oom 0'', ''oom_kill 0'', ''oom_group_kill 0'',
     ''[CGROUP_FILE memory.peak]'', ''1'', ''[CGROUP_FILE memory.high]'', ''671088640'', ''[CGROUP_FILE memory.max]'', ''738197504'',
     ''[CGROUP_FILE memory.swap.max]'', ''0'', ''[CGROUP_FILE memory.swap.current]'', ''0'', ''[CGROUP_FILE memory.pressure]'', ''0'',
     ''CGROUP_EVIDENCE_END'']"

definition run_evidence :: string where
  "run_evidence = concat (map (\<lambda>l. l @ [nl]) evidence_lines)"

definition probe_lines :: "string \<Rightarrow> string \<Rightarrow> string list" where
  "probe_lines kind arm =
     [''PROBE identity=p3-p32-publisher-thread-probe-v1 source_sha256='' @ V3_SOURCE_SHA256 @ '' barrier=A publisher_mode='' @ lower arm,
      ''THREAD_STATE role=publisher mode='' @ lower arm @ '' expected_threads='' @ expected_threads arm
        @ '' actual_threads='' @ expected_threads arm @ '' before_publish=1'',
      ''RESULT seconds=1 publish_msg_per_sec=1000000 delivery_msg_per_sec=1 '' @ (if kind = ''latency''
          then ''published=2000000 delivered=2000000 latency_samples=125000''
          else if kind = ''throughput'' then ''published=50000000 delivered=100000000 latency_samples=0''
          else ''published=10000 delivered=10000 latency_samples=0'')
        @ '' latency_p50_ns=1 latency_p99_ns=2 latency_p999_ns=3 latency_max_ns=4'']"

definition run_log :: "string \<Rightarrow> string \<Rightarrow> string" where
  "run_log kind arm = concat (map (\<lambda>l. l @ [nl]) (probe_lines kind arm @ evidence_lines))"

definition log_kinds :: "string list" where
  "log_kinds = [''smoke'', ''throughput'', ''latency'']"

lemma each_log: "list_all (\<lambda>k. list_all (P k) ARMS) log_kinds \<Longrightarrow> k \<in> set log_kinds \<Longrightarrow> a \<in> set ARMS \<Longrightarrow> P k a"
  by (simp add: list_all_iff)

lemma lines_keep_line: "\<forall>c \<in> set l. \<not> is_eol c \<Longrightarrow> lines_keep w (l @ nl # s) = (rev w @ l @ [nl]) # lines_keep [] s"
proof (induction l arbitrary: w)
  case Nil
  have "is_eol nl" "nl \<noteq> CHR 0x0D" by code_simp+
  then show ?case by simp
next
  case (Cons c l)
  have "is_eol (CHR 0x0D)" by code_simp
  then show ?case using Cons by auto
qed

lemma lines_keep_lines: "\<forall>l \<in> set ls. \<forall>c \<in> set l. \<not> is_eol c \<Longrightarrow> lines_keep [] (concat (map (\<lambda>l. l @ [nl]) ls)) = map (\<lambda>l. l @ [nl]) ls"
  by (induction ls) (simp_all add: lines_keep_line)

lemma indices_append: "indices p (xs @ ys) = indices p xs @ map (\<lambda>i. length xs + i) (indices p ys)"
proof -
  have "enumerate (length xs) ys = map (\<lambda>(i, x). (length xs + i, x)) (enumerate 0 ys)"
    using map_add_upt [of "length xs" "length ys"] by (intro nth_equalityI) (auto simp: nth_enumerate_eq)
  then show ?thesis by (simp add: indices_def enumerate_append_eq filter_map comp_def case_prod_unfold)
qed

lemma indices_none: "\<forall>x \<in> set xs. \<not> p x \<Longrightarrow> indices p xs = []"
  by (auto simp: indices_def enumerate_eq_zip filter_empty_conv dest: set_zip_rightD)

lemma plain_lines:
  assumes "kind \<in> set log_kinds" "arm \<in> set ARMS"
  shows "\<forall>l \<in> set (probe_lines kind arm @ evidence_lines). \<forall>c \<in> set l. \<not> is_eol c"
proof -
  have "list_all (\<lambda>k. list_all (\<lambda>a. list_all (list_all (\<lambda>c. \<not> is_eol c)) (probe_lines k a)) ARMS) log_kinds"
    by code_simp
  from each_log [OF this assms] have "list_all (list_all (\<lambda>c. \<not> is_eol c)) (probe_lines kind arm)" .
  moreover have "list_all (list_all (\<lambda>c. \<not> is_eol c)) evidence_lines" by code_simp
  ultimately show ?thesis by (auto simp: list_all_iff)
qed

definition memory_events :: string where
  "memory_events = ''high 0'' @ [nl] @ ''max 0'' @ [nl] @ ''oom 0'' @ [nl] @ ''oom_kill 0'' @ [nl] @ ''oom_group_kill 0''"

definition run_values :: "(string \<times> string) list" where
  "run_values = zip evidence_files [''1'', ''0'', memory_events, ''1'', ''671088640'', ''738197504'', ''0'', ''0'', ''0'']"

lemma available_values: "map (available run_evidence) evidence_files = map (Some \<circ> snd) run_values"
  by code_simp

lemma run_names: "filter (\<lambda>n. \<not> contains (file_marker @ n @ '']'') run_evidence) evidence_files = []"
  by code_simp

lemma run_valid: "validate_cgroup_evidence run_evidence = []"
proof -
  have "available run_evidence n = Some (the (map_of run_values n))" if "n \<in> set evidence_files" for n
    using that available_values by (auto simp: evidence_files_def run_values_def)
  then have all: "concat (map (\<lambda>n. if available run_evidence n = None then [''cgroup evidence unavailable for '' @ n] else []) evidence_files) = []" by auto
  have vals: "evidence_values run_evidence = run_values"
    using available_values by (simp add: evidence_values_def evidence_files_def run_values_def)
  have "limit_reasons run_values @ (case mapE split_once (splitlines (str_at run_values ''memory.events'')) of
      Inl _ \<Rightarrow> [malformed_cgroup]
    | Inr kvs \<Rightarrow> (case event_reasons (dict_of kvs) pressure_events of (rs, ok) \<Rightarrow> rs @ (if ok then cpus_reasons run_values else []))) = []"
    by code_simp
  then show ?thesis unfolding validate_cgroup_evidence_def Let_def all vals by simp
qed

lemma log_evidence:
  assumes "kind \<in> set log_kinds" "arm \<in> set ARMS"
  shows "extract_cgroup_evidence (run_log kind arm) = (Some run_evidence, [])"
proof -
  have lines: "lines_keep [] (run_log kind arm) = map (\<lambda>l. l @ [nl]) (probe_lines kind arm) @ map (\<lambda>l. l @ [nl]) evidence_lines"
    unfolding run_log_def lines_keep_lines [OF plain_lines [OF assms]] by simp
  have "list_all (\<lambda>k. list_all (\<lambda>a. list_all (\<lambda>l. \<not> starts_with (l @ [nl]) ''CGROUP_EVIDENCE_BEGIN '' \<and> strip (l @ [nl]) \<noteq> ''CGROUP_EVIDENCE_END'')
      (probe_lines k a)) ARMS) log_kinds" by code_simp
  from each_log [OF this assms]
  have none: "list_all (\<lambda>l. \<not> starts_with (l @ [nl]) ''CGROUP_EVIDENCE_BEGIN '' \<and> strip (l @ [nl]) \<noteq> ''CGROUP_EVIDENCE_END'') (probe_lines kind arm)" .
  have probe: "indices (\<lambda>l. starts_with l ''CGROUP_EVIDENCE_BEGIN '') (map (\<lambda>l. l @ [nl]) (probe_lines kind arm)) = []"
    "indices (\<lambda>l. strip l = ''CGROUP_EVIDENCE_END'') (map (\<lambda>l. l @ [nl]) (probe_lines kind arm)) = []" 
    using none by (intro indices_none, simp add: list_all_iff)+
  have block: "indices (\<lambda>l. starts_with l ''CGROUP_EVIDENCE_BEGIN '') (map (\<lambda>l. l @ [nl]) evidence_lines) = [0]"
    "indices (\<lambda>l. strip l = ''CGROUP_EVIDENCE_END'') (map (\<lambda>l. l @ [nl]) evidence_lines) = [23]" by code_simp+
  have len: "length (probe_lines kind arm) = 3" "length evidence_lines = 24" by (simp_all add: probe_lines_def evidence_lines_def)
  show ?thesis
    by (simp add: extract_cgroup_evidence_def Let_def lines indices_append probe block len run_names run_valid flip: run_evidence_def)
qed


definition representative :: "string \<Rightarrow> runner_configuration" where
  "representative kind = (if kind = ''smoke'' then smoke_configuration else if kind = ''throughput'' then throughput_cell [] 0 else latency_cell [] 0 [])"

lemma result_reasons_cong:
  "rc_producers c = rc_producers d \<Longrightarrow> rc_consumers c = rc_consumers d \<Longrightarrow> rc_messages c = rc_messages d \<Longrightarrow> result_reasons c rs = result_reasons d rs"
  by (auto simp: result_reasons_def split: list.splits sum.splits)

lemma representative_counts:
  assumes "c \<in> set (smoke_configuration # RUNNER_CONFIGURATIONS)"
  shows "rc_kind c \<in> set log_kinds" "result_reasons c rs = result_reasons (representative (rc_kind c)) rs"
proof -
  show "rc_kind c \<in> set log_kinds"
    using assms by (auto simp: log_kinds_def RUNNER_CONFIGURATIONS_def smoke_configuration_def throughput_cell_def latency_cell_def)
  show "result_reasons c rs = result_reasons (representative (rc_kind c)) rs"
    using assms by (intro result_reasons_cong) (auto simp: RUNNER_CONFIGURATIONS_def smoke_configuration_def throughput_cell_def latency_cell_def representative_def)
qed

lemma log_probe:
  assumes "c \<in> set (smoke_configuration # RUNNER_CONFIGURATIONS)" "arm \<in> set ARMS"
  shows "snd (parse_probe_output (run_log (rc_kind c) arm) c arm) = []"
proof -
  let ?k = "rc_kind c"
  note k = representative_counts(1) [OF assms(1)]
  have lines: "splitlines (run_log ?k arm) = probe_lines ?k arm @ evidence_lines"
    unfolding run_log_def by (rule splitlines_concat [OF plain_lines [OF k assms(2)]])
  have evidence: "filter (\<lambda>l. starts_with l ''PROBE '') evidence_lines = []" "filter (\<lambda>l. starts_with l ''THREAD_STATE '') evidence_lines = []"
    "filter (\<lambda>l. starts_with l ''RESULT '') evidence_lines = []" by (simp_all add: evidence_lines_def)
  have found: "runner_lines (probe_lines ?k arm @ evidence_lines) p = runner_lines (probe_lines ?k arm) p"
    if "p \<in> {''PROBE '', ''THREAD_STATE '', ''RESULT ''}" for p
  proof -
    have "filter (\<lambda>l. starts_with l p) (probe_lines ?k arm @ evidence_lines) = filter (\<lambda>l. starts_with l p) (probe_lines ?k arm)"
      using that evidence by auto
    then show ?thesis by (simp only: runner_lines_def)
  qed
  have "list_all (\<lambda>k. list_all (\<lambda>a. let ls = probe_lines k a in
      (case (runner_lines ls ''PROBE '', runner_lines ls ''THREAD_STATE '', runner_lines ls ''RESULT '') of
       ((probes, a'), (states, b), (results, d)) \<Rightarrow> a' = [] \<and> b = [] \<and> d = [] \<and> probe_reasons a probes = [] \<and> thread_reasons a states = []
         \<and> snd (result_reasons (representative k) results) = [])) ARMS) log_kinds"
    by code_simp
  from each_log [OF this k assms(2)] show ?thesis
    by (auto simp: parse_probe_output_def lines found representative_counts(2) [OF assms(1)] Let_def split: prod.splits)
qed


definition demo_observation :: "nat \<Rightarrow> observation" where
  "demo_observation n = (let itm = snd (formal_rounds ! n) in \<lparr>ob_launch = Completed 0,
     ob_stdout = run_log (rc_kind (si_configuration itm)) (si_arm itm), ob_stderr = [], ob_started = ''s'', ob_finished = ''f'', ob_wall = I 1\<rparr>)"

definition demo_context :: runner_context where
  "demo_context = \<lparr>cx_root = ''/r'', cx_output = ''/o'', cx_client = ''/c'', cx_pid = 1, cx_sha = (\<lambda>t. t), cx_client_text = ''client'', cx_host = [],
     cx_started = ''s'', cx_finished = ''f''\<rparr>"

lemma scheduled_round: "r \<in> set formal_rounds \<Longrightarrow> formal_rounds ! si_ordinal (snd r) = r"
proof -
  assume "r \<in> set formal_rounds"
  then obtain i where i: "i < length formal_rounds" "formal_rounds ! i = r" by (auto simp: in_set_conv_nth)
  have "length formal_rounds = 158" using arg_cong [OF schedule_ordinals, of length] by simp
  then have "(si_ordinal \<circ> snd) r = i" using i nth_map [of i formal_rounds "si_ordinal \<circ> snd"] unfolding schedule_ordinals by simp
  then show ?thesis using i by simp
qed

lemma demo_rounds_ok: "r \<in> set formal_rounds \<Longrightarrow> round_ok demo_observation r"
proof -
  assume r: "r \<in> set formal_rounds"
  have m: "si_configuration (snd r) \<in> set (smoke_configuration # RUNNER_CONFIGURATIONS)" "si_arm (snd r) \<in> set ARMS"
    using schedule_member(1,3) [OF r] by (simp_all add: ARMS_def)
  show ?thesis
    using log_probe [OF m] log_evidence [OF representative_counts(1) [OF m(1)] m(2)] scheduled_round [OF r]
    by (simp add: round_ok_def failure_reasons_def observed_def demo_observation_def Let_def launch_reasons_def returncode_of_def)
qed

text \<open>The world the run leaves: a document is written as the path of its file.\<close>

definition run_world :: "file_store \<Rightarrow> world" where
  "run_world fs = \<lparr>file_text = (\<lambda>p. case map_of fs p of Some (Text t) \<Rightarrow> Some t | Some (Doc _) \<Rightarrow> Some p | None \<Rightarrow> if p = ''/c'' then Some ''client'' else None),
     sha256_hex = (\<lambda>t. t), json_loads = (\<lambda>t. case map_of fs t of Some (Doc j) \<Rightarrow> Inr j | _ \<Rightarrow> Inl (ValueError ''Expecting value'')),
     globbed = (\<lambda>_ _. []), resolved = (\<lambda>p. p)\<rparr>"

definition demo_run :: run_state where
  "demo_run = fst (run_formal demo_context demo_observation)"

lemma demo_run_complete: "run_formal demo_context demo_observation = (demo_run, None)"
proof -
  have "run_outcome demo_context demo_observation demo_run (snd (run_formal demo_context demo_observation))"
    by (rule run_outcome_holds) (simp add: demo_run_def)
  then have "snd (run_formal demo_context demo_observation) = None" using demo_rounds_ok by (simp add: run_outcome_def Let_def)
  then show ?thesis by (simp add: demo_run_def prod_eq_iff)
qed

lemma demo_client_kept: "map_of (rs_files demo_run) ''/c'' = None"
proof -
  obtain t where t: "play demo_context ''formal'' demo_observation formal_rounds (make_manifest demo_context ''formal'') = (t, None)"
    "demo_run = finish_run demo_context ''formal'' t"
    using demo_run_complete by (auto simp: run_formal_play then_run_def split: prod.splits option.splits)
  have out: "cx_output demo_context = ''/o''" by (simp add: demo_context_def)
  have "''/c'' \<notin> fst ` set (round_texts_at demo_context demo_observation r)" for r
    using round_file_paths [of "''/c''" demo_context demo_observation r] by (auto simp: round_path_eq out)
  then have "map_of (rs_files t) ''/c'' = map_of (rs_files (make_manifest demo_context ''formal'')) ''/c''"
    using play_untouched [OF t(1), of "''/c''"] by (simp add: out)
  also have "\<dots> = None" by (simp add: make_manifest_def save_manifest_def Let_def output_file out)
  finally show ?thesis by (simp add: t(2) finish_fields(6) out)
qed

lemma demo_run_world: "evidence_world (run_world (rs_files demo_run)) demo_context demo_run"
proof -
  have "path_of ''/c'' = ''/c''" by code_simp
  then show ?thesis by (simp add: evidence_world_def holds_files_def run_world_def demo_context_def demo_client_kept)
qed



end
