(* ===== verification/ChannelAPI.thy ===== *)
theory ChannelAPI
  imports PyJson
begin

text \<open>
  \<open>tools/check_channel_api.py\<close>: the release check of the channel API.  The manifest of the public
  symbols is compared with the module, the umbrella header, the build files, the tests, the
  documents and the compiler's verdict on removed names; the freeze document pins the digest of
  every file of the public surface.  A text is a list of UTF-8 bytes; the few regular expressions of the program
  are written as matchers on it, with the Unicode classes of non-ASCII characters as parameters.
\<close>

section \<open>What the program is given\<close>

text \<open>
  Besides the files: the repository root, \<open>Path.exists\<close>, the Unicode classes of word characters and white space,
  the compiler (exit code and diagnostics of a source text, or None when it cannot be started), git, today's date
  and \<open>json.dumps\<close>.
\<close>

record api_env =
  ae_root :: string
  ae_exists :: "string \<Rightarrow> bool"
  ae_word :: "string \<Rightarrow> bool"
  ae_space :: "string \<Rightarrow> bool"
  ae_compile :: "string \<Rightarrow> (int \<times> string) option"
  ae_revision :: "int \<times> string \<times> string"
  ae_today :: string
  ae_dumps :: "json \<Rightarrow> string"

definition fail :: "string \<Rightarrow> 'a py" where
  "fail message = Inl (SystemExit message)"

definition check :: "bool \<Rightarrow> string \<Rightarrow> unit py" where
  "check b message = (if b then Inr () else fail message)"

lemma check_Inr [simp]: "check b message = Inr u \<longleftrightarrow> b"
  by (simp add: check_def fail_def)

lemma fail_Inr [simp]: "fail message = Inr y \<longleftrightarrow> False"
  by (simp add: fail_def)

definition at_root :: "api_env \<Rightarrow> string \<Rightarrow> string" where
  "at_root env relative = slash (ae_root env) relative"

definition MANIFEST :: string where "MANIFEST = ''doc/api/channel-api-manifest.json''"
definition FREEZE :: string where "FREEZE = ''doc/api/channel-api-freeze.json''"
definition README :: string where "README = ''README.md''"
definition API_DOC :: string where "API_DOC = ''doc/11-L7-api.md''"
definition MIGRATION :: string where "MIGRATION = ''doc/migration/channel-api-convergence.md''"
definition UMBRELLA :: string where "UMBRELLA = ''src/salias/include/salias/salias.hpp''"
definition MODULE_FILE :: string where "MODULE_FILE = ''src/salias.cppm''"
definition EXTRAS_MODULE :: string where "EXTRAS_MODULE = ''src/salias_extras.cppm''"
definition INSTALL_TEST :: string where "INSTALL_TEST = ''cmake/install_consumer_test.cmake''"
definition TEST_CMAKE :: string where "TEST_CMAKE = ''test/CMakeLists.txt''"
definition REMOVED_TEST :: string where "REMOVED_TEST = ''test/api/removed_api_contract_test.cpp''"
definition CORE_IMPORT_TEST :: string where "CORE_IMPORT_TEST = ''test/mcpp/core_import.cpp''"
definition MCPP_IMPORT_TEST :: string where "MCPP_IMPORT_TEST = ''test/mcpp/import.cpp''"
definition FREEZE_STATE :: string where "FREEZE_STATE = ''v6_extras_removed_released''"
definition REMOVAL_RELEASE_TAG :: string where "REMOVAL_RELEASE_TAG = ''v6.0.0''"
definition FREEZE_RELEASE_TAG :: string where "FREEZE_RELEASE_TAG = ''v6.2.0''"

definition ALIASES :: "string list" where
  "ALIASES = [''FifoMpscChannel'', ''FifoMpmcChannel'', ''OrderedMpscChannel'', ''OrderedMpmcChannel'']"

definition EXTRAS :: "string list" where
  "EXTRAS = [''LatestByKeyChannel'', ''LatestByKeyPublisher'', ''LatestByKeySubscriber'', ''LatestByKeyMessage'', ''PriorityPublisher'',
     ''PrioritySubscriber'', ''PriorityMessage'', ''PriorityWaitPolicy'', ''Ringbuffer'']"

definition REMOVED_PUBLIC_HEADERS :: "string list" where
  "REMOVED_PUBLIC_HEADERS = [''extras/extras.hpp'', ''extras/latest_by_key_channel.hpp'', ''extras/priority_channel.hpp'', ''extras/ringbuffer.hpp'',
     ''latest_by_key_channel.hpp'', ''priority_channel.hpp'', ''ringbuffer.hpp'']"

definition REMOVED_HEADERS :: "string list" where
  "REMOVED_HEADERS = REMOVED_PUBLIC_HEADERS @ [''detail/latest_by_key_storage.hpp'']"

definition CANONICAL_EXTRAS_NAMES :: "string list" where "CANONICAL_EXTRAS_NAMES = map (\<lambda>n. ''salias::extras::'' @ n) EXTRAS"
definition TOP_LEVEL_EXTRAS_NAMES :: "string list" where "TOP_LEVEL_EXTRAS_NAMES = map (\<lambda>n. ''salias::'' @ n) EXTRAS"
definition ALIAS_NAMES :: "string list" where "ALIAS_NAMES = map (\<lambda>n. ''salias::'' @ n) ALIASES"

definition REMOVED_ALIAS_NAMES :: "string list" where
  "REMOVED_ALIAS_NAMES = ALIAS_NAMES @ CANONICAL_EXTRAS_NAMES @ TOP_LEVEL_EXTRAS_NAMES"

text \<open>The template arguments with which a removed name is used in a type expression.\<close>

definition template_arguments :: "string \<Rightarrow> string" where
  "template_arguments n =
     (if n \<in> {''LatestByKeyChannel'', ''LatestByKeySubscriber''} then ''<std::uint64_t, std::uint64_t, 4>''
      else if n \<in> {''LatestByKeyPublisher'', ''LatestByKeyMessage''} then ''<std::uint64_t, std::uint64_t>''
      else if n \<in> {''PriorityPublisher'', ''PrioritySubscriber''} then ''<salias::Mode::FifoMpsc, salias::Mode::FifoMpsc>''
      else if n = ''Ringbuffer'' then ''<int, 4>'' else [])"

definition REMOVED_TYPE_EXPRESSIONS :: "(string \<times> string) list" where
  "REMOVED_TYPE_EXPRESSIONS = map (\<lambda>n. (n, n)) ALIAS_NAMES
     @ map (\<lambda>n. (''salias::extras::'' @ n, ''salias::extras::'' @ n @ template_arguments n)) EXTRAS
     @ map (\<lambda>n. (''salias::'' @ n, ''salias::'' @ n @ template_arguments n)) EXTRAS"

definition CODE_ROOTS :: "string list" where "CODE_ROOTS = [''test'', ''bench'', ''example'']"

definition STATUSES :: "string list" where "STATUSES = [''core'', ''compat'', ''extras'', ''removed'']"

definition EXPECTED_COUNTS :: "(string \<times> int) list" where
  "EXPECTED_COUNTS = [(''core'', 30), (''compat'', 0), (''extras'', 0), (''removed'', 23)]"

definition FREEZE_PACKAGING_FILES :: "string list" where
  "FREEZE_PACKAGING_FILES = [''CMakeLists.txt'', ''cmake/saliasConfig.cmake.in'', ''mcpp.toml'', ''src/core/CMakeLists.txt'', ''src/salias/CMakeLists.txt'']"

section \<open>Matchers\<close>

text \<open>The first code point of a text and the last one of a reversed prefix, as their bytes.\<close>

definition continuation :: "char \<Rightarrow> bool" where
  "continuation c \<longleftrightarrow> 128 \<le> (of_char c :: nat) \<and> (of_char c :: nat) < 192"

definition next_point :: "string \<Rightarrow> string" where
  "next_point s = (case s of [] \<Rightarrow> [] | c # r \<Rightarrow> c # takeWhile continuation r)"

definition prior_point :: "string \<Rightarrow> string" where
  "prior_point r = rev (takeWhile continuation r @ take 1 (dropWhile continuation r))"

definition word_point :: "api_env \<Rightarrow> string \<Rightarrow> bool" where
  "word_point env p \<longleftrightarrow> p \<noteq> [] \<and> (if (of_char (hd p) :: nat) < 128 then is_word (hd p) else ae_word env p)"

definition space_point :: "api_env \<Rightarrow> string \<Rightarrow> bool" where
  "space_point env p \<longleftrightarrow> p \<noteq> [] \<and> (if (of_char (hd p) :: nat) < 128 then is_space (hd p) else ae_space env p)"

text \<open>A word boundary between a reversed prefix and the rest, and the rest after white space.\<close>

definition boundary :: "api_env \<Rightarrow> string \<Rightarrow> string \<Rightarrow> bool" where
  "boundary env r s \<longleftrightarrow> word_point env (prior_point r) \<noteq> word_point env (next_point s)"

function skip_space :: "api_env \<Rightarrow> string \<Rightarrow> string" where
  "skip_space env s = (if space_point env (next_point s) then skip_space env (drop (length (next_point s)) s) else s)"
  by pat_completeness auto
termination
  by (relation "measure (\<lambda>(_, s). length s)") (auto simp: space_point_def next_point_def split: list.splits)

declare skip_space.simps [simp del]

text \<open>\<open>re.search\<close>: a matcher looks at the reversed prefix and the rest.\<close>

fun search :: "(string \<Rightarrow> string \<Rightarrow> bool) \<Rightarrow> string \<Rightarrow> string \<Rightarrow> bool" where
  "search m r [] = m r []"
| "search m r (c # s) = (m r (c # s) \<or> search m (c # r) s)"

definition bounded_word :: "api_env \<Rightarrow> string \<Rightarrow> string \<Rightarrow> string \<Rightarrow> bool" where
  "bounded_word env p r s \<longleftrightarrow> boundary env r s \<and> starts_with s p \<and> boundary env (rev p @ r) (drop (length p) s)"

definition bounded_pair :: "api_env \<Rightarrow> string \<Rightarrow> string \<Rightarrow> string \<Rightarrow> string \<Rightarrow> bool" where
  "bounded_pair env p q r s \<longleftrightarrow> boundary env r s \<and> starts_with s p
     \<and> (let after = skip_space env (drop (length p) s) in
          after \<noteq> drop (length p) s \<and> starts_with after q \<and> boundary env (rev q) (drop (length q) after))"

definition imports_extras :: "api_env \<Rightarrow> string \<Rightarrow> string \<Rightarrow> bool" where
  "imports_extras env = bounded_pair env ''import'' ''salias.extras''"

definition removed_use :: "api_env \<Rightarrow> string \<Rightarrow> string \<Rightarrow> bool" where
  "removed_use env r s \<longleftrightarrow> (\<exists>n \<in> set (ALIASES @ EXTRAS). bounded_word env (''salias::'' @ n) r s)"

definition removed_include :: "string \<Rightarrow> string \<Rightarrow> bool" where
  "removed_include r s \<longleftrightarrow> (\<exists>h \<in> set REMOVED_HEADERS. starts_with s (''<salias/'' @ h @ ''>''))"

definition direct_latest :: "string \<Rightarrow> string \<Rightarrow> bool" where
  "direct_latest r s \<longleftrightarrow> starts_with s ''Channel<''
     \<and> (let b = drop 8 s; m = (if starts_with b ''salias::'' then drop 8 b else b) in
          starts_with m ''Mode::LatestMpmc'' \<and> drop 16 m \<noteq> [] \<and> hd (drop 16 m) \<in> {CHR '','', CHR ''>''})"

definition require_absent :: "string \<Rightarrow> (string \<Rightarrow> string \<Rightarrow> bool) \<Rightarrow> string \<Rightarrow> unit py" where
  "require_absent t m label = check (\<not> search m [] t) label"

text \<open>\<open>re.findall\<close> for the exported names of the module and the included headers; two matches never overlap.\<close>

definition export_at :: "string \<Rightarrow> string list" where
  "export_at s = (if starts_with s ''using ::salias::'' then
     (let b = drop 16 s; n = takeWhile is_word b in
      if n \<noteq> [] \<and> \<not> is_digit (hd n) \<and> starts_with (drop (length n) b) '';'' then [n] else []) else [])"

fun exported_names :: "string \<Rightarrow> string list" where
  "exported_names [] = []"
| "exported_names (c # s) = export_at (c # s) @ exported_names s"

definition ends_in :: "string \<Rightarrow> string \<Rightarrow> bool" where
  "ends_in s e \<longleftrightarrow> starts_with (rev s) (rev e)"

definition include_at :: "string \<Rightarrow> string list" where
  "include_at s = (if starts_with s ''#include \"salias/'' then
     (let b = drop 17 s; n = takeWhile (\<lambda>c. c \<noteq> CHR 0x22) b in
      if 4 < length n \<and> ends_in n ''.hpp'' \<and> length n < length b then [n] else []) else [])"

fun included_headers :: "bool \<Rightarrow> string \<Rightarrow> string list" where
  "included_headers line_start [] = []"
| "included_headers line_start (c # s) = (if line_start then include_at (c # s) else []) @ included_headers (c = nl) s"

fun first_match :: "(string \<Rightarrow> 'a option) \<Rightarrow> string \<Rightarrow> 'a option" where
  "first_match m [] = m []"
| "first_match m (c # s) = (case m (c # s) of Some x \<Rightarrow> Some x | None \<Rightarrow> first_match m s)"

definition digit_run :: "string \<Rightarrow> string \<times> string" where
  "digit_run s = (takeWhile is_digit s, dropWhile is_digit s)"

definition version_at :: "string \<Rightarrow> string option" where
  "version_at s = (if starts_with s ''project(salias VERSION '' then
     (case digit_run (drop 23 s) of (a, r1) \<Rightarrow> (case digit_run (drop 1 r1) of (b, r2) \<Rightarrow> (case digit_run (drop 1 r2) of (c, _) \<Rightarrow>
        if a \<noteq> [] \<and> b \<noteq> [] \<and> c \<noteq> [] \<and> starts_with r1 ''.'' \<and> starts_with r2 ''.'' then Some (a @ ''.'' @ b @ ''.'' @ c) else None)))
     else None)"

definition wire_version_at :: "api_env \<Rightarrow> string \<Rightarrow> string option" where
  "wire_version_at env s = (if starts_with s ''kNamedVersion'' then
     (let r = skip_space env (drop 13 s) in if starts_with r ''='' then
        (let d = fst (digit_run (skip_space env (drop 1 r))) in if d \<noteq> [] then Some d else None) else None)
     else None)"

text \<open>\<open>s.rsplit(sep, 1)[-1]\<close>, \<open>s.split(sep, 1)[0]\<close>, \<open>s.removeprefix(p)\<close> and \<open>Path.suffix\<close>.\<close>

fun after_last :: "string \<Rightarrow> string \<Rightarrow> string option" where
  "after_last sep [] = None"
| "after_last sep (c # s) = (case after_last sep s of Some t \<Rightarrow> Some t
     | None \<Rightarrow> if starts_with (c # s) sep then Some (drop (length sep) (c # s)) else None)"

definition rsplit_last :: "string \<Rightarrow> string \<Rightarrow> string" where
  "rsplit_last sep s = (case after_last sep s of None \<Rightarrow> s | Some t \<Rightarrow> t)"

definition base_symbol :: "string \<Rightarrow> string" where
  "base_symbol n = takeWhile (\<lambda>c. c \<noteq> CHR ''<'') (rsplit_last ''::'' n)"

definition remove_prefix :: "string \<Rightarrow> string \<Rightarrow> string" where
  "remove_prefix p s = (if starts_with s p then drop (length p) s else s)"

definition path_suffix :: "string \<Rightarrow> string" where
  "path_suffix p = drop (length (path_stem p)) (base_name p)"

section \<open>Reading\<close>

definition read_file :: "api_env \<Rightarrow> world \<Rightarrow> string \<Rightarrow> string py" where
  "read_file env w path = (case file_text w path of Some t \<Rightarrow> Inr t | None \<Rightarrow> fail ''cannot read'')"

abbreviation read_at :: "api_env \<Rightarrow> world \<Rightarrow> string \<Rightarrow> string py" where
  "read_at env w relative \<equiv> read_file env w (at_root env relative)"

definition parse_json :: "world \<Rightarrow> string \<Rightarrow> string \<Rightarrow> json py" where
  "parse_json w t message = (case json_loads w t of Inl _ \<Rightarrow> fail message | Inr v \<Rightarrow> Inr v)"

definition load_api_manifest :: "api_env \<Rightarrow> world \<Rightarrow> json py" where
  "load_api_manifest env w =
     bindE (read_at env w MANIFEST) (\<lambda>t. bindE (parse_json w t ''invalid manifest JSON'') (\<lambda>data.
     bindE (get data ''schema_version'') (\<lambda>v. bindE (check (jeq v (jint 1)) ''manifest schema_version must be 1'') (\<lambda>_. Inr data))))"

section \<open>Documents as the program uses them\<close>

text \<open>\<open>k in v\<close> for a string \<open>k\<close>; \<open>v in names\<close> for a set or dictionary of hashable documents; \<open>v in names\<close> for a tuple of strings.\<close>

fun contains_key :: "json \<Rightarrow> string \<Rightarrow> bool py" where
  "contains_key (JObj d) k = Inr (map_of d k \<noteq> None)"
| "contains_key (JList xs) k = Inr (JStr k \<in> set xs)"
| "contains_key (JStr s) k = Inr (contains k s)"
| "contains_key _ k = Inl TypeError"

definition in_set :: "json \<Rightarrow> json list \<Rightarrow> bool py" where
  "in_set v xs = bindE (require (hashable v) TypeError) (\<lambda>_. Inr (mem_json v xs))"

definition names_it :: "string list \<Rightarrow> json \<Rightarrow> bool" where
  "names_it ns v \<longleftrightarrow> (\<exists>n \<in> set ns. v = JStr n)"

fun as_index :: "json \<Rightarrow> int option" where
  "as_index (JNum (I n)) = Some n"
| "as_index (JBool b) = Some (if b then 1 else 0)"
| "as_index _ = None"

fun is_bool_json :: "json \<Rightarrow> bool" where
  "is_bool_json (JBool _) = True"
| "is_bool_json _ = False"

definition any_value :: "json \<Rightarrow> bool py" where
  "any_value v = bindE (as_items v) (\<lambda>d. Inr (\<exists>kv \<in> set d. truthy (snd kv)))"

definition starts_json :: "json \<Rightarrow> string \<Rightarrow> bool py" where
  "starts_json v p = (case v of JStr s \<Rightarrow> Inr (starts_with s p) | _ \<Rightarrow> Inl AttributeError)"

section \<open>The symbols of the manifest\<close>

definition validate_location :: "api_env \<Rightarrow> world \<Rightarrow> bool \<Rightarrow> json \<Rightarrow> unit py" where
  "validate_location env w require_file location =
     bindE (mapE (\<lambda>f. bindE (contains_key location f) (\<lambda>b. check b ''location is missing a field'')) [''file'', ''line'', ''declaration'']) (\<lambda>_.
     bindE (getitem location ''line'') (\<lambda>line.
     bindE (check (case as_index line of None \<Rightarrow> False | Some n \<Rightarrow> 1 \<le> n) ''invalid line number'') (\<lambda>_.
     bindE (getitem location ''declaration'') (\<lambda>declaration.
     bindE (check (is_str declaration \<and> truthy declaration) ''invalid declaration'') (\<lambda>_.
     if \<not> require_file then Inr ()
     else bindE (getitem location ''file'') (\<lambda>f. bindE (as_str f) (\<lambda>f. let path = at_root env f in
       bindE (check (is_file w path) ''points to missing file'') (\<lambda>_. bindE (read_file env w path) (\<lambda>t.
       let lines = splitlines t; n = nat (the (as_index line)) in
       bindE (check (n \<le> length lines) ''line is outside the file'') (\<lambda>_.
       check (contains (str_of declaration) (lines ! (n - 1))) ''declaration mismatch''))))))))))"

definition located :: "api_env \<Rightarrow> world \<Rightarrow> json \<Rightarrow> unit py" where
  "located env w symbol =
     bindE (getitem symbol ''name'') (\<lambda>name. bindE (get symbol ''location'') (\<lambda>location. bindE (get symbol ''previous_location'') (\<lambda>previous.
     bindE (if location \<noteq> JNull then validate_location env w True location else Inr ()) (\<lambda>_.
     bindE (if previous \<noteq> JNull then validate_location env w False previous else Inr ()) (\<lambda>_.
     bindE (getitem symbol ''status'') (\<lambda>status.
     bindE (check (\<not> (status \<noteq> JStr ''removed'' \<and> location = JNull)) ''must have a current location'') (\<lambda>_.
     bindE (check (\<not> (names_it REMOVED_ALIAS_NAMES name \<and> location \<noteq> JNull)) ''removed but still declares a current location'') (\<lambda>_.
     check (\<not> (names_it REMOVED_ALIAS_NAMES name \<and> previous = JNull)) ''removed but has no previous_location''))))))))"

definition validate_locations :: "api_env \<Rightarrow> world \<Rightarrow> json list \<Rightarrow> unit py" where
  "validate_locations env w symbols = bindE (mapE (located env w) symbols) (\<lambda>_. Inr ())"

definition valid_member :: "json list \<Rightarrow> json \<Rightarrow> unit py" where
  "valid_member statuses member = bindE (get member ''status'') (\<lambda>s. bindE (in_set s statuses) (\<lambda>b. check b ''member has invalid status''))"

definition EXPORT_FIELDS :: "string list" where
  "EXPORT_FIELDS = [''header'', ''umbrella'', ''module'', ''cmake'', ''mcpp'']"

text \<open>One symbol; \<open>names\<close> are the keys of \<open>by_name\<close> so far.\<close>

definition validate_symbol :: "json list \<Rightarrow> json \<Rightarrow> json list \<Rightarrow> json list py" where
  "validate_symbol statuses symbol names =
     bindE (get symbol ''name'') (\<lambda>name.
     bindE (if truthy name then in_set name names else Inr True) (\<lambda>bad. bindE (check (\<not> bad) ''missing or duplicate symbol name'') (\<lambda>_.
     bindE (get symbol ''status'') (\<lambda>status. bindE (in_set status statuses) (\<lambda>ok. bindE (check ok ''invalid status'') (\<lambda>_.
     bindE (get symbol ''replacement'') (\<lambda>replacement. bindE (check (truthy replacement) ''missing a replacement/canonical entry'') (\<lambda>_.
     bindE (get_or symbol ''exports'' (JObj [])) (\<lambda>exports.
     bindE (mapE (\<lambda>f. bindE (get exports f) (\<lambda>v. check (is_bool_json v) ''invalid exports'')) EXPORT_FIELDS) (\<lambda>_.
     bindE (if status = JStr ''removed'' then any_value exports else Inr False) (\<lambda>exported.
     bindE (check (\<not> exported) ''removed but still declares an exported surface'') (\<lambda>_.
     bindE (get_or symbol ''members'' (JList [])) (\<lambda>ms. bindE (as_list ms) (\<lambda>members. bindE (mapE (valid_member statuses) members) (\<lambda>_.
     Inr (names @ [name]))))))))))))))))"

definition count_status :: "json list \<Rightarrow> string \<Rightarrow> int py" where
  "count_status symbols status = bindE (mapE (item_is ''status'' (JStr status)) symbols) (\<lambda>bs. Inr (int (length (filter id bs))))"

text \<open>\<open>by_name.get(name)\<close>, the names being distinct strings or other hashable documents.\<close>

definition symbol_named :: "json list \<Rightarrow> string \<Rightarrow> json option" where
  "symbol_named symbols name = find (\<lambda>s. getitem s ''name'' = Inr (JStr name)) symbols"

definition is_removed :: "json list \<Rightarrow> string \<Rightarrow> bool py" where
  "is_removed symbols name = (case symbol_named symbols name of None \<Rightarrow> Inr False | Some s \<Rightarrow> item_is ''status'' (JStr ''removed'') s)"

definition removal_metadata_ok :: "json \<Rightarrow> unit py" where
  "removal_metadata_ok data =
     bindE (get_or data ''removal_metadata'' (JObj [])) (\<lambda>m.
     bindE (get m ''state'') (\<lambda>v. bindE (check (v = JStr ''extras_removed_released'') ''removal metadata must record the released v6 removal'') (\<lambda>_.
     bindE (get m ''release_tag'') (\<lambda>v. bindE (check (v = JStr REMOVAL_RELEASE_TAG) ''removal metadata release tag'') (\<lambda>_.
     bindE (get m ''wire_protocol_changed'') (\<lambda>v. bindE (check (v = JBool False) ''the wire protocol did not change'') (\<lambda>_.
     bindE (get m ''compatibility_surface_retained'') (\<lambda>v. check (v = JBool False) ''no compatibility surface is retained''))))))))"

definition extra_listed :: "json list \<Rightarrow> string \<Rightarrow> unit py" where
  "extra_listed symbols name =
     bindE (is_removed symbols name) (\<lambda>b. bindE (check b ''extras symbol must be listed as removed'') (\<lambda>_.
     bindE (getitem (the (symbol_named symbols name)) ''replacement'') (\<lambda>r.
     bindE (starts_json r (''None; removed permanently in '' @ REMOVAL_RELEASE_TAG)) (\<lambda>b. check b ''extras symbol must not advertise a replacement''))))"

definition removed_names :: "json list \<Rightarrow> json list py" where
  "removed_names symbols = bindE (filterE (item_is ''status'' (JStr ''removed'')) symbols) (\<lambda>rs. mapE (\<lambda>s. getitem s ''name'') rs)"

definition validate_symbols :: "api_env \<Rightarrow> world \<Rightarrow> json \<Rightarrow> json list py" where
  "validate_symbols env w data =
     bindE (get_or data ''symbols'' (JList [])) (\<lambda>v.
     bindE (get_or data ''statuses'' (JObj [])) (\<lambda>st. bindE (as_list st) (\<lambda>st. bindE (json_set st) (\<lambda>statuses.
     bindE (check (same_set statuses (map JStr STATUSES)) ''status definitions'') (\<lambda>_.
     bindE (as_list v) (\<lambda>symbols. bindE (foldE (validate_symbol statuses) symbols []) (\<lambda>_.
     bindE (mapE (\<lambda>(status, n). bindE (count_status symbols status) (\<lambda>m. Inr (m = n))) EXPECTED_COUNTS) (\<lambda>counts.
     bindE (check (list_all id counts) ''manifest counts'') (\<lambda>_.
     bindE (is_removed symbols ''salias::Channel<Mode::LatestMpmc>'') (\<lambda>b. bindE (check b ''direct creation must remain removed'') (\<lambda>_.
     bindE (get data ''current_api_state'') (\<lambda>v. bindE (check (v = JStr FREEZE_STATE) ''manifest current_api_state'') (\<lambda>_.
     bindE (removal_metadata_ok data) (\<lambda>_.
     bindE (mapE (extra_listed symbols) (CANONICAL_EXTRAS_NAMES @ TOP_LEVEL_EXTRAS_NAMES)) (\<lambda>_.
     bindE (removed_names symbols) (\<lambda>rs. bindE (json_set rs) (\<lambda>removed.
     bindE (get_or data ''removed_symbols'' (JList [])) (\<lambda>l. bindE (as_list l) (\<lambda>l. bindE (json_set l) (\<lambda>listed.
     bindE (check (same_set listed removed) ''removed_symbols must match all symbols with removed status'') (\<lambda>_.
     bindE (validate_locations env w symbols) (\<lambda>_. Inr symbols))))))))))))))))))))))"

section \<open>Module, umbrella header and removed extras\<close>

definition UMBRELLA_HEADERS :: "string list" where
  "UMBRELLA_HEADERS = [''channel.hpp'', ''config.hpp'', ''error.hpp'', ''fixed_channel.hpp'', ''latest_channel.hpp'', ''message.hpp'',
     ''publisher.hpp'', ''subscriber.hpp'']"

definition json_strings :: "string list \<Rightarrow> json list" where
  "json_strings ss = map JStr ss"

text \<open>Two sets must agree; the message sorts what only the second one has.\<close>

definition require_same :: "json list \<Rightarrow> json list \<Rightarrow> string \<Rightarrow> unit py" where
  "require_same actual declared message = (if same_set actual declared then Inr ()
     else bindE (sort_rows Inr (filter (\<lambda>v. \<not> mem_json v actual) declared)) (\<lambda>_. fail message))"

definition module_has :: "string list \<Rightarrow> json \<Rightarrow> unit py" where
  "module_has exports symbol =
     bindE (getitem symbol ''name'') (\<lambda>v. bindE (case v of JStr n \<Rightarrow> Inr n | _ \<Rightarrow> Inl AttributeError) (\<lambda>n.
     bindE (getitem symbol ''exports'') (\<lambda>e. bindE (getitem e ''module'') (\<lambda>m.
     check (truthy m \<longrightarrow> base_symbol (remove_prefix ''salias::'' n) \<in> set exports) ''salias module export is missing''))))"

definition validate_module_and_umbrella :: "api_env \<Rightarrow> world \<Rightarrow> json \<Rightarrow> json list \<Rightarrow> unit py" where
  "validate_module_and_umbrella env w data symbols =
     bindE (read_at env w MODULE_FILE) (\<lambda>module_text. let exports = remdups (exported_names module_text) in
     bindE (get_or data ''module_exports'' (JList [])) (\<lambda>v. bindE (as_list v) (\<lambda>l. bindE (json_set l) (\<lambda>declared.
     bindE (require_same (json_strings exports) declared ''module_exports do not match src/salias.cppm'') (\<lambda>_.
     bindE (check (length exports = 29) ''core module exports, expected 29'') (\<lambda>_.
     bindE (check (\<not> contains ''import salias.extras;'' module_text) ''core module still imports salias.extras'') (\<lambda>_.
     bindE (check (\<not> ae_exists env (at_root env EXTRAS_MODULE)) ''removed extras module interface still exists'') (\<lambda>_.
     bindE (get data ''extras_module_exports'') (\<lambda>v. bindE (check (jeq v (JList [])) ''extras_module_exports must be empty'') (\<lambda>_.
     bindE (mapE (module_has exports) symbols) (\<lambda>_.
     bindE (read_at env w UMBRELLA) (\<lambda>t.
     check (set (included_headers True t) = set UMBRELLA_HEADERS) ''unexpected umbrella header set''))))))))))))"

definition BOUNDARY_FILES :: "string list" where
  "BOUNDARY_FILES = [''CMakeLists.txt'', ''cmake/saliasConfig.cmake.in'', ''mcpp.toml'', ''src/core/CMakeLists.txt'', ''src/salias/CMakeLists.txt'',
     ''src/salias.cppm'', ''test/CMakeLists.txt'', ''bench/CMakeLists.txt'', ''example/CMakeLists.txt'']"

definition forbidden_boundaries :: "api_env \<Rightarrow> (string \<Rightarrow> string \<Rightarrow> bool) list" where
  "forbidden_boundaries env = [bounded_word env ''salias_extras'', bounded_word env ''saliasExtras'', bounded_pair env ''COMPONENT'' ''extras'',
     imports_extras env, (\<lambda>_ s. starts_with s ''salias/extras/'')]"

definition INSTALL_CHECKS :: "string list" where
  "INSTALL_CHECKS = [''include/salias/extras'', ''include/salias/detail/latest_by_key_storage.hpp'', ''libsalias_extras.a'', ''saliasExtrasTargets.cmake'',
     ''removed extras artifacts were unexpectedly installed'', ''LatestByKeyStorage'', ''salias::extras'', ''salias_install_component(core \"core-only\")'']"

definition boundary_clean :: "api_env \<Rightarrow> world \<Rightarrow> string \<Rightarrow> unit py" where
  "boundary_clean env w relative = bindE (read_at env w relative) (\<lambda>t.
     bindE (mapE (\<lambda>m. require_absent t m ''still references removed extras boundary'') (forbidden_boundaries env)) (\<lambda>_. Inr ()))"

definition exports_nothing :: "json list \<Rightarrow> string \<Rightarrow> unit py" where
  "exports_nothing symbols name = (case symbol_named symbols name of None \<Rightarrow> Inl KeyError
     | Some s \<Rightarrow> bindE (getitem s ''exports'') (\<lambda>e. bindE (any_value e) (\<lambda>b. check (\<not> b) ''removed symbol still declares an export'')))"

definition validate_extras_boundaries :: "api_env \<Rightarrow> world \<Rightarrow> json \<Rightarrow> json list \<Rightarrow> unit py" where
  "validate_extras_boundaries env w data symbols =
     bindE (mapE (\<lambda>h. check (\<not> ae_exists env (at_root env (''src/salias/include/salias/'' @ h))) ''removed extras header still exists'') REMOVED_HEADERS) (\<lambda>_.
     bindE (get_or data ''install_surfaces'' (JObj [])) (\<lambda>s. bindE (get s ''install_components'') (\<lambda>v.
     bindE (check (jeq v (JList [JStr ''core''])) ''install components must contain only core'') (\<lambda>_.
     bindE (get s ''cmake_targets'') (\<lambda>v.
     bindE (check (jeq v (JList [JStr ''salias::salias'', JStr ''salias::salias_core''])) ''CMake targets must contain only the two core targets'') (\<lambda>_.
     bindE (mapE (boundary_clean env w) BOUNDARY_FILES) (\<lambda>_.
     bindE (read_at env w INSTALL_TEST) (\<lambda>t.
     bindE (mapE (\<lambda>s. check (contains s t) ''install consumer test is missing an assertion'') INSTALL_CHECKS) (\<lambda>_.
     bindE (mapE (exports_nothing symbols) CANONICAL_EXTRAS_NAMES) (\<lambda>_. Inr ()))))))))))"

section \<open>Removed names in the code\<close>

definition alias_gone :: "api_env \<Rightarrow> string \<Rightarrow> string \<Rightarrow> json list \<Rightarrow> string \<Rightarrow> unit py" where
  "alias_gone env channel_header module_text symbols name =
     bindE (is_removed symbols (''salias::'' @ name)) (\<lambda>b. bindE (check b ''must be listed as removed'') (\<lambda>_.
     bindE (require_absent channel_header (bounded_pair env ''using'' name) ''still has a channel.hpp declaration'') (\<lambda>_.
     require_absent module_text (bounded_word env name) ''salias module still exports'')))"

definition CODE_SUFFIXES :: "string list" where "CODE_SUFFIXES = [''.hpp'', ''.cpp'', ''.cc'', ''.cxx'']"

definition scanned :: "api_env \<Rightarrow> world \<Rightarrow> string list" where
  "scanned env w = filter (\<lambda>p. is_file w p \<and> path_suffix p \<in> set CODE_SUFFIXES \<and> p \<noteq> at_root env REMOVED_TEST)
     (concat (map (\<lambda>d. globbed w (at_root env d) ''**/*'') CODE_ROOTS))"

definition code_clean :: "api_env \<Rightarrow> world \<Rightarrow> string \<Rightarrow> unit py" where
  "code_clean env w path = bindE (read_file env w path) (\<lambda>t.
     bindE (require_absent t (removed_use env) ''still uses removed API'') (\<lambda>_.
     bindE (require_absent t (bounded_word env ''salias::extras'') ''still uses salias::extras'') (\<lambda>_.
     bindE (require_absent t removed_include ''still includes removed header'') (\<lambda>_.
     require_absent t (imports_extras env) ''still imports salias.extras''))))"

definition validate_removed_code :: "api_env \<Rightarrow> world \<Rightarrow> json list \<Rightarrow> unit py" where
  "validate_removed_code env w symbols =
     bindE (read_at env w ''src/salias/include/salias/channel.hpp'') (\<lambda>channel_header. bindE (read_at env w MODULE_FILE) (\<lambda>module_text.
     bindE (mapE (alias_gone env channel_header module_text symbols) ALIASES) (\<lambda>_.
     bindE (read_at env w REMOVED_TEST) (\<lambda>removed_test.
     bindE (mapE (\<lambda>n. bindE (is_removed symbols n) (\<lambda>b. check b ''legacy name must be listed as removed''))
       (ALIAS_NAMES @ CANONICAL_EXTRAS_NAMES @ TOP_LEVEL_EXTRAS_NAMES)) (\<lambda>_.
     bindE (mapE (\<lambda>h. check (contains (''#if __has_include(<salias/'' @ h @ ''>)'') removed_test) ''removed contract test does not lock a header'') REMOVED_HEADERS) (\<lambda>_.
     bindE (read_at env w TEST_CMAKE) (\<lambda>test_cmake.
     bindE (check (contains ''api/removed_api_contract_test.cpp'' test_cmake) ''does not build the removed API contract test'') (\<lambda>_.
     bindE (mapE (\<lambda>s. check (\<not> contains s test_cmake) ''still builds removed compat test'') [''channel_alias_compat_test.cpp'', ''extras_compat_test.cpp'']) (\<lambda>_.
     bindE (read_at env w CORE_IMPORT_TEST) (\<lambda>core_import. bindE (read_at env w MCPP_IMPORT_TEST) (\<lambda>mcpp_import.
     bindE (check (contains ''import salias;'' core_import) ''core module import test'') (\<lambda>_.
     bindE (check (contains ''import salias;'' mcpp_import) ''mcpp module/header test'') (\<lambda>_.
     bindE (mapE (\<lambda>t. require_absent t (imports_extras env) ''imports removed salias.extras'') [core_import, mcpp_import]) (\<lambda>_.
     bindE (mapE (code_clean env w) (scanned env w)) (\<lambda>_. Inr ())))))))))))))))"

section \<open>The compiler rejects removed names\<close>

definition compile_must_fail :: "api_env \<Rightarrow> string \<times> string \<Rightarrow> unit py" where
  "compile_must_fail env st = (case st of (source, expected_token) \<Rightarrow>
     (case ae_compile env source of None \<Rightarrow> fail ''cannot run compiler''
      | Some (code, diagnostic) \<Rightarrow> bindE (check (code \<noteq> 0) ''removed API unexpectedly compiles'') (\<lambda>_.
          check (contains expected_token diagnostic) ''failed for an unexpected reason'')))"

definition removed_type_source :: "string \<Rightarrow> string" where
  "removed_type_source expression = ''#include <cstdint>'' @ [nl] @ ''#include <salias/salias.hpp>'' @ [nl] @ ''using Removed = '' @ expression @ '';'' @ [nl]
     @ ''int main() { return 0; }'' @ [nl]"

definition removed_header_source :: "string \<Rightarrow> string" where
  "removed_header_source h = ''#include <salias/'' @ h @ ''>'' @ [nl] @ ''int main() { return 0; }'' @ [nl]"

definition expected_token_of :: "string \<Rightarrow> string" where
  "expected_token_of label = (if starts_with label ''salias::extras::'' then ''extras'' else base_symbol label)"

definition compile_cases :: "(string \<times> string) list" where
  "compile_cases = map (\<lambda>(label, e). (removed_type_source e, expected_token_of label)) REMOVED_TYPE_EXPRESSIONS
     @ map (\<lambda>h. (removed_header_source h, h)) REMOVED_HEADERS"

definition validate_removed_compile_contract :: "api_env \<Rightarrow> unit py" where
  "validate_removed_compile_contract env = bindE (mapE (compile_must_fail env) compile_cases) (\<lambda>_. Inr ())"

section \<open>The documents\<close>

text \<open>The Chinese phrases the documents must or must not hold, as UTF-8 bytes.\<close>

definition byte_text :: "nat list \<Rightarrow> string" where
  "byte_text bs = map char_of bs"

definition QUICK_START_HEADING :: string where
  "QUICK_START_HEADING = ''## '' @ byte_text [229, 191, 171, 233, 128, 159, 229, 188, 128, 229, 167, 139]"

definition README_REMOVED_HEADING :: string where
  "README_REMOVED_HEADING = ''## '' @ byte_text [229, 183, 178, 231, 167, 187, 233, 153, 164, 229, 191, 171, 230, 141, 183, 229, 133, 165, 229, 143, 163]"

definition NO_REPLACEMENT_ENTRY :: string where
  "NO_REPLACEMENT_ENTRY = byte_text [230, 178, 161, 230, 156, 137, 230, 155, 191, 228, 187, 163, 229, 133, 165, 229, 143, 163]"

definition NO_REPLACEMENT_API :: string where
  "NO_REPLACEMENT_API = byte_text [230, 178, 161, 230, 156, 137, 230, 155, 191, 228, 187, 163] @ '' API''"

definition STALE_CLAIMS :: "string list" where
  "STALE_CLAIMS = [byte_text [228, 187, 141, 228, 189, 156, 228, 184, 186] @ '' `4.x` '' @ byte_text [229, 133, 188, 229, 174, 185, 229, 133, 165, 229, 143, 163, 228, 191, 157, 231, 149, 153], byte_text [230, 156, 172, 231, 137, 136, 230, 156, 172, 228, 184, 141, 229, 136, 160, 233, 153, 164, 230, 151, 167, 229, 133, 165, 229, 143, 163]]"

text \<open>A section of the README: from its heading to the next one.\<close>

definition bounded_section :: "string \<Rightarrow> string \<Rightarrow> string option" where
  "bounded_section heading readme = (case find_sub heading readme of None \<Rightarrow> None
     | Some start \<Rightarrow> (case find_from ([nl] @ ''## '') readme (start + 1) of None \<Rightarrow> None
       | Some final \<Rightarrow> Some (take (final - start) (drop start readme))))"

definition check_all :: "string list \<Rightarrow> string \<Rightarrow> string \<Rightarrow> unit py" where
  "check_all snippets t message = check (\<forall>s \<in> set snippets. contains s t) message"

definition check_none :: "string list \<Rightarrow> string \<Rightarrow> string \<Rightarrow> unit py" where
  "check_none snippets t message = check (\<forall>s \<in> set snippets. \<not> contains s t) message"

definition validate_quick_start :: "string \<Rightarrow> unit py" where
  "validate_quick_start readme = (case bounded_section QUICK_START_HEADING readme of None \<Rightarrow> fail ''README is missing a bounded quick-start section''
     | Some quick_start \<Rightarrow>
       bindE (check_all [''salias::Channel<salias::Mode::FifoMpsc, QuoteSchema>'', ''salias::FixedChannel<salias::FixedTopology::Spsc, QuoteSchema, 1024>'',
         ''salias::LatestMpmcChannel<1u << 20, 90, QuoteSchema>''] quick_start ''README quick start is missing a snippet'') (\<lambda>_.
       check_none (ALIASES @ EXTRAS @ [''Channel<salias::Mode::LatestMpmc>'']) quick_start ''README quick start promotes a removed or non-core entry''))"

definition validate_removed_section :: "string \<Rightarrow> unit py" where
  "validate_removed_section readme = (case bounded_section README_REMOVED_HEADING readme of None \<Rightarrow> fail ''README is missing a bounded removed-entry section''
     | Some removed_section \<Rightarrow>
       bindE (check_all ALIASES removed_section ''README removed-entry section does not map an alias'') (\<lambda>_.
       bindE (check_all [''2026-10-30'', ''5.0.0''] removed_section ''README must record the 5.0.0 release'') (\<lambda>_.
       bindE (check_all [''2026-10-31'', ''6.0.0''] removed_section ''README must record the v6 removal'') (\<lambda>_.
       bindE (check_all (CANONICAL_EXTRAS_NAMES @ TOP_LEVEL_EXTRAS_NAMES) removed_section ''README does not mark a name as removed'') (\<lambda>_.
       bindE (check_all (map (\<lambda>h. ''salias/'' @ h) REMOVED_PUBLIC_HEADERS) removed_section ''README does not mark a header as removed'') (\<lambda>_.
       bindE (check_all [''import salias.extras;''] removed_section ''README does not mark the extras import as removed'') (\<lambda>_.
       check_none [''compat'', ''still retained''] (lower removed_section) ''README still describes compatibility exports'')))))))"

definition validate_docs :: "api_env \<Rightarrow> world \<Rightarrow> json list \<Rightarrow> unit py" where
  "validate_docs env w symbols =
     bindE (read_at env w README) (\<lambda>readme. bindE (validate_quick_start readme) (\<lambda>_. bindE (validate_removed_section readme) (\<lambda>_.
     bindE (read_at env w API_DOC) (\<lambda>api_doc. bindE (read_at env w MIGRATION) (\<lambda>migration.
     bindE (check (contains ''removed'' (lower api_doc) \<and> contains ''removed'' (lower migration)) ''docs must explicitly mark removed entries'') (\<lambda>_.
     bindE (check_all REMOVED_ALIAS_NAMES api_doc ''API doc does not mark a removed symbol'') (\<lambda>_.
     bindE (check_all REMOVED_ALIAS_NAMES migration ''migration doc does not map a removed symbol'') (\<lambda>_.
     bindE (mapE (\<lambda>t. check_all (map (\<lambda>h. ''salias/'' @ h) REMOVED_PUBLIC_HEADERS) t ''docs do not map a removed include'') [api_doc, migration]) (\<lambda>_.
     bindE (check (search direct_latest [] api_doc \<and> search direct_latest [] migration) ''docs do not mark direct Channel<Mode::LatestMpmc> as removed'') (\<lambda>_.
     bindE (check_all [''v6.0.0'', ''salias::extras'', ''import salias.extras;'', NO_REPLACEMENT_ENTRY] api_doc ''API doc is missing a removal detail'') (\<lambda>_.
     bindE (check_all [''2026-10-31'', ''v6.0.0'', ''wire protocol'', NO_REPLACEMENT_API] migration ''migration doc is missing a detail'') (\<lambda>_.
     bindE (check_none STALE_CLAIMS readme ''README still claims old entries remain source-compatible'') (\<lambda>_.
     bindE (mapE (\<lambda>s. bindE (item_is ''status'' (JStr ''compat'') s) (\<lambda>b. check (\<not> b) ''manifest still contains compat symbol'')) symbols) (\<lambda>_.
     Inr ()))))))))))))))"

definition validate_versions :: "api_env \<Rightarrow> world \<Rightarrow> json \<Rightarrow> unit py" where
  "validate_versions env w data =
     bindE (read_at env w ''CMakeLists.txt'') (\<lambda>t. (case first_match version_at t of None \<Rightarrow> fail ''cannot read CMake project version''
     | Some v \<Rightarrow> bindE (getitem data ''baseline_version'') (\<lambda>b. check (b = JStr v) ''manifest version'')))"

section \<open>The freeze document\<close>

definition sha256_file :: "world \<Rightarrow> string \<Rightarrow> string py" where
  "sha256_file w path = (case file_text w path of None \<Rightarrow> fail ''cannot hash'' | Some t \<Rightarrow> Inr (sha256_hex w t))"

text \<open>\<open>path.relative_to(ROOT)\<close>\<close>

definition relative_to :: "string \<Rightarrow> string \<Rightarrow> string py" where
  "relative_to base path = (if path = base then Inr ''.''
     else if starts_with path (base @ ''/'') then Inr (drop (length base + 1) path) else Inl (ValueError ''is not in the subpath''))"

definition freeze_inputs :: "api_env \<Rightarrow> world \<Rightarrow> string list" where
  "freeze_inputs env w = map (at_root env) (MANIFEST # MODULE_FILE # FREEZE_PACKAGING_FILES)
     @ globbed w (at_root env ''src/salias/include/salias'') ''**/*.hpp'' @ globbed w (at_root env ''src/core'') ''**/*.hpp''"

text \<open>The frozen files, in the order of their path below the root: each with that path.\<close>

definition freeze_paths :: "api_env \<Rightarrow> world \<Rightarrow> (string \<times> string) list py" where
  "freeze_paths env w = (let unique = remdups (map (resolved w) (freeze_inputs env w)) in
     bindE (mapE (relative_to (ae_root env)) unique) (\<lambda>rels. Inr (sort_key fst (zip rels unique))))"

definition current_wire_version :: "api_env \<Rightarrow> world \<Rightarrow> int py" where
  "current_wire_version env w = bindE (read_at env w ''src/salias/src/channel.cpp'') (\<lambda>t.
     (case first_match (wire_version_at env) t of None \<Rightarrow> fail ''cannot read kNamedVersion'' | Some d \<Rightarrow> str_int d))"

definition current_revision :: "api_env \<Rightarrow> string py" where
  "current_revision env = (case ae_revision env of (code, out, err) \<Rightarrow> if code \<noteq> 0 then fail ''cannot read git revision'' else Inr (strip out))"

definition aggregate_line :: "string \<times> string \<Rightarrow> string" where
  "aggregate_line ps = snd ps @ ''  '' @ fst ps @ [nl]"

text \<open>The digest of the digests; \<open>encode("ascii")\<close> rejects other characters.\<close>

definition aggregate_sha :: "world \<Rightarrow> (string \<times> string) list \<Rightarrow> string py" where
  "aggregate_sha w entries = (let t = concat (map aggregate_line entries) in
     if \<forall>c \<in> set t. (of_char c :: nat) < 128 then Inr (sha256_hex w t) else Inl (ValueError ''ascii codec''))"

definition api_counts :: "json \<Rightarrow> json list \<Rightarrow> (string \<times> json) list py" where
  "api_counts data symbols = bindE (getitem data ''statuses'') (\<lambda>v. bindE (as_list v) (\<lambda>ss. bindE (mapE as_str ss) (\<lambda>names.
     mapE (\<lambda>s. bindE (count_status symbols s) (\<lambda>n. Inr (s, jint n))) (remdups names))))"

definition json_length :: "json \<Rightarrow> int py" where
  "json_length v = (case v of JList xs \<Rightarrow> Inr (int (length xs)) | JObj d \<Rightarrow> Inr (int (length d)) | JStr s \<Rightarrow> Inr (int (length s)) | _ \<Rightarrow> Inl TypeError)"

definition module_counts :: "json \<Rightarrow> json py" where
  "module_counts data = bindE (getitem data ''module_exports'') (\<lambda>a. bindE (json_length a) (\<lambda>m.
     bindE (getitem data ''extras_module_exports'') (\<lambda>b. bindE (json_length b) (\<lambda>n.
     Inr (JObj [(''core'', jint m), (''extras'', jint n)])))))"

definition entry_json :: "string \<times> string \<Rightarrow> json" where
  "entry_json ps = JObj [(''path'', JStr (fst ps)), (''sha256'', JStr (snd ps))]"

definition freeze_entries :: "api_env \<Rightarrow> world \<Rightarrow> (string \<times> string) list py" where
  "freeze_entries env w = bindE (freeze_paths env w) (mapE (\<lambda>(r, p). bindE (sha256_file w p) (\<lambda>h. Inr (r, h))))"

definition freeze_document :: "api_env \<Rightarrow> world \<Rightarrow> json \<Rightarrow> json list \<Rightarrow> json py" where
  "freeze_document env w data symbols =
     bindE (freeze_entries env w) (\<lambda>entries. bindE (api_counts data symbols) (\<lambda>counts.
     bindE (current_revision env) (\<lambda>revision. bindE (module_counts data) (\<lambda>modules.
     bindE (current_wire_version env w) (\<lambda>wire. bindE (aggregate_sha w entries) (\<lambda>aggregate.
     Inr (JObj [(''schema_version'', jint 1), (''api'', JStr ''salias-channel''), (''state'', JStr FREEZE_STATE), (''release_tag'', JStr FREEZE_RELEASE_TAG),
       (''basis_commit'', JStr revision), (''freeze_date'', JStr (ae_today env)), (''api_counts'', JObj counts), (''module_export_counts'', modules),
       (''wire_protocol_version'', jint wire), (''files'', JList (map entry_json entries)), (''aggregate_sha256'', JStr aggregate)])))))))"

text \<open>One entry of the document: its file and digest.\<close>

definition check_entry :: "api_env \<Rightarrow> world \<Rightarrow> json \<Rightarrow> (string \<times> string) py" where
  "check_entry env w entry =
     bindE (getitem entry ''path'') (\<lambda>v. bindE (as_str v) (\<lambda>relative. let path = at_root env relative in
     bindE (check (is_file w path) ''API freeze points to missing file'') (\<lambda>_.
     bindE (get entry ''sha256'') (\<lambda>h. bindE (sha256_file w path) (\<lambda>d.
     bindE (check (h = JStr d) ''API freeze hash mismatch'') (\<lambda>_. Inr (relative, d)))))))"

definition check_paths :: "json list \<Rightarrow> string list \<Rightarrow> unit py" where
  "check_paths paths expected = (if paths = json_strings expected then Inr ()
     else bindE (json_set paths) (\<lambda>actual.
       bindE (sort_rows Inr (filter (\<lambda>v. \<not> mem_json v (json_strings expected)) actual)) (\<lambda>_. fail ''API freeze file set differs'')))"

definition check_freeze :: "api_env \<Rightarrow> world \<Rightarrow> json \<Rightarrow> json list \<Rightarrow> string list \<Rightarrow> json \<Rightarrow> unit py" where
  "check_freeze env w data symbols expected_paths document =
     bindE (get document ''schema_version'') (\<lambda>v. bindE (if jeq v (jint 1) then get document ''api'' else Inr JNull) (\<lambda>a.
     bindE (check (jeq v (jint 1) \<and> a = JStr ''salias-channel'') ''API freeze metadata is invalid'') (\<lambda>_.
     bindE (get document ''state'') (\<lambda>v. bindE (check (v = JStr FREEZE_STATE) ''API freeze state'') (\<lambda>_.
     bindE (get document ''release_tag'') (\<lambda>v. bindE (check (v = JStr FREEZE_RELEASE_TAG) ''API freeze release tag'') (\<lambda>_.
     bindE (get document ''wire_protocol_version'') (\<lambda>v. bindE (current_wire_version env w) (\<lambda>n.
     bindE (check (jeq v (jint n)) ''API freeze wire protocol version does not match channel.cpp'') (\<lambda>_.
     bindE (api_counts data symbols) (\<lambda>counts. bindE (get document ''api_counts'') (\<lambda>v. bindE (check (jeq v (JObj counts)) ''API freeze counts'') (\<lambda>_.
     bindE (module_counts data) (\<lambda>modules. bindE (get document ''module_export_counts'') (\<lambda>v.
     bindE (check (jeq v modules) ''API freeze module export counts do not match the manifest'') (\<lambda>_.
     bindE (get_or document ''files'' (JList [])) (\<lambda>v. bindE (as_list v) (\<lambda>entries. bindE (mapE (\<lambda>e. get e ''path'') entries) (\<lambda>paths.
     bindE (check_paths paths expected_paths) (\<lambda>_.
     bindE (mapE (check_entry env w) entries) (\<lambda>pairs. bindE (aggregate_sha w pairs) (\<lambda>aggregate.
     bindE (get document ''aggregate_sha256'') (\<lambda>v. check (v = JStr aggregate) ''API freeze aggregate SHA-256 is invalid'')))))))))))))))))))))))"

text \<open>\<open>--write-freeze\<close> replaces the document before it is checked.\<close>

definition write_file :: "string \<Rightarrow> string \<Rightarrow> world \<Rightarrow> world" where
  "write_file path t w = w\<lparr>file_text := (file_text w)(path \<mapsto> t)\<rparr>"

definition validate_freeze :: "api_env \<Rightarrow> world \<Rightarrow> json \<Rightarrow> json list \<Rightarrow> bool \<Rightarrow> (json \<times> world) py" where
  "validate_freeze env w data symbols write =
     bindE (freeze_paths env w) (\<lambda>expected.
     bindE (if write then bindE (freeze_document env w data symbols) (\<lambda>d. Inr (d, write_file (at_root env FREEZE) (ae_dumps env d) w))
       else bindE (read_at env w FREEZE) (\<lambda>t. bindE (parse_json w t ''invalid API freeze JSON'') (\<lambda>d. Inr (d, w)))) (\<lambda>(document, w').
     bindE (check_freeze env w' data symbols (map fst expected) document) (\<lambda>_. Inr (document, w'))))"

definition check_channel_api :: "api_env \<Rightarrow> world \<Rightarrow> bool \<Rightarrow> (json \<times> world) py" where
  "check_channel_api env w write =
     bindE (load_api_manifest env w) (\<lambda>data. bindE (validate_symbols env w data) (\<lambda>symbols.
     bindE (validate_module_and_umbrella env w data symbols) (\<lambda>_. bindE (validate_extras_boundaries env w data symbols) (\<lambda>_.
     bindE (validate_removed_code env w symbols) (\<lambda>_. bindE (validate_removed_compile_contract env) (\<lambda>_.
     bindE (validate_docs env w symbols) (\<lambda>_. bindE (validate_versions env w data) (\<lambda>_. validate_freeze env w data symbols write))))))))"

section \<open>Writing the freeze document\<close>

lemma write_file_fields [simp]:
  "file_text (write_file p t w) = (file_text w)(p \<mapsto> t)" "sha256_hex (write_file p t w) = sha256_hex w" "json_loads (write_file p t w) = json_loads w"
  "globbed (write_file p t w) = globbed w" "resolved (write_file p t w) = resolved w"
  by (simp_all add: write_file_def)

lemma at_root_inj: "\<not> starts_with a ''/'' \<Longrightarrow> \<not> starts_with b ''/'' \<Longrightarrow> at_root env a = at_root env b \<longleftrightarrow> a = b"
  by (simp add: at_root_def slash_def)

lemma read_at_kept:
  "\<not> starts_with relative ''/'' \<Longrightarrow> relative \<noteq> FREEZE \<Longrightarrow> read_at env (write_file (at_root env FREEZE) t w) relative = read_at env w relative"
  by (simp add: read_file_def at_root_inj FREEZE_def)

lemma freeze_paths_kept: "freeze_paths env (write_file p t w) = freeze_paths env w"
  by (simp add: freeze_paths_def freeze_inputs_def)

lemma wire_version_kept: "current_wire_version env (write_file (at_root env FREEZE) t w) = current_wire_version env w"
proof -
  have "read_at env (write_file (at_root env FREEZE) t w) ''src/salias/src/channel.cpp'' = read_at env w ''src/salias/src/channel.cpp''"
    by (rule read_at_kept) (simp_all add: FREEZE_def)
  then show ?thesis unfolding current_wire_version_def by (simp only:)
qed

lemma aggregate_kept: "aggregate_sha (write_file p t w) = aggregate_sha w"
  by (simp add: aggregate_sha_def fun_eq_iff)

lemma jeq_sub_jints: "\<forall>(k, v) \<in> set c. map_of e k = Some v \<and> (\<exists>n. v = jint n) \<Longrightarrow> jeq_sub c e"
  by (induction c) auto

lemma jeq_jints: "distinct (map fst c) \<Longrightarrow> \<forall>(k, v) \<in> set c. \<exists>n. v = jint n \<Longrightarrow> jeq (JObj c) (JObj c)"
  by (auto intro!: jeq_sub_jints)

lemma api_counts_shape:
  assumes "api_counts data symbols = Inr c"
  shows "distinct (map fst c)" "\<forall>(k, v) \<in> set c. \<exists>n. v = jint n"
proof -
  obtain names where "mapE (\<lambda>s. bindE (count_status symbols s) (\<lambda>n. Inr (s, jint n))) (remdups names) = Inr c"
    using assms unfolding api_counts_def bindE_Inr by blast
  then have l: "list_all2 (\<lambda>s kv. \<exists>n. kv = (s, jint n)) (remdups names) c" by (auto simp: mapE_Inr elim!: list_all2_mono)
  then have "map fst c = remdups names" by (induction rule: list_all2_induct) auto
  then show "distinct (map fst c)" by simp
  show "\<forall>(k, v) \<in> set c. \<exists>n. v = jint n" using l by (force simp: list_all2_conv_all_nth in_set_conv_nth)
qed

lemma module_counts_shape: "module_counts data = Inr m \<Longrightarrow> jeq m m"
  unfolding module_counts_def bindE_Inr by auto

lemma entry_paths: "mapE (\<lambda>e. get e ''path'') (map entry_json es) = Inr (json_strings (map fst es))"
  by (induction es) (simp_all add: entry_json_def json_strings_def dict_get_def)

text \<open>The frozen files lie below the root under their relative path, and the freeze document is none of them.\<close>

definition frozen_plain :: "api_env \<Rightarrow> (string \<times> string) list \<Rightarrow> bool" where
  "frozen_plain env ps \<longleftrightarrow> (\<forall>(r, p) \<in> set ps. at_root env r = p \<and> p \<noteq> at_root env FREEZE)"

lemma freeze_entries_read:
  assumes "freeze_entries env w = Inr es" "freeze_paths env w = Inr ps" "frozen_plain env ps"
  shows "map fst es = map fst ps" "mapE (check_entry env (write_file (at_root env FREEZE) t w)) (map entry_json es) = Inr es"
proof -
  have "mapE (\<lambda>(r, p). bindE (sha256_file w p) (\<lambda>h. Inr (r, h))) ps = Inr es" using assms(1,2) by (simp add: freeze_entries_def)
  then have "map fst es = map fst ps \<and> mapE (check_entry env (write_file (at_root env FREEZE) t w)) (map entry_json es) = Inr es"
    using assms(3)
  proof (induction ps arbitrary: es)
    case (Cons rp ps)
    obtain r p where rp: "rp = (r, p)" by fastforce
    obtain h fs where e: "sha256_file w p = Inr h" "es = (r, h) # fs" "mapE (\<lambda>(r, p). bindE (sha256_file w p) (\<lambda>h. Inr (r, h))) ps = Inr fs"
      using Cons.prems(1) by (auto simp: rp)
    obtain u where u: "file_text w p = Some u" "h = sha256_hex w u" using e(1) by (auto simp: sha256_file_def split: option.splits)
    have p: "at_root env r = p" "p \<noteq> at_root env FREEZE" using Cons.prems(2) by (auto simp: frozen_plain_def rp)
    have "frozen_plain env ps" using Cons.prems(2) by (simp add: frozen_plain_def)
    then show ?case using Cons.IH [OF e(3)] p u
      by (auto simp: e(2) rp check_entry_def entry_json_def dict_get_def sha256_file_def is_file_def check_def)
  qed simp
  then show "map fst es = map fst ps" "mapE (check_entry env (write_file (at_root env FREEZE) t w)) (map entry_json es) = Inr es" by blast+
qed

lemma fresh_document_checks:
  assumes "freeze_document env w data symbols = Inr d" "freeze_paths env w = Inr ps" "frozen_plain env ps"
  shows "check_freeze env (write_file (at_root env FREEZE) t w) data symbols (map fst ps) d = Inr ()"
proof -
  obtain es counts revision modules wire aggregate where p: "freeze_entries env w = Inr es" "api_counts data symbols = Inr counts"
    "module_counts data = Inr modules" "current_wire_version env w = Inr wire" "aggregate_sha w es = Inr aggregate"
    and d: "d = JObj [(''schema_version'', jint 1), (''api'', JStr ''salias-channel''), (''state'', JStr FREEZE_STATE), (''release_tag'', JStr FREEZE_RELEASE_TAG),
       (''basis_commit'', JStr revision), (''freeze_date'', JStr (ae_today env)), (''api_counts'', JObj counts), (''module_export_counts'', modules),
       (''wire_protocol_version'', jint wire), (''files'', JList (map entry_json es)), (''aggregate_sha256'', JStr aggregate)]"
    using assms(1) unfolding freeze_document_def bindE_Inr sum.inject by metis
  have g: "get d ''schema_version'' = Inr (jint 1)" "get d ''api'' = Inr (JStr ''salias-channel'')" "get d ''state'' = Inr (JStr FREEZE_STATE)"
    "get d ''release_tag'' = Inr (JStr FREEZE_RELEASE_TAG)" "get d ''api_counts'' = Inr (JObj counts)" "get d ''module_export_counts'' = Inr modules"
    "get d ''wire_protocol_version'' = Inr (jint wire)" "get_or d ''files'' (JList []) = Inr (JList (map entry_json es))" "get d ''aggregate_sha256'' = Inr (JStr aggregate)"
    by (simp_all add: d dict_get_def)
  note e = freeze_entries_read(1) [OF p(1) assms(2,3)] freeze_entries_read(2) [OF p(1) assms(2,3), of t]
  have ok: "check True message = Inr ()" for message by (simp add: check_def)
  have one: "jeq (jint 1) (jint 1) = True" "jeq (jint wire) (jint wire) = True" by simp_all
  have counts: "jeq (JObj counts) (JObj counts) = True" "jeq modules modules = True"
    using jeq_jints [OF api_counts_shape [OF p(2)]] module_counts_shape [OF p(3)] by blast+
  have paths: "check_paths (json_strings (map fst es)) (map fst ps) = Inr ()" by (simp add: check_paths_def e(1))
  show ?thesis
    unfolding check_freeze_def g bindE.simps one if_True wire_version_kept p counts as_list.simps entry_paths paths e(2) aggregate_kept
    by (simp add: ok)
qed


section \<open>The freeze document pins the tree\<close>

definition digest_of :: "api_env \<Rightarrow> world \<Rightarrow> string \<Rightarrow> string option" where
  "digest_of env w relative = map_option (sha256_hex w) (file_text w (at_root env relative))"

lemma checked_entry: "check_entry env w e = Inr (r, h) \<Longrightarrow> getitem e ''path'' = Inr (JStr r) \<and> get e ''sha256'' = Inr (JStr h) \<and> digest_of env w r = Some h"
  unfolding check_entry_def bindE_Inr Let_def check_Inr
  by (auto simp: digest_of_def sha256_file_def split: option.splits elim!: as_str.elims)

lemma checked_freeze:
  assumes "check_freeze env w data symbols expected d = Inr ()"
  shows "\<exists>v es pairs n. get_or d ''files'' (JList []) = Inr v \<and> as_list v = Inr es \<and> mapE (\<lambda>e. get e ''path'') es = Inr (json_strings expected)
      \<and> mapE (check_entry env w) es = Inr pairs \<and> current_wire_version env w = Inr n \<and> get_or d ''wire_protocol_version'' JNull \<noteq> Inl TypeError
      \<and> (\<exists>x. get d ''wire_protocol_version'' = Inr x \<and> jeq x (jint n))"
proof -
  have paths: "check_paths ps expected = Inr u \<Longrightarrow> ps = json_strings expected" for ps u by (auto simp: check_paths_def split: if_splits)
  show ?thesis using assms unfolding check_freeze_def bindE_Inr check_Inr using paths by (metis Inl_Inr_False)
qed

lemma pinned_entry:
  assumes "mapE (\<lambda>e. get e ''path'') es = Inr (json_strings expected)" "mapE (check_entry env w) es = Inr pairs"
  shows "length es = length expected" "i < length expected \<Longrightarrow> get (es ! i) ''sha256'' = Inr (JStr (snd (pairs ! i))) \<and> digest_of env w (expected ! i) = Some (snd (pairs ! i))"
proof -
  show len: "length es = length expected" using mapE_length [OF assms(1)] by (simp add: json_strings_def)
  show "get (es ! i) ''sha256'' = Inr (JStr (snd (pairs ! i))) \<and> digest_of env w (expected ! i) = Some (snd (pairs ! i))" if i: "i < length expected"
  proof -
    obtain r h where rh: "pairs ! i = (r, h)" by fastforce
    have "get (es ! i) ''path'' = Inr (JStr (expected ! i))" using mapE_nth [OF assms(1), of i] i len by (simp add: json_strings_def)
    moreover have "check_entry env w (es ! i) = Inr (r, h)" using mapE_nth [OF assms(2), of i] i len rh by simp
    ultimately show ?thesis using checked_entry [of env w "es ! i" r h] getitem_get [of "es ! i" "''path''" "JStr r" JNull] rh by auto
  qed
qed

lemma unchanged_document: "validate_freeze env w data symbols False = Inr (d, w') \<Longrightarrow>
  \<exists>ps. freeze_paths env w = Inr ps \<and> check_freeze env w data symbols (map fst ps) d = Inr ()"
  unfolding validate_freeze_def bindE_Inr by auto

lemma json_strings_inj: "json_strings a = json_strings b \<Longrightarrow> a = b"
  by (auto simp: json_strings_def map_injective inj_def)

text \<open>C13.
  The freeze document pins the public surface: if it is accepted for two states of the repository, then both have the same
  frozen files, each of them is present in both with the same SHA-256 digest, and the wire protocol versions agree; and the frozen
  files are all those the program collects, each once and in increasing order.
\<close>

theorem freeze_pins_tree:
  assumes "validate_freeze env w data symbols False = Inr (d, w')" "validate_freeze env v data' symbols' False = Inr (d, v')"
  shows "\<exists>ps qs n. freeze_paths env w = Inr ps \<and> freeze_paths env v = Inr qs \<and> map fst ps = map fst qs
    \<and> (\<forall>r \<in> set (map fst ps). digest_of env w r \<noteq> None \<and> digest_of env w r = digest_of env v r)
    \<and> current_wire_version env w = Inr n \<and> current_wire_version env v = Inr n
    \<and> sorted (map fst ps) \<and> set (map snd ps) = resolved w ` set (freeze_inputs env w)"
proof -
  obtain ps where ps: "freeze_paths env w = Inr ps" "check_freeze env w data symbols (map fst ps) d = Inr ()" using unchanged_document [OF assms(1)] by blast
  obtain qs where qs: "freeze_paths env v = Inr qs" "check_freeze env v data' symbols' (map fst qs) d = Inr ()" using unchanged_document [OF assms(2)] by blast
  obtain f es pairs n x where a: "get_or d ''files'' (JList []) = Inr f" "as_list f = Inr es" "mapE (\<lambda>e. get e ''path'') es = Inr (json_strings (map fst ps))"
    "mapE (check_entry env w) es = Inr pairs" "current_wire_version env w = Inr n" "get d ''wire_protocol_version'' = Inr x" "jeq x (jint n)"
    using checked_freeze [OF ps(2)] by blast
  obtain f' es' pairs' n' x' where b: "get_or d ''files'' (JList []) = Inr f'" "as_list f' = Inr es'" "mapE (\<lambda>e. get e ''path'') es' = Inr (json_strings (map fst qs))"
    "mapE (check_entry env v) es' = Inr pairs'" "current_wire_version env v = Inr n'" "get d ''wire_protocol_version'' = Inr x'" "jeq x' (jint n')"
    using checked_freeze [OF qs(2)] by blast
  have same: "es' = es" "x' = x" using a(1,2,6) b(1,2,6) by auto
  have paths: "map fst ps = map fst qs" using a(3) b(3) unfolding same by (auto intro: json_strings_inj)
  have n: "n' = n" using a(7) b(7) unfolding same by (auto simp: jeq_jint_right neq_def feq_def)
  have "digest_of env w r \<noteq> None \<and> digest_of env w r = digest_of env v r" if r: "r \<in> set (map fst ps)" for r
  proof -
    obtain i where i: "i < length (map fst ps)" "map fst ps ! i = r" using r unfolding in_set_conv_nth by blast
    have j: "i < length (map fst qs)" using i(1) unfolding paths .
    note A = pinned_entry(2) [OF a(3,4) i(1), unfolded i(2)]
    note B = pinned_entry(2) [OF b(3,4) j, unfolded paths [symmetric] i(2)]
    have "snd (pairs ! i) = snd (pairs' ! i)" using conjunct1 [OF A] conjunct1 [OF B] unfolding same by simp
    then show ?thesis using conjunct2 [OF A] conjunct2 [OF B] by simp
  qed
  moreover have "sorted (map fst ps) \<and> set (map snd ps) = resolved w ` set (freeze_inputs env w)"
  proof -
    obtain rels where r: "mapE (relative_to (ae_root env)) (remdups (map (resolved w) (freeze_inputs env w))) = Inr rels"
      "ps = sort_key fst (zip rels (remdups (map (resolved w) (freeze_inputs env w))))"
      using ps(1) by (auto simp: freeze_paths_def Let_def)
    let ?u = "remdups (map (resolved w) (freeze_inputs env w))"
    have "set (map snd ps) = set (map snd (zip rels ?u))" by (simp add: r(2))
    also have "\<dots> = set ?u" using mapE_length [OF r(1)] by (subst map_snd_zip) simp_all
    finally show ?thesis by (simp add: r(2))
  qed
  ultimately show ?thesis using ps(1) qs(1) paths a(5) b(5) n by blast
qed

text \<open>Template arguments that hold a scope are cut in the middle, so such a name could never be found among the exports.\<close>

lemma scoped_argument_cut: "base_symbol (remove_prefix ''salias::'' ''salias::Channel<Mode::LatestMpmc>'') = ''LatestMpmc>''"
  by code_simp

section \<open>An accepted manifest\<close>

text \<open>The declaration a location names is in its line of its file.\<close>

definition declared_at :: "api_env \<Rightarrow> world \<Rightarrow> json \<Rightarrow> bool" where
  "declared_at env w location \<longleftrightarrow> (\<exists>f line n declaration t. getitem location ''file'' = Inr (JStr f) \<and> getitem location ''line'' = Inr line
     \<and> as_index line = Some n \<and> 1 \<le> n \<and> getitem location ''declaration'' = Inr (JStr declaration) \<and> declaration \<noteq> []
     \<and> file_text w (at_root env f) = Some t \<and> nat n \<le> length (splitlines t) \<and> contains declaration (splitlines t ! (nat n - 1)))"

definition symbol_sound :: "api_env \<Rightarrow> world \<Rightarrow> json \<Rightarrow> bool" where
  "symbol_sound env w s \<longleftrightarrow> (\<exists>status location. get s ''status'' = Inr (JStr status) \<and> status \<in> set STATUSES \<and> get s ''location'' = Inr location
     \<and> (location \<noteq> JNull \<longrightarrow> declared_at env w location)
     \<and> (if status = ''removed'' then \<exists>d. get_or s ''exports'' (JObj []) = Inr (JObj d) \<and> (\<forall>kv \<in> set d. \<not> truthy (snd kv)) else location \<noteq> JNull))"

lemma located_declared: "validate_location env w True location = Inr u \<Longrightarrow> declared_at env w location"
  unfolding validate_location_def bindE_Inr check_Inr Let_def if_True not_True_eq_False if_False
  by (auto simp: declared_at_def read_file_def is_file_def split: option.splits elim!: as_str.elims is_str.elims)

lemma located_symbol:
  assumes "located env w s = Inr u"
  shows "\<exists>name location previous status. getitem s ''name'' = Inr name \<and> get s ''location'' = Inr location \<and> get s ''previous_location'' = Inr previous
    \<and> getitem s ''status'' = Inr status \<and> (location \<noteq> JNull \<longrightarrow> declared_at env w location) \<and> (status \<noteq> JStr ''removed'' \<longrightarrow> location \<noteq> JNull)
    \<and> (names_it REMOVED_ALIAS_NAMES name \<longrightarrow> location = JNull \<and> previous \<noteq> JNull)"
  using assms located_declared unfolding located_def bindE_Inr check_Inr by (metis (full_types))

lemma valid_symbol:
  assumes "validate_symbol statuses s names = Inr names'" "same_set statuses (map JStr STATUSES)" "\<forall>x \<in> set statuses. hashable x"
  shows "\<exists>name status. names' = names @ [name] \<and> get s ''name'' = Inr name \<and> \<not> mem_json name names \<and> get s ''status'' = Inr (JStr status) \<and> status \<in> set STATUSES
    \<and> (status = ''removed'' \<longrightarrow> (\<exists>d. get_or s ''exports'' (JObj []) = Inr (JObj d) \<and> (\<forall>kv \<in> set d. \<not> truthy (snd kv))))"
proof -
  obtain name status exports bad ok exported where a: "get s ''name'' = Inr name" "(if truthy name then in_set name names else Inr True) = Inr bad" "\<not> bad"
    "get s ''status'' = Inr status" "in_set status statuses = Inr ok" "ok" "get_or s ''exports'' (JObj []) = Inr exports"
    "(if status = JStr ''removed'' then any_value exports else Inr False) = Inr exported" "\<not> exported" "names' = names @ [name]"
    using assms(1) unfolding validate_symbol_def bindE_Inr check_Inr sum.inject by blast
  have fresh: "\<not> mem_json name names" using a(2,3) by (auto simp: in_set_def split: if_splits)
  obtain x where x: "x \<in> set statuses" "jeq x status" using a(5,6) by (auto simp: in_set_def mem_json_def)
  then obtain n where "n \<in> set STATUSES" "jeq (JStr n) x" using assms(2) by (auto simp: same_set_def mem_json_def)
  then have s: "status = JStr n" "n \<in> set STATUSES" using x(2) by auto
  have "\<exists>d. get_or s ''exports'' (JObj []) = Inr (JObj d) \<and> (\<forall>kv \<in> set d. \<not> truthy (snd kv))" if "n = ''removed''"
    using a(7-9) that s(1) by (cases exports) (auto simp: any_value_def)
  then show ?thesis using a(1,4,10) fresh s by blast
qed

lemma valid_symbols:
  assumes "foldE (validate_symbol statuses) symbols names = Inr names'" "same_set statuses (map JStr STATUSES)" "\<forall>x \<in> set statuses. hashable x"
  shows "\<exists>ns. names' = names @ ns \<and> mapE (\<lambda>s. get s ''name'') symbols = Inr ns \<and> (\<forall>i < length ns. \<not> mem_json (ns ! i) (names @ take i ns))
    \<and> (\<forall>s \<in> set symbols. \<exists>status. get s ''status'' = Inr (JStr status) \<and> status \<in> set STATUSES
        \<and> (status = ''removed'' \<longrightarrow> (\<exists>d. get_or s ''exports'' (JObj []) = Inr (JObj d) \<and> (\<forall>kv \<in> set d. \<not> truthy (snd kv)))))"
  using assms(1)
proof (induction symbols arbitrary: names)
  case (Cons s symbols)
  obtain mid where m: "validate_symbol statuses s names = Inr mid" "foldE (validate_symbol statuses) symbols mid = Inr names'" using Cons.prems by auto
  obtain name where v: "mid = names @ [name]" "get s ''name'' = Inr name" "\<not> mem_json name names"
    "\<exists>status. get s ''status'' = Inr (JStr status) \<and> status \<in> set STATUSES
        \<and> (status = ''removed'' \<longrightarrow> (\<exists>d. get_or s ''exports'' (JObj []) = Inr (JObj d) \<and> (\<forall>kv \<in> set d. \<not> truthy (snd kv))))"
    using valid_symbol [OF m(1) assms(2,3)] by blast
  obtain ns where ns: "names' = mid @ ns" "mapE (\<lambda>s. get s ''name'') symbols = Inr ns" "\<forall>i < length ns. \<not> mem_json (ns ! i) (mid @ take i ns)"
    "\<forall>s \<in> set symbols. \<exists>status. get s ''status'' = Inr (JStr status) \<and> status \<in> set STATUSES
        \<and> (status = ''removed'' \<longrightarrow> (\<exists>d. get_or s ''exports'' (JObj []) = Inr (JObj d) \<and> (\<forall>kv \<in> set d. \<not> truthy (snd kv))))"
    using Cons.IH [OF m(2)] by blast
  have "\<not> mem_json ((name # ns) ! i) (names @ take i (name # ns))" if "i < length (name # ns)" for i
    using that ns(3) v(1,3) by (cases i) simp_all
  moreover have "mapE (\<lambda>s. get s ''name'') (s # symbols) = Inr (name # ns)" using v(2) ns(2) by simp
  ultimately show ?case using ns(1,4) v(1,4) by (intro exI [of _ "name # ns"]) simp
qed simp

lemma status_partition:
  assumes "\<forall>s \<in> set symbols. \<exists>status. get s ''status'' = Inr (JStr status) \<and> status \<in> set STATUSES"
    "\<forall>(status, n) \<in> set EXPECTED_COUNTS. count_status symbols status = Inr n"
  shows "int (length symbols) = sum_list (map snd EXPECTED_COUNTS)"
proof -
  have split: "mapE (\<lambda>(status, n). count_status xs status) EXPECTED_COUNTS = Inr ns \<Longrightarrow> int (length xs) = sum_list ns"
    if "\<forall>s \<in> set xs. \<exists>status. get s ''status'' = Inr (JStr status) \<and> status \<in> set STATUSES" for xs ns
    using that
  proof (induction xs arbitrary: ns)
    case Nil then show ?case by (auto simp: EXPECTED_COUNTS_def count_status_def)
  next
    case (Cons s xs)
    obtain status where st: "get s ''status'' = Inr (JStr status)" "status \<in> set STATUSES" using Cons.prems(2) by auto
    have one: "count_status (s # xs) k = Inr n \<Longrightarrow> \<exists>m. count_status xs k = Inr m \<and> n = m + (if k = status then 1 else 0)" for k n
      using st(1) by (cases s) (auto simp: count_status_def item_is_def dict_get_def split: option.splits)
    obtain a b c d where n: "ns = [a, b, c, d]" "count_status (s # xs) ''core'' = Inr a" "count_status (s # xs) ''compat'' = Inr b"
      "count_status (s # xs) ''extras'' = Inr c" "count_status (s # xs) ''removed'' = Inr d"
      using Cons.prems(1) by (auto simp: EXPECTED_COUNTS_def)
    obtain a' b' c' d' where m: "count_status xs ''core'' = Inr a'" "count_status xs ''compat'' = Inr b'" "count_status xs ''extras'' = Inr c'"
      "count_status xs ''removed'' = Inr d'" "a = a' + (if ''core'' = status then 1 else 0)" "b = b' + (if ''compat'' = status then 1 else 0)"
      "c = c' + (if ''extras'' = status then 1 else 0)" "d = d' + (if ''removed'' = status then 1 else 0)"
      using one [OF n(2)] one [OF n(3)] one [OF n(4)] one [OF n(5)] by blast
    have "int (length xs) = sum_list [a', b', c', d']" using m(1-4) Cons.prems(2) by (intro Cons.IH) (auto simp: EXPECTED_COUNTS_def)
    then show ?case using st(2) m(5-8) n(1) by (auto simp: STATUSES_def)
  qed
  show ?thesis using split [OF assms(1), of "map snd EXPECTED_COUNTS"] assms(2) by (auto simp: EXPECTED_COUNTS_def)
qed

lemma listed_removed:
  assumes "extra_listed symbols n = Inr u"
  shows "\<exists>s \<in> set symbols. getitem s ''name'' = Inr (JStr n) \<and> getitem s ''status'' = Inr (JStr ''removed'')"
proof -
  obtain b where "is_removed symbols n = Inr b" "b" using assms unfolding extra_listed_def bindE_Inr check_Inr by blast
  then obtain s where s: "symbol_named symbols n = Some s" "item_is ''status'' (JStr ''removed'') s = Inr True"
    by (auto simp: is_removed_def split: option.splits)
  then have "s \<in> set symbols" "getitem s ''name'' = Inr (JStr n)" by (auto simp: symbol_named_def find_Some_iff)
  moreover have "getitem s ''status'' = Inr (JStr ''removed'')" using s(2) by (auto simp: item_is_def)
  ultimately show ?thesis by blast
qed

text \<open>C30.
  An accepted manifest lists 53 symbols with pairwise different names, 23 of them removed.  Every symbol that is not removed has a location whose
  line of an existing file holds the declaration; a removed symbol exports nothing; and each of the removed extras names, canonical
  and top-level, is listed as removed with only a previous location.
\<close>

theorem manifest_audited:
  assumes "validate_symbols env w data = Inr symbols"
  shows "\<exists>names. mapE (\<lambda>s. get s ''name'') symbols = Inr names \<and> length names = 53
    \<and> (\<forall>i < length names. \<not> mem_json (names ! i) (take i names)) \<and> count_status symbols ''removed'' = Inr 23
    \<and> (\<forall>s \<in> set symbols. symbol_sound env w s)
    \<and> (\<forall>n \<in> set (CANONICAL_EXTRAS_NAMES @ TOP_LEVEL_EXTRAS_NAMES). \<exists>s \<in> set symbols. get s ''name'' = Inr (JStr n)
        \<and> get s ''status'' = Inr (JStr ''removed'') \<and> get s ''location'' = Inr JNull \<and> get s ''previous_location'' \<noteq> Inr JNull)"
proof -
  obtain st statuses names counts us ls where a: "json_set st = Inr statuses" "same_set statuses (map JStr STATUSES)"
    "foldE (validate_symbol statuses) symbols [] = Inr names"
    "mapE (\<lambda>(status, n). bindE (count_status symbols status) (\<lambda>m. Inr (m = n))) EXPECTED_COUNTS = Inr counts" "list_all id counts"
    "mapE (extra_listed symbols) (CANONICAL_EXTRAS_NAMES @ TOP_LEVEL_EXTRAS_NAMES) = Inr us" "validate_locations env w symbols = Inr ls"
    using assms unfolding validate_symbols_def bindE_Inr check_Inr sum.inject by blast
  have "\<forall>x \<in> set statuses. hashable x" using a(1) set_fold_add [of st "[]"] by (auto simp: json_set_def)
  note v = valid_symbols [OF a(3,2) this]
  have counts: "\<forall>(status, n) \<in> set EXPECTED_COUNTS. count_status symbols status = Inr n"
    using a(4,5) by (auto simp: EXPECTED_COUNTS_def)
  have "\<forall>s \<in> set symbols. \<exists>status. get s ''status'' = Inr (JStr status) \<and> status \<in> set STATUSES" using v by blast
  from status_partition [OF this counts] have length: "length symbols = 53" by (simp add: EXPECTED_COUNTS_def)
  have loc: "\<exists>u. located env w s = Inr u" if "s \<in> set symbols" for s
    using a(7) that by (auto simp: validate_locations_def dest!: mapE_set)
  have sound: "symbol_sound env w s" if s: "s \<in> set symbols" for s
  proof -
    obtain u where u: "located env w s = Inr u" using loc [OF s] by blast
    obtain location status' where l: "get s ''location'' = Inr location" "location \<noteq> JNull \<longrightarrow> declared_at env w location"
      "getitem s ''status'' = Inr status'" "status' \<noteq> JStr ''removed'' \<longrightarrow> location \<noteq> JNull"
      using located_symbol [OF u] by blast
    obtain status where st: "get s ''status'' = Inr (JStr status)" "status \<in> set STATUSES"
      "status = ''removed'' \<longrightarrow> (\<exists>d. get_or s ''exports'' (JObj []) = Inr (JObj d) \<and> (\<forall>kv \<in> set d. \<not> truthy (snd kv)))" using v s by blast
    have "status' = JStr status" using getitem_get [OF l(3), of JNull] st(1) by simp
    then show ?thesis using l st unfolding symbol_sound_def by auto
  qed
  have extra: "\<exists>s \<in> set symbols. get s ''name'' = Inr (JStr n) \<and> get s ''status'' = Inr (JStr ''removed'') \<and> get s ''location'' = Inr JNull
      \<and> get s ''previous_location'' \<noteq> Inr JNull" if n: "n \<in> set (CANONICAL_EXTRAS_NAMES @ TOP_LEVEL_EXTRAS_NAMES)" for n
  proof -
    obtain u where "extra_listed symbols n = Inr u" using mapE_set [OF a(6) n] by blast
    then obtain s where s: "s \<in> set symbols" "getitem s ''name'' = Inr (JStr n)" "getitem s ''status'' = Inr (JStr ''removed'')" using listed_removed by blast
    obtain u' where u: "located env w s = Inr u'" using loc [OF s(1)] by blast
    have "names_it REMOVED_ALIAS_NAMES (JStr n)" using n by (auto simp: names_it_def REMOVED_ALIAS_NAMES_def)
    then have "get s ''location'' = Inr JNull \<and> get s ''previous_location'' \<noteq> Inr JNull" using located_symbol [OF u] s(2) by auto
    then show ?thesis using s getitem_get by blast
  qed
  have "count_status symbols ''removed'' = Inr 23" using counts by (simp add: EXPECTED_COUNTS_def)
  moreover have "\<exists>ns. mapE (\<lambda>s. get s ''name'') symbols = Inr ns \<and> (\<forall>i < length ns. \<not> mem_json (ns ! i) (take i ns))" using v by auto
  then obtain ns where ns: "mapE (\<lambda>s. get s ''name'') symbols = Inr ns" "\<forall>i < length ns. \<not> mem_json (ns ! i) (take i ns)" by blast
  moreover have "length ns = 53" using mapE_length [OF ns(1)] length by simp
  ultimately show ?thesis using sound extra by blast
qed

section \<open>A concrete repository\<close>

definition demo_api_env :: api_env where
  "demo_api_env = \<lparr>ae_root = ''/r'', ae_exists = (\<lambda>_. False), ae_word = (\<lambda>_. True), ae_space = (\<lambda>_. False), ae_compile = (\<lambda>_. None),
     ae_revision = (0, ''rev'', []), ae_today = ''day'', ae_dumps = (\<lambda>_. ''doc'')\<rparr>"

definition demo_api_data :: json where
  "demo_api_data = JObj [(''statuses'', JObj (map (\<lambda>s. (s, JStr ''x'')) STATUSES)), (''module_exports'', JList []), (''extras_module_exports'', JList [])]"

definition demo_api_files :: "(string \<times> string) list" where
  "demo_api_files = map (\<lambda>f. (at_root demo_api_env f, ''t'')) (MANIFEST # MODULE_FILE # FREEZE_PACKAGING_FILES @ [''src/core/a.hpp''])
     @ [(''/r/src/salias/src/channel.cpp'', ''kNamedVersion = 3''), (''/r/doc/api/channel-api-freeze.json'', ''doc'')]"

definition demo_api_paths :: "string list" where
  "demo_api_paths = [''CMakeLists.txt'', ''cmake/saliasConfig.cmake.in'', ''doc/api/channel-api-manifest.json'', ''mcpp.toml'', ''src/core/CMakeLists.txt'',
     ''src/core/a.hpp'', ''src/salias.cppm'', ''src/salias/CMakeLists.txt'']"

definition demo_freeze :: json where
  "demo_freeze = JObj [(''schema_version'', jint 1), (''api'', JStr ''salias-channel''), (''state'', JStr FREEZE_STATE), (''release_tag'', JStr FREEZE_RELEASE_TAG),
     (''basis_commit'', JStr ''rev''), (''freeze_date'', JStr ''day''), (''api_counts'', JObj (map (\<lambda>s. (s, jint 0)) STATUSES)),
     (''module_export_counts'', JObj [(''core'', jint 0), (''extras'', jint 0)]), (''wire_protocol_version'', jint 3),
     (''files'', JList (map (\<lambda>p. entry_json (p, ''t'')) demo_api_paths)),
     (''aggregate_sha256'', JStr (concat (map (\<lambda>p. ''t  '' @ p @ [nl]) demo_api_paths)))]"

definition demo_api_world :: world where
  "demo_api_world = \<lparr>file_text = map_of demo_api_files, sha256_hex = (\<lambda>t. t), json_loads = (\<lambda>_. Inr demo_freeze),
     globbed = (\<lambda>d _. if d = ''/r/src/core'' then [''/r/src/core/a.hpp''] else []), resolved = (\<lambda>p. p)\<rparr>"

lemma demo_freeze_paths: "freeze_paths demo_api_env demo_api_world = Inr (map (\<lambda>p. (p, ''/r/'' @ p)) demo_api_paths)"
  by code_simp

lemma demo_freeze_document: "freeze_document demo_api_env demo_api_world demo_api_data [] = Inr demo_freeze"
  by code_simp

lemma demo_frozen_plain: "frozen_plain demo_api_env (map (\<lambda>p. (p, ''/r/'' @ p)) demo_api_paths)"
  by code_simp


definition demo_later_world :: world where
  "demo_later_world = write_file ''/r/notes.txt'' ''n'' demo_api_world"

lemma demo_validated_freeze:
  "validate_freeze demo_api_env demo_api_world demo_api_data [] False = Inr (demo_freeze, demo_api_world)"
  "validate_freeze demo_api_env demo_later_world demo_api_data [] False = Inr (demo_freeze, demo_later_world)"
proof -
  have "check_freeze demo_api_env demo_api_world demo_api_data [] demo_api_paths demo_freeze = Inr ()"
    "check_freeze demo_api_env demo_later_world demo_api_data [] demo_api_paths demo_freeze = Inr ()"
    "read_at demo_api_env demo_api_world FREEZE = Inr ''doc''" "read_at demo_api_env demo_later_world FREEZE = Inr ''doc''" by code_simp+
  moreover have "freeze_paths demo_api_env demo_later_world = freeze_paths demo_api_env demo_api_world"
    by (simp add: demo_later_world_def freeze_paths_kept)
  moreover have "parse_json demo_api_world ''doc'' m = Inr demo_freeze" "parse_json demo_later_world ''doc'' m = Inr demo_freeze" for m
    by (simp_all add: parse_json_def demo_later_world_def demo_api_world_def)
  ultimately show "validate_freeze demo_api_env demo_api_world demo_api_data [] False = Inr (demo_freeze, demo_api_world)"
    "validate_freeze demo_api_env demo_later_world demo_api_data [] False = Inr (demo_freeze, demo_later_world)"
    by (simp_all add: validate_freeze_def demo_freeze_paths comp_def)
qed

text \<open>Two trees that differ in a file outside the public surface.\<close>

lemma freeze_pins_tree_witness:
  "\<exists>ps qs n. freeze_paths demo_api_env demo_api_world = Inr ps \<and> freeze_paths demo_api_env demo_later_world = Inr qs \<and> map fst ps = map fst qs
    \<and> (\<forall>r \<in> set (map fst ps). digest_of demo_api_env demo_api_world r \<noteq> None
        \<and> digest_of demo_api_env demo_api_world r = digest_of demo_api_env demo_later_world r)
    \<and> current_wire_version demo_api_env demo_api_world = Inr n \<and> current_wire_version demo_api_env demo_later_world = Inr n
    \<and> sorted (map fst ps) \<and> set (map snd ps) = resolved demo_api_world ` set (freeze_inputs demo_api_env demo_api_world)"
  by (rule freeze_pins_tree [OF demo_validated_freeze])

definition demo_exports :: "bool \<Rightarrow> json" where
  "demo_exports b = JObj (map (\<lambda>f. (f, JBool b)) EXPORT_FIELDS)"

definition demo_location :: json where
  "demo_location = JObj [(''file'', JStr ''mcpp.toml''), (''line'', jint 1), (''declaration'', JStr ''t'')]"

definition demo_core :: "char \<Rightarrow> json" where
  "demo_core c = JObj [(''name'', JStr [c]), (''status'', JStr ''core''), (''replacement'', JStr ''r''), (''exports'', demo_exports True), (''location'', demo_location)]"

definition demo_gone :: "string \<Rightarrow> json" where
  "demo_gone n = JObj [(''name'', JStr n), (''status'', JStr ''removed''), (''replacement'', JStr ''None; removed permanently in v6.0.0''),
     (''exports'', demo_exports False), (''previous_location'', demo_location)]"

definition demo_gone_names :: "string list" where
  "demo_gone_names = ALIAS_NAMES @ CANONICAL_EXTRAS_NAMES @ TOP_LEVEL_EXTRAS_NAMES @ [''salias::Channel<Mode::LatestMpmc>'']"

definition demo_letters :: string where
  "demo_letters = ''ABCDEFGHIJKLMNOPQRSTUVWXYZabcd''"

definition demo_symbols :: "json list" where
  "demo_symbols = map demo_core demo_letters @ map demo_gone demo_gone_names"

definition demo_manifest_data :: json where
  "demo_manifest_data = JObj [(''symbols'', JList demo_symbols), (''statuses'', JObj (map (\<lambda>s. (s, JStr ''x'')) STATUSES)),
     (''current_api_state'', JStr FREEZE_STATE), (''removed_symbols'', JList (map JStr demo_gone_names)),
     (''removal_metadata'', JObj [(''state'', JStr ''extras_removed_released''), (''release_tag'', JStr REMOVAL_RELEASE_TAG),
        (''wire_protocol_changed'', JBool False), (''compatibility_surface_retained'', JBool False)])]"

lemma demo_core_valid: "JStr [c] \<notin> set names \<Longrightarrow> validate_symbol (json_strings STATUSES) (demo_core c) names = Inr (names @ [JStr [c]])"
  by (simp add: validate_symbol_def demo_core_def demo_exports_def EXPORT_FIELDS_def dict_get_def in_set_def mem_json_def json_strings_def STATUSES_def check_def)

lemma demo_gone_valid: "n \<noteq> [] \<Longrightarrow> JStr n \<notin> set names \<Longrightarrow> validate_symbol (json_strings STATUSES) (demo_gone n) names = Inr (names @ [JStr n])"
  by (simp add: validate_symbol_def demo_gone_def demo_exports_def EXPORT_FIELDS_def dict_get_def in_set_def mem_json_def json_strings_def STATUSES_def check_def
    any_value_def)

lemma demo_core_names: "distinct cs \<Longrightarrow> \<forall>c \<in> set cs. JStr [c] \<notin> set names \<Longrightarrow>
    foldE (validate_symbol (json_strings STATUSES)) (map demo_core cs) names = Inr (names @ map (\<lambda>c. JStr [c]) cs)"
proof (induction cs arbitrary: names)
  case (Cons c cs)
  then have "\<forall>x \<in> set cs. JStr [x] \<notin> set (names @ [JStr [c]])" by auto
  then show ?case using Cons.IH Cons.prems by (simp add: demo_core_valid)
qed simp

lemma demo_gone_fold: "distinct ns \<Longrightarrow> \<forall>n \<in> set ns. n \<noteq> [] \<and> JStr n \<notin> set names \<Longrightarrow>
    foldE (validate_symbol (json_strings STATUSES)) (map demo_gone ns) names = Inr (names @ map JStr ns)"
proof (induction ns arbitrary: names)
  case (Cons n ns)
  then have "\<forall>x \<in> set ns. x \<noteq> [] \<and> JStr x \<notin> set (names @ [JStr n])" by auto
  then show ?case using Cons.IH Cons.prems by (simp add: demo_gone_valid)
qed simp

lemma demo_gone_distinct: "distinct demo_gone_names" "\<forall>n \<in> set demo_gone_names. n \<noteq> [] \<and> (\<forall>c. [c] \<noteq> n)" "length demo_gone_names = 23"
  by (simp_all add: demo_gone_names_def ALIAS_NAMES_def ALIASES_def CANONICAL_EXTRAS_NAMES_def TOP_LEVEL_EXTRAS_NAMES_def EXTRAS_def)

lemma demo_symbol_counts: "n \<in> set demo_gone_names \<Longrightarrow> symbol_named demo_symbols n = Some (demo_gone n)"
  "count_status demo_symbols ''core'' = Inr 30" "count_status demo_symbols ''compat'' = Inr 0" "count_status demo_symbols ''extras'' = Inr 0"
  "count_status demo_symbols ''removed'' = Inr 23"
proof -
  have core: "find (\<lambda>s. getitem s ''name'' = Inr (JStr n)) (map demo_core cs) = None" if "\<forall>c. [c] \<noteq> n" for cs
    using that by (induction cs) (simp_all add: demo_core_def)
  have gone: "find (\<lambda>s. getitem s ''name'' = Inr (JStr n)) (map demo_gone ns) = Some (demo_gone n)" if "n \<in> set ns" for ns
    using that by (induction ns) (auto simp: demo_gone_def)
  have app: "find p (xs @ ys) = (case find p xs of None \<Rightarrow> find p ys | Some x \<Rightarrow> Some x)" for p and xs ys :: "json list"
    by (induction xs) simp_all
  show "symbol_named demo_symbols n = Some (demo_gone n)" if "n \<in> set demo_gone_names"
    using core [of demo_letters] gone [OF that] demo_gone_distinct(2) that
    by (simp only: symbol_named_def demo_symbols_def app) simp
  have s: "mapE (item_is ''status'' (JStr k)) demo_symbols = Inr (replicate 30 (k = ''core'') @ replicate 23 (k = ''removed''))" for k
  proof -
    have "mapE (item_is ''status'' (JStr k)) (map demo_core cs) = Inr (replicate (length cs) (k = ''core''))" for cs
      by (induction cs) (auto simp: demo_core_def item_is_def)
    moreover have "mapE (item_is ''status'' (JStr k)) (map demo_gone ns) = Inr (replicate (length ns) (k = ''removed''))" for ns
      by (induction ns) (auto simp: demo_gone_def item_is_def)
    moreover have "length demo_letters = 30" by (simp add: demo_letters_def)
    ultimately show ?thesis unfolding demo_symbols_def mapE_append by (simp only: bindE.simps demo_gone_distinct(3))
  qed
  show "count_status demo_symbols ''core'' = Inr 30" "count_status demo_symbols ''compat'' = Inr 0" "count_status demo_symbols ''extras'' = Inr 0"
    "count_status demo_symbols ''removed'' = Inr 23" by (simp_all add: count_status_def s filter_replicate)
qed

lemma demo_listed: "n \<in> set demo_gone_names \<Longrightarrow> extra_listed demo_symbols n = Inr ()"
proof -
  assume n: "n \<in> set demo_gone_names"
  then have "is_removed demo_symbols n = Inr True" by (simp add: is_removed_def demo_symbol_counts(1)) (simp add: demo_gone_def item_is_def)
  moreover have "getitem (the (symbol_named demo_symbols n)) ''replacement'' = Inr (JStr ''None; removed permanently in v6.0.0'')"
    using n by (simp add: demo_symbol_counts(1)) (simp add: demo_gone_def)
  moreover have "starts_json (JStr ''None; removed permanently in v6.0.0'') (''None; removed permanently in '' @ REMOVAL_RELEASE_TAG) = Inr True"
    by (simp add: starts_json_def REMOVAL_RELEASE_TAG_def)
  ultimately show ?thesis unfolding extra_listed_def by (simp only: bindE.simps check_def simp_thms if_True)
qed

lemma demo_located: "s \<in> set demo_symbols \<Longrightarrow> located demo_api_env demo_api_world s = Inr ()"
proof -
  have loc: "validate_location demo_api_env demo_api_world True demo_location = Inr ()"
    "validate_location demo_api_env demo_api_world False demo_location = Inr ()" by code_simp+
  have core: "\<not> names_it REMOVED_ALIAS_NAMES (JStr [c])" for c
    using demo_gone_distinct(2) by (auto simp: names_it_def REMOVED_ALIAS_NAMES_def demo_gone_names_def)
  have ok: "check True m = Inr ()" for m by (simp add: check_def)
  have some: "(demo_location = JNull) = False" by (simp add: demo_location_def)
  have g: "getitem (demo_core c) ''name'' = Inr (JStr [c])" "get (demo_core c) ''location'' = Inr demo_location" "get (demo_core c) ''previous_location'' = Inr JNull"
    "getitem (demo_core c) ''status'' = Inr (JStr ''core'')" for c by (simp_all add: demo_core_def dict_get_def)
  have h: "getitem (demo_gone n) ''name'' = Inr (JStr n)" "get (demo_gone n) ''location'' = Inr JNull" "get (demo_gone n) ''previous_location'' = Inr demo_location"
    "getitem (demo_gone n) ''status'' = Inr (JStr ''removed'')" for n by (simp_all add: demo_gone_def dict_get_def)
  have "located demo_api_env demo_api_world (demo_core c) = Inr ()" for c
    unfolding located_def g bindE.simps by (simp only: some simp_thms if_True if_False loc bindE.simps core ok)
  moreover have "located demo_api_env demo_api_world (demo_gone n) = Inr ()" for n
    unfolding located_def h bindE.simps by (simp only: some simp_thms if_True if_False loc bindE.simps ok)
  moreover assume "s \<in> set demo_symbols"
  ultimately show ?thesis by (auto simp: demo_symbols_def)
qed

lemma demo_removed_names: "removed_names demo_symbols = Inr (map JStr demo_gone_names)"
proof -
  have "filterE (item_is ''status'' (JStr ''removed'')) (map demo_core cs @ xs) = filterE (item_is ''status'' (JStr ''removed'')) xs" for cs xs
    by (induction cs) (auto simp: demo_core_def item_is_def)
  moreover have "filterE (item_is ''status'' (JStr ''removed'')) (map demo_gone ns) = Inr (map demo_gone ns)" for ns
    by (induction ns) (auto simp: demo_gone_def item_is_def)
  moreover have "mapE (\<lambda>s. getitem s ''name'') (map demo_gone ns) = Inr (map JStr ns)" for ns by (induction ns) (simp_all add: demo_gone_def)
  ultimately show ?thesis unfolding removed_names_def demo_symbols_def by (simp only: bindE.simps)
qed

lemma demo_manifest_valid: "validate_symbols demo_api_env demo_api_world demo_manifest_data = Inr demo_symbols"
proof -
  have get: "get_or demo_manifest_data ''symbols'' (JList []) = Inr (JList demo_symbols)"
    "get_or demo_manifest_data ''statuses'' (JObj []) = Inr (JObj (map (\<lambda>s. (s, JStr ''x'')) STATUSES))"
    "get demo_manifest_data ''current_api_state'' = Inr (JStr FREEZE_STATE)" "get_or demo_manifest_data ''removed_symbols'' (JList []) = Inr (JList (map JStr demo_gone_names))"
    by (simp_all add: demo_manifest_data_def dict_get_def)
  have meta: "removal_metadata_ok demo_manifest_data = Inr ()" by (simp add: removal_metadata_ok_def demo_manifest_data_def dict_get_def check_def)
  have st: "as_list (JObj (map (\<lambda>s. (s, JStr ''x'')) STATUSES)) = Inr (json_strings STATUSES)" "json_set (json_strings STATUSES) = Inr (json_strings STATUSES)"
    "same_set (json_strings STATUSES) (map JStr STATUSES) = True" by code_simp+
  have fold: "foldE (validate_symbol (json_strings STATUSES)) demo_symbols [] = Inr (map (\<lambda>c. JStr [c]) demo_letters @ map JStr demo_gone_names)"
    using demo_gone_distinct by (simp only: demo_symbols_def foldE_append) (subst demo_core_names, simp add: demo_letters_def, simp, simp only: bindE.simps, subst demo_gone_fold, auto)
  have ok: "check True m = Inr ()" for m by (simp add: check_def)
  have extra: "mapE (extra_listed demo_symbols) (CANONICAL_EXTRAS_NAMES @ TOP_LEVEL_EXTRAS_NAMES) = Inr (map (\<lambda>_. ()) (CANONICAL_EXTRAS_NAMES @ TOP_LEVEL_EXTRAS_NAMES))"
    by (rule mapE_total, rule demo_listed) (auto simp: demo_gone_names_def)
  have places: "validate_locations demo_api_env demo_api_world demo_symbols = Inr ()"
    by (simp add: validate_locations_def mapE_total [where g = "\<lambda>_. ()"] demo_located)
  have latest: "is_removed demo_symbols ''salias::Channel<Mode::LatestMpmc>'' = Inr True"
    by (subst is_removed_def, subst demo_symbol_counts(1)) (simp_all add: demo_gone_names_def demo_gone_def item_is_def)
  have "jeq x x" if "x \<in> set (fold add_json (map JStr demo_gone_names) [])" for x
    using that set_fold_add [of "map JStr demo_gone_names" "[]"] by auto
  then have "same_set (fold add_json (map JStr demo_gone_names) []) (fold add_json (map JStr demo_gone_names) [])"
    unfolding same_set_def mem_json_def by blast
  then obtain rs where rs: "json_set (map JStr demo_gone_names) = Inr rs" "same_set rs rs = True" by (auto simp: json_set_def)
  have counts: "mapE (\<lambda>(status, n). bindE (count_status demo_symbols status) (\<lambda>m. Inr (m = n))) EXPECTED_COUNTS = Inr [True, True, True, True]"
    "list_all id [True, True, True, True]" by (simp_all add: EXPECTED_COUNTS_def demo_symbol_counts(2-))
  show ?thesis
    unfolding validate_symbols_def get st bindE.simps
    by (simp only: st fold bindE.simps as_list.simps counts extra places latest meta demo_removed_names rs ok refl)
qed

text \<open>A manifest of thirty core symbols and the twenty-three removed ones.\<close>

lemma manifest_audited_witness:
  "\<exists>names. mapE (\<lambda>s. get s ''name'') demo_symbols = Inr names \<and> length names = 53
    \<and> (\<forall>i < length names. \<not> mem_json (names ! i) (take i names)) \<and> count_status demo_symbols ''removed'' = Inr 23
    \<and> (\<forall>s \<in> set demo_symbols. symbol_sound demo_api_env demo_api_world s)
    \<and> (\<forall>n \<in> set (CANONICAL_EXTRAS_NAMES @ TOP_LEVEL_EXTRAS_NAMES). \<exists>s \<in> set demo_symbols. get s ''name'' = Inr (JStr n)
        \<and> get s ''status'' = Inr (JStr ''removed'') \<and> get s ''location'' = Inr JNull \<and> get s ''previous_location'' \<noteq> Inr JNull)"
  by (rule manifest_audited [OF demo_manifest_valid])

end
