(* ===== verification/Spec2Isabelle.thy ===== *)
theory Spec2Isabelle
  imports Histogram HftPhase TailGate P31Tail FixedRingGates TopologyPlan LatencyRunner TopologyRun
    TopologySummary GroupStats ThroughputAB PyJson ClaimV4 P31Followup HighMode P31Throughput LatencyAB
    FrameLayout P32Audit Sweeps E2Claim P31Latency P32Runner P32Evidence ChannelAPI
begin

text \<open>
  The measurement tools of salias, a shared-memory message channel: the Python programs under
  \<open>src/tools\<close> that plan and run benchmarks, audit the evidence they leave, compare two builds and
  decide whether a release gate passes.  A wrong acceptance decision is the failure these tools
  must not have; most properties below say what a passed gate, an accepted log or an appended
  record implies about the raw evidence, for every input.

  The parts and how they interact.  The runners (\<open>run_topology_suite.py\<close>,
  \<open>run_latency_compare.py\<close>) execute client programs and write raw logs and manifests.  The
  analyzers (\<open>summarize.py\<close>, \<open>summarize_tail_ab.py\<close>, \<open>compare_p31_tail.py\<close>,
  \<open>analyze_p31_followup.py\<close>, \<open>compare_throughput_ab.py\<close>, \<open>analyze_claim_v4_ab.py\<close>,
  \<open>compare_high_mode_rates.py\<close>, \<open>compare_p31_throughput.py\<close>, \<open>compare_latency_ab.py\<close>,
  \<open>verify_fixed_ring_gates.py\<close>) read those files back, re-check
  their digests and their arithmetic and apply gates.  \<open>summarize_tail_ab.py\<close> calls
  \<open>summarize.py\<close>, \<open>compare_p31_tail.py\<close> calls both, and \<open>analyze_claim_v4_ab.py\<close> calls the
  integrity checks, the permutation test and the bootstrap of \<open>compare_throughput_ab.py\<close>.
  \<open>p3-p32-multithread.py\<close> runs the matrix whose evidence \<open>analyze_p32_multithread.py\<close> audits; the two are composed.
  \<open>check_channel_api.py\<close> stands alone: it guards the public surface of a release.

  Theories.

  \<^item> \<open>PyFloat\<close>: IEEE binary64 values, rounding to nearest even on exact rationals (\<open>rnd_rat\<close>, with
    a code equation on integers), the operations and comparisons; the locale \<open>rounding\<close> holds
    the laws that rounding satisfies and their consequences.
  \<^item> \<open>PyBase\<close>: the exceptions and the error monad (\<open>py\<close>, \<open>bindE\<close>, \<open>mapE\<close>, \<open>foldE\<close>), dictionaries in
    insertion order, JSON values, numbers as \<open>int\<close> or \<open>float\<close>, strings and paths, grouping by key, and the
    record \<open>world\<close> of the files a program reads.
  \<^item> \<open>PyStats\<close>: sorting, \<open>min\<close>, \<open>max\<close>, and \<open>statistics.median\<close>, \<open>mean\<close>, \<open>stdev\<close>, \<open>quantiles\<close>.
  \<^item> \<open>PyJson\<close>: further idioms on JSON values: sets of hashable values, sorting rows by a key,
    non-blank lines, cgroup counters.
  \<^item> \<open>Histogram\<close>: \<open>bucket_upper\<close>, \<open>percentile\<close>, \<open>check_histogram\<close> and \<open>merge\<close> of \<open>hft_acceptance/summarize.py\<close>;
    abstract view \<open>expand\<close>; merging and quantiles refine the pooled sorted observations.
  \<^item> \<open>HftPhase\<close>: the rest of \<open>summarize.py\<close>: the rows of a phase, the cross-checks, the acceptance of
    a subscriber, the summary of the eight-phase matrix.
  \<^item> \<open>TailGate\<close>: \<open>summarize_tail_ab.py\<close>; \<open>P31Tail\<close>: \<open>compare_p31_tail.py\<close>;
    \<open>FixedRingGates\<close>: \<open>verify_fixed_ring_gates.py\<close>.
  \<^item> \<open>TopologyPlan\<close>, \<open>TopologyRun\<close>, \<open>TopologySummary\<close>: \<open>run_topology_suite.py\<close>.  The plan is the CPU layout,
    the workloads and the schedule of all cases; the run of a case is the step relation
    \<open>run_step\<close> over process states, with the inductive predicate \<open>reachable\<close> of states under every behaviour of the environment;
    the summary groups the rows and computes medians and ranges.
  \<^item> \<open>LatencyRunner\<close>: \<open>run_latency_compare.py\<close>, whose process helpers \<open>TopologyRun\<close> uses.
  \<^item> \<open>GroupStats\<close>, \<open>ThroughputAB\<close>: \<open>compare_throughput_ab.py\<close>, the exact permutation test, the bootstrap, and the
    audit and comparison of two arms.
  \<^item> \<open>ClaimV4\<close>: \<open>analyze_claim_v4_ab.py\<close>; \<open>P31Followup\<close>: \<open>analyze_p31_followup.py\<close>;
    \<open>HighMode\<close>: \<open>compare_high_mode_rates.py\<close>; \<open>P31Throughput\<close>: \<open>compare_p31_throughput.py\<close>, on the arms of
    \<open>ThroughputAB\<close>; \<open>LatencyAB\<close>: \<open>compare_latency_ab.py\<close>.
  \<^item> \<open>FrameLayout\<close>: \<open>analyze_frame_layout.py\<close>; \<open>Sweeps\<close>: \<open>analyze_payload_sweep.py\<close>, \<open>analyze_topology_sweep.py\<close>;
    \<open>E2Claim\<close>: \<open>analyze_e2_claim.py\<close>; \<open>P31Latency\<close>: \<open>compare_p31_latency.py\<close>.
  \<^item> \<open>P32Audit\<close>: \<open>analyze_p32_multithread.py\<close>.  \<open>P32Runner\<close>: the runner \<open>doc/plans/runners/p3-p32-multithread.py\<close>: the frozen schedule, one round, a run
    as a function of what the environment does in each round, and the files it writes as a dictionary (\<open>file_store\<close>).
    \<open>P32Evidence\<close>: a run is the schedule up to its first failed round (\<open>run_outcome\<close>), and the audit of what a complete
    run leaves is, round by round, a verdict on its measurements (\<open>round_verdict\<close>).
  \<^item> \<open>ChannelAPI\<close>: \<open>check_channel_api.py\<close>: the manifest of symbols, the scans for removed names, the compile contract, the documents and the
    freeze document; regular expressions are written as matchers.

  Interfaces.  The locale \<open>rounding\<close> (\<open>PyFloat\<close>) is interpreted on \<open>rnd_rat\<close>; \<open>tally\<close> (\<open>PyBase\<close>), counting into a dictionary, on
  \<open>dict_put\<close>; the locale \<open>loader\<close> (\<open>PyJson\<close>), a function that
  raises or returns a sound value, on the row and round loaders of the audits; the locale \<open>sweep_matrix\<close> (\<open>Sweeps\<close>) on the two sweeps.

  Conventions.  A function that may raise returns \<open>pyexn + 'a\<close>: every \<open>raise\<close>, \<open>assert\<close>,
  \<open>SystemExit\<close> and every exception of an operation the code relies on (a missing key, a
  failed conversion, a division by zero, an overflow) is an \<open>Inl\<close>.  Messages of exceptions are
  kept where a program prints or tests them and shortened elsewhere.  Python's integers are \<open>int\<close>,
  floats are \<open>pyfloat\<close> with NaN and the infinities, and comparisons of an \<open>int\<close> with a \<open>float\<close> are exact, as in
  CPython.  A dict is an association list in insertion order; a JSON document is
  the datatype \<open>json\<close>.

  What is a parameter.  \<open>world\<close> holds the contents of files, the SHA-256 function, the JSON parser, globbing
  and link resolution; \<open>observation\<close> is what the environment does in a round of the P3-2 runner; \<open>api_env\<close> holds the compiler, git and the
  Unicode character classes; \<open>read_row\<close> reads one log line; \<open>pick\<close> and \<open>shuffle_order\<close> are the random draws;
  \<open>libm\<close> holds \<open>erf\<close>, \<open>lgamma\<close>, \<open>exp\<close> and the inverse normal distribution.  The theorems hold for every value of
  these parameters, up to the documented laws a statement names (JSON text that was written reads back); witnesses instantiate them by concrete functions.

  What the lemmas show.  Refinement: merged histograms and quantiles against the pooled
  observations, in one stage or several.  Safety: what an accepted phase, log, manifest, arm, run record, gate
  or comparison implies.  Invariants: a supervised case leaves nothing
  running; result counters balance; a summary partitions its rows.  Bounds: bucket grid,
  p-values, bootstrap and Newcombe intervals, roundings included.  Termination and liveness: the interval of two
  loaded experiments and the comparisons of verified evidence always exist.  Round trips: a fresh summary passes its own audit, arm
  specifications parse back, a refreshed checksum list loads, a written freeze document is accepted.  Composition: the auditor
  accepts what the P3-2 runner writes, up to the measurements themselves.

  Bounds.  No fuel is used: every loop of the modelled code is bounded by its input, and the supervision
  of a process is a step relation.  \<open>isqrt\<close> and \<open>bit_count\<close> terminate by a measure on their argument.  The
  statistics lemmas assume magnitudes (\<open>tame\<close>: 2 to the 1000th, \<open>mild\<close>: 2 to the 990th) far above any measured rate, so that sums
  do not overflow.

  Not modelled.  Rendering of Markdown and JSON reports, argument parsing and printing;
  the process-spawning code of \<open>run_latency_compare.py\<close>;
  the programs that patch and build C++ variants (\<open>build_*.py\<close>, \<open>make_fence_patch_client.py\<close>), that convert perf output
  (\<open>export_*.py\<close>, \<open>render_profiles.py\<close>, \<open>analyze_switches.py\<close>), the remaining analyzers of single
  diagnostic experiments, the other runners under \<open>doc/plans/runners\<close> and the frozen copies of runners under \<open>doc/benchmarks\<close>, the tests,
  and the C++ product itself, which the tools only measure.
\<close>

end
